(* ===== verification/GoPrelude.thy ===== *)
theory GoPrelude
  imports Main "HOL-Library.Sublist" "HOL-Library.List_Lexorder" "HOL-Library.Char_ord"
    "HOL-Library.Product_Lexorder"
begin

text \<open>
  Shared vocabulary of the development: Go errors as values, the parts of Go's
  standard library that kube-ssh uses (package \<^verbatim>\<open>strings\<close>, \<^verbatim>\<open>net.JoinHostPort\<close> and
  \<^verbatim>\<open>net.SplitHostPort\<close>, decimal formatting and parsing, 64-bit integer arithmetic)
  and the generic lemmas on strings, lists and maps that the components share.

  Go strings are byte strings and are modelled by \<^typ>\<open>string\<close>, ordered bytewise (as
  Go orders them).  Case mapping and white space are those of ASCII.  A Go
  \<^verbatim>\<open>map[K]V\<close> is a partial map, a \<^verbatim>\<open>map[K]struct{}\<close> a set.  A \<^verbatim>\<open>time.Time\<close> is the
  number of nanoseconds since the zero time, so that \<^verbatim>\<open>IsZero\<close> is equality with 0, and
  a \<^verbatim>\<open>time.Duration\<close> is its number of nanoseconds.
\<close>

section \<open>Collections of rewrite rules\<close>

named_theorems go_strings \<open>facts on Go's string functions\<close>
named_theorems go_errors \<open>facts on error values and errors.Is\<close>

section \<open>Errors as values\<close>

text \<open>
  An error is a sentinel of the program, an API status error (constructor,
  format string and arguments), a plain \<^verbatim>\<open>fmt.Errorf\<close>, a wrapped error
  (\<^verbatim>\<open>%w\<close>), a Go runtime panic, or an error of code outside the repository.
\<close>

datatype go_error =
    ErrTargetNotProvided
  | ErrAuthnNotProvided
  | ErrAccessNotFound
  | ContextCanceled
  | ContextDeadlineExceeded
  | IoEOF
  | NetErrClosed
  | BadRequest string "string list"
  | Forbidden string "string list"
  | Conflict string "string list"
  | ServiceUnavailable string "string list"
  | NotFound string
  | Errorf string "string list"
  | Wrap string "string list" go_error
  | Panic string
  | External string

type_synonym 'a result = "go_error + 'a"

text \<open>\<^verbatim>\<open>errors.Is\<close>: the error or one it wraps is the given sentinel.\<close>

fun errors_is :: "go_error \<Rightarrow> go_error \<Rightarrow> bool" where
  "errors_is (Wrap m as e) t = (Wrap m as e = t \<or> errors_is e t)"
| "errors_is e t = (e = t)"

definition is_ok :: "'a result \<Rightarrow> bool" where
  "is_ok r = (case r of Inl _ \<Rightarrow> False | Inr _ \<Rightarrow> True)"

definition bind_result :: "'a result \<Rightarrow> ('a \<Rightarrow> 'b result) \<Rightarrow> 'b result" where
  "bind_result r f = (case r of Inl e \<Rightarrow> Inl e | Inr x \<Rightarrow> f x)"

section \<open>Package strings\<close>

abbreviation HasPrefix :: "string \<Rightarrow> string \<Rightarrow> bool" where
  "HasPrefix s p \<equiv> prefix p s"

abbreviation HasSuffix :: "string \<Rightarrow> string \<Rightarrow> bool" where
  "HasSuffix s p \<equiv> suffix p s"

text \<open>\<^verbatim>\<open>strings.Contains\<close> of a one-byte substring.\<close>

definition contains_byte :: "string \<Rightarrow> char \<Rightarrow> bool" where
  "contains_byte s c = (c \<in> set s)"

text \<open>\<^verbatim>\<open>strings.Cut\<close> at the first occurrence of a one-byte separator.\<close>

fun Cut :: "string \<Rightarrow> char \<Rightarrow> string \<times> string \<times> bool" where
  "Cut [] c = ([], [], False)"
| "Cut (x # xs) c =
     (if x = c then ([], xs, True)
      else case Cut xs c of (b, a, found) \<Rightarrow> (x # b, a, found))"

text \<open>\<^verbatim>\<open>strings.Split\<close> with a one-byte separator.\<close>

fun Split :: "string \<Rightarrow> char \<Rightarrow> string list" where
  "Split [] c = [[]]"
| "Split (x # xs) c =
     (if x = c then [] # Split xs c
      else case Split xs c of [] \<Rightarrow> [[x]] | p # ps \<Rightarrow> (x # p) # ps)"

text \<open>\<^verbatim>\<open>strings.Join\<close> with a one-byte separator.\<close>

fun Join :: "string list \<Rightarrow> char \<Rightarrow> string" where
  "Join [] c = []"
| "Join [p] c = p"
| "Join (p # q # ps) c = p @ c # Join (q # ps) c"

text \<open>\<^verbatim>\<open>strings.Index\<close>: the first position of a substring.\<close>

fun Index :: "string \<Rightarrow> string \<Rightarrow> nat option" where
  "Index [] sub = (if sub = [] then Some 0 else None)"
| "Index (x # xs) sub =
     (if prefix sub (x # xs) then Some 0 else map_option Suc (Index xs sub))"

text \<open>\<^verbatim>\<open>strings.IndexByte\<close> and \<^verbatim>\<open>strings.LastIndexByte\<close>.\<close>

fun IndexByte :: "string \<Rightarrow> char \<Rightarrow> nat option" where
  "IndexByte [] c = None"
| "IndexByte (x # xs) c = (if x = c then Some 0 else map_option Suc (IndexByte xs c))"

fun LastIndexByte :: "string \<Rightarrow> char \<Rightarrow> nat option" where
  "LastIndexByte [] c = None"
| "LastIndexByte (x # xs) c =
     (case LastIndexByte xs c of
        Some i \<Rightarrow> Some (Suc i)
      | None \<Rightarrow> if x = c then Some 0 else None)"

definition is_space :: "char \<Rightarrow> bool" where
  "is_space c = (c \<in> {CHR '' '', CHR 0x09, CHR 0x0A, CHR 0x0B, CHR 0x0C, CHR 0x0D})"

definition TrimSpace :: "string \<Rightarrow> string" where
  "TrimSpace s = rev (dropWhile is_space (rev (dropWhile is_space s)))"

definition TrimSuffix :: "string \<Rightarrow> string \<Rightarrow> string" where
  "TrimSuffix s p = (if suffix p s then take (length s - length p) s else s)"

definition TrimPrefix :: "string \<Rightarrow> string \<Rightarrow> string" where
  "TrimPrefix s p = (if prefix p s then drop (length p) s else s)"

definition upper_byte :: "char \<Rightarrow> char" where
  "upper_byte c = (if CHR ''a'' \<le> c \<and> c \<le> CHR ''z'' then char_of (of_char c - 32 :: nat) else c)"

definition lower_byte :: "char \<Rightarrow> char" where
  "lower_byte c = (if CHR ''A'' \<le> c \<and> c \<le> CHR ''Z'' then char_of (of_char c + 32 :: nat) else c)"

definition ToUpper :: "string \<Rightarrow> string" where
  "ToUpper s = map upper_byte s"

definition ToLower :: "string \<Rightarrow> string" where
  "ToLower s = map lower_byte s"

section \<open>Integers\<close>

text \<open>Go's \<^verbatim>\<open>int\<close> and \<^verbatim>\<open>int64\<close>: the arithmetic wraps at 64 bits.\<close>

definition wrap64 :: "int \<Rightarrow> int" where
  "wrap64 x = (x + 2 ^ 63) mod 2 ^ 64 - 2 ^ 63"

definition fits64 :: "int \<Rightarrow> bool" where
  "fits64 x = (- (2 ^ 63) \<le> x \<and> x < 2 ^ 63)"

text \<open>Go's \<^verbatim>\<open>%\<close>: the remainder has the sign of the dividend.\<close>

definition go_rem :: "int \<Rightarrow> int \<Rightarrow> int" where
  "go_rem a b = sgn a * (\<bar>a\<bar> mod \<bar>b\<bar>)"

text \<open>\<^verbatim>\<open>strconv.FormatInt(n, 10)\<close> and \<^verbatim>\<open>strconv.ParseInt(s, 10, 64)\<close>.\<close>

definition digit_char :: "nat \<Rightarrow> char" where
  "digit_char d = char_of (48 + d)"

definition char_digit :: "char \<Rightarrow> nat option" where
  "char_digit c = (let n = of_char c :: nat in if 48 \<le> n \<and> n \<le> 57 then Some (n - 48) else None)"

fun format_nat :: "nat \<Rightarrow> string" where
  "format_nat n = (if n < 10 then [digit_char n] else format_nat (n div 10) @ [digit_char (n mod 10)])"

declare format_nat.simps [simp del]

definition FormatInt :: "int \<Rightarrow> string" where
  "FormatInt i = (if i < 0 then CHR ''-'' # format_nat (nat (- i)) else format_nat (nat i))"

fun parse_digits :: "nat \<Rightarrow> string \<Rightarrow> nat option" where
  "parse_digits acc [] = Some acc"
| "parse_digits acc (c # cs) =
     (case char_digit c of None \<Rightarrow> None | Some d \<Rightarrow> parse_digits (10 * acc + d) cs)"

definition parse_nat :: "string \<Rightarrow> nat option" where
  "parse_nat s = (if s = [] then None else parse_digits 0 s)"

definition ParseInt :: "string \<Rightarrow> int option" where
  "ParseInt s =
     (case s of
        [] \<Rightarrow> None
      | c # cs \<Rightarrow>
          let signed = (c = CHR ''-'' \<or> c = CHR ''+'');
              body = (if signed then cs else s)
          in case parse_nat body of
               None \<Rightarrow> None
             | Some n \<Rightarrow>
                 let v = (if c = CHR ''-'' then - int n else int n)
                 in if fits64 v then Some v else None)"

section \<open>Package net: host and port\<close>

definition JoinHostPort :: "string \<Rightarrow> string \<Rightarrow> string" where
  "JoinHostPort host port =
     (if contains_byte host (CHR '':'') then CHR ''['' # host @ '']:'' @ port
      else host @ CHR '':'' # port)"

definition SplitHostPort :: "string \<Rightarrow> (string \<times> string) result" where
  "SplitHostPort hostport =
     (case LastIndexByte hostport (CHR '':'') of
        None \<Rightarrow> Inl (Errorf ''missing port in address'' [hostport])
      | Some i \<Rightarrow>
          let bracketed = (hd hostport = CHR ''['');
              parsed =
                (if bracketed then
                   (case IndexByte hostport (CHR '']'') of
                      None \<Rightarrow> Inl (Errorf ''missing ']' in address'' [hostport])
                    | Some e \<Rightarrow>
                        if Suc e = length hostport then Inl (Errorf ''missing port in address'' [hostport])
                        else if Suc e = i then Inr (take (e - 1) (drop 1 hostport), 1, Suc e)
                        else if hostport ! Suc e = CHR '':''
                        then Inl (Errorf ''too many colons in address'' [hostport])
                        else Inl (Errorf ''missing port in address'' [hostport]))
                 else if contains_byte (take i hostport) (CHR '':'')
                 then Inl (Errorf ''too many colons in address'' [hostport])
                 else Inr (take i hostport, 0, 0))
          in case parsed of
               Inl e \<Rightarrow> Inl e
             | Inr (host, j, k) \<Rightarrow>
                 if contains_byte (drop j hostport) (CHR ''['')
                 then Inl (Errorf ''unexpected '[' in address'' [hostport])
                 else if contains_byte (drop k hostport) (CHR '']'')
                 then Inl (Errorf ''unexpected ']' in address'' [hostport])
                 else Inr (host, drop (Suc i) hostport))"

section \<open>Lemmas on errors\<close>

lemma errors_is_refl [simp, go_errors]: "errors_is e e"
  by (cases e) auto

lemma is_ok_simps [simp]: "is_ok (Inr x)" "\<not> is_ok (Inl e)"
  by (simp_all add: is_ok_def)

lemma bind_result_simps [simp]:
  "bind_result (Inl e) f = Inl e" "bind_result (Inr x) f = f x"
  by (simp_all add: bind_result_def)

lemma bind_result_Inr_iff:
  "bind_result r f = Inr y \<longleftrightarrow> (\<exists>x. r = Inr x \<and> f x = Inr y)"
  by (cases r) auto

section \<open>Lemmas on strings\<close>

lemma append_sep_eq [go_strings]:
  assumes "c \<notin> set a" "c \<notin> set a'"
  shows "a @ c # b = a' @ c # b' \<longleftrightarrow> a = a' \<and> b = b'"
  using assms
proof (induction a arbitrary: a')
  case Nil then show ?case by (cases a') auto
next
  case (Cons x a) then show ?case by (cases a') auto
qed

lemma append_sep_last_eq [go_strings]:
  assumes "c \<notin> set b" "c \<notin> set b'"
  shows "a @ c # b = a' @ c # b' \<longleftrightarrow> a = a' \<and> b = b'"
proof -
  have "a @ c # b = a' @ c # b' \<longleftrightarrow> rev (a @ c # b) = rev (a' @ c # b')"
    by (simp only: rev_is_rev_conv)
  also have "\<dots> \<longleftrightarrow> rev b @ c # rev a = rev b' @ c # rev a'" by simp
  also have "\<dots> \<longleftrightarrow> rev b = rev b' \<and> rev a = rev a'"
    using assms by (intro append_sep_eq) auto
  finally show ?thesis by auto
qed

lemma Cut_sep [simp]: "c \<notin> set b \<Longrightarrow> Cut (b @ c # a) c = (b, a, True)"
  by (induction b) auto

lemma Cut_absent [simp]: "c \<notin> set s \<Longrightarrow> Cut s c = (s, [], False)"
  by (induction s) auto

lemma Cut_found_iff [go_strings]:
  "Cut s c = (b, a, True) \<longleftrightarrow> s = b @ c # a \<and> c \<notin> set b"
proof (cases "c \<in> set s")
  case True
  then obtain u v where "s = u @ c # v" "c \<notin> set u" by (meson split_list_first)
  then show ?thesis using append_sep_eq[of c u b] by auto
qed auto

lemma Cut_not_found_iff [go_strings]:
  "Cut s c = (b, a, False) \<longleftrightarrow> c \<notin> set s \<and> b = s \<and> a = []"
proof (cases "c \<in> set s")
  case True
  then obtain u v where "s = u @ c # v" "c \<notin> set u" by (meson split_list_first)
  then show ?thesis by auto
qed auto

lemma Split_not_Nil [simp]: "Split s c \<noteq> []"
  by (induction s) (auto split: list.splits)

lemma Join_Cons: "ps \<noteq> [] \<Longrightarrow> Join (p # ps) c = p @ c # Join ps c"
  by (cases ps) auto

lemma Join_Cons_hd: "Join ((x # p) # ps) c = x # Join (p # ps) c"
  by (cases ps) auto

lemma Join_Split [simp, go_strings]: "Join (Split s c) c = s"
  by (induction s) (auto simp: Join_Cons Join_Cons_hd split: list.splits)

lemma Split_sep_free: "p \<in> set (Split s c) \<Longrightarrow> c \<notin> set p"
  by (induction s arbitrary: p) (auto split: list.splits if_splits)

lemma Split_single_iff: "(\<exists>p. Split s c = [p]) \<longleftrightarrow> c \<notin> set s"
proof (induction s)
  case (Cons x xs)
  then show ?case by (cases "Split xs c") (auto split: list.splits)
qed simp

lemma Index_SomeD:
  "Index s sub = Some i \<Longrightarrow> i \<le> length s \<and> prefix sub (drop i s) \<and> (\<forall>j<i. \<not> prefix sub (drop j s))"
proof (induction s arbitrary: i)
  case Nil then show ?case by (auto split: if_splits)
next
  case (Cons x xs)
  show ?case
  proof (cases "prefix sub (x # xs)")
    case True then show ?thesis using Cons.prems by simp
  next
    case False
    then obtain k where k: "i = Suc k" "Index xs sub = Some k" using Cons.prems by auto
    from Cons.IH[OF k(2)] have ih: "k \<le> length xs" "prefix sub (drop k xs)"
      "\<forall>j<k. \<not> prefix sub (drop j xs)" by auto
    have "\<forall>j<Suc k. \<not> prefix sub (drop j (x # xs))"
    proof (intro allI impI)
      fix j assume "j < Suc k"
      then show "\<not> prefix sub (drop j (x # xs))" using ih(3) False by (cases j) auto
    qed
    then show ?thesis using ih k by simp
  qed
qed

lemma Index_None_iff: "Index s sub = None \<longleftrightarrow> (\<forall>j \<le> length s. \<not> prefix sub (drop j s))"
proof (induction s)
  case (Cons x xs)
  show ?case
  proof
    assume none: "Index (x # xs) sub = None"
    then have p: "\<not> prefix sub (x # xs)" "Index xs sub = None" by (auto split: if_splits)
    show "\<forall>j\<le>length (x # xs). \<not> prefix sub (drop j (x # xs))"
    proof (intro allI impI)
      fix j assume "j \<le> length (x # xs)"
      then show "\<not> prefix sub (drop j (x # xs))" using p Cons.IH by (cases j) auto
    qed
  next
    assume all: "\<forall>j\<le>length (x # xs). \<not> prefix sub (drop j (x # xs))"
    from all have "\<not> prefix sub (x # xs)" by (metis drop0 le0)
    moreover have "\<forall>j\<le>length xs. \<not> prefix sub (drop j xs)"
      using all by (metis Suc_le_mono drop_Suc_Cons length_Cons)
    ultimately show "Index (x # xs) sub = None" using Cons.IH by simp
  qed
qed simp

lemma IndexByte_SomeD:
  "IndexByte s c = Some i \<Longrightarrow> i < length s \<and> s ! i = c \<and> c \<notin> set (take i s)"
  by (induction s arbitrary: i) (auto split: if_splits)

lemma IndexByte_sep [simp]: "c \<notin> set a \<Longrightarrow> IndexByte (a @ c # b) c = Some (length a)"
  by (induction a) auto

lemma LastIndexByte_None_iff [simp]: "LastIndexByte s c = None \<longleftrightarrow> c \<notin> set s"
  by (induction s) (auto split: option.splits)

lemma LastIndexByte_sep [simp]: "c \<notin> set b \<Longrightarrow> LastIndexByte (a @ c # b) c = Some (length a)"
proof (induction a)
  case Nil
  then have "LastIndexByte b c = None" by (rule LastIndexByte_None_iff[THEN iffD2])
  then show ?case by (simp del: LastIndexByte_None_iff)
qed simp

lemma LastIndexByte_SomeD:
  "LastIndexByte s c = Some i \<Longrightarrow> s = take i s @ c # drop (Suc i) s \<and> c \<notin> set (drop (Suc i) s)"
proof (induction s arbitrary: i)
  case (Cons x xs)
  then show ?case
    by (cases "LastIndexByte xs c") (auto split: if_splits)
qed simp

section \<open>Lemmas on integers and decimal strings\<close>

lemma wrap64_id [simp]: "fits64 x \<Longrightarrow> wrap64 x = x"
  by (simp add: wrap64_def fits64_def)

lemma fits64_wrap64 [simp]: "fits64 (wrap64 x)"
  by (simp add: wrap64_def fits64_def)

lemma go_rem_nonneg [simp]: "0 \<le> a \<Longrightarrow> 0 < b \<Longrightarrow> go_rem a b = a mod b"
  by (cases "a = 0") (auto simp: go_rem_def)

lemma char_digit_digit_char [simp]: "d < 10 \<Longrightarrow> char_digit (digit_char d) = Some d"
  by (simp add: char_digit_def digit_char_def Let_def)

lemma parse_digits_append:
  "parse_digits acc (xs @ ys) = (case parse_digits acc xs of None \<Rightarrow> None | Some a \<Rightarrow> parse_digits a ys)"
  by (induction xs arbitrary: acc) (auto split: option.splits)

lemma format_nat_not_Nil [simp]: "format_nat n \<noteq> []"
  by (subst format_nat.simps) simp

lemma parse_digits_format_nat: "parse_digits 0 (format_nat n) = Some n"
proof (induction n rule: format_nat.induct)
  case (1 n)
  show ?case
  proof (cases "n < 10")
    case True then show ?thesis by (subst format_nat.simps) simp
  next
    case False
    then show ?thesis using 1 by (subst format_nat.simps) (simp add: parse_digits_append)
  qed
qed

lemma parse_nat_format_nat [simp]: "parse_nat (format_nat n) = Some n"
  by (simp add: parse_nat_def parse_digits_format_nat)

lemma format_nat_inject [simp]: "format_nat m = format_nat n \<longleftrightarrow> m = n"
  by (metis option.inject parse_nat_format_nat)

lemma format_nat_digits: "c \<in> set (format_nat n) \<Longrightarrow> \<exists>d<10. c = digit_char d"
proof (induction n rule: format_nat.induct)
  case (1 n)
  show ?case
  proof (cases "n < 10")
    case True then show ?thesis using 1(2) by (subst (asm) format_nat.simps) auto
  next
    case False
    then have "c \<in> set (format_nat (n div 10)) \<or> c = digit_char (n mod 10)"
      using 1(2) by (subst (asm) format_nat.simps) auto
    then show ?thesis using 1(1)[OF False] by (metis mod_less_divisor zero_less_numeral)
  qed
qed

lemma char_digit_sep [simp]:
  "char_digit (CHR ''-'') = None" "char_digit (CHR ''+'') = None" "char_digit (CHR '':'') = None"
  "char_digit (CHR ''.'') = None" "char_digit (CHR ''['') = None" "char_digit (CHR '']'') = None"
  "char_digit (CHR ''/'') = None" "char_digit (CHR ''~'') = None"
  by (simp_all add: char_digit_def)

lemma format_nat_no_sep:
  assumes "char_digit c = None"
  shows "c \<notin> set (format_nat n)"
proof
  assume "c \<in> set (format_nat n)"
  then obtain d where "d < 10" "c = digit_char d" using format_nat_digits by blast
  then show False using assms by simp
qed

lemma ParseInt_FormatInt [simp]:
  assumes "fits64 i"
  shows "ParseInt (FormatInt i) = Some i"
proof (cases "i < 0")
  case True
  then show ?thesis using assms by (simp add: ParseInt_def FormatInt_def Let_def)
next
  case False
  obtain c cs where f: "format_nat (nat i) = c # cs" by (cases "format_nat (nat i)") auto
  have "c \<in> set (format_nat (nat i))" by (simp add: f)
  then have "char_digit c \<noteq> None" using format_nat_no_sep by blast
  then have "c \<noteq> CHR ''-''" "c \<noteq> CHR ''+''" by auto
  then show ?thesis
    using False assms parse_nat_format_nat[of "nat i"] by (simp add: ParseInt_def FormatInt_def f Let_def)
qed

section \<open>Lemmas on host and port\<close>

lemma SplitHostPort_JoinHostPort:
  assumes h: "CHR ''['' \<notin> set host" "CHR '']'' \<notin> set host"
    and p: "CHR '':'' \<notin> set port" "CHR ''['' \<notin> set port" "CHR '']'' \<notin> set port"
  shows "SplitHostPort (JoinHostPort host port) = Inr (host, port)"
proof (cases "CHR '':'' \<in> set host")
  case True
  let ?s = "(CHR ''['' # host @ [CHR '']'']) @ CHR '':'' # port"
  have j: "JoinHostPort host port = ?s" using True by (simp add: JoinHostPort_def contains_byte_def)
  have l: "LastIndexByte ?s (CHR '':'') = Some (length (CHR ''['' # host @ [CHR '']'']))"
    using p(1) by (rule LastIndexByte_sep)
  have i: "IndexByte ?s (CHR '']'') = Some (Suc (length host))"
    using IndexByte_sep[of "CHR '']''" "CHR ''['' # host" "CHR '':'' # port"] h by simp
  show ?thesis
    using h p unfolding j SplitHostPort_def l by (simp add: i[simplified] contains_byte_def)
next
  case False
  have j: "JoinHostPort host port = host @ CHR '':'' # port"
    using False by (simp add: JoinHostPort_def contains_byte_def)
  have "hd (host @ CHR '':'' # port) \<noteq> CHR ''[''" using h by (cases host) auto
  then show ?thesis using False h p unfolding j SplitHostPort_def by (simp add: contains_byte_def)
qed

section \<open>Lemmas on lists\<close>

lemma find_None_iff_filter: "find P xs = None \<longleftrightarrow> filter P xs = []"
  by (induction xs) auto

lemma find_SomeD: "find P xs = Some x \<Longrightarrow> x \<in> set xs \<and> P x"
  by (induction xs) (auto split: if_splits)

end
