(* ===== verification/Wildcard.thy ===== *)
theory Wildcard
  imports GoPrelude
begin

text \<open>
  Package \<^verbatim>\<open>wildcard\<close> (\<^verbatim>\<open>pkg/wildcard/pattern.go\<close>): the asterisk matching behind every
  allow list of the gateway.  \<^verbatim>\<open>Match\<close> is the program's single left-to-right pass over
  the parts between asterisks; \<^verbatim>\<open>glob\<close> is the reference semantics (an asterisk stands
  for any sequence of bytes), and the two are proved equal.
\<close>

section \<open>The code\<close>

text \<open>The loop over the parts between the first and the last one.\<close>

fun match_middle :: "string list \<Rightarrow> string \<Rightarrow> string option" where
  "match_middle [] rest = Some rest"
| "match_middle (part # ps) rest =
     (if part = [] then match_middle ps rest
      else case Index rest part of
             None \<Rightarrow> None
           | Some idx \<Rightarrow> match_middle ps (drop (idx + length part) rest))"

definition Match :: "string \<Rightarrow> string \<Rightarrow> bool" where
  "Match pattern v =
     (if pattern = v \<or> pattern = ''*'' then True
      else if \<not> contains_byte pattern (CHR ''*'') then False
      else
        let parts = Split pattern (CHR ''*'')
        in if hd parts \<noteq> [] \<and> \<not> HasPrefix v (hd parts) then False
           else case match_middle (butlast (tl parts)) (drop (length (hd parts)) v) of
                  None \<Rightarrow> False
                | Some rest \<Rightarrow> last parts = [] \<or> HasSuffix rest (last parts))"

fun MatchAny :: "string list \<Rightarrow> string \<Rightarrow> bool" where
  "MatchAny [] v = False"
| "MatchAny (candidate # patterns) v = (if Match candidate v then True else MatchAny patterns v)"

section \<open>The reference semantics\<close>

fun glob :: "string \<Rightarrow> string \<Rightarrow> bool" where
  "glob [] v = (v = [])"
| "glob (c # p) v =
     (if c = CHR ''*'' then glob p v \<or> (case v of [] \<Rightarrow> False | _ # v' \<Rightarrow> glob (c # p) v')
      else (case v of [] \<Rightarrow> False | d # v' \<Rightarrow> c = d \<and> glob p v'))"

section \<open>Lemmas\<close>

lemma append_split_Cons:
  "(\<exists>u w. x # v = u @ w \<and> Q w) \<longleftrightarrow> Q (x # v) \<or> (\<exists>u w. v = u @ w \<and> Q w)"
proof
  assume "\<exists>u w. x # v = u @ w \<and> Q w"
  then obtain u w where "x # v = u @ w" "Q w" by blast
  then show "Q (x # v) \<or> (\<exists>u w. v = u @ w \<and> Q w)" by (cases u) auto
next
  assume "Q (x # v) \<or> (\<exists>u w. v = u @ w \<and> Q w)"
  then show "\<exists>u w. x # v = u @ w \<and> Q w" by (metis append_Cons append_Nil)
qed

lemma glob_star_iff: "glob (CHR ''*'' # p) v \<longleftrightarrow> (\<exists>u w. v = u @ w \<and> glob p w)"
  by (induction v) (simp_all add: append_split_Cons)

declare glob.simps(2) [simp del]

lemma glob_byte:
  "c \<noteq> CHR ''*'' \<Longrightarrow> glob (c # p) v \<longleftrightarrow> (\<exists>w. v = c # w \<and> glob p w)"
  by (cases v) (auto simp: glob.simps(2))

lemma glob_literal_append:
  "CHR ''*'' \<notin> set a \<Longrightarrow> glob (a @ p) v \<longleftrightarrow> (\<exists>w. v = a @ w \<and> glob p w)"
  by (induction a arbitrary: v) (auto simp: glob_byte)

lemma glob_literal: "CHR ''*'' \<notin> set a \<Longrightarrow> glob a v \<longleftrightarrow> v = a"
  using glob_literal_append[of a "[]" v] by simp

lemma glob_star_mono:
  assumes "glob (CHR ''*'' # p) w"
  shows "glob (CHR ''*'' # p) (u @ w)"
proof -
  obtain x y where "w = x @ y" "glob p y" using assms unfolding glob_star_iff by blast
  then have "u @ w = (u @ x) @ y" "glob p y" by simp_all
  then show ?thesis unfolding glob_star_iff by blast
qed

lemma glob_star_literal_suffix:
  "CHR ''*'' \<notin> set a \<Longrightarrow> glob (CHR ''*'' # a) v \<longleftrightarrow> suffix a v"
  by (auto simp: glob_star_iff glob_literal suffix_def)

text \<open>
  The leftmost occurrence of a part is the best one: whatever matches after a
  later occurrence, behind an asterisk, also matches after the first.
\<close>

lemma glob_star_part:
  assumes a: "CHR ''*'' \<notin> set a"
  shows "glob (CHR ''*'' # a @ CHR ''*'' # p) v \<longleftrightarrow>
    (case Index v a of None \<Rightarrow> False | Some i \<Rightarrow> glob (CHR ''*'' # p) (drop (i + length a) v))"
    (is "?l \<longleftrightarrow> ?r")
proof
  assume ?l
  then obtain u w where v: "v = u @ a @ w" and w: "glob (CHR ''*'' # p) w"
    unfolding glob_star_iff[of "a @ _"] glob_literal_append[OF a] by blast
  have pre: "prefix a (drop (length u) v)" by (simp add: v)
  moreover have "length u \<le> length v" by (simp add: v)
  ultimately have "Index v a \<noteq> None" unfolding Index_None_iff by blast
  then obtain i where i: "Index v a = Some i" by blast
  have "i \<le> length u" using Index_SomeD[OF i] pre by (meson not_le)
  then have "drop (i + length a) v = drop (i + length a) (u @ a) @ w" by (simp add: v)
  then have "glob (CHR ''*'' # p) (drop (i + length a) v)" using glob_star_mono[OF w, of "drop (i + length a) (u @ a)"] by (simp only:)
  then show ?r using i by simp
next
  assume ?r
  then obtain i where i: "Index v a = Some i" and g: "glob (CHR ''*'' # p) (drop (i + length a) v)"
    by (auto split: option.splits)
  from Index_SomeD[OF i] obtain w where w: "drop i v = a @ w" by (auto simp: prefix_def)
  then have w': "w = drop (i + length a) v" by (metis add.commute append_eq_conv_conj drop_drop)
  have "v = take i v @ a @ w" using w by (metis append_take_drop_id)
  moreover have "glob (CHR ''*'' # p) w" using g w' by simp
  then have "glob (a @ CHR ''*'' # p) (a @ w)" by (subst glob_literal_append[OF a]) simp
  ultimately show ?l using glob_star_iff by blast
qed

lemma glob_star_star: "glob (CHR ''*'' # CHR ''*'' # p) v \<longleftrightarrow> glob (CHR ''*'' # p) v"
proof
  assume "glob (CHR ''*'' # CHR ''*'' # p) v"
  then obtain u w where "v = u @ w" "glob (CHR ''*'' # p) w"
    unfolding glob_star_iff[of "_ # p"] by blast
  then show "glob (CHR ''*'' # p) v" using glob_star_mono by simp
next
  assume "glob (CHR ''*'' # p) v"
  moreover have "v = [] @ v" by simp
  ultimately show "glob (CHR ''*'' # CHR ''*'' # p) v"
    unfolding glob_star_iff[of "_ # p"] by blast
qed

lemma match_middle_glob:
  assumes "\<forall>a \<in> set ps \<union> {l}. CHR ''*'' \<notin> set a"
  shows "glob (CHR ''*'' # Join (ps @ [l]) (CHR ''*'')) v \<longleftrightarrow>
    (case match_middle ps v of None \<Rightarrow> False | Some rest \<Rightarrow> suffix l rest)"
  using assms
proof (induction ps v rule: match_middle.induct)
  case (1 rest)
  then show ?case by (simp add: glob_star_literal_suffix)
next
  case (2 part ps rest)
  have star: "CHR ''*'' \<notin> set part" using 2(3) by simp
  have j: "Join ((part # ps) @ [l]) (CHR ''*'') = part @ CHR ''*'' # Join (ps @ [l]) (CHR ''*'')"
    by (simp add: Join_Cons)
  show ?case
  proof (cases "part = []")
    case True
    then show ?thesis using 2 unfolding j by (simp add: glob_star_star)
  next
    case False
    then have "glob (CHR ''*'' # Join ((part # ps) @ [l]) (CHR ''*'')) rest \<longleftrightarrow>
      (case Index rest part of None \<Rightarrow> False
       | Some i \<Rightarrow> case match_middle ps (drop (i + length part) rest) of
           None \<Rightarrow> False | Some r \<Rightarrow> suffix l r)"
      using 2(2,3) unfolding j glob_star_part[OF star] by (simp split: option.split)
    then show ?thesis using False by (simp split: option.split)
  qed
qed

lemma Split_shape:
  assumes "contains_byte s c"
  shows "Split s c = hd (Split s c) # butlast (tl (Split s c)) @ [last (Split s c)]"
proof -
  have "\<nexists>p. Split s c = [p]" using assms Split_single_iff[of s c] by (simp add: contains_byte_def)
  then have "tl (Split s c) \<noteq> []" by (metis Split_not_Nil list.collapse)
  then show ?thesis by (metis Split_not_Nil append_butlast_last_id last_tl list.collapse)
qed

lemma glob_refl: "glob p p"
proof (induction p)
  case (Cons c p)
  show ?case
  proof (cases "c = CHR ''*''")
    case True
    have "c # p = [c] @ p" by simp
    then show ?thesis using Cons.IH True glob_star_iff by blast
  next
    case False
    then show ?thesis using Cons.IH by (simp add: glob_byte)
  qed
qed simp

lemma Match_glob_star:
  assumes star: "contains_byte pattern (CHR ''*'')" and ne: "pattern \<noteq> v" "pattern \<noteq> ''*''"
  shows "Match pattern v = glob pattern v"
proof -
  define h m l where "h = hd (Split pattern (CHR ''*''))"
    and "m = butlast (tl (Split pattern (CHR ''*'')))" and "l = last (Split pattern (CHR ''*''))"
  have sp: "Split pattern (CHR ''*'') = h # m @ [l]"
    using Split_shape[OF star] by (simp add: h_def m_def l_def)
  then have free: "\<forall>a \<in> {h, l} \<union> set m. CHR ''*'' \<notin> set a"
    using Split_sep_free[of _ pattern "CHR ''*''"] by auto
  have pat: "pattern = h @ CHR ''*'' # Join (m @ [l]) (CHR ''*'')"
    using Join_Split[of pattern "CHR ''*''"] unfolding sp by (simp add: Join_Cons)
  have "glob pattern v \<longleftrightarrow> prefix h v \<and> glob (CHR ''*'' # Join (m @ [l]) (CHR ''*'')) (drop (length h) v)"
    unfolding pat by (subst glob_literal_append) (use free in \<open>auto simp: prefix_def\<close>)
  also have "\<dots> \<longleftrightarrow> prefix h v \<and> (case match_middle m (drop (length h) v) of
      None \<Rightarrow> False | Some rest \<Rightarrow> suffix l rest)"
    using free by (subst match_middle_glob) auto
  also have "\<dots> \<longleftrightarrow> Match pattern v"
    using star ne sp unfolding Match_def by (auto simp: Let_def split: option.splits)
  finally show ?thesis by simp
qed

section \<open>Properties\<close>

text \<open>
  C31. The matcher of \<^verbatim>\<open>pkg/wildcard/pattern.go\<close>, a single greedy pass with
  \<^verbatim>\<open>strings.Index\<close> over the parts between the asterisks, decides exactly the
  reference semantics in which every asterisk stands for an arbitrary, possibly
  empty, sequence of bytes and every other byte for itself.
\<close>

theorem Match_is_glob: "Match pattern v = glob pattern v"
proof (cases "pattern = v \<or> pattern = ''*''")
  case True
  then have "glob pattern v" using glob_refl[of v] glob_star_literal_suffix[of "[]" v] by auto
  then show ?thesis using True by (simp add: Match_def)
next
  case ne: False
  show ?thesis
  proof (cases "contains_byte pattern (CHR ''*'')")
    case True then show ?thesis using ne by (intro Match_glob_star) auto
  next
    case False
    then show ?thesis using ne by (auto simp: Match_def contains_byte_def glob_literal)
  qed
qed

end
