(* ===== verification/Chains.thy ===== *)
theory Chains
  imports GoPrelude
begin

text \<open>
  The contract shared by the program's three chains of responsibility
  (\<^verbatim>\<open>authn.Chain\<close>, \<^verbatim>\<open>target.Chain\<close> and \<^verbatim>\<open>authz.Chain\<close>): handlers are tried in order, a handler that
  passes lets the next one try, the first one that does not pass decides.  Handlers may
  change state while they pass; \<^verbatim>\<open>nxt\<close> says what the next handler sees.
\<close>

fun thread_through :: "('i \<Rightarrow> 'r \<Rightarrow> 'i) \<Rightarrow> ('i \<Rightarrow> 'r) list \<Rightarrow> 'i \<Rightarrow> 'i" where
  "thread_through nxt [] i = i"
| "thread_through nxt (f # fs) i = thread_through nxt fs (nxt i (f i))"

fun all_pass :: "('r \<Rightarrow> bool) \<Rightarrow> ('i \<Rightarrow> 'r \<Rightarrow> 'i) \<Rightarrow> ('i \<Rightarrow> 'r) list \<Rightarrow> 'i \<Rightarrow> bool" where
  "all_pass pass nxt [] i = True"
| "all_pass pass nxt (f # fs) i = (pass (f i) \<and> all_pass pass nxt fs (nxt i (f i)))"

lemma all_pass_stateless: "all_pass pass (\<lambda>i _. i) fs i \<longleftrightarrow> (\<forall>f\<in>set fs. pass (f i))"
  by (induction fs) auto

lemma thread_through_stateless [simp]: "thread_through (\<lambda>i _. i) fs i = i"
  by (induction fs) auto

locale first_decisive =
  fixes run :: "('i \<Rightarrow> 'r) list \<Rightarrow> 'i \<Rightarrow> 'r"
    and pass :: "'r \<Rightarrow> bool"
    and nxt :: "'i \<Rightarrow> 'r \<Rightarrow> 'i"
  assumes run_Nil: "pass (run [] i)"
    and run_decided: "\<not> pass (f i) \<Longrightarrow> run (f # fs) i = f i"
    and run_later: "pass (f i) \<Longrightarrow> \<not> pass (run fs (nxt i (f i))) \<Longrightarrow>
      run (f # fs) i = run fs (nxt i (f i))"
    and run_none: "pass (f i) \<Longrightarrow> pass (run fs (nxt i (f i))) \<Longrightarrow> pass (run (f # fs) i)"
begin

lemma pass_run_iff: "pass (run fs i) \<longleftrightarrow> all_pass pass nxt fs i"
proof (induction fs arbitrary: i)
  case Nil then show ?case by (simp add: run_Nil)
next
  case (Cons f fs)
  show ?case
  proof (cases "pass (f i)")
    case True
    then have "pass (run (f # fs) i) \<longleftrightarrow> pass (run fs (nxt i (f i)))"
      using run_later[of f i fs] run_none[of f i fs] by fastforce
    then show ?thesis using True Cons.IH by simp
  next
    case False
    then have "run (f # fs) i = f i" by (rule run_decided)
    then show ?thesis using False by (simp only: all_pass.simps) simp
  qed
qed

text \<open>The answer of a chain that decides is that of the first handler that does not pass.\<close>

lemma run_first:
  assumes "all_pass pass nxt pre i" and "\<not> pass (f (thread_through nxt pre i))"
  shows "run (pre @ f # post) i = f (thread_through nxt pre i)"
  using assms
proof (induction pre arbitrary: i)
  case Nil then show ?case using run_decided by simp
next
  case (Cons g pre)
  then have "run (pre @ f # post) (nxt i (g i)) = f (thread_through nxt (g # pre) i)" by simp
  moreover have "\<not> pass (f (thread_through nxt (g # pre) i))" using Cons.prems(2) .
  ultimately show ?case using Cons.prems(1) run_later[of g i "pre @ f # post"] by simp
qed

text \<open>A chain in front of another decides whenever it can; handlers behind it are not asked.\<close>

lemma run_prefix_decides:
  assumes "\<not> pass (run fs i)"
  shows "run (fs @ gs) i = run fs i"
  using assms
proof (induction fs arbitrary: i)
  case Nil then show ?case using run_Nil by simp
next
  case (Cons f fs)
  show ?case
  proof (cases "pass (f i)")
    case False then show ?thesis using run_decided by simp
  next
    case True
    then have dec: "\<not> pass (run fs (nxt i (f i)))" using Cons.prems run_none by blast
    then have "run (fs @ gs) (nxt i (f i)) = run fs (nxt i (f i))" by (rule Cons.IH)
    then show ?thesis using True dec run_later[of f i] by simp
  qed
qed

lemma run_decided_first:
  assumes "\<not> pass (run fs i)"
  shows "\<exists>pre f post. fs = pre @ f # post \<and> all_pass pass nxt pre i \<and>
    \<not> pass (f (thread_through nxt pre i)) \<and> run fs i = f (thread_through nxt pre i)"
  using assms
proof (induction fs arbitrary: i)
  case Nil then show ?case using run_Nil by simp
next
  case (Cons f fs)
  show ?case
  proof (cases "pass (f i)")
    case False
    then have "f # fs = [] @ f # fs \<and> all_pass pass nxt [] i \<and> \<not> pass (f (thread_through nxt [] i)) \<and>
      run (f # fs) i = f (thread_through nxt [] i)" using run_decided by simp
    then show ?thesis by blast
  next
    case True
    then have dec: "\<not> pass (run fs (nxt i (f i)))" using Cons.prems run_none by blast
    from Cons.IH[OF this] obtain pre g post where g: "fs = pre @ g # post"
      "all_pass pass nxt pre (nxt i (f i))" "\<not> pass (g (thread_through nxt pre (nxt i (f i))))"
      "run fs (nxt i (f i)) = g (thread_through nxt pre (nxt i (f i)))" by blast
    then have "f # fs = (f # pre) @ g # post \<and> all_pass pass nxt (f # pre) i \<and>
      \<not> pass (g (thread_through nxt (f # pre) i)) \<and>
      run (f # fs) i = g (thread_through nxt (f # pre) i)" using True run_later dec by simp
    then show ?thesis by blast
  qed
qed

end

end
