(* ===== verification/AccessApi.thy ===== *)
theory AccessApi
  imports GoPrelude
begin

text \<open>
  The data the gateway works on: the \<^verbatim>\<open>Access\<close> custom resource of
  \<^verbatim>\<open>apis/ssh/v1/access_types.go\<close>, field by field, and the fields of the Kubernetes core types
  (Pod, Secret, ObjectMeta, Condition) that the program reads.  A Go pointer field is an
  option, a \<^verbatim>\<open>*metav1.Duration\<close> an optional number of nanoseconds, an enumerated string type
  is a string (the code has a default branch for values outside the enumeration), a
  \<^verbatim>\<open>map[string]string\<close> that the code iterates over is an association list.  For every
  struct \<^verbatim>\<open>zero_X\<close> is its Go zero value.
\<close>

section \<open>Kubernetes core types\<close>

record ObjectMeta =
  m_Namespace :: string
  m_Name :: string
  m_UID :: string
  m_Labels :: "string \<rightharpoonup> string"
  m_Annotations :: "string \<rightharpoonup> string"
  m_Generation :: int
  m_CreationTimestamp :: int
  m_DeletionTimestamp :: "int option"

definition zero_ObjectMeta :: ObjectMeta where
  "zero_ObjectMeta = \<lparr> m_Namespace = [], m_Name = [], m_UID = [], m_Labels = Map.empty,
     m_Annotations = Map.empty, m_Generation = 0, m_CreationTimestamp = 0,
     m_DeletionTimestamp = None \<rparr>"

record PodCondition =
  pc_Type :: string
  pc_Status :: string

record Pod =
  pod_Meta :: ObjectMeta
  pod_Containers :: "string list"
  pod_NodeName :: string
  pod_Phase :: string
  pod_HostIP :: string
  pod_Conditions :: "PodCondition list"

abbreviation pod_Namespace :: "Pod \<Rightarrow> string" where "pod_Namespace p \<equiv> m_Namespace (pod_Meta p)"
abbreviation pod_Name :: "Pod \<Rightarrow> string" where "pod_Name p \<equiv> m_Name (pod_Meta p)"
abbreviation pod_UID :: "Pod \<Rightarrow> string" where "pod_UID p \<equiv> m_UID (pod_Meta p)"

definition zero_Pod :: Pod where
  "zero_Pod = \<lparr> pod_Meta = zero_ObjectMeta, pod_Containers = [], pod_NodeName = [],
     pod_Phase = [], pod_HostIP = [], pod_Conditions = [] \<rparr>"

record Secret =
  sec_Namespace :: string
  sec_Name :: string
  sec_Data :: "string \<rightharpoonup> string"

text \<open>A user-visible message: a format string with its arguments, or the text of an error.\<close>

datatype Message = Msg string "string list" | ErrorText go_error

record Condition =
  con_Type :: string
  con_Status :: string
  con_ObservedGeneration :: int
  con_LastTransitionTime :: int
  con_Reason :: string
  con_Message :: Message

section \<open>The Access resource\<close>

record LocalSecretKeyRef =
  ref_Name :: string
  ref_Key :: string

type_synonym Capability = string

abbreviation CapabilityShell :: Capability where "CapabilityShell \<equiv> ''shell''"
abbreviation CapabilityExec :: Capability where "CapabilityExec \<equiv> ''exec''"
abbreviation CapabilitySCP :: Capability where "CapabilitySCP \<equiv> ''scp''"
abbreviation CapabilitySFTP :: Capability where "CapabilitySFTP \<equiv> ''sftp''"
abbreviation CapabilityLocalForward :: Capability where "CapabilityLocalForward \<equiv> ''local_forward''"
abbreviation CapabilityRemoteForward :: Capability where "CapabilityRemoteForward \<equiv> ''remote_forward''"
abbreviation CapabilityAgentForward :: Capability where "CapabilityAgentForward \<equiv> ''agent_forward''"
abbreviation CapabilitySSHExtension :: Capability where "CapabilitySSHExtension \<equiv> ''ssh_extension''"

record LocalForwardPolicy =
  lfp_AllowDestinations :: "string list"

record RemoteForwardPolicy =
  rfp_AllowBinds :: "string list"

record CapabilityPolicy =
  cp_Allow :: "Capability list"
  cp_LocalForward :: "LocalForwardPolicy option"
  cp_RemoteForward :: "RemoteForwardPolicy option"

definition zero_CapabilityPolicy :: CapabilityPolicy where
  "zero_CapabilityPolicy = \<lparr> cp_Allow = [], cp_LocalForward = None, cp_RemoteForward = None \<rparr>"

record AccessCredential =
  cred_Username :: string
  cred_UID :: string
  cred_Groups :: "string list"
  cred_Extra :: "string \<rightharpoonup> string list"
  cred_Passwords :: "string list"
  cred_PasswordsFrom :: "LocalSecretKeyRef list"
  cred_PublicKeys :: "string list"
  cred_PublicKeysFrom :: "LocalSecretKeyRef list"
  cred_Containers :: "string list"
  cred_Capabilities :: CapabilityPolicy

definition zero_AccessCredential :: AccessCredential where
  "zero_AccessCredential = \<lparr> cred_Username = [], cred_UID = [], cred_Groups = [],
     cred_Extra = Map.empty, cred_Passwords = [], cred_PasswordsFrom = [], cred_PublicKeys = [],
     cred_PublicKeysFrom = [], cred_Containers = [], cred_Capabilities = zero_CapabilityPolicy \<rparr>"

record SessionPolicy =
  sp_DefaultShell :: string
  sp_EnvAllowlist :: "string list option"
  sp_IdleTimeout :: "int option"
  sp_MaxDuration :: "int option"

definition zero_SessionPolicy :: SessionPolicy where
  "zero_SessionPolicy = \<lparr> sp_DefaultShell = [], sp_EnvAllowlist = None, sp_IdleTimeout = None,
     sp_MaxDuration = None \<rparr>"

type_synonym AccessSessionAffinityType = string

abbreviation AccessSessionAffinityTypeUser :: string where "AccessSessionAffinityTypeUser \<equiv> ''User''"
abbreviation AccessSessionAffinityTypeCredential :: string where "AccessSessionAffinityTypeCredential \<equiv> ''Credential''"
abbreviation AccessSessionAffinityTypeSourceIP :: string where "AccessSessionAffinityTypeSourceIP \<equiv> ''SourceIP''"
abbreviation AccessSessionAffinityTypeSSHUser :: string where "AccessSessionAffinityTypeSSHUser \<equiv> ''SSHUser''"

record AccessSessionAffinity =
  aff_Type :: AccessSessionAffinityType
  aff_TimeoutSeconds :: "int option"

record AccessStrategyWeight =
  sw_Selector :: "(string \<times> string) list"
  sw_Weight :: int

type_synonym AccessStrategyType = string

abbreviation AccessStrategyTypeRandom :: string where "AccessStrategyTypeRandom \<equiv> ''Random''"
abbreviation AccessStrategyTypeRoundRobin :: string where "AccessStrategyTypeRoundRobin \<equiv> ''RoundRobin''"
abbreviation AccessStrategyTypeLeastConnections :: string where "AccessStrategyTypeLeastConnections \<equiv> ''LeastConnections''"
abbreviation AccessStrategyTypeNewest :: string where "AccessStrategyTypeNewest \<equiv> ''Newest''"
abbreviation AccessStrategyTypeOldest :: string where "AccessStrategyTypeOldest \<equiv> ''Oldest''"

record AccessStrategy =
  strat_Type :: AccessStrategyType
  strat_Weights :: "AccessStrategyWeight list"
  strat_SessionAffinity :: "AccessSessionAffinity option"

record AccessEndpoint =
  ep_Name :: string
  ep_Address :: string
  ep_Port :: int
  ep_Username :: string
  ep_Weight :: "int option"
  ep_PrivateKeys :: "string list"
  ep_PrivateKeysFrom :: "LocalSecretKeyRef list"
  ep_Passwords :: "string list"
  ep_PasswordsFrom :: "LocalSecretKeyRef list"
  ep_PublicKeys :: "string list"
  ep_PublicKeysFrom :: "LocalSecretKeyRef list"
  ep_InsecureSkipVerification :: bool

definition zero_AccessEndpoint :: AccessEndpoint where
  "zero_AccessEndpoint = \<lparr> ep_Name = [], ep_Address = [], ep_Port = 0, ep_Username = [],
     ep_Weight = None, ep_PrivateKeys = [], ep_PrivateKeysFrom = [], ep_Passwords = [],
     ep_PasswordsFrom = [], ep_PublicKeys = [], ep_PublicKeysFrom = [],
     ep_InsecureSkipVerification = False \<rparr>"

type_synonym AccessType = string

abbreviation AccessTypePod :: AccessType where "AccessTypePod \<equiv> ''Pod''"
abbreviation AccessTypeExternal :: AccessType where "AccessTypeExternal \<equiv> ''External''"

record AccessSpec =
  spec_GatewayClassName :: "string option"
  spec_Type :: AccessType
  spec_Selector :: "(string \<times> string) list"
  spec_Endpoints :: "AccessEndpoint list"
  spec_Strategy :: "AccessStrategy option"
  spec_Session :: "SessionPolicy option"
  spec_Containers :: "string list"
  spec_Credentials :: "AccessCredential list"

definition zero_AccessSpec :: AccessSpec where
  "zero_AccessSpec = \<lparr> spec_GatewayClassName = None, spec_Type = [], spec_Selector = [],
     spec_Endpoints = [], spec_Strategy = None, spec_Session = None, spec_Containers = [],
     spec_Credentials = [] \<rparr>"

record AccessStatusEndpoint =
  se_Address :: string
  se_Username :: string

record AccessStatus =
  st_ObservedGeneration :: int
  st_Endpoints :: "AccessStatusEndpoint list"
  st_Conditions :: "Condition list"

definition zero_AccessStatus :: AccessStatus where
  "zero_AccessStatus = \<lparr> st_ObservedGeneration = 0, st_Endpoints = [], st_Conditions = [] \<rparr>"

record Access =
  acc_Meta :: ObjectMeta
  acc_Spec :: AccessSpec
  acc_Status :: AccessStatus

abbreviation acc_Namespace :: "Access \<Rightarrow> string" where "acc_Namespace a \<equiv> m_Namespace (acc_Meta a)"
abbreviation acc_Name :: "Access \<Rightarrow> string" where "acc_Name a \<equiv> m_Name (acc_Meta a)"
abbreviation acc_Generation :: "Access \<Rightarrow> int" where "acc_Generation a \<equiv> m_Generation (acc_Meta a)"

definition zero_Access :: Access where
  "zero_Access = \<lparr> acc_Meta = zero_ObjectMeta, acc_Spec = zero_AccessSpec,
     acc_Status = zero_AccessStatus \<rparr>"

abbreviation AccessConditionValid :: string where "AccessConditionValid \<equiv> ''Valid''"
abbreviation AccessConditionReady :: string where "AccessConditionReady \<equiv> ''Ready''"

lemmas zero_values = zero_ObjectMeta_def zero_Pod_def zero_CapabilityPolicy_def
  zero_AccessCredential_def zero_SessionPolicy_def zero_AccessEndpoint_def zero_AccessSpec_def
  zero_AccessStatus_def zero_Access_def

end
