(* ===== verification/Targets.thy ===== *)
theory Targets
  imports Chains AccessApi
begin

text \<open>
  Package \<^verbatim>\<open>target\<close> (\<^verbatim>\<open>pkg/target/target.go\<close>) and package \<^verbatim>\<open>podtarget\<close>
  (\<^verbatim>\<open>pkg/podtarget/target.go\<close>, \<^verbatim>\<open>resolver.go\<close>): target locators, the resolver chain, resolution by
  authentication hints and by user name, and the binding of a logical Pod target to one
  live Pod and one container.  A resolver is a state transformer, because the Access
  resolver counts connections; a resolver without state returns it unchanged.
\<close>

section \<open>Package target\<close>

abbreviation KindPod :: string where "KindPod \<equiv> ''kube''"
abbreviation KindExternalSSH :: string where "KindExternalSSH \<equiv> ''ssh''"

record TargetOption =
  opt_Key :: string
  opt_Value :: string

record Target =
  t_Kind :: string
  t_Options :: "TargetOption list"
  t_Runtime :: "string \<rightharpoonup> string"

record Hint =
  hint_Kind :: string
  hint_Options :: "TargetOption list"
  hint_Aliases :: "string list"

record ResolveInput =
  ri_SSHUser :: string
  ri_UserName :: string
  ri_AuthExtra :: "string \<rightharpoonup> string list"
  ri_SourceIP :: string
  ri_Hints :: "Hint list"

text \<open>Reading a missing key of a Go map gives the zero value.\<close>

definition map_get :: "(string \<rightharpoonup> string) \<Rightarrow> string \<Rightarrow> string" where
  "map_get m k = (case m k of None \<Rightarrow> [] | Some v \<Rightarrow> v)"

definition extra_get :: "(string \<rightharpoonup> string list) \<Rightarrow> string \<Rightarrow> string list" where
  "extra_get m k = (case m k of None \<Rightarrow> [] | Some v \<Rightarrow> v)"

type_synonym 'st Resolver = "'st \<times> ResolveInput \<Rightarrow> 'st \<times> Target result"

fun chain_loop :: "'st Resolver list \<Rightarrow> go_error option \<Rightarrow> 'st Resolver" where
  "chain_loop [] lastErr (st, input) =
     (st, Inl (case lastErr of Some e \<Rightarrow> e | None \<Rightarrow> ErrTargetNotProvided))"
| "chain_loop (resolver # rest) lastErr (st, input) =
     (case resolver (st, input) of
        (st', Inl err) \<Rightarrow>
          if \<not> errors_is err ErrTargetNotProvided then (st', Inl err)
          else chain_loop rest (Some err) (st', input)
      | (st', Inr tgt) \<Rightarrow> (st', Inr tgt))"

definition Chain_Resolve :: "'st Resolver list \<Rightarrow> 'st Resolver" where
  "Chain_Resolve c = chain_loop c None"

definition newTargetFromHint :: "Hint \<Rightarrow> Target result" where
  "newTargetFromHint hint =
     (if hint_Kind hint = [] then Inl (BadRequest ''target hint kind is required'' [])
      else if \<exists>option \<in> set (hint_Options hint). opt_Key option = [] \<or> opt_Value option = []
      then Inl (BadRequest ''target hint option requires key and value'' [])
      else if hint_Options hint = []
      then Inl (BadRequest ''target hint %q requires options'' [hint_Kind hint])
      else Inr \<lparr> t_Kind = hint_Kind hint, t_Options = hint_Options hint, t_Runtime = Map.empty \<rparr>)"

definition HintResolver_Resolve :: "'st Resolver" where
  "HintResolver_Resolve = (\<lambda>(st, input).
     (st,
      if ri_Hints input = [] then Inl ErrTargetNotProvided
      else
        case (if ri_SSHUser input \<noteq> []
              then find (\<lambda>hint. ri_SSHUser input \<in> set (hint_Aliases hint)) (ri_Hints input)
              else None) of
          Some hint \<Rightarrow> newTargetFromHint hint
        | None \<Rightarrow>
            if length (ri_Hints input) = 1 then newTargetFromHint (hd (ri_Hints input))
            else Inl (BadRequest ''target alias %q did not match any authentication target hint''
                       [ri_SSHUser input])))"

fun options_get :: "TargetOption list \<Rightarrow> string \<Rightarrow> string" where
  "options_get [] key = []"
| "options_get (option # options) key =
     (if opt_Key option = key then opt_Value option else options_get options key)"

definition Target_Option :: "Target \<Rightarrow> string \<Rightarrow> string" where
  "Target_Option t key = options_get (t_Options t) key"

fun options_path :: "TargetOption list \<Rightarrow> string" where
  "options_path [] = []"
| "options_path (option # options) =
     ''/'' @ opt_Key option @ ''/'' @ opt_Value option @ options_path options"

definition Target_String :: "Target \<Rightarrow> string" where
  "Target_String t = t_Kind t @ options_path (t_Options t)"

section \<open>Package podtarget: representation\<close>

abbreviation OptionNamespaces :: string where "OptionNamespaces \<equiv> ''namespaces''"
abbreviation OptionPods :: string where "OptionPods \<equiv> ''pods''"
abbreviation OptionContainers :: string where "OptionContainers \<equiv> ''containers''"
abbreviation runtimePodUID :: string where "runtimePodUID \<equiv> ''pod.uid''"
abbreviation runtimeNodeName :: string where "runtimeNodeName \<equiv> ''pod.nodeName''"
abbreviation runtimeHostIP :: string where "runtimeHostIP \<equiv> ''pod.hostIP''"

definition New :: "string \<Rightarrow> string \<Rightarrow> string \<Rightarrow> Target" where
  "New namespace pod container =
     \<lparr> t_Kind = KindPod,
       t_Options =
         [\<lparr> opt_Key = OptionNamespaces, opt_Value = namespace \<rparr>,
          \<lparr> opt_Key = OptionPods, opt_Value = pod \<rparr>] @
         (if container \<noteq> [] then [\<lparr> opt_Key = OptionContainers, opt_Value = container \<rparr>] else []),
       t_Runtime = Map.empty \<rparr>"

definition bind :: "Target \<Rightarrow> Pod \<Rightarrow> Target" where
  "bind tgt pod = tgt\<lparr> t_Runtime :=
     [runtimePodUID \<mapsto> pod_UID pod, runtimeNodeName \<mapsto> pod_NodeName pod,
      runtimeHostIP \<mapsto> pod_HostIP pod] \<rparr>"

definition Bind :: "Pod \<Rightarrow> string \<Rightarrow> Target" where
  "Bind pod container = bind (New (pod_Namespace pod) (pod_Name pod) container) pod"

record Reference =
  r_Namespace :: string
  r_Pod :: string
  r_Container :: string

definition Parse :: "Target option \<Rightarrow> Reference result" where
  "Parse tgt =
     (case tgt of
        None \<Rightarrow> Inl (BadRequest ''target is not specified'' [])
      | Some t \<Rightarrow>
          if t_Kind t \<noteq> KindPod then Inl (BadRequest ''unsupported target kind %q'' [t_Kind t])
          else
            let namespace = Target_Option t OptionNamespaces;
                pod = Target_Option t OptionPods;
                container = Target_Option t OptionContainers
            in if namespace = [] \<or> pod = []
               then Inl (BadRequest ''Pod target requires %q and %q options'' [OptionNamespaces, OptionPods])
               else Inr \<lparr> r_Namespace = namespace, r_Pod = pod, r_Container = container \<rparr>)"

record Binding =
  b_UID :: string
  b_NodeName :: string
  b_HostIP :: string

definition BoundIdentity :: "Target \<Rightarrow> Binding" where
  "BoundIdentity tgt =
     \<lparr> b_UID = map_get (t_Runtime tgt) runtimePodUID,
       b_NodeName = map_get (t_Runtime tgt) runtimeNodeName,
       b_HostIP = map_get (t_Runtime tgt) runtimeHostIP \<rparr>"

section \<open>Package podtarget: resolution and binding\<close>

definition ResolveContainer :: "Pod option \<Rightarrow> string \<Rightarrow> (string \<times> string) result" where
  "ResolveContainer pod requested =
     (case pod of
        None \<Rightarrow> Inl (BadRequest ''pod is required'' [])
      | Some p \<Rightarrow>
          let annotated = map_get (m_Annotations (pod_Meta p)) ''kubectl.kubernetes.io/default-container'';
              defaultContainer =
                (if annotated = [] \<and> length (pod_Containers p) > 0 then hd (pod_Containers p) else annotated);
              container = (if requested = [] then defaultContainer else requested)
          in if container = []
             then Inl (BadRequest ''pod %s/%s has no regular containers'' [pod_Namespace p, pod_Name p])
             else if container \<in> set (pod_Containers p) then Inr (container, defaultContainer)
             else Inl (BadRequest ''pod %s/%s has no regular container %q''
                        [pod_Namespace p, pod_Name p, container]))"

definition ContainerAllowed :: "string \<Rightarrow> bool \<Rightarrow> string \<Rightarrow> string \<Rightarrow> bool" where
  "ContainerAllowed mode explicit container defaultContainer =
     (if mode = [] \<or> mode = ''All'' then True
      else if mode = ''KubernetesDefault'' then \<not> explicit \<or> container = defaultContainer
      else False)"

definition UsernameResolver_Resolve :: "'st Resolver" where
  "UsernameResolver_Resolve = (\<lambda>(st, input).
     (st,
      let username = ri_SSHUser input
      in if \<not> contains_byte username (CHR ''.'') then Inl ErrTargetNotProvided
         else
           case Split username (CHR ''.'') of
             [ns, pod] \<Rightarrow>
               if ns = [] \<or> pod = []
               then Inl (BadRequest ''invalid target %q: namespace and pod are required'' [username])
               else Inr (New ns pod [])
           | [ns, pod, container] \<Rightarrow>
               if ns = [] \<or> pod = [] \<or> container = []
               then Inl (BadRequest ''invalid target %q: namespace, pod, and container are required'' [username])
               else Inr (New ns pod container)
           | _ \<Rightarrow> Inl (BadRequest ''invalid target %q: expected namespace.pod or namespace.pod.container''
                        [username])))"

record BindingResolver =
  br_defaultMode :: string
  br_limitMode :: string

text \<open>
  The binding step on the target an inner resolver returned; \<^verbatim>\<open>pods\<close> is the
  \<^verbatim>\<open>PodGetter\<close>.
\<close>

definition bind_target ::
  "BindingResolver \<Rightarrow> (string \<Rightarrow> string \<Rightarrow> Pod result) \<Rightarrow> Target \<Rightarrow> Target result" where
  "bind_target r pods tgt =
     (if t_Kind tgt \<noteq> KindPod then Inr tgt
      else if b_UID (BoundIdentity tgt) \<noteq> [] then Inr tgt
      else
        case Parse (Some tgt) of
          Inl err \<Rightarrow> Inl err
        | Inr podTarget \<Rightarrow>
            (case pods (r_Namespace podTarget) (r_Pod podTarget) of
               Inl err \<Rightarrow> Inl (Wrap ''get target pod %s/%s: %w'' [r_Namespace podTarget, r_Pod podTarget] err)
             | Inr pod \<Rightarrow>
                 let explicit = (r_Container podTarget \<noteq> [])
                 in case ResolveContainer (Some pod) (r_Container podTarget) of
                      Inl err \<Rightarrow> Inl err
                    | Inr (container, defaultContainer) \<Rightarrow>
                        if \<not> ContainerAllowed (br_defaultMode r) explicit container defaultContainer \<or>
                           \<not> ContainerAllowed (br_limitMode r) explicit container defaultContainer
                        then Inl (Forbidden ''container %q is not allowed by global policy'' [container])
                        else
                          Inr (bind
                            (if \<not> explicit
                             then tgt\<lparr> t_Options := t_Options tgt @
                                    [\<lparr> opt_Key = OptionContainers, opt_Value = container \<rparr>] \<rparr>
                             else tgt) pod)))"

definition BindingResolver_Resolve ::
  "BindingResolver \<Rightarrow> (string \<Rightarrow> string \<Rightarrow> Pod result) \<Rightarrow> 'st Resolver \<Rightarrow> 'st Resolver" where
  "BindingResolver_Resolve r pods resolver = (\<lambda>(st, input).
     case resolver (st, input) of
       (st', Inl err) \<Rightarrow> (st', Inl err)
     | (st', Inr tgt) \<Rightarrow> (st', bind_target r pods tgt))"

section \<open>Lemmas on the resolver chain\<close>

definition resolver_passes :: "'st \<times> Target result \<Rightarrow> bool" where
  "resolver_passes r = (case snd r of Inl e \<Rightarrow> errors_is e ErrTargetNotProvided | Inr _ \<Rightarrow> False)"

definition next_input :: "'st \<times> ResolveInput \<Rightarrow> 'st \<times> Target result \<Rightarrow> 'st \<times> ResolveInput" where
  "next_input i r = (fst r, snd i)"

lemma chain_loop_lastErr:
  assumes "errors_is e ErrTargetNotProvided" "errors_is e' ErrTargetNotProvided"
  shows "resolver_passes (chain_loop c (Some e) i) = resolver_passes (chain_loop c (Some e') i) \<and>
    resolver_passes (chain_loop c (Some e) i) = resolver_passes (chain_loop c None i) \<and>
    (\<not> resolver_passes (chain_loop c None i) \<longrightarrow> chain_loop c (Some e) i = chain_loop c None i)"
proof (cases c)
  case Nil
  then show ?thesis using assms by (cases i) (simp add: resolver_passes_def)
next
  case (Cons r rs)
  then show ?thesis by (cases i) (simp split: prod.split sum.split)
qed

interpretation target_chain: first_decisive Chain_Resolve resolver_passes next_input
proof
  fix i :: "'st \<times> ResolveInput" show "resolver_passes (Chain_Resolve [] i)"
    by (cases i) (simp add: Chain_Resolve_def resolver_passes_def)
next
  fix f :: "'st Resolver" and i fs
  assume "\<not> resolver_passes (f i)"
  then show "Chain_Resolve (f # fs) i = f i"
    by (cases i) (auto simp: Chain_Resolve_def resolver_passes_def split: prod.splits sum.splits)
next
  fix f :: "'st Resolver" and i fs
  assume p: "resolver_passes (f i)" and l: "\<not> resolver_passes (Chain_Resolve fs (next_input i (f i)))"
  obtain st inp st' e where s: "i = (st, inp)" "f i = (st', Inl e)" "errors_is e ErrTargetNotProvided"
    using p by (cases i; cases "f i") (auto simp: resolver_passes_def split: sum.splits)
  then show "Chain_Resolve (f # fs) i = Chain_Resolve fs (next_input i (f i))"
    using l chain_loop_lastErr[of e e fs "(st', inp)"] by (simp add: Chain_Resolve_def next_input_def)
next
  fix f :: "'st Resolver" and i fs
  assume p: "resolver_passes (f i)" and l: "resolver_passes (Chain_Resolve fs (next_input i (f i)))"
  obtain st inp st' e where s: "i = (st, inp)" "f i = (st', Inl e)" "errors_is e ErrTargetNotProvided"
    using p by (cases i; cases "f i") (auto simp: resolver_passes_def split: sum.splits)
  then show "resolver_passes (Chain_Resolve (f # fs) i)"
    using l chain_loop_lastErr[of e e fs "(st', inp)"] by (simp add: Chain_Resolve_def next_input_def)
qed

section \<open>Lemmas on locators\<close>

lemma options_get_append:
  "options_get (xs @ ys) k = (if \<exists>x \<in> set xs. opt_Key x = k then options_get xs k else options_get ys k)"
  by (induction xs) auto

lemma options_get_nonempty:
  "\<forall>x \<in> set xs. opt_Value x \<noteq> [] \<Longrightarrow> options_get xs k = [] \<longleftrightarrow> (\<forall>x \<in> set xs. opt_Key x \<noteq> k)"
  by (induction xs) auto

lemma Target_Option_New [simp]:
  "Target_Option (New ns pod c) OptionNamespaces = ns"
  "Target_Option (New ns pod c) OptionPods = pod"
  "Target_Option (New ns pod c) OptionContainers = c"
  by (simp_all add: Target_Option_def New_def)

lemma t_Kind_New [simp]: "t_Kind (New ns pod c) = KindPod" "t_Runtime (New ns pod c) = Map.empty"
  by (simp_all add: New_def)

lemma New_inject: "New ns pod c = New ns' pod' c' \<longleftrightarrow> ns = ns' \<and> pod = pod' \<and> c = c'"
  by (metis Target_Option_New)

lemma Parse_New:
  "ns \<noteq> [] \<Longrightarrow> pod \<noteq> [] \<Longrightarrow>
    Parse (Some (New ns pod c)) = Inr \<lparr> r_Namespace = ns, r_Pod = pod, r_Container = c \<rparr>"
  by (simp add: Parse_def)

lemma bind_simps [simp]:
  "t_Kind (bind t pod) = t_Kind t" "t_Options (bind t pod) = t_Options t"
  "Target_Option (bind t pod) k = Target_Option t k"
  "BoundIdentity (bind t pod) =
     \<lparr> b_UID = pod_UID pod, b_NodeName = pod_NodeName pod, b_HostIP = pod_HostIP pod \<rparr>"
  by (simp_all add: bind_def BoundIdentity_def map_get_def Target_Option_def)

lemma Parse_bind [simp]: "Parse (Some (bind t pod)) = Parse (Some t)"
  by (simp add: Parse_def)

lemma Parse_Bind:
  "pod_Namespace pod \<noteq> [] \<Longrightarrow> pod_Name pod \<noteq> [] \<Longrightarrow>
    Parse (Some (Bind pod c)) = Inr \<lparr> r_Namespace = pod_Namespace pod, r_Pod = pod_Name pod, r_Container = c \<rparr>"
  by (simp add: Bind_def Parse_New)

lemma Split_Cut:
  "Split s c = (case Cut s c of (b, a, found) \<Rightarrow> if found then b # Split a c else [b])"
proof (cases "c \<in> set s")
  case True
  then obtain u v where s: "s = u @ c # v" "c \<notin> set u" by (meson split_list_first)
  have "c \<notin> set u \<Longrightarrow> Split (u @ c # v) c = u # Split v c" by (induction u) auto
  then show ?thesis using s by simp
next
  case False
  then have "Split s c = [s]" by (induction s) auto
  then show ?thesis using False by simp
qed

lemma Split_two [simp]: "c \<notin> set a \<Longrightarrow> c \<notin> set b \<Longrightarrow> Split (a @ c # b) c = [a, b]"
  using Split_Cut[of "a @ c # b" c] Split_Cut[of b c] by simp

lemma Split_three [simp]:
  "c \<notin> set a \<Longrightarrow> c \<notin> set b \<Longrightarrow> c \<notin> set d \<Longrightarrow> Split (a @ c # b @ c # d) c = [a, b, d]"
  using Split_Cut[of "a @ c # b @ c # d" c] by simp

lemma Split_two_iff: "Split s c = [a, b] \<longleftrightarrow> s = a @ c # b \<and> c \<notin> set a \<and> c \<notin> set b"
proof
  assume h: "Split s c = [a, b]"
  then have "c \<notin> set a" "c \<notin> set b" using Split_sep_free[of _ s c] by auto
  then show "s = a @ c # b \<and> c \<notin> set a \<and> c \<notin> set b" using Join_Split[of s c] h by simp
qed simp

lemma Split_three_iff:
  "Split s c = [a, b, d] \<longleftrightarrow> s = a @ c # b @ c # d \<and> c \<notin> set a \<and> c \<notin> set b \<and> c \<notin> set d"
proof
  assume h: "Split s c = [a, b, d]"
  then have "c \<notin> set a" "c \<notin> set b" "c \<notin> set d" using Split_sep_free[of _ s c] by auto
  then show "s = a @ c # b @ c # d \<and> c \<notin> set a \<and> c \<notin> set b \<and> c \<notin> set d"
    using Join_Split[of s c] h by simp
qed simp

text \<open>
  The canonical path of a target determines its kind and options, as long as no
  component contains the separator (names of Kubernetes objects never do).
\<close>

definition slash_free :: "Target \<Rightarrow> bool" where
  "slash_free t \<longleftrightarrow> CHR ''/'' \<notin> set (t_Kind t) \<and>
     (\<forall>x \<in> set (t_Options t). CHR ''/'' \<notin> set (opt_Key x) \<and> CHR ''/'' \<notin> set (opt_Value x))"

lemma options_path_Cons_slash: "os \<noteq> [] \<Longrightarrow> \<exists>r. options_path os = CHR ''/'' # r"
  by (cases os) auto

lemma slash_token_eq:
  assumes "CHR ''/'' \<notin> set a" "CHR ''/'' \<notin> set a'"
    and "a @ options_path os = a' @ options_path os'"
  shows "a = a' \<and> options_path os = options_path os'"
proof (cases "os = []"; cases "os' = []")
  assume "os = []" "os' = []" then show ?thesis using assms by simp
next
  assume "os = []" "os' \<noteq> []"
  then show ?thesis using assms options_path_Cons_slash[of os'] by (metis append_Nil2 in_set_conv_decomp options_path.simps(1))
next
  assume "os \<noteq> []" "os' = []"
  then show ?thesis using assms options_path_Cons_slash[of os] by (metis append_Nil2 in_set_conv_decomp options_path.simps(1))
next
  assume "os \<noteq> []" "os' \<noteq> []"
  then obtain r r' where r: "options_path os = CHR ''/'' # r" "options_path os' = CHR ''/'' # r'"
    using options_path_Cons_slash by blast
  then show ?thesis using assms append_sep_eq[of "CHR ''/''" a a' r r'] by simp
qed

lemma options_path_inject:
  assumes "\<forall>x \<in> set os \<union> set os'. CHR ''/'' \<notin> set (opt_Key x) \<and> CHR ''/'' \<notin> set (opt_Value x)"
    and "options_path os = options_path os'"
  shows "os = os'"
  using assms
proof (induction os arbitrary: os')
  case Nil then show ?case by (cases os') auto
next
  case (Cons o1 os)
  then obtain o2 os2 where os': "os' = o2 # os2" by (cases os') auto
  have "opt_Key o1 @ CHR ''/'' # opt_Value o1 @ options_path os =
      opt_Key o2 @ CHR ''/'' # opt_Value o2 @ options_path os2" using Cons.prems(2) os' by simp
  then have k: "opt_Key o1 = opt_Key o2"
      "opt_Value o1 @ options_path os = opt_Value o2 @ options_path os2"
    using Cons.prems(1) os' append_sep_eq[of "CHR ''/''" "opt_Key o1" "opt_Key o2"] by auto
  then have v: "opt_Value o1 = opt_Value o2" "options_path os = options_path os2"
    using slash_token_eq[of "opt_Value o1" "opt_Value o2" os os2] Cons.prems(1) os' by auto
  then have "os = os2" using Cons.IH[of os2] Cons.prems(1) os' by auto
  then show ?case using k v os' by simp
qed

lemma Target_String_inject:
  assumes "slash_free t" "slash_free t'" "Target_String t = Target_String t'"
  shows "t_Kind t = t_Kind t' \<and> t_Options t = t_Options t'"
proof -
  have "t_Kind t = t_Kind t' \<and> options_path (t_Options t) = options_path (t_Options t')"
    using assms unfolding slash_free_def Target_String_def by (intro slash_token_eq) auto
  then show ?thesis using assms options_path_inject unfolding slash_free_def by blast
qed

section \<open>The Pod getter interface\<close>

text \<open>The container that Kubernetes selects when none is named.\<close>

definition kubernetes_default_container :: "Pod \<Rightarrow> string" where
  "kubernetes_default_container p =
     (let annotated = map_get (m_Annotations (pod_Meta p)) ''kubectl.kubernetes.io/default-container''
      in if annotated = [] then (case pod_Containers p of [] \<Rightarrow> [] | c # _ \<Rightarrow> c) else annotated)"

lemma ResolveContainer_Inr:
  "ResolveContainer (Some p) req = Inr (c, d) \<longleftrightarrow>
     d = kubernetes_default_container p \<and> c = (if req = [] then d else req) \<and>
     c \<noteq> [] \<and> c \<in> set (pod_Containers p)"
  by (cases "pod_Containers p")
    (auto simp: ResolveContainer_def kubernetes_default_container_def Let_def)

locale pod_getter =
  fixes pods :: "'l \<Rightarrow> string \<Rightarrow> string \<Rightarrow> Pod result"
    and wf :: "'l \<Rightarrow> bool"
  assumes pods_identity: "wf l \<Longrightarrow> pods l ns n = Inr p \<Longrightarrow> pod_Namespace p = ns \<and> pod_Name p = n"
begin

lemma bind_target_bound:
  assumes wf: "wf l" and bt: "bind_target r (pods l) tgt = Inr t"
    and kube: "t_Kind tgt = KindPod" and unbound: "b_UID (BoundIdentity tgt) = []"
    and vals: "\<forall>x \<in> set (t_Options tgt). opt_Value x \<noteq> []"
  shows "\<exists>pod c. pods l (pod_Namespace pod) (pod_Name pod) = Inr pod \<and>
    Parse (Some t) = Inr \<lparr> r_Namespace = pod_Namespace pod, r_Pod = pod_Name pod, r_Container = c \<rparr> \<and>
    Target_Option tgt OptionNamespaces = pod_Namespace pod \<and> Target_Option tgt OptionPods = pod_Name pod \<and>
    BoundIdentity t = \<lparr> b_UID = pod_UID pod, b_NodeName = pod_NodeName pod, b_HostIP = pod_HostIP pod \<rparr> \<and>
    c \<in> set (pod_Containers pod) \<and>
    (Target_Option tgt OptionContainers \<noteq> [] \<longrightarrow> c = Target_Option tgt OptionContainers) \<and>
    (\<forall>m \<in> {br_defaultMode r, br_limitMode r}. m \<in> {[], ''All'', ''KubernetesDefault''} \<and>
       (m = ''KubernetesDefault'' \<longrightarrow> c = kubernetes_default_container pod))"
proof -
  obtain ref where ref: "Parse (Some tgt) = Inr ref"
    using bt kube unbound by (cases "Parse (Some tgt)") (auto simp: bind_target_def)
  then have opts: "r_Namespace ref = Target_Option tgt OptionNamespaces" "r_Pod ref = Target_Option tgt OptionPods"
    "r_Container ref = Target_Option tgt OptionContainers" "r_Namespace ref \<noteq> []" "r_Pod ref \<noteq> []"
    using kube by (auto simp: Parse_def Let_def split: if_splits)
  obtain pod where pod: "pods l (r_Namespace ref) (r_Pod ref) = Inr pod"
    using bt kube unbound ref by (cases "pods l (r_Namespace ref) (r_Pod ref)") (auto simp: bind_target_def)
  obtain c d where cd: "ResolveContainer (Some pod) (r_Container ref) = Inr (c, d)"
    using bt kube unbound ref pod
    by (cases "ResolveContainer (Some pod) (r_Container ref)") (auto simp: bind_target_def)
  let ?e = "r_Container ref \<noteq> []"
  let ?t = "if \<not> ?e then tgt\<lparr> t_Options := t_Options tgt @ [\<lparr> opt_Key = OptionContainers, opt_Value = c \<rparr>] \<rparr> else tgt"
  have allowed: "ContainerAllowed (br_defaultMode r) ?e c d" "ContainerAllowed (br_limitMode r) ?e c d"
    and t: "t = bind ?t pod"
    using bt kube unbound ref pod cd by (auto simp: bind_target_def Let_def split: if_splits)
  have "options_get (t_Options ?t) OptionContainers = c"
    using cd opts(3) options_get_nonempty[OF vals, of OptionContainers]
    by (auto simp: ResolveContainer_Inr Target_Option_def options_get_append)
  moreover have "options_get (t_Options ?t) k = options_get (t_Options tgt) k" if "k \<noteq> OptionContainers" for k
    using that by (auto simp: options_get_append)
      (metis options_get.simps(1) options_get_append self_append_conv options_get_append)
  ultimately have "Parse (Some t) = Inr \<lparr> r_Namespace = r_Namespace ref, r_Pod = r_Pod ref, r_Container = c \<rparr>"
    using opts kube unfolding t by (simp add: Parse_def Target_Option_def)
  then show ?thesis
    using pod pods_identity[OF wf pod] t opts cd allowed
    by (intro exI[of _ pod] exI[of _ c])
      (auto simp: ResolveContainer_Inr ContainerAllowed_def split: if_splits)
qed

end

end
