(* ===== verification/SshTarget.thy ===== *)
theory SshTarget
  imports Targets
begin

text \<open>
  Targets of the SSH proxy (\<^verbatim>\<open>pkg/sshproxy/target.go\<close>): an endpoint bound to the identity and
  generation of its Access, and the parser that reads it back before an upstream
  connection is made.
\<close>

abbreviation optionAccesses :: string where "optionAccesses \<equiv> ''accesses''"
abbreviation optionEndpoints :: string where "optionEndpoints \<equiv> ''endpoints''"
abbreviation runtimeAccessUID :: string where "runtimeAccessUID \<equiv> ''ssh.accessUID''"
abbreviation runtimeAccessGeneration :: string where "runtimeAccessGeneration \<equiv> ''ssh.accessGeneration''"

record boundTarget =
  bt_Namespace :: string
  bt_Access :: string
  bt_Endpoint :: string
  bt_AccessUID :: string
  bt_Generation :: int

definition NewTarget :: "Access \<Rightarrow> string \<Rightarrow> Target" where
  "NewTarget access endpoint =
     \<lparr> t_Kind = KindExternalSSH,
       t_Options =
         [\<lparr> opt_Key = OptionNamespaces, opt_Value = acc_Namespace access \<rparr>,
          \<lparr> opt_Key = optionAccesses, opt_Value = acc_Name access \<rparr>,
          \<lparr> opt_Key = optionEndpoints, opt_Value = endpoint \<rparr>],
       t_Runtime =
         [runtimeAccessUID \<mapsto> m_UID (acc_Meta access),
          runtimeAccessGeneration \<mapsto> FormatInt (acc_Generation access)] \<rparr>"

definition parseTarget :: "Target option \<Rightarrow> boundTarget result" where
  "parseTarget tgt =
     (case tgt of
        None \<Rightarrow> Inl (BadRequest ''target is not specified'' [])
      | Some t \<Rightarrow>
          if t_Kind t \<noteq> KindExternalSSH then Inl (BadRequest ''unsupported target kind %q'' [t_Kind t])
          else
            let namespace = Target_Option t OptionNamespaces;
                access = Target_Option t optionAccesses;
                endpoint = Target_Option t optionEndpoints;
                uid = map_get (t_Runtime t) runtimeAccessUID
            in if namespace = [] \<or> access = [] \<or> endpoint = [] \<or> uid = []
               then Inl (BadRequest ''ssh target requires a bound Access and endpoint'' [])
               else
                 case ParseInt (map_get (t_Runtime t) runtimeAccessGeneration) of
                   None \<Rightarrow> Inl (BadRequest ''ssh target has invalid Access generation'' [])
                 | Some generation \<Rightarrow>
                     Inr \<lparr> bt_Namespace = namespace, bt_Access = access, bt_Endpoint = endpoint,
                           bt_AccessUID = uid, bt_Generation = generation \<rparr>)"

section \<open>Properties\<close>

text \<open>
  An External target survives the way through the connection: parsing the target that the
  resolver built for an Access gives back exactly its namespace, name, endpoint, UID
  and generation.
\<close>

theorem parseTarget_NewTarget:
  assumes "acc_Namespace a \<noteq> []" "acc_Name a \<noteq> []" "m_UID (acc_Meta a) \<noteq> []" "endpoint \<noteq> []"
    and "fits64 (acc_Generation a)"
  shows "parseTarget (Some (NewTarget a endpoint)) =
    Inr \<lparr> bt_Namespace = acc_Namespace a, bt_Access = acc_Name a, bt_Endpoint = endpoint,
          bt_AccessUID = m_UID (acc_Meta a), bt_Generation = acc_Generation a \<rparr>"
  using assms by (simp add: parseTarget_def NewTarget_def Target_Option_def map_get_def)

lemma parseTarget_NewTarget_witness:
  "parseTarget (Some (NewTarget (zero_Access\<lparr> acc_Meta := zero_ObjectMeta\<lparr> m_Namespace := ''ns'', m_Name := ''acc'',
      m_UID := ''u1'', m_Generation := 7 \<rparr> \<rparr>) ''main'')) =
    Inr \<lparr> bt_Namespace = ''ns'', bt_Access = ''acc'', bt_Endpoint = ''main'', bt_AccessUID = ''u1'', bt_Generation = 7 \<rparr>"
  using parseTarget_NewTarget[of "zero_Access\<lparr> acc_Meta := zero_ObjectMeta\<lparr> m_Namespace := ''ns'', m_Name := ''acc'',
      m_UID := ''u1'', m_Generation := 7 \<rparr> \<rparr>" "''main''"]
  by (simp add: fits64_def)

end
