(* ===== verification/AccessStore.thy ===== *)
theory AccessStore
  imports Targets "HOL-Library.AList"
begin

text \<open>
  The sources of policy objects: the in-memory store (\<^verbatim>\<open>pkg/accesspolicy/store.go\<close>), the
  informer-backed policy cache (\<^verbatim>\<open>policy_cache.go\<close>: Get, List, SecretValue) and the
  informer-backed Pod lister (\<^verbatim>\<open>kube.go\<close>).  The informer caches themselves are client-go code:
  an indexer is a parameter, a record of its lookup functions, and \<^verbatim>\<open>indexer_ok\<close> states the
  behaviour client-go documents for it (objects are filed under their namespace and name,
  namespace listing applies the label selector).
\<close>

section \<open>Objects and indexers\<close>

datatype Object = ObjAccess Access | ObjSecret Secret | ObjPod Pod | ObjOther string

record Indexer =
  idx_GetByKey :: "string \<Rightarrow> Object option result"
  idx_List :: "Object list"
  idx_ListAllByNamespace :: "string \<Rightarrow> (string \<times> string) list \<Rightarrow> Object list result"

definition accessKey :: "string \<Rightarrow> string \<Rightarrow> string" where
  "accessKey namespace name = namespace @ ''/'' @ name"

section \<open>The in-memory store\<close>

type_synonym MemoryStore = "(string \<times> Access) list"

definition MemoryStore_Set :: "MemoryStore \<Rightarrow> Access option \<Rightarrow> MemoryStore" where
  "MemoryStore_Set s access =
     (case access of None \<Rightarrow> s | Some a \<Rightarrow> AList.update (accessKey (acc_Namespace a) (acc_Name a)) a s)"

definition NewMemoryStore :: "Access option list \<Rightarrow> MemoryStore" where
  "NewMemoryStore accesses = foldl MemoryStore_Set [] accesses"

definition MemoryStore_Get :: "MemoryStore \<Rightarrow> string \<Rightarrow> string \<Rightarrow> Access result" where
  "MemoryStore_Get s namespace name =
     (case map_of s (accessKey namespace name) of
        None \<Rightarrow> Inl (Wrap ''%w: %s/%s'' [namespace, name] ErrAccessNotFound)
      | Some access \<Rightarrow> Inr access)"

definition creationTime :: "Access \<Rightarrow> int" where
  "creationTime a = m_CreationTimestamp (acc_Meta a)"

definition accessLess :: "Access \<Rightarrow> Access \<Rightarrow> bool" where
  "accessLess a b =
     (let at = creationTime a; bt = creationTime b
      in if at \<noteq> bt then at < bt
         else if acc_Namespace a \<noteq> acc_Namespace b then acc_Namespace a < acc_Namespace b
         else acc_Name a < acc_Name b)"

definition access_order :: "Access \<Rightarrow> int \<times> string \<times> string" where
  "access_order a = (creationTime a, acc_Namespace a, acc_Name a)"

definition sortAccesses :: "Access list \<Rightarrow> Access list" where
  "sortAccesses accesses = sort_key access_order accesses"

definition MemoryStore_List :: "MemoryStore \<Rightarrow> Access list result" where
  "MemoryStore_List s = Inr (sortAccesses (map snd s))"

definition isPodAccess :: "Access option \<Rightarrow> bool" where
  "isPodAccess access =
     (case access of None \<Rightarrow> False
      | Some a \<Rightarrow> spec_Type (acc_Spec a) = [] \<or> spec_Type (acc_Spec a) = AccessTypePod)"

section \<open>The policy cache\<close>

record PolicyCache =
  cache_accessIndexer :: "Indexer option"
  cache_secretIndexer :: "Indexer option"
  cache_namespace :: string
  cache_gatewayClassName :: string

definition gatewayClassName :: "Access \<Rightarrow> string" where
  "gatewayClassName access =
     (case spec_GatewayClassName (acc_Spec access) of None \<Rightarrow> [] | Some c \<Rightarrow> c)"

definition acceptAccess :: "PolicyCache \<Rightarrow> Access \<Rightarrow> bool" where
  "acceptAccess c access =
     (if cache_namespace c \<noteq> [] \<and> acc_Namespace access \<noteq> cache_namespace c then False
      else gatewayClassName access = cache_gatewayClassName c)"

definition PolicyCache_Get :: "PolicyCache \<Rightarrow> string \<Rightarrow> string \<Rightarrow> Access result" where
  "PolicyCache_Get c namespace name =
     (case cache_accessIndexer c of
        None \<Rightarrow> Inl (Errorf ''access policy cache requires an access indexer'' [])
      | Some ix \<Rightarrow>
          if cache_namespace c \<noteq> [] \<and> namespace \<noteq> cache_namespace c
          then Inl (Wrap ''%w: %s/%s'' [namespace, name] ErrAccessNotFound)
          else
            case idx_GetByKey ix (accessKey namespace name) of
              Inl err \<Rightarrow> Inl err
            | Inr None \<Rightarrow> Inl (Wrap ''%w: %s/%s'' [namespace, name] ErrAccessNotFound)
            | Inr (Some (ObjAccess access)) \<Rightarrow>
                if \<not> acceptAccess c access
                then Inl (Wrap ''%w: %s/%s'' [namespace, name] ErrAccessNotFound)
                else Inr access
            | Inr (Some _) \<Rightarrow> Inl (Errorf ''access cache object %s/%s has unexpected type %T'' [namespace, name]))"

fun accepted_accesses :: "PolicyCache \<Rightarrow> Object list \<Rightarrow> Access list result" where
  "accepted_accesses c [] = Inr []"
| "accepted_accesses c (ObjAccess access # objects) =
     (if \<not> acceptAccess c access then accepted_accesses c objects
      else bind_result (accepted_accesses c objects) (\<lambda>as. Inr (access # as)))"
| "accepted_accesses c (_ # objects) = Inl (Errorf ''access cache object has unexpected type %T'' [])"

definition PolicyCache_List :: "PolicyCache \<Rightarrow> Access list result" where
  "PolicyCache_List c =
     (case cache_accessIndexer c of
        None \<Rightarrow> Inl (Errorf ''access policy cache requires an access indexer'' [])
      | Some ix \<Rightarrow> bind_result (accepted_accesses c (idx_List ix)) (\<lambda>as. Inr (sortAccesses as)))"

definition SecretValue :: "PolicyCache \<Rightarrow> string \<Rightarrow> LocalSecretKeyRef \<Rightarrow> string result" where
  "SecretValue c namespace ref =
     (if ref_Name ref = [] \<or> ref_Key ref = []
      then Inl (Errorf ''incomplete secret reference in namespace %q'' [namespace])
      else
        case cache_secretIndexer c of
          None \<Rightarrow> Inl (Errorf ''access policy cache requires a secret indexer'' [])
        | Some ix \<Rightarrow>
            (case idx_GetByKey ix (accessKey namespace (ref_Name ref)) of
               Inl err \<Rightarrow> Inl err
             | Inr None \<Rightarrow> Inl (Errorf ''secret %s/%s not found'' [namespace, ref_Name ref])
             | Inr (Some (ObjSecret secret)) \<Rightarrow>
                 (case sec_Data secret (ref_Key ref) of
                    None \<Rightarrow> Inl (Errorf ''secret %s/%s has no key %q'' [namespace, ref_Name ref, ref_Key ref])
                  | Some v \<Rightarrow> Inr v)
             | Inr (Some _) \<Rightarrow>
                 Inl (Errorf ''secret cache object %s/%s has unexpected type %T'' [namespace, ref_Name ref])))"

definition splitSecretLines :: "string \<Rightarrow> string list" where
  "splitSecretLines v = filter (\<lambda>line. line \<noteq> []) (map TrimSpace (Split v (CHR 0x0A)))"

section \<open>The Pod lister\<close>

type_synonym InformerPodLister = "Indexer option"

fun object_pods :: "Object list \<Rightarrow> Pod list" where
  "object_pods [] = []"
| "object_pods (ObjPod pod # objects) = pod # object_pods objects"
| "object_pods (_ # objects) = object_pods objects"

definition InformerPodLister_List ::
  "InformerPodLister \<Rightarrow> string \<Rightarrow> (string \<times> string) list \<Rightarrow> Pod list result" where
  "InformerPodLister_List l namespace selector =
     (case l of
        None \<Rightarrow> Inl (Errorf ''pod lister requires a pod indexer'' [])
      | Some ix \<Rightarrow> bind_result (idx_ListAllByNamespace ix namespace selector) (\<lambda>objs. Inr (object_pods objs)))"

definition InformerPodLister_Get :: "InformerPodLister \<Rightarrow> string \<Rightarrow> string \<Rightarrow> Pod result" where
  "InformerPodLister_Get l namespace name =
     (case l of
        None \<Rightarrow> Inl (Errorf ''pod getter requires a pod indexer'' [])
      | Some ix \<Rightarrow>
          (case idx_GetByKey ix (namespace @ ''/'' @ name) of
             Inl err \<Rightarrow> Inl err
           | Inr None \<Rightarrow> Inl (Errorf ''pod %s/%s not found'' [namespace, name])
           | Inr (Some (ObjPod pod)) \<Rightarrow> Inr pod
           | Inr (Some _) \<Rightarrow> Inl (Errorf ''cached object %s/%s is not a pod'' [namespace, name])))"

section \<open>Contracts\<close>

text \<open>
  Documented behaviour of a client-go indexer over namespaced objects: an object is found
  under the key \<^verbatim>\<open>namespace/name\<close>, both non-empty and, as Kubernetes validates,
  without a slash; listing a namespace returns the objects of that namespace whose labels
  satisfy the equality selector.
\<close>

definition object_id :: "Object \<Rightarrow> (string \<times> string) option" where
  "object_id obj =
     (case obj of
        ObjAccess a \<Rightarrow> Some (acc_Namespace a, acc_Name a)
      | ObjSecret s \<Rightarrow> Some (sec_Namespace s, sec_Name s)
      | ObjPod p \<Rightarrow> Some (pod_Namespace p, pod_Name p)
      | ObjOther _ \<Rightarrow> None)"

definition valid_id :: "string \<times> string \<Rightarrow> bool" where
  "valid_id i \<longleftrightarrow> fst i \<noteq> [] \<and> snd i \<noteq> [] \<and> CHR ''/'' \<notin> set (fst i) \<and> CHR ''/'' \<notin> set (snd i)"

definition labels_match :: "(string \<times> string) list \<Rightarrow> (string \<rightharpoonup> string) \<Rightarrow> bool" where
  "labels_match selector labels \<longleftrightarrow> (\<forall>(k, v) \<in> set selector. labels k = Some v)"

definition indexer_ok :: "Indexer \<Rightarrow> bool" where
  "indexer_ok ix \<longleftrightarrow>
     (\<forall>k obj i. idx_GetByKey ix k = Inr (Some obj) \<and> object_id obj = Some i \<longrightarrow>
        valid_id i \<and> k = accessKey (fst i) (snd i)) \<and>
     (\<forall>ns sel objs p. idx_ListAllByNamespace ix ns sel = Inr objs \<and> ObjPod p \<in> set objs \<and> ns \<noteq> [] \<longrightarrow>
        pod_Namespace p = ns \<and> pod_Name p \<noteq> [] \<and> labels_match sel (m_Labels (pod_Meta p)))"

lemma indexer_ok_key:
  "indexer_ok ix \<Longrightarrow> idx_GetByKey ix k = Inr (Some obj) \<Longrightarrow> object_id obj = Some i \<Longrightarrow>
    valid_id i \<and> k = accessKey (fst i) (snd i)"
  unfolding indexer_ok_def by blast

lemma accessKey_inject:
  assumes "valid_id (ns, n)" "accessKey ns' n' = accessKey ns n"
  shows "ns' = ns \<and> n' = n"
proof -
  have free: "CHR ''/'' \<notin> set ns" "CHR ''/'' \<notin> set n" using assms(1) by (auto simp: valid_id_def)
  have eq: "ns' @ CHR ''/'' # n' = ns @ CHR ''/'' # n" using assms(2) by (simp add: accessKey_def)
  have "count_list (ns' @ CHR ''/'' # n') (CHR ''/'') = 1"
    unfolding eq using free by (simp add: count_list_0_iff)
  then have "CHR ''/'' \<notin> set ns'" by (simp add: count_list_0_iff)
  then show ?thesis using eq append_sep_eq[of "CHR ''/''" ns' ns n' n] free(1) by simp
qed

lemma accessLess_order: "accessLess a b \<longleftrightarrow> access_order a < access_order b"
  by (auto simp: accessLess_def access_order_def Let_def)

lemma sortAccesses_sorted: "sorted_wrt (\<lambda>a b. \<not> accessLess b a) (sortAccesses as)"
proof -
  have "sorted (map access_order (sortAccesses as))" by (simp add: sortAccesses_def)
  then show ?thesis unfolding accessLess_order by (simp add: sorted_map not_less)
qed

text \<open>The interface \<^verbatim>\<open>AccessGetter\<close>: what is found is the object that was asked for.\<close>

locale access_getter =
  fixes get :: "'s \<Rightarrow> string \<Rightarrow> string \<Rightarrow> Access result"
    and wf :: "'s \<Rightarrow> bool"
  assumes get_identity: "wf s \<Longrightarrow> get s ns n = Inr a \<Longrightarrow> acc_Namespace a = ns \<and> acc_Name a = n"
begin

lemma get_unique:
  "wf s \<Longrightarrow> get s ns n = Inr a \<Longrightarrow> get s ns' n' = Inr a \<Longrightarrow> ns = ns' \<and> n = n'"
  using get_identity by metis

end

definition cache_ok :: "PolicyCache \<Rightarrow> bool" where
  "cache_ok c \<longleftrightarrow> (case cache_accessIndexer c of None \<Rightarrow> True | Some ix \<Rightarrow> indexer_ok ix)"

definition store_ok :: "MemoryStore \<Rightarrow> bool" where
  "store_ok s \<longleftrightarrow> (\<forall>(k, a) \<in> set s. valid_id (acc_Namespace a, acc_Name a) \<and>
     k = accessKey (acc_Namespace a) (acc_Name a)) \<and> distinct (map fst s)"

lemma PolicyCache_Get_Inr:
  "PolicyCache_Get c ns n = Inr a \<longleftrightarrow>
     (\<exists>ix. cache_accessIndexer c = Some ix \<and> idx_GetByKey ix (accessKey ns n) = Inr (Some (ObjAccess a)) \<and>
        (cache_namespace c = [] \<or> ns = cache_namespace c) \<and> acceptAccess c a)"
  by (auto simp: PolicyCache_Get_def split: option.splits sum.splits Object.splits)

interpretation policy_cache: access_getter PolicyCache_Get cache_ok
proof
  fix c ns n a
  assume ok: "cache_ok c" and get: "PolicyCache_Get c ns n = Inr a"
  from get obtain ix where ix: "cache_accessIndexer c = Some ix"
    "idx_GetByKey ix (accessKey ns n) = Inr (Some (ObjAccess a))" by (auto simp: PolicyCache_Get_Inr)
  then have "valid_id (acc_Namespace a, acc_Name a) \<and> accessKey ns n = accessKey (acc_Namespace a) (acc_Name a)"
    using ok indexer_ok_key[OF _ ix(2), of "(acc_Namespace a, acc_Name a)"]
    by (simp add: cache_ok_def object_id_def ix(1))
  then show "acc_Namespace a = ns \<and> acc_Name a = n" using accessKey_inject by metis
qed

lemma store_ok_Set:
  assumes "store_ok s" and "\<And>a. access = Some a \<Longrightarrow> valid_id (acc_Namespace a, acc_Name a)"
  shows "store_ok (MemoryStore_Set s access)"
proof (cases access)
  case (Some a)
  let ?k = "accessKey (acc_Namespace a) (acc_Name a)"
  have "set (AList.update ?k a s) \<subseteq> insert (?k, a) (set s)" by (induction s) auto
  then show ?thesis using assms Some
    by (auto simp: store_ok_def MemoryStore_Set_def distinct_update)
qed (use assms in \<open>simp add: MemoryStore_Set_def\<close>)

interpretation memory_store: access_getter MemoryStore_Get store_ok
proof
  fix s ns n a
  assume ok: "store_ok s" and get: "MemoryStore_Get s ns n = Inr a"
  then have "(accessKey ns n, a) \<in> set s"
    by (auto simp: MemoryStore_Get_def split: option.splits dest: map_of_SomeD)
  then have "valid_id (acc_Namespace a, acc_Name a) \<and> accessKey ns n = accessKey (acc_Namespace a) (acc_Name a)"
    using ok by (auto simp: store_ok_def)
  then show "acc_Namespace a = ns \<and> acc_Name a = n" using accessKey_inject by metis
qed

lemma MemoryStore_Get_Set:
  assumes "valid_id (acc_Namespace a, acc_Name a)"
  shows "MemoryStore_Get (MemoryStore_Set s (Some a)) ns n =
    (if ns = acc_Namespace a \<and> n = acc_Name a then Inr a else MemoryStore_Get s ns n)"
proof -
  have "accessKey ns n = accessKey (acc_Namespace a) (acc_Name a) \<longleftrightarrow> ns = acc_Namespace a \<and> n = acc_Name a"
    using accessKey_inject[OF assms] by auto
  then show ?thesis by (auto simp: MemoryStore_Get_def MemoryStore_Set_def update_conv)
qed

lemma MemoryStore_List_Get:
  assumes "store_ok s"
  shows "\<exists>as. MemoryStore_List s = Inr as \<and>
    (\<forall>a. a \<in> set as \<longleftrightarrow> MemoryStore_Get s (acc_Namespace a) (acc_Name a) = Inr a)"
proof -
  have "a \<in> snd ` set s \<longleftrightarrow> MemoryStore_Get s (acc_Namespace a) (acc_Name a) = Inr a" for a
  proof
    assume "a \<in> snd ` set s"
    then obtain k where "(k, a) \<in> set s" by auto
    then have "(accessKey (acc_Namespace a) (acc_Name a), a) \<in> set s" using assms by (auto simp: store_ok_def)
    then show "MemoryStore_Get s (acc_Namespace a) (acc_Name a) = Inr a"
      using assms by (simp add: MemoryStore_Get_def store_ok_def)
  next
    assume "MemoryStore_Get s (acc_Namespace a) (acc_Name a) = Inr a"
    then have "map_of s (accessKey (acc_Namespace a) (acc_Name a)) = Some a"
      by (simp add: MemoryStore_Get_def split: option.splits)
    then show "a \<in> snd ` set s" by (metis map_of_SomeD image_eqI snd_conv)
  qed
  then show ?thesis by (simp add: MemoryStore_List_def sortAccesses_def)
qed

text \<open>The interface \<^verbatim>\<open>PodLister\<close>.\<close>

locale pod_lister =
  fixes lst :: "'l \<Rightarrow> string \<Rightarrow> (string \<times> string) list \<Rightarrow> Pod list result"
    and wf :: "'l \<Rightarrow> bool"
  assumes list_selected: "wf l \<Longrightarrow> ns \<noteq> [] \<Longrightarrow> lst l ns sel = Inr ps \<Longrightarrow> p \<in> set ps \<Longrightarrow>
    pod_Namespace p = ns \<and> pod_Name p \<noteq> [] \<and> labels_match sel (m_Labels (pod_Meta p))"

definition pod_index_ok :: "InformerPodLister \<Rightarrow> bool" where
  "pod_index_ok l \<longleftrightarrow> (case l of None \<Rightarrow> True | Some ix \<Rightarrow> indexer_ok ix)"

lemma object_pods_iff: "p \<in> set (object_pods objs) \<longleftrightarrow> ObjPod p \<in> set objs"
  by (induction objs rule: object_pods.induct) auto

interpretation informer_pods: pod_lister InformerPodLister_List pod_index_ok
proof
  fix l ns sel ps p
  assume "pod_index_ok l" "ns \<noteq> []" "InformerPodLister_List l ns sel = Inr ps" "p \<in> set ps"
  then show "pod_Namespace p = ns \<and> pod_Name p \<noteq> [] \<and> labels_match sel (m_Labels (pod_Meta p))"
    unfolding pod_index_ok_def InformerPodLister_List_def indexer_ok_def
    by (auto simp: bind_result_Inr_iff object_pods_iff split: option.splits)
qed

interpretation informer_pod: pod_getter InformerPodLister_Get pod_index_ok
proof
  fix l ns n p
  assume ok: "pod_index_ok l" and get: "InformerPodLister_Get l ns n = Inr p"
  then obtain ix where ix: "l = Some ix" "idx_GetByKey ix (ns @ ''/'' @ n) = Inr (Some (ObjPod p))"
    by (auto simp: InformerPodLister_Get_def split: option.splits sum.splits Object.splits)
  then have "valid_id (pod_Namespace p, pod_Name p) \<and>
      accessKey ns n = accessKey (pod_Namespace p) (pod_Name p)"
    using ok indexer_ok_key[OF _ ix(2), of "(pod_Namespace p, pod_Name p)"]
    by (simp add: pod_index_ok_def object_id_def ix(1) accessKey_def)
  then show "pod_Namespace p = ns \<and> pod_Name p = n" using accessKey_inject by metis
qed

section \<open>A concrete indexer\<close>

text \<open>An indexer over a list of objects: the documented behaviour is satisfiable.\<close>

definition list_indexer :: "Object list \<Rightarrow> Indexer" where
  "list_indexer objs =
     \<lparr> idx_GetByKey = (\<lambda>k. Inr (find (\<lambda>obj. case object_id obj of
           None \<Rightarrow> False | Some i \<Rightarrow> accessKey (fst i) (snd i) = k) objs)),
       idx_List = objs,
       idx_ListAllByNamespace = (\<lambda>ns sel. Inr (filter (\<lambda>obj. case obj of
           ObjPod p \<Rightarrow> pod_Namespace p = ns \<and> labels_match sel (m_Labels (pod_Meta p)) | _ \<Rightarrow> False) objs)) \<rparr>"

lemma list_indexer_ok:
  assumes "\<forall>obj \<in> set objs. \<forall>i. object_id obj = Some i \<longrightarrow> valid_id i"
  shows "indexer_ok (list_indexer objs)"
proof -
  have key: "valid_id i \<and> k = accessKey (fst i) (snd i)"
    if "idx_GetByKey (list_indexer objs) k = Inr (Some obj)" "object_id obj = Some i" for k obj i
  proof -
    have "find (\<lambda>obj. case object_id obj of None \<Rightarrow> False | Some i \<Rightarrow> accessKey (fst i) (snd i) = k) objs = Some obj"
      using that(1) by (simp add: list_indexer_def)
    then have "obj \<in> set objs" "case object_id obj of None \<Rightarrow> False | Some i \<Rightarrow> accessKey (fst i) (snd i) = k"
      using find_SomeD by fast+
    then show ?thesis using that(2) assms by (cases i) simp
  qed
  have lst: "pod_Namespace p = ns \<and> pod_Name p \<noteq> [] \<and> labels_match sel (m_Labels (pod_Meta p))"
    if "idx_ListAllByNamespace (list_indexer objs) ns sel = Inr os" "ObjPod p \<in> set os" for ns sel os p
  proof -
    have "ObjPod p \<in> set objs" "pod_Namespace p = ns" "labels_match sel (m_Labels (pod_Meta p))"
      using that by (auto simp: list_indexer_def)
    moreover have "valid_id (pod_Namespace p, pod_Name p)" using assms calculation(1) by (simp add: object_id_def)
    ultimately show ?thesis by (simp add: valid_id_def)
  qed
  show ?thesis unfolding indexer_ok_def using key lst by blast
qed

end
