(* ===== verification/Locator.thy ===== *)
theory Locator
  imports AccessStore
begin

text \<open>
  Access locators (\<^verbatim>\<open>pkg/accesspolicy/resolver.go\<close>): how an SSH user name such as
  \<^verbatim>\<open>ns.access\<close>, \<^verbatim>\<open>ns.access.container\<close> or \<^verbatim>\<open>ns.access~pod\<close> identifies one Access before
  credentials are checked, and how the same name is read again, against the
  authenticated Access, when the target is resolved.  Both readings are proved to agree.
\<close>

record accessLocator =
  loc_namespace :: string
  loc_access :: string
  loc_pod :: string
  loc_container :: string

definition zero_locator :: accessLocator where
  "zero_locator = \<lparr> loc_namespace = [], loc_access = [], loc_pod = [], loc_container = [] \<rparr>"

type_synonym located = "(accessLocator \<times> Access) option result"

text \<open>
  The Go functions return \<^verbatim>\<open>(locator, access, provided, err)\<close>; here \<^verbatim>\<open>Inl err\<close> is the
  error, \<^verbatim>\<open>Inr None\<close> is not provided, and \<^verbatim>\<open>Inr (Some (locator, access))\<close> is provided.
\<close>

definition GetExtra :: "(string \<rightharpoonup> string list) \<Rightarrow> string \<Rightarrow> string" where
  "GetExtra extra key = (let values = extra_get extra key in if values = [] then [] else hd values)"

abbreviation ExtraAccessNamespace :: string where "ExtraAccessNamespace \<equiv> ''kube-ssh/access.namespace''"
abbreviation ExtraAccessName :: string where "ExtraAccessName \<equiv> ''kube-ssh/access.name''"
abbreviation ExtraCredentialUser :: string where "ExtraCredentialUser \<equiv> ''kube-ssh/access.credential.username''"
abbreviation ExtraCredentialType :: string where "ExtraCredentialType \<equiv> ''kube-ssh/access.credential.type''"

definition resolveAccessContainerLocator ::
  "(string \<Rightarrow> string \<Rightarrow> Access result) \<Rightarrow> string \<Rightarrow> string \<Rightarrow> located" where
  "resolveAccessContainerLocator get namespace remainder =
     (case LastIndexByte remainder (CHR ''.'') of
        None \<Rightarrow> Inr None
      | Some idx \<Rightarrow>
          if idx \<le> 0 \<or> idx = length remainder - 1 then Inr None
          else
            let name = take idx remainder; container = drop (idx + 1) remainder
            in case get namespace name of
                 Inl err \<Rightarrow> if errors_is err ErrAccessNotFound then Inr None else Inl err
               | Inr access \<Rightarrow>
                   Inr (Some (\<lparr> loc_namespace = namespace, loc_access = name, loc_pod = [],
                                loc_container = container \<rparr>, access)))"

definition resolveAccessLocator ::
  "(string \<Rightarrow> string \<Rightarrow> Access result) \<Rightarrow> string \<Rightarrow> located" where
  "resolveAccessLocator get sshUser =
     (case Cut sshUser (CHR ''.'') of
        (namespace, remainder, ok) \<Rightarrow>
          if \<not> ok \<or> namespace = [] \<or> remainder = [] then Inr None
          else
            case Cut remainder (CHR ''~'') of
              (name, pod, explicit) \<Rightarrow>
                if explicit then
                  (if name = [] \<or> pod = [] then Inr None
                   else case get namespace name of
                          Inl err \<Rightarrow> if errors_is err ErrAccessNotFound then Inr None else Inl err
                        | Inr access \<Rightarrow>
                            Inr (Some (\<lparr> loc_namespace = namespace, loc_access = name, loc_pod = pod,
                                         loc_container = [] \<rparr>, access)))
                else
                  (case get namespace remainder of
                     Inl err \<Rightarrow>
                       if errors_is err ErrAccessNotFound
                       then resolveAccessContainerLocator get namespace remainder
                       else Inl err
                   | Inr access \<Rightarrow>
                       Inr (Some (\<lparr> loc_namespace = namespace, loc_access = remainder, loc_pod = [],
                                    loc_container = [] \<rparr>, access))))"

definition parseAccessLocatorFor :: "string \<Rightarrow> string \<Rightarrow> string \<Rightarrow> accessLocator \<times> bool" where
  "parseAccessLocatorFor sshUser namespace name =
     (let prefix = namespace @ ''.'' @ name
      in if sshUser = prefix
         then (\<lparr> loc_namespace = namespace, loc_access = name, loc_pod = [], loc_container = [] \<rparr>, True)
         else if HasPrefix sshUser (prefix @ ''~'') then
           let pod = TrimPrefix sshUser (prefix @ ''~'')
           in (\<lparr> loc_namespace = namespace, loc_access = name, loc_pod = pod, loc_container = [] \<rparr>, pod \<noteq> [])
         else if HasPrefix sshUser (prefix @ ''.'') then
           let container = TrimPrefix sshUser (prefix @ ''.'')
           in (\<lparr> loc_namespace = namespace, loc_access = name, loc_pod = [], loc_container = container \<rparr>,
               container \<noteq> [] \<and> \<not> contains_byte container (CHR ''.''))
         else (zero_locator, False))"

definition resolveRequestedAccess ::
  "(string \<Rightarrow> string \<Rightarrow> Access result) \<Rightarrow> string \<Rightarrow> (string \<rightharpoonup> string list) \<Rightarrow> located" where
  "resolveRequestedAccess get sshUser extra =
     (let authNamespace = GetExtra extra ExtraAccessNamespace;
          authName = GetExtra extra ExtraAccessName
      in if authNamespace \<noteq> [] \<or> authName \<noteq> [] then
           if authNamespace = [] \<or> authName = []
           then Inl (BadRequest ''authenticated access identity is incomplete'' [])
           else
             case parseAccessLocatorFor sshUser authNamespace authName of
               (locator, ok) \<Rightarrow>
                 if \<not> ok
                 then Inl (BadRequest ''target %q does not match authenticated access %s/%s''
                            [sshUser, authNamespace, authName])
                 else
                   (case get authNamespace authName of
                      Inl err \<Rightarrow> if errors_is err ErrAccessNotFound then Inr None else Inl err
                    | Inr access \<Rightarrow> Inr (Some (locator, access)))
         else resolveAccessLocator get sshUser)"

section \<open>Lemmas\<close>

lemma parseAccessLocatorFor_exact:
  "parseAccessLocatorFor (ns @ CHR ''.'' # n) ns n =
     (\<lparr> loc_namespace = ns, loc_access = n, loc_pod = [], loc_container = [] \<rparr>, True)"
  by (simp add: parseAccessLocatorFor_def)

lemma parseAccessLocatorFor_pod:
  "pod \<noteq> [] \<Longrightarrow> parseAccessLocatorFor (ns @ CHR ''.'' # n @ CHR ''~'' # pod) ns n =
     (\<lparr> loc_namespace = ns, loc_access = n, loc_pod = pod, loc_container = [] \<rparr>, True)"
  by (simp add: parseAccessLocatorFor_def TrimPrefix_def Let_def)

lemma parseAccessLocatorFor_container:
  "c \<noteq> [] \<Longrightarrow> CHR ''.'' \<notin> set c \<Longrightarrow> parseAccessLocatorFor (ns @ CHR ''.'' # n @ CHR ''.'' # c) ns n =
     (\<lparr> loc_namespace = ns, loc_access = n, loc_pod = [], loc_container = c \<rparr>, True)"
  by (simp add: parseAccessLocatorFor_def TrimPrefix_def Let_def contains_byte_def)

text \<open>What a provided locator looks like: one of the three forms of the user name.\<close>

lemma resolveAccessContainerLocator_provided:
  assumes "resolveAccessContainerLocator get ns rem = Inr (Some (loc, a))"
  shows "\<exists>n c. rem = n @ CHR ''.'' # c \<and> n \<noteq> [] \<and> c \<noteq> [] \<and> CHR ''.'' \<notin> set c \<and> get ns n = Inr a \<and>
    loc = \<lparr> loc_namespace = ns, loc_access = n, loc_pod = [], loc_container = c \<rparr>"
proof -
  obtain i where i: "LastIndexByte rem (CHR ''.'') = Some i" "0 < i" "i \<noteq> length rem - 1"
    and g: "get ns (take i rem) = Inr a"
    and l: "loc = \<lparr> loc_namespace = ns, loc_access = take i rem, loc_pod = [], loc_container = drop (i + 1) rem \<rparr>"
    using assms by (auto simp: resolveAccessContainerLocator_def Let_def split: option.splits if_splits sum.splits)
  have s: "rem = take i rem @ CHR ''.'' # drop (Suc i) rem" "CHR ''.'' \<notin> set (drop (Suc i) rem)"
    using LastIndexByte_SomeD[OF i(1)] by auto
  have "length rem = length (take i rem) + Suc (length (drop (Suc i) rem))"
    by (subst s(1)) simp
  then have "i < length rem" "drop (Suc i) rem \<noteq> []" using i(2,3) by auto
  then have "take i rem \<noteq> []" using i(2) by auto
  then show ?thesis using s g l \<open>drop (Suc i) rem \<noteq> []\<close>
    by (intro exI[of _ "take i rem"] exI[of _ "drop (Suc i) rem"]) simp
qed

lemma resolveAccessLocator_provided:
  assumes "resolveAccessLocator get u = Inr (Some (loc, a))"
  obtains (exact) ns n where "u = ns @ CHR ''.'' # n" "ns \<noteq> []" "n \<noteq> []" "CHR ''.'' \<notin> set ns"
      "get ns n = Inr a" "loc = \<lparr> loc_namespace = ns, loc_access = n, loc_pod = [], loc_container = [] \<rparr>"
    | (pod) ns n p where "u = ns @ CHR ''.'' # n @ CHR ''~'' # p" "ns \<noteq> []" "n \<noteq> []" "p \<noteq> []"
      "CHR ''.'' \<notin> set ns" "get ns n = Inr a"
      "loc = \<lparr> loc_namespace = ns, loc_access = n, loc_pod = p, loc_container = [] \<rparr>"
    | (container) ns n c where "u = ns @ CHR ''.'' # n @ CHR ''.'' # c" "ns \<noteq> []" "n \<noteq> []" "c \<noteq> []"
      "CHR ''.'' \<notin> set ns" "CHR ''.'' \<notin> set c" "get ns n = Inr a"
      "loc = \<lparr> loc_namespace = ns, loc_access = n, loc_pod = [], loc_container = c \<rparr>"
proof -
  obtain ns rem ok where cut: "Cut u (CHR ''.'') = (ns, rem, ok)" by (metis prod_cases3)
  then have ok: "ok" "ns \<noteq> []" "rem \<noteq> []" using assms by (auto simp: resolveAccessLocator_def split: if_splits)
  then have u: "u = ns @ CHR ''.'' # rem" "CHR ''.'' \<notin> set ns" using cut by (auto simp: Cut_found_iff)
  obtain n p e where cut2: "Cut rem (CHR ''~'') = (n, p, e)" by (metis prod_cases3)
  show ?thesis
  proof (cases e)
    case True
    then have "rem = n @ CHR ''~'' # p" using cut2 by (simp add: Cut_found_iff)
    moreover have "n \<noteq> []" "p \<noteq> []" "get ns n = Inr a"
      "loc = \<lparr> loc_namespace = ns, loc_access = n, loc_pod = p, loc_container = [] \<rparr>"
      using assms cut cut2 ok True by (auto simp: resolveAccessLocator_def split: if_splits sum.splits)
    ultimately show ?thesis using pod u ok by simp
  next
    case False
    show ?thesis
    proof (cases "get ns rem")
      case (Inr b)
      then show ?thesis using exact assms cut cut2 ok False u by (simp add: resolveAccessLocator_def)
    next
      case (Inl err)
      then have "resolveAccessContainerLocator get ns rem = Inr (Some (loc, a))"
        using assms cut cut2 ok False by (auto simp: resolveAccessLocator_def split: if_splits)
      from resolveAccessContainerLocator_provided[OF this] show ?thesis using container u ok by auto
    qed
  qed
qed

text \<open>The client's view of an \<^verbatim>\<open>AccessGetter\<close>.\<close>

context access_getter
begin

lemma resolveAccessLocator_identity:
  assumes "wf s" "resolveAccessLocator (get s) u = Inr (Some (loc, a))"
  shows "acc_Namespace a = loc_namespace loc \<and> acc_Name a = loc_access loc \<and>
    acc_Namespace a \<noteq> [] \<and> acc_Name a \<noteq> [] \<and> get s (loc_namespace loc) (loc_access loc) = Inr a"
  using assms(2)
  by (cases rule: resolveAccessLocator_provided) (use assms(1) get_identity in auto)

lemma parse_agrees:
  assumes "wf s" "resolveAccessLocator (get s) u = Inr (Some (loc, a))"
  shows "parseAccessLocatorFor u (acc_Namespace a) (acc_Name a) = (loc, True)"
  using assms(2)
proof (cases rule: resolveAccessLocator_provided)
  case (exact ns n)
  then show ?thesis using get_identity[OF assms(1)] by (simp add: parseAccessLocatorFor_exact)
next
  case (pod ns n p)
  then show ?thesis using get_identity[OF assms(1)] by (simp add: parseAccessLocatorFor_pod)
next
  case (container ns n c)
  then show ?thesis using get_identity[OF assms(1)] by (simp add: parseAccessLocatorFor_container)
qed

lemma requested_is_located:
  assumes "wf s" "resolveAccessLocator (get s) u = Inr (Some (loc, a))"
    and "GetExtra extra ExtraAccessNamespace = acc_Namespace a" "GetExtra extra ExtraAccessName = acc_Name a"
  shows "resolveRequestedAccess (get s) u extra = Inr (Some (loc, a))"
proof -
  have id: "acc_Namespace a = loc_namespace loc" "acc_Name a = loc_access loc" "acc_Namespace a \<noteq> []"
    "acc_Name a \<noteq> []" "get s (loc_namespace loc) (loc_access loc) = Inr a"
    using resolveAccessLocator_identity[OF assms(1,2)] by auto
  show ?thesis using parse_agrees[OF assms(1,2)] id assms(3,4) by (simp add: resolveRequestedAccess_def Let_def)
qed

lemma requested_identity:
  assumes "wf s" "resolveRequestedAccess (get s) u extra = Inr (Some (loc, a))"
  shows "acc_Namespace a = loc_namespace loc \<and> acc_Name a = loc_access loc \<and>
    get s (acc_Namespace a) (acc_Name a) = Inr a"
proof (cases "GetExtra extra ExtraAccessNamespace \<noteq> [] \<or> GetExtra extra ExtraAccessName \<noteq> []")
  case True
  then have p: "parseAccessLocatorFor u (GetExtra extra ExtraAccessNamespace) (GetExtra extra ExtraAccessName) = (loc, True)"
    and g: "get s (GetExtra extra ExtraAccessNamespace) (GetExtra extra ExtraAccessName) = Inr a"
    using assms(2) by (auto simp: resolveRequestedAccess_def Let_def split: if_splits sum.splits prod.splits)
  have "loc_namespace loc = GetExtra extra ExtraAccessNamespace \<and> loc_access loc = GetExtra extra ExtraAccessName"
    using p by (auto simp: parseAccessLocatorFor_def Let_def split: if_splits)
  then show ?thesis using get_identity[OF assms(1) g] g by simp
next
  case False
  then have "resolveAccessLocator (get s) u = Inr (Some (loc, a))"
    using assms(2) by (simp add: resolveRequestedAccess_def Let_def)
  then show ?thesis using resolveAccessLocator_identity[OF assms(1)] by simp
qed

text \<open>
  An authenticated Access identity confines resolution: whatever the user name,
  only that Access is ever used.
\<close>

lemma requested_confined:
  assumes "wf s" "resolveRequestedAccess (get s) u extra = Inr (Some (loc, a))"
    and "GetExtra extra ExtraAccessName \<noteq> []"
  shows "acc_Namespace a = GetExtra extra ExtraAccessNamespace \<and> acc_Name a = GetExtra extra ExtraAccessName \<and>
    loc_namespace loc = acc_Namespace a \<and> loc_access loc = acc_Name a"
proof -
  have p: "parseAccessLocatorFor u (GetExtra extra ExtraAccessNamespace) (GetExtra extra ExtraAccessName) = (loc, True)"
    and g: "get s (GetExtra extra ExtraAccessNamespace) (GetExtra extra ExtraAccessName) = Inr a"
    using assms(2,3) by (auto simp: resolveRequestedAccess_def Let_def split: if_splits sum.splits prod.splits)
  have "loc_namespace loc = GetExtra extra ExtraAccessNamespace \<and> loc_access loc = GetExtra extra ExtraAccessName"
    using p by (auto simp: parseAccessLocatorFor_def Let_def split: if_splits)
  then show ?thesis using get_identity[OF assms(1) g] by simp
qed

end

lemma parseAccessLocatorFor_True:
  assumes "parseAccessLocatorFor u ns n = (loc, True)"
  shows "loc_namespace loc = ns \<and> loc_access loc = n \<and>
    u = ns @ CHR ''.'' # n @ (if loc_pod loc \<noteq> [] then CHR ''~'' # loc_pod loc
         else if loc_container loc \<noteq> [] then CHR ''.'' # loc_container loc else [])"
  using assms by (auto simp: parseAccessLocatorFor_def TrimPrefix_def Let_def prefix_def split: if_splits)

text \<open>
  Whichever way the user name is read, it is the name of the Access that is used, followed by the Pod or
  the container it asks for.
\<close>

definition locator_name :: "accessLocator \<Rightarrow> string" where
  "locator_name loc = loc_namespace loc @ CHR ''.'' # loc_access loc @
     (if loc_pod loc \<noteq> [] then CHR ''~'' # loc_pod loc
      else if loc_container loc \<noteq> [] then CHR ''.'' # loc_container loc else [])"

lemma resolveRequestedAccess_username:
  assumes "resolveRequestedAccess get u extra = Inr (Some (loc, a))"
  shows "u = locator_name loc"
proof (cases "GetExtra extra ExtraAccessNamespace \<noteq> [] \<or> GetExtra extra ExtraAccessName \<noteq> []")
  case True
  then have "parseAccessLocatorFor u (GetExtra extra ExtraAccessNamespace) (GetExtra extra ExtraAccessName) = (loc, True)"
    using assms by (auto simp: resolveRequestedAccess_def Let_def split: if_splits sum.splits prod.splits)
  from parseAccessLocatorFor_True[OF this] show ?thesis unfolding locator_name_def by simp
next
  case False
  then have "resolveAccessLocator get u = Inr (Some (loc, a))"
    using assms by (simp add: resolveRequestedAccess_def Let_def)
  then show ?thesis by (cases rule: resolveAccessLocator_provided) (simp_all add: locator_name_def)
qed

end
