(* ===== verification/Strategy.thy ===== *)
theory Strategy
  imports Locator
begin

text \<open>
  Target selection (\<^verbatim>\<open>pkg/accesspolicy/strategy.go\<close>): the selector's state is its three maps
  (round-robin counters, open connections, session affinity); every method is a state
  transformer, as it runs under the selector's mutex.  The clock and the random source
  are arguments.  A Go runtime panic is the error value \<^verbatim>\<open>Panic\<close>.  A \<^verbatim>\<open>release\<close> closure is
  the connection key it captures and the state of its \<^verbatim>\<open>sync.Once\<close>.  Integers are Go's
  64-bit \<^verbatim>\<open>int\<close>: every sum, difference and product wraps.
\<close>

section \<open>State\<close>

record affinityEntry =
  ae_targetKey :: string
  ae_expiresAt :: int

record strategySelector =
  ss_roundRobin :: "string \<rightharpoonup> int"
  ss_connections :: "string \<rightharpoonup> int"
  ss_affinity :: "string \<rightharpoonup> affinityEntry"

record targetCandidate =
  tc_key :: string
  tc_weight :: int
  tc_createdAt :: int

record release =
  rel_key :: string
  rel_done :: bool

record targetSelection =
  ts_index :: nat
  ts_release :: release

record podSelection =
  ps_pod :: Pod
  ps_release :: release

record endpointSelection =
  es_endpoint :: AccessEndpoint
  es_release :: release

definition newStrategySelector :: strategySelector where
  "newStrategySelector =
     \<lparr> ss_roundRobin = Map.empty, ss_connections = Map.empty, ss_affinity = Map.empty \<rparr>"

definition int_get :: "(string \<rightharpoonup> int) \<Rightarrow> string \<Rightarrow> int" where
  "int_get m k = (case m k of None \<Rightarrow> 0 | Some v \<Rightarrow> v)"

section \<open>Connection tracking\<close>

definition targetConnectionKey :: "string \<Rightarrow> string \<Rightarrow> string" where
  "targetConnectionKey accessKeyValue targetKey = accessKeyValue @ [CHR 0x00] @ targetKey"

definition trackTargetLocked ::
  "strategySelector \<Rightarrow> string \<Rightarrow> string \<Rightarrow> nat \<Rightarrow> strategySelector \<times> targetSelection" where
  "trackTargetLocked s accessKeyValue targetKey index =
     (let connectionKey = targetConnectionKey accessKeyValue targetKey
      in (s\<lparr> ss_connections := (ss_connections s)
              (connectionKey \<mapsto> wrap64 (int_get (ss_connections s) connectionKey + 1)) \<rparr>,
          \<lparr> ts_index = index, ts_release = \<lparr> rel_key = connectionKey, rel_done = False \<rparr> \<rparr>))"

definition release_run :: "strategySelector \<Rightarrow> release \<Rightarrow> strategySelector \<times> release" where
  "release_run s r =
     (if rel_done r then (s, r)
      else
        (if int_get (ss_connections s) (rel_key r) = 1
         then s\<lparr> ss_connections := (ss_connections s)(rel_key r := None) \<rparr>
         else s\<lparr> ss_connections := (ss_connections s)
                (rel_key r \<mapsto> wrap64 (int_get (ss_connections s) (rel_key r) - 1)) \<rparr>,
         r\<lparr> rel_done := True \<rparr>))"

section \<open>Candidates\<close>

definition pod_order :: "Pod \<Rightarrow> string \<times> string" where
  "pod_order p = (pod_Namespace p, pod_Name p)"

definition sortPods :: "Pod list \<Rightarrow> Pod list" where
  "sortPods pods = sort_key pod_order pods"

definition podReady :: "Pod \<Rightarrow> bool" where
  "podReady pod = (\<exists>c \<in> set (pod_Conditions pod). pc_Type c = ''Ready'' \<and> pc_Status c = ''True'')"

definition activePods :: "Pod list \<Rightarrow> Pod list" where
  "activePods pods =
     sortPods (filter (\<lambda>pod. \<not> (m_DeletionTimestamp (pod_Meta pod) \<noteq> None \<or>
                              pod_Phase pod = ''Succeeded'' \<or> pod_Phase pod = ''Failed'')) pods)"

definition candidatePods :: "Pod list \<Rightarrow> Pod list" where
  "candidatePods pods =
     (let active = activePods pods; ready = filter podReady active
      in sortPods (if length ready > 0 then ready else active))"

definition selectorMatches ::
  "((string \<times> string) list \<Rightarrow> (string \<rightharpoonup> string) \<Rightarrow> bool) \<Rightarrow> (string \<times> string) list \<Rightarrow> (string \<rightharpoonup> string) \<Rightarrow> bool" where
  "selectorMatches lm selector values = (if length selector = 0 then True else lm selector values)"

definition podWeight ::
  "((string \<times> string) list \<Rightarrow> (string \<rightharpoonup> string) \<Rightarrow> bool) \<Rightarrow> Access \<Rightarrow> Pod \<Rightarrow> int" where
  "podWeight lm access pod =
     (case spec_Strategy (acc_Spec access) of
        None \<Rightarrow> 1
      | Some strategy \<Rightarrow>
          (case find (\<lambda>w. selectorMatches lm (sw_Selector w) (m_Labels (pod_Meta pod))) (strat_Weights strategy) of
             Some w \<Rightarrow> if sw_Weight w > 0 then sw_Weight w else 1
           | None \<Rightarrow> 1))"

definition endpointWeight :: "AccessEndpoint \<Rightarrow> int" where
  "endpointWeight e = (case ep_Weight e of None \<Rightarrow> 1 | Some w \<Rightarrow> w)"

definition strategyType :: "Access \<Rightarrow> AccessStrategyType" where
  "strategyType access =
     (case spec_Strategy (acc_Spec access) of
        None \<Rightarrow> AccessStrategyTypeRandom
      | Some s \<Rightarrow> if strat_Type s = [] then AccessStrategyTypeRandom else strat_Type s)"

definition endpointStrategyType :: "Access \<Rightarrow> AccessStrategyType" where
  "endpointStrategyType access =
     (let strategy = strategyType access
      in if strategy = AccessStrategyTypeRoundRobin \<or> strategy = AccessStrategyTypeLeastConnections
         then strategy else AccessStrategyTypeRandom)"

definition podTargetKey :: "string \<Rightarrow> Pod \<Rightarrow> string" where
  "podTargetKey namespace pod =
     (if pod_Namespace pod \<noteq> [] then pod_Namespace pod else namespace) @ ''/'' @ pod_Name pod"

section \<open>Affinity\<close>

definition accessAffinityKey :: "Access \<Rightarrow> ResolveInput \<Rightarrow> string" where
  "accessAffinityKey access req =
     (case spec_Strategy (acc_Spec access) of
        None \<Rightarrow> []
      | Some strategy \<Rightarrow>
          (case strat_SessionAffinity strategy of
             None \<Rightarrow> []
           | Some aff \<Rightarrow>
               let t = aff_Type aff;
                   v = (if t = AccessSessionAffinityTypeUser then ri_UserName req
                        else if t = AccessSessionAffinityTypeCredential
                        then GetExtra (ri_AuthExtra req) ExtraCredentialUser
                        else if t = AccessSessionAffinityTypeSourceIP then ri_SourceIP req
                        else if t = AccessSessionAffinityTypeSSHUser \<or> t = [] then ri_SSHUser req
                        else [])
               in if v = [] then []
                  else accessKey (acc_Namespace access) (acc_Name access) @ [CHR 0x00] @ t @ [CHR 0x00] @ v))"

abbreviation nanoseconds_per_second :: int where "nanoseconds_per_second \<equiv> 1000000000"

definition affinityTimeout :: "Access \<Rightarrow> int" where
  "affinityTimeout access =
     (case spec_Strategy (acc_Spec access) of
        None \<Rightarrow> 3600 * nanoseconds_per_second
      | Some strategy \<Rightarrow>
          (case strat_SessionAffinity strategy of
             None \<Rightarrow> 3600 * nanoseconds_per_second
           | Some aff \<Rightarrow>
               (case aff_TimeoutSeconds aff of
                  None \<Rightarrow> 3600 * nanoseconds_per_second
                | Some t \<Rightarrow> wrap64 (t * nanoseconds_per_second))))"

fun candidate_with_key :: "string \<Rightarrow> nat \<Rightarrow> targetCandidate list \<Rightarrow> nat option" where
  "candidate_with_key k i [] = None"
| "candidate_with_key k i (c # cs) = (if tc_key c = k then Some i else candidate_with_key k (Suc i) cs)"

definition affinityCandidateIndex ::
  "strategySelector \<Rightarrow> string \<Rightarrow> targetCandidate list \<Rightarrow> int \<Rightarrow> strategySelector \<times> nat option" where
  "affinityCandidateIndex s affinityKey candidates now =
     (if affinityKey = [] then (s, None)
      else
        case ss_affinity s affinityKey of
          None \<Rightarrow> (s, None)
        | Some entry \<Rightarrow>
            if ae_expiresAt entry \<noteq> 0 \<and> now > ae_expiresAt entry
            then (s\<lparr> ss_affinity := (ss_affinity s)(affinityKey := None) \<rparr>, None)
            else
              (case candidate_with_key (ae_targetKey entry) 0 candidates of
                 Some i \<Rightarrow> (s, Some i)
               | None \<Rightarrow> (s\<lparr> ss_affinity := (ss_affinity s)(affinityKey := None) \<rparr>, None)))"

section \<open>The algorithms\<close>

definition totalCandidateWeight :: "targetCandidate list \<Rightarrow> int" where
  "totalCandidateWeight candidates = foldl (\<lambda>total c. wrap64 (total + tc_weight c)) 0 candidates"

fun weighted_loop :: "targetCandidate list \<Rightarrow> int \<Rightarrow> nat \<Rightarrow> nat" where
  "weighted_loop [] weightIndex i = 0"
| "weighted_loop (c # cs) weightIndex i =
     (if weightIndex < tc_weight c then i
      else weighted_loop cs (wrap64 (weightIndex - tc_weight c)) (Suc i))"

definition weightedCandidateIndex :: "targetCandidate list \<Rightarrow> int \<Rightarrow> nat" where
  "weightedCandidateIndex candidates weightIndex = weighted_loop candidates weightIndex 0"

definition roundRobinCandidateIndex ::
  "strategySelector \<Rightarrow> string \<Rightarrow> targetCandidate list \<Rightarrow> (strategySelector \<times> nat) result" where
  "roundRobinCandidateIndex s key candidates =
     (let total = totalCandidateWeight candidates; counter = int_get (ss_roundRobin s) key
      in if total = 0 then Inl (Panic ''integer divide by zero'')
         else Inr (s\<lparr> ss_roundRobin := (ss_roundRobin s)(key \<mapsto> wrap64 (counter + 1)) \<rparr>,
                   weightedCandidateIndex candidates (go_rem counter total)))"

definition randomCandidateIndex :: "(int \<Rightarrow> int) \<Rightarrow> targetCandidate list \<Rightarrow> nat result" where
  "randomCandidateIndex intn candidates =
     (let total = totalCandidateWeight candidates
      in if total \<le> 0 then Inl (Panic ''invalid argument to Intn'')
         else Inr (weightedCandidateIndex candidates (intn total)))"

text \<open>The loop of the three comparing algorithms: keep the better of two candidates.\<close>

fun best_loop :: "('c \<Rightarrow> 'c \<Rightarrow> bool) \<Rightarrow> 'c list \<Rightarrow> nat \<Rightarrow> nat list \<Rightarrow> nat" where
  "best_loop better cs best [] = best"
| "best_loop better cs best (i # rest) =
     best_loop better cs (if better (cs ! i) (cs ! best) then i else best) rest"

definition fewer_connections ::
  "strategySelector \<Rightarrow> string \<Rightarrow> targetCandidate \<Rightarrow> targetCandidate \<Rightarrow> bool" where
  "fewer_connections s accessKeyValue c best =
     (let left = wrap64 (int_get (ss_connections s) (targetConnectionKey accessKeyValue (tc_key c)) * tc_weight best);
          right = wrap64 (int_get (ss_connections s) (targetConnectionKey accessKeyValue (tc_key best)) * tc_weight c)
      in left < right \<or> left = right \<and> tc_key c < tc_key best)"

definition leastConnectionsCandidateIndex :: "strategySelector \<Rightarrow> string \<Rightarrow> targetCandidate list \<Rightarrow> nat" where
  "leastConnectionsCandidateIndex s accessKeyValue candidates =
     best_loop (fewer_connections s accessKeyValue) candidates 0 [1..<length candidates]"

definition newer :: "targetCandidate \<Rightarrow> targetCandidate \<Rightarrow> bool" where
  "newer c best \<longleftrightarrow> tc_createdAt c > tc_createdAt best \<or>
     tc_createdAt c = tc_createdAt best \<and> tc_key c < tc_key best"

definition newestCandidateIndex :: "targetCandidate list \<Rightarrow> nat" where
  "newestCandidateIndex candidates = best_loop newer candidates 0 [1..<length candidates]"

definition older :: "targetCandidate \<Rightarrow> targetCandidate \<Rightarrow> bool" where
  "older c best \<longleftrightarrow> tc_createdAt c < tc_createdAt best \<or>
     tc_createdAt c = tc_createdAt best \<and> tc_key c < tc_key best"

definition oldestCandidateIndex :: "targetCandidate list \<Rightarrow> nat" where
  "oldestCandidateIndex candidates = best_loop older candidates 0 [1..<length candidates]"

section \<open>Selection\<close>

definition strategy_index ::
  "(int \<Rightarrow> int) \<Rightarrow> strategySelector \<Rightarrow> string \<Rightarrow> targetCandidate list \<Rightarrow> AccessStrategyType \<Rightarrow>
    (strategySelector \<times> nat) result" where
  "strategy_index intn s accessKeyValue candidates strategy =
     (if strategy = AccessStrategyTypeRoundRobin then roundRobinCandidateIndex s accessKeyValue candidates
      else if strategy = AccessStrategyTypeLeastConnections
      then Inr (s, leastConnectionsCandidateIndex s accessKeyValue candidates)
      else if strategy = AccessStrategyTypeNewest then Inr (s, newestCandidateIndex candidates)
      else if strategy = AccessStrategyTypeOldest then Inr (s, oldestCandidateIndex candidates)
      else bind_result (randomCandidateIndex intn candidates) (\<lambda>index. Inr (s, index)))"

definition selectTarget ::
  "(int \<Rightarrow> int) \<Rightarrow> int \<Rightarrow> strategySelector \<Rightarrow> Access \<Rightarrow> ResolveInput \<Rightarrow> targetCandidate list \<Rightarrow>
    AccessStrategyType \<Rightarrow> (strategySelector \<times> targetSelection) result" where
  "selectTarget intn now s access req candidates strategy =
     (let accessKeyValue = accessKey (acc_Namespace access) (acc_Name access);
          affinityKey = accessAffinityKey access req
      in case affinityCandidateIndex s affinityKey candidates now of
           (s1, Some index) \<Rightarrow> Inr (trackTargetLocked s1 accessKeyValue (tc_key (candidates ! index)) index)
         | (s1, None) \<Rightarrow>
             bind_result (strategy_index intn s1 accessKeyValue candidates strategy)
               (\<lambda>(s2, index).
                  let s3 = (if affinityKey \<noteq> []
                            then s2\<lparr> ss_affinity := (ss_affinity s2)(affinityKey \<mapsto>
                                     \<lparr> ae_targetKey = tc_key (candidates ! index),
                                       ae_expiresAt = now + affinityTimeout access \<rparr>) \<rparr>
                            else s2)
                  in Inr (trackTargetLocked s3 accessKeyValue (tc_key (candidates ! index)) index)))"

definition pod_candidate ::
  "((string \<times> string) list \<Rightarrow> (string \<rightharpoonup> string) \<Rightarrow> bool) \<Rightarrow> Access \<Rightarrow> Pod \<Rightarrow> targetCandidate" where
  "pod_candidate lm access pod =
     \<lparr> tc_key = podTargetKey (acc_Namespace access) pod, tc_weight = podWeight lm access pod,
       tc_createdAt = m_CreationTimestamp (pod_Meta pod) \<rparr>"

definition selectPod ::
  "((string \<times> string) list \<Rightarrow> (string \<rightharpoonup> string) \<Rightarrow> bool) \<Rightarrow> (int \<Rightarrow> int) \<Rightarrow> int \<Rightarrow> strategySelector \<Rightarrow>
    Access \<Rightarrow> Pod list \<Rightarrow> ResolveInput \<Rightarrow> (strategySelector \<times> podSelection option) result" where
  "selectPod lm intn now s access pods req =
     (let pods' = candidatePods pods
      in if length pods' = 0 then Inr (s, None)
         else
           bind_result (selectTarget intn now s access req (map (pod_candidate lm access) pods') (strategyType access))
             (\<lambda>(s', selection). Inr (s', Some \<lparr> ps_pod = pods' ! ts_index selection,
                                              ps_release = ts_release selection \<rparr>)))"

definition selectPodByName ::
  "strategySelector \<Rightarrow> Access \<Rightarrow> Pod list \<Rightarrow> string \<Rightarrow> strategySelector \<times> podSelection option" where
  "selectPodByName s access pods name =
     (case find (\<lambda>pod. pod_Name pod = name) (activePods pods) of
        None \<Rightarrow> (s, None)
      | Some pod \<Rightarrow>
          (case trackTargetLocked s (accessKey (acc_Namespace access) (acc_Name access))
                  (podTargetKey (acc_Namespace access) pod) 0 of
             (s', selection) \<Rightarrow> (s', Some \<lparr> ps_pod = pod, ps_release = ts_release selection \<rparr>)))"

definition endpoint_candidate :: "AccessEndpoint \<Rightarrow> targetCandidate" where
  "endpoint_candidate e = \<lparr> tc_key = ep_Name e, tc_weight = endpointWeight e, tc_createdAt = 0 \<rparr>"

definition selectEndpoint ::
  "(int \<Rightarrow> int) \<Rightarrow> int \<Rightarrow> strategySelector \<Rightarrow> Access \<Rightarrow> ResolveInput \<Rightarrow>
    (strategySelector \<times> endpointSelection option) result" where
  "selectEndpoint intn now s access req =
     (if length (spec_Endpoints (acc_Spec access)) = 0 then Inr (s, None)
      else
        let endpoints = sort_key ep_Name (spec_Endpoints (acc_Spec access))
        in bind_result (selectTarget intn now s access req (map endpoint_candidate endpoints) (endpointStrategyType access))
             (\<lambda>(s', selection). Inr (s', Some \<lparr> es_endpoint = endpoints ! ts_index selection,
                                              es_release = ts_release selection \<rparr>)))"

end
