(* ===== verification/StrategyLaws.thy ===== *)
theory StrategyLaws
  imports Strategy Machines
begin

text \<open>
  Correctness of target selection: indices are in range and no panic occurs for positive
  weights, weighted round robin is fair, the comparing strategies are optimal, session
  affinity is sticky, Pods are chosen among active and preferably ready ones, and the
  connection counters equal the number of connections that are open.
\<close>

section \<open>Weights\<close>

definition good_weights :: "targetCandidate list \<Rightarrow> bool" where
  "good_weights cs \<longleftrightarrow> length cs < 2 ^ 32 \<and> (\<forall>c \<in> set cs. 1 \<le> tc_weight c \<and> tc_weight c < 2 ^ 31)"

abbreviation weight_sum :: "targetCandidate list \<Rightarrow> int" where
  "weight_sum cs \<equiv> sum_list (map tc_weight cs)"

lemma weight_sum_bound:
  assumes "\<forall>c \<in> set cs. 1 \<le> tc_weight c \<and> tc_weight c < 2 ^ 31"
  shows "int (length cs) \<le> weight_sum cs" "weight_sum cs \<le> int (length cs) * 2 ^ 31"
  using assms by (induction cs) auto

lemma good_weights_sum:
  assumes "good_weights cs"
  shows "0 \<le> weight_sum cs" "weight_sum cs < 2 ^ 63" "cs \<noteq> [] \<Longrightarrow> 0 < weight_sum cs"
proof -
  have len: "int (length cs) \<le> 2 ^ 32 - 1" using assms by (simp add: good_weights_def)
  have b: "int (length cs) \<le> weight_sum cs" "weight_sum cs \<le> int (length cs) * 2 ^ 31"
    using weight_sum_bound[of cs] assms by (auto simp: good_weights_def)
  show "0 \<le> weight_sum cs" using b(1) by simp
  show "weight_sum cs < 2 ^ 63" using b(2) len by simp
  show "cs \<noteq> [] \<Longrightarrow> 0 < weight_sum cs" using b(1) by (cases cs) auto
qed

lemma good_weights_Cons: "good_weights (c # cs) \<Longrightarrow> good_weights cs"
  by (simp add: good_weights_def)

lemma total_from:
  assumes "\<forall>c \<in> set cs. 0 \<le> tc_weight c" "0 \<le> t" "t + weight_sum cs < 2 ^ 63"
  shows "foldl (\<lambda>total c. wrap64 (total + tc_weight c)) t cs = t + weight_sum cs"
  using assms
proof (induction cs arbitrary: t)
  case (Cons c cs)
  have "0 \<le> weight_sum cs" using Cons.prems(1) by (induction cs) auto
  then have "fits64 (t + tc_weight c)" using Cons.prems by (simp add: fits64_def)
  then show ?case using Cons.IH[of "t + tc_weight c"] Cons.prems by (simp add: algebra_simps)
qed simp

lemma totalCandidateWeight_sum: "good_weights cs \<Longrightarrow> totalCandidateWeight cs = weight_sum cs"
  unfolding totalCandidateWeight_def using total_from[of cs 0] good_weights_sum[of cs]
  by (force simp: good_weights_def)

lemma weighted_loop_skip:
  assumes "good_weights (c # cs)" "tc_weight c \<le> w" "w < tc_weight c + weight_sum cs"
  shows "weighted_loop (c # cs) w i = weighted_loop cs (w - tc_weight c) (Suc i)"
    "0 \<le> w - tc_weight c" "w - tc_weight c < weight_sum cs"
proof -
  have "weight_sum cs < 2 ^ 63" using good_weights_sum(2) good_weights_Cons[OF assms(1)] by blast
  then have "fits64 (w - tc_weight c)" using assms(2,3) by (simp add: fits64_def)
  then show "weighted_loop (c # cs) w i = weighted_loop cs (w - tc_weight c) (Suc i)"
    using assms(2) by simp
qed (use assms in auto)

lemma weighted_loop_shift:
  assumes "good_weights cs" "0 \<le> w" "w < weight_sum cs"
  shows "weighted_loop cs w i = i + weighted_loop cs w 0 \<and> weighted_loop cs w 0 < length cs"
  using assms
proof (induction cs arbitrary: w i)
  case (Cons c cs)
  show ?case
  proof (cases "w < tc_weight c")
    case False
    then have sk: "weighted_loop (c # cs) w j = weighted_loop cs (w - tc_weight c) (Suc j)"
      "0 \<le> w - tc_weight c" "w - tc_weight c < weight_sum cs" for j
      using weighted_loop_skip[OF Cons.prems(1), of w] Cons.prems(3) by auto
    have ih: "weighted_loop cs (w - tc_weight c) j = j + weighted_loop cs (w - tc_weight c) 0 \<and>
      weighted_loop cs (w - tc_weight c) 0 < length cs" for j
      by (rule Cons.IH[OF good_weights_Cons[OF Cons.prems(1)] sk(2,3)])
    show ?thesis using ih[of "Suc i"] ih[of "Suc 0"] by (simp only: sk(1)) simp
  qed simp
qed simp

text \<open>Over one round of the ruler every candidate is hit exactly as often as its weight says.\<close>

lemma upt_add_map: "[0..<a + b] = [0..<a] @ map (\<lambda>j. a + j) [0..<b]"
  by (induction b) simp_all

lemma count_list_map_Suc: "count_list (map (\<lambda>j. Suc (f j)) xs) (Suc k) = count_list (map f xs) k"
  by (induction xs) auto

lemma count_list_map_const: "count_list (map (\<lambda>j. c) xs) k = (if c = k then length xs else 0)"
  by (induction xs) auto

lemma weighted_round_count:
  assumes "good_weights cs" "k < length cs"
  shows "count_list (map (\<lambda>j. weighted_loop cs (int j) 0) [0..<nat (weight_sum cs)]) k = nat (tc_weight (cs ! k))"
  using assms
proof (induction cs arbitrary: k)
  case (Cons c cs)
  let ?a = "nat (tc_weight c)" and ?b = "nat (weight_sum cs)"
  let ?f = "\<lambda>j. weighted_loop (c # cs) (int j) 0"
  have g: "good_weights cs" using Cons.prems(1) by (rule good_weights_Cons)
  have w: "1 \<le> tc_weight c" using Cons.prems(1) by (simp add: good_weights_def)
  have s: "0 \<le> weight_sum cs" using good_weights_sum(1)[OF g] .
  have n: "nat (weight_sum (c # cs)) = ?a + ?b" using w s by (simp add: nat_add_distrib)
  have first: "map ?f [0..<?a] = map (\<lambda>_. 0) [0..<?a]" by (intro map_cong) auto
  have second: "map (\<lambda>j. ?f (?a + j)) [0..<?b] = map (\<lambda>j. Suc (weighted_loop cs (int j) 0)) [0..<?b]"
  proof (intro map_cong refl)
    fix j assume "j \<in> set [0..<?b]"
    then have j: "int j < weight_sum cs" by auto
    have "?f (?a + j) = weighted_loop cs (int j) (Suc 0)"
      using weighted_loop_skip(1)[OF Cons.prems(1), of "int (?a + j)" 0] w j by simp
    then show "?f (?a + j) = Suc (weighted_loop cs (int j) 0)"
      using weighted_loop_shift[OF g, of "int j" "Suc 0"] j by simp
  qed
  have split: "map ?f [0..<?a + ?b] = map (\<lambda>_. 0) [0..<?a] @ map (\<lambda>j. Suc (weighted_loop cs (int j) 0)) [0..<?b]"
    unfolding upt_add_map map_append map_map comp_def first second ..
  show ?case
  proof (cases k)
    case 0
    have "count_list (map (\<lambda>j. Suc (weighted_loop cs (int j) 0)) [0..<?b]) 0 = 0" by (auto simp: count_list_0_iff)
    then show ?thesis unfolding n split using 0 by (simp only: count_list_append count_list_map_const) simp
  next
    case (Suc m)
    then show ?thesis unfolding n split using Cons.IH[OF g, of m] Cons.prems(2)
      by (simp only: count_list_append count_list_map_const count_list_map_Suc) simp
  qed
qed simp

lemma count_list_rotate: "count_list (rotate n xs) k = count_list xs k"
proof -
  have "count_list (rotate n xs) k = count_list (drop (n mod length xs) xs) k + count_list (take (n mod length xs) xs) k"
    by (simp add: rotate_drop_take)
  also have "\<dots> = count_list (take (n mod length xs) xs @ drop (n mod length xs) xs) k"
    by (simp only: count_list_append)
  finally show ?thesis by simp
qed

lemma map_shifted_mod: "map (\<lambda>j. f ((c + j) mod n)) [0..<n] = rotate c (map f [0..<n])"
  by (rule nth_equalityI) (auto simp: nth_rotate)

text \<open>A run of consecutive round-robin picks for one Access.\<close>

fun rr_picks :: "nat \<Rightarrow> strategySelector \<Rightarrow> string \<Rightarrow> targetCandidate list \<Rightarrow> nat list result" where
  "rr_picks 0 s key cs = Inr []"
| "rr_picks (Suc n) s key cs =
     bind_result (roundRobinCandidateIndex s key cs)
       (\<lambda>(s', i). bind_result (rr_picks n s' key cs) (\<lambda>rest. Inr (i # rest)))"

lemma rr_picks_run:
  assumes "good_weights cs" "cs \<noteq> []" "int_get (ss_roundRobin s) key = int c" "int c + int n < 2 ^ 63"
  shows "rr_picks n s key cs =
    Inr (map (\<lambda>j. weighted_loop cs (int ((c + j) mod nat (weight_sum cs))) 0) [0..<n])"
  using assms(3,4)
proof (induction n arbitrary: s c)
  case (Suc n)
  have pos: "0 < weight_sum cs" using good_weights_sum(3)[OF assms(1)] assms(2) by simp
  have tot: "totalCandidateWeight cs = weight_sum cs" using totalCandidateWeight_sum[OF assms(1)] .
  have md: "go_rem (int c) (weight_sum cs) = int (c mod nat (weight_sum cs))"
    using pos by (simp add: zmod_int)
  have fit: "fits64 (int c + 1)" using Suc.prems by (simp add: fits64_def)
  let ?s = "s\<lparr> ss_roundRobin := (ss_roundRobin s)(key \<mapsto> int c + 1) \<rparr>"
  have one: "roundRobinCandidateIndex s key cs = Inr (?s, weighted_loop cs (int (c mod nat (weight_sum cs))) 0)"
    using pos fit Suc.prems(1) md
    by (simp add: roundRobinCandidateIndex_def tot weightedCandidateIndex_def)
  have nxt: "int_get (ss_roundRobin ?s) key = int (Suc c)" by (simp add: int_get_def)
  have "rr_picks n ?s key cs =
      Inr (map (\<lambda>j. weighted_loop cs (int ((Suc c + j) mod nat (weight_sum cs))) 0) [0..<n])"
    using Suc.IH[OF nxt] Suc.prems(2) by simp
  moreover have "[0..<Suc n] = 0 # map Suc [0..<n]" by (simp add: map_Suc_upt upt_conv_Cons del: upt_Suc)
  ultimately show ?case using one by (simp add: comp_def)
qed simp

section \<open>Comparing strategies\<close>

lemma best_loop_best:
  assumes trans: "\<And>a b c. a \<in> set cs \<Longrightarrow> b \<in> set cs \<Longrightarrow> c \<in> set cs \<Longrightarrow>
      better a b \<Longrightarrow> better b c \<Longrightarrow> better a c"
    and irrefl: "\<And>a. \<not> better a a"
    and "best < length cs" "\<forall>i \<in> set todo. i < length cs" "\<forall>j \<in> seen. j < length cs \<and> \<not> better (cs ! j) (cs ! best)"
  shows "best_loop better cs best todo < length cs \<and>
    (\<forall>j \<in> seen \<union> {best} \<union> set todo. \<not> better (cs ! j) (cs ! best_loop better cs best todo))"
  using assms(3-5)
proof (induction todo arbitrary: best seen)
  case Nil
  then show ?case using irrefl by auto
next
  case (Cons i todo)
  let ?b = "if better (cs ! i) (cs ! best) then i else best"
  have "?b < length cs" "\<forall>i \<in> set todo. i < length cs" using Cons.prems by auto
  moreover have "\<forall>j \<in> seen \<union> {best, i}. j < length cs \<and> \<not> better (cs ! j) (cs ! ?b)"
  proof (cases "better (cs ! i) (cs ! best)")
    case True
    have "\<not> better (cs ! j) (cs ! i)" if j: "j \<in> seen \<union> {best, i}" for j
    proof
      assume bj: "better (cs ! j) (cs ! i)"
      have "j < length cs" using j Cons.prems by auto
      then have "better (cs ! j) (cs ! best)"
        using trans[OF _ _ _ bj True] Cons.prems(1,2) by simp
      then show False using j Cons.prems(3) bj irrefl by auto
    qed
    then show ?thesis using True Cons.prems by auto
  qed (use Cons.prems irrefl in auto)
  ultimately have "best_loop better cs ?b todo < length cs \<and>
    (\<forall>j \<in> (seen \<union> {best, i}) \<union> {?b} \<union> set todo. \<not> better (cs ! j) (cs ! best_loop better cs ?b todo))"
    by (rule Cons.IH)
  then show ?case by auto
qed

lemma best_loop_all:
  assumes "\<And>a b c. a \<in> set cs \<Longrightarrow> b \<in> set cs \<Longrightarrow> c \<in> set cs \<Longrightarrow> better a b \<Longrightarrow> better b c \<Longrightarrow> better a c"
    and "\<And>a. \<not> better a a" and "cs \<noteq> []"
  shows "best_loop better cs 0 [1..<length cs] < length cs \<and>
    (\<forall>j < length cs. \<not> better (cs ! j) (cs ! best_loop better cs 0 [1..<length cs]))"
proof -
  have cov: "\<forall>j < length cs. j \<in> {} \<union> {0} \<union> set [1..<length cs]" by auto
  have "best_loop better cs 0 [1..<length cs] < length cs \<and>
    (\<forall>j \<in> {} \<union> {0} \<union> set [1..<length cs]. \<not> better (cs ! j) (cs ! best_loop better cs 0 [1..<length cs]))"
    using assms(3) by (intro best_loop_best[OF assms(1,2)]) auto
  then show ?thesis using cov by blast
qed

lemma newestCandidateIndex_best:
  "cs \<noteq> [] \<Longrightarrow> newestCandidateIndex cs < length cs \<and>
    (\<forall>j < length cs. \<not> newer (cs ! j) (cs ! newestCandidateIndex cs))"
  unfolding newestCandidateIndex_def by (intro best_loop_all) (auto simp: newer_def)

lemma oldestCandidateIndex_best:
  "cs \<noteq> [] \<Longrightarrow> oldestCandidateIndex cs < length cs \<and>
    (\<forall>j < length cs. \<not> older (cs ! j) (cs ! oldestCandidateIndex cs))"
  unfolding oldestCandidateIndex_def by (intro best_loop_all) (auto simp: older_def)

definition load :: "strategySelector \<Rightarrow> string \<Rightarrow> targetCandidate \<Rightarrow> int" where
  "load s key c = int_get (ss_connections s) (targetConnectionKey key (tc_key c))"

definition small_loads :: "strategySelector \<Rightarrow> string \<Rightarrow> targetCandidate list \<Rightarrow> bool" where
  "small_loads s key cs \<longleftrightarrow> (\<forall>c \<in> set cs. 0 \<le> load s key c \<and> load s key c < 2 ^ 31)"

lemma fewer_connections_exact:
  assumes "good_weights cs" "small_loads s key cs" "c \<in> set cs" "d \<in> set cs"
  shows "fewer_connections s key c d \<longleftrightarrow>
    load s key c * tc_weight d < load s key d * tc_weight c \<or>
    load s key c * tc_weight d = load s key d * tc_weight c \<and> tc_key c < tc_key d"
proof -
  have fit: "fits64 (load s key x * tc_weight y)" if "x \<in> set cs" "y \<in> set cs" for x y
  proof -
    have b: "0 \<le> load s key x" "load s key x \<le> 2 ^ 31" "0 \<le> tc_weight y" "tc_weight y \<le> 2 ^ 31"
      using that assms(1,2) by (auto simp: good_weights_def small_loads_def)
    then have "load s key x * tc_weight y \<le> 2 ^ 31 * 2 ^ 31" by (intro mult_mono) auto
    moreover have "0 \<le> load s key x * tc_weight y" using b by simp
    ultimately show ?thesis by (simp add: fits64_def)
  qed
  show ?thesis using fit assms(3,4) by (simp add: fewer_connections_def load_def[symmetric] Let_def)
qed

lemma ratio_trans:
  fixes a b c wa wb wc :: int
  assumes "0 < wa" "0 < wb" "0 < wc" "a * wb \<le> b * wa" "b * wc \<le> c * wb"
  shows "a * wc \<le> c * wa" "a * wc = c * wa \<Longrightarrow> a * wb = b * wa \<and> b * wc = c * wb"
proof -
  have 1: "(a * wc) * wb \<le> (b * wc) * wa" using mult_right_mono[OF assms(4), of wc] assms(3) by (simp add: algebra_simps)
  have 2: "(b * wc) * wa \<le> (c * wa) * wb" using mult_right_mono[OF assms(5), of wa] assms(1) by (simp add: algebra_simps)
  have "(a * wc) * wb \<le> (c * wa) * wb" using 1 2 by (rule order_trans)
  then show "a * wc \<le> c * wa" using assms(2) by simp
  assume "a * wc = c * wa"
  then have e: "(a * wc) * wb = (b * wc) * wa" "(b * wc) * wa = (c * wa) * wb" using 1 2 by auto
  have "(a * wb) * wc = (b * wa) * wc" using e(1) by (simp add: algebra_simps)
  moreover have "(b * wc) * wa = (c * wb) * wa" using e(2) by (simp add: algebra_simps)
  ultimately show "a * wb = b * wa \<and> b * wc = c * wb" using assms(1,3) by simp
qed

lemma leastConnectionsCandidateIndex_best:
  assumes "good_weights cs" "small_loads s key cs" "cs \<noteq> []"
  shows "leastConnectionsCandidateIndex s key cs < length cs \<and>
    (\<forall>j < length cs. \<not> fewer_connections s key (cs ! j) (cs ! leastConnectionsCandidateIndex s key cs))"
  unfolding leastConnectionsCandidateIndex_def
proof (rule best_loop_all[OF _ _ assms(3)])
  fix a b c
  assume m: "a \<in> set cs" "b \<in> set cs" "c \<in> set cs"
    and ab: "fewer_connections s key a b" and bc: "fewer_connections s key b c"
  have w: "0 < tc_weight a" "0 < tc_weight b" "0 < tc_weight c" using m assms(1) by (force simp: good_weights_def)+
  note ex = fewer_connections_exact[OF assms(1,2)]
  have le: "load s key a * tc_weight b \<le> load s key b * tc_weight a"
    "load s key b * tc_weight c \<le> load s key c * tc_weight b" using ab bc ex m by auto
  note r = ratio_trans[OF w le]
  show "fewer_connections s key a c"
  proof (cases "load s key a * tc_weight c = load s key c * tc_weight a")
    case True
    then have "tc_key a < tc_key b" "tc_key b < tc_key c" using r(2)[OF True] ab bc ex m by auto
    then show ?thesis using True ex m by simp
  next
    case False
    then show ?thesis using r(1) ex m by simp
  qed
next
  fix a show "\<not> fewer_connections s key a a" by (simp add: fewer_connections_def)
qed

section \<open>Selecting a target\<close>

lemma weighted_loop_index: "weighted_loop cs w i < i + length cs \<or> weighted_loop cs w i = 0"
proof (induction cs arbitrary: w i)
  case (Cons c cs)
  show ?case using Cons.IH[of "wrap64 (w - tc_weight c)" "Suc i"] by auto
qed simp

lemma weightedCandidateIndex_range: "cs \<noteq> [] \<Longrightarrow> weightedCandidateIndex cs w < length cs"
  using weighted_loop_index[of cs w 0] by (auto simp: weightedCandidateIndex_def)

lemma best_loop_range:
  "best < length cs \<Longrightarrow> \<forall>i \<in> set todo. i < length cs \<Longrightarrow> best_loop better cs best todo < length cs"
  by (induction todo arbitrary: best) auto

lemma strategy_index_ok:
  assumes "good_weights cs" "cs \<noteq> []"
  shows "\<exists>s' i. strategy_index intn s key cs strat = Inr (s', i) \<and> i < length cs \<and>
    ss_connections s' = ss_connections s \<and> ss_affinity s' = ss_affinity s"
proof -
  have pos: "0 < totalCandidateWeight cs"
    using good_weights_sum(3)[OF assms(1)] assms(2) totalCandidateWeight_sum[OF assms(1)] by simp
  have range: "best_loop b cs 0 [1..<length cs] < length cs" for b
    using assms(2) by (intro best_loop_range) auto
  show ?thesis
    using pos range weightedCandidateIndex_range[OF assms(2)] unfolding strategy_index_def
    by (auto simp: roundRobinCandidateIndex_def randomCandidateIndex_def Let_def
        leastConnectionsCandidateIndex_def newestCandidateIndex_def oldestCandidateIndex_def)
qed

lemma strategy_index_frame:
  "strategy_index intn s key cs strat = Inr (s', i) \<Longrightarrow>
    ss_connections s' = ss_connections s \<and> ss_affinity s' = ss_affinity s"
  by (auto simp: strategy_index_def roundRobinCandidateIndex_def bind_result_Inr_iff Let_def split: if_splits)

lemma candidate_with_key_SomeD:
  "candidate_with_key k i cs = Some j \<Longrightarrow> i \<le> j \<and> j < i + length cs \<and> tc_key (cs ! (j - i)) = k"
proof (induction cs arbitrary: i)
  case (Cons c cs)
  show ?case
  proof (cases "tc_key c = k")
    case False
    then have "candidate_with_key k (Suc i) cs = Some j" using Cons.prems by simp
    from Cons.IH[OF this] show ?thesis by (auto simp: nth_Cons' Suc_diff_le)
  qed (use Cons.prems in auto)
qed simp

lemma candidate_with_key_None_iff: "candidate_with_key k i cs = None \<longleftrightarrow> (\<forall>c \<in> set cs. tc_key c \<noteq> k)"
  by (induction cs arbitrary: i) auto

lemma affinityCandidateIndex_frame:
  "affinityCandidateIndex s key cs now = (s', r) \<Longrightarrow>
    ss_connections s' = ss_connections s \<and> ss_roundRobin s' = ss_roundRobin s"
  by (auto simp: affinityCandidateIndex_def split: if_splits option.splits)

lemma affinityCandidateIndex_SomeD:
  assumes "affinityCandidateIndex s key cs now = (s', Some i)"
  shows "s' = s \<and> i < length cs \<and> key \<noteq> [] \<and> (\<exists>e. ss_affinity s key = Some e \<and> tc_key (cs ! i) = ae_targetKey e \<and>
    \<not> (ae_expiresAt e \<noteq> 0 \<and> now > ae_expiresAt e))"
proof -
  obtain e where e: "ss_affinity s key = Some e" "key \<noteq> []" "\<not> (ae_expiresAt e \<noteq> 0 \<and> now > ae_expiresAt e)"
    and c: "candidate_with_key (ae_targetKey e) 0 cs = Some i" "s' = s"
    using assms by (auto simp: affinityCandidateIndex_def split: if_splits option.splits)
  then show ?thesis using candidate_with_key_SomeD[OF c(1)] by auto
qed

text \<open>The shape of every successful selection.\<close>

lemma selectTarget_Inr:
  assumes "selectTarget intn now s access req cs strat = Inr (s', sel)"
  shows "ts_release sel = \<lparr> rel_key = targetConnectionKey (accessKey (acc_Namespace access) (acc_Name access))
      (tc_key (cs ! ts_index sel)), rel_done = False \<rparr> \<and>
    ss_connections s' = (ss_connections s)(rel_key (ts_release sel) \<mapsto>
      wrap64 (int_get (ss_connections s) (rel_key (ts_release sel)) + 1))"
proof -
  let ?k = "accessKey (acc_Namespace access) (acc_Name access)" and ?a = "accessAffinityKey access req"
  obtain s1 r where aff: "affinityCandidateIndex s ?a cs now = (s1, r)" by fastforce
  have f1: "ss_connections s1 = ss_connections s" using affinityCandidateIndex_frame[OF aff] by simp
  show ?thesis
  proof (cases r)
    case (Some i)
    then have "(s', sel) = trackTargetLocked s1 ?k (tc_key (cs ! i)) i"
      using assms aff by (simp add: selectTarget_def Let_def)
    then show ?thesis using f1 by (simp add: trackTargetLocked_def Let_def)
  next
    case None
    then obtain s2 i where st: "strategy_index intn s1 ?k cs strat = Inr (s2, i)"
      and tr: "(s', sel) = trackTargetLocked (if ?a \<noteq> [] then s2\<lparr> ss_affinity := (ss_affinity s2)(?a \<mapsto>
        \<lparr> ae_targetKey = tc_key (cs ! i), ae_expiresAt = now + affinityTimeout access \<rparr>) \<rparr> else s2) ?k (tc_key (cs ! i)) i"
      using assms aff by (auto simp: selectTarget_def Let_def bind_result_Inr_iff)
    then show ?thesis using f1 strategy_index_frame[OF st] by (auto simp: trackTargetLocked_def Let_def split: if_splits)
  qed
qed

lemma selectTarget_ok:
  assumes "good_weights cs" "cs \<noteq> []"
  shows "\<exists>s' sel. selectTarget intn now s access req cs strat = Inr (s', sel) \<and> ts_index sel < length cs"
proof -
  let ?k = "accessKey (acc_Namespace access) (acc_Name access)" and ?a = "accessAffinityKey access req"
  obtain s1 r where aff: "affinityCandidateIndex s ?a cs now = (s1, r)" by fastforce
  show ?thesis
  proof (cases r)
    case (Some i)
    then have "i < length cs" using affinityCandidateIndex_SomeD aff by blast
    then show ?thesis using Some aff by (auto simp: selectTarget_def trackTargetLocked_def Let_def)
  next
    case None
    obtain s2 i where "strategy_index intn s1 ?k cs strat = Inr (s2, i)" "i < length cs"
      using strategy_index_ok[OF assms] by blast
    then show ?thesis using None aff by (simp add: selectTarget_def trackTargetLocked_def Let_def)
  qed
qed

lemma strategy_index_range:
  assumes "strategy_index intn s key cs strat = Inr (s', i)" "cs \<noteq> []"
  shows "i < length cs"
proof -
  have range: "best_loop b cs 0 [1..<length cs] < length cs" for b
    using assms(2) by (intro best_loop_range) auto
  show ?thesis using assms(1) range weightedCandidateIndex_range[OF assms(2)]
    by (auto simp: strategy_index_def roundRobinCandidateIndex_def randomCandidateIndex_def bind_result_Inr_iff
        leastConnectionsCandidateIndex_def newestCandidateIndex_def oldestCandidateIndex_def Let_def split: if_splits)
qed

lemma selectTarget_range:
  assumes "selectTarget intn now s access req cs strat = Inr (s', sel)" "cs \<noteq> []"
  shows "ts_index sel < length cs"
proof -
  let ?k = "accessKey (acc_Namespace access) (acc_Name access)" and ?a = "accessAffinityKey access req"
  obtain s1 r where aff: "affinityCandidateIndex s ?a cs now = (s1, r)" by fastforce
  show ?thesis
  proof (cases r)
    case (Some i)
    then have "i < length cs" using affinityCandidateIndex_SomeD aff by blast
    then show ?thesis using assms(1) Some aff by (auto simp: selectTarget_def trackTargetLocked_def Let_def)
  next
    case None
    then obtain s2 i where st: "strategy_index intn s1 ?k cs strat = Inr (s2, i)" and "ts_index sel = i"
      using assms(1) aff by (auto simp: selectTarget_def Let_def bind_result_Inr_iff trackTargetLocked_def)
    then show ?thesis using strategy_index_range[OF st assms(2)] by simp
  qed
qed

lemma selectTarget_affinity_entry:
  assumes "selectTarget intn now s access req cs strat = Inr (s', sel)"
    and "accessAffinityKey access req \<noteq> []" "ss_affinity s (accessAffinityKey access req) = None"
  shows "ss_affinity s' (accessAffinityKey access req) =
    Some \<lparr> ae_targetKey = tc_key (cs ! ts_index sel), ae_expiresAt = now + affinityTimeout access \<rparr>"
  using assms by (auto simp: selectTarget_def affinityCandidateIndex_def trackTargetLocked_def Let_def bind_result_Inr_iff)

lemma selectTarget_affinity_reuse:
  assumes "accessAffinityKey access req \<noteq> []" "ss_affinity s (accessAffinityKey access req) = Some e"
    and "now \<le> ae_expiresAt e" "\<exists>c \<in> set cs. tc_key c = ae_targetKey e"
  shows "\<exists>s' sel. selectTarget intn now s access req cs strat = Inr (s', sel) \<and> ts_index sel < length cs \<and>
    tc_key (cs ! ts_index sel) = ae_targetKey e"
proof -
  obtain i where i: "candidate_with_key (ae_targetKey e) 0 cs = Some i"
    using assms(4) candidate_with_key_None_iff[of "ae_targetKey e" 0 cs] by fastforce
  then have "affinityCandidateIndex s (accessAffinityKey access req) cs now = (s, Some i)"
    using assms by (simp add: affinityCandidateIndex_def)
  then show ?thesis using candidate_with_key_SomeD[OF i]
    by (simp add: selectTarget_def trackTargetLocked_def Let_def)
qed

section \<open>Selecting Pods and endpoints\<close>

lemma set_sortPods [simp]: "set (sortPods ps) = set ps" "length (sortPods ps) = length ps"
  by (simp_all add: sortPods_def)

lemma sortPods_Nil_iff [simp]: "sortPods ps = [] \<longleftrightarrow> ps = []"
  by (metis length_0_conv set_sortPods(2))

definition pod_active :: "Pod \<Rightarrow> bool" where
  "pod_active p \<longleftrightarrow> m_DeletionTimestamp (pod_Meta p) = None \<and> pod_Phase p \<noteq> ''Succeeded'' \<and> pod_Phase p \<noteq> ''Failed''"

lemma set_activePods: "set (activePods ps) = {p \<in> set ps. pod_active p}"
  by (auto simp: activePods_def pod_active_def)

lemma set_candidatePods:
  "set (candidatePods ps) = {p \<in> set ps. pod_active p \<and> (podReady p \<or> (\<forall>q \<in> set ps. pod_active q \<longrightarrow> \<not> podReady q))}"
proof (cases "filter podReady (activePods ps) = []")
  case True
  then have "\<forall>q \<in> set ps. pod_active q \<longrightarrow> \<not> podReady q" using set_activePods by (auto simp: filter_empty_conv)
  then show ?thesis using True set_activePods by (auto simp: candidatePods_def Let_def)
next
  case False
  then have "\<exists>q \<in> set ps. pod_active q \<and> podReady q" using set_activePods by (auto simp: filter_empty_conv)
  then show ?thesis using False set_activePods by (auto simp: candidatePods_def Let_def)
qed

lemma candidatePods_length: "length (candidatePods ps) \<le> length ps"
proof -
  have "length (activePods ps) \<le> length ps" by (simp add: activePods_def)
  moreover have "length (filter podReady (activePods ps)) \<le> length ps"
    using calculation length_filter_le[of podReady "activePods ps"] by linarith
  ultimately show ?thesis by (simp add: candidatePods_def Let_def)
qed

text \<open>Pod weights are an \<^verbatim>\<open>int32\<close> field of the API.\<close>

definition int32_weights :: "Access \<Rightarrow> bool" where
  "int32_weights access \<longleftrightarrow>
     (\<forall>st w. spec_Strategy (acc_Spec access) = Some st \<longrightarrow> w \<in> set (strat_Weights st) \<longrightarrow> sw_Weight w < 2 ^ 31)"

lemma podWeight_range: "int32_weights access \<Longrightarrow> 1 \<le> podWeight lm access p \<and> podWeight lm access p < 2 ^ 31"
  by (auto simp: podWeight_def int32_weights_def split: option.splits dest!: find_SomeD)

lemma pod_candidates_good:
  "int32_weights access \<Longrightarrow> length ps < 2 ^ 32 \<Longrightarrow> good_weights (map (pod_candidate lm access) (candidatePods ps))"
  using podWeight_range candidatePods_length[of ps] by (auto simp: good_weights_def pod_candidate_def)

lemma selectPod_Some:
  assumes "selectPod lm intn now s access ps req = Inr (s', Some sel)"
  shows "ps_pod sel \<in> set (candidatePods ps) \<and>
    ps_release sel = \<lparr> rel_key = targetConnectionKey (accessKey (acc_Namespace access) (acc_Name access))
      (podTargetKey (acc_Namespace access) (ps_pod sel)), rel_done = False \<rparr> \<and>
    ss_connections s' = (ss_connections s)(rel_key (ps_release sel) \<mapsto>
      wrap64 (int_get (ss_connections s) (rel_key (ps_release sel)) + 1))"
proof -
  let ?cs = "map (pod_candidate lm access) (candidatePods ps)"
  obtain tsel where ne: "candidatePods ps \<noteq> []"
    and t: "selectTarget intn now s access req ?cs (strategyType access) = Inr (s', tsel)"
    and sel: "ps_pod sel = candidatePods ps ! ts_index tsel" "ps_release sel = ts_release tsel"
    using assms by (auto simp: selectPod_def Let_def bind_result_Inr_iff split: if_splits)
  have "ts_index tsel < length ?cs" using selectTarget_range[OF t] ne by simp
  then show ?thesis using selectTarget_Inr[OF t] sel by (simp add: pod_candidate_def)
qed

lemma selectPodByName_Some:
  assumes "selectPodByName s access ps name = (s', Some sel)"
  shows "ps_pod sel \<in> set ps \<and> pod_active (ps_pod sel) \<and> pod_Name (ps_pod sel) = name \<and>
    ps_release sel = \<lparr> rel_key = targetConnectionKey (accessKey (acc_Namespace access) (acc_Name access))
      (podTargetKey (acc_Namespace access) (ps_pod sel)), rel_done = False \<rparr> \<and>
    ss_connections s' = (ss_connections s)(rel_key (ps_release sel) \<mapsto>
      wrap64 (int_get (ss_connections s) (rel_key (ps_release sel)) + 1))"
proof -
  obtain p where f: "find (\<lambda>pod. pod_Name pod = name) (activePods ps) = Some p"
    using assms by (auto simp: selectPodByName_def split: option.splits)
  have p: "p \<in> set ps" "pod_active p" "pod_Name p = name"
    using find_SomeD[OF f] by (simp_all add: set_activePods)
  have "(s', Some sel) = selectPodByName s access ps name" using assms by simp
  then show ?thesis using f p by (simp add: selectPodByName_def trackTargetLocked_def Let_def)
qed

lemma endpoint_candidates_good:
  assumes "\<forall>e \<in> set (spec_Endpoints (acc_Spec access)). 1 \<le> endpointWeight e \<and> endpointWeight e < 2 ^ 31"
    and "length (spec_Endpoints (acc_Spec access)) < 2 ^ 32"
  shows "good_weights (map endpoint_candidate (sort_key ep_Name (spec_Endpoints (acc_Spec access))))"
  using assms by (auto simp: good_weights_def endpoint_candidate_def)

lemma selectEndpoint_Some:
  assumes "selectEndpoint intn now s access req = Inr (s', Some sel)"
  shows "es_endpoint sel \<in> set (spec_Endpoints (acc_Spec access)) \<and>
    es_release sel = \<lparr> rel_key = targetConnectionKey (accessKey (acc_Namespace access) (acc_Name access))
      (ep_Name (es_endpoint sel)), rel_done = False \<rparr> \<and>
    ss_connections s' = (ss_connections s)(rel_key (es_release sel) \<mapsto>
      wrap64 (int_get (ss_connections s) (rel_key (es_release sel)) + 1))"
proof -
  let ?es = "sort_key ep_Name (spec_Endpoints (acc_Spec access))"
  obtain tsel where ne0: "spec_Endpoints (acc_Spec access) \<noteq> []"
    and t: "selectTarget intn now s access req (map endpoint_candidate ?es) (endpointStrategyType access) = Inr (s', tsel)"
    and sel: "es_endpoint sel = ?es ! ts_index tsel" "es_release sel = ts_release tsel"
    using assms(1) by (auto simp: selectEndpoint_def Let_def bind_result_Inr_iff split: if_splits)
  have ne: "?es \<noteq> []" using ne0 by (metis length_0_conv length_sort)
  have i: "ts_index tsel < length ?es"
    using selectTarget_range[OF t] ne by simp
  have "?es ! ts_index tsel \<in> set ?es" using i by (rule nth_mem)
  then show ?thesis using selectTarget_Inr[OF t] sel i by (simp add: endpoint_candidate_def)
qed

section \<open>Open connections\<close>

text \<open>
  The selector together with the release closures it has handed out: a selection adds a
  closure, running any of them, in any order and any number of times, is a step.
\<close>

type_synonym tracking = "strategySelector \<times> release list"

inductive track_step :: "tracking \<Rightarrow> tracking \<Rightarrow> bool" where
  track_select: "selectTarget intn now s access req cs strat = Inr (s', sel) \<Longrightarrow>
    track_step (s, rs) (s', rs @ [ts_release sel])"
| track_named: "selectPodByName s access ps name = (s', Some sel) \<Longrightarrow>
    track_step (s, rs) (s', rs @ [ps_release sel])"
| track_release: "i < length rs \<Longrightarrow> release_run s (rs ! i) = (s', r) \<Longrightarrow>
    track_step (s, rs) (s', rs[i := r])"

inductive_cases track_stepE: "track_step (s, rs) (s', rs')"

definition track_init :: "tracking \<Rightarrow> bool" where
  "track_init t \<longleftrightarrow> t = (newStrategySelector, [])"

fun open_count :: "string \<Rightarrow> release list \<Rightarrow> nat" where
  "open_count k [] = 0"
| "open_count k (r # rs) = (if rel_key r = k \<and> \<not> rel_done r then 1 else 0) + open_count k rs"

definition counts_exact :: "tracking \<Rightarrow> bool" where
  "counts_exact t \<longleftrightarrow> length (snd t) < 2 ^ 63 \<longrightarrow>
     (\<forall>k. ss_connections (fst t) k =
       (if open_count k (snd t) = 0 then None else Some (int (open_count k (snd t)))))"

lemma open_count_append: "open_count k (xs @ ys) = open_count k xs + open_count k ys"
  by (induction xs) auto

lemma open_count_le: "open_count k rs \<le> length rs"
  by (induction rs) auto

lemma open_count_close:
  "i < length rs \<Longrightarrow> \<not> rel_done (rs ! i) \<Longrightarrow>
    open_count k rs = open_count k (rs[i := (rs ! i)\<lparr> rel_done := True \<rparr>]) + (if rel_key (rs ! i) = k then 1 else 0)"
proof (induction rs arbitrary: i)
  case (Cons r rs)
  then show ?case by (cases i) auto
qed simp

lemma int_get_counts:
  "ss_connections s k = (if n = 0 then None else Some (int n)) \<Longrightarrow> int_get (ss_connections s) k = int n"
  by (simp add: int_get_def split: if_splits)

lemma counts_after_track:
  assumes inv: "counts_exact (s, rs)" and new: "rel_done r = False"
    and upd: "ss_connections s' = (ss_connections s)(rel_key r \<mapsto> wrap64 (int_get (ss_connections s) (rel_key r) + 1))"
  shows "counts_exact (s', rs @ [r])"
  unfolding counts_exact_def fst_conv snd_conv
proof (intro impI allI)
  fix k assume "length (rs @ [r]) < 2 ^ 63"
  then have len: "length rs < 2 ^ 63" "int (length rs) + 1 < 2 ^ 63" by auto
  have c: "ss_connections s k = (if open_count k rs = 0 then None else Some (int (open_count k rs)))" for k
    using inv len(1) by (simp add: counts_exact_def)
  have g: "int_get (ss_connections s) (rel_key r) = int (open_count (rel_key r) rs)"
    using c by (rule int_get_counts)
  have "fits64 (int (open_count (rel_key r) rs) + 1)"
    using open_count_le[of "rel_key r" rs] len(2) by (simp add: fits64_def)
  then show "ss_connections s' k =
      (if open_count k (rs @ [r]) = 0 then None else Some (int (open_count k (rs @ [r]))))"
    using new c by (simp add: upd g open_count_append)
qed

lemma counts_after_release:
  assumes inv: "counts_exact (s, rs)" and i: "i < length rs" and run: "release_run s (rs ! i) = (s', r)"
  shows "counts_exact (s', rs[i := r])"
proof (cases "rel_done (rs ! i)")
  case True
  then have "s' = s" "rs[i := r] = rs" using run by (auto simp: release_run_def)
  then show ?thesis using inv by simp
next
  case open': False
  let ?k = "rel_key (rs ! i)"
  have r: "r = (rs ! i)\<lparr> rel_done := True \<rparr>" using run open' by (simp add: release_run_def split: if_splits)
  show ?thesis unfolding counts_exact_def fst_conv snd_conv
  proof (intro impI allI)
    fix k assume "length (rs[i := r]) < 2 ^ 63"
    then have len: "length rs < 2 ^ 63" by simp
    have c: "ss_connections s k = (if open_count k rs = 0 then None else Some (int (open_count k rs)))" for k
      using inv len by (simp add: counts_exact_def)
    have g: "int_get (ss_connections s) ?k = int (open_count ?k rs)" using c by (rule int_get_counts)
    have oc: "open_count k rs = open_count k (rs[i := r]) + (if ?k = k then 1 else 0)" for k
      using open_count_close[OF i open', of k] r by simp
    have one: "1 \<le> open_count ?k rs" using oc[of ?k] by simp
    have "fits64 (int (open_count ?k rs) - 1)"
      using open_count_le[of ?k rs] len one by (simp add: fits64_def)
    then show "ss_connections s' k =
        (if open_count k (rs[i := r]) = 0 then None else Some (int (open_count k (rs[i := r]))))"
      using run open' c[of k] oc[of k] oc[of ?k] one unfolding release_run_def g
      by (auto simp: of_nat_diff split: if_splits)
  qed
qed

interpretation tracked: inductive_invariant track_init track_step counts_exact
proof
  fix s assume "track_init s"
  then show "counts_exact s" by (simp add: track_init_def counts_exact_def newStrategySelector_def)
next
  fix s t assume inv: "counts_exact s" and step: "track_step s t"
  show "counts_exact t" using step inv
  proof (cases rule: track_step.cases)
    case (track_select intn now s0 access req cs strat s1 sel rs)
    show ?thesis unfolding track_select(2)
      by (rule counts_after_track[OF inv[unfolded track_select(1)]])
        (use selectTarget_Inr[OF track_select(3)] in auto)
  next
    case (track_named s0 access ps name s1 sel rs)
    show ?thesis unfolding track_named(2)
      by (rule counts_after_track[OF inv[unfolded track_named(1)]])
        (use selectPodByName_Some[OF track_named(3)] in auto)
  next
    case (track_release i rs s0 s1 r)
    then show ?thesis using counts_after_release inv by blast
  qed
qed

section \<open>Properties\<close>

text \<open>
  Selecting a Pod for an Access never panics and never chooses a Pod that is being deleted or
  has finished; as long as an active Pod is ready, only ready Pods are chosen, whatever
  the strategy, the affinity table and the random source are.  A selection is refused
  exactly when no Pod is active, and then the selector is unchanged.
\<close>

theorem selectPod_available:
  assumes "int32_weights access" "length ps < 2 ^ 32"
  shows "\<exists>s' sel. selectPod lm intn now s access ps req = Inr (s', sel) \<and>
    (case sel of
       None \<Rightarrow> s' = s \<and> (\<forall>p \<in> set ps. \<not> pod_active p)
     | Some ps_sel \<Rightarrow> ps_pod ps_sel \<in> set ps \<and> pod_active (ps_pod ps_sel) \<and>
         (podReady (ps_pod ps_sel) \<or> (\<forall>q \<in> set ps. pod_active q \<longrightarrow> \<not> podReady q)) \<and>
         \<not> rel_done (ps_release ps_sel))"
proof (cases "candidatePods ps = []")
  case True
  then have "activePods ps = []" by (simp add: candidatePods_def Let_def split: if_splits)
  then have "\<forall>p \<in> set ps. \<not> pod_active p" using set_activePods[of ps] by auto
  then show ?thesis using True by (simp add: selectPod_def)
next
  case False
  let ?cs = "map (pod_candidate lm access) (candidatePods ps)"
  obtain s' tsel where "selectTarget intn now s access req ?cs (strategyType access) = Inr (s', tsel)"
    using selectTarget_ok[OF pod_candidates_good[OF assms]] False by blast
  then have sp: "selectPod lm intn now s access ps req =
      Inr (s', Some \<lparr> ps_pod = candidatePods ps ! ts_index tsel, ps_release = ts_release tsel \<rparr>)"
    using False by (simp add: selectPod_def Let_def)
  show ?thesis using sp selectPod_Some[OF sp] set_candidatePods[of ps] by auto
qed

definition example_pod :: "string \<Rightarrow> bool \<Rightarrow> Pod" where
  "example_pod name ready = zero_Pod\<lparr>
     pod_Meta := zero_ObjectMeta\<lparr> m_Namespace := ''ns'', m_Name := name, m_UID := ''uid-'' @ name \<rparr>,
     pod_Containers := [''app'', ''sidecar''], pod_NodeName := ''node'', pod_HostIP := ''10.0.0.1'',
     pod_Phase := ''Running'',
     pod_Conditions := [\<lparr> pc_Type = ''Ready'', pc_Status = (if ready then ''True'' else ''False'') \<rparr>] \<rparr>"

definition example_access :: Access where
  "example_access = zero_Access\<lparr>
     acc_Meta := zero_ObjectMeta\<lparr> m_Namespace := ''ns'', m_Name := ''acc'' \<rparr>,
     acc_Spec := zero_AccessSpec\<lparr> spec_Selector := [(''app'', ''web'')] \<rparr> \<rparr>"

definition example_input :: ResolveInput where
  "example_input = \<lparr> ri_SSHUser = ''ns.acc'', ri_UserName = ''alice'', ri_AuthExtra = Map.empty,
     ri_SourceIP = ''192.0.2.1'', ri_Hints = [] \<rparr>"

lemma selectPod_available_witness:
  "int32_weights example_access \<and>
   (\<exists>s' sel. selectPod labels_match (\<lambda>_. 0) 1 newStrategySelector example_access
      [example_pod ''a'' False, example_pod ''b'' True] example_input = Inr (s', Some sel) \<and> podReady (ps_pod sel))"
proof -
  have w: "int32_weights example_access"
    by (simp add: int32_weights_def example_access_def zero_values)
  have act: "pod_active (example_pod n r)" for n r
    by (simp add: pod_active_def example_pod_def zero_values)
  have rdy: "podReady (example_pod n r) = r" for n r by (simp add: podReady_def example_pod_def)
  show ?thesis
    using w selectPod_available[OF w, of "[example_pod ''a'' False, example_pod ''b'' True]" labels_match "\<lambda>_. 0" 1
        newStrategySelector example_input] act rdy
    by (auto split: option.splits)
qed

text \<open>
  C5. Weighted round robin is exactly fair: over one round, as many consecutive selections
  as the candidates' weights sum to, every candidate is selected exactly as many times
  as its weight, wherever in the round the counter stands.
\<close>

theorem round_robin_fair:
  assumes "good_weights cs" "k < length cs" "int_get (ss_roundRobin s) key = int c"
    and "int c + weight_sum cs < 2 ^ 63"
  shows "\<exists>picks. rr_picks (nat (weight_sum cs)) s key cs = Inr picks \<and>
    count_list picks k = nat (tc_weight (cs ! k))"
proof -
  have ne: "cs \<noteq> []" using assms(2) by auto
  have "int c + int (nat (weight_sum cs)) < 2 ^ 63" using assms(4) good_weights_sum(1)[OF assms(1)] by simp
  from rr_picks_run[OF assms(1) ne assms(3) this] show ?thesis
    using weighted_round_count[OF assms(1,2)]
      map_shifted_mod[of "\<lambda>j. weighted_loop cs (int j) 0" c "nat (weight_sum cs)"]
    by (simp add: count_list_rotate)
qed

lemma round_robin_fair_witness:
  "\<exists>picks. rr_picks 3 newStrategySelector ''ns/acc''
     [\<lparr> tc_key = ''a'', tc_weight = 2, tc_createdAt = 0 \<rparr>, \<lparr> tc_key = ''b'', tc_weight = 1, tc_createdAt = 0 \<rparr>] = Inr picks \<and>
     count_list picks 0 = 2"
  using round_robin_fair[of "[\<lparr> tc_key = ''a'', tc_weight = 2, tc_createdAt = 0 \<rparr>,
      \<lparr> tc_key = ''b'', tc_weight = 1, tc_createdAt = 0 \<rparr>]" 0 newStrategySelector "''ns/acc''" 0]
  by (simp add: good_weights_def newStrategySelector_def int_get_def)

text \<open>
  LeastConnections selects a candidate whose number of open connections per unit of weight is
  minimal: no other candidate carries a smaller load relative to its weight.
\<close>

theorem least_connections_minimal:
  assumes "good_weights cs" "small_loads s key cs" "j < length cs"
  shows "leastConnectionsCandidateIndex s key cs < length cs \<and>
    load s key (cs ! leastConnectionsCandidateIndex s key cs) * tc_weight (cs ! j) \<le>
      load s key (cs ! j) * tc_weight (cs ! leastConnectionsCandidateIndex s key cs)"
proof -
  have ne: "cs \<noteq> []" using assms(3) by auto
  note best = leastConnectionsCandidateIndex_best[OF assms(1,2) ne]
  then show ?thesis using assms(3) fewer_connections_exact[OF assms(1,2), of "cs ! j"]
    by (meson not_le nth_mem)
qed

lemma least_connections_minimal_witness:
  "leastConnectionsCandidateIndex
     (newStrategySelector\<lparr> ss_connections := [targetConnectionKey ''ns/acc'' ''a'' \<mapsto> 3, targetConnectionKey ''ns/acc'' ''b'' \<mapsto> 1] \<rparr>)
     ''ns/acc'' [\<lparr> tc_key = ''a'', tc_weight = 2, tc_createdAt = 0 \<rparr>, \<lparr> tc_key = ''b'', tc_weight = 1, tc_createdAt = 0 \<rparr>] = 1"
  using least_connections_minimal[of "[\<lparr> tc_key = ''a'', tc_weight = 2, tc_createdAt = 0 \<rparr>,
      \<lparr> tc_key = ''b'', tc_weight = 1, tc_createdAt = 0 \<rparr>]"
      "newStrategySelector\<lparr> ss_connections := [targetConnectionKey ''ns/acc'' ''a'' \<mapsto> 3, targetConnectionKey ''ns/acc'' ''b'' \<mapsto> 1] \<rparr>"
      "''ns/acc''" 1]
  by (auto simp: good_weights_def small_loads_def load_def int_get_def targetConnectionKey_def less_Suc_eq)

text \<open>
  Newest selects a candidate with the latest creation time and Oldest one with the earliest,
  in both cases the one with the smallest key among equals.
\<close>

theorem newest_oldest_extremal:
  assumes "j < length cs"
  shows "newestCandidateIndex cs < length cs \<and> oldestCandidateIndex cs < length cs \<and>
    (tc_createdAt (cs ! j) < tc_createdAt (cs ! newestCandidateIndex cs) \<or>
     tc_createdAt (cs ! j) = tc_createdAt (cs ! newestCandidateIndex cs) \<and>
       tc_key (cs ! newestCandidateIndex cs) \<le> tc_key (cs ! j)) \<and>
    (tc_createdAt (cs ! oldestCandidateIndex cs) < tc_createdAt (cs ! j) \<or>
     tc_createdAt (cs ! j) = tc_createdAt (cs ! oldestCandidateIndex cs) \<and>
       tc_key (cs ! oldestCandidateIndex cs) \<le> tc_key (cs ! j))"
proof -
  have ne: "cs \<noteq> []" using assms by auto
  have n: "newestCandidateIndex cs < length cs" "\<not> newer (cs ! j) (cs ! newestCandidateIndex cs)"
    using newestCandidateIndex_best[OF ne] assms by auto
  have o': "oldestCandidateIndex cs < length cs" "\<not> older (cs ! j) (cs ! oldestCandidateIndex cs)"
    using oldestCandidateIndex_best[OF ne] assms by auto
  have "tc_createdAt (cs ! j) < tc_createdAt (cs ! newestCandidateIndex cs) \<or>
     tc_createdAt (cs ! j) = tc_createdAt (cs ! newestCandidateIndex cs) \<and>
       tc_key (cs ! newestCandidateIndex cs) \<le> tc_key (cs ! j)"
    using n(2) unfolding newer_def by (auto simp: not_less)
  moreover have "tc_createdAt (cs ! oldestCandidateIndex cs) < tc_createdAt (cs ! j) \<or>
     tc_createdAt (cs ! j) = tc_createdAt (cs ! oldestCandidateIndex cs) \<and>
       tc_key (cs ! oldestCandidateIndex cs) \<le> tc_key (cs ! j)"
    using o'(2) unfolding older_def by (auto simp: not_less)
  ultimately show ?thesis using n(1) o'(1) by blast
qed

lemma newest_oldest_extremal_witness:
  "newestCandidateIndex [\<lparr> tc_key = ''a'', tc_weight = 1, tc_createdAt = 10 \<rparr>,
     \<lparr> tc_key = ''b'', tc_weight = 1, tc_createdAt = 20 \<rparr>] = 1"
  using newest_oldest_extremal[of 1 "[\<lparr> tc_key = ''a'', tc_weight = 1, tc_createdAt = 10 \<rparr>,
     \<lparr> tc_key = ''b'', tc_weight = 1, tc_createdAt = 20 \<rparr>]"]
  by (auto simp: less_Suc_eq)

text \<open>
  Session affinity is sticky: once a target has been selected for an affinity key, every later
  selection with that key and before the entry expires returns the same target, as long
  as it is still among the candidates, regardless of strategy, load and candidate order.
\<close>

theorem affinity_sticky:
  assumes first: "selectTarget intn now s access req cs strat = Inr (s1, sel1)"
    and key: "accessAffinityKey access req \<noteq> []" "ss_affinity s (accessAffinityKey access req) = None"
    and kept: "ss_affinity s2 (accessAffinityKey access req) = ss_affinity s1 (accessAffinityKey access req)"
    and same: "accessAffinityKey access req2 = accessAffinityKey access req"
    and time: "now2 \<le> now + affinityTimeout access"
    and present: "\<exists>c \<in> set cs2. tc_key c = tc_key (cs ! ts_index sel1)"
  shows "\<exists>s3 sel2. selectTarget intn2 now2 s2 access req2 cs2 strat2 = Inr (s3, sel2) \<and>
    tc_key (cs2 ! ts_index sel2) = tc_key (cs ! ts_index sel1)"
proof -
  have e: "ss_affinity s2 (accessAffinityKey access req2) =
      Some \<lparr> ae_targetKey = tc_key (cs ! ts_index sel1), ae_expiresAt = now + affinityTimeout access \<rparr>"
    using selectTarget_affinity_entry[OF first key] kept same by simp
  show ?thesis
    using selectTarget_affinity_reuse[OF _ e, of now2 cs2 intn2 strat2] key(1) same time present by auto
qed

definition example_affinity_access :: Access where
  "example_affinity_access = example_access\<lparr> acc_Spec := zero_AccessSpec\<lparr>
     spec_Strategy := Some \<lparr> strat_Type = ''RoundRobin'', strat_Weights = [],
       strat_SessionAffinity = Some \<lparr> aff_Type = ''User'', aff_TimeoutSeconds = Some 60 \<rparr> \<rparr> \<rparr> \<rparr>"

lemma affinity_sticky_witness:
  "\<exists>s1 sel1 s3 sel2. selectTarget (\<lambda>_. 0) 5 newStrategySelector example_affinity_access example_input
       [\<lparr> tc_key = ''a'', tc_weight = 1, tc_createdAt = 0 \<rparr>, \<lparr> tc_key = ''b'', tc_weight = 1, tc_createdAt = 0 \<rparr>] ''RoundRobin'' = Inr (s1, sel1) \<and>
     selectTarget (\<lambda>_. 0) 100 s1 example_affinity_access example_input
       [\<lparr> tc_key = ''b'', tc_weight = 1, tc_createdAt = 0 \<rparr>, \<lparr> tc_key = ''a'', tc_weight = 1, tc_createdAt = 0 \<rparr>] ''Newest'' = Inr (s3, sel2) \<and>
     ts_index sel2 = 1 - ts_index sel1"
proof -
  let ?cs = "[\<lparr> tc_key = ''a'', tc_weight = 1, tc_createdAt = 0 \<rparr>, \<lparr> tc_key = ''b'', tc_weight = 1, tc_createdAt = 0 \<rparr>]"
  let ?cs2 = "[\<lparr> tc_key = ''b'', tc_weight = 1, tc_createdAt = 0 \<rparr>, \<lparr> tc_key = ''a'', tc_weight = 1, tc_createdAt = 0 \<rparr>]"
  have g: "good_weights ?cs" "good_weights ?cs2" by (simp_all add: good_weights_def)
  have k: "accessAffinityKey example_affinity_access example_input \<noteq> []"
    by (simp add: accessAffinityKey_def example_affinity_access_def example_input_def accessKey_def)
  have t: "affinityTimeout example_affinity_access = 60000000000"
    by (simp add: affinityTimeout_def example_affinity_access_def wrap64_def)
  obtain s1 sel1 where first: "selectTarget (\<lambda>_. 0) 5 newStrategySelector example_affinity_access example_input ?cs ''RoundRobin'' = Inr (s1, sel1)"
    and i: "ts_index sel1 < length ?cs"
    using selectTarget_ok[OF g(1)] by blast
  have "\<exists>c \<in> set ?cs2. tc_key c = tc_key (?cs ! ts_index sel1)" using i by (auto simp: less_Suc_eq)
  then have "\<exists>s3 sel2. selectTarget (\<lambda>_. 0) 100 s1 example_affinity_access example_input ?cs2 ''Newest'' = Inr (s3, sel2) \<and>
      tc_key (?cs2 ! ts_index sel2) = tc_key (?cs ! ts_index sel1)"
    by (intro affinity_sticky[OF first k]) (simp_all add: t newStrategySelector_def)
  then obtain s3 sel2 where r: "selectTarget (\<lambda>_. 0) 100 s1 example_affinity_access example_input ?cs2 ''Newest'' = Inr (s3, sel2)"
    and e: "tc_key (?cs2 ! ts_index sel2) = tc_key (?cs ! ts_index sel1)" by blast
  have "ts_index sel2 < length ?cs2"
    using selectTarget_ok[OF g(2), of "\<lambda>_. 0" 100 s1 example_affinity_access example_input "''Newest''"] r by auto
  then have "ts_index sel2 = 1 - ts_index sel1" using e i by (auto simp: less_Suc_eq)
  then show ?thesis using first r by blast
qed

text \<open>
  C4. The connection counters are exact: in every state reached by selections and by running
  release closures in any order and any number of times, the counter of a target is the
  number of its selections that have not been released, and a target without open
  connections has no entry.
\<close>

theorem connection_counts_exact:
  assumes "reach track_init track_step (s, rs)" "length rs < 2 ^ 63"
  shows "ss_connections s k = (if open_count k rs = 0 then None else Some (int (open_count k rs)))"
  using tracked.reach_inv[OF assms(1)] assms(2) by (simp add: counts_exact_def)

lemma connection_counts_exact_witness:
  "\<exists>s rs. reach track_init track_step (s, rs) \<and> length rs = 2 \<and>
     ss_connections s (targetConnectionKey ''ns/acc'' ''ns/a'') = Some 1"
proof -
  let ?sel = "\<lambda>s. selectPodByName s example_access [example_pod ''a'' True] ''a''"
  have sel: "\<exists>s' sel. ?sel s = (s', Some sel) \<and> rel_key (ps_release sel) = targetConnectionKey ''ns/acc'' ''ns/a'' \<and>
      \<not> rel_done (ps_release sel)" for s
    by (simp add: selectPodByName_def activePods_def sortPods_def example_pod_def example_access_def
        zero_values trackTargetLocked_def accessKey_def podTargetKey_def Let_def)
  obtain s1 sel1 where 1: "?sel newStrategySelector = (s1, Some sel1)"
    "rel_key (ps_release sel1) = targetConnectionKey ''ns/acc'' ''ns/a''" "\<not> rel_done (ps_release sel1)" using sel by blast
  obtain s2 sel2 where 2: "?sel s1 = (s2, Some sel2)"
    "rel_key (ps_release sel2) = targetConnectionKey ''ns/acc'' ''ns/a''" "\<not> rel_done (ps_release sel2)" using sel by blast
  obtain s3 r3 where 3: "release_run s2 (ps_release sel1) = (s3, r3)" "rel_done r3"
    using 1(3) by (auto simp: release_run_def)
  have "reach track_init track_step (newStrategySelector, [])" by (rule reach_init) (simp add: track_init_def)
  then have "reach track_init track_step (s1, [] @ [ps_release sel1])" using track_named[OF 1(1)] by (rule reach_step)
  then have "reach track_init track_step (s2, ([] @ [ps_release sel1]) @ [ps_release sel2])"
    using track_named[OF 2(1)] by (rule reach_step)
  then have r: "reach track_init track_step (s3, [r3, ps_release sel2])"
    using track_release[of 0 "[ps_release sel1, ps_release sel2]" s2 s3 r3] 3(1) by (auto intro: reach_step)
  have "ss_connections s3 (targetConnectionKey ''ns/acc'' ''ns/a'') = Some 1"
    using connection_counts_exact[OF r, of "targetConnectionKey ''ns/acc'' ''ns/a''"] 3(2) 2(2,3) by simp
  then show ?thesis using r by (intro exI[of _ s3] exI[of _ "[r3, ps_release sel2]"]) simp
qed

end
