(* ===== verification/Authn.thy ===== *)
theory Authn
  imports Targets
begin

text \<open>
  Package \<^verbatim>\<open>authn\<close>: identities, the authenticator chain (\<^verbatim>\<open>chain.go\<close>), the static password and
  public-key authenticators, the anonymous one and the webhook authenticator's decision.
  A public key is its wire encoding (what \<^verbatim>\<open>Marshal\<close> returns).  The functions of
  golang.org/x/crypto/ssh and the webhook's HTTP exchange are parameters.
\<close>

section \<open>Types\<close>

type_synonym PublicKey = string

record CryptoSSH =
  ck_ParseAuthorizedKey :: "string \<Rightarrow> PublicKey result"
  ck_FingerprintSHA256 :: "PublicKey \<Rightarrow> string"
  ck_MarshalAuthorizedKey :: "PublicKey \<Rightarrow> string"

record UserInfo =
  u_ID :: string
  u_Name :: string
  u_Email :: string
  u_EmailVerified :: bool
  u_Groups :: "string list"
  u_Extra :: "string \<rightharpoonup> string list"

definition zero_UserInfo :: UserInfo where
  "zero_UserInfo = \<lparr> u_ID = [], u_Name = [], u_Email = [], u_EmailVerified = False, u_Groups = [],
     u_Extra = Map.empty \<rparr>"

record AuthenticateInfo =
  ai_User :: UserInfo
  ai_Method :: string
  ai_TargetHints :: "Hint list"
  ai_Extra :: "string \<rightharpoonup> string list"

record AuthorizedKeyEntry =
  ake_Subject :: string
  ake_PublicKey :: string
  ake_Groups :: "string list"

record PasswordEntry =
  pwe_Subject :: string
  pwe_Password :: string
  pwe_Groups :: "string list"

record SSHAuthenticator =
  au_AuthenticateBasic :: "string \<Rightarrow> string \<Rightarrow> AuthenticateInfo result"
  au_AuthenticatePublicKey :: "string \<Rightarrow> PublicKey \<Rightarrow> AuthenticateInfo result"

section \<open>Entries\<close>

definition ParseAuthorizedKeyEntry :: "string \<Rightarrow> AuthorizedKeyEntry result" where
  "ParseAuthorizedKeyEntry v =
     (case Cut v (CHR ''='') of
        (subject, publicKey, ok) \<Rightarrow>
          if \<not> ok \<or> subject = [] \<or> publicKey = []
          then Inl (Errorf ''authorized key must be subject=authorized_keys-line'' [])
          else Inr \<lparr> ake_Subject = subject, ake_PublicKey = publicKey, ake_Groups = [] \<rparr>)"

definition ParsePasswordEntry :: "string \<Rightarrow> PasswordEntry result" where
  "ParsePasswordEntry v =
     (case Cut v (CHR ''='') of
        (subject, password, ok) \<Rightarrow>
          if \<not> ok \<or> subject = [] \<or> password = []
          then Inl (Errorf ''password must be subject=password'' [])
          else Inr \<lparr> pwe_Subject = subject, pwe_Password = password, pwe_Groups = [] \<rparr>)"

section \<open>The chain\<close>

fun chain_authenticate :: "('i \<Rightarrow> AuthenticateInfo result) list \<Rightarrow> 'i \<Rightarrow> AuthenticateInfo result" where
  "chain_authenticate [] i = Inl ErrAuthnNotProvided"
| "chain_authenticate (authenticate # rest) i =
     (case authenticate i of
        Inl err \<Rightarrow> if \<not> errors_is err ErrAuthnNotProvided then Inl err else chain_authenticate rest i
      | Inr info \<Rightarrow> Inr info)"

definition NewChain :: "SSHAuthenticator list \<Rightarrow> SSHAuthenticator" where
  "NewChain authenticators =
     \<lparr> au_AuthenticateBasic = (\<lambda>username password.
         chain_authenticate (map (\<lambda>a (u, p). au_AuthenticateBasic a u p) authenticators) (username, password)),
       au_AuthenticatePublicKey = (\<lambda>username pubkey.
         chain_authenticate (map (\<lambda>a (u, k). au_AuthenticatePublicKey a u k) authenticators) (username, pubkey)) \<rparr>"

section \<open>Static authenticators\<close>

definition static_info :: "string \<Rightarrow> string list \<Rightarrow> string \<Rightarrow> AuthenticateInfo" where
  "static_info subject groups method =
     \<lparr> ai_User = zero_UserInfo\<lparr> u_Name := subject, u_Email := subject, u_Groups := groups \<rparr>,
       ai_Method = method, ai_TargetHints = [], ai_Extra = Map.empty \<rparr>"

fun NewStaticPasswordAuthenticator :: "PasswordEntry list \<Rightarrow> (AuthenticateInfo \<times> string) list result" where
  "NewStaticPasswordAuthenticator [] = Inr []"
| "NewStaticPasswordAuthenticator (e # entries) =
     (if pwe_Subject e = [] \<or> pwe_Password e = []
      then Inl (Errorf ''password entry requires subject and password'' [])
      else bind_result (NewStaticPasswordAuthenticator entries)
             (\<lambda>parsed. Inr ((static_info (pwe_Subject e) (pwe_Groups e) ''password'', pwe_Password e) # parsed)))"

definition StaticPasswordAuthenticator :: "(AuthenticateInfo \<times> string) list \<Rightarrow> SSHAuthenticator" where
  "StaticPasswordAuthenticator entries =
     \<lparr> au_AuthenticateBasic = (\<lambda>_ password.
         case find (\<lambda>e. snd e = password) entries of
           Some e \<Rightarrow> Inr (fst e)
         | None \<Rightarrow> Inl (Wrap ''%w: password rejected'' [] ErrAuthnNotProvided)),
       au_AuthenticatePublicKey = (\<lambda>_ _. Inl ErrAuthnNotProvided) \<rparr>"

fun NewStaticPublicKeyAuthenticator ::
  "CryptoSSH \<Rightarrow> AuthorizedKeyEntry list \<Rightarrow> (AuthenticateInfo \<times> PublicKey) list result" where
  "NewStaticPublicKeyAuthenticator ck [] = Inr []"
| "NewStaticPublicKeyAuthenticator ck (e # entries) =
     (case ck_ParseAuthorizedKey ck (ake_PublicKey e) of
        Inl err \<Rightarrow> Inl (Wrap ''parse authorized key for %q: %w'' [ake_Subject e] err)
      | Inr key \<Rightarrow>
          bind_result (NewStaticPublicKeyAuthenticator ck entries)
            (\<lambda>parsed. Inr ((static_info (ake_Subject e) (ake_Groups e) ''publickey'', key) # parsed)))"

definition StaticPublicKeyAuthenticator ::
  "CryptoSSH \<Rightarrow> (AuthenticateInfo \<times> PublicKey) list \<Rightarrow> SSHAuthenticator" where
  "StaticPublicKeyAuthenticator ck entries =
     \<lparr> au_AuthenticateBasic = (\<lambda>_ _. Inl ErrAuthnNotProvided),
       au_AuthenticatePublicKey = (\<lambda>_ pubkey.
         case find (\<lambda>e. snd e = pubkey) entries of
           Some e \<Rightarrow> Inr (fst e)
         | None \<Rightarrow> Inl (Wrap ''%w: public key %s'' [ck_FingerprintSHA256 ck pubkey] ErrAuthnNotProvided)) \<rparr>"

abbreviation AnonymousUserName :: string where "AnonymousUserName \<equiv> ''anonymous''"

definition anonymousInfo :: AuthenticateInfo where
  "anonymousInfo =
     \<lparr> ai_User = zero_UserInfo\<lparr> u_Name := AnonymousUserName \<rparr>, ai_Method = ''anonymous'',
       ai_TargetHints = [], ai_Extra = Map.empty \<rparr>"

definition Anonymous :: SSHAuthenticator where
  "Anonymous =
     \<lparr> au_AuthenticateBasic = (\<lambda>_ _. Inr anonymousInfo),
       au_AuthenticatePublicKey = (\<lambda>_ _. Inr anonymousInfo) \<rparr>"

section \<open>The webhook authenticator\<close>

record WebhookPasswordCredential =
  wpc_Password :: string

record WebhookPublicKeyCredential =
  wkc_AuthorizedKey :: string
  wkc_Fingerprint :: string

record WebhookAuthenticateRequest =
  wrq_Type :: string
  wrq_SSHUser :: string
  wrq_Password :: "WebhookPasswordCredential option"
  wrq_PublicKey :: "WebhookPublicKeyCredential option"

record WebhookTargetHint =
  wth_Kind :: string
  wth_Options :: "(string \<times> string) list"
  wth_Extra :: "string \<rightharpoonup> string list"

record WebhookAuthenticateResponse =
  wrs_Authenticated :: bool
  wrs_User :: UserInfo
  wrs_Method :: string
  wrs_TargetHints :: "WebhookTargetHint list"
  wrs_Reason :: string
  wrs_Error :: string

definition targetHintsFromWebhook :: "WebhookTargetHint list \<Rightarrow> Hint list" where
  "targetHintsFromWebhook values =
     map (\<lambda>v. \<lparr> hint_Kind = wth_Kind v,
               hint_Options = map (\<lambda>(k, x). \<lparr> opt_Key = k, opt_Value = x \<rparr>) (wth_Options v),
               hint_Aliases = extra_get (wth_Extra v) ''aliases'' \<rparr>) values"

definition webhook_authenticate ::
  "(WebhookAuthenticateRequest \<Rightarrow> WebhookAuthenticateResponse result) \<Rightarrow> WebhookAuthenticateRequest \<Rightarrow>
    AuthenticateInfo result" where
  "webhook_authenticate post req =
     (case post req of
        Inl err \<Rightarrow> Inl err
      | Inr resp \<Rightarrow>
          if wrs_Error resp \<noteq> [] then Inl (Errorf ''webhook authentication error: %s'' [wrs_Error resp])
          else if \<not> wrs_Authenticated resp
          then Inl (Errorf ''%s'' [if wrs_Reason resp = [] then ''webhook authentication rejected''
                                 else wrs_Reason resp])
          else if u_Name (wrs_User resp) = []
          then Inl (Errorf ''webhook authentication response requires user.name'' [])
          else Inr \<lparr> ai_User = wrs_User resp,
                     ai_Method = (if wrs_Method resp = [] then ''webhook'' else wrs_Method resp),
                     ai_TargetHints = targetHintsFromWebhook (wrs_TargetHints resp),
                     ai_Extra = Map.empty \<rparr>)"

definition WebhookAuthenticator ::
  "CryptoSSH \<Rightarrow> (WebhookAuthenticateRequest \<Rightarrow> WebhookAuthenticateResponse result) \<Rightarrow> SSHAuthenticator" where
  "WebhookAuthenticator ck post =
     \<lparr> au_AuthenticateBasic = (\<lambda>username password.
         webhook_authenticate post
           \<lparr> wrq_Type = ''password'', wrq_SSHUser = username,
             wrq_Password = Some \<lparr> wpc_Password = password \<rparr>, wrq_PublicKey = None \<rparr>),
       au_AuthenticatePublicKey = (\<lambda>username pubkey.
         webhook_authenticate post
           \<lparr> wrq_Type = ''publickey'', wrq_SSHUser = username, wrq_Password = None,
             wrq_PublicKey = Some
               \<lparr> wkc_AuthorizedKey = TrimSpace (ck_MarshalAuthorizedKey ck pubkey),
                 wkc_Fingerprint = ck_FingerprintSHA256 ck pubkey \<rparr> \<rparr>) \<rparr>"

section \<open>Lemmas\<close>

definition authn_passes :: "AuthenticateInfo result \<Rightarrow> bool" where
  "authn_passes r = (case r of Inl e \<Rightarrow> errors_is e ErrAuthnNotProvided | Inr _ \<Rightarrow> False)"

interpretation authn_chain: first_decisive chain_authenticate authn_passes "\<lambda>i _. i"
  by unfold_locales (auto simp: authn_passes_def split: sum.splits)

lemma chain_authenticate_Inr:
  assumes "chain_authenticate fs i = Inr info"
  shows "\<exists>pre f post. fs = pre @ f # post \<and> (\<forall>g \<in> set pre. authn_passes (g i)) \<and> f i = Inr info"
proof -
  have "\<not> authn_passes (chain_authenticate fs i)" using assms by (simp add: authn_passes_def)
  from authn_chain.run_decided_first[OF this] obtain pre f post where
    "fs = pre @ f # post" "\<forall>g \<in> set pre. authn_passes (g i)" "chain_authenticate fs i = f i"
    by (auto simp: all_pass_stateless)
  then show ?thesis using assms by metis
qed

lemma NewStaticPasswordAuthenticator_entries:
  "NewStaticPasswordAuthenticator es = Inr ps \<Longrightarrow>
     ps = map (\<lambda>e. (static_info (pwe_Subject e) (pwe_Groups e) ''password'', pwe_Password e)) es \<and>
     (\<forall>e \<in> set es. pwe_Subject e \<noteq> [] \<and> pwe_Password e \<noteq> [])"
  by (induction es arbitrary: ps) (auto simp: bind_result_Inr_iff split: if_splits)

lemma NewStaticPublicKeyAuthenticator_entries:
  "NewStaticPublicKeyAuthenticator ck es = Inr ps \<Longrightarrow>
     list_all2 (\<lambda>e p. fst p = static_info (ake_Subject e) (ake_Groups e) ''publickey'' \<and>
       ck_ParseAuthorizedKey ck (ake_PublicKey e) = Inr (snd p)) es ps"
  by (induction es arbitrary: ps) (auto simp: bind_result_Inr_iff split: sum.splits)

lemma static_info_Extra [simp]: "ai_Extra (static_info s g m) = Map.empty"
  by (simp add: static_info_def)

lemma anonymousInfo_Extra [simp]: "ai_Extra anonymousInfo = Map.empty"
  by (simp add: anonymousInfo_def)

lemma webhook_authenticate_Extra:
  "webhook_authenticate post req = Inr info \<Longrightarrow> ai_Extra info = Map.empty"
  by (auto simp: webhook_authenticate_def split: sum.splits if_splits)

text \<open>
  Authenticators that never attach authenticator-owned attributes: with them no
  connection can claim the identity of an Access credential.
\<close>

definition no_extra :: "SSHAuthenticator \<Rightarrow> bool" where
  "no_extra a \<longleftrightarrow>
     (\<forall>u p i. au_AuthenticateBasic a u p = Inr i \<longrightarrow> ai_Extra i = Map.empty) \<and>
     (\<forall>u k i. au_AuthenticatePublicKey a u k = Inr i \<longrightarrow> ai_Extra i = Map.empty)"

lemma no_extra_Anonymous: "no_extra Anonymous"
  by (simp add: no_extra_def Anonymous_def)

lemma no_extra_Webhook: "no_extra (WebhookAuthenticator ck post)"
  by (auto simp: no_extra_def WebhookAuthenticator_def dest: webhook_authenticate_Extra)

lemma no_extra_StaticPassword:
  assumes "NewStaticPasswordAuthenticator es = Inr ps"
  shows "no_extra (StaticPasswordAuthenticator ps)"
  using NewStaticPasswordAuthenticator_entries[OF assms]
  by (auto simp: no_extra_def StaticPasswordAuthenticator_def split: option.splits dest!: find_SomeD)

lemma no_extra_StaticPublicKey:
  assumes "NewStaticPublicKeyAuthenticator ck es = Inr ps"
  shows "no_extra (StaticPublicKeyAuthenticator ck ps)"
proof -
  have "\<forall>p \<in> set ps. ai_Extra (fst p) = Map.empty"
    using NewStaticPublicKeyAuthenticator_entries[OF assms]
    by (induction rule: list_all2_induct) auto
  then show ?thesis
    by (auto simp: no_extra_def StaticPublicKeyAuthenticator_def split: option.splits dest!: find_SomeD)
qed

lemma NewChain_Basic_Inr:
  assumes "au_AuthenticateBasic (NewChain as) u p = Inr info"
  shows "\<exists>pre a post. as = pre @ a # post \<and> au_AuthenticateBasic a u p = Inr info \<and>
    (\<forall>b \<in> set pre. authn_passes (au_AuthenticateBasic b u p))"
proof -
  from assms obtain pre f post where s: "map (\<lambda>a (u, p). au_AuthenticateBasic a u p) as = pre @ f # post"
    "\<forall>g \<in> set pre. authn_passes (g (u, p))" "f (u, p) = Inr info"
    using chain_authenticate_Inr by (fastforce simp: NewChain_def)
  then obtain xs a ys where "as = xs @ a # ys" "pre = map (\<lambda>a (u, p). au_AuthenticateBasic a u p) xs"
    "f = (\<lambda>(u, p). au_AuthenticateBasic a u p)"
    by (auto simp: map_eq_append_conv map_eq_Cons_conv)
  then show ?thesis using s by (intro exI[of _ xs] exI[of _ a] exI[of _ ys]) auto
qed

lemma NewChain_PublicKey_Inr:
  assumes "au_AuthenticatePublicKey (NewChain as) u k = Inr info"
  shows "\<exists>pre a post. as = pre @ a # post \<and> au_AuthenticatePublicKey a u k = Inr info \<and>
    (\<forall>b \<in> set pre. authn_passes (au_AuthenticatePublicKey b u k))"
proof -
  from assms obtain pre f post where s: "map (\<lambda>a (u, k). au_AuthenticatePublicKey a u k) as = pre @ f # post"
    "\<forall>g \<in> set pre. authn_passes (g (u, k))" "f (u, k) = Inr info"
    using chain_authenticate_Inr by (fastforce simp: NewChain_def)
  then obtain xs a ys where "as = xs @ a # ys" "pre = map (\<lambda>a (u, k). au_AuthenticatePublicKey a u k) xs"
    "f = (\<lambda>(u, k). au_AuthenticatePublicKey a u k)"
    by (auto simp: map_eq_append_conv map_eq_Cons_conv)
  then show ?thesis using s by (intro exI[of _ xs] exI[of _ a] exI[of _ ys]) auto
qed

end
