(* ===== verification/Credentials.thy ===== *)
theory Credentials
  imports Locator Authn
begin

text \<open>
  Credential matching against one Access (\<^verbatim>\<open>pkg/accesspolicy/policy_cache.go\<close>: MatchPassword,
  MatchPublicKey and their helpers), the Access authenticator built on it
  (\<^verbatim>\<open>authenticator.go\<close>, \<^verbatim>\<open>context.go\<close>) and the SSH methods an Access offers
  (\<^verbatim>\<open>authentication_methods.go\<close>).
\<close>

record CredentialMatch =
  cm_Access :: Access
  cm_Credential :: AccessCredential

abbreviation CredentialTypePassword :: string where "CredentialTypePassword \<equiv> ''password''"
abbreviation CredentialTypePublicKey :: string where "CredentialTypePublicKey \<equiv> ''publickey''"

section \<open>Credential material\<close>

definition keyFingerprint :: "CryptoSSH \<Rightarrow> string \<Rightarrow> string" where
  "keyFingerprint ck line =
     (let line' = TrimSpace line
      in if line' = [] then []
         else case ck_ParseAuthorizedKey ck line' of
                Inl _ \<Rightarrow> []
              | Inr pubkey \<Rightarrow> ck_FingerprintSHA256 ck pubkey)"

fun secret_tokens :: "PolicyCache \<Rightarrow> string \<Rightarrow> LocalSecretKeyRef list \<Rightarrow> string set \<Rightarrow> string set result" where
  "secret_tokens c namespace [] values = Inr values"
| "secret_tokens c namespace (ref # refs) values =
     (case SecretValue c namespace ref of
        Inl err \<Rightarrow> Inl err
      | Inr v \<Rightarrow> secret_tokens c namespace refs (values \<union> set (splitSecretLines v)))"

definition credentialPasswords :: "PolicyCache \<Rightarrow> string \<Rightarrow> AccessCredential \<Rightarrow> string set result" where
  "credentialPasswords c namespace credential =
     secret_tokens c namespace (cred_PasswordsFrom credential)
       (set (filter (\<lambda>v. v \<noteq> []) (cred_Passwords credential)))"

fun line_fingerprints :: "CryptoSSH \<Rightarrow> go_error \<Rightarrow> string list \<Rightarrow> string set \<Rightarrow> string set result" where
  "line_fingerprints ck invalid [] values = Inr values"
| "line_fingerprints ck invalid (line # lines) values =
     (let fingerprint = keyFingerprint ck line
      in if fingerprint = [] then Inl invalid
         else line_fingerprints ck invalid lines (insert fingerprint values))"

fun secret_fingerprints ::
  "CryptoSSH \<Rightarrow> PolicyCache \<Rightarrow> string \<Rightarrow> string \<Rightarrow> LocalSecretKeyRef list \<Rightarrow> string set \<Rightarrow> string set result" where
  "secret_fingerprints ck c namespace user [] values = Inr values"
| "secret_fingerprints ck c namespace user (ref # refs) values =
     (case SecretValue c namespace ref of
        Inl err \<Rightarrow> Inl err
      | Inr v \<Rightarrow>
          bind_result
            (line_fingerprints ck
               (Errorf ''credential %q public key reference %s/%s:%s contains an invalid public key''
                 [user, namespace, ref_Name ref, ref_Key ref])
               (splitSecretLines v) values)
            (secret_fingerprints ck c namespace user refs))"

definition credentialPublicKeys ::
  "CryptoSSH \<Rightarrow> PolicyCache \<Rightarrow> string \<Rightarrow> AccessCredential \<Rightarrow> string set result" where
  "credentialPublicKeys ck c namespace credential =
     bind_result
       (line_fingerprints ck
          (Errorf ''credential %q in namespace %q contains an invalid public key''
            [cred_Username credential, namespace])
          (cred_PublicKeys credential) {})
       (secret_fingerprints ck c namespace (cred_Username credential) (cred_PublicKeysFrom credential))"

section \<open>Matching\<close>

definition credentialMatch :: "Access \<Rightarrow> nat list \<Rightarrow> string \<Rightarrow> CredentialMatch result" where
  "credentialMatch access matches kind =
     (if length matches = 0 then Inl ErrAuthnNotProvided
      else if length matches > 1
      then Inl (Errorf ''%s maps to multiple credential identities in access %s/%s''
                 [kind, acc_Namespace access, acc_Name access])
      else Inr \<lparr> cm_Access = access,
                 cm_Credential = spec_Credentials (acc_Spec access) ! hd matches \<rparr>)"

text \<open>
  The loop of both matchers: the indices of the credentials whose material contains the
  value; the first unreadable credential ends it.
\<close>

fun matching_indices ::
  "(AccessCredential \<Rightarrow> string set result) \<Rightarrow> string \<Rightarrow> nat \<Rightarrow> AccessCredential list \<Rightarrow> nat list result" where
  "matching_indices material v i [] = Inr []"
| "matching_indices material v i (cred # creds) =
     (case material cred of
        Inl err \<Rightarrow> Inl err
      | Inr values \<Rightarrow>
          bind_result (matching_indices material v (Suc i) creds)
            (\<lambda>rest. Inr (if v \<in> values then i # rest else rest)))"

definition MatchPassword :: "PolicyCache \<Rightarrow> string \<Rightarrow> string \<Rightarrow> CredentialMatch result" where
  "MatchPassword c sshUser token =
     (if token = [] then Inl ErrAuthnNotProvided
      else
        case resolveAccessLocator (PolicyCache_Get c) sshUser of
          Inl err \<Rightarrow> Inl err
        | Inr None \<Rightarrow> Inl ErrAuthnNotProvided
        | Inr (Some (_, access)) \<Rightarrow>
            bind_result
              (matching_indices (credentialPasswords c (acc_Namespace access)) token 0
                 (spec_Credentials (acc_Spec access)))
              (\<lambda>matches. credentialMatch access matches ''password''))"

definition MatchPublicKey ::
  "CryptoSSH \<Rightarrow> PolicyCache \<Rightarrow> string \<Rightarrow> PublicKey option \<Rightarrow> CredentialMatch result" where
  "MatchPublicKey ck c sshUser pubkey =
     (case pubkey of
        None \<Rightarrow> Inl ErrAuthnNotProvided
      | Some key \<Rightarrow>
          (case resolveAccessLocator (PolicyCache_Get c) sshUser of
             Inl err \<Rightarrow> Inl err
           | Inr None \<Rightarrow> Inl ErrAuthnNotProvided
           | Inr (Some (_, access)) \<Rightarrow>
               bind_result
                 (matching_indices (credentialPublicKeys ck c (acc_Namespace access))
                    (ck_FingerprintSHA256 ck key) 0 (spec_Credentials (acc_Spec access)))
                 (\<lambda>matches. credentialMatch access matches ''public key'')))"

section \<open>The Access authenticator\<close>

definition authExtra :: "CredentialMatch \<Rightarrow> string \<Rightarrow> (string \<rightharpoonup> string list)" where
  "authExtra m credentialType =
     [ExtraAccessNamespace \<mapsto> [acc_Namespace (cm_Access m)],
      ExtraAccessName \<mapsto> [acc_Name (cm_Access m)],
      ExtraCredentialUser \<mapsto> [cred_Username (cm_Credential m)],
      ExtraCredentialType \<mapsto> [credentialType]]"

definition matchUser :: "CredentialMatch \<Rightarrow> UserInfo" where
  "matchUser m = zero_UserInfo\<lparr> u_ID := cred_UID (cm_Credential m), u_Name := cred_Username (cm_Credential m),
     u_Groups := cred_Groups (cm_Credential m), u_Extra := cred_Extra (cm_Credential m) \<rparr>"

definition access_info :: "CredentialMatch \<Rightarrow> string \<Rightarrow> string \<Rightarrow> AuthenticateInfo" where
  "access_info m method credentialType =
     \<lparr> ai_User = matchUser m, ai_Method = method, ai_TargetHints = [],
       ai_Extra = authExtra m credentialType \<rparr>"

definition AccessAuthenticator :: "CryptoSSH \<Rightarrow> PolicyCache \<Rightarrow> SSHAuthenticator" where
  "AccessAuthenticator ck c =
     \<lparr> au_AuthenticateBasic = (\<lambda>sshUser password.
         bind_result (MatchPassword c sshUser password)
           (\<lambda>m. Inr (access_info m ''crd-password'' CredentialTypePassword))),
       au_AuthenticatePublicKey = (\<lambda>sshUser pubkey.
         bind_result (MatchPublicKey ck c sshUser (Some pubkey))
           (\<lambda>m. Inr (access_info m ''crd-publickey'' CredentialTypePublicKey))) \<rparr>"

text \<open>
  The methods an Access offers: the result is the methods and whether an Access was found.
\<close>

definition AuthenticationMethods ::
  "(string \<Rightarrow> string \<Rightarrow> Access result) \<Rightarrow> string \<Rightarrow> (string list \<times> bool) result" where
  "AuthenticationMethods get sshUser =
     (case resolveAccessLocator get sshUser of
        Inl err \<Rightarrow> Inl err
      | Inr None \<Rightarrow> Inr ([], False)
      | Inr (Some (_, access)) \<Rightarrow>
          let creds = spec_Credentials (acc_Spec access);
              publicKey = (\<exists>cred \<in> set creds. cred_PublicKeysFrom cred \<noteq> [] \<or> (\<exists>v \<in> set (cred_PublicKeys cred). v \<noteq> []));
              password = (\<exists>cred \<in> set creds. cred_PasswordsFrom cred \<noteq> [] \<or> (\<exists>v \<in> set (cred_Passwords cred). v \<noteq> []))
          in Inr ((if publicKey then [CredentialTypePublicKey] else []) @
                  (if password then [CredentialTypePassword] else []), True))"

section \<open>Lemmas\<close>

lemma secret_tokens_mono: "secret_tokens c ns refs vs = Inr ws \<Longrightarrow> vs \<subseteq> ws"
  by (induction refs arbitrary: vs) (auto split: sum.splits)

lemma TrimSpace_nonempty_splitSecretLines: "x \<in> set (splitSecretLines v) \<Longrightarrow> x \<noteq> []"
  by (simp add: splitSecretLines_def)

lemma secret_tokens_nonempty:
  "secret_tokens c ns refs vs = Inr ws \<Longrightarrow> [] \<notin> vs \<Longrightarrow> [] \<notin> ws"
proof (induction refs arbitrary: vs)
  case (Cons ref refs)
  then show ?case using TrimSpace_nonempty_splitSecretLines by (fastforce split: sum.splits)
qed simp

lemma credentialPasswords_nonempty: "credentialPasswords c ns cred = Inr ws \<Longrightarrow> [] \<notin> ws"
  unfolding credentialPasswords_def by (rule secret_tokens_nonempty) auto

lemma secret_tokens_declared:
  "secret_tokens c ns refs vs = Inr ws \<Longrightarrow> x \<in> ws \<Longrightarrow> x \<in> vs \<or> refs \<noteq> []"
  by (cases refs) auto

lemma line_fingerprints_spec:
  "line_fingerprints ck e ls vs = Inr ws \<longleftrightarrow>
     (\<forall>l \<in> set ls. keyFingerprint ck l \<noteq> []) \<and> ws = vs \<union> keyFingerprint ck ` set ls"
  by (induction ls arbitrary: vs) (auto simp: Let_def)

lemma secret_fingerprints_declared:
  "secret_fingerprints ck c ns u refs vs = Inr ws \<Longrightarrow> x \<in> ws \<Longrightarrow> x \<in> vs \<or> refs \<noteq> []"
  by (cases refs) auto

lemma matching_indices_spec:
  "matching_indices material v i creds = Inr is \<Longrightarrow>
     (\<forall>cred \<in> set creds. \<exists>vs. material cred = Inr vs) \<and>
     is = map (\<lambda>j. i + j) (filter (\<lambda>j. \<exists>vs. material (creds ! j) = Inr vs \<and> v \<in> vs) [0..<length creds])"
proof (induction creds arbitrary: i "is")
  case (Cons cred creds)
  then obtain vs rest where vs: "material cred = Inr vs" "matching_indices material v (Suc i) creds = Inr rest"
    and is': "is = (if v \<in> vs then i # rest else rest)"
    by (auto simp: bind_result_Inr_iff split: sum.splits)
  have up: "[0..<length (cred # creds)] = 0 # map Suc [0..<length creds]"
    by (simp add: map_Suc_upt upt_conv_Cons del: upt_Suc)
  show ?case using Cons.IH[OF vs(2)] is' vs(1) unfolding up
    by (auto simp: filter_map comp_def)
qed simp

text \<open>A match names a credential of the located Access that holds the value, and the only one.\<close>

lemma matched_credential:
  assumes m: "bind_result (matching_indices material v 0 (spec_Credentials (acc_Spec a)))
      (\<lambda>is. credentialMatch a is kind) = Inr m"
  shows "\<exists>i < length (spec_Credentials (acc_Spec a)). cm_Access m = a \<and>
    cm_Credential m = spec_Credentials (acc_Spec a) ! i \<and>
    (\<forall>j < length (spec_Credentials (acc_Spec a)).
       (\<exists>vs. material (spec_Credentials (acc_Spec a) ! j) = Inr vs \<and> v \<in> vs) \<longleftrightarrow> j = i)"
proof -
  let ?cs = "spec_Credentials (acc_Spec a)"
  let ?P = "\<lambda>j. \<exists>vs. material (?cs ! j) = Inr vs \<and> v \<in> vs"
  from m obtain idxs where is': "matching_indices material v 0 ?cs = Inr idxs" "credentialMatch a idxs kind = Inr m"
    by (auto simp: bind_result_Inr_iff)
  then have "idxs = filter ?P [0..<length ?cs]" 
    using matching_indices_spec[OF is'(1)] by simp
  moreover obtain i where "idxs = [i]"
    using is'(2) by (cases idxs; cases "tl idxs") (auto simp: credentialMatch_def split: if_splits)
  ultimately have f: "filter ?P [0..<length ?cs] = [i]" by simp
  then have "set (filter ?P [0..<length ?cs]) = {i}" by simp
  then have iff: "\<forall>j. j < length ?cs \<and> ?P j \<longleftrightarrow> j = i" by auto
  moreover have "i < length ?cs" using iff by blast
  moreover have "cm_Access m = a" "cm_Credential m = ?cs ! i"
    using is'(2) \<open>idxs = [i]\<close> by (auto simp: credentialMatch_def)
  ultimately show ?thesis by (intro exI[of _ i]) blast
qed

text \<open>Logins through an Access: which credential was used, and for which Access.\<close>

definition accepts :: "(AccessCredential \<Rightarrow> string set result) \<Rightarrow> string \<Rightarrow> AccessCredential \<Rightarrow> bool" where
  "accepts material v cred \<longleftrightarrow> (\<exists>vs. material cred = Inr vs \<and> v \<in> vs)"

definition sole_match ::
  "(AccessCredential \<Rightarrow> string set result) \<Rightarrow> string \<Rightarrow> Access \<Rightarrow> AccessCredential \<Rightarrow> bool" where
  "sole_match material v a cred \<longleftrightarrow>
     (\<exists>i < length (spec_Credentials (acc_Spec a)). cred = spec_Credentials (acc_Spec a) ! i \<and>
        (\<forall>j < length (spec_Credentials (acc_Spec a)).
           accepts material v (spec_Credentials (acc_Spec a) ! j) \<longleftrightarrow> j = i))"

lemma MatchPassword_Inr:
  assumes "MatchPassword c u p = Inr m"
  shows "\<exists>loc. resolveAccessLocator (PolicyCache_Get c) u = Inr (Some (loc, cm_Access m)) \<and> p \<noteq> [] \<and>
    sole_match (credentialPasswords c (acc_Namespace (cm_Access m))) p (cm_Access m) (cm_Credential m)"
proof -
  from assms obtain loc a where l: "resolveAccessLocator (PolicyCache_Get c) u = Inr (Some (loc, a))" "p \<noteq> []"
    and m: "bind_result (matching_indices (credentialPasswords c (acc_Namespace a)) p 0 (spec_Credentials (acc_Spec a)))
      (\<lambda>is. credentialMatch a is ''password'') = Inr m"
    by (auto simp: MatchPassword_def split: if_splits sum.splits option.splits prod.splits)
  from matched_credential[OF m] show ?thesis using l unfolding sole_match_def accepts_def by auto
qed

lemma MatchPublicKey_Inr:
  assumes "MatchPublicKey ck c u k = Inr m"
  shows "\<exists>loc key. resolveAccessLocator (PolicyCache_Get c) u = Inr (Some (loc, cm_Access m)) \<and> k = Some key \<and>
    sole_match (credentialPublicKeys ck c (acc_Namespace (cm_Access m))) (ck_FingerprintSHA256 ck key)
      (cm_Access m) (cm_Credential m)"
proof -
  from assms obtain loc a key where l: "resolveAccessLocator (PolicyCache_Get c) u = Inr (Some (loc, a))" "k = Some key"
    and m: "bind_result (matching_indices (credentialPublicKeys ck c (acc_Namespace a)) (ck_FingerprintSHA256 ck key) 0
      (spec_Credentials (acc_Spec a))) (\<lambda>is. credentialMatch a is ''public key'') = Inr m"
    by (auto simp: MatchPublicKey_def split: sum.splits option.splits prod.splits)
  from matched_credential[OF m] show ?thesis using l unfolding sole_match_def accepts_def by auto
qed

lemma GetExtra_authExtra [simp]:
  "GetExtra (authExtra m t) ExtraAccessNamespace = acc_Namespace (cm_Access m)"
  "GetExtra (authExtra m t) ExtraAccessName = acc_Name (cm_Access m)"
  "GetExtra (authExtra m t) ExtraCredentialUser = cred_Username (cm_Credential m)"
  by (simp_all add: GetExtra_def authExtra_def extra_get_def)

text \<open>
  Every method with which an Access can be entered is advertised: if a password or a key is
  accepted for a user name, \<^verbatim>\<open>AuthenticationMethods\<close> lists the method.
\<close>

lemma MatchPassword_advertised:
  assumes "MatchPassword c u p = Inr m"
  shows "\<exists>ms. AuthenticationMethods (PolicyCache_Get c) u = Inr (ms, True) \<and> CredentialTypePassword \<in> set ms"
proof -
  obtain loc i vs where l: "resolveAccessLocator (PolicyCache_Get c) u = Inr (Some (loc, cm_Access m))"
    and i: "i < length (spec_Credentials (acc_Spec (cm_Access m)))"
    and vs: "credentialPasswords c (acc_Namespace (cm_Access m)) (spec_Credentials (acc_Spec (cm_Access m)) ! i) = Inr vs"
      "p \<in> vs"
    using MatchPassword_Inr[OF assms] unfolding sole_match_def accepts_def by blast
  let ?cred = "spec_Credentials (acc_Spec (cm_Access m)) ! i"
  have "cred_PasswordsFrom ?cred \<noteq> [] \<or> (\<exists>v \<in> set (cred_Passwords ?cred). v \<noteq> [])"
    using secret_tokens_declared[OF vs(1)[unfolded credentialPasswords_def] vs(2)] by auto
  then show ?thesis using l i nth_mem[OF i] unfolding AuthenticationMethods_def
    by (auto simp: Let_def)
qed

lemma MatchPublicKey_advertised:
  assumes "MatchPublicKey ck c u k = Inr m"
  shows "\<exists>ms. AuthenticationMethods (PolicyCache_Get c) u = Inr (ms, True) \<and> CredentialTypePublicKey \<in> set ms"
proof -
  obtain loc i key vs where l: "resolveAccessLocator (PolicyCache_Get c) u = Inr (Some (loc, cm_Access m))"
    and i: "i < length (spec_Credentials (acc_Spec (cm_Access m)))"
    and vs: "credentialPublicKeys ck c (acc_Namespace (cm_Access m)) (spec_Credentials (acc_Spec (cm_Access m)) ! i) = Inr vs"
      "ck_FingerprintSHA256 ck key \<in> vs"
    using MatchPublicKey_Inr[OF assms] unfolding sole_match_def accepts_def by blast
  let ?cred = "spec_Credentials (acc_Spec (cm_Access m)) ! i"
  have "cred_PublicKeysFrom ?cred \<noteq> [] \<or> (\<exists>v \<in> set (cred_PublicKeys ?cred). v \<noteq> [])"
  proof (rule ccontr)
    assume none: "\<not> ?thesis"
    then have "cred_PublicKeysFrom ?cred = []" "\<forall>v \<in> set (cred_PublicKeys ?cred). keyFingerprint ck v = []"
      by (auto simp: keyFingerprint_def TrimSpace_def)
    then show False using vs by (auto simp: credentialPublicKeys_def bind_result_Inr_iff line_fingerprints_spec)
  qed
  then show ?thesis using l i nth_mem[OF i] unfolding AuthenticationMethods_def
    by (auto simp: Let_def)
qed

end
