(* ===== verification/Authz.thy ===== *)
theory Authz
  imports Credentials Wildcard
begin

text \<open>
  Authorization: package \<^verbatim>\<open>authz\<close> (\<^verbatim>\<open>authz.go\<close>, \<^verbatim>\<open>policy.go\<close>, \<^verbatim>\<open>static.go\<close>, \<^verbatim>\<open>authorizer_sar.go\<close>,
  \<^verbatim>\<open>webhook.go\<close>) and the Access authorizer (\<^verbatim>\<open>pkg/accesspolicy/authorizer.go\<close>).  An
  authorizer maps a request to a decision, a reason and an optional error.  The Kubernetes
  SubjectAccessReview call and the webhook exchange are parameters.
\<close>

section \<open>Requests and decisions\<close>

datatype Decision = DecisionNoOpinion | DecisionDeny | DecisionAllow

instantiation Decision :: linorder
begin

fun decision_rank :: "Decision \<Rightarrow> nat" where
  "decision_rank DecisionNoOpinion = 0"
| "decision_rank DecisionDeny = 1"
| "decision_rank DecisionAllow = 2"

definition less_eq_Decision :: "Decision \<Rightarrow> Decision \<Rightarrow> bool" where
  "less_eq_Decision a b = (decision_rank a \<le> decision_rank b)"

definition less_Decision :: "Decision \<Rightarrow> Decision \<Rightarrow> bool" where
  "less_Decision a b = (decision_rank a < decision_rank b)"

instance
proof
  fix x y z :: Decision
  show "x < y \<longleftrightarrow> x \<le> y \<and> \<not> y \<le> x" by (auto simp: less_eq_Decision_def less_Decision_def)
  show "x \<le> x" by (simp add: less_eq_Decision_def)
  show "x \<le> y \<Longrightarrow> y \<le> z \<Longrightarrow> x \<le> z" by (simp add: less_eq_Decision_def)
  show "x \<le> y \<Longrightarrow> y \<le> x \<Longrightarrow> x = y" by (cases x; cases y) (simp_all add: less_eq_Decision_def)
  show "x \<le> y \<or> y \<le> x" by (auto simp: less_eq_Decision_def)
qed

end

record AttributeResource =
  ar_Resource :: string
  ar_Name :: string

record Attributes =
  at_Action :: string
  at_Resources :: "AttributeResource list"
  at_Path :: string
  at_Extra :: "string \<rightharpoonup> string list"

record Request =
  rq_User :: UserInfo
  rq_AuthMethod :: string
  rq_AuthExtra :: "string \<rightharpoonup> string list"
  rq_Attributes :: Attributes

type_synonym Verdict = "Decision \<times> string \<times> go_error option"
type_synonym Authorizer = "Request \<Rightarrow> Verdict"

definition ParseCapability :: "string \<Rightarrow> Capability result" where
  "ParseCapability v =
     (if v \<in> {CapabilityShell, CapabilityExec, CapabilitySCP, CapabilitySFTP, CapabilityLocalForward,
              CapabilityRemoteForward, CapabilityAgentForward, CapabilitySSHExtension}
      then Inr v else Inl (Errorf ''unknown capability %q'' [v]))"

fun Chain_Authorize :: "Authorizer list \<Rightarrow> Authorizer" where
  "Chain_Authorize [] req = (DecisionNoOpinion, [], None)"
| "Chain_Authorize (authorizer # rest) req =
     (case authorizer req of
        (decision, reason, Some err) \<Rightarrow> (decision, reason, Some err)
      | (decision, reason, None) \<Rightarrow>
          if decision = DecisionAllow \<or> decision = DecisionDeny then (decision, reason, None)
          else Chain_Authorize rest req)"

fun resourceValue :: "AttributeResource list \<Rightarrow> string \<Rightarrow> string" where
  "resourceValue [] resource = []"
| "resourceValue (item # items) resource =
     (if ar_Resource item = resource then ar_Name item else resourceValue items resource)"

definition extraValue :: "(string \<rightharpoonup> string list) \<Rightarrow> string \<Rightarrow> string" where
  "extraValue extra key = (let values = extra_get extra key in if values = [] then [] else hd values)"

section \<open>Policy limits\<close>

record PolicyLimits =
  pl_Capabilities :: "Capability list"
  pl_LocalForwardDestinations :: "string list"
  pl_RemoteForwardBinds :: "string list"
  pl_SkipAccess :: bool

definition containsOrWildcard :: "Capability list \<Rightarrow> Capability \<Rightarrow> bool" where
  "containsOrWildcard values v = (''*'' \<in> set values \<or> v \<in> set values)"

definition forward_destination :: "(string \<rightharpoonup> string list) \<Rightarrow> string" where
  "forward_destination extra = JoinHostPort (extraValue extra ''destination_host'') (extraValue extra ''destination_port'')"

definition forward_bind :: "(string \<rightharpoonup> string list) \<Rightarrow> string" where
  "forward_bind extra = JoinHostPort (extraValue extra ''bind_host'') (extraValue extra ''bind_port'')"

definition PolicyLimits_Authorize :: "PolicyLimits \<Rightarrow> Authorizer" where
  "PolicyLimits_Authorize p req =
     (let isAccess = (length (extra_get (rq_AuthExtra req) ''kube-ssh/access.name'') > 0);
          capability = at_Action (rq_Attributes req);
          extra = at_Extra (rq_Attributes req)
      in if pl_SkipAccess p \<and> isAccess then (DecisionNoOpinion, [], None)
         else if \<not> containsOrWildcard (pl_Capabilities p) capability
         then (DecisionDeny, ''capability exceeds global policy limits'', None)
         else if capability = CapabilityLocalForward \<and>
                 \<not> MatchAny (pl_LocalForwardDestinations p) (forward_destination extra)
         then (DecisionDeny, ''local forward destination exceeds global policy limits'', None)
         else if capability = CapabilityRemoteForward \<and>
                 \<not> MatchAny (pl_RemoteForwardBinds p) (forward_bind extra)
         then (DecisionDeny, ''remote forward bind exceeds global policy limits'', None)
         else (DecisionNoOpinion, [], None))"

section \<open>Static authorizers\<close>

definition AllowAll :: Authorizer where
  "AllowAll req = (DecisionAllow, [], None)"

definition DenyAll :: Authorizer where
  "DenyAll req = (DecisionDeny, [], None)"

record StaticCapabilities =
  sc_Allow :: "Capability list"
  sc_Deny :: "Capability list"

definition StaticCapabilities_Authorize :: "StaticCapabilities \<Rightarrow> Authorizer" where
  "StaticCapabilities_Authorize a req =
     (let capability = at_Action (rq_Attributes req)
      in if capability \<in> set (sc_Deny a) then (DecisionDeny, ''capability denied'', None)
         else if capability \<in> set (sc_Allow a) then (DecisionNoOpinion, [], None)
         else if length (sc_Allow a) = 0 then (DecisionNoOpinion, [], None)
         else (DecisionDeny, ''capability not allowed'', None))"

section \<open>Kubernetes SubjectAccessReview\<close>

record SubjectAccessReviewSpec =
  sar_User :: string
  sar_Groups :: "string list"
  sar_Namespace :: string
  sar_Verb :: string
  sar_Group :: string
  sar_Resource :: string
  sar_Subresource :: string
  sar_Name :: string

record SubjectAccessReviewStatus =
  sas_Allowed :: bool
  sas_Reason :: string
  sas_EvaluationError :: string

definition isKubernetesPodLocalForwardHost :: "string \<Rightarrow> bool" where
  "isKubernetesPodLocalForwardHost host =
     (ToLower host \<in> {[], ''localhost'', ''127.0.0.1'', ''::1''})"

definition kubernetesSARSubresource :: "Attributes \<Rightarrow> string \<times> bool" where
  "kubernetesSARSubresource attrs =
     (if at_Action attrs \<in> {CapabilityShell, CapabilityExec, CapabilitySFTP, CapabilitySCP,
                             CapabilityRemoteForward, CapabilityAgentForward}
      then (''exec'', True)
      else if at_Action attrs = CapabilityLocalForward then
        if isKubernetesPodLocalForwardHost (extraValue (at_Extra attrs) ''destination_host'')
        then (''portforward'', True) else (''exec'', True)
      else ([], False))"

definition KubernetesSARAuthorizer_Authorize ::
  "(SubjectAccessReviewSpec \<Rightarrow> SubjectAccessReviewStatus result) option \<Rightarrow> Authorizer" where
  "KubernetesSARAuthorizer_Authorize client req =
     (case client of
        None \<Rightarrow> (DecisionNoOpinion, [], Some (Errorf ''kubernetes SAR authorizer requires a client'' []))
      | Some create \<Rightarrow>
          let user = rq_User req; attrs = rq_Attributes req
          in if resourceValue (at_Resources attrs) ''targets'' \<noteq> ''kube'' then (DecisionNoOpinion, [], None)
             else
               case kubernetesSARSubresource attrs of
                 (subresource, ok) \<Rightarrow>
                   if \<not> ok then (DecisionNoOpinion, [], None)
                   else
                     let namespace = resourceValue (at_Resources attrs) ''namespaces'';
                         pod = resourceValue (at_Resources attrs) ''pods''
                     in if namespace = [] \<or> pod = []
                        then (DecisionDeny, ''kubernetes target requires namespace and pod'',
                              Some (Errorf ''kubernetes SAR requires namespace and pod'' []))
                        else if u_Name user = [] then (DecisionDeny, ''kubernetes user is required'', None)
                        else
                          case create \<lparr> sar_User = u_Name user, sar_Groups = u_Groups user,
                                 sar_Namespace = namespace, sar_Verb = ''create'', sar_Group = [],
                                 sar_Resource = ''pods'', sar_Subresource = subresource, sar_Name = pod \<rparr> of
                            Inl err \<Rightarrow> (DecisionNoOpinion, [], Some err)
                          | Inr status \<Rightarrow>
                              if sas_Allowed status then (DecisionAllow, [], None)
                              else
                                (DecisionDeny,
                                 if sas_Reason status \<noteq> [] then sas_Reason status
                                 else if sas_EvaluationError status \<noteq> [] then sas_EvaluationError status
                                 else ''kubernetes rbac denied'', None))"

section \<open>The webhook authorizer\<close>

record WebhookAuthorizeResponse =
  wz_Decision :: string
  wz_Reason :: string
  wz_Error :: string

definition WebhookAuthorizer_Authorize ::
  "(UserInfo \<times> Attributes \<Rightarrow> WebhookAuthorizeResponse result) \<Rightarrow> Authorizer" where
  "WebhookAuthorizer_Authorize post req =
     (case post (rq_User req, rq_Attributes req) of
        Inl err \<Rightarrow> (DecisionNoOpinion, [], Some err)
      | Inr resp \<Rightarrow>
          if wz_Error resp \<noteq> []
          then (DecisionNoOpinion, wz_Reason resp, Some (Errorf ''webhook authorization error: %s'' [wz_Error resp]))
          else if wz_Decision resp = ''Allow'' then (DecisionAllow, wz_Reason resp, None)
          else if wz_Decision resp = ''Deny'' then (DecisionDeny, wz_Reason resp, None)
          else if wz_Decision resp = ''NoOpinion'' \<or> wz_Decision resp = []
          then (DecisionNoOpinion, wz_Reason resp, None)
          else (DecisionNoOpinion, wz_Reason resp,
                Some (Errorf ''webhook returned invalid decision %q'' [wz_Decision resp])))"

section \<open>The Access authorizer\<close>

record CapabilityDefaults =
  cd_Allow :: "Capability list"
  cd_LocalForwardDestinations :: "string list"
  cd_RemoteForwardBinds :: "string list"

definition findCredential :: "Access \<Rightarrow> string \<Rightarrow> AccessCredential option" where
  "findCredential access username =
     find (\<lambda>cred. cred_Username cred = username) (spec_Credentials (acc_Spec access))"

definition containerAllowed :: "string list \<Rightarrow> string \<Rightarrow> bool" where
  "containerAllowed allow container = (length allow = 0 \<or> MatchAny allow container)"

definition capabilityAllowed ::
  "CapabilityPolicy \<Rightarrow> CapabilityDefaults \<Rightarrow> Attributes \<Rightarrow> bool \<times> string" where
  "capabilityAllowed policy defaults attrs =
     (let capability = at_Action attrs;
          allowedCapabilities = (if length (cp_Allow policy) = 0 then cd_Allow defaults else cp_Allow policy)
      in if length allowedCapabilities > 0 \<and> capability \<notin> set allowedCapabilities \<and>
            ''*'' \<notin> set allowedCapabilities
         then (False, ''capability not allowed'')
         else if capability = CapabilityLocalForward then
           let allow = (case cp_LocalForward policy of
                          Some lf \<Rightarrow> if length (lfp_AllowDestinations lf) > 0 then lfp_AllowDestinations lf
                                    else cd_LocalForwardDestinations defaults
                        | None \<Rightarrow> cd_LocalForwardDestinations defaults)
           in if length allow > 0 \<and>
                 \<not> MatchAny allow (JoinHostPort (GetExtra (at_Extra attrs) ''destination_host'')
                                     (GetExtra (at_Extra attrs) ''destination_port''))
              then (False, ''local forward destination not allowed'') else (True, [])
         else if capability = CapabilityRemoteForward then
           let allow = (case cp_RemoteForward policy of
                          Some rf \<Rightarrow> if length (rfp_AllowBinds rf) > 0 then rfp_AllowBinds rf
                                    else cd_RemoteForwardBinds defaults
                        | None \<Rightarrow> cd_RemoteForwardBinds defaults)
           in if length allow > 0 \<and>
                 \<not> MatchAny allow (JoinHostPort (GetExtra (at_Extra attrs) ''bind_host'')
                                     (GetExtra (at_Extra attrs) ''bind_port''))
              then (False, ''remote forward bind not allowed'') else (True, [])
         else (True, []))"

fun resourceName :: "AttributeResource list \<Rightarrow> string \<Rightarrow> string" where
  "resourceName [] resource = []"
| "resourceName (item # items) resource =
     (if ar_Resource item = resource then ar_Name item else resourceName items resource)"

definition AccessAuthorizer_Authorize ::
  "(string \<Rightarrow> string \<Rightarrow> Access result) option \<Rightarrow> CapabilityDefaults \<Rightarrow> Authorizer" where
  "AccessAuthorizer_Authorize store defaults req =
     (let namespace = GetExtra (rq_AuthExtra req) ExtraAccessNamespace;
          name = GetExtra (rq_AuthExtra req) ExtraAccessName;
          username = GetExtra (rq_AuthExtra req) ExtraCredentialUser
      in if namespace = [] \<or> name = [] \<or> username = [] then (DecisionNoOpinion, [], None)
         else
           case store of
             None \<Rightarrow> (DecisionNoOpinion, [], Some (Errorf ''access authorizer requires a store'' []))
           | Some get \<Rightarrow>
               (case get namespace name of
                  Inl err \<Rightarrow> (DecisionDeny, ''authenticated access no longer exists'', None)
                | Inr access \<Rightarrow>
                    (case findCredential access username of
                       None \<Rightarrow> (DecisionDeny, ''authenticated credential no longer exists'', None)
                     | Some credential \<Rightarrow>
                         let container = resourceName (at_Resources (rq_Attributes req)) ''containers''
                         in if container \<noteq> [] \<and> (\<not> containerAllowed (spec_Containers (acc_Spec access)) container \<or>
                                                  \<not> containerAllowed (cred_Containers credential) container)
                            then (DecisionDeny, ''container not allowed'', None)
                            else
                              (case capabilityAllowed (cred_Capabilities credential) defaults (rq_Attributes req) of
                                 (allowed, reason) \<Rightarrow>
                                   if \<not> allowed then (DecisionDeny, reason, None)
                                   else (DecisionAllow, [], None)))))"

section \<open>Lemmas\<close>

definition authz_passes :: "Verdict \<Rightarrow> bool" where
  "authz_passes v \<longleftrightarrow> snd (snd v) = None \<and> fst v = DecisionNoOpinion"

interpretation authz_chain: first_decisive Chain_Authorize authz_passes "\<lambda>i _. i"
proof
  fix req show "authz_passes (Chain_Authorize [] req)" by (simp add: authz_passes_def)
next
  fix f :: Authorizer and req fs
  assume "\<not> authz_passes (f req)"
  then show "Chain_Authorize (f # fs) req = f req"
    by (cases "f req"; cases "fst (f req)") (auto simp: authz_passes_def split: option.splits)
next
  fix f :: Authorizer and req fs
  assume "authz_passes (f req)"
  then show "Chain_Authorize (f # fs) req = Chain_Authorize fs req"
    by (cases "f req") (auto simp: authz_passes_def)
next
  fix f :: Authorizer and req fs
  assume "authz_passes (f req)" "authz_passes (Chain_Authorize fs req)"
  then show "authz_passes (Chain_Authorize (f # fs) req)"
    by (cases "f req") (auto simp: authz_passes_def)
qed

lemma extraValue_GetExtra: "extraValue = GetExtra"
  by (intro ext) (simp add: extraValue_def GetExtra_def)

lemma resourceName_resourceValue: "resourceName = resourceValue"
proof (intro ext)
  fix items resource show "resourceName items resource = resourceValue items resource"
    by (induction items) auto
qed

text \<open>
  What it means for a request to stay within limits, independently of the order in which
  the code checks it.
\<close>

definition within_limits :: "PolicyLimits \<Rightarrow> Attributes \<Rightarrow> bool" where
  "within_limits p attrs \<longleftrightarrow>
     (''*'' \<in> set (pl_Capabilities p) \<or> at_Action attrs \<in> set (pl_Capabilities p)) \<and>
     (at_Action attrs = CapabilityLocalForward \<longrightarrow>
        MatchAny (pl_LocalForwardDestinations p) (forward_destination (at_Extra attrs))) \<and>
     (at_Action attrs = CapabilityRemoteForward \<longrightarrow>
        MatchAny (pl_RemoteForwardBinds p) (forward_bind (at_Extra attrs)))"

lemma PolicyLimits_passes_iff:
  "authz_passes (PolicyLimits_Authorize p req) \<longleftrightarrow>
     pl_SkipAccess p \<and> extra_get (rq_AuthExtra req) ''kube-ssh/access.name'' \<noteq> [] \<or>
     within_limits p (rq_Attributes req)"
  by (auto simp: PolicyLimits_Authorize_def authz_passes_def within_limits_def containsOrWildcard_def Let_def)

lemma PolicyLimits_verdict:
  "PolicyLimits_Authorize p req = (DecisionNoOpinion, [], None) \<or>
   (\<exists>reason. PolicyLimits_Authorize p req = (DecisionDeny, reason, None))"
  by (auto simp: PolicyLimits_Authorize_def Let_def)


text \<open>A guard that only denies or passes cannot be bypassed by what stands behind it.\<close>

lemma guarded_chain_Allow:
  assumes "Chain_Authorize (PolicyLimits_Authorize p # rest) req = (DecisionAllow, r, e)"
  shows "authz_passes (PolicyLimits_Authorize p req) \<and> Chain_Authorize rest req = (DecisionAllow, r, e)"
  using assms PolicyLimits_verdict[of p req] by (auto simp: authz_passes_def)

end
