(* ===== verification/AccessResolver.thy ===== *)
theory AccessResolver
  imports StrategyLaws Authz SshTarget
begin

text \<open>
  The Access resolver (\<^verbatim>\<open>pkg/accesspolicy/resolver.go\<close>: Resolve, resolveExplicitPodLocator):
  from an authenticated SSH user name to one bound target.  Its state is the selector and
  the release closures registered with \<^verbatim>\<open>context.AfterFunc\<close> on the connection's context.
\<close>

record ContainerPolicy =
  cpol_DefaultMode :: string
  cpol_LimitMode :: string

record resolverState =
  rs_selector :: strategySelector
  rs_registered :: "release list"

record AccessResolverEnv =
  env_get :: "string \<Rightarrow> string \<Rightarrow> Access result"
  env_pods :: "(string \<Rightarrow> (string \<times> string) list \<Rightarrow> Pod list result) option"
  env_policy :: ContainerPolicy
  env_labels :: "(string \<times> string) list \<Rightarrow> (string \<rightharpoonup> string) \<Rightarrow> bool"
  env_intn :: "int \<Rightarrow> int"
  env_now :: int

definition resolveExplicitPodLocator :: "Pod list \<Rightarrow> string \<Rightarrow> (string \<times> string) option" where
  "resolveExplicitPodLocator pods locator =
     (let active = activePods pods
      in if \<exists>p \<in> set active. pod_Name p = locator then Some (locator, [])
         else
           case Cut locator (CHR ''.'') of
             (pod, container, ok) \<Rightarrow>
               if \<not> ok \<or> pod = [] \<or> container = [] then None
               else
                 let (pod', container') =
                       (if contains_byte container (CHR ''.'')
                        then (case LastIndexByte locator (CHR ''.'') of
                                Some idx \<Rightarrow> (take idx locator, drop (idx + 1) locator)
                              | None \<Rightarrow> (pod, container))
                        else (pod, container))
                 in if pod' = [] \<or> container' = [] then None
                    else if \<exists>p \<in> set active. pod_Name p = pod' then Some (pod', container')
                    else None)"

definition register :: "resolverState \<Rightarrow> strategySelector \<Rightarrow> release \<Rightarrow> resolverState" where
  "register st s r = st\<lparr> rs_selector := s, rs_registered := rs_registered st @ [r] \<rparr>"

definition release_now :: "resolverState \<Rightarrow> strategySelector \<Rightarrow> release \<Rightarrow> resolverState" where
  "release_now st s r = st\<lparr> rs_selector := fst (release_run s r) \<rparr>"

text \<open>The container checks and the binding, once a Pod has been selected.\<close>

definition finish_pod ::
  "AccessResolverEnv \<Rightarrow> resolverState \<Rightarrow> ResolveInput \<Rightarrow> Access \<Rightarrow> accessLocator \<Rightarrow> strategySelector \<Rightarrow>
    podSelection \<Rightarrow> resolverState \<times> Target result" where
  "finish_pod env st input access locator s selection =
     (case ResolveContainer (Some (ps_pod selection)) (loc_container locator) of
        Inl err \<Rightarrow> (release_now st s (ps_release selection), Inl err)
      | Inr (container, defaultContainer) \<Rightarrow>
          let explicit = (loc_container locator \<noteq> []);
              credential = findCredential access (GetExtra (ri_AuthExtra input) ExtraCredentialUser);
              accessAllowed =
                (if length (spec_Containers (acc_Spec access)) > 0
                 then containerAllowed (spec_Containers (acc_Spec access)) container
                 else ContainerAllowed (cpol_DefaultMode (env_policy env)) explicit container defaultContainer)
          in if \<not> accessAllowed \<or>
                \<not> ContainerAllowed (cpol_LimitMode (env_policy env)) explicit container defaultContainer \<or>
                (case credential of None \<Rightarrow> False | Some c \<Rightarrow> \<not> containerAllowed (cred_Containers c) container)
             then (release_now st s (ps_release selection),
                   Inl (Forbidden ''container %q is not allowed by access %s/%s''
                         [container, loc_namespace locator, loc_access locator]))
             else (register st s (ps_release selection), Inr (Bind (ps_pod selection) container)))"

definition resolve_external ::
  "AccessResolverEnv \<Rightarrow> resolverState \<Rightarrow> ResolveInput \<Rightarrow> Access \<Rightarrow> accessLocator \<Rightarrow> resolverState \<times> Target result" where
  "resolve_external env st input access locator =
     (if loc_pod locator \<noteq> [] \<or> loc_container locator \<noteq> []
      then (st, Inl (BadRequest ''External Access %s/%s does not accept a Pod suffix''
                      [loc_namespace locator, loc_access locator]))
      else
        case selectEndpoint (env_intn env) (env_now env) (rs_selector st) access input of
          Inl err \<Rightarrow> (st, Inl err)
        | Inr (s, None) \<Rightarrow>
            (st\<lparr> rs_selector := s \<rparr>,
             Inl (ServiceUnavailable ''access %s/%s has no external endpoints''
                   [loc_namespace locator, loc_access locator]))
        | Inr (s, Some selection) \<Rightarrow>
            (register st s (es_release selection),
             Inr (NewTarget access (ep_Name (es_endpoint selection)))))"

definition resolve_pod ::
  "AccessResolverEnv \<Rightarrow> resolverState \<Rightarrow> ResolveInput \<Rightarrow> Access \<Rightarrow> accessLocator \<Rightarrow> resolverState \<times> Target result" where
  "resolve_pod env st input access locator =
     (case env_pods env of
        None \<Rightarrow> (st, Inl (Errorf ''access resolver requires a pod lister'' []))
      | Some lst \<Rightarrow>
          (case lst (loc_namespace locator) (spec_Selector (acc_Spec access)) of
             Inl err \<Rightarrow> (st, Inl err)
           | Inr pods \<Rightarrow>
               if loc_pod locator \<noteq> [] then
                 (case resolveExplicitPodLocator pods (loc_pod locator) of
                    None \<Rightarrow> (st, Inl (ServiceUnavailable ''pod %q is not available through access %s/%s''
                                  [loc_pod locator, loc_namespace locator, loc_access locator]))
                  | Some (podName, explicitContainer) \<Rightarrow>
                      (case selectPodByName (rs_selector st) access pods podName of
                         (s, None) \<Rightarrow>
                           (st\<lparr> rs_selector := s \<rparr>,
                            Inl (ServiceUnavailable ''pod %q is not available through access %s/%s''
                                  [podName, loc_namespace locator, loc_access locator]))
                       | (s, Some selection) \<Rightarrow>
                           finish_pod env st input access
                             (locator\<lparr> loc_pod := podName, loc_container := explicitContainer \<rparr>) s selection))
               else
                 (case selectPod (env_labels env) (env_intn env) (env_now env) (rs_selector st) access pods input of
                    Inl err \<Rightarrow> (st, Inl err)
                  | Inr (s, None) \<Rightarrow>
                      (st\<lparr> rs_selector := s \<rparr>,
                       Inl (ServiceUnavailable ''access %s/%s matched no available pods''
                             [loc_namespace locator, loc_access locator]))
                  | Inr (s, Some selection) \<Rightarrow> finish_pod env st input access locator s selection)))"

definition AccessResolver_Resolve :: "AccessResolverEnv \<Rightarrow> resolverState Resolver" where
  "AccessResolver_Resolve env = (\<lambda>(st, input).
     case resolveRequestedAccess (env_get env) (ri_SSHUser input) (ri_AuthExtra input) of
       Inl err \<Rightarrow> (st, Inl err)
     | Inr None \<Rightarrow> (st, Inl ErrTargetNotProvided)
     | Inr (Some (locator, access)) \<Rightarrow>
         if spec_Type (acc_Spec access) = AccessTypeExternal then resolve_external env st input access locator
         else if \<not> isPodAccess (Some access)
         then (st, Inl (BadRequest ''access %s/%s has unsupported type %q''
                         [loc_namespace locator, loc_access locator, spec_Type (acc_Spec access)]))
         else resolve_pod env st input access locator)"

section \<open>Lemmas\<close>

lemma resolveExplicitPodLocator_Some:
  assumes "resolveExplicitPodLocator pods u = Some (p, c)"
  shows "p \<noteq> [] \<or> c = []" and "\<exists>q \<in> set pods. pod_active q \<and> pod_Name q = p"
    and "u = (if c = [] then p else p @ CHR ''.'' # c)" and "CHR ''.'' \<notin> set c"
proof -
  have names: "(\<exists>q \<in> set (activePods pods). pod_Name q = n) \<longleftrightarrow> (\<exists>q \<in> set pods. pod_active q \<and> pod_Name q = n)" for n
    using set_activePods[of pods] by auto
  let ?g = "(p \<noteq> [] \<or> c = []) \<and> (\<exists>q \<in> set pods. pod_active q \<and> pod_Name q = p) \<and>
    u = (if c = [] then p else p @ CHR ''.'' # c) \<and> CHR ''.'' \<notin> set c"
  have ?g
  proof (cases "\<exists>q \<in> set (activePods pods). pod_Name q = u")
    case True
    then show ?thesis using assms names by (auto simp: resolveExplicitPodLocator_def Let_def)
  next
    case False
    obtain a b ok where cut: "Cut u (CHR ''.'') = (a, b, ok)" by (metis prod_cases3)
    have ok: "ok" using assms False cut by (auto simp: resolveExplicitPodLocator_def Let_def split: if_splits)
    then have u: "u = a @ CHR ''.'' # b" "CHR ''.'' \<notin> set a" using cut by (auto simp: Cut_found_iff)
    then obtain i where i: "LastIndexByte u (CHR ''.'') = Some i"
      using LastIndexByte_None_iff[of u "CHR ''.''"] by (cases "LastIndexByte u (CHR ''.'')") auto
    note li = LastIndexByte_SomeD[OF i]
    show ?thesis
    proof (cases "CHR ''.'' \<in> set b")
      case True
      then have "p = take i u" "c = drop (Suc i) u" "c \<noteq> []" "p \<noteq> []" "\<exists>q \<in> set (activePods pods). pod_Name q = p"
        using assms False cut i by (auto simp: resolveExplicitPodLocator_def contains_byte_def Let_def split: if_splits)
      then show ?thesis using li names by simp
    next
      case nb: False
      then have "p = a" "c = b" "c \<noteq> []" "p \<noteq> []" "\<exists>q \<in> set (activePods pods). pod_Name q = p"
        using assms False cut by (auto simp: resolveExplicitPodLocator_def contains_byte_def Let_def split: if_splits)
      then show ?thesis using u nb names by simp
    qed
  qed
  then show "p \<noteq> [] \<or> c = []" "\<exists>q \<in> set pods. pod_active q \<and> pod_Name q = p"
    "u = (if c = [] then p else p @ CHR ''.'' # c)" "CHR ''.'' \<notin> set c" by auto
qed

text \<open>The restrictions a resolved container satisfies.\<close>

definition mode_permits :: "string \<Rightarrow> Pod \<Rightarrow> string \<Rightarrow> bool" where
  "mode_permits mode pod container \<longleftrightarrow>
     mode \<in> {[], ''All''} \<or> mode = ''KubernetesDefault'' \<and> container = kubernetes_default_container pod"

definition container_confined ::
  "ContainerPolicy \<Rightarrow> Access \<Rightarrow> string \<Rightarrow> Pod \<Rightarrow> string \<Rightarrow> bool" where
  "container_confined policy access username pod container \<longleftrightarrow>
     container \<in> set (pod_Containers pod) \<and>
     mode_permits (cpol_LimitMode policy) pod container \<and>
     (if spec_Containers (acc_Spec access) = [] then mode_permits (cpol_DefaultMode policy) pod container
      else MatchAny (spec_Containers (acc_Spec access)) container) \<and>
     (\<forall>cred. findCredential access username = Some cred \<longrightarrow>
        cred_Containers cred = [] \<or> MatchAny (cred_Containers cred) container)"

lemma ContainerAllowed_mode:
  assumes "ResolveContainer (Some p) req = Inr (c, d)" "ContainerAllowed mode (req \<noteq> []) c d"
  shows "mode_permits mode p c"
  using assms by (auto simp: ResolveContainer_Inr ContainerAllowed_def mode_permits_def split: if_splits)

lemma finish_pod_Inr:
  assumes "finish_pod env st input access loc s sel = (st', Inr t)"
  shows "st' = register st s (ps_release sel) \<and>
    (\<exists>c. t = Bind (ps_pod sel) c \<and> (loc_container loc \<noteq> [] \<longrightarrow> c = loc_container loc) \<and>
       container_confined (env_policy env) access (GetExtra (ri_AuthExtra input) ExtraCredentialUser) (ps_pod sel) c)"
proof -
  obtain c d where cd: "ResolveContainer (Some (ps_pod sel)) (loc_container loc) = Inr (c, d)"
    using assms by (cases "ResolveContainer (Some (ps_pod sel)) (loc_container loc)") (auto simp: finish_pod_def)
  then have c: "c \<in> set (pod_Containers (ps_pod sel))" "loc_container loc \<noteq> [] \<longrightarrow> c = loc_container loc"
    by (auto simp: ResolveContainer_Inr)
  note modes = ContainerAllowed_mode[OF cd]
  show ?thesis using assms cd c modes[of "cpol_LimitMode (env_policy env)"] modes[of "cpol_DefaultMode (env_policy env)"]
    by (auto simp: finish_pod_def container_confined_def containerAllowed_def Let_def
        split: if_splits option.splits)
qed

lemma finish_pod_Inl:
  assumes "finish_pod env st input access loc s sel = (st', Inl e)"
  shows "st' = release_now st s (ps_release sel)"
  using assms by (auto simp: finish_pod_def Let_def split: sum.splits if_splits)

lemma resolveRequestedAccess_nonempty:
  assumes "resolveRequestedAccess get u extra = Inr (Some (loc, a))"
  shows "loc_namespace loc \<noteq> [] \<and> loc_access loc \<noteq> []"
proof (cases "GetExtra extra ExtraAccessNamespace \<noteq> [] \<or> GetExtra extra ExtraAccessName \<noteq> []")
  case True
  then have "GetExtra extra ExtraAccessNamespace \<noteq> []" "GetExtra extra ExtraAccessName \<noteq> []"
    "parseAccessLocatorFor u (GetExtra extra ExtraAccessNamespace) (GetExtra extra ExtraAccessName) = (loc, True)"
    using assms by (auto simp: resolveRequestedAccess_def Let_def split: if_splits prod.splits sum.splits)
  then show ?thesis using parseAccessLocatorFor_True by fastforce
next
  case False
  then have "resolveAccessLocator get u = Inr (Some (loc, a))"
    using assms by (simp add: resolveRequestedAccess_def Let_def)
  then show ?thesis by (cases rule: resolveAccessLocator_provided) auto
qed

lemma resolve_pod_Inr:
  assumes "resolve_pod env st input access loc = (st', Inr t)"
  shows "\<exists>lst pods p c s r. env_pods env = Some lst \<and>
    lst (loc_namespace loc) (spec_Selector (acc_Spec access)) = Inr pods \<and> p \<in> set pods \<and> pod_active p \<and>
    t = Bind p c \<and>
    container_confined (env_policy env) access (GetExtra (ri_AuthExtra input) ExtraCredentialUser) p c \<and>
    (loc_pod loc \<noteq> [] \<longrightarrow> loc_pod loc = pod_Name p \<or> loc_pod loc = pod_Name p @ CHR ''.'' # c) \<and>
    (loc_container loc \<noteq> [] \<and> loc_pod loc = [] \<longrightarrow> c = loc_container loc)"
proof -
  obtain lst pods where l: "env_pods env = Some lst"
      "lst (loc_namespace loc) (spec_Selector (acc_Spec access)) = Inr pods"
    using assms by (auto simp: resolve_pod_def split: option.splits sum.splits)
  show ?thesis
  proof (cases "loc_pod loc = []")
    case True
    then obtain s sel where sp: "selectPod (env_labels env) (env_intn env) (env_now env) (rs_selector st) access pods input = Inr (s, Some sel)"
      and f: "finish_pod env st input access loc s sel = (st', Inr t)"
      using assms l by (auto simp: resolve_pod_def split: sum.splits option.splits)
    have "ps_pod sel \<in> set pods \<and> pod_active (ps_pod sel)" using selectPod_Some[OF sp] set_candidatePods[of pods] by auto
    then show ?thesis using finish_pod_Inr[OF f] l True by blast
  next
    case False
    then obtain n ec where e: "resolveExplicitPodLocator pods (loc_pod loc) = Some (n, ec)"
      using assms l by (auto simp: resolve_pod_def split: option.splits)
    obtain s sel where sp: "selectPodByName (rs_selector st) access pods n = (s, Some sel)"
      and f: "finish_pod env st input access (loc\<lparr> loc_pod := n, loc_container := ec \<rparr>) s sel = (st', Inr t)"
      using assms l False e by (auto simp: resolve_pod_def split: option.splits prod.splits)
    note fin = finish_pod_Inr[OF f] and ex = resolveExplicitPodLocator_Some[OF e]
    obtain c where c: "t = Bind (ps_pod sel) c" "ec \<noteq> [] \<longrightarrow> c = ec"
      "container_confined (env_policy env) access (GetExtra (ri_AuthExtra input) ExtraCredentialUser) (ps_pod sel) c"
      using fin by auto
    have p: "ps_pod sel \<in> set pods" "pod_active (ps_pod sel)" "pod_Name (ps_pod sel) = n"
      using selectPodByName_Some[OF sp] by auto
    have "loc_pod loc = pod_Name (ps_pod sel) \<or> loc_pod loc = pod_Name (ps_pod sel) @ CHR ''.'' # c"
      using ex(3) c(2) p(3) by (auto split: if_splits)
    then show ?thesis using l c p False by blast
  qed
qed

lemma release_restores:
  assumes "ss_connections s' = (ss_connections s)(k \<mapsto> wrap64 (int_get (ss_connections s) k + 1))"
    and "\<forall>v. ss_connections s k = Some v \<longrightarrow> 1 \<le> v \<and> v < 2 ^ 63 - 1"
  shows "ss_connections (fst (release_run s' \<lparr> rel_key = k, rel_done = False \<rparr>)) = ss_connections s"
proof (cases "ss_connections s k")
  case None
  then have "ss_connections s' = (ss_connections s)(k \<mapsto> 1)" using assms(1) by (simp add: int_get_def fits64_def)
  then show ?thesis using None by (auto simp: release_run_def int_get_def)
next
  case (Some v)
  then have v: "1 \<le> v" "v < 2 ^ 63 - 1" using assms(2) by auto
  then have "fits64 (v + 1)" "fits64 v" by (auto simp: fits64_def)
  then have "ss_connections s' = (ss_connections s)(k \<mapsto> v + 1)" using assms(1) Some by (simp add: int_get_def)
  then show ?thesis using Some v \<open>fits64 v\<close> by (auto simp: release_run_def int_get_def)
qed

definition sane_counts :: "strategySelector \<Rightarrow> bool" where
  "sane_counts s \<longleftrightarrow> (\<forall>k v. ss_connections s k = Some v \<longrightarrow> 1 \<le> v \<and> v < 2 ^ 63 - 1)"

definition accounted :: "resolverState \<Rightarrow> resolverState \<times> Target result \<Rightarrow> bool" where
  "accounted st out \<longleftrightarrow>
     (case out of
        (st', Inl _) \<Rightarrow> rs_registered st' = rs_registered st \<and>
          ss_connections (rs_selector st') = ss_connections (rs_selector st)
      | (st', Inr _) \<Rightarrow> (\<exists>r. rs_registered st' = rs_registered st @ [r] \<and> \<not> rel_done r \<and>
          ss_connections (rs_selector st') = (ss_connections (rs_selector st))
            (rel_key r \<mapsto> int_get (ss_connections (rs_selector st)) (rel_key r) + 1)))"

lemma sane_increment:
  assumes "sane_counts s"
  shows "wrap64 (int_get (ss_connections s) k + 1) = int_get (ss_connections s) k + 1"
proof -
  have "fits64 (int_get (ss_connections s) k + 1)"
  proof (cases "ss_connections s k")
    case (Some v)
    then have "1 \<le> v \<and> v < 2 ^ 63 - 1" using assms unfolding sane_counts_def by blast
    then show ?thesis using Some by (simp add: int_get_def fits64_def)
  qed (simp add: int_get_def fits64_def)
  then show ?thesis by simp
qed

lemma finish_pod_accounted:
  assumes sane: "sane_counts (rs_selector st)"
    and rel: "ps_release sel = \<lparr> rel_key = k, rel_done = False \<rparr>"
    and trk: "ss_connections s = (ss_connections (rs_selector st))(k \<mapsto> wrap64 (int_get (ss_connections (rs_selector st)) k + 1))"
  shows "accounted st (finish_pod env st input access loc s sel)"
proof (cases "finish_pod env st input access loc s sel")
  case (Pair st' out)
  show ?thesis
  proof (cases out)
    case (Inl e)
    then have "st' = release_now st s (ps_release sel)" using finish_pod_Inl Pair by blast
    moreover have "ss_connections (fst (release_run s \<lparr> rel_key = k, rel_done = False \<rparr>)) = ss_connections (rs_selector st)"
      using sane by (intro release_restores[OF trk]) (auto simp: sane_counts_def)
    ultimately show ?thesis using Pair Inl rel by (simp add: accounted_def release_now_def)
  next
    case (Inr t)
    then have "st' = register st s (ps_release sel)" using finish_pod_Inr Pair by blast
    then show ?thesis using Pair Inr rel trk sane_increment[OF sane, of k]
      by (auto simp: accounted_def register_def)
  qed
qed

lemma resolve_pod_accounted:
  assumes sane: "sane_counts (rs_selector st)"
  shows "accounted st (resolve_pod env st input access loc)"
proof -
  have stay: "accounted st (st, Inl e)" for e by (simp add: accounted_def)
  have same: "accounted st (st\<lparr> rs_selector := s \<rparr>, Inl e)" if "s = rs_selector st" for s e
    using that by (simp add: accounted_def)
  have none: "accounted st (st\<lparr> rs_selector := s \<rparr>, Inl e)"
    if "selectPodByName (rs_selector st) access ps n = (s, None)" for s ps n e
    using that by (intro same) (auto simp: selectPodByName_def split: option.splits prod.splits)
  have none2: "accounted st (st\<lparr> rs_selector := s \<rparr>, Inl e)"
    if "selectPod lm intn now (rs_selector st) access ps input = Inr (s, None)" for lm intn now s ps e
    using that by (intro same) (auto simp: selectPod_def bind_result_Inr_iff Let_def split: if_splits)
  have named: "accounted st (finish_pod env st input access l s sel)"
    if "selectPodByName (rs_selector st) access ps n = (s, Some sel)" for ps n s sel l
    using selectPodByName_Some[OF that] by (intro finish_pod_accounted[OF sane]) auto
  have picked: "accounted st (finish_pod env st input access l s sel)"
    if "selectPod lm intn now (rs_selector st) access ps input = Inr (s, Some sel)" for lm intn now ps s sel l
    using selectPod_Some[OF that] by (intro finish_pod_accounted[OF sane]) auto
  show ?thesis unfolding resolve_pod_def
    using stay none none2 named picked
    by (auto split: option.splits sum.splits prod.splits)
qed

lemma resolve_external_accounted:
  assumes sane: "sane_counts (rs_selector st)"
  shows "accounted st (resolve_external env st input access loc)"
proof -
  have none: "s = s0" if "selectEndpoint intn now s0 access input = Inr (s, None)" for intn now s s0
    using that by (auto simp: selectEndpoint_def bind_result_Inr_iff Let_def split: if_splits)
  have some: "accounted st (register st s (es_release sel), Inr t)"
    if "selectEndpoint intn now (rs_selector st) access input = Inr (s, Some sel)" for intn now s sel t
    using selectEndpoint_Some[OF that] sane_increment[OF sane]
    by (auto simp: accounted_def register_def)
  show ?thesis unfolding resolve_external_def
    using none some by (auto simp: accounted_def split: option.splits sum.splits prod.splits)
qed

lemma AccessResolver_requested:
  assumes cache: "cache_ok c" "env_get env = PolicyCache_Get c"
    and pods: "pod_index_ok l" "env_pods env = Some (InformerPodLister_List l)"
    and res: "AccessResolver_Resolve env (st, input) = (st', Inr t)" and kube: "t_Kind t = KindPod"
  shows "\<exists>loc a p cont ps.
    resolveRequestedAccess (PolicyCache_Get c) (ri_SSHUser input) (ri_AuthExtra input) = Inr (Some (loc, a)) \<and>
    loc_namespace loc = acc_Namespace a \<and> loc_access loc = acc_Name a \<and>
    PolicyCache_Get c (acc_Namespace a) (acc_Name a) = Inr a \<and> t = Bind p cont \<and> pod_active p \<and>
    InformerPodLister_List l (acc_Namespace a) (spec_Selector (acc_Spec a)) = Inr ps \<and> p \<in> set ps \<and>
    pod_Namespace p = acc_Namespace a \<and> pod_Namespace p \<noteq> [] \<and> pod_Name p \<noteq> [] \<and>
    labels_match (spec_Selector (acc_Spec a)) (m_Labels (pod_Meta p)) \<and>
    container_confined (env_policy env) a (GetExtra (ri_AuthExtra input) ExtraCredentialUser) p cont \<and>
    (loc_pod loc \<noteq> [] \<longrightarrow> loc_pod loc = pod_Name p \<or> loc_pod loc = pod_Name p @ CHR ''.'' # cont) \<and>
    (loc_container loc \<noteq> [] \<and> loc_pod loc = [] \<longrightarrow> cont = loc_container loc) \<and>
    (GetExtra (ri_AuthExtra input) ExtraAccessName \<noteq> [] \<longrightarrow>
       acc_Namespace a = GetExtra (ri_AuthExtra input) ExtraAccessNamespace \<and>
       acc_Name a = GetExtra (ri_AuthExtra input) ExtraAccessName)"
proof -
  obtain loc a where ra: "resolveRequestedAccess (PolicyCache_Get c) (ri_SSHUser input) (ri_AuthExtra input) = Inr (Some (loc, a))"
    using res cache(2) by (auto simp: AccessResolver_Resolve_def split: sum.splits option.splits)
  have "spec_Type (acc_Spec a) \<noteq> AccessTypeExternal"
    using res kube ra cache(2)
    by (auto simp: AccessResolver_Resolve_def resolve_external_def NewTarget_def split: if_splits sum.splits prod.splits option.splits)
  then have "resolve_pod env st input a loc = (st', Inr t)"
    using res ra cache(2) by (auto simp: AccessResolver_Resolve_def split: if_splits)
  from resolve_pod_Inr[OF this] obtain ps p cont where p:
      "InformerPodLister_List l (loc_namespace loc) (spec_Selector (acc_Spec a)) = Inr ps" "p \<in> set ps"
      "pod_active p" "t = Bind p cont"
      "container_confined (env_policy env) a (GetExtra (ri_AuthExtra input) ExtraCredentialUser) p cont"
      "loc_pod loc \<noteq> [] \<longrightarrow> loc_pod loc = pod_Name p \<or> loc_pod loc = pod_Name p @ CHR ''.'' # cont"
      "loc_container loc \<noteq> [] \<and> loc_pod loc = [] \<longrightarrow> cont = loc_container loc"
    using pods(2) by auto
  have ne: "loc_namespace loc \<noteq> []" using resolveRequestedAccess_nonempty[OF ra] by simp
  have pod: "pod_Namespace p = loc_namespace loc" "pod_Name p \<noteq> []"
    "labels_match (spec_Selector (acc_Spec a)) (m_Labels (pod_Meta p))"
    using informer_pods.list_selected[OF pods(1) ne p(1,2)] by auto
  have id: "acc_Namespace a = loc_namespace loc" "acc_Name a = loc_access loc" "PolicyCache_Get c (acc_Namespace a) (acc_Name a) = Inr a"
    using policy_cache.requested_identity[OF cache(1) ra] by blast+
  have auth: "GetExtra (ri_AuthExtra input) ExtraAccessName \<noteq> [] \<longrightarrow>
       acc_Namespace a = GetExtra (ri_AuthExtra input) ExtraAccessNamespace \<and>
       acc_Name a = GetExtra (ri_AuthExtra input) ExtraAccessName"
    using policy_cache.requested_confined[OF cache(1) ra] by blast
  show ?thesis
    using ra p pod ne auth id by (intro exI[of _ loc] exI[of _ a] exI[of _ p] exI[of _ cont] exI[of _ ps]) simp
qed

section \<open>Properties\<close>

text \<open>
  C1. Confinement of target resolution.  Whenever the Access resolver, over the policy cache and
  the Pod informer, returns a Pod target, the SSH user name is the namespace and name of one Access of the
  cache, followed by the Pod or the container it asks for; the target is bound to an active Pod that the
  informer lists in the namespace of that Access and whose labels satisfy its selector, to the
  Pod and the container that were asked for, if any; and the container is a regular container of that Pod
  which the gateway's limit mode, the Access (or else the gateway's default mode) and the caller's
  credential all permit.  If authentication established an Access identity, the Access is that one.
\<close>

theorem access_resolution_confined:
  assumes cache: "cache_ok c" "env_get env = PolicyCache_Get c"
    and pods: "pod_index_ok l" "env_pods env = Some (InformerPodLister_List l)"
    and res: "AccessResolver_Resolve env (st, input) = (st', Inr t)" and kube: "t_Kind t = KindPod"
  shows "\<exists>loc a p cont ps.
    resolveRequestedAccess (PolicyCache_Get c) (ri_SSHUser input) (ri_AuthExtra input) = Inr (Some (loc, a)) \<and>
    PolicyCache_Get c (acc_Namespace a) (acc_Name a) = Inr a \<and>
    ri_SSHUser input = acc_Namespace a @ CHR ''.'' # acc_Name a @
      (if loc_pod loc \<noteq> [] then CHR ''~'' # loc_pod loc
       else if loc_container loc \<noteq> [] then CHR ''.'' # loc_container loc else []) \<and>
    t = Bind p cont \<and> pod_active p \<and>
    InformerPodLister_List l (acc_Namespace a) (spec_Selector (acc_Spec a)) = Inr ps \<and> p \<in> set ps \<and>
    pod_Namespace p = acc_Namespace a \<and> labels_match (spec_Selector (acc_Spec a)) (m_Labels (pod_Meta p)) \<and>
    (loc_pod loc \<noteq> [] \<longrightarrow> loc_pod loc = pod_Name p \<or> loc_pod loc = pod_Name p @ CHR ''.'' # cont) \<and>
    (loc_container loc \<noteq> [] \<and> loc_pod loc = [] \<longrightarrow> cont = loc_container loc) \<and>
    container_confined (env_policy env) a (GetExtra (ri_AuthExtra input) ExtraCredentialUser) p cont \<and>
    (GetExtra (ri_AuthExtra input) ExtraAccessName \<noteq> [] \<longrightarrow>
       acc_Namespace a = GetExtra (ri_AuthExtra input) ExtraAccessNamespace \<and>
       acc_Name a = GetExtra (ri_AuthExtra input) ExtraAccessName)"
proof -
  note r = AccessResolver_requested[OF assms]
  then obtain loc a where ra: "resolveRequestedAccess (PolicyCache_Get c) (ri_SSHUser input) (ri_AuthExtra input) = Inr (Some (loc, a))"
      and id: "loc_namespace loc = acc_Namespace a" "loc_access loc = acc_Name a" by blast
  have "ri_SSHUser input = acc_Namespace a @ CHR ''.'' # acc_Name a @
      (if loc_pod loc \<noteq> [] then CHR ''~'' # loc_pod loc
       else if loc_container loc \<noteq> [] then CHR ''.'' # loc_container loc else [])"
    using resolveRequestedAccess_username[OF ra] id by (simp add: locator_name_def)
  with r ra show ?thesis by (metis (no_types, lifting) option.inject prod.inject sum.inject(2))
qed

text \<open>Concrete objects for the witnesses.\<close>

definition web_pod :: "string \<Rightarrow> Pod" where
  "web_pod name = (example_pod name True)\<lparr> pod_Meta := zero_ObjectMeta\<lparr> m_Namespace := ''ns'', m_Name := name,
     m_UID := ''uid-'' @ name, m_Labels := [''app'' \<mapsto> ''web''] \<rparr> \<rparr>"

definition login_access :: Access where
  "login_access = example_access\<lparr> acc_Spec := zero_AccessSpec\<lparr> spec_Selector := [(''app'', ''web'')],
     spec_Credentials := [zero_AccessCredential\<lparr> cred_Username := ''alice'', cred_Passwords := [''secret''] \<rparr>,
       zero_AccessCredential\<lparr> cred_Username := ''bob'', cred_PublicKeys := [''bobkey''] \<rparr>] \<rparr> \<rparr>"

definition example_cache :: PolicyCache where
  "example_cache = \<lparr> cache_accessIndexer = Some (list_indexer [ObjAccess login_access]), cache_secretIndexer = None,
     cache_namespace = [], cache_gatewayClassName = [] \<rparr>"

definition example_pods :: InformerPodLister where
  "example_pods = Some (list_indexer [ObjPod (web_pod ''web-0'')])"

definition example_env :: AccessResolverEnv where
  "example_env = \<lparr> env_get = PolicyCache_Get example_cache,
     env_pods = Some (InformerPodLister_List example_pods),
     env_policy = \<lparr> cpol_DefaultMode = ''KubernetesDefault'', cpol_LimitMode = ''All'' \<rparr>,
     env_labels = labels_match, env_intn = (\<lambda>_. 0), env_now = 1 \<rparr>"

definition example_state :: resolverState where
  "example_state = \<lparr> rs_selector = newStrategySelector, rs_registered = [] \<rparr>"

definition example_crypto :: CryptoSSH where
  "example_crypto = \<lparr> ck_ParseAuthorizedKey = (\<lambda>line. if line = ''bobkey'' then Inr ''K'' else Inl (External ''no key'')),
     ck_FingerprintSHA256 = (\<lambda>k. ''SHA256:'' @ k), ck_MarshalAuthorizedKey = (\<lambda>k. k) \<rparr>"

definition login_input :: ResolveInput where
  "login_input = example_input\<lparr> ri_AuthExtra := authExtra \<lparr> cm_Access = login_access,
     cm_Credential = hd (spec_Credentials (acc_Spec login_access)) \<rparr> CredentialTypePassword \<rparr>"

lemma example_cache_ok: "cache_ok example_cache"
  unfolding cache_ok_def example_cache_def
  by (simp add: list_indexer_ok object_id_def valid_id_def login_access_def example_access_def zero_values)

lemma example_pods_ok: "pod_index_ok example_pods"
  unfolding pod_index_ok_def example_pods_def
  by (simp add: list_indexer_ok object_id_def valid_id_def web_pod_def example_pod_def zero_values)

lemma example_resolved:
  "map_option t_Kind (case snd (AccessResolver_Resolve example_env (example_state, login_input)) of
     Inl _ \<Rightarrow> None | Inr t \<Rightarrow> Some t) = Some KindPod"
  by code_simp

lemma example_cache_get: "PolicyCache_Get example_cache ''ns'' ''acc'' = Inr login_access"
  by (simp add: PolicyCache_Get_def example_cache_def list_indexer_def object_id_def accessKey_def
      acceptAccess_def gatewayClassName_def login_access_def example_access_def zero_values)

lemma login_input_fields:
  "ri_SSHUser login_input = ''ns.acc''" "GetExtra (ri_AuthExtra login_input) ExtraAccessNamespace = ''ns''"
  "GetExtra (ri_AuthExtra login_input) ExtraAccessName = ''acc''" "GetExtra (ri_AuthExtra login_input) ExtraCredentialUser = ''alice''"
  by (simp_all add: login_input_def example_input_def login_access_def example_access_def)

lemma access_resolution_confined_witness:
  "\<exists>st' p cont. AccessResolver_Resolve example_env (example_state, login_input) = (st', Inr (Bind p cont)) \<and>
     pod_active p \<and> container_confined (env_policy example_env) login_access ''alice'' p cont"
proof -
  obtain st' t where r: "AccessResolver_Resolve example_env (example_state, login_input) = (st', Inr t)" "t_Kind t = KindPod"
    using example_resolved by (auto split: sum.splits simp: prod_eq_iff intro: prod.collapse[symmetric])
  have e: "env_get example_env = PolicyCache_Get example_cache"
    "env_pods example_env = Some (InformerPodLister_List example_pods)" by (simp_all add: example_env_def)
  obtain a p cont where w: "PolicyCache_Get example_cache (acc_Namespace a) (acc_Name a) = Inr a" "t = Bind p cont"
      "pod_active p" "container_confined (env_policy example_env) a (GetExtra (ri_AuthExtra login_input) ExtraCredentialUser) p cont"
      "acc_Namespace a = GetExtra (ri_AuthExtra login_input) ExtraAccessNamespace"
      "acc_Name a = GetExtra (ri_AuthExtra login_input) ExtraAccessName"
    using access_resolution_confined[OF example_cache_ok e(1) example_pods_ok e(2) r]
    unfolding login_input_fields by blast
  have "a = login_access" using w(1) example_cache_get unfolding w(5,6) login_input_fields by simp
  then show ?thesis using r w(2-4) login_input_fields(4) by auto
qed

text \<open>
  No connection slot leaks: whatever happens during resolution, if it fails then the selector's
  connection counters are as before and nothing has been registered with the
  connection's context; if it succeeds then exactly one release closure has been registered
  and exactly the counter it will decrement has been incremented.
\<close>

theorem resolution_accounted:
  assumes "sane_counts (rs_selector st)"
  shows "case AccessResolver_Resolve env (st, input) of
      (st', Inl _) \<Rightarrow> rs_registered st' = rs_registered st \<and>
        ss_connections (rs_selector st') = ss_connections (rs_selector st)
    | (st', Inr _) \<Rightarrow> (\<exists>r. rs_registered st' = rs_registered st @ [r] \<and> \<not> rel_done r \<and>
        ss_connections (rs_selector st') = (ss_connections (rs_selector st))
          (rel_key r \<mapsto> int_get (ss_connections (rs_selector st)) (rel_key r) + 1))"
proof -
  have "accounted st (AccessResolver_Resolve env (st, input))"
    using resolve_pod_accounted[OF assms] resolve_external_accounted[OF assms]
    by (auto simp: AccessResolver_Resolve_def accounted_def split: sum.splits option.splits prod.splits)
  then show ?thesis unfolding accounted_def .
qed

lemma resolution_accounted_witness:
  "\<exists>st' t r. AccessResolver_Resolve example_env (example_state, login_input) = (st', Inr t) \<and>
     rs_registered st' = [r] \<and> \<not> rel_done r"
proof -
  obtain st' t where r: "AccessResolver_Resolve example_env (example_state, login_input) = (st', Inr t)"
    using example_resolved by (auto split: sum.splits simp: prod_eq_iff intro: prod.collapse[symmetric])
  have "sane_counts (rs_selector example_state)"
    by (simp add: sane_counts_def example_state_def newStrategySelector_def)
  from resolution_accounted[OF this, of example_env login_input] show ?thesis
    using r by (auto simp: example_state_def)
qed

text \<open>
  C2. A password accepted through an Access belongs to exactly one credential of exactly the Access that
  the SSH user name locates; the identity produced is that credential's; and when the
  target is resolved later with the attributes of this login, the user name is read
  as the same locator of the same Access.
\<close>

theorem password_login_sound:
  assumes "cache_ok c" "au_AuthenticateBasic (AccessAuthenticator ck c) u p = Inr info"
  shows "\<exists>loc a cred. resolveAccessLocator (PolicyCache_Get c) u = Inr (Some (loc, a)) \<and> p \<noteq> [] \<and>
    sole_match (credentialPasswords c (acc_Namespace a)) p a cred \<and>
    u_Name (ai_User info) = cred_Username cred \<and> u_Groups (ai_User info) = cred_Groups cred \<and>
    GetExtra (ai_Extra info) ExtraCredentialUser = cred_Username cred \<and>
    resolveRequestedAccess (PolicyCache_Get c) u (ai_Extra info) = Inr (Some (loc, a))"
proof -
  obtain m where m: "MatchPassword c u p = Inr m" "info = access_info m ''crd-password'' CredentialTypePassword"
    using assms(2) by (auto simp: AccessAuthenticator_def bind_result_Inr_iff)
  from MatchPassword_Inr[OF m(1)] obtain loc where
    l: "resolveAccessLocator (PolicyCache_Get c) u = Inr (Some (loc, cm_Access m))" "p \<noteq> []"
      "sole_match (credentialPasswords c (acc_Namespace (cm_Access m))) p (cm_Access m) (cm_Credential m)" by blast
  have "resolveRequestedAccess (PolicyCache_Get c) u (ai_Extra info) = Inr (Some (loc, cm_Access m))"
    by (rule policy_cache.requested_is_located[OF assms(1) l(1)]) (simp_all add: m(2) access_info_def)
  then show ?thesis using l m(2) by (auto simp: access_info_def matchUser_def)
qed

lemma password_login_sound_witness:
  "\<exists>info loc. au_AuthenticateBasic (AccessAuthenticator example_crypto example_cache) ''ns.acc'' ''secret'' = Inr info \<and>
     u_Name (ai_User info) = ''alice'' \<and>
     resolveRequestedAccess (PolicyCache_Get example_cache) ''ns.acc'' (ai_Extra info) = Inr (Some (loc, login_access))"
proof -
  have "is_ok (au_AuthenticateBasic (AccessAuthenticator example_crypto example_cache) ''ns.acc'' ''secret'')" by code_simp
  then obtain info where i: "au_AuthenticateBasic (AccessAuthenticator example_crypto example_cache) ''ns.acc'' ''secret'' = Inr info"
    by (cases "au_AuthenticateBasic (AccessAuthenticator example_crypto example_cache) ''ns.acc'' ''secret''") auto
  have "case au_AuthenticateBasic (AccessAuthenticator example_crypto example_cache) ''ns.acc'' ''secret'' of
      Inr info \<Rightarrow> u_Name (ai_User info) = ''alice'' | Inl _ \<Rightarrow> False" by code_simp
  then have n: "u_Name (ai_User info) = ''alice''" using i by simp
  have g: "PolicyCache_Get example_cache ''ns'' ''acc'' = Inr login_access"
    by (simp add: PolicyCache_Get_def example_cache_def list_indexer_def object_id_def accessKey_def
        acceptAccess_def gatewayClassName_def login_access_def example_access_def zero_values)
  show ?thesis using password_login_sound[OF example_cache_ok i] i n g
    by (auto simp: resolveAccessLocator_def)
qed

text \<open>
  C30. The same for public keys: the key's fingerprint is accepted by exactly one credential of the located
  Access, the identity is that credential's, and the login's attributes lead target
  resolution back to the same Access and locator.
\<close>

theorem publickey_login_sound:
  assumes "cache_ok c" "au_AuthenticatePublicKey (AccessAuthenticator ck c) u k = Inr info"
  shows "\<exists>loc a cred. resolveAccessLocator (PolicyCache_Get c) u = Inr (Some (loc, a)) \<and>
    sole_match (credentialPublicKeys ck c (acc_Namespace a)) (ck_FingerprintSHA256 ck k) a cred \<and>
    u_Name (ai_User info) = cred_Username cred \<and> u_Groups (ai_User info) = cred_Groups cred \<and>
    GetExtra (ai_Extra info) ExtraCredentialUser = cred_Username cred \<and>
    resolveRequestedAccess (PolicyCache_Get c) u (ai_Extra info) = Inr (Some (loc, a))"
proof -
  obtain m where m: "MatchPublicKey ck c u (Some k) = Inr m" "info = access_info m ''crd-publickey'' CredentialTypePublicKey"
    using assms(2) by (auto simp: AccessAuthenticator_def bind_result_Inr_iff)
  from MatchPublicKey_Inr[OF m(1)] obtain loc where
    l: "resolveAccessLocator (PolicyCache_Get c) u = Inr (Some (loc, cm_Access m))"
      "sole_match (credentialPublicKeys ck c (acc_Namespace (cm_Access m))) (ck_FingerprintSHA256 ck k) (cm_Access m) (cm_Credential m)"
    by blast
  have "resolveRequestedAccess (PolicyCache_Get c) u (ai_Extra info) = Inr (Some (loc, cm_Access m))"
    by (rule policy_cache.requested_is_located[OF assms(1) l(1)]) (simp_all add: m(2) access_info_def)
  then show ?thesis using l m(2) by (auto simp: access_info_def matchUser_def)
qed

lemma publickey_login_sound_witness:
  "\<exists>info a cred. au_AuthenticatePublicKey (AccessAuthenticator example_crypto example_cache) ''ns.acc'' ''K'' = Inr info \<and>
     sole_match (credentialPublicKeys example_crypto example_cache (acc_Namespace a)) ''SHA256:K'' a cred \<and>
     u_Name (ai_User info) = cred_Username cred"
proof -
  have "is_ok (au_AuthenticatePublicKey (AccessAuthenticator example_crypto example_cache) ''ns.acc'' ''K'')" by code_simp
  then obtain info where i: "au_AuthenticatePublicKey (AccessAuthenticator example_crypto example_cache) ''ns.acc'' ''K'' = Inr info"
    by (cases "au_AuthenticatePublicKey (AccessAuthenticator example_crypto example_cache) ''ns.acc'' ''K''") auto
  show ?thesis using publickey_login_sound[OF example_cache_ok i] i by (auto simp: example_crypto_def)
qed

end
