(* ===== verification/AccessStatus.thy ===== *)
theory AccessStatus
  imports AccessResolver
begin

text \<open>
  The status controller (\<^verbatim>\<open>pkg/accesspolicy/status_controller.go\<close>): validation of an Access and its
  referenced credential material, the Valid and Ready conditions, and the synchronisation
  step.  \<^verbatim>\<open>SetStatusCondition\<close> and the key splitter of apimachinery and client-go are
  parameters.  The material of a credential is kept as a list without duplicates in insertion
  order; Go iterates over the corresponding map in an unspecified order, which only
  decides which pair of owners a message names.
\<close>

abbreviation ConditionTrue :: string where "ConditionTrue \<equiv> ''True''"
abbreviation ConditionFalse :: string where "ConditionFalse \<equiv> ''False''"
abbreviation ConditionUnknown :: string where "ConditionUnknown \<equiv> ''Unknown''"

text \<open>A failed validation: reason and message.\<close>

type_synonym invalid = "string \<times> Message"

record credentialMaterial =
  mat_passwords :: "string list"
  mat_publicKeys :: "string list"

record AccessStatusController =
  asc_get :: "string \<Rightarrow> string \<Rightarrow> Access result"
  asc_pods :: "(string \<Rightarrow> (string \<times> string) list \<Rightarrow> Pod list result) option"
  asc_secretIndexer :: "Indexer option"
  asc_policy :: ContainerPolicy
  asc_endpoints :: "AccessStatusEndpoint list"

section \<open>Validation of credentials\<close>

definition status_secretValue ::
  "Indexer option \<Rightarrow> string \<Rightarrow> string \<Rightarrow> LocalSecretKeyRef \<Rightarrow> invalid + string" where
  "status_secretValue secretIndexer namespace username ref =
     (if ref_Name ref = [] \<or> ref_Key ref = []
      then Inl (''InvalidSecretRef'', Msg ''Credential %q has an incomplete secret reference.'' [username])
      else
        case secretIndexer of
          None \<Rightarrow> Inl (''SecretCacheUnavailable'', Msg ''Secret informer cache is not available.'' [])
        | Some ix \<Rightarrow>
            (case idx_GetByKey ix (accessKey namespace (ref_Name ref)) of
               Inl err \<Rightarrow> Inl (''SecretReadFailed'', ErrorText err)
             | Inr None \<Rightarrow> Inl (''SecretNotFound'', Msg ''Credential %q references missing secret %s/%s.''
                              [username, namespace, ref_Name ref])
             | Inr (Some (ObjSecret secret)) \<Rightarrow>
                 (case sec_Data secret (ref_Key ref) of
                    None \<Rightarrow> Inl (''SecretKeyNotFound'', Msg ''Credential %q references missing secret key %s/%s:%s.''
                                [username, namespace, ref_Name ref, ref_Key ref])
                  | Some v \<Rightarrow> Inr v)
             | Inr (Some _) \<Rightarrow> Inl (''SecretReadFailed'',
                 Msg ''Secret cache object %s/%s has unexpected type %T.'' [namespace, ref_Name ref])))"

fun check_passwords :: "string \<Rightarrow> string list \<Rightarrow> string list \<Rightarrow> invalid + string list" where
  "check_passwords user [] values = Inr values"
| "check_passwords user (password # rest) values =
     (if password = []
      then Inl (''InvalidCredential'', Msg ''Credential %q has an empty password token.'' [user])
      else check_passwords user rest (List.insert password values))"

fun check_keys :: "CryptoSSH \<Rightarrow> invalid \<Rightarrow> string list \<Rightarrow> string list \<Rightarrow> invalid + string list" where
  "check_keys ck bad [] values = Inr values"
| "check_keys ck bad (line # rest) values =
     (let fingerprint = keyFingerprint ck line
      in if fingerprint = [] then Inl bad else check_keys ck bad rest (List.insert fingerprint values))"

fun check_password_refs ::
  "Indexer option \<Rightarrow> string \<Rightarrow> string \<Rightarrow> LocalSecretKeyRef list \<Rightarrow> string list \<Rightarrow> invalid + string list" where
  "check_password_refs ix namespace user [] values = Inr values"
| "check_password_refs ix namespace user (ref # refs) values =
     (case status_secretValue ix namespace user ref of
        Inl bad \<Rightarrow> Inl bad
      | Inr v \<Rightarrow>
          let tokens = splitSecretLines v
          in if length tokens = 0
             then Inl (''InvalidSecretRef'', Msg ''Credential %q password secret %s/%s key %q contains no tokens.''
                        [user, namespace, ref_Name ref, ref_Key ref])
             else check_password_refs ix namespace user refs (foldl (\<lambda>vs t. List.insert t vs) values tokens))"

fun check_key_refs ::
  "CryptoSSH \<Rightarrow> Indexer option \<Rightarrow> string \<Rightarrow> string \<Rightarrow> LocalSecretKeyRef list \<Rightarrow> string list \<Rightarrow> invalid + string list" where
  "check_key_refs ck ix namespace user [] values = Inr values"
| "check_key_refs ck ix namespace user (ref # refs) values =
     (case status_secretValue ix namespace user ref of
        Inl bad \<Rightarrow> Inl bad
      | Inr v \<Rightarrow>
          let lines = splitSecretLines v
          in if length lines = 0
             then Inl (''InvalidSecretRef'', Msg ''Credential %q public key secret %s/%s key %q contains no keys.''
                        [user, namespace, ref_Name ref, ref_Key ref])
             else
               case check_keys ck (''InvalidSecretRef'',
                      Msg ''Credential %q public key secret %s/%s key %q contains an invalid public key.''
                        [user, namespace, ref_Name ref, ref_Key ref]) lines values of
                 Inl bad \<Rightarrow> Inl bad
               | Inr values' \<Rightarrow> check_key_refs ck ix namespace user refs values')"

definition validateCredential ::
  "CryptoSSH \<Rightarrow> Indexer option \<Rightarrow> string \<Rightarrow> nat \<Rightarrow> AccessCredential \<Rightarrow> invalid + credentialMaterial" where
  "validateCredential ck ix namespace index credential =
     (let user = cred_Username credential
      in case check_passwords user (cred_Passwords credential) [] of
           Inl bad \<Rightarrow> Inl bad
         | Inr pw1 \<Rightarrow>
             (case check_keys ck (''InvalidCredential'', Msg ''Credential %q has an invalid public key.'' [user])
                     (cred_PublicKeys credential) [] of
                Inl bad \<Rightarrow> Inl bad
              | Inr pk1 \<Rightarrow>
                  (case check_password_refs ix namespace user (cred_PasswordsFrom credential) pw1 of
                     Inl bad \<Rightarrow> Inl bad
                   | Inr pw2 \<Rightarrow>
                       (case check_key_refs ck ix namespace user (cred_PublicKeysFrom credential) pk1 of
                          Inl bad \<Rightarrow> Inl bad
                        | Inr pk2 \<Rightarrow>
                            if cred_Passwords credential = [] \<and> cred_PublicKeys credential = [] \<and>
                               cred_PasswordsFrom credential = [] \<and> cred_PublicKeysFrom credential = []
                            then Inl (''InvalidCredential'',
                                   Msg ''Credential %d/%q has no password or public key material.''
                                     [FormatInt (int index), user])
                            else Inr \<lparr> mat_passwords = pw2, mat_publicKeys = pk2 \<rparr>))))"

fun duplicateMaterialOwner ::
  "(string \<rightharpoonup> string) \<Rightarrow> string list \<Rightarrow> string \<Rightarrow> (string \<times> string) + (string \<rightharpoonup> string)" where
  "duplicateMaterialOwner owners [] username = Inr owners"
| "duplicateMaterialOwner owners (v # values) username =
     (case owners v of
        Some owner \<Rightarrow>
          if owner \<noteq> username then Inl (owner, username)
          else duplicateMaterialOwner (owners(v \<mapsto> username)) values username
      | None \<Rightarrow> duplicateMaterialOwner (owners(v \<mapsto> username)) values username)"

section \<open>Validation of capability policies\<close>

definition validForwardExpression :: "string \<Rightarrow> bool" where
  "validForwardExpression expression =
     (if expression = ''*'' \<or> expression = ''*:*'' then True
      else case SplitHostPort expression of
             Inl _ \<Rightarrow> False
           | Inr (host, port) \<Rightarrow> host \<noteq> [] \<and> port \<noteq> [])"

definition validateCapabilityPolicy :: "CapabilityPolicy \<Rightarrow> Message option" where
  "validateCapabilityPolicy policy =
     (case (case cp_LocalForward policy of
              None \<Rightarrow> None
            | Some lf \<Rightarrow> find (\<lambda>e. \<not> validForwardExpression e) (lfp_AllowDestinations lf)) of
        Some e \<Rightarrow> Some (Msg ''invalid local forward destination %q'' [e])
      | None \<Rightarrow>
          (case (case cp_RemoteForward policy of
                   None \<Rightarrow> None
                 | Some rf \<Rightarrow> find (\<lambda>e. \<not> validForwardExpression e) (rfp_AllowBinds rf)) of
             Some e \<Rightarrow> Some (Msg ''invalid remote forward bind %q'' [e])
           | None \<Rightarrow> None))"

definition message_args :: "Message \<Rightarrow> string list" where
  "message_args m = (case m of Msg f as \<Rightarrow> f # as | ErrorText _ \<Rightarrow> [])"

section \<open>Validation of an Access\<close>

fun validate_credentials ::
  "CryptoSSH \<Rightarrow> Indexer option \<Rightarrow> string \<Rightarrow> nat \<Rightarrow> string set \<Rightarrow> (string \<rightharpoonup> string) \<Rightarrow> (string \<rightharpoonup> string) \<Rightarrow>
    AccessCredential list \<Rightarrow> invalid option" where
  "validate_credentials ck ix namespace i usernames pwOwners pkOwners [] = None"
| "validate_credentials ck ix namespace i usernames pwOwners pkOwners (credential # rest) =
     (let user = cred_Username credential
      in if TrimSpace user = []
         then Some (''InvalidCredential'', Msg ''Credential at index %d requires username.'' [FormatInt (int i)])
         else if user \<in> usernames
         then Some (''DuplicateCredentialIdentity'',
                Msg ''Credential username %q must be unique within the Access.'' [user])
         else
           case validateCredential ck ix namespace i credential of
             Inl bad \<Rightarrow> Some bad
           | Inr material \<Rightarrow>
               (case duplicateMaterialOwner pwOwners (mat_passwords material) user of
                  Inl (first, second) \<Rightarrow> Some (''DuplicateCredentialMaterial'',
                    Msg ''Password material is assigned to credential identities %q and %q within the Access.''
                      [first, second])
                | Inr pwOwners' \<Rightarrow>
                    (case duplicateMaterialOwner pkOwners (mat_publicKeys material) user of
                       Inl (first, second) \<Rightarrow> Some (''DuplicateCredentialMaterial'',
                         Msg ''Public key material is assigned to credential identities %q and %q within the Access.''
                           [first, second])
                     | Inr pkOwners' \<Rightarrow>
                         (case validateCapabilityPolicy (cred_Capabilities credential) of
                            Some m \<Rightarrow> Some (''InvalidCapabilityPolicy'',
                              Msg ''Credential %q: %s'' (user # message_args m))
                          | None \<Rightarrow> validate_credentials ck ix namespace (Suc i) (insert user usernames)
                                      pwOwners' pkOwners' rest))))"

fun uncovered_container :: "string list \<Rightarrow> AccessCredential list \<Rightarrow> (string \<times> string) option" where
  "uncovered_container exposed [] = None"
| "uncovered_container exposed (credential # rest) =
     (case find (\<lambda>container. container \<noteq> ''*'' \<and> \<not> containerAllowed exposed container) (cred_Containers credential) of
        Some container \<Rightarrow> Some (cred_Username credential, container)
      | None \<Rightarrow> uncovered_container exposed rest)"

definition validateAccess ::
  "CryptoSSH \<Rightarrow> Indexer option \<Rightarrow> Access \<Rightarrow> string \<times> string \<times> Message" where
  "validateAccess ck ix access =
     (let spec = acc_Spec access
      in if length (spec_Credentials spec) = 0
         then (ConditionFalse, ''NoCredentials'', Msg ''Access requires at least one credential entry.'' [])
         else
           case validate_credentials ck ix (acc_Namespace access) 0 {} Map.empty Map.empty (spec_Credentials spec) of
             Some (reason, message) \<Rightarrow> (ConditionFalse, reason, message)
           | None \<Rightarrow>
               if spec_Type spec = AccessTypeExternal
               then (ConditionTrue, ''Valid'', Msg ''Access spec is valid.'' [])
               else
                 case (if length (spec_Containers spec) > 0
                       then uncovered_container (spec_Containers spec) (spec_Credentials spec) else None) of
                   Some (user, container) \<Rightarrow> (ConditionFalse, ''InvalidContainerPolicy'',
                     Msg ''Credential %q container %q is not exposed by the Access.'' [user, container])
                 | None \<Rightarrow> (ConditionTrue, ''Valid'', Msg ''Access spec and referenced credentials are valid.'' []))"

section \<open>Status\<close>

definition accessStatusEndpoints :: "Access \<Rightarrow> AccessStatusEndpoint list \<Rightarrow> AccessStatusEndpoint list" where
  "accessStatusEndpoints access advertised =
     (if length advertised = 0 then []
      else map (\<lambda>e. e\<lparr> se_Username := acc_Namespace access @ ''.'' @ acc_Name access \<rparr>) advertised)"

definition exposed_container :: "ContainerPolicy \<Rightarrow> Access \<Rightarrow> string \<Rightarrow> string \<Rightarrow> bool" where
  "exposed_container policy access defaultContainer name =
     (let explicit = (name \<noteq> defaultContainer);
          accessAllowed =
            (if length (spec_Containers (acc_Spec access)) > 0
             then containerAllowed (spec_Containers (acc_Spec access)) name
             else ContainerAllowed (cpol_DefaultMode policy) explicit name defaultContainer)
      in accessAllowed \<and> ContainerAllowed (cpol_LimitMode policy) explicit name defaultContainer \<and>
         (\<exists>credential \<in> set (spec_Credentials (acc_Spec access)). containerAllowed (cred_Containers credential) name))"

definition statusContainer :: "ContainerPolicy \<Rightarrow> Pod \<Rightarrow> Access \<Rightarrow> string" where
  "statusContainer policy pod access =
     (case ResolveContainer (Some pod) [] of
        Inl _ \<Rightarrow> []
      | Inr (_, defaultContainer) \<Rightarrow>
          (case find (exposed_container policy access defaultContainer) (pod_Containers pod) of
             Some name \<Rightarrow> name
           | None \<Rightarrow> []))"

definition ready_condition :: "AccessStatusController \<Rightarrow> Access \<Rightarrow> string \<Rightarrow> string \<times> string \<times> Message" where
  "ready_condition c access validStatus =
     (if validStatus \<noteq> ConditionTrue then (ConditionFalse, ''Invalid'', Msg ''Access is not valid.'' [])
      else if spec_Type (acc_Spec access) = AccessTypeExternal
      then (ConditionTrue, ''EndpointsConfigured'', Msg ''External endpoints are configured.'' [])
      else
        case asc_pods c of
          None \<Rightarrow> (ConditionUnknown, ''PodCacheUnavailable'', Msg ''Pod informer cache is not available.'' [])
        | Some lst \<Rightarrow>
            (case lst (acc_Namespace access) (spec_Selector (acc_Spec access)) of
               Inl err \<Rightarrow> (ConditionUnknown, ''ListFailed'', ErrorText err)
             | Inr pods \<Rightarrow>
                 if length (candidatePods (filter (\<lambda>pod. statusContainer (asc_policy c) pod access \<noteq> []) pods)) = 0
                 then (ConditionFalse, ''NoTargets'', Msg ''Access selector matches no active Pods.'' [])
                 else (ConditionTrue, ''TargetAvailable'', Msg ''Access has at least one active Pod target.'' [])))"

definition condition_of :: "string \<Rightarrow> int \<Rightarrow> string \<times> string \<times> Message \<Rightarrow> Condition" where
  "condition_of ctype generation v =
     \<lparr> con_Type = ctype, con_Status = fst v, con_ObservedGeneration = generation, con_LastTransitionTime = 0,
       con_Reason = fst (snd v), con_Message = snd (snd v) \<rparr>"

definition statusFor ::
  "(Condition list \<Rightarrow> Condition \<Rightarrow> Condition list) \<Rightarrow> CryptoSSH \<Rightarrow> AccessStatusController \<Rightarrow> Access \<Rightarrow> AccessStatus" where
  "statusFor setCondition ck c access =
     (let valid = validateAccess ck (asc_secretIndexer c) access;
          conditions = setCondition (st_Conditions (acc_Status access))
                         (condition_of AccessConditionValid (acc_Generation access) valid)
      in \<lparr> st_ObservedGeneration = acc_Generation access,
           st_Endpoints = accessStatusEndpoints access (asc_endpoints c),
           st_Conditions = setCondition conditions
             (condition_of AccessConditionReady (acc_Generation access) (ready_condition c access (fst valid))) \<rparr>)"

text \<open>
  One synchronisation: the object written with \<^verbatim>\<open>updateStatus\<close>, if any, and the returned error.
\<close>

text \<open>\<^verbatim>\<open>apierrors.IsNotFound\<close>: the API status error in the chain of the error is NotFound.\<close>

fun IsNotFound :: "go_error \<Rightarrow> bool" where
  "IsNotFound (NotFound _) = True"
| "IsNotFound (Wrap _ _ err) = IsNotFound err"
| "IsNotFound _ = False"

definition sync ::
  "(Condition list \<Rightarrow> Condition \<Rightarrow> Condition list) \<Rightarrow> (string \<Rightarrow> (string \<times> string) result) \<Rightarrow>
    (Access \<Rightarrow> Access result) option \<Rightarrow> CryptoSSH \<Rightarrow> AccessStatusController \<Rightarrow> string \<Rightarrow>
    Access option \<times> go_error option" where
  "sync setCondition splitKey updateStatus ck c key =
     (case updateStatus of
        None \<Rightarrow> (None, None)
      | Some update \<Rightarrow>
          (case splitKey key of
             Inl _ \<Rightarrow> (None, None)
           | Inr (namespace, name) \<Rightarrow>
               (case asc_get c namespace name of
                  Inl _ \<Rightarrow> (None, None)
                | Inr access \<Rightarrow>
                    let status = statusFor setCondition ck c access
                    in if st_ObservedGeneration (acc_Status access) = st_ObservedGeneration status \<and>
                          st_Endpoints (acc_Status access) = st_Endpoints status \<and>
                          st_Conditions (acc_Status access) = st_Conditions status
                       then (None, None)
                       else
                         let updated = access\<lparr> acc_Status := status \<rparr>
                         in (Some updated,
                             case update updated of
                               Inl err \<Rightarrow> if IsNotFound err then None else Some err
                             | Inr _ \<Rightarrow> None))))"

datatype queue_op = AddRateLimited string | Forget string | Done string

definition processNext :: "string option \<Rightarrow> (string \<Rightarrow> go_error option) \<Rightarrow> (string \<Rightarrow> nat) \<Rightarrow> bool \<times> queue_op list" where
  "processNext got syncKey numRequeues =
     (case got of
        None \<Rightarrow> (False, [])
      | Some key \<Rightarrow>
          (True,
           (case syncKey key of
              Some err \<Rightarrow> if numRequeues key < 5 then [AddRateLimited key] else [Forget key]
            | None \<Rightarrow> [Forget key]) @ [Done key]))"

end
