(* ===== verification/AccessStatusLaws.thy ===== *)
theory AccessStatusLaws
  imports AccessStatus
begin

text \<open>
  What the Valid and Ready conditions promise: a valid Access never yields an ambiguous or
  failing credential match and every declared password logs in as its owner; a ready Access has
  an active Pod with a container that some credential may enter; and the controller
  converges.
\<close>

section \<open>Validated material is the matched material\<close>

lemma check_passwords_Inr:
  "check_passwords u ps vs = Inr ws \<Longrightarrow> (\<forall>p \<in> set ps. p \<noteq> []) \<and> set ws = set vs \<union> set ps"
  by (induction ps arbitrary: vs) (auto split: if_splits)

lemma check_keys_Inr:
  "check_keys ck bad ls vs = Inr ws \<Longrightarrow>
    (\<forall>l \<in> set ls. keyFingerprint ck l \<noteq> []) \<and> set ws = set vs \<union> keyFingerprint ck ` set ls"
proof (induction ls arbitrary: vs)
  case (Cons l ls)
  then have "keyFingerprint ck l \<noteq> []" "check_keys ck bad ls (List.insert (keyFingerprint ck l) vs) = Inr ws"
    by (auto simp: Let_def split: if_splits)
  then show ?case using Cons.IH by auto
qed simp

lemma status_secretValue_SecretValue:
  "status_secretValue (cache_secretIndexer c) ns u ref = Inr v \<longleftrightarrow> SecretValue c ns ref = Inr v"
  by (auto simp: status_secretValue_def SecretValue_def split: option.splits sum.splits Object.splits)

lemma set_foldl_insert: "set (foldl (\<lambda>vs t. List.insert t vs) values ts) = set values \<union> set ts"
  by (induction ts arbitrary: "values") auto

lemma check_password_refs_Inr:
  "check_password_refs (cache_secretIndexer c) ns u refs vs = Inr ws \<Longrightarrow>
    secret_tokens c ns refs (set vs) = Inr (set ws)"
proof (induction refs arbitrary: vs)
  case (Cons ref refs)
  then obtain v where v: "status_secretValue (cache_secretIndexer c) ns u ref = Inr v"
    "check_password_refs (cache_secretIndexer c) ns u refs (foldl (\<lambda>vs t. List.insert t vs) vs (splitSecretLines v)) = Inr ws"
    by (auto simp: Let_def split: sum.splits if_splits)
  show ?case using Cons.IH[OF v(2)] v(1) by (simp add: status_secretValue_SecretValue set_foldl_insert)
qed simp

lemma check_key_refs_Inr:
  "check_key_refs ck (cache_secretIndexer c) ns u refs vs = Inr ws \<Longrightarrow>
    secret_fingerprints ck c ns u refs (set vs) = Inr (set ws)"
proof (induction refs arbitrary: vs)
  case (Cons ref refs)
  then obtain v xs where v: "status_secretValue (cache_secretIndexer c) ns u ref = Inr v"
    "check_keys ck (''InvalidSecretRef'',
        Msg ''Credential %q public key secret %s/%s key %q contains an invalid public key.''
          [u, ns, ref_Name ref, ref_Key ref]) (splitSecretLines v) vs = Inr xs"
    "check_key_refs ck (cache_secretIndexer c) ns u refs xs = Inr ws"
    by (auto simp: Let_def split: sum.splits if_splits)
  show ?case using Cons.IH[OF v(3)] v(1) check_keys_Inr[OF v(2)]
    by (simp add: status_secretValue_SecretValue bind_result_Inr_iff line_fingerprints_spec)
qed simp

lemma validateCredential_material:
  assumes "validateCredential ck (cache_secretIndexer c) ns i cred = Inr mat"
  shows "credentialPasswords c ns cred = Inr (set (mat_passwords mat))"
    and "credentialPublicKeys ck c ns cred = Inr (set (mat_publicKeys mat))"
proof -
  let ?u = "cred_Username cred"
  obtain pw1 pk1 pw2 pk2 where
    1: "check_passwords ?u (cred_Passwords cred) [] = Inr pw1" and
    2: "check_keys ck (''InvalidCredential'', Msg ''Credential %q has an invalid public key.'' [?u]) (cred_PublicKeys cred) [] = Inr pk1" and
    3: "check_password_refs (cache_secretIndexer c) ns ?u (cred_PasswordsFrom cred) pw1 = Inr pw2" and
    4: "check_key_refs ck (cache_secretIndexer c) ns ?u (cred_PublicKeysFrom cred) pk1 = Inr pk2" and
    mat: "mat = \<lparr> mat_passwords = pw2, mat_publicKeys = pk2 \<rparr>"
    using assms by (auto simp: validateCredential_def Let_def split: sum.splits if_splits)
  have "set (filter (\<lambda>v. v \<noteq> []) (cred_Passwords cred)) = set pw1" using check_passwords_Inr[OF 1] by auto
  then show "credentialPasswords c ns cred = Inr (set (mat_passwords mat))"
    using check_password_refs_Inr[OF 3] mat by (simp add: credentialPasswords_def)
  show "credentialPublicKeys ck c ns cred = Inr (set (mat_publicKeys mat))"
    using check_keys_Inr[OF 2] check_key_refs_Inr[OF 4] mat
    by (simp add: credentialPublicKeys_def bind_result_Inr_iff line_fingerprints_spec)
qed

section \<open>Owners\<close>

lemma duplicateMaterialOwner_Inr:
  "duplicateMaterialOwner owners vs u = Inr owners' \<Longrightarrow>
    (\<forall>v \<in> set vs. owners v = None \<or> owners v = Some u) \<and>
    owners' = (\<lambda>v. if v \<in> set vs then Some u else owners v)"
proof (induction vs arbitrary: owners)
  case (Cons v vs)
  have rec: "duplicateMaterialOwner (owners(v \<mapsto> u)) vs u = Inr owners'" and
    own: "owners v = None \<or> owners v = Some u"
    using Cons.prems by (auto split: option.splits if_splits)
  from Cons.IH[OF rec] have "\<forall>w \<in> set vs. (owners(v \<mapsto> u)) w = None \<or> (owners(v \<mapsto> u)) w = Some u"
    and o': "owners' = (\<lambda>w. if w \<in> set vs then Some u else (owners(v \<mapsto> u)) w)" by auto
  then have "\<forall>w \<in> set (v # vs). owners w = None \<or> owners w = Some u" using own by (auto split: if_splits)
  moreover have "owners' = (\<lambda>w. if w \<in> set (v # vs) then Some u else owners w)" using o' by auto
  ultimately show ?case by blast
qed simp

text \<open>
  A family of value sets, one per credential, that the ownership table keeps apart: no value
  is owned before, and no two of them share a value.
\<close>

definition apart :: "(string \<rightharpoonup> string) \<Rightarrow> string set list \<Rightarrow> bool" where
  "apart owners sets \<longleftrightarrow>
     (\<forall>S \<in> set sets. \<forall>v \<in> S. owners v = None) \<and>
     (\<forall>j < length sets. \<forall>k < length sets. j \<noteq> k \<longrightarrow> sets ! j \<inter> sets ! k = {})"

lemma apart_Cons:
  assumes dup: "duplicateMaterialOwner owners vs u = Inr owners'" and fresh: "u \<notin> ran owners"
    and tl: "apart owners' sets"
  shows "apart owners (set vs # sets)"
proof -
  note d = duplicateMaterialOwner_Inr[OF dup]
  have hd: "\<forall>v \<in> set vs. owners v = None" using d fresh by (force simp: ran_def)
  have rest: "\<forall>S \<in> set sets. \<forall>v \<in> S. v \<notin> set vs \<and> owners v = None"
    using tl d unfolding apart_def by (metis option.distinct(1))
  have dis: "set vs \<inter> sets ! k = {}" if "k < length sets" for k using rest that by (auto dest: nth_mem)
  have "(set vs # sets) ! j \<inter> (set vs # sets) ! k = {}"
    if "j < length (set vs # sets)" "k < length (set vs # sets)" "j \<noteq> k" for j k
    using that dis tl by (cases j; cases k) (auto simp: apart_def)
  then show ?thesis using hd rest unfolding apart_def by auto
qed

lemma duplicate_ran: "duplicateMaterialOwner owners vs u = Inr owners' \<Longrightarrow> ran owners' \<subseteq> insert u (ran owners)"
  using duplicateMaterialOwner_Inr[of owners vs u owners'] by (auto simp: ran_def split: if_splits)

lemma validate_credentials_None:
  assumes "validate_credentials ck ix ns i us pwo pko creds = None" "ran pwo \<subseteq> us" "ran pko \<subseteq> us"
  shows "\<exists>mats. list_all2 (\<lambda>cred mat. \<exists>j. validateCredential ck ix ns j cred = Inr mat) creds mats \<and>
    apart pwo (map (\<lambda>m. set (mat_passwords m)) mats) \<and> apart pko (map (\<lambda>m. set (mat_publicKeys m)) mats) \<and>
    distinct (map cred_Username creds) \<and> (\<forall>cred \<in> set creds. cred_Username cred \<notin> us)"
  using assms
proof (induction creds arbitrary: i us pwo pko)
  case Nil
  show ?case by (rule exI[of _ "[]"]) (simp add: apart_def)
next
  case (Cons cred creds)
  let ?u = "cred_Username cred"
  obtain mat pwo' pko' where u: "?u \<notin> us" and mat: "validateCredential ck ix ns i cred = Inr mat"
    and pw: "duplicateMaterialOwner pwo (mat_passwords mat) ?u = Inr pwo'"
    and pk: "duplicateMaterialOwner pko (mat_publicKeys mat) ?u = Inr pko'"
    and rest: "validate_credentials ck ix ns (Suc i) (insert ?u us) pwo' pko' creds = None"
    using Cons.prems(1) by (auto simp: Let_def split: if_splits sum.splits option.splits prod.splits)
  have rans: "ran pwo' \<subseteq> insert ?u us" "ran pko' \<subseteq> insert ?u us"
    using duplicate_ran[OF pw] duplicate_ran[OF pk] Cons.prems(2,3) by auto
  from Cons.IH[OF rest rans] obtain mats where m:
    "list_all2 (\<lambda>cred mat. \<exists>j. validateCredential ck ix ns j cred = Inr mat) creds mats"
    "apart pwo' (map (\<lambda>m. set (mat_passwords m)) mats)" "apart pko' (map (\<lambda>m. set (mat_publicKeys m)) mats)"
    "distinct (map cred_Username creds)" "\<forall>c \<in> set creds. cred_Username c \<notin> insert ?u us" by blast
  have "?u \<notin> ran pwo" "?u \<notin> ran pko" using u Cons.prems(2,3) by auto
  then have "apart pwo (map (\<lambda>m. set (mat_passwords m)) (mat # mats))"
    "apart pko (map (\<lambda>m. set (mat_publicKeys m)) (mat # mats))"
    using apart_Cons[OF pw _ m(2)] apart_Cons[OF pk _ m(3)] by auto
  moreover have "list_all2 (\<lambda>cred mat. \<exists>j. validateCredential ck ix ns j cred = Inr mat) (cred # creds) (mat # mats)"
    using mat m(1) by auto
  moreover have "distinct (map cred_Username (cred # creds))" "\<forall>c \<in> set (cred # creds). cred_Username c \<notin> us"
    using m(4,5) u by auto
  ultimately show ?case by (intro exI[of _ "mat # mats"]) simp
qed

section \<open>Matching over apart material\<close>

text \<open>Readable, pairwise disjoint material gives at most one match and finds every owner.\<close>

lemma matching_apart:
  assumes mats: "length sets = length creds" "\<forall>j < length creds. material (creds ! j) = Inr (sets ! j)"
    and ap: "\<forall>j < length sets. \<forall>k < length sets. j \<noteq> k \<longrightarrow> sets ! j \<inter> sets ! k = {}"
  shows "\<exists>is. matching_indices material v 0 creds = Inr is \<and> length is \<le> 1 \<and>
    (\<forall>j < length creds. v \<in> sets ! j \<longrightarrow> is = [j])"
proof -
  have read: "\<exists>is. matching_indices material v i creds' = Inr is" if "\<forall>cred \<in> set creds'. \<exists>S. material cred = Inr S" for i creds'
    using that
  proof (induction creds' arbitrary: i)
    case (Cons cred creds')
    then obtain S where "material cred = Inr S" by auto
    moreover obtain r where "matching_indices material v (Suc i) creds' = Inr r" using Cons by fastforce
    ultimately show ?case by simp
  qed simp
  have "\<forall>cred \<in> set creds. \<exists>S. material cred = Inr S" using mats by (auto simp: in_set_conv_nth)
  then obtain idxs where i: "matching_indices material v 0 creds = Inr idxs" using read by blast
  let ?P = "\<lambda>j. \<exists>vs. material (creds ! j) = Inr vs \<and> v \<in> vs"
  have idxs: "idxs = filter ?P [0..<length creds]" using matching_indices_spec[OF i] by simp
  have P: "?P j \<longleftrightarrow> v \<in> sets ! j" if "j < length creds" for j using mats that by simp
  have uniq: "j = k" if "j \<in> set idxs" "k \<in> set idxs" for j k
  proof (rule ccontr)
    assume "j \<noteq> k"
    moreover have "j < length sets" "k < length sets" "v \<in> sets ! j" "v \<in> sets ! k"
      using that idxs P mats(1) by auto
    ultimately show False using ap by blast
  qed
  have dist: "distinct idxs" by (simp add: idxs)
  have "length idxs \<le> 1"
  proof (cases idxs)
    case (Cons x xs)
    then have "set xs \<subseteq> {x}" using uniq by auto
    then have "xs = []" using dist Cons by (cases xs) auto
    then show ?thesis using Cons by simp
  qed simp
  moreover have "idxs = [j]" if "j < length creds" "v \<in> sets ! j" for j
  proof -
    have "j \<in> set idxs" using that P idxs by auto
    then show ?thesis using \<open>length idxs \<le> 1\<close> by (cases idxs; cases "tl idxs") auto
  qed
  ultimately show ?thesis using i by blast
qed

lemma validated_material:
  assumes "fst (validateAccess ck (cache_secretIndexer c) a) = ConditionTrue"
  shows "\<exists>pws pks. length pws = length (spec_Credentials (acc_Spec a)) \<and> length pks = length (spec_Credentials (acc_Spec a)) \<and>
    (\<forall>j < length (spec_Credentials (acc_Spec a)).
       credentialPasswords c (acc_Namespace a) (spec_Credentials (acc_Spec a) ! j) = Inr (pws ! j) \<and>
       credentialPublicKeys ck c (acc_Namespace a) (spec_Credentials (acc_Spec a) ! j) = Inr (pks ! j)) \<and>
    apart Map.empty pws \<and> apart Map.empty pks \<and> distinct (map cred_Username (spec_Credentials (acc_Spec a))) \<and>
    spec_Credentials (acc_Spec a) \<noteq> []"
proof -
  let ?cs = "spec_Credentials (acc_Spec a)"
  have ne: "?cs \<noteq> []" and v: "validate_credentials ck (cache_secretIndexer c) (acc_Namespace a) 0 {} Map.empty Map.empty ?cs = None"
    using assms by (auto simp: validateAccess_def Let_def split: if_splits option.splits prod.splits)
  obtain mats where m: "list_all2 (\<lambda>cred mat. \<exists>j. validateCredential ck (cache_secretIndexer c) (acc_Namespace a) j cred = Inr mat) ?cs mats"
    "apart Map.empty (map (\<lambda>m. set (mat_passwords m)) mats)" "apart Map.empty (map (\<lambda>m. set (mat_publicKeys m)) mats)"
    "distinct (map cred_Username ?cs)"
    using validate_credentials_None[OF v] by auto
  have len: "length mats = length ?cs" using list_all2_lengthD[OF m(1)] by simp
  have "credentialPasswords c (acc_Namespace a) (?cs ! j) = Inr (set (mat_passwords (mats ! j))) \<and>
      credentialPublicKeys ck c (acc_Namespace a) (?cs ! j) = Inr (set (mat_publicKeys (mats ! j)))" if "j < length ?cs" for j
    using list_all2_nthD[OF m(1) that] validateCredential_material by blast
  then show ?thesis using m len ne
    by (intro exI[of _ "map (\<lambda>m. set (mat_passwords m)) mats"] exI[of _ "map (\<lambda>m. set (mat_publicKeys m)) mats"]) simp
qed

lemma credentialMatch_le1:
  "length is \<le> 1 \<Longrightarrow> credentialMatch a is kind =
    (case is of [] \<Rightarrow> Inl ErrAuthnNotProvided
     | j # _ \<Rightarrow> Inr \<lparr> cm_Access = a, cm_Credential = spec_Credentials (acc_Spec a) ! j \<rparr>)"
  by (cases "is"; cases "tl is") (auto simp: credentialMatch_def)

section \<open>Conditions\<close>

lemma find_distinct_key:
  "distinct (map f xs) \<Longrightarrow> x \<in> set xs \<Longrightarrow> find (\<lambda>y. f y = f x) xs = Some x"
proof (induction xs)
  case (Cons y ys)
  show ?case
  proof (cases "x = y")
    case False
    then have x: "x \<in> set ys" using Cons.prems(2) by simp
    then have "f y \<noteq> f x" using Cons.prems(1) by auto
    then show ?thesis using Cons.IH x Cons.prems(1) by simp
  qed simp
qed simp


text \<open>
  The documented behaviour of \<^verbatim>\<open>meta.SetStatusCondition\<close>: afterwards the condition of that type
  has the given fields, conditions of other types are untouched, and setting a
  condition whose fields are already stored changes nothing.
\<close>

definition find_condition :: "string \<Rightarrow> Condition list \<Rightarrow> Condition option" where
  "find_condition t cs = find (\<lambda>c. con_Type c = t) cs"

definition same_fields :: "Condition \<Rightarrow> Condition \<Rightarrow> bool" where
  "same_fields c d \<longleftrightarrow> con_Type c = con_Type d \<and> con_Status c = con_Status d \<and>
     con_ObservedGeneration c = con_ObservedGeneration d \<and> con_Reason c = con_Reason d \<and> con_Message c = con_Message d"

definition sets_conditions :: "(Condition list \<Rightarrow> Condition \<Rightarrow> Condition list) \<Rightarrow> bool" where
  "sets_conditions setc \<longleftrightarrow>
     (\<forall>cs c. \<exists>d. find_condition (con_Type c) (setc cs c) = Some d \<and> same_fields d c) \<and>
     (\<forall>cs c t. t \<noteq> con_Type c \<longrightarrow> find_condition t (setc cs c) = find_condition t cs) \<and>
     (\<forall>cs c d. find_condition (con_Type c) cs = Some d \<and> same_fields d c \<longrightarrow> setc cs c = cs)"

text \<open>A concrete setter: replace the condition of the type in place, or append it.\<close>

fun set_condition :: "Condition list \<Rightarrow> Condition \<Rightarrow> Condition list" where
  "set_condition [] c = [c]"
| "set_condition (d # ds) c =
     (if con_Type d = con_Type c then (if same_fields d c then d # ds else c # ds) else d # set_condition ds c)"

lemma set_condition_sets: "sets_conditions set_condition"
proof -
  have 1: "\<exists>d. find_condition (con_Type c) (set_condition cs c) = Some d \<and> same_fields d c" for cs c
    by (induction cs) (auto simp: find_condition_def same_fields_def)
  have 2: "t \<noteq> con_Type c \<longrightarrow> find_condition t (set_condition cs c) = find_condition t cs" for cs c t
    by (induction cs) (auto simp: find_condition_def)
  have 3: "find_condition (con_Type c) cs = Some d \<and> same_fields d c \<longrightarrow> set_condition cs c = cs" for cs c d
    by (induction cs) (auto simp: find_condition_def split: if_splits)
  show ?thesis unfolding sets_conditions_def using 1 2 3 by blast
qed

lemma sets_conditionsD:
  assumes "sets_conditions setc"
  shows "\<exists>d. find_condition (con_Type c) (setc cs c) = Some d \<and> same_fields d c"
    and "t \<noteq> con_Type c \<Longrightarrow> find_condition t (setc cs c) = find_condition t cs"
    and "find_condition (con_Type c) cs = Some d \<Longrightarrow> same_fields d c \<Longrightarrow> setc cs c = cs"
  using assms unfolding sets_conditions_def by blast+

lemma statusFor_conditions:
  assumes "sets_conditions setc"
  shows "\<exists>v r. find_condition AccessConditionValid (st_Conditions (statusFor setc ck c a)) = Some v \<and>
    same_fields v (condition_of AccessConditionValid (acc_Generation a) (validateAccess ck (asc_secretIndexer c) a)) \<and>
    find_condition AccessConditionReady (st_Conditions (statusFor setc ck c a)) = Some r \<and>
    same_fields r (condition_of AccessConditionReady (acc_Generation a)
      (ready_condition c a (fst (validateAccess ck (asc_secretIndexer c) a))))"
proof -
  let ?V = "condition_of AccessConditionValid (acc_Generation a) (validateAccess ck (asc_secretIndexer c) a)"
  let ?R = "condition_of AccessConditionReady (acc_Generation a) (ready_condition c a (fst (validateAccess ck (asc_secretIndexer c) a)))"
  let ?cs = "setc (st_Conditions (acc_Status a)) ?V"
  have st: "st_Conditions (statusFor setc ck c a) = setc ?cs ?R" by (simp add: statusFor_def Let_def)
  have types: "con_Type ?V = AccessConditionValid" "con_Type ?R = AccessConditionReady" by (simp_all add: condition_of_def)
  obtain v where v: "find_condition AccessConditionValid ?cs = Some v" "same_fields v ?V"
    using sets_conditionsD(1)[OF assms, of ?V "st_Conditions (acc_Status a)"] unfolding types by blast
  obtain r where r: "find_condition AccessConditionReady (setc ?cs ?R) = Some r" "same_fields r ?R"
    using sets_conditionsD(1)[OF assms, of ?R ?cs] unfolding types by blast
  have "AccessConditionValid \<noteq> con_Type ?R" unfolding types by simp
  then have "find_condition AccessConditionValid (setc ?cs ?R) = Some v"
    using sets_conditionsD(2)[OF assms] v(1) by simp
  then show ?thesis using v(2) r unfolding st by blast
qed

lemma statusContainer_exposed:
  assumes "statusContainer policy p a \<noteq> []"
  shows "\<exists>cred \<in> set (spec_Credentials (acc_Spec a)). \<exists>cont. containerAllowed (cred_Containers cred) cont \<and>
    cont \<in> set (pod_Containers p) \<and> mode_permits (cpol_LimitMode policy) p cont \<and>
    (if spec_Containers (acc_Spec a) = [] then mode_permits (cpol_DefaultMode policy) p cont
     else MatchAny (spec_Containers (acc_Spec a)) cont)"
proof -
  obtain c0 d where d: "ResolveContainer (Some p) [] = Inr (c0, d)"
    using assms by (cases "ResolveContainer (Some p) []") (auto simp: statusContainer_def)
  then obtain cont where f: "find (exposed_container policy a d) (pod_Containers p) = Some cont"
    using assms by (auto simp: statusContainer_def split: option.splits)
  have dd: "d = kubernetes_default_container p" using d by (simp add: ResolveContainer_Inr)
  have mode: "ContainerAllowed m (cont \<noteq> d) cont d \<Longrightarrow> mode_permits m p cont" for m
    using dd by (auto simp: ContainerAllowed_def mode_permits_def split: if_splits)
  have "cont \<in> set (pod_Containers p)" "exposed_container policy a d cont" using find_SomeD[OF f] by auto
  then show ?thesis using mode[of "cpol_LimitMode policy"] mode[of "cpol_DefaultMode policy"]
    unfolding exposed_container_def Let_def by (auto simp: containerAllowed_def split: if_splits)
qed

section \<open>Properties\<close>

text \<open>
  A valid Access is unambiguous.  If the status controller finds an Access valid, then for every
  SSH user name that locates it no password and no public key presented to the matcher can
  fail with an error other than ``not provided'': no material maps to two
  credentials and no reference is unreadable.  Moreover every password declared inline
  logs in as exactly the credential that declares it.
\<close>

theorem valid_access_unambiguous:
  assumes valid: "fst (validateAccess ck (cache_secretIndexer c) a) = ConditionTrue"
    and loc: "resolveAccessLocator (PolicyCache_Get c) u = Inr (Some (loc, a))"
  shows "(is_ok (MatchPassword c u p) \<or> MatchPassword c u p = Inl ErrAuthnNotProvided) \<and>
    (is_ok (MatchPublicKey ck c u k) \<or> MatchPublicKey ck c u k = Inl ErrAuthnNotProvided) \<and>
    (\<forall>j < length (spec_Credentials (acc_Spec a)). p \<noteq> [] \<and> p \<in> set (cred_Passwords (spec_Credentials (acc_Spec a) ! j)) \<longrightarrow>
       MatchPassword c u p = Inr \<lparr> cm_Access = a, cm_Credential = spec_Credentials (acc_Spec a) ! j \<rparr>)"
proof -
  let ?cs = "spec_Credentials (acc_Spec a)"
  obtain pws pks where len: "length pws = length ?cs" "length pks = length ?cs"
    and mat: "\<forall>j < length ?cs. credentialPasswords c (acc_Namespace a) (?cs ! j) = Inr (pws ! j) \<and>
      credentialPublicKeys ck c (acc_Namespace a) (?cs ! j) = Inr (pks ! j)"
    and ap: "apart Map.empty pws" "apart Map.empty pks"
    using validated_material[OF valid] by blast
  have m: "length pws = length ?cs" "length pks = length ?cs"
    "\<forall>j < length ?cs. credentialPasswords c (acc_Namespace a) (?cs ! j) = Inr (pws ! j)"
    "\<forall>j < length ?cs. credentialPublicKeys ck c (acc_Namespace a) (?cs ! j) = Inr (pks ! j)"
    "\<forall>j < length pws. \<forall>k < length pws. j \<noteq> k \<longrightarrow> pws ! j \<inter> pws ! k = {}"
    "\<forall>j < length pks. \<forall>k < length pks. j \<noteq> k \<longrightarrow> pks ! j \<inter> pks ! k = {}"
    using len mat ap by (simp_all add: apart_def)
  obtain idxs where i: "matching_indices (credentialPasswords c (acc_Namespace a)) p 0 ?cs = Inr idxs" "length idxs \<le> 1"
    "\<forall>j < length ?cs. p \<in> pws ! j \<longrightarrow> idxs = [j]"
    using matching_apart[OF m(1,3,5), of p] by blast
  have mp: "p \<noteq> [] \<Longrightarrow> MatchPassword c u p = credentialMatch a idxs ''password''"
    using loc i(1) by (simp add: MatchPassword_def)
  have pw: "is_ok (MatchPassword c u p) \<or> MatchPassword c u p = Inl ErrAuthnNotProvided"
  proof (cases "p = []")
    case False
    then show ?thesis using mp credentialMatch_le1[OF i(2), of a "''password''"] by (cases idxs) auto
  qed (simp add: MatchPassword_def)
  have pk: "is_ok (MatchPublicKey ck c u k) \<or> MatchPublicKey ck c u k = Inl ErrAuthnNotProvided"
  proof (cases k)
    case (Some key)
    obtain ks where ks: "matching_indices (credentialPublicKeys ck c (acc_Namespace a)) (ck_FingerprintSHA256 ck key) 0 ?cs = Inr ks"
      "length ks \<le> 1" using matching_apart[OF m(2,4,6)] by blast
    then have "MatchPublicKey ck c u k = credentialMatch a ks ''public key''"
      using loc Some by (simp add: MatchPublicKey_def)
    then show ?thesis using credentialMatch_le1[OF ks(2), of a "''public key''"] by (cases ks) auto
  qed (simp add: MatchPublicKey_def)
  have "MatchPassword c u p = Inr \<lparr> cm_Access = a, cm_Credential = ?cs ! j \<rparr>"
    if j: "j < length ?cs" "p \<in> set (cred_Passwords (?cs ! j))" "p \<noteq> []" for j
  proof -
    have "secret_tokens c (acc_Namespace a) (cred_PasswordsFrom (?cs ! j))
        (set (filter (\<lambda>v. v \<noteq> []) (cred_Passwords (?cs ! j)))) = Inr (pws ! j)"
      using m(3) j(1) by (simp add: credentialPasswords_def)
    from secret_tokens_mono[OF this] have "p \<in> pws ! j" using j(2,3) by auto
    then show ?thesis using i(3) j mp by (simp add: credentialMatch_def)
  qed
  then show ?thesis using pw pk by blast
qed

lemma valid_access_unambiguous_witness:
  "MatchPassword example_cache ''ns.acc'' ''secret'' =
     Inr \<lparr> cm_Access = login_access, cm_Credential = spec_Credentials (acc_Spec login_access) ! 0 \<rparr>"
proof -
  have v: "fst (validateAccess example_crypto (cache_secretIndexer example_cache) login_access) = ConditionTrue" by code_simp
  have g: "PolicyCache_Get example_cache ''ns'' ''acc'' = Inr login_access"
    by (simp add: PolicyCache_Get_def example_cache_def list_indexer_def object_id_def accessKey_def
        acceptAccess_def gatewayClassName_def login_access_def example_access_def zero_values)
  then have l: "resolveAccessLocator (PolicyCache_Get example_cache) ''ns.acc'' =
      Inr (Some (\<lparr> loc_namespace = ''ns'', loc_access = ''acc'', loc_pod = [], loc_container = [] \<rparr>, login_access))"
    by (simp add: resolveAccessLocator_def)
  have cs: "0 < length (spec_Credentials (acc_Spec login_access))"
    "''secret'' \<in> set (cred_Passwords (spec_Credentials (acc_Spec login_access) ! 0))"
    by (simp_all add: login_access_def)
  show ?thesis using valid_access_unambiguous[OF v l, of "''secret''" None] cs by blast
qed

text \<open>
  A ready Access can be entered.  If the controller reports a Pod Access as Ready, then the
  Access is valid and there is an active Pod selected by it, a regular container of that Pod and
  a credential of the Access such that the gateway's limit mode, the Access (or else the
  gateway's default mode) and the credential all permit that container: the very
  condition under which the resolver binds the target for a user of that credential.
\<close>

theorem ready_access_enterable:
  assumes "sets_conditions setc" "asc_pods c = Some (InformerPodLister_List l)"
    and "find_condition AccessConditionReady (st_Conditions (statusFor setc ck c a)) = Some r"
    and "con_Status r = ConditionTrue" "spec_Type (acc_Spec a) \<noteq> AccessTypeExternal"
  shows "fst (validateAccess ck (asc_secretIndexer c) a) = ConditionTrue \<and>
    (\<exists>ps p cred cont. InformerPodLister_List l (acc_Namespace a) (spec_Selector (acc_Spec a)) = Inr ps \<and> p \<in> set ps \<and>
       pod_active p \<and> cred \<in> set (spec_Credentials (acc_Spec a)) \<and>
       container_confined (asc_policy c) a (cred_Username cred) p cont)"
proof -
  let ?v = "validateAccess ck (asc_secretIndexer c) a"
  have ready: "fst (ready_condition c a (fst ?v)) = ConditionTrue"
    using statusFor_conditions[OF assms(1), of ck c a] assms(3,4) by (auto simp: same_fields_def condition_of_def)
  have valid: "fst ?v = ConditionTrue" using ready by (auto simp: ready_condition_def split: if_splits)
  obtain ps where ps: "InformerPodLister_List l (acc_Namespace a) (spec_Selector (acc_Spec a)) = Inr ps"
    and ne: "candidatePods (filter (\<lambda>pod. statusContainer (asc_policy c) pod a \<noteq> []) ps) \<noteq> []"
    using ready valid assms(2,5) by (auto simp: ready_condition_def split: sum.splits if_splits)
  let ?cand = "candidatePods (filter (\<lambda>pod. statusContainer (asc_policy c) pod a \<noteq> []) ps)"
  obtain p where "p \<in> set ?cand" using hd_in_set[OF ne] by blast
  then have p: "p \<in> set ps" "pod_active p" "statusContainer (asc_policy c) p a \<noteq> []" by (auto simp: set_candidatePods)
  from statusContainer_exposed[OF p(3)] obtain cred cont where cr: "cred \<in> set (spec_Credentials (acc_Spec a))"
    "containerAllowed (cred_Containers cred) cont" "cont \<in> set (pod_Containers p)" "mode_permits (cpol_LimitMode (asc_policy c)) p cont"
    "if spec_Containers (acc_Spec a) = [] then mode_permits (cpol_DefaultMode (asc_policy c)) p cont
     else MatchAny (spec_Containers (acc_Spec a)) cont" by blast
  have "distinct (map cred_Username (spec_Credentials (acc_Spec a)))"
    using validated_material[of ck "\<lparr> cache_accessIndexer = None, cache_secretIndexer = asc_secretIndexer c,
      cache_namespace = [], cache_gatewayClassName = [] \<rparr>" a] valid by auto
  then have "findCredential a (cred_Username cred) = Some cred"
    using cr(1) unfolding findCredential_def by (rule find_distinct_key)
  then have "container_confined (asc_policy c) a (cred_Username cred) p cont"
    using cr unfolding container_confined_def containerAllowed_def by auto
  then show ?thesis using valid ps p cr(1) by blast
qed

definition example_controller :: AccessStatusController where
  "example_controller = \<lparr> asc_get = PolicyCache_Get example_cache,
     asc_pods = Some (InformerPodLister_List example_pods), asc_secretIndexer = None,
     asc_policy = \<lparr> cpol_DefaultMode = ''KubernetesDefault'', cpol_LimitMode = ''All'' \<rparr>,
     asc_endpoints = [\<lparr> se_Address = ''ssh.example.org:22'', se_Username = [] \<rparr>] \<rparr>"

lemma ready_access_enterable_witness:
  "\<exists>p cred cont. pod_active p \<and> cred \<in> set (spec_Credentials (acc_Spec login_access)) \<and>
     container_confined (asc_policy example_controller) login_access (cred_Username cred) p cont"
proof -
  have "map_option con_Status (find_condition AccessConditionReady
      (st_Conditions (statusFor set_condition example_crypto example_controller login_access))) = Some ConditionTrue"
    by code_simp
  then obtain r where r: "find_condition AccessConditionReady
      (st_Conditions (statusFor set_condition example_crypto example_controller login_access)) = Some r"
    "con_Status r = ConditionTrue" by auto
  have p: "asc_pods example_controller = Some (InformerPodLister_List example_pods)" by (simp add: example_controller_def)
  have t: "spec_Type (acc_Spec login_access) \<noteq> AccessTypeExternal" by (simp add: login_access_def zero_values)
  show ?thesis using ready_access_enterable[OF set_condition_sets p r t] by blast
qed

text \<open>
  C38. The status controller converges: once the status it computed has been stored, synchronising the
  same Access again writes nothing, so a controller watching its own updates does not
  loop.
\<close>

theorem status_converges:
  assumes setc: "sets_conditions setc" and key: "splitKey key = Inr (ns, n)" "asc_get c ns n = Inr a"
    and first: "sync setc splitKey (Some update) ck c key = (Some a', e)"
    and stored: "c' = c\<lparr> asc_get := (asc_get c)(ns := (asc_get c ns)(n := Inr a')) \<rparr>"
  shows "sync setc splitKey (Some update) ck c' key = (None, None)"
proof -
  let ?s = "statusFor setc ck c a"
  have a': "a' = a\<lparr> acc_Status := ?s \<rparr>"
    using first key by (auto simp: sync_def Let_def split: if_splits)
  have fields: "acc_Spec a' = acc_Spec a" "acc_Meta a' = acc_Meta a" "asc_pods c' = asc_pods c" "asc_policy c' = asc_policy c"
    by (simp_all add: a' stored)
  have cont: "statusContainer pol p a' = statusContainer pol p a" for pol p
    unfolding statusContainer_def exposed_container_def fields ..
  have same: "validateAccess ck ix a' = validateAccess ck ix a" "ready_condition c' a' v = ready_condition c a v"
    "acc_Generation a' = acc_Generation a" "accessStatusEndpoints a' es = accessStatusEndpoints a es"
    "asc_secretIndexer c' = asc_secretIndexer c" "asc_endpoints c' = asc_endpoints c" for ix v es
    unfolding validateAccess_def ready_condition_def accessStatusEndpoints_def cont fields by (simp_all add: stored)
  let ?V = "condition_of AccessConditionValid (acc_Generation a) (validateAccess ck (asc_secretIndexer c) a)"
  let ?R = "condition_of AccessConditionReady (acc_Generation a) (ready_condition c a (fst (validateAccess ck (asc_secretIndexer c) a)))"
  obtain v r where vr: "find_condition (con_Type ?V) (st_Conditions ?s) = Some v" "same_fields v ?V"
    "find_condition (con_Type ?R) (st_Conditions ?s) = Some r" "same_fields r ?R"
    using statusFor_conditions[OF setc, of ck c a] by (auto simp: condition_of_def)
  have "setc (st_Conditions ?s) ?V = st_Conditions ?s" using sets_conditionsD(3)[OF setc vr(1,2)] .
  moreover have "setc (st_Conditions ?s) ?R = st_Conditions ?s" using sets_conditionsD(3)[OF setc vr(3,4)] .
  ultimately have "st_Conditions (statusFor setc ck c' a') = st_Conditions ?s"
    unfolding statusFor_def[of setc ck c'] Let_def same by (simp add: a')
  moreover have "st_ObservedGeneration (statusFor setc ck c' a') = st_ObservedGeneration ?s"
    "st_Endpoints (statusFor setc ck c' a') = st_Endpoints ?s"
    by (simp_all add: statusFor_def Let_def same)
  moreover have "asc_get c' ns n = Inr a'" by (simp add: stored)
  moreover have "acc_Status a' = ?s" by (simp add: a')
  ultimately show ?thesis using key by (simp add: sync_def Let_def)
qed

lemma status_converges_witness:
  "\<exists>a'. fst (sync set_condition (\<lambda>_. Inr (''ns'', ''acc'')) (Some Inr) example_crypto example_controller ''ns/acc'') = Some a' \<and>
     sync set_condition (\<lambda>_. Inr (''ns'', ''acc'')) (Some Inr) example_crypto
       (example_controller\<lparr> asc_get := (asc_get example_controller)(''ns'' := (asc_get example_controller ''ns'')(''acc'' := Inr a')) \<rparr>)
       ''ns/acc'' = (None, None)"
proof -
  let ?split = "\<lambda>_ :: string. (Inr (''ns'', ''acc'') :: (string \<times> string) result)"
  have g: "asc_get example_controller ''ns'' ''acc'' = Inr login_access"
    by (simp add: example_controller_def PolicyCache_Get_def example_cache_def list_indexer_def object_id_def accessKey_def
        acceptAccess_def gatewayClassName_def login_access_def example_access_def zero_values)
  have "st_Conditions (acc_Status login_access) = []" by (simp add: login_access_def example_access_def zero_values)
  moreover have "st_Conditions (statusFor set_condition example_crypto example_controller login_access) \<noteq> []"
    using statusFor_conditions[OF set_condition_sets, of example_crypto example_controller login_access]
    by (auto simp: find_condition_def)
  ultimately obtain a' e where first: "sync set_condition ?split (Some Inr) example_crypto example_controller ''ns/acc'' = (Some a', e)"
    using g by (auto simp: sync_def Let_def)
  have s: "?split ''ns/acc'' = Inr (''ns'', ''acc'')" by simp
  show ?thesis using status_converges[where splitKey = ?split, OF set_condition_sets s g first refl] first by auto
qed

end
