(* ===== verification/StatusQueue.thy ===== *)
theory StatusQueue
  imports AccessStatusLaws Machines
begin

text \<open>
  The work queue of the status controller (status\_controller.go): the event handlers of the three
  informers, the queue with its worker, and the law that an Access whose status is out of date is
  still to be processed.  The queue is the one of client-go: a key is queued once, a key that is added
  while it is processed is queued again when it is done, and \<^verbatim>\<open>AddRateLimited\<close> adds it later.
\<close>

section \<open>The queue\<close>

text \<open>
  The caches of the controller, the queue, the keys that will be added after a delay, the key that is processed and
  whether it was added meanwhile, how often a key was requeued, the keys whose update was accepted and
  whose event has not arrived yet, the keys that were given up, and whether a listing failed.
\<close>

record statusQueue =
  sq_c :: AccessStatusController
  sq_queue :: "string list"
  sq_delayed :: "string list"
  sq_processing :: "string option"
  sq_redo :: bool
  sq_requeues :: "string \<Rightarrow> nat"
  sq_written :: "string list"
  sq_gaveup :: "string list"
  sq_missed :: bool

definition queue_Add :: "string \<Rightarrow> statusQueue \<Rightarrow> statusQueue" where
  "queue_Add key s =
     (if key \<in> set (sq_queue s) then s
      else if sq_processing s = Some key then s\<lparr> sq_redo := True \<rparr>
      else s\<lparr> sq_queue := sq_queue s @ [key] \<rparr>)"

definition queue_Get :: "statusQueue \<Rightarrow> statusQueue \<times> string option" where
  "queue_Get s =
     (case sq_queue s of
        [] \<Rightarrow> (s, None)
      | key # keys \<Rightarrow> (s\<lparr> sq_queue := keys, sq_processing := Some key, sq_redo := False \<rparr>, Some key))"

fun queue_apply :: "queue_op \<Rightarrow> statusQueue \<Rightarrow> statusQueue" where
  "queue_apply (AddRateLimited key) s =
     s\<lparr> sq_delayed := key # sq_delayed s, sq_requeues := (sq_requeues s)(key := sq_requeues s key + 1) \<rparr>"
| "queue_apply (Forget key) s = s\<lparr> sq_requeues := (sq_requeues s)(key := 0) \<rparr>"
| "queue_apply (Done key) s =
     s\<lparr> sq_processing := None, sq_redo := False, sq_queue := (if sq_redo s then sq_queue s @ [key] else sq_queue s) \<rparr>"

section \<open>Events\<close>

definition newStatusQueue :: "AccessStatusController \<Rightarrow> statusQueue" where
  "newStatusQueue c = \<lparr> sq_c = c, sq_queue = [], sq_delayed = [], sq_processing = None, sq_redo = False, sq_requeues = (\<lambda>_. 0),
     sq_written = [], sq_gaveup = [], sq_missed = False \<rparr>"

text \<open>\<^verbatim>\<open>listed\<close> is the answer of the store's \<^verbatim>\<open>List\<close>.\<close>

definition enqueueAll :: "Access list result \<Rightarrow> statusQueue \<Rightarrow> statusQueue" where
  "enqueueAll listed s =
     (case listed of
        Inl _ \<Rightarrow> s\<lparr> sq_missed := True \<rparr>
      | Inr accesses \<Rightarrow> fold (\<lambda>a. queue_Add (accessKey (acc_Namespace a) (acc_Name a))) accesses s)"

definition AccessEvent :: "string \<Rightarrow> string \<Rightarrow> Access \<Rightarrow> statusQueue \<Rightarrow> statusQueue" where
  "AccessEvent ns n a s =
     queue_Add (accessKey ns n)
       (s\<lparr> sq_c := (sq_c s)\<lparr> asc_get := (asc_get (sq_c s))(ns := (asc_get (sq_c s) ns)(n := Inr a)) \<rparr>,
          sq_written := removeAll (accessKey ns n) (sq_written s) \<rparr>)"

definition AccessDeleted :: "string \<Rightarrow> string \<Rightarrow> go_error \<Rightarrow> statusQueue \<Rightarrow> statusQueue" where
  "AccessDeleted ns n err s =
     s\<lparr> sq_c := (sq_c s)\<lparr> asc_get := (asc_get (sq_c s))(ns := (asc_get (sq_c s) ns)(n := Inl err)) \<rparr>,
        sq_written := removeAll (accessKey ns n) (sq_written s) \<rparr>"

text \<open>
  A change of Pods or Secrets: the informer's cache has changed when the handler runs, and the handler
  queues what the store lists then.  One handler is one step; the events of other informers come before or after it.
\<close>

definition RelatedEvent ::
  "(string \<Rightarrow> (string \<times> string) list \<Rightarrow> Pod list result) option \<Rightarrow> Indexer option \<Rightarrow> Access list result \<Rightarrow> statusQueue \<Rightarrow> statusQueue" where
  "RelatedEvent pods secrets listed s =
     enqueueAll listed (s\<lparr> sq_c := (sq_c s)\<lparr> asc_pods := pods, asc_secretIndexer := secrets \<rparr> \<rparr>)"

section \<open>The worker\<close>

record statusEnv =
  se_setCondition :: "Condition list \<Rightarrow> Condition \<Rightarrow> Condition list"
  se_splitKey :: "string \<Rightarrow> (string \<times> string) result"
  se_crypto :: CryptoSSH

definition sync_key :: "statusEnv \<Rightarrow> (Access \<Rightarrow> Access result) \<Rightarrow> statusQueue \<Rightarrow> string \<Rightarrow> Access option \<times> go_error option" where
  "sync_key env update s key = sync (se_setCondition env) (se_splitKey env) (Some update) (se_crypto env) (sq_c s) key"

definition worker_process :: "statusEnv \<Rightarrow> (Access \<Rightarrow> Access result) \<Rightarrow> string \<Rightarrow> statusQueue \<Rightarrow> statusQueue" where
  "worker_process env update key s =
     (let ops = snd (processNext (Some key) (\<lambda>k. snd (sync_key env update s k)) (sq_requeues s));
          wrote = fst (sync_key env update s key) \<noteq> None;
          failed = snd (sync_key env update s key) \<noteq> None
      in fold queue_apply ops
           (s\<lparr> sq_written := (if wrote \<and> \<not> failed then key # sq_written s else sq_written s),
              sq_gaveup := (if failed \<and> \<not> sq_requeues s key < 5 then key # sq_gaveup s else sq_gaveup s) \<rparr>))"

section \<open>Steps\<close>

text \<open>The store lists every Access that it has, under its own name.\<close>

definition store_lists :: "AccessStatusController \<Rightarrow> Access list result \<Rightarrow> bool" where
  "store_lists c listed =
     (case listed of
        Inl _ \<Rightarrow> True
      | Inr accesses \<Rightarrow> \<forall>ns n a. asc_get c ns n = Inr a \<longrightarrow> accessKey ns n \<in> (\<lambda>a. accessKey (acc_Namespace a) (acc_Name a)) ` set accesses)"

text \<open>
  The policy cache of the gateway does: with an indexer that lists what it finds, as client-go's does,
  its List has every Access its Get returns.
\<close>

lemma accepted_accesses_mem:
  "accepted_accesses c objects = Inr as \<Longrightarrow> ObjAccess a \<in> set objects \<Longrightarrow> acceptAccess c a \<Longrightarrow> a \<in> set as"
  by (induction c objects arbitrary: as rule: accepted_accesses.induct) (auto simp: bind_result_def split: if_splits sum.splits)

lemma policy_cache_store_lists:
  assumes "cache_ok c" "cache_accessIndexer c = Some ix" "asc_get ctl = PolicyCache_Get c"
    and lists: "\<And>k obj. idx_GetByKey ix k = Inr (Some obj) \<Longrightarrow> obj \<in> set (idx_List ix)"
  shows "store_lists ctl (PolicyCache_List c)"
proof (cases "PolicyCache_List c")
  case (Inl err)
  then show ?thesis by (simp add: store_lists_def)
next
  case (Inr accesses)
  then obtain as where as: "accepted_accesses c (idx_List ix) = Inr as" "accesses = sortAccesses as"
    using assms(2) by (auto simp: PolicyCache_List_def bind_result_def split: sum.splits)
  have "accessKey ns n \<in> (\<lambda>a. accessKey (acc_Namespace a) (acc_Name a)) ` set accesses" if get: "PolicyCache_Get c ns n = Inr a" for ns n a
  proof -
    have "idx_GetByKey ix (accessKey ns n) = Inr (Some (ObjAccess a))" "acceptAccess c a"
      using get assms(2) by (auto simp: PolicyCache_Get_Inr)
    then have "a \<in> set accesses" using accepted_accesses_mem[OF as(1)] lists as(2) by (simp add: sortAccesses_def)
    then show ?thesis using policy_cache.get_identity[OF assms(1) get] by (intro image_eqI[of _ _ a]) simp_all
  qed
  then show ?thesis using Inr assms(3) by (simp add: store_lists_def)
qed

inductive status_step :: "statusEnv \<Rightarrow> statusQueue \<Rightarrow> statusQueue \<Rightarrow> bool" for env where
  access_event: "CHR ''/'' \<notin> set ns \<Longrightarrow> CHR ''/'' \<notin> set n \<Longrightarrow> status_step env s (AccessEvent ns n a s)"
| access_deleted: "CHR ''/'' \<notin> set ns \<Longrightarrow> CHR ''/'' \<notin> set n \<Longrightarrow> status_step env s (AccessDeleted ns n err s)"
| related_event: "store_lists (sq_c s) listed \<Longrightarrow> status_step env s (RelatedEvent pods secrets listed s)"
| worker_get: "sq_processing s = None \<Longrightarrow> queue_Get s = (s', Some key) \<Longrightarrow> status_step env s s'"
| worker_sync: "sq_processing s = Some key \<Longrightarrow> status_step env s (worker_process env update key s)"
| delay_over: "key \<in> set (sq_delayed s) \<Longrightarrow>
    status_step env s (queue_Add key (s\<lparr> sq_delayed := removeAll key (sq_delayed s) \<rparr>))"

text \<open>\<^verbatim>\<open>Start\<close> queues everything that is listed at that time.\<close>

definition status_start :: "statusQueue \<Rightarrow> bool" where
  "status_start s = (\<exists>c listed. store_lists c listed \<and> s = enqueueAll listed (newStatusQueue c))"

section \<open>Nothing out of date is forgotten\<close>

definition out_of_date :: "statusEnv \<Rightarrow> AccessStatusController \<Rightarrow> string \<Rightarrow> string \<Rightarrow> bool" where
  "out_of_date env c ns n =
     (case asc_get c ns n of
        Inl _ \<Rightarrow> False
      | Inr a \<Rightarrow>
          let status = statusFor (se_setCondition env) (se_crypto env) c a
          in \<not> (st_ObservedGeneration (acc_Status a) = st_ObservedGeneration status \<and>
                st_Endpoints (acc_Status a) = st_Endpoints status \<and> st_Conditions (acc_Status a) = st_Conditions status))"

definition pending :: "statusQueue \<Rightarrow> string \<Rightarrow> bool" where
  "pending s key =
     (key \<in> set (sq_queue s) \<or> key \<in> set (sq_delayed s) \<or> sq_processing s = Some key \<or> key \<in> set (sq_written s) \<or>
      key \<in> set (sq_gaveup s) \<or> sq_missed s)"

text \<open>The documented behaviour of \<^verbatim>\<open>SplitMetaNamespaceKey\<close>.\<close>

definition splits_keys :: "statusEnv \<Rightarrow> bool" where
  "splits_keys env = (\<forall>ns n. CHR ''/'' \<notin> set ns \<longrightarrow> CHR ''/'' \<notin> set n \<longrightarrow> se_splitKey env (accessKey ns n) = Inr (ns, n))"

definition queue_inv :: "statusEnv \<Rightarrow> statusQueue \<Rightarrow> bool" where
  "queue_inv env s =
     (\<forall>ns n. CHR ''/'' \<notin> set ns \<longrightarrow> CHR ''/'' \<notin> set n \<longrightarrow> out_of_date env (sq_c s) ns n \<longrightarrow> pending s (accessKey ns n))"

lemma accessKey_eq_iff:
  "CHR ''/'' \<notin> set ns \<Longrightarrow> CHR ''/'' \<notin> set ns' \<Longrightarrow> accessKey ns n = accessKey ns' n' \<longleftrightarrow> ns = ns' \<and> n = n'"
  by (simp add: accessKey_def append_sep_eq)

lemma queue_Add_pending: "pending (queue_Add key s) key" "pending s k \<Longrightarrow> pending (queue_Add key s) k"
  by (auto simp: pending_def queue_Add_def)

lemma queue_Add_c [simp]: "sq_c (queue_Add key s) = sq_c s"
  by (simp add: queue_Add_def)

lemma fold_Add_c [simp]: "sq_c (fold (\<lambda>a. queue_Add (f a)) xs s) = sq_c s"
  by (induction xs arbitrary: s) simp_all

lemma fold_Add_pending: "pending s k \<or> k \<in> f ` set xs \<Longrightarrow> pending (fold (\<lambda>a. queue_Add (f a)) xs s) k"
proof (induction xs arbitrary: s)
  case (Cons x xs)
  then have "pending (queue_Add (f x) s) k \<or> k \<in> f ` set xs" using queue_Add_pending by auto
  then show ?case using Cons.IH by simp
qed simp

lemma statusFor_get: "statusFor setc ck (c\<lparr> asc_get := g \<rparr>) a = statusFor setc ck c a"
proof -
  have sel: "asc_pods (c\<lparr> asc_get := g \<rparr>) = asc_pods c" "asc_secretIndexer (c\<lparr> asc_get := g \<rparr>) = asc_secretIndexer c"
    "asc_policy (c\<lparr> asc_get := g \<rparr>) = asc_policy c" "asc_endpoints (c\<lparr> asc_get := g \<rparr>) = asc_endpoints c" by simp_all
  show ?thesis unfolding statusFor_def ready_condition_def sel ..
qed

lemma out_of_date_Add_get:
  assumes "(ns, n) \<noteq> (ns', n')"
  shows "out_of_date env (c\<lparr> asc_get := (asc_get c)(ns := (asc_get c ns)(n := r)) \<rparr>) ns' n' = out_of_date env c ns' n'"
proof -
  have "((asc_get c)(ns := (asc_get c ns)(n := r))) ns' n' = asc_get c ns' n'" using assms by auto
  then show ?thesis unfolding out_of_date_def statusFor_get by simp
qed

lemma out_of_date_get: "out_of_date env c ns n \<Longrightarrow> \<exists>a. asc_get c ns n = Inr a"
  by (auto simp: out_of_date_def split: sum.splits)

lemma enqueueAll_inv:
  assumes "store_lists (sq_c s) listed"
  shows "queue_inv env (enqueueAll listed s)"
proof (cases listed)
  case (Inl e)
  then show ?thesis by (simp add: enqueueAll_def queue_inv_def pending_def)
next
  case (Inr accesses)
  have "accessKey ns n \<in> (\<lambda>a. accessKey (acc_Namespace a) (acc_Name a)) ` set accesses" if "out_of_date env (sq_c s) ns n" for ns n
    using assms out_of_date_get[OF that] by (auto simp: store_lists_def Inr)
  then show ?thesis by (simp add: queue_inv_def enqueueAll_def Inr fold_Add_pending)
qed

lemma queue_inv_access:
  assumes inv: "queue_inv env s" and ns: "CHR ''/'' \<notin> set ns" and n: "CHR ''/'' \<notin> set n"
  shows "queue_inv env (AccessEvent ns n a s)"
  unfolding queue_inv_def
proof (intro allI impI)
  fix ns' n' assume s: "CHR ''/'' \<notin> set ns'" "CHR ''/'' \<notin> set n'" and o: "out_of_date env (sq_c (AccessEvent ns n a s)) ns' n'"
  show "pending (AccessEvent ns n a s) (accessKey ns' n')"
  proof (cases "(ns, n) = (ns', n')")
    case True
    then show ?thesis by (simp add: AccessEvent_def queue_Add_pending)
  next
    case False
    then have "pending s (accessKey ns' n')"
      using inv o s by (simp add: queue_inv_def AccessEvent_def out_of_date_Add_get)
    moreover have "accessKey ns' n' \<noteq> accessKey ns n" using False accessKey_eq_iff[OF s(1) ns] by auto
    ultimately show ?thesis unfolding AccessEvent_def by (intro queue_Add_pending(2)) (auto simp: pending_def)
  qed
qed

lemma queue_inv_deleted:
  assumes inv: "queue_inv env s" and ns: "CHR ''/'' \<notin> set ns"
  shows "queue_inv env (AccessDeleted ns n err s)"
  unfolding queue_inv_def
proof (intro allI impI)
  fix ns' n' assume s: "CHR ''/'' \<notin> set ns'" "CHR ''/'' \<notin> set n'" and o: "out_of_date env (sq_c (AccessDeleted ns n err s)) ns' n'"
  have ne: "(ns, n) \<noteq> (ns', n')" using out_of_date_get[OF o] by (auto simp: AccessDeleted_def)
  then have "pending s (accessKey ns' n')"
    using inv o s by (simp add: queue_inv_def AccessDeleted_def out_of_date_Add_get)
  moreover have "accessKey ns' n' \<noteq> accessKey ns n" using ne accessKey_eq_iff[OF s(1) ns] by auto
  ultimately show "pending (AccessDeleted ns n err s) (accessKey ns' n')" by (auto simp: pending_def AccessDeleted_def)
qed

lemma queue_inv_mono:
  "queue_inv env s \<Longrightarrow> sq_c s' = sq_c s \<Longrightarrow> (\<And>k. pending s k \<Longrightarrow> pending s' k) \<Longrightarrow> queue_inv env s'"
  by (simp add: queue_inv_def)

lemma queue_inv_get: "queue_inv env s \<Longrightarrow> sq_processing s = None \<Longrightarrow> queue_Get s = (s', Some key) \<Longrightarrow> queue_inv env s'"
  by (erule queue_inv_mono) (auto simp: queue_Get_def pending_def split: list.splits)

text \<open>A synchronisation writes exactly when the status is out of date, and fails only in writing.\<close>

lemma sync_key_writes:
  assumes "se_splitKey env (accessKey ns n) = Inr (ns, n)"
  shows "fst (sync_key env update s (accessKey ns n)) \<noteq> None \<longleftrightarrow> out_of_date env (sq_c s) ns n"
  using assms by (simp add: sync_key_def sync_def out_of_date_def Let_def split: sum.split)

lemma worker_process_state:
  "sq_processing s = Some key \<Longrightarrow> sq_c (worker_process env update key s) = sq_c s"
  "pending s k \<Longrightarrow> k \<noteq> key \<Longrightarrow> sq_processing s = Some key \<Longrightarrow> pending (worker_process env update key s) k"
  "fst (sync_key env update s key) \<noteq> None \<Longrightarrow> pending (worker_process env update key s) key"
  by (auto simp: worker_process_def processNext_def Let_def pending_def split: option.splits)

lemma queue_inv_worker:
  assumes inv: "queue_inv env s" and keys: "splits_keys env" and p: "sq_processing s = Some key"
  shows "queue_inv env (worker_process env update key s)"
  unfolding queue_inv_def
proof (intro allI impI)
  fix ns n assume s: "CHR ''/'' \<notin> set ns" "CHR ''/'' \<notin> set n" and o: "out_of_date env (sq_c (worker_process env update key s)) ns n"
  then have o: "out_of_date env (sq_c s) ns n" by (simp add: worker_process_state(1)[OF p])
  show "pending (worker_process env update key s) (accessKey ns n)"
  proof (cases "accessKey ns n = key")
    case True
    have "fst (sync_key env update s (accessKey ns n)) \<noteq> None"
      using sync_key_writes[of env ns n update s] keys s o by (simp add: splits_keys_def)
    then show ?thesis using worker_process_state(3)[of env update s key] True by simp
  next
    case False
    have "pending s (accessKey ns n)" using inv s o by (simp add: queue_inv_def)
    then show ?thesis using worker_process_state(2)[OF _ False p] by simp
  qed
qed

lemma queue_inv_delay:
  "queue_inv env s \<Longrightarrow> queue_inv env (queue_Add key (s\<lparr> sq_delayed := removeAll key (sq_delayed s) \<rparr>))"
  by (erule queue_inv_mono) (auto simp: pending_def queue_Add_def)

lemma queue_inv_step: "status_step env s s' \<Longrightarrow> splits_keys env \<and> queue_inv env s \<Longrightarrow> splits_keys env \<and> queue_inv env s'"
proof (induction rule: status_step.induct)
  case (related_event s listed pods secrets)
  have "store_lists ((sq_c s)\<lparr> asc_pods := pods, asc_secretIndexer := secrets \<rparr>) listed"
    using related_event.hyps by (simp add: store_lists_def split: sum.splits)
  then show ?case using related_event.prems unfolding RelatedEvent_def by (intro conjI enqueueAll_inv) simp_all
qed (simp_all add: queue_inv_access queue_inv_deleted queue_inv_worker queue_inv_delay, metis queue_inv_get)

interpretation status_queue: inductive_invariant "\<lambda>s. status_start s \<and> splits_keys env" "status_step env"
  "\<lambda>s. splits_keys env \<and> queue_inv env s" for env
proof unfold_locales
  fix s assume "status_start s \<and> splits_keys env"
  then show "splits_keys env \<and> queue_inv env s"
    by (auto simp: status_start_def newStatusQueue_def intro!: enqueueAll_inv)
qed (rule queue_inv_step)

text \<open>
  C37. The status of every Access catches up: however changes of Accesses, Pods and Secrets
  interleave with the worker, its failing updates and its retries, when the queue is empty, nothing is retried or
  processed, every accepted update has been observed, and no update was given up and no listing failed,
  the stored status of every Access is the one its current specification, Pods and Secrets give.
\<close>

theorem quiet_status_current:
  assumes "splits_keys env" "reach (\<lambda>s. status_start s \<and> splits_keys env) (status_step env) s"
    and "sq_queue s = []" "sq_delayed s = []" "sq_processing s = None" "sq_written s = []" "sq_gaveup s = []" "\<not> sq_missed s"
    and "asc_get (sq_c s) ns n = Inr a" "CHR ''/'' \<notin> set ns" "CHR ''/'' \<notin> set n"
  shows "st_ObservedGeneration (acc_Status a) = st_ObservedGeneration (statusFor (se_setCondition env) (se_crypto env) (sq_c s) a) \<and>
    st_Endpoints (acc_Status a) = st_Endpoints (statusFor (se_setCondition env) (se_crypto env) (sq_c s) a) \<and>
    st_Conditions (acc_Status a) = st_Conditions (statusFor (se_setCondition env) (se_crypto env) (sq_c s) a)"
proof -
  have "queue_inv env s" using status_queue.reach_inv[OF assms(2)] by blast
  moreover have "\<not> pending s (accessKey ns n)" using assms(3-8) by (simp add: pending_def)
  ultimately have "\<not> out_of_date env (sq_c s) ns n" using assms(10,11) by (auto simp: queue_inv_def)
  then show ?thesis using assms(9) by (simp add: out_of_date_def Let_def)
qed

text \<open>A controller with one Access, which its worker finds up to date.\<close>

definition quiet_access :: Access where
  "quiet_access = \<lparr> acc_Meta = zero_ObjectMeta\<lparr> m_Namespace := ''ns'', m_Name := ''web'' \<rparr>, acc_Spec = zero_AccessSpec,
     acc_Status = zero_AccessStatus \<rparr>"

definition quiet_env :: statusEnv where
  "quiet_env = \<lparr> se_setCondition = (\<lambda>cs c. cs),
     se_splitKey = (\<lambda>key. case Split key (CHR ''/'') of [ns, n] \<Rightarrow> Inr (ns, n) | _ \<Rightarrow> Inl (Errorf ''unexpected key format: %q'' [key])),
     se_crypto = example_crypto \<rparr>"

definition quiet_controller :: AccessStatusController where
  "quiet_controller = \<lparr> asc_get = (\<lambda>ns n. if ns = ''ns'' \<and> n = ''web'' then Inr quiet_access else Inl (NotFound n)), asc_pods = None,
     asc_secretIndexer = None, asc_policy = asc_policy example_controller, asc_endpoints = [] \<rparr>"

definition quiet_started :: statusQueue where
  "quiet_started = enqueueAll (Inr [quiet_access]) (newStatusQueue quiet_controller)"

definition quiet_working :: statusQueue where
  "quiet_working = (newStatusQueue quiet_controller)\<lparr> sq_processing := Some ''ns/web'' \<rparr>"

lemma quiet_splits: "splits_keys quiet_env"
  by (simp add: splits_keys_def quiet_env_def accessKey_def)

lemma quiet_get: "queue_Get quiet_started = (quiet_working, Some ''ns/web'')" "sq_processing quiet_started = None"
  by (simp_all add: quiet_started_def quiet_working_def enqueueAll_def queue_Add_def queue_Get_def newStatusQueue_def quiet_access_def
      accessKey_def)

lemma quiet_sync: "sync_key quiet_env update quiet_working ''ns/web'' = (None, None)"
proof -
  have "se_splitKey quiet_env ''ns/web'' = Inr (''ns'', ''web'')" by (simp add: quiet_env_def)
  moreover have "asc_get quiet_controller ''ns'' ''web'' = Inr quiet_access" by (simp add: quiet_controller_def)
  moreover have "statusFor (se_setCondition quiet_env) (se_crypto quiet_env) quiet_controller quiet_access = zero_AccessStatus"
    by (simp add: statusFor_def quiet_env_def quiet_access_def quiet_controller_def accessStatusEndpoints_def zero_AccessStatus_def
        zero_ObjectMeta_def Let_def)
  moreover have "acc_Status quiet_access = zero_AccessStatus" by (simp add: quiet_access_def)
  ultimately show ?thesis by (simp add: sync_key_def sync_def quiet_working_def newStatusQueue_def Let_def)
qed

lemma quiet_done: "worker_process quiet_env update ''ns/web'' quiet_working = newStatusQueue quiet_controller"
  by (simp add: worker_process_def processNext_def quiet_sync) (simp add: quiet_working_def newStatusQueue_def fun_eq_iff)

theorem quiet_status_current_witness:
  "st_Conditions (acc_Status quiet_access) =
     st_Conditions (statusFor (se_setCondition quiet_env) (se_crypto quiet_env) quiet_controller quiet_access)"
proof -
  let ?r = "reach (\<lambda>s. status_start s \<and> splits_keys quiet_env) (status_step quiet_env)"
  have "store_lists quiet_controller (Inr [quiet_access])"
    by (simp add: store_lists_def quiet_controller_def quiet_access_def accessKey_def)
  then have 0: "?r quiet_started"
    by (intro reach_init) (auto simp: status_start_def quiet_started_def quiet_splits)
  have 1: "?r quiet_working" by (rule reach_step[OF 0 worker_get[OF quiet_get(2,1)]])
  have "sq_processing quiet_working = Some ''ns/web''" by (simp add: quiet_working_def)
  then have "?r (worker_process quiet_env Inr ''ns/web'' quiet_working)" by (rule reach_step[OF 1 worker_sync])
  then have quiet: "?r (newStatusQueue quiet_controller)" by (simp only: quiet_done)
  from quiet_status_current[OF quiet_splits quiet, of "''ns''" "''web''" quiet_access] show ?thesis
    by (simp add: newStatusQueue_def quiet_controller_def)
qed

end
