(* ===== verification/SessionPolicy.thy ===== *)
theory SessionPolicy
  imports Authz Machines
begin

text \<open>
  Session policies of the gateway (\<^verbatim>\<open>pkg/gateway/session_policy.go\<close>): the effective shell,
  environment and time limits of a connection, and the connection wrapper that enforces
  the time limits (\<^verbatim>\<open>session_policy_conn.go\<close>).  The wrapper is modelled as a timed state
  machine: its timer is absent, stopped, or armed for an instant.
\<close>

section \<open>Options\<close>

record PolicyRuleOptions =
  po_ContainerMode :: string
  po_Capabilities :: "string list"
  po_EnvAllowlist :: "string list"
  po_LocalForwardDestinations :: "string list"
  po_RemoteForwardBinds :: "string list"
  po_DefaultShell :: string
  po_Shells :: "string list"
  po_IdleTimeout :: int
  po_MaxDuration :: int

definition zero_PolicyRuleOptions :: PolicyRuleOptions where
  "zero_PolicyRuleOptions = \<lparr> po_ContainerMode = [], po_Capabilities = [], po_EnvAllowlist = [],
     po_LocalForwardDestinations = [], po_RemoteForwardBinds = [], po_DefaultShell = [], po_Shells = [],
     po_IdleTimeout = 0, po_MaxDuration = 0 \<rparr>"

record PolicyOptions =
  pol_Defaults :: PolicyRuleOptions
  pol_Limits :: PolicyRuleOptions

text \<open>The policy part of \<^verbatim>\<open>NewDefaultOptions\<close>.\<close>

definition default_policy :: PolicyOptions where
  "default_policy =
     \<lparr> pol_Defaults = zero_PolicyRuleOptions\<lparr> po_ContainerMode := ''KubernetesDefault'',
         po_Capabilities := [''shell'', ''exec'', ''scp'', ''sftp'', ''local_forward'', ''remote_forward'', ''agent_forward''],
         po_EnvAllowlist := [''*''], po_LocalForwardDestinations := [''*''], po_RemoteForwardBinds := [''*''],
         po_DefaultShell := ''/bin/sh'' \<rparr>,
       pol_Limits = zero_PolicyRuleOptions\<lparr> po_ContainerMode := ''All'', po_Capabilities := [''*''],
         po_EnvAllowlist := [''*''], po_LocalForwardDestinations := [''*''], po_RemoteForwardBinds := [''*''],
         po_Shells := [''*''] \<rparr> \<rparr>"

section \<open>The effective policy\<close>

record effectiveSessionPolicy =
  esp_DefaultShell :: string
  esp_globalEnvAllowlist :: "string list"
  esp_accessEnvAllowlist :: "string list"
  esp_accessEnvConfigured :: bool
  esp_IdleTimeout :: int
  esp_MaxDuration :: int

definition positiveDuration :: "int \<Rightarrow> int" where
  "positiveDuration duration = max duration 0"

definition boundedDuration :: "int \<Rightarrow> int \<Rightarrow> int" where
  "boundedDuration v limit =
     (let v' = positiveDuration v; limit' = positiveDuration limit
      in if v' = 0 then limit' else if limit' = 0 then v' else min v' limit')"

definition buildGlobalSessionPolicy :: "PolicyOptions \<Rightarrow> effectiveSessionPolicy" where
  "buildGlobalSessionPolicy opts =
     \<lparr> esp_DefaultShell = po_DefaultShell (pol_Defaults opts),
       esp_globalEnvAllowlist = po_EnvAllowlist (pol_Limits opts),
       esp_accessEnvAllowlist = po_EnvAllowlist (pol_Defaults opts),
       esp_accessEnvConfigured = True,
       esp_IdleTimeout = boundedDuration (po_IdleTimeout (pol_Defaults opts)) (po_IdleTimeout (pol_Limits opts)),
       esp_MaxDuration = boundedDuration (po_MaxDuration (pol_Defaults opts)) (po_MaxDuration (pol_Limits opts)) \<rparr>"

definition override_duration :: "int option \<Rightarrow> int \<Rightarrow> int \<Rightarrow> int" where
  "override_duration requested limit current =
     (case requested of
        None \<Rightarrow> current
      | Some d \<Rightarrow> if positiveDuration d > 0 then boundedDuration (positiveDuration d) limit else current)"

definition buildAccessSessionPolicy :: "PolicyOptions \<Rightarrow> Access option \<Rightarrow> effectiveSessionPolicy" where
  "buildAccessSessionPolicy opts access =
     (let policy = buildGlobalSessionPolicy opts
      in case access of
           None \<Rightarrow> policy
         | Some a \<Rightarrow>
             (case spec_Session (acc_Spec a) of
                None \<Rightarrow> policy
              | Some session \<Rightarrow>
                  policy\<lparr>
                    esp_DefaultShell :=
                      (if sp_DefaultShell session \<noteq> [] then sp_DefaultShell session else esp_DefaultShell policy),
                    esp_accessEnvConfigured :=
                      (case sp_EnvAllowlist session of None \<Rightarrow> esp_accessEnvConfigured policy | Some _ \<Rightarrow> True),
                    esp_accessEnvAllowlist :=
                      (case sp_EnvAllowlist session of None \<Rightarrow> esp_accessEnvAllowlist policy | Some l \<Rightarrow> l),
                    esp_IdleTimeout :=
                      override_duration (sp_IdleTimeout session) (po_IdleTimeout (pol_Limits opts)) (esp_IdleTimeout policy),
                    esp_MaxDuration :=
                      override_duration (sp_MaxDuration session) (po_MaxDuration (pol_Limits opts)) (esp_MaxDuration policy) \<rparr>))"

fun envAllowlistAllows :: "string list \<Rightarrow> string \<Rightarrow> bool" where
  "envAllowlistAllows [] key = False"
| "envAllowlistAllows (pattern # allowlist) key =
     (let upper = ToUpper key; p = ToUpper pattern
      in if p = ''*'' then True
         else if HasSuffix p ''*'' then
           (if HasPrefix upper (take (length p - 1) p) then True else envAllowlistAllows allowlist key)
         else if upper = p then True
         else envAllowlistAllows allowlist key)"

definition envAllowed :: "effectiveSessionPolicy \<Rightarrow> string \<Rightarrow> bool" where
  "envAllowed p key =
     (if \<not> envAllowlistAllows (esp_globalEnvAllowlist p) key then False
      else if esp_accessEnvConfigured p \<and> \<not> envAllowlistAllows (esp_accessEnvAllowlist p) key then False
      else True)"

definition parseAccessSSHUser :: "string \<Rightarrow> (string \<times> string) option" where
  "parseAccessSSHUser sshUser =
     (case Cut sshUser (CHR ''.'') of
        (namespace, name, ok) \<Rightarrow> if \<not> ok \<or> namespace = [] \<or> name = [] then None else Some (namespace, name))"

definition firstExtraValue :: "(string \<rightharpoonup> string list) \<Rightarrow> string \<Rightarrow> string" where
  "firstExtraValue extra key = (let values = extra_get extra key in if length values = 0 then [] else hd values)"

definition stringAllowed :: "string list \<Rightarrow> string \<Rightarrow> bool" where
  "stringAllowed patterns v = MatchAny patterns v"

definition sessionPolicyAccess ::
  "(string \<Rightarrow> string \<Rightarrow> Access result) option \<Rightarrow> string \<Rightarrow> (string \<rightharpoonup> string list) \<Rightarrow> Access option result" where
  "sessionPolicyAccess accessPolicy sshUser infoExtra =
     (case accessPolicy of
        None \<Rightarrow> Inr None
      | Some get \<Rightarrow>
          let namespace = firstExtraValue infoExtra ExtraAccessNamespace; name = firstExtraValue infoExtra ExtraAccessName
          in if namespace \<noteq> [] \<or> name \<noteq> [] then
               if namespace = [] \<or> name = [] then Inl (Errorf ''incomplete access policy identity'' [])
               else bind_result (get namespace name) (\<lambda>access. Inr (Some access))
             else
               case parseAccessSSHUser sshUser of
                 None \<Rightarrow> Inr None
               | Some (ns, n) \<Rightarrow> (case get ns n of Inl _ \<Rightarrow> Inr None | Inr access \<Rightarrow> Inr (Some access)))"

definition resolveSessionPolicy ::
  "PolicyOptions \<Rightarrow> (string \<Rightarrow> string \<Rightarrow> Access result) option \<Rightarrow> string \<Rightarrow> (string \<rightharpoonup> string list) \<Rightarrow>
    effectiveSessionPolicy result" where
  "resolveSessionPolicy opts accessPolicy sshUser infoExtra =
     bind_result (sessionPolicyAccess accessPolicy sshUser infoExtra)
       (\<lambda>access.
          let policy = buildAccessSessionPolicy opts access
          in if \<not> stringAllowed (po_Shells (pol_Limits opts)) (esp_DefaultShell policy)
             then Inl (Errorf ''shell %q exceeds global policy limits'' [esp_DefaultShell policy])
             else Inr policy)"

section \<open>The enforcing connection\<close>

text \<open>
  Instants are nanoseconds since Go's zero time, so that 0 is the zero \<^verbatim>\<open>time.Time\<close>; durations are
  \<^verbatim>\<open>int64\<close> nanoseconds, whose sum wraps and whose difference of two instants saturates.
\<close>

datatype timer = NoTimer | Stopped | Armed int

record sessionPolicyConn =
  spc_started :: int
  spc_lastActivity :: int
  spc_closed :: bool
  spc_policy :: effectiveSessionPolicy
  spc_timer :: timer

definition nextDeadlineLocked :: "sessionPolicyConn \<Rightarrow> int" where
  "nextDeadlineLocked c =
     (let deadline = (if esp_MaxDuration (spc_policy c) > 0 then spc_started c + esp_MaxDuration (spc_policy c) else 0)
      in if esp_IdleTimeout (spc_policy c) > 0 then
           (let idleDeadline = spc_started c + wrap64 (spc_lastActivity c + esp_IdleTimeout (spc_policy c))
            in if deadline = 0 \<or> idleDeadline < deadline then idleDeadline else deadline)
         else deadline)"

definition Time_Sub :: "int \<Rightarrow> int \<Rightarrow> int" where
  "Time_Sub t u = max (- (2 ^ 63)) (min (t - u) (2 ^ 63 - 1))"

definition scheduleLocked :: "sessionPolicyConn \<Rightarrow> int \<Rightarrow> sessionPolicyConn \<times> bool" where
  "scheduleLocked c now =
     (let deadline = nextDeadlineLocked c
      in if deadline = 0
         then (c\<lparr> spc_timer := (case spc_timer c of NoTimer \<Rightarrow> NoTimer | _ \<Rightarrow> Stopped) \<rparr>, False)
         else
           let delay = Time_Sub deadline now
           in if delay \<le> 0 then (c, True) else (c\<lparr> spc_timer := Armed (now + delay) \<rparr>, False))"

definition conn_Close :: "sessionPolicyConn \<Rightarrow> sessionPolicyConn" where
  "conn_Close c =
     (if spc_closed c then c
      else c\<lparr> spc_closed := True, spc_timer := (case spc_timer c of NoTimer \<Rightarrow> NoTimer | _ \<Rightarrow> Stopped) \<rparr>)"

definition ApplyPolicy :: "sessionPolicyConn \<Rightarrow> effectiveSessionPolicy \<Rightarrow> int \<Rightarrow> sessionPolicyConn" where
  "ApplyPolicy c policy now =
     (if spc_closed c then c
      else case scheduleLocked (c\<lparr> spc_policy := policy \<rparr>) now of
             (c', expired) \<Rightarrow> if expired then conn_Close c' else c')"

definition zero_effectiveSessionPolicy :: effectiveSessionPolicy where
  "zero_effectiveSessionPolicy = \<lparr> esp_DefaultShell = [], esp_globalEnvAllowlist = [], esp_accessEnvAllowlist = [],
     esp_accessEnvConfigured = False, esp_IdleTimeout = 0, esp_MaxDuration = 0 \<rparr>"

definition newSessionPolicyConn :: "effectiveSessionPolicy \<Rightarrow> int \<Rightarrow> sessionPolicyConn" where
  "newSessionPolicyConn policy now =
     ApplyPolicy \<lparr> spc_started = now, spc_lastActivity = 0, spc_closed = False,
                   spc_policy = zero_effectiveSessionPolicy, spc_timer = NoTimer \<rparr> policy now"

definition touch :: "sessionPolicyConn \<Rightarrow> int \<Rightarrow> sessionPolicyConn" where
  "touch c now = c\<lparr> spc_lastActivity := Time_Sub now (spc_started c) \<rparr>"

text \<open>Read and Write: \<^verbatim>\<open>n\<close> is the number of bytes the inner connection transferred.\<close>

definition conn_transfer :: "sessionPolicyConn \<Rightarrow> nat \<Rightarrow> int \<Rightarrow> sessionPolicyConn" where
  "conn_transfer c n now = (if n > 0 then touch c now else c)"

definition onTimer :: "sessionPolicyConn \<Rightarrow> int \<Rightarrow> sessionPolicyConn" where
  "onTimer c now =
     (if spc_closed c then c
      else case scheduleLocked c now of (c', expired) \<Rightarrow> if expired then conn_Close c' else c')"

text \<open>
  The machine: a connection and the clock.  Transfers, policy changes and closing happen at
  any time; an armed timer fires once its instant has come, and time does not pass the
  instant of an armed timer before it has fired.  The limits of a policy are durations, and the
  clock shows a time after the year 293, so that no instant within a duration of it is the zero
  time.
\<close>

definition policy_durations :: "effectiveSessionPolicy \<Rightarrow> bool" where
  "policy_durations policy \<longleftrightarrow> fits64 (esp_IdleTimeout policy) \<and> fits64 (esp_MaxDuration policy)"

inductive conn_step :: "sessionPolicyConn \<times> int \<Rightarrow> sessionPolicyConn \<times> int \<Rightarrow> bool" where
  step_transfer: "conn_step (c, now) (conn_transfer c n now, now)"
| step_policy: "policy_durations policy \<Longrightarrow> conn_step (c, now) (ApplyPolicy c policy now, now)"
| step_close: "conn_step (c, now) (conn_Close c, now)"
| step_fire: "spc_timer c = Armed t \<Longrightarrow> t \<le> now \<Longrightarrow>
    conn_step (c, now) (onTimer (c\<lparr> spc_timer := Stopped \<rparr>) now, now)"
| step_time: "now < now' \<Longrightarrow> (\<And>t. spc_timer c = Armed t \<Longrightarrow> now' \<le> t) \<Longrightarrow> conn_step (c, now) (c, now')"

definition conn_init :: "sessionPolicyConn \<times> int \<Rightarrow> bool" where
  "conn_init s \<longleftrightarrow> (\<exists>policy now. policy_durations policy \<and> 2 ^ 63 < now \<and> s = (newSessionPolicyConn policy now, now))"

section \<open>Lemmas\<close>

lemma boundedDuration_limit:
  "0 < limit \<Longrightarrow> 0 < boundedDuration v limit \<and> boundedDuration v limit \<le> limit"
  by (auto simp: boundedDuration_def positiveDuration_def Let_def)

lemma boundedDuration_nonneg: "0 \<le> boundedDuration v limit"
  by (auto simp: boundedDuration_def positiveDuration_def Let_def)

lemma override_duration_limit:
  "0 < limit \<Longrightarrow> 0 < current \<and> current \<le> limit \<Longrightarrow>
    0 < override_duration r limit current \<and> override_duration r limit current \<le> limit"
  using boundedDuration_limit by (auto simp: override_duration_def split: option.splits)

text \<open>
  The invariant of the enforcing connection: while it is open and limited, its timer is armed, for
  an instant that has not passed and that no limit precedes.
\<close>

definition limited :: "sessionPolicyConn \<Rightarrow> bool" where
  "limited c \<longleftrightarrow> 0 < esp_MaxDuration (spc_policy c) \<or> 0 < esp_IdleTimeout (spc_policy c)"

definition within_deadlines :: "sessionPolicyConn \<Rightarrow> int \<Rightarrow> bool" where
  "within_deadlines c t \<longleftrightarrow>
     (0 < esp_MaxDuration (spc_policy c) \<longrightarrow> t \<le> spc_started c + esp_MaxDuration (spc_policy c)) \<and>
     (0 < esp_IdleTimeout (spc_policy c) \<longrightarrow> t \<le> spc_started c + spc_lastActivity c + esp_IdleTimeout (spc_policy c))"

definition conn_times :: "sessionPolicyConn \<Rightarrow> int \<Rightarrow> bool" where
  "conn_times c now \<longleftrightarrow> 2 ^ 63 < spc_started c \<and> spc_started c \<le> now \<and> 0 \<le> spc_lastActivity c \<and>
     spc_lastActivity c < 2 ^ 63 \<and> spc_started c + spc_lastActivity c \<le> now \<and> policy_durations (spc_policy c)"

definition conn_inv :: "sessionPolicyConn \<times> int \<Rightarrow> bool" where
  "conn_inv s \<longleftrightarrow> (case s of (c, now) \<Rightarrow> conn_times c now \<and>
     (spc_closed c \<or> \<not> limited c \<or> (\<exists>t. spc_timer c = Armed t \<and> now \<le> t \<and> within_deadlines c t)))"

lemma conn_frame [simp]:
  "limited (c\<lparr> spc_timer := t \<rparr>) = limited c" "limited (c\<lparr> spc_closed := b \<rparr>) = limited c"
  "within_deadlines (c\<lparr> spc_timer := t \<rparr>) = within_deadlines c" "within_deadlines (c\<lparr> spc_closed := b \<rparr>) = within_deadlines c"
  "conn_times (c\<lparr> spc_timer := t \<rparr>) = conn_times c" "conn_times (c\<lparr> spc_closed := b \<rparr>) = conn_times c"
  "nextDeadlineLocked (c\<lparr> spc_timer := t \<rparr>) = nextDeadlineLocked c"
  by (simp_all add: limited_def within_deadlines_def conn_times_def nextDeadlineLocked_def fun_eq_iff)

lemma wrap64_sum:
  assumes "0 \<le> x" "x < 2 ^ 63" "0 \<le> y" "y < 2 ^ 63"
  shows "wrap64 (x + y) \<le> x + y"
proof -
  have "(x + y + 2 ^ 63) mod 2 ^ 64 \<le> x + y + 2 ^ 63" using assms by (intro zmod_le_nonneg_dividend) simp
  then show ?thesis by (simp add: wrap64_def)
qed

lemma nextDeadline_le:
  assumes "conn_times c now" "limited c"
  shows "nextDeadlineLocked c \<noteq> 0" "within_deadlines c (nextDeadlineLocked c)"
proof -
  have w: "- (2 ^ 63) \<le> wrap64 (spc_lastActivity c + esp_IdleTimeout (spc_policy c))"
    using fits64_wrap64 unfolding fits64_def by blast
  have l: "0 < esp_IdleTimeout (spc_policy c) \<Longrightarrow>
      wrap64 (spc_lastActivity c + esp_IdleTimeout (spc_policy c)) \<le> spc_lastActivity c + esp_IdleTimeout (spc_policy c)"
    using assms(1) by (intro wrap64_sum) (simp_all add: conn_times_def policy_durations_def fits64_def)
  have s: "2 ^ 63 < spc_started c" using assms(1) by (simp add: conn_times_def)
  show "nextDeadlineLocked c \<noteq> 0" using assms(2) w s by (auto simp: nextDeadlineLocked_def limited_def Let_def)
  show "within_deadlines c (nextDeadlineLocked c)"
    using l s w by (auto simp: nextDeadlineLocked_def within_deadlines_def Let_def)
qed

lemma nextDeadline_unlimited: "\<not> limited c \<Longrightarrow> nextDeadlineLocked c = 0"
  by (simp add: nextDeadlineLocked_def limited_def)

lemma schedule_inv:
  assumes "conn_times c now"
  shows "conn_inv (case scheduleLocked c now of (c', expired) \<Rightarrow> if expired then conn_Close c' else c', now)"
proof (cases "limited c")
  case False
  then show ?thesis using assms
    by (simp add: scheduleLocked_def conn_inv_def nextDeadline_unlimited)
next
  case True
  have d: "nextDeadlineLocked c \<noteq> 0" "within_deadlines c (nextDeadlineLocked c)" using nextDeadline_le[OF assms True] by auto
  let ?delay = "Time_Sub (nextDeadlineLocked c) now"
  have "within_deadlines c (now + ?delay)" if "0 < ?delay"
  proof -
    have "now + ?delay \<le> nextDeadlineLocked c" using that by (simp add: Time_Sub_def split: if_splits)
    then show ?thesis using d(2) by (auto simp: within_deadlines_def)
  qed
  then show ?thesis using assms d(1) by (auto simp: scheduleLocked_def conn_inv_def conn_Close_def Let_def)
qed

lemma ApplyPolicy_inv:
  assumes "conn_inv (c, now)" "policy_durations policy"
  shows "conn_inv (ApplyPolicy c policy now, now)"
proof (cases "spc_closed c")
  case True
  then show ?thesis using assms by (simp add: ApplyPolicy_def)
next
  case False
  then show ?thesis using assms schedule_inv[of "c\<lparr> spc_policy := policy \<rparr>" now]
    by (simp add: ApplyPolicy_def conn_inv_def conn_times_def)
qed

lemma onTimer_inv:
  assumes "conn_inv (c, now)"
  shows "conn_inv (onTimer (c\<lparr> spc_timer := Stopped \<rparr>) now, now)"
proof (cases "spc_closed c")
  case True
  then show ?thesis using assms by (simp add: onTimer_def conn_inv_def)
next
  case False
  then show ?thesis using assms schedule_inv[of "c\<lparr> spc_timer := Stopped \<rparr>" now]
    by (simp add: onTimer_def conn_inv_def)
qed

lemma transfer_inv:
  assumes "conn_inv (c, now)"
  shows "conn_inv (conn_transfer c n now, now)"
proof -
  have a: "conn_times c now" using assms by (simp add: conn_inv_def)
  let ?a = "Time_Sub now (spc_started c)"
  have b: "spc_lastActivity c \<le> ?a" "0 \<le> ?a" "?a < 2 ^ 63" "spc_started c + ?a \<le> now"
    using a by (auto simp: conn_times_def Time_Sub_def)
  have t: "conn_times (touch c now) now" using a b by (simp add: conn_times_def touch_def)
  have w: "within_deadlines (touch c now) t" if "within_deadlines c t" for t
    using that b by (auto simp: within_deadlines_def touch_def)
  have l: "limited (touch c now) = limited c" "spc_closed (touch c now) = spc_closed c" "spc_timer (touch c now) = spc_timer c"
    by (simp_all add: limited_def touch_def)
  show ?thesis using assms t w l by (auto simp: conn_inv_def conn_transfer_def)
qed

interpretation enforced: inductive_invariant conn_init conn_step conn_inv
proof
  fix s assume "conn_init s"
  then show "conn_inv s"
    by (auto simp: conn_init_def newSessionPolicyConn_def ApplyPolicy_def conn_times_def intro!: schedule_inv)
next
  fix s t assume inv: "conn_inv s" and "conn_step s t"
  from this(2) show "conn_inv t"
  proof (cases rule: conn_step.cases)
    case (step_transfer c now n) then show ?thesis using inv transfer_inv by simp
  next
    case (step_policy c now policy) then show ?thesis using inv ApplyPolicy_inv by simp
  next
    case (step_close c now) then show ?thesis using inv by (auto simp: conn_inv_def conn_Close_def)
  next
    case (step_fire c t now) then show ?thesis using inv onTimer_inv by simp
  next
    case (step_time now now' c) then show ?thesis using inv by (auto simp: conn_inv_def conn_times_def)
  qed
qed

lemma conn_inv_deadline:
  "conn_inv (c, now) \<Longrightarrow> \<not> spc_closed c \<Longrightarrow> within_deadlines c now"
  by (auto simp: conn_inv_def within_deadlines_def limited_def)

lemma conn_inv_fires:
  assumes inv: "conn_inv (c, now)" and c: "\<not> spc_closed c" "limited c" "\<not> within_deadlines c (now + 1)"
  shows "\<exists>t. spc_timer c = Armed t \<and> t \<le> now \<and> spc_closed (onTimer (c\<lparr> spc_timer := Stopped \<rparr>) now)"
proof -
  obtain t where t: "spc_timer c = Armed t" "within_deadlines c t" using inv c by (auto simp: conn_inv_def)
  have late: "d \<le> now" if "within_deadlines c d" for d using that c(3) by (auto simp: within_deadlines_def)
  have times: "conn_times c now" using inv by (simp add: conn_inv_def)
  have d: "nextDeadlineLocked c \<noteq> 0" "nextDeadlineLocked c \<le> now"
    using nextDeadline_le[OF times c(2)] late by auto
  then have "Time_Sub (nextDeadlineLocked c) now \<le> 0" by (simp add: Time_Sub_def)
  then have "spc_closed (onTimer (c\<lparr> spc_timer := Stopped \<rparr>) now)"
    using c(1) d(1) by (simp add: onTimer_def scheduleLocked_def conn_Close_def Let_def)
  then show ?thesis using t late by blast
qed

lemma firstExtraValue_GetExtra: "firstExtraValue extra key = GetExtra extra key"
  by (simp add: firstExtraValue_def GetExtra_def)

section \<open>Properties\<close>

text \<open>
  Whatever Access a connection is subject to, its effective session policy stays within the
  gateway's limits: the shell is one the limits admit, a client environment variable is admitted
  only if the limits' allowlist admits it, and whenever the limits bound the idle time or the
  duration of a connection, so does the effective policy, by at most the limit.
\<close>

theorem session_policy_within_limits:
  assumes "resolveSessionPolicy opts accessPolicy sshUser extra = Inr p"
  shows "MatchAny (po_Shells (pol_Limits opts)) (esp_DefaultShell p) \<and>
    (\<forall>key. envAllowed p key \<longrightarrow> envAllowlistAllows (po_EnvAllowlist (pol_Limits opts)) key) \<and>
    (0 < po_IdleTimeout (pol_Limits opts) \<longrightarrow>
       0 < esp_IdleTimeout p \<and> esp_IdleTimeout p \<le> po_IdleTimeout (pol_Limits opts)) \<and>
    (0 < po_MaxDuration (pol_Limits opts) \<longrightarrow>
       0 < esp_MaxDuration p \<and> esp_MaxDuration p \<le> po_MaxDuration (pol_Limits opts))"
proof -
  obtain access where p: "p = buildAccessSessionPolicy opts access" and
    sh: "MatchAny (po_Shells (pol_Limits opts)) (esp_DefaultShell p)"
    using assms by (auto simp: resolveSessionPolicy_def bind_result_def stringAllowed_def Let_def split: sum.splits if_splits)
  have env: "esp_globalEnvAllowlist p = po_EnvAllowlist (pol_Limits opts)"
    by (simp add: p buildAccessSessionPolicy_def buildGlobalSessionPolicy_def Let_def split: option.split)
  show ?thesis
    using sh env override_duration_limit boundedDuration_limit
    by (auto simp: envAllowed_def p buildAccessSessionPolicy_def buildGlobalSessionPolicy_def Let_def
        split: option.splits)
qed

definition hour :: int where
  "hour = 3600000000000"

definition session_access :: Access where
  "session_access = zero_Access\<lparr> acc_Meta := zero_ObjectMeta\<lparr> m_Namespace := ''ns'', m_Name := ''web'' \<rparr>,
     acc_Spec := zero_AccessSpec\<lparr> spec_Session := Some \<lparr> sp_DefaultShell = ''/bin/bash'',
       sp_EnvAllowlist = Some [''LC_*''], sp_IdleTimeout = None, sp_MaxDuration = Some (48 * hour) \<rparr> \<rparr> \<rparr>"

definition session_cache :: PolicyCache where
  "session_cache = \<lparr> cache_accessIndexer = Some (list_indexer [ObjAccess session_access]), cache_secretIndexer = None,
     cache_namespace = [], cache_gatewayClassName = [] \<rparr>"

lemma session_cache_get:
  "PolicyCache_Get session_cache ''ns'' ''web'' = Inr session_access"
  "PolicyCache_Get session_cache ''ns'' ''web~web-0'' = Inl (Wrap ''%w: %s/%s'' [''ns'', ''web~web-0''] ErrAccessNotFound)"
  by (simp_all add: PolicyCache_Get_def session_cache_def list_indexer_def object_id_def accessKey_def
      acceptAccess_def gatewayClassName_def session_access_def zero_values)

definition day_policy :: PolicyOptions where
  "day_policy = default_policy\<lparr> pol_Limits := (pol_Limits default_policy)\<lparr> po_MaxDuration := 24 * hour \<rparr> \<rparr>"

lemma session_policy_within_limits_witness:
  "\<exists>p. resolveSessionPolicy day_policy (Some (PolicyCache_Get session_cache)) ''ns.web'' Map.empty = Inr p \<and>
    esp_MaxDuration p \<le> 24 * hour"
proof -
  have ok: "resolveSessionPolicy day_policy (Some (PolicyCache_Get session_cache)) ''ns.web'' Map.empty =
    Inr (buildAccessSessionPolicy day_policy (Some session_access))"
    by code_simp
  have lim: "0 < po_MaxDuration (pol_Limits day_policy)" "po_MaxDuration (pol_Limits day_policy) = 24 * hour"
    by code_simp+
  show ?thesis using session_policy_within_limits[OF ok] ok lim by simp
qed

text \<open>
  C29. The enforcing connection keeps its time limits in every reachable state of its timed
  machine: while it is open, the maximum duration since it was accepted and the idle timeout
  since the last transferred byte have not passed, however transfers, policy changes and
  timer firings interleave; and at the instant a limit is reached its timer is due, and the
  firing of the timer closes the connection.
\<close>

theorem session_deadline_enforced:
  assumes "reach conn_init conn_step (c, now)" "\<not> spc_closed c"
  shows "(0 < esp_MaxDuration (spc_policy c) \<longrightarrow> now \<le> spc_started c + esp_MaxDuration (spc_policy c)) \<and>
    (0 < esp_IdleTimeout (spc_policy c) \<longrightarrow>
       now \<le> spc_started c + spc_lastActivity c + esp_IdleTimeout (spc_policy c)) \<and>
    (0 < esp_MaxDuration (spc_policy c) \<and> now = spc_started c + esp_MaxDuration (spc_policy c) \<or>
     0 < esp_IdleTimeout (spc_policy c) \<and> now = spc_started c + spc_lastActivity c + esp_IdleTimeout (spc_policy c) \<longrightarrow>
       (\<exists>t. spc_timer c = Armed t \<and> t \<le> now \<and>
          conn_step (c, now) (onTimer (c\<lparr> spc_timer := Stopped \<rparr>) now, now) \<and>
          spc_closed (onTimer (c\<lparr> spc_timer := Stopped \<rparr>) now)))"
proof -
  have inv: "conn_inv (c, now)" by (rule enforced.reach_inv[OF assms(1)])
  have w: "within_deadlines c now" by (rule conn_inv_deadline[OF inv assms(2)])
  have "\<exists>t. spc_timer c = Armed t \<and> t \<le> now \<and> spc_closed (onTimer (c\<lparr> spc_timer := Stopped \<rparr>) now)"
    if "0 < esp_MaxDuration (spc_policy c) \<and> now = spc_started c + esp_MaxDuration (spc_policy c) \<or>
     0 < esp_IdleTimeout (spc_policy c) \<and> now = spc_started c + spc_lastActivity c + esp_IdleTimeout (spc_policy c)"
    by (rule conn_inv_fires[OF inv assms(2)]) (use that in \<open>auto simp: limited_def within_deadlines_def\<close>)
  then show ?thesis using w step_fire unfolding within_deadlines_def by blast
qed

definition minute_policy :: effectiveSessionPolicy where
  "minute_policy = zero_effectiveSessionPolicy\<lparr> esp_IdleTimeout := 60 \<rparr>"

lemma session_deadline_enforced_witness:
  "\<exists>c. reach conn_init conn_step (c, 10000000000000000060) \<and> \<not> spc_closed c \<and>
     spc_closed (onTimer (c\<lparr> spc_timer := Stopped \<rparr>) 10000000000000000060)"
proof -
  let ?c = "newSessionPolicyConn minute_policy 10000000000000000000"
  have c: "?c = \<lparr> spc_started = 10000000000000000000, spc_lastActivity = 0, spc_closed = False, spc_policy = minute_policy,
      spc_timer = Armed 10000000000000000060 \<rparr>"
    by (simp add: newSessionPolicyConn_def ApplyPolicy_def scheduleLocked_def nextDeadlineLocked_def minute_policy_def
        zero_effectiveSessionPolicy_def wrap64_def Time_Sub_def)
  have durations: "policy_durations minute_policy"
    by (simp add: minute_policy_def zero_effectiveSessionPolicy_def policy_durations_def fits64_def)
  have "reach conn_init conn_step (?c, 10000000000000000000)"
    by (rule reach_init) (auto simp: conn_init_def durations intro!: exI[of _ minute_policy])
  then have r: "reach conn_init conn_step (?c, 10000000000000000060)"
    by (rule reach_step) (rule step_time, simp_all add: c)
  have d: "\<not> spc_closed ?c" "esp_IdleTimeout (spc_policy ?c) = 60" "spc_started ?c = 10000000000000000000" "spc_lastActivity ?c = 0"
    unfolding c by (simp_all add: minute_policy_def zero_effectiveSessionPolicy_def)
  show ?thesis using session_deadline_enforced[OF r d(1)] r d by auto
qed

text \<open>
  The session policy of a connection is the one of the Access its target is resolved
  through, when the client was authenticated by an Access credential or names the Access
  by its plain locator \<^verbatim>\<open>namespace.access\<close>.
\<close>

theorem session_policy_of_resolved_access:
  assumes "resolveRequestedAccess get sshUser extra = Inr (Some (loc, a))"
    and "GetExtra extra ExtraAccessName \<noteq> [] \<or> loc_pod loc = [] \<and> loc_container loc = []"
  shows "sessionPolicyAccess (Some get) sshUser extra = Inr (Some a)"
  using assms
  by (auto simp: resolveRequestedAccess_def sessionPolicyAccess_def firstExtraValue_GetExtra Let_def bind_result_def
      resolveAccessLocator_def resolveAccessContainerLocator_def parseAccessSSHUser_def
      split: if_splits sum.splits prod.splits option.splits)

lemma session_policy_of_resolved_access_witness:
  "sessionPolicyAccess (Some (PolicyCache_Get session_cache)) ''ns.web'' Map.empty = Inr (Some session_access)"
proof -
  have "resolveRequestedAccess (PolicyCache_Get session_cache) ''ns.web'' Map.empty =
    Inr (Some (\<lparr> loc_namespace = ''ns'', loc_access = ''web'', loc_pod = [], loc_container = [] \<rparr>, session_access))"
    by (simp add: resolveRequestedAccess_def resolveAccessLocator_def session_cache_get GetExtra_def extra_get_def Let_def)
  from session_policy_of_resolved_access[OF this] show ?thesis by simp
qed

text \<open>
  C36. A client that was not authenticated by an Access credential and names an Access of the
  policy cache with an explicit Pod, \<^verbatim>\<open>namespace.access~pod\<close>, has its target resolved through that
  Access, yet the session policy of the Access is not looked up: as long as no Access bears the
  name with the Pod in it, the connection gets the session policy of a gateway without Access
  policies.
\<close>

theorem explicit_pod_misses_session_policy:
  assumes "CHR ''.'' \<notin> set ns" "CHR ''~'' \<notin> set n" "ns \<noteq> []" "n \<noteq> []" "pod \<noteq> []"
    and "PolicyCache_Get c ns n = Inr a" "PolicyCache_Get c ns (n @ CHR ''~'' # pod) = Inl err"
    and "GetExtra extra ExtraAccessNamespace = []" "GetExtra extra ExtraAccessName = []"
  shows "resolveRequestedAccess (PolicyCache_Get c) (ns @ CHR ''.'' # n @ CHR ''~'' # pod) extra =
      Inr (Some (\<lparr> loc_namespace = ns, loc_access = n, loc_pod = pod, loc_container = [] \<rparr>, a)) \<and>
    resolveSessionPolicy opts (Some (PolicyCache_Get c)) (ns @ CHR ''.'' # n @ CHR ''~'' # pod) extra =
      resolveSessionPolicy opts None (ns @ CHR ''.'' # n @ CHR ''~'' # pod) extra"
  using assms
  by (simp add: resolveRequestedAccess_def resolveSessionPolicy_def sessionPolicyAccess_def firstExtraValue_GetExtra
      resolveAccessLocator_def parseAccessSSHUser_def)

lemma explicit_pod_misses_session_policy_witness:
  "resolveSessionPolicy day_policy (Some (PolicyCache_Get session_cache)) ''ns.web~web-0'' Map.empty =
     Inr (buildAccessSessionPolicy day_policy None) \<and>
   buildAccessSessionPolicy day_policy (Some session_access) \<noteq> buildAccessSessionPolicy day_policy None"
proof
  show "buildAccessSessionPolicy day_policy (Some session_access) \<noteq> buildAccessSessionPolicy day_policy None"
    by code_simp
  have "resolveSessionPolicy day_policy None ''ns.web~web-0'' Map.empty = Inr (buildAccessSessionPolicy day_policy None)"
    by code_simp
  then show "resolveSessionPolicy day_policy (Some (PolicyCache_Get session_cache)) ''ns.web~web-0'' Map.empty =
     Inr (buildAccessSessionPolicy day_policy None)"
    using explicit_pod_misses_session_policy[of "''ns''" "''web''" "''web-0''" session_cache session_access _ Map.empty day_policy]
    by (simp add: session_cache_get GetExtra_def extra_get_def Let_def)
qed

end
