(* ===== verification/AuditLog.thy ===== *)
theory AuditLog
  imports Machines
begin

text \<open>
  Package \<^verbatim>\<open>audit\<close>: the event schema (\<^verbatim>\<open>audit.go\<close>) and the asynchronous recorder (\<^verbatim>\<open>async.go\<close>).
  Event identifiers and the clock are arguments.  The recorder is a state machine of the
  callers of Record and Close and of its one delivery goroutine; the critical sections of its
  lock are atomic steps.  The events the sink was handed, the observed results and the events
  offered while the recorder was open are kept as histories.
\<close>

section \<open>Events\<close>

abbreviation SchemaVersion :: string where "SchemaVersion \<equiv> ''1.0''"

record Correlation =
  co_ConnectionID :: string
  co_OperationID :: string

record Connection =
  cn_SSHUsername :: string
  cn_RemoteAddress :: string
  cn_LocalAddress :: string
  cn_ClientVersion :: string
  cn_ServerVersion :: string

record Actor =
  act_ID :: string
  act_Name :: string
  act_Email :: string
  act_EmailVerified :: bool
  act_Groups :: "string list"
  act_AuthenticationMethod :: string
  act_PublicKeyFingerprint :: string

record AccessBinding =
  ab_Namespace :: string
  ab_Name :: string
  ab_CredentialUsername :: string
  ab_CredentialType :: string

record AuditTarget =
  atg_Kind :: string
  atg_Path :: string
  atg_Namespace :: string
  atg_Name :: string
  atg_Container :: string
  atg_Endpoint :: string

record AuditOperation =
  aop_Name :: string
  aop_Capability :: string
  aop_Command :: string

record Authorization =
  aau_Decision :: string
  aau_Reason :: string

record Outcome =
  out_Result :: string
  out_Reason :: string
  out_Error :: string
  out_ExitCode :: "int option"
  out_DurationMS :: int

record Event =
  ev_SchemaVersion :: string
  ev_ID :: string
  ev_Time :: int
  ev_Type :: string
  ev_Correlation :: Correlation
  ev_Connection :: "Connection option"
  ev_Actor :: "Actor option"
  ev_Access :: "AccessBinding option"
  ev_Target :: "AuditTarget option"
  ev_Operation :: "AuditOperation option"
  ev_Authorization :: "Authorization option"
  ev_Outcome :: "Outcome option"
  ev_Fields :: "string \<rightharpoonup> string"

definition zero_Event :: Event where
  "zero_Event = \<lparr> ev_SchemaVersion = [], ev_ID = [], ev_Time = 0, ev_Type = [],
     ev_Correlation = \<lparr> co_ConnectionID = [], co_OperationID = [] \<rparr>, ev_Connection = None, ev_Actor = None,
     ev_Access = None, ev_Target = None, ev_Operation = None, ev_Authorization = None, ev_Outcome = None,
     ev_Fields = Map.empty \<rparr>"

definition zero_Outcome :: Outcome where
  "zero_Outcome = \<lparr> out_Result = [], out_Reason = [], out_Error = [], out_ExitCode = None, out_DurationMS = 0 \<rparr>"

definition NewEvent :: "string \<Rightarrow> int \<Rightarrow> string \<Rightarrow> Event" where
  "NewEvent newID now eventType =
     zero_Event\<lparr> ev_SchemaVersion := SchemaVersion, ev_ID := newID, ev_Time := now, ev_Type := eventType \<rparr>"

definition prepare :: "string \<Rightarrow> int \<Rightarrow> Event \<Rightarrow> Event" where
  "prepare newID now event =
     event\<lparr> ev_SchemaVersion := (if ev_SchemaVersion event = [] then SchemaVersion else ev_SchemaVersion event),
            ev_ID := (if ev_ID event = [] then newID else ev_ID event),
            ev_Time := (if ev_Time event = 0 then now else ev_Time event) \<rparr>"

section \<open>The asynchronous recorder\<close>

abbreviation DefaultQueueSize :: int where "DefaultQueueSize \<equiv> 4096"
abbreviation ResultWritten :: string where "ResultWritten \<equiv> ''written''"
abbreviation ResultDropped :: string where "ResultDropped \<equiv> ''dropped''"
abbreviation ResultSinkError :: string where "ResultSinkError \<equiv> ''sink_error''"

text \<open>
  Where the delivery goroutine stands: at the receive of its loop, in the sink with an event, or
  between the sink and the observer with the result to report.
\<close>

datatype deliveryPoint = Receiving | Writing Event | Observing string

record AsyncRecorder =
  rec_capacity :: nat
  rec_queue :: "Event list"
  rec_closed :: bool
  rec_done :: bool
  rec_at :: deliveryPoint
  rec_sinkCloses :: nat
  rec_delivered :: "(Event \<times> bool) list"
  rec_observed :: "string list"
  rec_offered :: "(Event \<times> bool) list"

definition NewAsyncRecorder :: "int \<Rightarrow> AsyncRecorder" where
  "NewAsyncRecorder queueSize =
     \<lparr> rec_capacity = nat (if queueSize \<le> 0 then DefaultQueueSize else queueSize), rec_queue = [], rec_closed = False,
       rec_done = False, rec_at = Receiving, rec_sinkCloses = 0, rec_delivered = [], rec_observed = [], rec_offered = [] \<rparr>"

definition observe :: "AsyncRecorder \<Rightarrow> string \<Rightarrow> AsyncRecorder" where
  "observe r result = r\<lparr> rec_observed := rec_observed r @ [result] \<rparr>"

text \<open>
  Record.  The history \<^verbatim>\<open>rec_offered\<close> notes each event offered to the open queue and whether the
  queue took it.
\<close>

definition Record :: "string \<Rightarrow> int \<Rightarrow> AsyncRecorder \<Rightarrow> Event \<Rightarrow> AsyncRecorder" where
  "Record newID now r event =
     (if rec_closed r then r
      else
        let e = prepare newID now event
        in if length (rec_queue r) < rec_capacity r
           then r\<lparr> rec_queue := rec_queue r @ [e], rec_offered := rec_offered r @ [(e, True)] \<rparr>
           else observe (r\<lparr> rec_offered := rec_offered r @ [(e, False)] \<rparr>) ResultDropped)"

text \<open>The three effects of Close: closing the queue, and closing the sink once delivery is done.\<close>

definition Close_queue :: "AsyncRecorder \<Rightarrow> AsyncRecorder" where
  "Close_queue r = (if rec_closed r then r else r\<lparr> rec_closed := True \<rparr>)"

definition Close_sink :: "AsyncRecorder \<Rightarrow> AsyncRecorder" where
  "Close_sink r = (if rec_sinkCloses r = 0 then r\<lparr> rec_sinkCloses := 1 \<rparr> else r)"

text \<open>
  The delivery loop in its three steps: the receive, which ends the loop once the queue is closed
  and empty; the write, where \<^verbatim>\<open>sinkWrite\<close> is whether the sink accepts the event; and the call of
  the observer.  Recorders and Close may run between any two of them.  \<^verbatim>\<open>run_deliver\<close> is one
  iteration, or the rest of the one that is under way.
\<close>

definition run_receive :: "AsyncRecorder \<Rightarrow> AsyncRecorder" where
  "run_receive r =
     (case rec_queue r of
        [] \<Rightarrow> if rec_closed r then r\<lparr> rec_done := True \<rparr> else r
      | event # queue \<Rightarrow> r\<lparr> rec_queue := queue, rec_at := Writing event \<rparr>)"

definition run_write :: "(Event \<Rightarrow> bool) \<Rightarrow> AsyncRecorder \<Rightarrow> AsyncRecorder" where
  "run_write sinkWrite r =
     (case rec_at r of
        Writing event \<Rightarrow>
          let r' = r\<lparr> rec_delivered := rec_delivered r @ [(event, sinkWrite event)] \<rparr>
          in if \<not> sinkWrite event then r'\<lparr> rec_at := Observing ResultSinkError \<rparr>
             else r'\<lparr> rec_at := Observing ResultWritten \<rparr>
      | _ \<Rightarrow> r)"

definition run_observe :: "AsyncRecorder \<Rightarrow> AsyncRecorder" where
  "run_observe r =
     (case rec_at r of
        Observing result \<Rightarrow> (observe r result)\<lparr> rec_at := Receiving \<rparr>
      | _ \<Rightarrow> r)"

definition run_deliver :: "(Event \<Rightarrow> bool) \<Rightarrow> AsyncRecorder \<Rightarrow> AsyncRecorder" where
  "run_deliver sinkWrite r =
     run_observe (run_write sinkWrite (if rec_at r = Receiving then run_receive r else r))"

inductive recorder_step :: "AsyncRecorder \<Rightarrow> AsyncRecorder \<Rightarrow> bool" where
  step_record: "recorder_step r (Record newID now r event)"
| step_receive: "\<not> rec_done r \<Longrightarrow> rec_at r = Receiving \<Longrightarrow> recorder_step r (run_receive r)"
| step_write: "recorder_step r (run_write sinkWrite r)"
| step_observe: "recorder_step r (run_observe r)"
| step_close_queue: "recorder_step r (Close_queue r)"
| step_close_sink: "rec_closed r \<Longrightarrow> rec_done r \<Longrightarrow> recorder_step r (Close_sink r)"

definition recorder_init :: "AsyncRecorder \<Rightarrow> bool" where
  "recorder_init r \<longleftrightarrow> (\<exists>queueSize. r = NewAsyncRecorder queueSize)"

section \<open>Lemmas\<close>

lemma recorder_init_new: "recorder_init (NewAsyncRecorder queueSize)"
  by (auto simp: recorder_init_def)

definition accepted :: "AsyncRecorder \<Rightarrow> Event list" where
  "accepted r = map fst (filter snd (rec_offered r))"

text \<open>The event the delivery goroutine has received and not yet written, and the result it has not yet reported.\<close>

definition in_flight :: "AsyncRecorder \<Rightarrow> Event list" where
  "in_flight r = (case rec_at r of Writing event \<Rightarrow> [event] | _ \<Rightarrow> [])"

definition unreported :: "AsyncRecorder \<Rightarrow> string list" where
  "unreported r = (case rec_at r of Observing result \<Rightarrow> [result] | _ \<Rightarrow> [])"

definition recorder_inv :: "AsyncRecorder \<Rightarrow> bool" where
  "recorder_inv r \<longleftrightarrow>
     accepted r = map fst (rec_delivered r) @ in_flight r @ rec_queue r \<and>
     length (rec_queue r) \<le> rec_capacity r \<and>
     (rec_done r \<longrightarrow> rec_closed r \<and> rec_queue r = [] \<and> rec_at r = Receiving) \<and>
     (0 < rec_sinkCloses r \<longrightarrow> rec_done r) \<and> rec_sinkCloses r \<le> 1 \<and>
     set (unreported r) \<subseteq> {ResultWritten, ResultSinkError} \<and>
     count_list (rec_observed r) ResultDropped = length (filter (\<lambda>x. \<not> snd x) (rec_offered r)) \<and>
     count_list (rec_observed r @ unreported r) ResultWritten = length (filter snd (rec_delivered r)) \<and>
     count_list (rec_observed r @ unreported r) ResultSinkError = length (filter (\<lambda>x. \<not> snd x) (rec_delivered r))"

lemmas recorder_inv_defs = recorder_inv_def accepted_def in_flight_def unreported_def

lemma count_list_snoc [simp]: "count_list (xs @ [y]) x = count_list xs x + (if y = x then 1 else 0)"
  by (induction xs) auto

lemma Record_inv: "recorder_inv r \<Longrightarrow> recorder_inv (Record newID now r event)"
  by (auto simp: recorder_inv_defs Record_def observe_def Let_def split: deliveryPoint.splits)

lemma run_inv:
  "recorder_inv r \<Longrightarrow> \<not> rec_done r \<Longrightarrow> rec_at r = Receiving \<Longrightarrow> recorder_inv (run_receive r)"
  "recorder_inv r \<Longrightarrow> recorder_inv (run_write sinkWrite r)"
  "recorder_inv r \<Longrightarrow> recorder_inv (run_observe r)"
  by (auto simp: recorder_inv_defs run_receive_def run_write_def run_observe_def observe_def Let_def
      split: list.splits deliveryPoint.splits)

lemma Close_inv:
  "recorder_inv r \<Longrightarrow> recorder_inv (Close_queue r)"
  "recorder_inv r \<Longrightarrow> rec_done r \<Longrightarrow> recorder_inv (Close_sink r)"
  by (auto simp: recorder_inv_defs Close_queue_def Close_sink_def)

interpretation recorder: inductive_invariant recorder_init recorder_step recorder_inv
proof
  fix r assume "recorder_init r"
  then show "recorder_inv r" by (auto simp: recorder_init_def recorder_inv_defs NewAsyncRecorder_def)
next
  fix r s assume "recorder_inv r" "recorder_step r s"
  from this(2,1) show "recorder_inv s"
    by (cases rule: recorder_step.cases) (auto intro: Record_inv run_inv Close_inv)
qed

text \<open>Draining: the delivery loop of a closed recorder finishes.\<close>

fun deliver_times :: "(Event \<Rightarrow> bool) \<Rightarrow> nat \<Rightarrow> AsyncRecorder \<Rightarrow> AsyncRecorder" where
  "deliver_times sinkWrite 0 r = r"
| "deliver_times sinkWrite (Suc n) r = deliver_times sinkWrite n (run_deliver sinkWrite r)"

lemma run_deliver_receiving:
  assumes "rec_at r = Receiving"
  shows "rec_queue r = [] \<Longrightarrow> rec_closed r \<Longrightarrow> run_deliver sinkWrite r = r\<lparr> rec_done := True \<rparr>"
    and "rec_queue r = e # es \<Longrightarrow> rec_queue (run_deliver sinkWrite r) = es"
    and "rec_queue r = e # es \<Longrightarrow> rec_delivered (run_deliver sinkWrite r) = rec_delivered r @ [(e, sinkWrite e)]"
    and "rec_queue r = e # es \<Longrightarrow> rec_at (run_deliver sinkWrite r) = Receiving"
  using assms by (auto simp: run_deliver_def run_receive_def run_write_def run_observe_def observe_def Let_def)

lemma run_deliver_closed: "rec_closed (run_deliver sinkWrite r) = rec_closed r"
  by (simp add: run_deliver_def run_receive_def run_write_def run_observe_def observe_def Let_def
      split: list.split deliveryPoint.split)

lemma run_deliver_under_way:
  assumes "rec_at r \<noteq> Receiving"
  shows "rec_queue (run_deliver sinkWrite r) = rec_queue r" "rec_at (run_deliver sinkWrite r) = Receiving"
    "rec_delivered (run_deliver sinkWrite r) = rec_delivered r @ map (\<lambda>e. (e, sinkWrite e)) (in_flight r)"
  using assms by (auto simp: run_deliver_def run_write_def run_observe_def observe_def in_flight_def Let_def
      split: deliveryPoint.splits)

lemma deliver_times_done:
  "rec_closed r \<Longrightarrow> rec_at r = Receiving \<Longrightarrow> rec_done (deliver_times sinkWrite (Suc (length (rec_queue r))) r) \<and>
    rec_delivered (deliver_times sinkWrite (Suc (length (rec_queue r))) r) =
      rec_delivered r @ map (\<lambda>e. (e, sinkWrite e)) (rec_queue r)"
proof (induction "rec_queue r" arbitrary: r)
  case Nil
  then show ?case by (simp add: run_deliver_receiving)
next
  case (Cons e es)
  let ?r = "run_deliver sinkWrite r"
  have q: "rec_queue r = e # es" using Cons.hyps(2) by simp
  show ?case
    using Cons.hyps(1)[of ?r] q run_deliver_receiving(2-4)[OF Cons.prems(2) q] Cons.prems(1) run_deliver_closed[of sinkWrite r]
    by simp
qed

section \<open>Properties\<close>

text \<open>
  C28. No audit event is lost silently or reordered: in every reachable state of the recorder,
  under any interleaving of recorders, of the delivery goroutine and of Close, the events the
  queue took are exactly those handed to the sink, the one the delivery goroutine is about to
  write and those still queued, in order; the queue never exceeds its capacity; the observer
  counted \<^verbatim>\<open>dropped\<close> once for each event the queue refused and, with the result that is about to be
  reported, \<^verbatim>\<open>written\<close> once for each event the sink accepted and \<^verbatim>\<open>sink_error\<close> once for each event
  it failed on; and the sink is closed at most once and only after every taken event was handed
  to it and reported.
\<close>

theorem audit_accounted:
  assumes "reach recorder_init recorder_step r"
  shows "accepted r = map fst (rec_delivered r) @ in_flight r @ rec_queue r \<and>
    length (rec_queue r) \<le> rec_capacity r \<and>
    count_list (rec_observed r) ResultDropped = length (filter (\<lambda>(event, taken). \<not> taken) (rec_offered r)) \<and>
    count_list (rec_observed r @ unreported r) ResultWritten =
      length (filter (\<lambda>(event, success). success) (rec_delivered r)) \<and>
    count_list (rec_observed r @ unreported r) ResultSinkError =
      length (filter (\<lambda>(event, success). \<not> success) (rec_delivered r)) \<and>
    rec_sinkCloses r \<le> 1 \<and>
    (0 < rec_sinkCloses r \<longrightarrow> accepted r = map fst (rec_delivered r) \<and> unreported r = [])"
proof -
  have inv: "recorder_inv r" by (rule recorder.reach_inv[OF assms])
  then have "0 < rec_sinkCloses r \<Longrightarrow> in_flight r = [] \<and> rec_queue r = [] \<and> unreported r = []"
    by (simp add: recorder_inv_def in_flight_def unreported_def)
  then show ?thesis using inv unfolding recorder_inv_def by (simp add: case_prod_unfold)
qed

text \<open>A recorder with room for one event: the first event is taken, the second dropped, and the sink fails on the first.\<close>

definition failing_run :: AsyncRecorder where
  "failing_run = run_observe (run_write (\<lambda>_. False) (run_receive
     (Record ''b'' 8 (Record ''a'' 7 (NewAsyncRecorder 1) zero_Event) zero_Event)))"

lemma failing_run_reach: "reach recorder_init recorder_step failing_run"
proof -
  have 0: "reach recorder_init recorder_step (NewAsyncRecorder 1)" by (rule reach_init[where init = recorder_init, OF recorder_init_new])
  have 1: "reach recorder_init recorder_step (Record ''b'' 8 (Record ''a'' 7 (NewAsyncRecorder 1) zero_Event) zero_Event)"
    by (rule reach_step[OF reach_step[OF 0 step_record] step_record])
  show ?thesis unfolding failing_run_def
    by (rule reach_step[OF reach_step[OF reach_step[OF 1 step_receive] step_write] step_observe])
      (simp_all add: Record_def NewAsyncRecorder_def observe_def Let_def)
qed

lemma audit_accounted_witness:
  "accepted failing_run = map fst (rec_delivered failing_run) \<and> count_list (rec_observed failing_run) ResultDropped = 1 \<and>
   count_list (rec_observed failing_run) ResultWritten = 0 \<and> count_list (rec_observed failing_run) ResultSinkError = 1"
proof -
  have f: "unreported failing_run = []" "in_flight failing_run = []" "rec_queue failing_run = []"
    "map snd (rec_delivered failing_run) = [False]" "map snd (rec_offered failing_run) = [True, False]"
    by (simp_all add: failing_run_def unreported_def in_flight_def run_observe_def run_write_def run_receive_def Record_def
        NewAsyncRecorder_def observe_def Let_def)
  show ?thesis using audit_accounted[OF failing_run_reach] f by auto
qed

text \<open>
  C40. Closing the recorder flushes it: once the queue is closed, the delivery loop ends after the
  iteration under way, as many iterations as events are queued, and one more, having handed all
  of them to the sink in order, whether or not the sink accepts them; and events recorded after
  closing change nothing.
\<close>

theorem audit_flushes_on_close:
  "let r' = deliver_times sinkWrite (Suc (length (rec_queue r)) + (if rec_at r = Receiving then 0 else 1)) (Close_queue r)
   in rec_done r' \<and>
      rec_delivered r' = rec_delivered r @ map (\<lambda>e. (e, sinkWrite e)) (in_flight r @ rec_queue r) \<and>
      Record newID now (Close_queue r) event = Close_queue r"
proof -
  let ?c = "Close_queue r"
  have c: "rec_closed ?c" "rec_queue ?c = rec_queue r" "rec_delivered ?c = rec_delivered r" "rec_at ?c = rec_at r"
    "in_flight ?c = in_flight r"
    by (simp_all add: Close_queue_def in_flight_def)
  have keep: "Record newID now ?c event = ?c" using c(1) by (simp add: Record_def)
  show ?thesis
  proof (cases "rec_at r = Receiving")
    case True
    then show ?thesis using deliver_times_done[of ?c sinkWrite] c keep
      by (simp add: in_flight_def Let_def del: deliver_times.simps)
  next
    case False
    let ?d = "run_deliver sinkWrite ?c"
    have d: "rec_closed ?d" "rec_at ?d = Receiving" "rec_queue ?d = rec_queue r"
      "rec_delivered ?d = rec_delivered r @ map (\<lambda>e. (e, sinkWrite e)) (in_flight r)"
      using run_deliver_under_way[of ?c sinkWrite] run_deliver_closed[of sinkWrite ?c] c False by simp_all
    have "deliver_times sinkWrite (Suc (Suc (length (rec_queue r)))) ?c = deliver_times sinkWrite (Suc (length (rec_queue ?d))) ?d"
      using d by (simp only: deliver_times.simps)
    then show ?thesis using deliver_times_done[OF d(1,2), of sinkWrite] d keep False
      by (simp add: Let_def del: deliver_times.simps)
  qed
qed

end
