(* ===== verification/Operations.thy ===== *)
theory Operations
  imports SessionPolicy AuditLog "HOL-Library.Word"
begin

text \<open>
  Operations of an authenticated connection (\<^verbatim>\<open>pkg/gateway/operation.go\<close>, \<^verbatim>\<open>protocol.go\<close>,
  \<^verbatim>\<open>connection_audit.go\<close>, \<^verbatim>\<open>audit_fields.go\<close>): the classification of a channel or request into a
  capability with its authorization attributes, the authorization of the operation, and its
  audited lifecycle.  The recorders of audit events and metrics are histories.  The shell
  lexer go-shlex, the source of identifiers and the text of an error are parameters.
\<close>

section \<open>Operations of package sshprotocol\<close>

abbreviation ChannelSession :: string where "ChannelSession \<equiv> ''session''"
abbreviation ChannelDirectTCPIP :: string where "ChannelDirectTCPIP \<equiv> ''direct-tcpip''"
abbreviation ChannelForwardedTCPIP :: string where "ChannelForwardedTCPIP \<equiv> ''forwarded-tcpip''"
abbreviation ChannelAgent :: string where "ChannelAgent \<equiv> ''auth-agent@openssh.com''"
abbreviation RequestShell :: string where "RequestShell \<equiv> ''shell''"
abbreviation RequestExec :: string where "RequestExec \<equiv> ''exec''"
abbreviation RequestSubsystem :: string where "RequestSubsystem \<equiv> ''subsystem''"
abbreviation RequestEnvironment :: string where "RequestEnvironment \<equiv> ''env''"
abbreviation RequestPTY :: string where "RequestPTY \<equiv> ''pty-req''"
abbreviation RequestWindowChange :: string where "RequestWindowChange \<equiv> ''window-change''"
abbreviation RequestSignal :: string where "RequestSignal \<equiv> ''signal''"
abbreviation RequestBreak :: string where "RequestBreak \<equiv> ''break''"
abbreviation RequestExitStatus :: string where "RequestExitStatus \<equiv> ''exit-status''"
abbreviation RequestExitSignal :: string where "RequestExitSignal \<equiv> ''exit-signal''"
abbreviation RequestTCPIPForward :: string where "RequestTCPIPForward \<equiv> ''tcpip-forward''"
abbreviation RequestCancelTCPIPForward :: string where "RequestCancelTCPIPForward \<equiv> ''cancel-tcpip-forward''"
abbreviation RequestAgentForward :: string where "RequestAgentForward \<equiv> ''auth-agent-req@openssh.com''"
abbreviation RequestKeepalive :: string where "RequestKeepalive \<equiv> ''keepalive@openssh.com''"
abbreviation RequestNoMoreSessions :: string where "RequestNoMoreSessions \<equiv> ''no-more-sessions@openssh.com''"
abbreviation SubsystemSFTP :: string where "SubsystemSFTP \<equiv> ''sftp''"

record Operation =
  op_ChannelType :: string
  op_RequestType :: string
  op_Command :: string
  op_Subsystem :: string
  op_DestinationHost :: string
  op_DestinationPort :: "32 word"
  op_OriginHost :: string
  op_OriginPort :: "32 word"
  op_BindHost :: string
  op_BindPort :: "32 word"

definition zero_Operation :: Operation where
  "zero_Operation = \<lparr> op_ChannelType = [], op_RequestType = [], op_Command = [], op_Subsystem = [],
     op_DestinationHost = [], op_DestinationPort = 0, op_OriginHost = [], op_OriginPort = 0, op_BindHost = [],
     op_BindPort = 0 \<rparr>"

record OperationResult =
  or_Err :: "go_error option"
  or_ExitCode :: "int option"
  or_ActualBindPort :: "32 word option"

section \<open>Classification\<close>

record operationSpec =
  os_name :: string
  os_capability :: Capability
  os_attrs :: Attributes
  os_auditFields :: "string \<rightharpoonup> string"

definition FormatUint :: "32 word \<Rightarrow> string" where
  "FormatUint port = FormatInt (uint port)"

text \<open>\<^verbatim>\<open>path.Base\<close>: the last element of a slash-separated path.\<close>

definition path_Base :: "string \<Rightarrow> string" where
  "path_Base p =
     (if p = [] then ''.''
      else
        let stripped = rev (dropWhile (\<lambda>c. c = CHR ''/'') (rev p));
            base = (case LastIndexByte stripped (CHR ''/'') of None \<Rightarrow> stripped | Some i \<Rightarrow> drop (i + 1) stripped)
        in if base = [] then ''/'' else base)"

definition targetResources :: "Target \<Rightarrow> AttributeResource list" where
  "targetResources tgt =
     \<lparr> ar_Resource = ''targets'', ar_Name = t_Kind tgt \<rparr> #
     map (\<lambda>option. \<lparr> ar_Resource = opt_Key option, ar_Name = opt_Value option \<rparr>) (t_Options tgt)"

definition isSCPCommand :: "string list \<Rightarrow> bool" where
  "isSCPCommand argv =
     (case argv of
        [] \<Rightarrow> False
      | cmd # args \<Rightarrow> path_Base cmd = ''scp'' \<and> (\<exists>arg \<in> set args. HasPrefix arg ''-t'' \<or> HasPrefix arg ''-f''))"

definition localForwardOperationSpec :: "Target \<Rightarrow> Operation \<Rightarrow> operationSpec" where
  "localForwardOperationSpec tgt operation =
     (let destinationPort = FormatUint (op_DestinationPort operation); originPort = FormatUint (op_OriginPort operation)
      in \<lparr> os_name = ''portforward'', os_capability = CapabilityLocalForward,
           os_attrs = \<lparr> at_Action = CapabilityLocalForward,
             at_Resources = targetResources tgt @
               [\<lparr> ar_Resource = ''hosts'', ar_Name = op_DestinationHost operation \<rparr>,
                \<lparr> ar_Resource = ''ports'', ar_Name = destinationPort \<rparr>],
             at_Path = Target_String tgt @ ''/hosts/'' @ op_DestinationHost operation @ ''/ports/'' @ destinationPort,
             at_Extra = [''destination_host'' \<mapsto> [op_DestinationHost operation], ''destination_port'' \<mapsto> [destinationPort],
                         ''origin_host'' \<mapsto> [op_OriginHost operation], ''origin_port'' \<mapsto> [originPort]] \<rparr>,
           os_auditFields = [''destination_host'' \<mapsto> op_DestinationHost operation, ''destination_port'' \<mapsto> destinationPort,
                             ''origin_host'' \<mapsto> op_OriginHost operation, ''origin_port'' \<mapsto> originPort] \<rparr>)"

definition connectionRemoteForwardOperationSpec :: "Target \<Rightarrow> Operation \<Rightarrow> operationSpec" where
  "connectionRemoteForwardOperationSpec tgt operation =
     (let port = FormatUint (op_BindPort operation)
      in \<lparr> os_name = ''remote_forward'', os_capability = CapabilityRemoteForward,
           os_attrs = \<lparr> at_Action = CapabilityRemoteForward,
             at_Resources = targetResources tgt @
               [\<lparr> ar_Resource = ''bind_hosts'', ar_Name = op_BindHost operation \<rparr>,
                \<lparr> ar_Resource = ''bind_ports'', ar_Name = port \<rparr>],
             at_Path = Target_String tgt @ ''/remote-forwards/'' @ op_BindHost operation @ ''/'' @ port,
             at_Extra = [''bind_host'' \<mapsto> [op_BindHost operation], ''bind_port'' \<mapsto> [port]] \<rparr>,
           os_auditFields = [''bind_host'' \<mapsto> op_BindHost operation, ''bind_port'' \<mapsto> port] \<rparr>)"

definition connectionAgentForwardOperationSpec :: "Target \<Rightarrow> operationSpec" where
  "connectionAgentForwardOperationSpec tgt =
     \<lparr> os_name = ''agent_forward'', os_capability = CapabilityAgentForward,
       os_attrs = \<lparr> at_Action = CapabilityAgentForward, at_Resources = targetResources tgt,
         at_Path = Target_String tgt @ ''/agent-forward'', at_Extra = Map.empty \<rparr>,
       os_auditFields = Map.empty \<rparr>"

definition connectionSessionOperationSpec :: "Target \<Rightarrow> string \<Rightarrow> string list \<Rightarrow> string \<Rightarrow> operationSpec" where
  "connectionSessionOperationSpec tgt requestType argv command =
     (let capability =
            (if requestType = RequestShell then CapabilityShell
             else if requestType = RequestExec \<and> isSCPCommand argv then CapabilitySCP
             else CapabilityExec)
      in \<lparr> os_name = (if capability = CapabilitySCP then ''scp'' else ''session''), os_capability = capability,
           os_attrs = \<lparr> at_Action = capability, at_Resources = targetResources tgt, at_Path = Target_String tgt,
             at_Extra = (if command \<noteq> [] then [''command'' \<mapsto> [command]] else Map.empty) \<rparr>,
           os_auditFields = [''command'' \<mapsto> command] \<rparr>)"

definition connectionSFTPOperationSpec :: "Target \<Rightarrow> operationSpec" where
  "connectionSFTPOperationSpec tgt =
     \<lparr> os_name = ''sftp'', os_capability = CapabilitySFTP,
       os_attrs = \<lparr> at_Action = CapabilitySFTP, at_Resources = targetResources tgt, at_Path = Target_String tgt,
         at_Extra = Map.empty \<rparr>,
       os_auditFields = Map.empty \<rparr>"

fun add_nonempty :: "(string \<times> string) list \<Rightarrow> (string \<rightharpoonup> string) \<Rightarrow> (string \<rightharpoonup> string)" where
  "add_nonempty [] m = m"
| "add_nonempty ((key, v) # rest) m = add_nonempty rest (if v = [] then m else m(key \<mapsto> v))"

definition connectionExtensionOperationSpec :: "Target \<Rightarrow> Operation \<Rightarrow> operationSpec" where
  "connectionExtensionOperationSpec tgt operation =
     (let auditFields = add_nonempty [(''channel_type'', op_ChannelType operation),
            (''request_type'', op_RequestType operation), (''subsystem'', op_Subsystem operation)] Map.empty;
          path = Target_String tgt @
            (if op_ChannelType operation \<noteq> [] then ''/channels/'' @ op_ChannelType operation else []) @
            (if op_RequestType operation \<noteq> [] then ''/requests/'' @ op_RequestType operation else [])
      in \<lparr> os_name = ''ssh_extension'', os_capability = CapabilitySSHExtension,
           os_attrs = \<lparr> at_Action = CapabilitySSHExtension, at_Resources = targetResources tgt, at_Path = path,
             at_Extra = (\<lambda>k. map_option (\<lambda>v. [v]) (auditFields k)) \<rparr>,
           os_auditFields = auditFields \<rparr>)"

definition connectionOperationSpec :: "(string \<Rightarrow> string list) \<Rightarrow> Target \<Rightarrow> Operation \<Rightarrow> operationSpec" where
  "connectionOperationSpec shlex tgt operation =
     (if op_ChannelType operation = ChannelDirectTCPIP then localForwardOperationSpec tgt operation
      else if op_RequestType operation = RequestTCPIPForward then connectionRemoteForwardOperationSpec tgt operation
      else if op_RequestType operation = RequestAgentForward then connectionAgentForwardOperationSpec tgt
      else if op_ChannelType operation = ChannelSession \<and>
              (op_RequestType operation = RequestShell \<or> op_RequestType operation = RequestExec)
      then connectionSessionOperationSpec tgt (op_RequestType operation) (shlex (op_Command operation)) (op_Command operation)
      else if op_ChannelType operation = ChannelSession \<and> op_RequestType operation = RequestSubsystem \<and>
              op_Subsystem operation = SubsystemSFTP
      then connectionSFTPOperationSpec tgt
      else connectionExtensionOperationSpec tgt operation)"

section \<open>Connections\<close>

text \<open>An address is its text; \<^verbatim>\<open>nil\<close> is \<^verbatim>\<open>None\<close>.  A protocol is the arguments it was built from.\<close>

record connectionMetadata =
  cm_user :: string
  cm_clientVersion :: string
  cm_serverVersion :: string
  cm_remote :: "string option"
  cm_local :: "string option"

datatype Protocol =
    PodSSH Target string effectiveSessionPolicy
  | UpstreamSSH Target effectiveSessionPolicy

record authenticatedConnection =
  ac_info :: AuthenticateInfo
  ac_target :: Target
  ac_fingerprint :: string
  ac_protocol :: Protocol

record connectionState =
  cs_metadata :: connectionMetadata
  cs_authenticated :: "authenticatedConnection option"
  cs_established :: bool
  cs_auditID :: string
  cs_auditStarted :: int
  cs_policyConn :: sessionPolicyConn

datatype Metric =
    AuthAttempt string string
  | ConnectionOpened string
  | ConnectionClosed string
  | OperationStarted string string
  | OperationFinished string string string int

record gatewayTrace =
  tr_audit :: "Event list"
  tr_metrics :: "Metric list"

definition audit_Record :: "gatewayTrace \<Rightarrow> Event \<Rightarrow> gatewayTrace" where
  "audit_Record tr event = tr\<lparr> tr_audit := tr_audit tr @ [event] \<rparr>"

definition metrics_Record :: "gatewayTrace \<Rightarrow> Metric \<Rightarrow> gatewayTrace" where
  "metrics_Record tr m = tr\<lparr> tr_metrics := tr_metrics tr @ [m] \<rparr>"

abbreviation ResultSuccess :: string where "ResultSuccess \<equiv> ''success''"
abbreviation ResultRejected :: string where "ResultRejected \<equiv> ''rejected''"
abbreviation ResultDenied :: string where "ResultDenied \<equiv> ''denied''"
abbreviation ResultError :: string where "ResultError \<equiv> ''error''"
abbreviation ResultCanceled :: string where "ResultCanceled \<equiv> ''canceled''"
abbreviation ResultNonzeroExit :: string where "ResultNonzeroExit \<equiv> ''nonzero_exit''"

section \<open>Audit fields\<close>

definition auditActor :: "AuthenticateInfo \<Rightarrow> string \<Rightarrow> Actor" where
  "auditActor info fingerprint =
     \<lparr> act_ID = u_ID (ai_User info), act_Name = u_Name (ai_User info), act_Email = u_Email (ai_User info),
       act_EmailVerified = u_EmailVerified (ai_User info), act_Groups = u_Groups (ai_User info),
       act_AuthenticationMethod = ai_Method info, act_PublicKeyFingerprint = fingerprint \<rparr>"

fun firstTargetOption :: "Target \<Rightarrow> string list \<Rightarrow> string" where
  "firstTargetOption tgt [] = []"
| "firstTargetOption tgt (key # keys) =
     (if Target_Option tgt key \<noteq> [] then Target_Option tgt key else firstTargetOption tgt keys)"

definition auditTarget :: "Target option \<Rightarrow> AuditTarget option" where
  "auditTarget tgt =
     (case tgt of
        None \<Rightarrow> None
      | Some t \<Rightarrow> Some \<lparr> atg_Kind = t_Kind t, atg_Path = Target_String t,
          atg_Namespace = firstTargetOption t [''namespace'', ''namespaces''],
          atg_Name = firstTargetOption t [''name'', ''pod'', ''pods'', ''accesses''],
          atg_Container = firstTargetOption t [''container'', ''containers''],
          atg_Endpoint = firstTargetOption t [''endpoint'', ''endpoints''] \<rparr>)"

definition auditAccess :: "AuthenticateInfo \<Rightarrow> AccessBinding option" where
  "auditAccess info =
     (let namespace0 = firstExtraValue (ai_Extra info) ExtraAccessNamespace;
          name0 = firstExtraValue (ai_Extra info) ExtraAccessName;
          (namespace, name) =
            (if namespace0 = [] \<and> name0 = [] then
               (case extra_get (ai_Extra info) ''access'' of
                  [] \<Rightarrow> (namespace0, name0)
                | v # _ \<Rightarrow> (case Cut v (CHR ''/'') of (a, b, _) \<Rightarrow> (a, b)))
             else (namespace0, name0))
      in if namespace = [] \<or> name = [] then None
         else
           let user = firstExtraValue (ai_Extra info) ExtraCredentialUser;
               typ = firstExtraValue (ai_Extra info) ExtraCredentialType
           in Some \<lparr> ab_Namespace = namespace, ab_Name = name,
                ab_CredentialUsername = (if user = [] then u_Name (ai_User info) else user),
                ab_CredentialType = (if typ = [] then ai_Method info else typ) \<rparr>)"

definition addressString :: "string option \<Rightarrow> string" where
  "addressString addr = (case addr of None \<Rightarrow> [] | Some a \<Rightarrow> a)"

text \<open>A stamp is the identifier and the instant a new event gets.\<close>

type_synonym stamp = "string \<times> int"

definition connectionEvent :: "stamp \<Rightarrow> connectionState \<Rightarrow> string \<Rightarrow> Event" where
  "connectionEvent stamp ctx eventType =
     (let event = (NewEvent (fst stamp) (snd stamp) eventType)\<lparr>
            ev_Connection := Some \<lparr> cn_SSHUsername = cm_user (cs_metadata ctx),
              cn_RemoteAddress = addressString (cm_remote (cs_metadata ctx)),
              cn_LocalAddress = addressString (cm_local (cs_metadata ctx)),
              cn_ClientVersion = cm_clientVersion (cs_metadata ctx),
              cn_ServerVersion = cm_serverVersion (cs_metadata ctx) \<rparr>,
            ev_Correlation := \<lparr> co_ConnectionID = cs_auditID ctx, co_OperationID = [] \<rparr> \<rparr>
      in case cs_authenticated ctx of
           None \<Rightarrow> event
         | Some result \<Rightarrow>
             event\<lparr> ev_Actor := Some (auditActor (ac_info result) (ac_fingerprint result)),
                    ev_Access := auditAccess (ac_info result), ev_Target := auditTarget (Some (ac_target result)) \<rparr>)"

section \<open>The lifecycle of an operation\<close>

record operationContext =
  oc_info :: AuthenticateInfo
  oc_target :: Target
  oc_fields :: "string \<rightharpoonup> string"
  oc_auditType :: string
  oc_operationID :: string

fun option_fields :: "TargetOption list \<Rightarrow> (string \<rightharpoonup> string) \<Rightarrow> (string \<rightharpoonup> string)" where
  "option_fields [] m = m"
| "option_fields (option # options) m = option_fields options (m(opt_Key option \<mapsto> opt_Value option))"

definition newOperationContext :: "connectionState \<Rightarrow> operationContext result" where
  "newOperationContext ctx =
     (case cs_authenticated ctx of
        None \<Rightarrow> Inl (Panic ''nil pointer dereference'')
      | Some result \<Rightarrow>
          Inr \<lparr> oc_info = ac_info result, oc_target = ac_target result,
                oc_fields = option_fields (t_Options (ac_target result))
                  [''user'' \<mapsto> u_Name (ai_User (ac_info result)), ''kind'' \<mapsto> t_Kind (ac_target result)],
                oc_auditType = [], oc_operationID = [] \<rparr>)"

fun decision_text :: "Decision \<Rightarrow> string" where
  "decision_text DecisionNoOpinion = ''NoOpinion''"
| "decision_text DecisionDeny = ''Deny''"
| "decision_text DecisionAllow = ''Allow''"

definition operation_request :: "operationContext \<Rightarrow> operationSpec \<Rightarrow> Request" where
  "operation_request sc spec =
     \<lparr> rq_User = ai_User (oc_info sc), rq_AuthMethod = ai_Method (oc_info sc), rq_AuthExtra = ai_Extra (oc_info sc),
       rq_Attributes = os_attrs spec \<rparr>"

definition authorizeOperation ::
  "(go_error \<Rightarrow> string) \<Rightarrow> Authorizer \<Rightarrow> operationContext \<Rightarrow> operationSpec \<Rightarrow> operationContext \<times> string \<times> bool" where
  "authorizeOperation errorText authorize sc spec =
     (let fields = (oc_fields sc)(''capability'' \<mapsto> os_capability spec) ++ os_auditFields spec
      in case authorize (operation_request sc spec) of
           (decision, reason0, err) \<Rightarrow>
             let reason = (case err of Some e \<Rightarrow> errorText e | None \<Rightarrow> reason0);
                 recorded = fields(''decision'' \<mapsto> decision_text decision, ''reason'' \<mapsto> reason)
             in if decision = DecisionAllow then (sc\<lparr> oc_fields := recorded \<rparr>, [], True)
                else
                  let reason' = (if reason = [] then ''access denied'' else reason)
                  in (sc\<lparr> oc_fields := recorded(''reason'' \<mapsto> reason'), oc_auditType := os_name spec @ ''_denied'' \<rparr>,
                      reason', False))"

definition operationEvent :: "stamp \<Rightarrow> connectionState \<Rightarrow> operationContext \<Rightarrow> operationSpec \<Rightarrow> string \<Rightarrow> Event" where
  "operationEvent stamp ctx sc spec eventType =
     (let event = connectionEvent stamp ctx eventType;
          kept = (\<lambda>k. if k \<in> {''capability'', ''decision'', ''reason'', ''error'', ''exit_code''} then None else oc_fields sc k);
          decision = map_get (oc_fields sc) ''decision''
      in event\<lparr> ev_Correlation := (ev_Correlation event)\<lparr> co_OperationID := oc_operationID sc \<rparr>,
           ev_Target := auditTarget (Some (oc_target sc)),
           ev_Operation := Some \<lparr> aop_Name = os_name spec, aop_Capability = os_capability spec,
             aop_Command = map_get (os_auditFields spec) ''command'' \<rparr>,
           ev_Fields := os_auditFields spec ++ kept,
           ev_Authorization := (if decision \<noteq> []
             then Some \<lparr> aau_Decision = decision, aau_Reason = map_get (oc_fields sc) ''reason'' \<rparr> else None) \<rparr>)"

definition resultFromError :: "go_error option \<Rightarrow> string" where
  "resultFromError err =
     (case err of
        Some e \<Rightarrow> if errors_is e ContextCanceled then ResultCanceled else ResultError
      | None \<Rightarrow> ResultSuccess)"

definition resultFromExit :: "int \<Rightarrow> go_error option \<Rightarrow> string" where
  "resultFromExit exitCode err =
     (if err \<noteq> None then resultFromError err else if exitCode \<noteq> 0 then ResultNonzeroExit else ResultSuccess)"

definition setAuditExitCode :: "Outcome \<Rightarrow> string \<Rightarrow> Outcome" where
  "setAuditExitCode outcome v =
     (case ParseInt v of None \<Rightarrow> outcome | Some code \<Rightarrow> outcome\<lparr> out_ExitCode := Some code \<rparr>)"

text \<open>
  The closure startOperation returns: its operation, when it started and whether its
  \<^verbatim>\<open>sync.Once\<close> has run.  Milliseconds of a non-negative duration are its quotient by a million.
\<close>

record operationHandle =
  oh_context :: operationContext
  oh_spec :: operationSpec
  oh_start :: int
  oh_allowed :: bool
  oh_once :: bool

definition startOperation ::
  "stamp \<Rightarrow> string \<Rightarrow> connectionState \<Rightarrow> gatewayTrace \<Rightarrow> operationContext \<Rightarrow> operationSpec \<Rightarrow> gatewayTrace \<times> operationHandle" where
  "startOperation stamp operationID ctx tr sc spec =
     (let sc' = sc\<lparr> oc_operationID := operationID \<rparr>
      in (metrics_Record (audit_Record tr (operationEvent stamp ctx sc' spec ''operation.start''))
            (OperationStarted (t_Kind (oc_target sc)) (os_capability spec)),
          \<lparr> oh_context = sc', oh_spec = spec, oh_start = snd stamp, oh_allowed = False, oh_once = False \<rparr>))"

definition operation_outcome :: "operationContext \<Rightarrow> string \<Rightarrow> int \<Rightarrow> Outcome" where
  "operation_outcome sc result duration =
     (let outcome = zero_Outcome\<lparr> out_Result := result, out_DurationMS := duration div 1000000,
            out_Error := map_get (oc_fields sc) ''error'' \<rparr>;
          reason = map_get (oc_fields sc) ''reason'';
          outcome' = (if reason \<noteq> [] then outcome\<lparr> out_Reason := reason \<rparr> else outcome);
          v = map_get (oc_fields sc) ''exit_code''
      in if v \<noteq> [] then setAuditExitCode outcome' v else outcome')"

definition finish_operation ::
  "stamp \<Rightarrow> connectionState \<Rightarrow> gatewayTrace \<times> operationHandle \<Rightarrow> string \<Rightarrow> gatewayTrace \<times> operationHandle" where
  "finish_operation stamp ctx s result =
     (case s of (tr, h) \<Rightarrow>
        if oh_once h then (tr, h)
        else
          let duration = snd stamp - oh_start h; sc = oh_context h; spec = oh_spec h;
              tr1 = metrics_Record tr (OperationFinished (t_Kind (oc_target sc)) (os_capability spec) result duration);
              endEvent = (operationEvent stamp ctx sc spec ''operation.end'')\<lparr>
                ev_Outcome := Some (operation_outcome sc result duration) \<rparr>
          in (audit_Record tr1 endEvent, h\<lparr> oh_once := True \<rparr>))"

definition set_field :: "operationHandle \<Rightarrow> string \<Rightarrow> string \<Rightarrow> operationHandle" where
  "set_field h key v =
     h\<lparr> oh_context := (oh_context h)\<lparr> oc_fields := (oc_fields (oh_context h))(key \<mapsto> v) \<rparr> \<rparr>"

definition complete ::
  "(go_error \<Rightarrow> string) \<Rightarrow> stamp \<Rightarrow> connectionState \<Rightarrow> gatewayTrace \<times> operationHandle \<Rightarrow> OperationResult \<Rightarrow>
    gatewayTrace \<times> operationHandle" where
  "complete errorText stamp ctx s result =
     (case s of (tr, h) \<Rightarrow>
        let h1 = (case or_Err result of Some e \<Rightarrow> set_field h ''error'' (errorText e) | None \<Rightarrow> h)
        in case or_ExitCode result of
             Some code \<Rightarrow>
               let h2 = set_field h1 ''exit_code'' (FormatInt code)
               in if \<not> oh_allowed h2 then finish_operation stamp ctx (tr, h2) ResultDenied
                  else finish_operation stamp ctx (tr, h2) (resultFromExit code (or_Err result))
           | None \<Rightarrow>
               let h2 = (case or_ActualBindPort result of
                           Some port \<Rightarrow> set_field h1 ''actual_port'' (FormatUint port) | None \<Rightarrow> h1)
               in if \<not> oh_allowed h2 then finish_operation stamp ctx (tr, h2) ResultDenied
                  else finish_operation stamp ctx (tr, h2) (resultFromError (or_Err result)))"

record operationEnv =
  oe_shlex :: "string \<Rightarrow> string list"
  oe_errorText :: "go_error \<Rightarrow> string"
  oe_authz :: Authorizer

definition beginConnectionOperation ::
  "operationEnv \<Rightarrow> stamp \<Rightarrow> string \<Rightarrow> connectionState \<Rightarrow> gatewayTrace \<Rightarrow> Operation \<Rightarrow>
    (gatewayTrace \<times> operationHandle \<times> go_error option) result" where
  "beginConnectionOperation env stamp operationID ctx tr operation =
     bind_result (newOperationContext ctx)
       (\<lambda>sc. let spec = connectionOperationSpec (oe_shlex env) (oc_target sc) operation
             in case startOperation stamp operationID ctx tr sc spec of
                  (tr1, h) \<Rightarrow>
                    (case authorizeOperation (oe_errorText env) (oe_authz env) (oh_context h) spec of
                       (sc', reason, allowed) \<Rightarrow>
                         Inr (tr1, h\<lparr> oh_context := sc', oh_allowed := allowed \<rparr>,
                              if \<not> allowed then Some (Errorf ''%s'' [reason]) else None)))"

end
