(* ===== verification/OperationLaws.thy ===== *)
theory OperationLaws
  imports Operations
begin

text \<open>
  Facts about operations: what their authorization attributes say of the target and of the
  request, what a Kubernetes access review is asked, and the audited lifecycle of an operation.
\<close>

section \<open>Attributes\<close>

lemma resourceValue_append:
  "resourceValue (xs @ ys) k = (if \<exists>x \<in> set xs. ar_Resource x = k then resourceValue xs k else resourceValue ys k)"
  by (induction xs) auto

lemma resourceValue_options:
  "resourceValue (map (\<lambda>option. \<lparr> ar_Resource = opt_Key option, ar_Name = opt_Value option \<rparr>) opts) k = options_get opts k"
  by (induction opts) auto

lemma options_get_absent: "\<forall>x \<in> set opts. opt_Key x \<noteq> k \<Longrightarrow> options_get opts k = []"
  by (induction opts) auto

lemma resourceValue_targetResources:
  assumes "\<forall>x \<in> set ys. ar_Resource x \<noteq> k" "k \<noteq> ''targets''"
  shows "resourceValue (targetResources tgt @ ys) k = Target_Option tgt k"
proof -
  have "resourceValue ys k = []" using assms(1) by (induction ys) auto
  then show ?thesis using assms(2) options_get_absent[of "t_Options tgt" k]
    by (auto simp: targetResources_def resourceValue_append resourceValue_options Target_Option_def)
qed

lemma resourceValue_kind: "resourceValue (targetResources tgt @ ys) ''targets'' = t_Kind tgt"
  by (simp add: targetResources_def)

lemma spec_resources:
  "\<exists>ys. at_Resources (os_attrs (connectionOperationSpec shlex tgt operation)) = targetResources tgt @ ys \<and>
     (\<forall>y \<in> set ys. ar_Resource y \<in> {''hosts'', ''ports'', ''bind_hosts'', ''bind_ports''})"
  by (auto simp: connectionOperationSpec_def localForwardOperationSpec_def connectionRemoteForwardOperationSpec_def
      connectionAgentForwardOperationSpec_def connectionSessionOperationSpec_def connectionSFTPOperationSpec_def
      connectionExtensionOperationSpec_def Let_def)

lemma spec_target_options:
  assumes "k \<in> {OptionNamespaces, OptionPods, OptionContainers}"
  shows "resourceValue (at_Resources (os_attrs (connectionOperationSpec shlex tgt operation))) k = Target_Option tgt k"
proof -
  obtain ys where ys: "at_Resources (os_attrs (connectionOperationSpec shlex tgt operation)) = targetResources tgt @ ys"
    "\<forall>y \<in> set ys. ar_Resource y \<in> {''hosts'', ''ports'', ''bind_hosts'', ''bind_ports''}"
    using spec_resources by blast
  have "\<forall>y \<in> set ys. ar_Resource y \<noteq> k" using ys(2) assms by fastforce
  then show ?thesis unfolding ys(1) using assms by (intro resourceValue_targetResources) auto
qed

lemma spec_kind:
  "resourceValue (at_Resources (os_attrs (connectionOperationSpec shlex tgt operation))) ''targets'' = t_Kind tgt"
  using spec_resources[of shlex tgt operation] by (auto simp: resourceValue_kind)

lemma spec_action: "at_Action (os_attrs (connectionOperationSpec shlex tgt operation)) =
    os_capability (connectionOperationSpec shlex tgt operation)"
  by (simp add: connectionOperationSpec_def localForwardOperationSpec_def connectionRemoteForwardOperationSpec_def
      connectionAgentForwardOperationSpec_def connectionSessionOperationSpec_def connectionSFTPOperationSpec_def
      connectionExtensionOperationSpec_def Let_def)

lemma spec_local_forward:
  "os_capability (connectionOperationSpec shlex tgt operation) = CapabilityLocalForward \<longleftrightarrow>
     op_ChannelType operation = ChannelDirectTCPIP"
  by (simp add: connectionOperationSpec_def localForwardOperationSpec_def connectionRemoteForwardOperationSpec_def
      connectionAgentForwardOperationSpec_def connectionSessionOperationSpec_def connectionSFTPOperationSpec_def
      connectionExtensionOperationSpec_def Let_def)

lemma spec_remote_forward:
  "os_capability (connectionOperationSpec shlex tgt operation) = CapabilityRemoteForward \<longleftrightarrow>
     op_ChannelType operation \<noteq> ChannelDirectTCPIP \<and> op_RequestType operation = RequestTCPIPForward"
  by (simp add: connectionOperationSpec_def localForwardOperationSpec_def connectionRemoteForwardOperationSpec_def
      connectionAgentForwardOperationSpec_def connectionSessionOperationSpec_def connectionSFTPOperationSpec_def
      connectionExtensionOperationSpec_def Let_def)

lemma spec_destination:
  "op_ChannelType operation = ChannelDirectTCPIP \<Longrightarrow>
     forward_destination (at_Extra (os_attrs (connectionOperationSpec shlex tgt operation))) =
       JoinHostPort (op_DestinationHost operation) (FormatUint (op_DestinationPort operation))"
  by (simp add: connectionOperationSpec_def localForwardOperationSpec_def forward_destination_def extraValue_def
      extra_get_def Let_def)

lemma spec_bind:
  "op_ChannelType operation \<noteq> ChannelDirectTCPIP \<Longrightarrow> op_RequestType operation = RequestTCPIPForward \<Longrightarrow>
     forward_bind (at_Extra (os_attrs (connectionOperationSpec shlex tgt operation))) =
       JoinHostPort (op_BindHost operation) (FormatUint (op_BindPort operation))"
  by (simp add: connectionOperationSpec_def connectionRemoteForwardOperationSpec_def forward_bind_def extraValue_def
      extra_get_def Let_def)

text \<open>What the operation limits mean for the operation itself.\<close>

definition operation_within :: "PolicyLimits \<Rightarrow> (string \<Rightarrow> string list) \<Rightarrow> Target \<Rightarrow> Operation \<Rightarrow> bool" where
  "operation_within p shlex tgt operation \<longleftrightarrow>
     (let capability = os_capability (connectionOperationSpec shlex tgt operation)
      in (''*'' \<in> set (pl_Capabilities p) \<or> capability \<in> set (pl_Capabilities p)) \<and>
         (op_ChannelType operation = ChannelDirectTCPIP \<longrightarrow>
            MatchAny (pl_LocalForwardDestinations p)
              (JoinHostPort (op_DestinationHost operation) (FormatUint (op_DestinationPort operation)))) \<and>
         (op_ChannelType operation \<noteq> ChannelDirectTCPIP \<and> op_RequestType operation = RequestTCPIPForward \<longrightarrow>
            MatchAny (pl_RemoteForwardBinds p)
              (JoinHostPort (op_BindHost operation) (FormatUint (op_BindPort operation)))))"

lemma within_limits_operation:
  "within_limits p (os_attrs (connectionOperationSpec shlex tgt operation)) \<longleftrightarrow> operation_within p shlex tgt operation"
  unfolding within_limits_def operation_within_def Let_def spec_action spec_local_forward spec_remote_forward
  using spec_destination spec_bind by auto

section \<open>The lifecycle\<close>

lemma begin_Inr:
  assumes "beginConnectionOperation env stamp opID ctx tr operation = Inr (tr', h, err)"
  shows "\<exists>auth sc spec decision reason e. cs_authenticated ctx = Some auth \<and> newOperationContext ctx = Inr sc \<and>
    oc_info sc = ac_info auth \<and> oc_target sc = ac_target auth \<and>
    spec = connectionOperationSpec (oe_shlex env) (ac_target auth) operation \<and> oh_spec h = spec \<and>
    oe_authz env (operation_request sc spec) = (decision, reason, e) \<and>
    (err = None \<longleftrightarrow> decision = DecisionAllow) \<and> (oh_allowed h \<longleftrightarrow> decision = DecisionAllow) \<and> \<not> oh_once h \<and>
    oc_operationID (oh_context h) = opID \<and> oh_start h = snd stamp \<and>
    map_get (oc_fields (oh_context h)) ''decision'' = decision_text decision \<and>
    tr_audit tr' = tr_audit tr @ [operationEvent stamp ctx (sc\<lparr> oc_operationID := opID \<rparr>) spec ''operation.start'']"
proof -
  obtain auth where auth: "cs_authenticated ctx = Some auth"
    using assms by (cases "cs_authenticated ctx") (auto simp: beginConnectionOperation_def newOperationContext_def bind_result_def)
  obtain sc where sc: "newOperationContext ctx = Inr sc" "oc_info sc = ac_info auth" "oc_target sc = ac_target auth"
    using auth by (auto simp: newOperationContext_def)
  define spec where "spec = connectionOperationSpec (oe_shlex env) (ac_target auth) operation"
  obtain decision reason e where v: "oe_authz env (operation_request sc spec) = (decision, reason, e)"
    by (cases "oe_authz env (operation_request sc spec)") auto
  have req: "operation_request (sc\<lparr> oc_operationID := opID \<rparr>) spec = operation_request sc spec"
    by (simp add: operation_request_def)
  show ?thesis
    using assms sc v req auth spec_def
    by (auto simp: beginConnectionOperation_def bind_result_def startOperation_def authorizeOperation_def Let_def
        map_get_def metrics_Record_def audit_Record_def split: if_splits)
qed

lemma complete_once:
  "oh_once h \<Longrightarrow> fst (complete t stamp ctx (tr, h) res) = tr \<and> oh_once (snd (complete t stamp ctx (tr, h) res))"
  by (auto simp: complete_def set_field_def finish_operation_def Let_def split: option.splits)

fun complete_all ::
  "(go_error \<Rightarrow> string) \<Rightarrow> connectionState \<Rightarrow> (stamp \<times> OperationResult) list \<Rightarrow> gatewayTrace \<times> operationHandle \<Rightarrow>
    gatewayTrace \<times> operationHandle" where
  "complete_all t ctx [] s = s"
| "complete_all t ctx ((stamp, res) # rest) s = complete_all t ctx rest (complete t stamp ctx s res)"

lemma complete_all_once: "oh_once h \<Longrightarrow> fst (complete_all t ctx rs (tr, h)) = tr"
proof (induction rs arbitrary: h)
  case Nil then show ?case by simp
next
  case (Cons r rs)
  obtain stamp res where r: "r = (stamp, res)" by (cases r)
  obtain tr' h' where c: "complete t stamp ctx (tr, h) res = (tr', h')" by (cases "complete t stamp ctx (tr, h) res")
  have "tr' = tr" "oh_once h'" using complete_once[OF Cons.prems, of t stamp ctx tr res] c by auto
  then show ?case using Cons.IH[of h'] r c by simp
qed

text \<open>The result an operation's completion is recorded with.\<close>

definition completion_result :: "operationHandle \<Rightarrow> OperationResult \<Rightarrow> string" where
  "completion_result h res =
     (if \<not> oh_allowed h then ResultDenied
      else case or_ExitCode res of
             Some code \<Rightarrow> resultFromExit code (or_Err res)
           | None \<Rightarrow> resultFromError (or_Err res))"

lemma finish_operation_first:
  assumes "\<not> oh_once h"
  shows "\<exists>e. tr_audit (fst (finish_operation stamp ctx (tr, h) result)) = tr_audit tr @ [e] \<and>
    oh_once (snd (finish_operation stamp ctx (tr, h) result)) \<and> ev_Type e = ''operation.end'' \<and>
    co_OperationID (ev_Correlation e) = oc_operationID (oh_context h) \<and>
    map_option out_Result (ev_Outcome e) = Some result \<and>
    map_option aau_Decision (ev_Authorization e) =
      (let d = map_get (oc_fields (oh_context h)) ''decision'' in if d = [] then None else Some d)"
  using assms
  by (auto simp: finish_operation_def audit_Record_def metrics_Record_def operationEvent_def connectionEvent_def
      NewEvent_def operation_outcome_def setAuditExitCode_def Let_def split: option.split)

definition end_event_of :: "string \<Rightarrow> string \<Rightarrow> string \<Rightarrow> Event \<Rightarrow> bool" where
  "end_event_of opID result decision e \<longleftrightarrow>
     ev_Type e = ''operation.end'' \<and> co_OperationID (ev_Correlation e) = opID \<and>
     map_option out_Result (ev_Outcome e) = Some result \<and>
     map_option aau_Decision (ev_Authorization e) = (if decision = [] then None else Some decision)"

lemma set_field_simps [simp]:
  "oh_once (set_field h k v) = oh_once h" "oh_allowed (set_field h k v) = oh_allowed h"
  "oc_operationID (oh_context (set_field h k v)) = oc_operationID (oh_context h)"
  "k \<noteq> k' \<Longrightarrow> map_get (oc_fields (oh_context (set_field h k v))) k' = map_get (oc_fields (oh_context h)) k'"
  by (auto simp: set_field_def map_get_def)

lemma complete_first:
  assumes "\<not> oh_once h"
  shows "\<exists>e. tr_audit (fst (complete t stamp ctx (tr, h) res)) = tr_audit tr @ [e] \<and>
    oh_once (snd (complete t stamp ctx (tr, h) res)) \<and>
    end_event_of (oc_operationID (oh_context h)) (completion_result h res)
      (map_get (oc_fields (oh_context h)) ''decision'') e"
proof -
  have "\<exists>h' result. complete t stamp ctx (tr, h) res = finish_operation stamp ctx (tr, h') result \<and>
      \<not> oh_once h' \<and> result = completion_result h res \<and> oc_operationID (oh_context h') = oc_operationID (oh_context h) \<and>
      map_get (oc_fields (oh_context h')) ''decision'' = map_get (oc_fields (oh_context h)) ''decision''"
    using assms by (auto simp: complete_def completion_result_def Let_def split: option.split)
  then obtain h' where h': "complete t stamp ctx (tr, h) res = finish_operation stamp ctx (tr, h') (completion_result h res)"
      "\<not> oh_once h'" "oc_operationID (oh_context h') = oc_operationID (oh_context h)"
      "map_get (oc_fields (oh_context h')) ''decision'' = map_get (oc_fields (oh_context h)) ''decision''" by blast
  show ?thesis
    using finish_operation_first[OF h'(2), of stamp ctx tr "completion_result h res"] h'
    by (auto simp: end_event_of_def Let_def)
qed

section \<open>Properties\<close>

text \<open>
  The authorization attributes of every operation describe the connection's target and the
  request exactly: the action is the operation's capability, the resources name the target's
  kind, namespace, Pod and container, and a forwarded destination or bind address is the one
  the client asked for, so that no two requests for different endpoints look the same.
\<close>

theorem operation_attributes_exact:
  "(let attrs = os_attrs (connectionOperationSpec shlex tgt operation)
    in at_Action attrs = os_capability (connectionOperationSpec shlex tgt operation) \<and>
       resourceValue (at_Resources attrs) ''targets'' = t_Kind tgt \<and>
       resourceValue (at_Resources attrs) OptionNamespaces = Target_Option tgt OptionNamespaces \<and>
       resourceValue (at_Resources attrs) OptionPods = Target_Option tgt OptionPods \<and>
       resourceValue (at_Resources attrs) OptionContainers = Target_Option tgt OptionContainers \<and>
       (if op_ChannelType operation = ChannelDirectTCPIP
        then forward_destination (at_Extra attrs) =
               JoinHostPort (op_DestinationHost operation) (FormatUint (op_DestinationPort operation))
        else if op_RequestType operation = RequestTCPIPForward
        then forward_bind (at_Extra attrs) = JoinHostPort (op_BindHost operation) (FormatUint (op_BindPort operation))
        else at_Action attrs \<notin> {CapabilityLocalForward, CapabilityRemoteForward}))"
  unfolding Let_def
  by (simp add: spec_kind spec_target_options spec_destination spec_bind spec_action spec_local_forward
      spec_remote_forward)

text \<open>
  The Kubernetes authorizer allows an operation only after the API server allowed the
  connection's own user to create the matching subresource of the very Pod the connection is
  bound to: \<^verbatim>\<open>portforward\<close> for a local forward to the Pod's loopback, \<^verbatim>\<open>exec\<close> for everything else.
\<close>

theorem sar_reviews_target_pod:
  assumes "KubernetesSARAuthorizer_Authorize (Some create)
      (operation_request sc (connectionOperationSpec shlex (oc_target sc) operation)) = (DecisionAllow, reason, err)"
  shows "\<exists>status. create \<lparr> sar_User = u_Name (ai_User (oc_info sc)), sar_Groups = u_Groups (ai_User (oc_info sc)),
      sar_Namespace = Target_Option (oc_target sc) OptionNamespaces, sar_Verb = ''create'', sar_Group = [],
      sar_Resource = ''pods'',
      sar_Subresource = (if op_ChannelType operation = ChannelDirectTCPIP \<and>
          isKubernetesPodLocalForwardHost (op_DestinationHost operation) then ''portforward'' else ''exec''),
      sar_Name = Target_Option (oc_target sc) OptionPods \<rparr> = Inr status \<and> sas_Allowed status \<and>
    t_Kind (oc_target sc) = KindPod \<and> Target_Option (oc_target sc) OptionPods \<noteq> [] \<and>
    u_Name (ai_User (oc_info sc)) \<noteq> []"
proof -
  let ?spec = "connectionOperationSpec shlex (oc_target sc) operation"
  have dest: "op_ChannelType operation = ChannelDirectTCPIP \<Longrightarrow>
      extraValue (at_Extra (os_attrs ?spec)) ''destination_host'' = op_DestinationHost operation"
    by (simp add: connectionOperationSpec_def localForwardOperationSpec_def extraValue_def extra_get_def Let_def)
  have sub: "snd (kubernetesSARSubresource (os_attrs ?spec)) \<Longrightarrow> fst (kubernetesSARSubresource (os_attrs ?spec)) =
      (if op_ChannelType operation = ChannelDirectTCPIP \<and>
          isKubernetesPodLocalForwardHost (op_DestinationHost operation) then ''portforward'' else ''exec'')"
    using dest spec_local_forward[of shlex "oc_target sc" operation]
    by (auto simp: kubernetesSARSubresource_def spec_action split: if_splits)
  show ?thesis
    using assms sub spec_kind[of shlex "oc_target sc" operation] spec_target_options[of _ shlex "oc_target sc" operation]
    by (auto simp: KubernetesSARAuthorizer_Authorize_def operation_request_def Let_def
        split: if_splits prod.splits sum.splits)
qed

definition example_context :: operationContext where
  "example_context = \<lparr> oc_info = \<lparr> ai_User = zero_UserInfo\<lparr> u_Name := ''alice'' \<rparr>, ai_Method = ''publickey'',
       ai_TargetHints = [], ai_Extra = Map.empty \<rparr>,
     oc_target = New ''ns'' ''web-0'' ''app'', oc_fields = Map.empty, oc_auditType = [], oc_operationID = [] \<rparr>"

definition example_review :: "SubjectAccessReviewSpec \<Rightarrow> SubjectAccessReviewStatus result" where
  "example_review r = Inr \<lparr> sas_Allowed = (sar_Namespace r = ''ns'' \<and> sar_Subresource r = ''portforward''),
     sas_Reason = [], sas_EvaluationError = [] \<rparr>"

definition example_forward :: Operation where
  "example_forward = zero_Operation\<lparr> op_ChannelType := ChannelDirectTCPIP, op_DestinationHost := ''LocalHost'',
     op_DestinationPort := 8080 \<rparr>"

lemma sar_reviews_target_pod_witness:
  "\<exists>status r. example_review r = Inr status \<and> sas_Allowed status \<and> sar_Subresource r = ''portforward'' \<and>
    sar_Name r = ''web-0'' \<and> sar_User r = ''alice''"
proof -
  have host: "isKubernetesPodLocalForwardHost ''LocalHost''" by code_simp
  have f: "op_ChannelType example_forward = ChannelDirectTCPIP" "op_DestinationHost example_forward = ''LocalHost''"
    "u_Name (ai_User (oc_info example_context)) = ''alice''" "Target_Option (oc_target example_context) OptionPods = ''web-0''"
    "Target_Option (oc_target example_context) OptionNamespaces = ''ns''" "t_Kind (oc_target example_context) = KindPod"
    by (simp_all add: example_forward_def example_context_def New_def Target_Option_def)
  have action: "at_Action (os_attrs (connectionOperationSpec (\<lambda>_. []) (oc_target example_context) example_forward)) =
      CapabilityLocalForward"
    using spec_local_forward f(1) by (simp add: spec_action)
  have dest: "extraValue (at_Extra (os_attrs (connectionOperationSpec (\<lambda>_. []) (oc_target example_context) example_forward)))
      ''destination_host'' = ''LocalHost''"
    using f by (simp add: connectionOperationSpec_def localForwardOperationSpec_def extraValue_def extra_get_def Let_def)
  have "KubernetesSARAuthorizer_Authorize (Some example_review) (operation_request example_context
      (connectionOperationSpec (\<lambda>_. []) (oc_target example_context) example_forward)) = (DecisionAllow, [], None)"
    using f by (simp add: KubernetesSARAuthorizer_Authorize_def operation_request_def spec_kind spec_target_options
        kubernetesSARSubresource_def action dest host example_review_def Let_def)
  from sar_reviews_target_pod[OF this] obtain status where
    s: "example_review \<lparr> sar_User = u_Name (ai_User (oc_info example_context)),
        sar_Groups = u_Groups (ai_User (oc_info example_context)),
        sar_Namespace = Target_Option (oc_target example_context) OptionNamespaces, sar_Verb = ''create'', sar_Group = [],
        sar_Resource = ''pods'',
        sar_Subresource = (if op_ChannelType example_forward = ChannelDirectTCPIP \<and>
          isKubernetesPodLocalForwardHost (op_DestinationHost example_forward) then ''portforward'' else ''exec''),
        sar_Name = Target_Option (oc_target example_context) OptionPods \<rparr> = Inr status" "sas_Allowed status"
    by blast
  show ?thesis
    apply (intro exI conjI)
        apply (rule s(1))
       apply (rule s(2))
      apply (simp_all add: f host)
    done
qed

text \<open>
  C3. Every operation is audited as one start and at most one end: beginning an operation
  records one start event; however often its completion is reported, exactly one end event is
  recorded, by the first report, with the same operation identifier and with the decision the
  authorizer returned for this operation - for the request that carries the connection's
  authenticated user, its method and extra fields, and the attributes of the operation on the
  connection's target. The operation is refused unless that decision is Allow, and a refused
  operation ends as denied whatever result is reported.
\<close>

theorem operation_lifecycle_audited:
  assumes "beginConnectionOperation env stamp opID ctx tr operation = Inr (tr1, h, err)"
    and "complete_all t ctx' ((stamp', res) # rs) (tr1, h) = (tr2, h2)"
  shows "\<exists>result s e d reason aerr. cs_authenticated ctx = Some result \<and>
    oe_authz env \<lparr> rq_User = ai_User (ac_info result), rq_AuthMethod = ai_Method (ac_info result),
      rq_AuthExtra = ai_Extra (ac_info result),
      rq_Attributes = os_attrs (connectionOperationSpec (oe_shlex env) (ac_target result) operation) \<rparr> = (d, reason, aerr) \<and>
    (err = None \<longleftrightarrow> d = DecisionAllow) \<and>
    tr_audit tr2 = tr_audit tr @ [s, e] \<and>
    ev_Type s = ''operation.start'' \<and> co_OperationID (ev_Correlation s) = opID \<and>
    end_event_of opID (if d \<noteq> DecisionAllow then ResultDenied else completion_result h res) (decision_text d) e"
proof -
  obtain result s d reason aerr where s: "tr_audit tr1 = tr_audit tr @ [s]" "ev_Type s = ''operation.start''"
      "co_OperationID (ev_Correlation s) = opID" "err = None \<longleftrightarrow> d = DecisionAllow"
      "oh_allowed h \<longleftrightarrow> d = DecisionAllow" "\<not> oh_once h" "oc_operationID (oh_context h) = opID"
      "map_get (oc_fields (oh_context h)) ''decision'' = decision_text d"
    and az: "cs_authenticated ctx = Some result"
      "oe_authz env \<lparr> rq_User = ai_User (ac_info result), rq_AuthMethod = ai_Method (ac_info result),
         rq_AuthExtra = ai_Extra (ac_info result),
         rq_Attributes = os_attrs (connectionOperationSpec (oe_shlex env) (ac_target result) operation) \<rparr> = (d, reason, aerr)"
    using begin_Inr[OF assms(1)]
    by (auto simp: operation_request_def operationEvent_def connectionEvent_def NewEvent_def Let_def split: option.splits)
  obtain tr' h' where c: "complete t stamp' ctx' (tr1, h) res = (tr', h')" by fastforce
  obtain e where e: "tr_audit tr' = tr_audit tr1 @ [e]" "oh_once h'"
      "end_event_of opID (completion_result h res) (decision_text d) e"
    using complete_first[OF s(6), of t stamp' ctx' tr1 res] s c by auto
  have "tr2 = tr'" using assms(2) c complete_all_once[OF e(2), of t ctx' rs tr'] by simp
  then have "tr_audit tr2 = tr_audit tr @ [s, e]" using s e by simp
  moreover have "end_event_of opID (if d \<noteq> DecisionAllow then ResultDenied else completion_result h res) (decision_text d) e"
    using e(3) s(5) by (auto simp: completion_result_def)
  ultimately show ?thesis using s(2-4) az by blast
qed

definition example_connection :: connectionState where
  "example_connection = \<lparr> cs_metadata = \<lparr> cm_user = ''ns.web-0'', cm_clientVersion = [], cm_serverVersion = [],
       cm_remote = Some ''10.0.0.1:5000'', cm_local = None \<rparr>,
     cs_authenticated = Some \<lparr> ac_info = oc_info example_context, ac_target = oc_target example_context,
       ac_fingerprint = [], ac_protocol = PodSSH (oc_target example_context) ''/bin/sh'' zero_effectiveSessionPolicy \<rparr>,
     cs_established = True, cs_auditID = ''c1'', cs_auditStarted = 1,
     cs_policyConn = newSessionPolicyConn zero_effectiveSessionPolicy 1 \<rparr>"

definition example_operation_env :: operationEnv where
  "example_operation_env = \<lparr> oe_shlex = (\<lambda>_. []), oe_errorText = (\<lambda>_. ''error''), oe_authz = DenyAll \<rparr>"

lemma operation_lifecycle_audited_witness:
  "\<exists>tr2 h2 s e. complete_all (\<lambda>_. []) example_connection
       [((''e'', 9), \<lparr> or_Err = None, or_ExitCode = Some 0, or_ActualBindPort = None \<rparr>),
        ((''f'', 10), \<lparr> or_Err = None, or_ExitCode = Some 1, or_ActualBindPort = None \<rparr>)]
       (case beginConnectionOperation example_operation_env (''s'', 5) ''op'' example_connection
          \<lparr> tr_audit = [], tr_metrics = [] \<rparr> example_forward of Inr (tr, h, _) \<Rightarrow> (tr, h)) = (tr2, h2) \<and>
     tr_audit tr2 = [s, e] \<and> map_option out_Result (ev_Outcome e) = Some ''denied'' \<and>
     map_option aau_Decision (ev_Authorization e) = Some ''Deny''"
proof -
  let ?b = "beginConnectionOperation example_operation_env (''s'', 5) ''op'' example_connection
      \<lparr> tr_audit = [], tr_metrics = [] \<rparr> example_forward"
  obtain tr1 h err where b: "?b = Inr (tr1, h, err)" "err \<noteq> None"
    by (simp add: beginConnectionOperation_def newOperationContext_def example_connection_def example_operation_env_def
        startOperation_def authorizeOperation_def DenyAll_def bind_result_def Let_def)
  obtain tr2 h2 where c: "complete_all (\<lambda>_. []) example_connection
       [((''e'', 9), \<lparr> or_Err = None, or_ExitCode = Some 0, or_ActualBindPort = None \<rparr>),
        ((''f'', 10), \<lparr> or_Err = None, or_ExitCode = Some 1, or_ActualBindPort = None \<rparr>)] (tr1, h) = (tr2, h2)"
    by fastforce
  have az: "oe_authz example_operation_env r = (DecisionDeny, [], None)" for r
    by (simp add: example_operation_env_def DenyAll_def)
  show ?thesis using operation_lifecycle_audited[OF b(1) c] b c by (auto simp: end_event_of_def az)
qed

end
