(* ===== verification/Dependencies.thy ===== *)
theory Dependencies
  imports OperationLaws AccessResolver AccessStatus
begin

text \<open>
  The construction of the gateway from its options (\<^verbatim>\<open>pkg/gateway/options.go\<close>, \<^verbatim>\<open>dependencies.go\<close>,
  \<^verbatim>\<open>access_policy_runtime.go\<close>, the first half of RunWithDependencies in \<^verbatim>\<open>gateway.go\<close>): which
  authenticators, resolvers and authorizers are composed, in which order, and behind which
  policy guards.  The Kubernetes client, the informer caches, the webhook clients, the label
  matcher and the DNS name validation of apimachinery are parameters.  Wrappers that only
  record metrics are left out.
\<close>

section \<open>Options\<close>

record WebhookOptions =
  wo_Server :: string
  wo_ProxyURL :: string
  wo_Token :: string
  wo_Username :: string
  wo_Password :: string
  wo_CertFile :: string
  wo_KeyFile :: string
  wo_CAFile :: string
  wo_InsecureSkipTLSVerify :: bool
  wo_Timeout :: int

definition second :: int where
  "second = 1000000000"

text \<open>Webhook options with no server, as the defaults have them.\<close>

definition default_webhook :: WebhookOptions where
  "default_webhook = \<lparr> wo_Server = [], wo_ProxyURL = [], wo_Token = [], wo_Username = [], wo_Password = [],
     wo_CertFile = [], wo_KeyFile = [], wo_CAFile = [], wo_InsecureSkipTLSVerify = False, wo_Timeout = 2 * second \<rparr>"

definition Enabled :: "WebhookOptions \<Rightarrow> bool" where
  "Enabled o' = (wo_Server o' \<noteq> [])"

record AuthenticationOptions =
  no_Methods :: "string list option"
  no_Anonymous :: bool
  no_AuthorizedKeys :: "AuthorizedKeyEntry list"
  no_Passwords :: "PasswordEntry list"
  no_Webhook :: WebhookOptions

record AuthorizationOptions =
  zo_AllowAll :: bool
  zo_KubernetesSAR :: bool
  zo_Webhook :: WebhookOptions

record AccessPolicyOptions =
  apo_Enabled :: bool
  apo_Namespace :: string

record CRITransportOptions =
  cri_Port :: int
  cri_ServerName :: string
  cri_CAFile :: string
  cri_CertFile :: string
  cri_KeyFile :: string

record PodSSHOptions =
  pso_Transport :: string
  pso_CRI :: CRITransportOptions

record HelperOptions =
  ho_Path :: string
  ho_RemoteDir :: string

record MetricsOptions =
  mo_ListenAddress :: string
  mo_Path :: string

record AuditOptions =
  auo_QueueSize :: int
  auo_FlushTimeout :: int

record SSHProxyOptions =
  spo_ConnectTimeout :: int

record Options =
  go_ListenAddress :: string
  go_GatewayClassName :: string
  go_AdvertiseAddresses :: "string list"
  go_HostKeyFile :: string
  go_Kubeconfig :: string
  go_PodSSH :: PodSSHOptions
  go_Helper :: HelperOptions
  go_AccessPolicy :: AccessPolicyOptions
  go_Policy :: PolicyOptions
  go_Metrics :: MetricsOptions
  go_Audit :: AuditOptions
  go_Authentication :: AuthenticationOptions
  go_Authorization :: AuthorizationOptions
  go_SSHProxy :: SSHProxyOptions

abbreviation PodSSHTransportAPIServer :: string where "PodSSHTransportAPIServer \<equiv> ''apiserver''"
abbreviation PodSSHTransportCRI :: string where "PodSSHTransportCRI \<equiv> ''cri''"

definition NewDefaultOptions :: Options where
  "NewDefaultOptions =
     \<lparr> go_ListenAddress = '':2222'', go_GatewayClassName = [], go_AdvertiseAddresses = [], go_HostKeyFile = [],
       go_Kubeconfig = [],
       go_PodSSH = \<lparr> pso_Transport = PodSSHTransportAPIServer,
         pso_CRI = \<lparr> cri_Port = 10443, cri_ServerName = ''kube-ssh-node.kube-ssh.svc'', cri_CAFile = [], cri_CertFile = [],
           cri_KeyFile = [] \<rparr> \<rparr>,
       go_Helper = \<lparr> ho_Path = [], ho_RemoteDir = ''/tmp'' \<rparr>,
       go_AccessPolicy = \<lparr> apo_Enabled = False, apo_Namespace = [] \<rparr>,
       go_Policy = default_policy,
       go_Metrics = \<lparr> mo_ListenAddress = [], mo_Path = ''/metrics'' \<rparr>,
       go_Audit = \<lparr> auo_QueueSize = 4096, auo_FlushTimeout = 5 * second \<rparr>,
       go_Authentication = \<lparr> no_Methods = Some [''publickey'', ''password''], no_Anonymous = False, no_AuthorizedKeys = [],
         no_Passwords = [], no_Webhook = default_webhook \<rparr>,
       go_Authorization = \<lparr> zo_AllowAll = True, zo_KubernetesSAR = False, zo_Webhook = default_webhook \<rparr>,
       go_SSHProxy = \<lparr> spo_ConnectTimeout = 30 * second \<rparr> \<rparr>"

section \<open>Validation\<close>

fun check_methods :: "string list \<Rightarrow> string set \<Rightarrow> go_error option" where
  "check_methods [] seen = None"
| "check_methods (method # methods) seen =
     (if method \<notin> {''publickey'', ''password''}
      then Some (Errorf ''unsupported authentication method %q; use publickey or password'' [method])
      else if method \<in> seen then Some (Errorf ''duplicate authentication method %q'' [method])
      else check_methods methods (insert method seen))"

definition enabledAuthenticationMethods :: "string list option \<Rightarrow> string list result" where
  "enabledAuthenticationMethods methods =
     (let ms = (case methods of None \<Rightarrow> [''publickey'', ''password''] | Some l \<Rightarrow> l)
      in if length ms = 0
         then Inl (Errorf ''authentication methods must contain at least one of publickey or password'' [])
         else case check_methods ms {} of Some err \<Rightarrow> Inl err | None \<Rightarrow> Inr ms)"

text \<open>
  \<^verbatim>\<open>net.ParseIP(host) != nil\<close>: dotted decimal without leading zeros, or colon-separated groups
  of hexadecimal digits with at most one ellipsis and possibly a dotted decimal end.
\<close>

definition is_digit :: "char \<Rightarrow> bool" where
  "is_digit c \<longleftrightarrow> CHR ''0'' \<le> c \<and> c \<le> CHR ''9''"

definition is_hex :: "char \<Rightarrow> bool" where
  "is_hex c \<longleftrightarrow> is_digit c \<or> CHR ''a'' \<le> c \<and> c \<le> CHR ''f'' \<or> CHR ''A'' \<le> c \<and> c \<le> CHR ''F''"

definition ipv4_octet :: "string \<Rightarrow> bool" where
  "ipv4_octet s \<longleftrightarrow> s \<noteq> [] \<and> list_all is_digit s \<and> (hd s = CHR ''0'' \<longrightarrow> s = ''0'') \<and> length s \<le> 3 \<and>
     (case ParseInt s of Some n \<Rightarrow> n \<le> 255 | None \<Rightarrow> False)"

definition is_ipv4 :: "string \<Rightarrow> bool" where
  "is_ipv4 s \<longleftrightarrow> length (Split s (CHR ''.'')) = 4 \<and> list_all ipv4_octet (Split s (CHR ''.''))"

definition ipv6_group :: "string \<Rightarrow> bool" where
  "ipv6_group s \<longleftrightarrow> s \<noteq> [] \<and> length s \<le> 4 \<and> list_all is_hex s"

text \<open>The number of 16-bit groups a colon-separated part stands for.\<close>

fun ipv6_groups :: "bool \<Rightarrow> string list \<Rightarrow> nat option" where
  "ipv6_groups final [] = Some 0"
| "ipv6_groups final [g] =
     (if ipv6_group g then Some 1 else if final \<and> is_ipv4 g then Some 2 else None)"
| "ipv6_groups final (g # gs) = (if ipv6_group g then map_option Suc (ipv6_groups final gs) else None)"

definition ipv6_part :: "bool \<Rightarrow> string \<Rightarrow> nat option" where
  "ipv6_part final s = (if s = [] then Some 0 else ipv6_groups final (Split s (CHR '':'')))"

definition is_ipv6 :: "string \<Rightarrow> bool" where
  "is_ipv6 s \<longleftrightarrow>
     (case Index s ''::'' of
        None \<Rightarrow> ipv6_groups True (Split s (CHR '':'')) = Some 8
      | Some i \<Rightarrow>
          (case (ipv6_part False (take i s), ipv6_part True (drop (i + 2) s)) of
             (Some m, Some n) \<Rightarrow> m + n \<le> 7
           | _ \<Rightarrow> False))"

definition ParseIP_ok :: "string \<Rightarrow> bool" where
  "ParseIP_ok s =
     (case find (\<lambda>c. c \<in> {CHR ''.'', CHR '':'', CHR ''%''}) s of
        Some c \<Rightarrow> if c = CHR ''.'' then is_ipv4 s else if c = CHR '':'' then is_ipv6 s else False
      | None \<Rightarrow> False)"

abbreviation nodeIPPlaceholder :: string where "nodeIPPlaceholder \<equiv> ''{NodeIP}''"

fun advertised_loop ::
  "(string \<Rightarrow> string list) \<Rightarrow> string list \<Rightarrow> string set \<Rightarrow> AccessStatusEndpoint list \<Rightarrow> AccessStatusEndpoint list result" where
  "advertised_loop dns1123 [] seen result = Inr result"
| "advertised_loop dns1123 (v # addresses) seen result =
     (let address = TrimSpace v
      in case SplitHostPort address of
           Inl _ \<Rightarrow> Inl (Errorf ''advertise address %q must use host:port form'' [v])
         | Inr (host, rawPort) \<Rightarrow>
             if host = [] then Inl (Errorf ''advertise address %q must use host:port form'' [v])
             else if host \<noteq> nodeIPPlaceholder \<and> \<not> ParseIP_ok host \<and> dns1123 host \<noteq> []
             then Inl (Errorf ''advertise address %q has invalid host: %s'' (v # dns1123 host))
             else
               case ParseInt rawPort of
                 None \<Rightarrow> Inl (Errorf ''advertise address %q has invalid port'' [v])
               | Some port \<Rightarrow>
                   if port < 1 \<or> port > 65535 then Inl (Errorf ''advertise address %q has invalid port'' [v])
                   else if address \<in> seen then advertised_loop dns1123 addresses seen result
                   else advertised_loop dns1123 addresses (insert address seen)
                          (result @ [\<lparr> se_Address = address, se_Username = [] \<rparr>]))"

definition advertisedAccessEndpoints ::
  "(string \<Rightarrow> string list) \<Rightarrow> string list \<Rightarrow> AccessStatusEndpoint list result" where
  "advertisedAccessEndpoints dns1123 addresses = advertised_loop dns1123 addresses {} []"

fun check_forward_patterns :: "string \<Rightarrow> string list \<Rightarrow> go_error option" where
  "check_forward_patterns name [] = None"
| "check_forward_patterns name (pattern # patterns) =
     (if pattern = ''*'' \<or> pattern = ''*:*'' then check_forward_patterns name patterns
      else case SplitHostPort pattern of
             Inl err \<Rightarrow> Some (Wrap ''policy %s expression %q is invalid: %w'' [name, pattern] err)
           | Inr _ \<Rightarrow> check_forward_patterns name patterns)"

text \<open>The first error of a sequence of checks.\<close>

fun first_error :: "go_error option list \<Rightarrow> go_error option" where
  "first_error [] = None"
| "first_error (Some e # _) = Some e"
| "first_error (None # rest) = first_error rest"

definition check_mode :: "string \<Rightarrow> string \<Rightarrow> go_error option" where
  "check_mode name mode =
     (if mode \<notin> {''KubernetesDefault'', ''All'', ''None''}
      then Some (Errorf ''policy %s container mode %q is invalid'' [name, mode]) else None)"

text \<open>
  The two loops over map literals are unrolled in the order of the source; their iteration
  order only decides which of several errors is reported.
\<close>

definition validatePolicyOptions :: "(string \<Rightarrow> string list) \<Rightarrow> Options \<Rightarrow> go_error option" where
  "validatePolicyOptions dns1123 opts =
     (let d = pol_Defaults (go_Policy opts); l = pol_Limits (go_Policy opts)
      in first_error
           [if go_GatewayClassName opts \<noteq> [] \<and> dns1123 (go_GatewayClassName opts) \<noteq> []
            then Some (Errorf ''gateway class name %q is invalid: %s''
                        (go_GatewayClassName opts # dns1123 (go_GatewayClassName opts))) else None,
            (case advertisedAccessEndpoints dns1123 (go_AdvertiseAddresses opts) of Inl e \<Rightarrow> Some e | Inr _ \<Rightarrow> None),
            check_mode ''defaults'' (po_ContainerMode d), check_mode ''limits'' (po_ContainerMode l),
            check_forward_patterns ''default local forward'' (po_LocalForwardDestinations d),
            check_forward_patterns ''default remote forward'' (po_RemoteForwardBinds d),
            check_forward_patterns ''limit local forward'' (po_LocalForwardDestinations l),
            check_forward_patterns ''limit remote forward'' (po_RemoteForwardBinds l)])"

section \<open>Construction\<close>

fun parseCapabilities :: "string list \<Rightarrow> Capability list result" where
  "parseCapabilities [] = Inr []"
| "parseCapabilities (v # values) =
     (if v = ''*'' then bind_result (parseCapabilities values) (\<lambda>cs. Inr (v # cs))
      else bind_result (ParseCapability v) (\<lambda>c. bind_result (parseCapabilities values) (\<lambda>cs. Inr (c # cs))))"

datatype GatewayAuthorizer = PolicyGuarded "Authorizer list" | Unguarded Authorizer

fun GatewayAuthorizer_Authorize :: "GatewayAuthorizer \<Rightarrow> Authorizer" where
  "GatewayAuthorizer_Authorize (PolicyGuarded chain) req = Chain_Authorize chain req"
| "GatewayAuthorizer_Authorize (Unguarded a) req = a req"

definition limits_guard :: "PolicyOptions \<Rightarrow> Capability list \<Rightarrow> PolicyLimits" where
  "limits_guard p limits =
     \<lparr> pl_Capabilities = limits, pl_LocalForwardDestinations = po_LocalForwardDestinations (pol_Limits p),
       pl_RemoteForwardBinds = po_RemoteForwardBinds (pol_Limits p), pl_SkipAccess = False \<rparr>"

definition defaults_guard :: "PolicyOptions \<Rightarrow> Capability list \<Rightarrow> PolicyLimits" where
  "defaults_guard p defaults =
     \<lparr> pl_Capabilities = defaults, pl_LocalForwardDestinations = po_LocalForwardDestinations (pol_Defaults p),
       pl_RemoteForwardBinds = po_RemoteForwardBinds (pol_Defaults p), pl_SkipAccess = True \<rparr>"

definition withPolicyGuards :: "Options \<Rightarrow> Authorizer \<Rightarrow> GatewayAuthorizer result" where
  "withPolicyGuards opts nxt =
     bind_result (parseCapabilities (po_Capabilities (pol_Limits (go_Policy opts)))) (\<lambda>limits.
       bind_result (parseCapabilities (po_Capabilities (pol_Defaults (go_Policy opts)))) (\<lambda>defaults.
         Inr (PolicyGuarded
           [PolicyLimits_Authorize (limits_guard (go_Policy opts) limits),
            PolicyLimits_Authorize (defaults_guard (go_Policy opts) defaults), nxt])))"

definition buildAuthenticator ::
  "CryptoSSH \<Rightarrow> (WebhookOptions \<Rightarrow> (WebhookAuthenticateRequest \<Rightarrow> WebhookAuthenticateResponse result) result) \<Rightarrow>
    Options \<Rightarrow> SSHAuthenticator option \<Rightarrow> SSHAuthenticator result" where
  "buildAuthenticator ck webhookClient opts accessAuthenticator =
     (let auth = go_Authentication opts
      in bind_result (NewStaticPublicKeyAuthenticator ck (no_AuthorizedKeys auth)) (\<lambda>staticPublicKey.
           bind_result (NewStaticPasswordAuthenticator (no_Passwords auth)) (\<lambda>staticPassword.
             bind_result (if Enabled (no_Webhook auth)
                          then bind_result (webhookClient (no_Webhook auth)) (\<lambda>post. Inr [WebhookAuthenticator ck post])
                          else Inr []) (\<lambda>webhook.
               Inr (NewChain
                 ([StaticPublicKeyAuthenticator ck staticPublicKey, StaticPasswordAuthenticator staticPassword] @
                  (case accessAuthenticator of Some a \<Rightarrow> [a] | None \<Rightarrow> []) @ webhook @
                  (if no_Anonymous auth then [Anonymous] else [])))))))"

definition buildResolver :: "'st Resolver option \<Rightarrow> 'st Resolver \<Rightarrow> 'st Resolver" where
  "buildResolver accessResolver directResolver =
     Chain_Resolve ((case accessResolver of Some r \<Rightarrow> [r] | None \<Rightarrow> []) @ [directResolver, HintResolver_Resolve])"

definition buildAuthorizer ::
  "(SubjectAccessReviewSpec \<Rightarrow> SubjectAccessReviewStatus result) \<Rightarrow>
    (WebhookOptions \<Rightarrow> (UserInfo \<times> Attributes \<Rightarrow> WebhookAuthorizeResponse result) result) \<Rightarrow>
    Options \<Rightarrow> Authorizer option \<Rightarrow> GatewayAuthorizer result" where
  "buildAuthorizer kubeClient webhookClient opts accessAuthorizer =
     (let auth = go_Authorization opts;
          chain = (case accessAuthorizer of Some a \<Rightarrow> [a] | None \<Rightarrow> [])
      in if zo_KubernetesSAR auth then
           bind_result (if Enabled (zo_Webhook auth)
                        then bind_result (webhookClient (zo_Webhook auth)) (\<lambda>post. Inr [WebhookAuthorizer_Authorize post])
                        else Inr []) (\<lambda>webhook.
             withPolicyGuards opts
               (Chain_Authorize (chain @ webhook @ [KubernetesSARAuthorizer_Authorize (Some kubeClient)])))
         else if Enabled (zo_Webhook auth) then
           bind_result (webhookClient (zo_Webhook auth)) (\<lambda>post.
             withPolicyGuards opts (Chain_Authorize (chain @ [WebhookAuthorizer_Authorize post])))
         else if zo_AllowAll auth then withPolicyGuards opts (Chain_Authorize (chain @ [AllowAll]))
         else if length chain > 0 then withPolicyGuards opts (Chain_Authorize chain)
         else Inl (Errorf ''authorization is not configured'' []))"

text \<open>A Pod backend is the transport it was built over; an SSH connector its connect timeout.\<close>

datatype PodTransport = CRITransport CRITransportOptions | APIServerTransport HelperOptions

definition buildPodBackend :: "(CRITransportOptions \<Rightarrow> go_error option) \<Rightarrow> Options \<Rightarrow> PodTransport result" where
  "buildPodBackend criNew opts =
     (let transport = pso_Transport (go_PodSSH opts)
      in if transport = PodSSHTransportCRI then
           (case criNew (pso_CRI (go_PodSSH opts)) of
              Some err \<Rightarrow> Inl (Wrap ''build CRI transport: %w'' [] err)
            | None \<Rightarrow> Inr (CRITransport (pso_CRI (go_PodSSH opts))))
         else if transport = PodSSHTransportAPIServer then Inr (APIServerTransport (go_Helper opts))
         else Inl (Errorf ''pod SSH transport %q is invalid; use apiserver or cri'' [transport]))"

text \<open>The Access policy runtime, over the informer caches it reads.\<close>

record accessPolicyRuntime =
  apr_authenticator :: "SSHAuthenticator option"
  apr_authorizer :: "Authorizer option"
  apr_resolver :: "resolverState Resolver option"
  apr_accessPolicy :: "(string \<Rightarrow> string \<Rightarrow> Access result) option"
  apr_sshProxy :: "int option"

record clusterEnv =
  ce_crypto :: CryptoSSH
  ce_accessIndexer :: "Indexer option"
  ce_secretIndexer :: "Indexer option"
  ce_podIndexer :: InformerPodLister
  ce_pods :: "string \<Rightarrow> string \<Rightarrow> Pod result"
  ce_labels :: "(string \<times> string) list \<Rightarrow> (string \<rightharpoonup> string) \<Rightarrow> bool"
  ce_intn :: "int \<Rightarrow> int"
  ce_now :: int
  ce_dns1123 :: "string \<Rightarrow> string list"
  ce_review :: "SubjectAccessReviewSpec \<Rightarrow> SubjectAccessReviewStatus result"
  ce_authnWebhook :: "WebhookOptions \<Rightarrow> (WebhookAuthenticateRequest \<Rightarrow> WebhookAuthenticateResponse result) result"
  ce_criNew :: "CRITransportOptions \<Rightarrow> go_error option"
  ce_authzWebhook :: "WebhookOptions \<Rightarrow> (UserInfo \<times> Attributes \<Rightarrow> WebhookAuthorizeResponse result) result"

definition policy_cache_of :: "clusterEnv \<Rightarrow> Options \<Rightarrow> PolicyCache" where
  "policy_cache_of ce opts =
     \<lparr> cache_accessIndexer = ce_accessIndexer ce, cache_secretIndexer = ce_secretIndexer ce,
       cache_namespace = apo_Namespace (go_AccessPolicy opts), cache_gatewayClassName = go_GatewayClassName opts \<rparr>"

definition access_resolver_env :: "clusterEnv \<Rightarrow> Options \<Rightarrow> AccessResolverEnv" where
  "access_resolver_env ce opts =
     \<lparr> env_get = PolicyCache_Get (policy_cache_of ce opts),
       env_pods = Some (InformerPodLister_List (ce_podIndexer ce)),
       env_policy = \<lparr> cpol_DefaultMode = po_ContainerMode (pol_Defaults (go_Policy opts)),
                      cpol_LimitMode = po_ContainerMode (pol_Limits (go_Policy opts)) \<rparr>,
       env_labels = ce_labels ce, env_intn = ce_intn ce, env_now = ce_now ce \<rparr>"

definition capability_defaults :: "Options \<Rightarrow> CapabilityDefaults" where
  "capability_defaults opts =
     \<lparr> cd_Allow = po_Capabilities (pol_Defaults (go_Policy opts)),
       cd_LocalForwardDestinations = po_LocalForwardDestinations (pol_Defaults (go_Policy opts)),
       cd_RemoteForwardBinds = po_RemoteForwardBinds (pol_Defaults (go_Policy opts)) \<rparr>"

definition buildAccessPolicyRuntime :: "clusterEnv \<Rightarrow> Options \<Rightarrow> accessPolicyRuntime result" where
  "buildAccessPolicyRuntime ce opts =
     (if \<not> apo_Enabled (go_AccessPolicy opts)
      then Inr \<lparr> apr_authenticator = None, apr_authorizer = None, apr_resolver = None, apr_accessPolicy = None,
                 apr_sshProxy = None \<rparr>
      else
        bind_result (advertisedAccessEndpoints (ce_dns1123 ce) (go_AdvertiseAddresses opts)) (\<lambda>_.
          let policyCache = policy_cache_of ce opts
          in Inr \<lparr> apr_authenticator = Some (AccessAuthenticator (ce_crypto ce) policyCache),
                   apr_authorizer = Some (AccessAuthorizer_Authorize (Some (PolicyCache_Get policyCache)) (capability_defaults opts)),
                   apr_resolver = Some (AccessResolver_Resolve (access_resolver_env ce opts)),
                   apr_accessPolicy = Some (PolicyCache_Get policyCache),
                   apr_sshProxy = Some (spo_ConnectTimeout (go_SSHProxy opts)) \<rparr>))"

record Dependencies =
  dep_Start :: "go_error option"
  dep_Authenticator :: "SSHAuthenticator option"
  dep_Authorizer :: "GatewayAuthorizer option"
  dep_Resolver :: "resolverState Resolver option"
  dep_AccessPolicy :: "(string \<Rightarrow> string \<Rightarrow> Access result) option"
  dep_PodBackend :: "PodTransport option"
  dep_SSHProxy :: "int option"
  dep_AuditRecorder :: bool

definition Dependencies_Validate :: "Dependencies \<Rightarrow> go_error option" where
  "Dependencies_Validate d =
     (if dep_Authenticator d = None then Some (Errorf ''authenticator is required'' [])
      else if dep_Authorizer d = None then Some (Errorf ''authorizer is required'' [])
      else if dep_Resolver d = None then Some (Errorf ''resolver is required'' [])
      else if \<not> dep_AuditRecorder d then Some (Errorf ''audit recorder is required'' [])
      else None)"

definition buildDependencies :: "clusterEnv \<Rightarrow> Options \<Rightarrow> Dependencies result" where
  "buildDependencies ce opts =
     (case buildAccessPolicyRuntime ce opts of
        Inl err \<Rightarrow> Inl (Wrap ''build access policy runtime: %w'' [] err)
      | Inr runtime \<Rightarrow>
          (case buildAuthenticator (ce_crypto ce) (ce_authnWebhook ce) opts (apr_authenticator runtime) of
             Inl err \<Rightarrow> Inl (Wrap ''build authenticator: %w'' [] err)
           | Inr authenticator \<Rightarrow>
               bind_result (buildAuthorizer (ce_review ce) (ce_authzWebhook ce) opts (apr_authorizer runtime)) (\<lambda>authorizer.
               bind_result (buildPodBackend (ce_criNew ce) opts) (\<lambda>podBackend.
                 Inr \<lparr> dep_Start = None, dep_Authenticator = Some authenticator, dep_Authorizer = Some authorizer,
                       dep_Resolver = Some (BindingResolver_Resolve
                         \<lparr> br_defaultMode = po_ContainerMode (pol_Defaults (go_Policy opts)),
                           br_limitMode = po_ContainerMode (pol_Limits (go_Policy opts)) \<rparr>
                         (ce_pods ce) (buildResolver (apr_resolver runtime) UsernameResolver_Resolve)),
                       dep_AccessPolicy = apr_accessPolicy runtime, dep_PodBackend = Some podBackend,
                       dep_SSHProxy = apr_sshProxy runtime, dep_AuditRecorder = True \<rparr>))))"

text \<open>RunWithDependencies up to the serving loop.\<close>

record gateway =
  gw_policy :: PolicyOptions
  gw_methods :: "string list"
  gw_authn :: SSHAuthenticator
  gw_authz :: GatewayAuthorizer
  gw_resolver :: "resolverState Resolver"
  gw_accessPolicy :: "(string \<Rightarrow> string \<Rightarrow> Access result) option"
  gw_podBackend :: "PodTransport option"
  gw_sshProxy :: "int option"

definition RunWithDependencies_gateway ::
  "(string \<Rightarrow> string list) \<Rightarrow> Options \<Rightarrow> Dependencies \<Rightarrow> gateway result" where
  "RunWithDependencies_gateway dns1123 opts deps =
     bind_result (enabledAuthenticationMethods (no_Methods (go_Authentication opts))) (\<lambda>methods.
       case Dependencies_Validate deps of
         Some err \<Rightarrow> Inl (Wrap ''invalid dependencies: %w'' [] err)
       | None \<Rightarrow>
           (case validatePolicyOptions dns1123 opts of
              Some err \<Rightarrow> Inl (Wrap ''invalid policy: %w'' [] err)
            | None \<Rightarrow>
                (case (case the (dep_Authorizer deps) of
                         PolicyGuarded chain \<Rightarrow> Inr (PolicyGuarded chain)
                       | Unguarded a \<Rightarrow> withPolicyGuards opts a) of
                   Inl err \<Rightarrow> Inl (Wrap ''invalid policy: %w'' [] err)
                 | Inr authorizer \<Rightarrow>
                     (case dep_Start deps of
                        Some err \<Rightarrow> Inl (Wrap ''start dependencies: %w'' [] err)
                      | None \<Rightarrow>
                          Inr \<lparr> gw_policy = go_Policy opts, gw_methods = methods, gw_authn = the (dep_Authenticator deps),
                                gw_authz = authorizer, gw_resolver = the (dep_Resolver deps),
                                gw_accessPolicy = dep_AccessPolicy deps,
                                gw_podBackend = dep_PodBackend deps, gw_sshProxy = dep_SSHProxy deps \<rparr>))))"

end
