(* ===== verification/DependencyLaws.thy ===== *)
theory DependencyLaws
  imports Dependencies
begin

text \<open>
  Properties of the gateway its options and dependencies build: no configuration lets an operation
  exceed the policy limits, Access identities come from Access credentials only, revoking an
  Access or a credential takes effect at the next operation, and every Pod target is bound to
  one live Pod and a permitted container.
\<close>

section \<open>Lemmas\<close>

lemma parseCapabilities_same: "parseCapabilities vs = Inr cs \<Longrightarrow> cs = vs"
  by (induction vs arbitrary: cs) (auto simp: bind_result_Inr_iff ParseCapability_def split: if_splits)

text \<open>The chain of a guarded authorizer, with the capabilities as configured.\<close>

definition guarded_by :: "PolicyOptions \<Rightarrow> Authorizer \<Rightarrow> GatewayAuthorizer" where
  "guarded_by p nxt = PolicyGuarded
     [PolicyLimits_Authorize (limits_guard p (po_Capabilities (pol_Limits p))),
      PolicyLimits_Authorize (defaults_guard p (po_Capabilities (pol_Defaults p))), nxt]"

lemma withPolicyGuards_Inr:
  "withPolicyGuards opts nxt = Inr g \<Longrightarrow> g = guarded_by (go_Policy opts) nxt"
  by (auto simp: withPolicyGuards_def guarded_by_def bind_result_Inr_iff dest!: parseCapabilities_same)

lemma guarded_by_Allow:
  assumes "GatewayAuthorizer_Authorize (guarded_by p nxt) req = (DecisionAllow, r, e)"
  shows "within_limits (limits_guard p (po_Capabilities (pol_Limits p))) (rq_Attributes req) \<and>
    (extra_get (rq_AuthExtra req) ''kube-ssh/access.name'' = [] \<longrightarrow>
       within_limits (defaults_guard p (po_Capabilities (pol_Defaults p))) (rq_Attributes req)) \<and>
    nxt req = (DecisionAllow, r, e)"
proof -
  let ?l = "limits_guard p (po_Capabilities (pol_Limits p))"
  let ?d = "defaults_guard p (po_Capabilities (pol_Defaults p))"
  have c: "Chain_Authorize [PolicyLimits_Authorize ?l, PolicyLimits_Authorize ?d, nxt] req = (DecisionAllow, r, e)"
    using assms by (simp add: guarded_by_def)
  note l = guarded_chain_Allow[OF c]
  then have d0: "Chain_Authorize [PolicyLimits_Authorize ?d, nxt] req = (DecisionAllow, r, e)" by simp
  note d = guarded_chain_Allow[OF d0]
  have n: "nxt req = (DecisionAllow, r, e)"
    using d by (auto split: prod.splits option.splits if_splits)
  show ?thesis using l d n PolicyLimits_passes_iff[of ?l req] PolicyLimits_passes_iff[of ?d req]
    by (auto simp: limits_guard_def)
qed

lemma buildAuthorizer_Inr:
  assumes "buildAuthorizer kube hook opts acc = Inr g"
  shows "\<exists>rest. g = guarded_by (go_Policy opts) (Chain_Authorize ((case acc of Some a \<Rightarrow> [a] | None \<Rightarrow> []) @ rest))"
  using assms
  by (auto simp: buildAuthorizer_def bind_result_Inr_iff Let_def split: if_splits option.splits
      dest!: withPolicyGuards_Inr)

lemma RunWithDependencies_authorizer:
  assumes "RunWithDependencies_gateway dns opts deps = Inr gw"
  shows "(\<exists>a. dep_Authorizer deps = Some (Unguarded a) \<and> gw_authz gw = guarded_by (go_Policy opts) a) \<or>
    (\<exists>chain. dep_Authorizer deps = Some (PolicyGuarded chain) \<and> gw_authz gw = PolicyGuarded chain)"
  using assms
  by (auto simp: RunWithDependencies_gateway_def bind_result_Inr_iff Dependencies_Validate_def
      split: option.splits sum.splits if_splits GatewayAuthorizer.splits dest!: withPolicyGuards_Inr)

lemma buildDependencies_Inr:
  assumes "buildDependencies ce opts = Inr deps"
  shows "\<exists>rt au az pb. buildAccessPolicyRuntime ce opts = Inr rt \<and>
    buildAuthenticator (ce_crypto ce) (ce_authnWebhook ce) opts (apr_authenticator rt) = Inr au \<and>
    buildAuthorizer (ce_review ce) (ce_authzWebhook ce) opts (apr_authorizer rt) = Inr az \<and>
    dep_Authenticator deps = Some au \<and> dep_Authorizer deps = Some az \<and>
    dep_Resolver deps = Some (BindingResolver_Resolve
      \<lparr> br_defaultMode = po_ContainerMode (pol_Defaults (go_Policy opts)),
        br_limitMode = po_ContainerMode (pol_Limits (go_Policy opts)) \<rparr>
      (ce_pods ce) (buildResolver (apr_resolver rt) UsernameResolver_Resolve)) \<and>
    dep_AccessPolicy deps = apr_accessPolicy rt \<and> dep_PodBackend deps = Some pb"
  using assms by (auto simp: buildDependencies_def bind_result_Inr_iff split: sum.splits)

lemma runtime_enabled:
  assumes "buildAccessPolicyRuntime ce opts = Inr rt" "apo_Enabled (go_AccessPolicy opts)"
  shows "apr_authenticator rt = Some (AccessAuthenticator (ce_crypto ce) (policy_cache_of ce opts)) \<and>
    apr_authorizer rt = Some (AccessAuthorizer_Authorize (Some (PolicyCache_Get (policy_cache_of ce opts)))
      (capability_defaults opts)) \<and>
    apr_resolver rt = Some (AccessResolver_Resolve (access_resolver_env ce opts)) \<and>
    apr_accessPolicy rt = Some (PolicyCache_Get (policy_cache_of ce opts))"
  using assms by (auto simp: buildAccessPolicyRuntime_def bind_result_Inr_iff Let_def)

lemma runtime_disabled:
  assumes "buildAccessPolicyRuntime ce opts = Inr rt" "\<not> apo_Enabled (go_AccessPolicy opts)"
  shows "apr_authenticator rt = None \<and> apr_authorizer rt = None \<and> apr_resolver rt = None \<and> apr_accessPolicy rt = None"
  using assms by (auto simp: buildAccessPolicyRuntime_def)

lemma gateway_guarded:
  assumes gw: "RunWithDependencies_gateway dns opts deps = Inr gw"
    and src: "(\<exists>a. dep_Authorizer deps = Some (Unguarded a)) \<or> (\<exists>ce. buildDependencies ce opts = Inr deps)"
  shows "\<exists>nxt. gw_authz gw = guarded_by (go_Policy opts) nxt"
  using src
proof
  assume "\<exists>a. dep_Authorizer deps = Some (Unguarded a)"
  then show ?thesis using RunWithDependencies_authorizer[OF gw] by auto
next
  assume "\<exists>ce. buildDependencies ce opts = Inr deps"
  then obtain ce where "buildDependencies ce opts = Inr deps" by blast
  from buildDependencies_Inr[OF this] obtain rt az where "buildAccessPolicyRuntime ce opts = Inr rt"
      "buildAuthorizer (ce_review ce) (ce_authzWebhook ce) opts (apr_authorizer rt) = Inr az"
      "dep_Authorizer deps = Some az" by blast
  then show ?thesis using RunWithDependencies_authorizer[OF gw] buildAuthorizer_Inr[of "ce_review ce" "ce_authzWebhook ce" opts]
    by (auto simp: guarded_by_def)
qed

lemma AccessAuthorizer_decides:
  assumes "GetExtra (rq_AuthExtra req) ExtraAccessNamespace \<noteq> []" "GetExtra (rq_AuthExtra req) ExtraAccessName \<noteq> []"
    and "GetExtra (rq_AuthExtra req) ExtraCredentialUser \<noteq> []"
    and "Chain_Authorize (AccessAuthorizer_Authorize (Some get) defaults # rest) req = (DecisionAllow, r, e)"
  shows "AccessAuthorizer_Authorize (Some get) defaults req = (DecisionAllow, r, e)"
proof -
  have "\<not> authz_passes (AccessAuthorizer_Authorize (Some get) defaults req)"
    using assms(1-3)
    by (auto simp: AccessAuthorizer_Authorize_def authz_passes_def Let_def split: sum.splits option.splits prod.splits)
  then show ?thesis
    using assms(4) authz_chain.run_decided[of "AccessAuthorizer_Authorize (Some get) defaults" req rest] by simp
qed

text \<open>What the Access authorizer requires of an operation it allows.\<close>

definition access_permits ::
  "(string \<Rightarrow> string \<Rightarrow> Access result) \<Rightarrow> CapabilityDefaults \<Rightarrow> (string \<rightharpoonup> string list) \<Rightarrow> Attributes \<Rightarrow> string \<Rightarrow> bool" where
  "access_permits get defaults extra attrs container \<longleftrightarrow>
     (\<exists>a cred. get (GetExtra extra ExtraAccessNamespace) (GetExtra extra ExtraAccessName) = Inr a \<and>
        findCredential a (GetExtra extra ExtraCredentialUser) = Some cred \<and>
        fst (capabilityAllowed (cred_Capabilities cred) defaults attrs) \<and>
        (container \<noteq> [] \<longrightarrow> containerAllowed (spec_Containers (acc_Spec a)) container \<and>
           containerAllowed (cred_Containers cred) container))"

lemma AccessAuthorizer_Allow:
  assumes "AccessAuthorizer_Authorize (Some get) defaults req = (DecisionAllow, r, e)"
  shows "access_permits get defaults (rq_AuthExtra req) (rq_Attributes req)
    (resourceValue (at_Resources (rq_Attributes req)) ''containers'')"
  using assms
  by (auto simp: AccessAuthorizer_Authorize_def access_permits_def resourceName_resourceValue Let_def
      split: if_splits sum.splits option.splits prod.splits)

lemma chain_loop_Inr:
  assumes "chain_loop rs err (st, input) = (st', Inr t)"
  shows "\<exists>r \<in> set rs. \<exists>st0. r (st0, input) = (st', Inr t)"
  using assms
  by (induction rs err "(st, input)" arbitrary: st rule: chain_loop.induct)
    (auto split: prod.splits sum.splits if_splits)

lemma buildAuthenticator_Inr:
  assumes "buildAuthenticator ck hook opts acc = Inr au"
  shows "\<exists>as bs. au = NewChain (as @ (case acc of Some a \<Rightarrow> [a] | None \<Rightarrow> []) @ bs) \<and> (\<forall>a \<in> set as \<union> set bs. no_extra a)"
proof -
  let ?auth = "go_Authentication opts"
  obtain ks ps ws where b: "NewStaticPublicKeyAuthenticator ck (no_AuthorizedKeys ?auth) = Inr ks"
    "NewStaticPasswordAuthenticator (no_Passwords ?auth) = Inr ps"
    "(if Enabled (no_Webhook ?auth) then bind_result (hook (no_Webhook ?auth)) (\<lambda>post. Inr [WebhookAuthenticator ck post])
      else Inr []) = Inr ws"
    "au = NewChain ([StaticPublicKeyAuthenticator ck ks, StaticPasswordAuthenticator ps] @
       (case acc of Some a \<Rightarrow> [a] | None \<Rightarrow> []) @ ws @ (if no_Anonymous ?auth then [Anonymous] else []))"
    using assms unfolding buildAuthenticator_def Let_def bind_result_Inr_iff by blast
  have ws: "\<forall>a \<in> set ws. no_extra a"
    using b(3) no_extra_Webhook by (auto simp: bind_result_Inr_iff split: if_splits)
  show ?thesis
    apply (rule exI[of _ "[StaticPublicKeyAuthenticator ck ks, StaticPasswordAuthenticator ps]"])
    apply (rule exI[of _ "ws @ (if no_Anonymous (go_Authentication opts) then [Anonymous] else [])"])
    using b no_extra_StaticPublicKey[OF b(1)] no_extra_StaticPassword[OF b(2)] ws no_extra_Anonymous
    by auto
qed

lemma identity_from_access:
  assumes "buildAuthenticator ck hook opts acc = Inr au" and "GetExtra (ai_Extra info) k \<noteq> []"
  shows "au_AuthenticateBasic au u p = Inr info \<Longrightarrow> \<exists>a. acc = Some a \<and> au_AuthenticateBasic a u p = Inr info"
    and "au_AuthenticatePublicKey au u key = Inr info \<Longrightarrow> \<exists>a. acc = Some a \<and> au_AuthenticatePublicKey a u key = Inr info"
proof -
  obtain as bs where au: "au = NewChain (as @ (case acc of Some a \<Rightarrow> [a] | None \<Rightarrow> []) @ bs)"
    and ne: "\<forall>a \<in> set as \<union> set bs. no_extra a"
    using buildAuthenticator_Inr[OF assms(1)] by blast
  have ex: "ai_Extra info \<noteq> Map.empty" using assms(2) by (auto simp: GetExtra_def extra_get_def)
  have mem: "acc = Some a" if "a \<in> set (as @ (case acc of Some a \<Rightarrow> [a] | None \<Rightarrow> []) @ bs)" "\<not> no_extra a" for a
    using that ne by (auto split: option.splits)
  show "\<exists>a. acc = Some a \<and> au_AuthenticateBasic a u p = Inr info" if r: "au_AuthenticateBasic au u p = Inr info"
  proof -
    obtain a where a: "a \<in> set (as @ (case acc of Some a \<Rightarrow> [a] | None \<Rightarrow> []) @ bs)" "au_AuthenticateBasic a u p = Inr info"
      using NewChain_Basic_Inr[OF r[unfolded au]] by (metis in_set_conv_decomp)
    then have "\<not> no_extra a" using ex unfolding no_extra_def by blast
    then show ?thesis using mem a by blast
  qed
  show "\<exists>a. acc = Some a \<and> au_AuthenticatePublicKey a u key = Inr info" if r: "au_AuthenticatePublicKey au u key = Inr info"
  proof -
    obtain a where a: "a \<in> set (as @ (case acc of Some a \<Rightarrow> [a] | None \<Rightarrow> []) @ bs)" "au_AuthenticatePublicKey a u key = Inr info"
      using NewChain_PublicKey_Inr[OF r[unfolded au]] by (metis in_set_conv_decomp)
    then have "\<not> no_extra a" using ex unfolding no_extra_def by blast
    then show ?thesis using mem a by blast
  qed
qed

section \<open>Bound targets\<close>

text \<open>The Pod getter of the binding resolver: the API server answers with the Pod it was asked for.\<close>

definition cluster_ok :: "clusterEnv \<Rightarrow> bool" where
  "cluster_ok ce \<longleftrightarrow> (\<forall>ns n p. ce_pods ce ns n = Inr p \<longrightarrow> pod_Namespace p = ns \<and> pod_Name p = n)"

interpretation cluster_pod: pod_getter ce_pods cluster_ok
  by unfold_locales (auto simp: cluster_ok_def)

text \<open>A target bound to a Pod, one of its containers, and permitted by a container mode.\<close>

definition bound_to :: "Target \<Rightarrow> Pod \<Rightarrow> string \<Rightarrow> bool" where
  "bound_to t pod c \<longleftrightarrow>
     Parse (Some t) = Inr \<lparr> r_Namespace = pod_Namespace pod, r_Pod = pod_Name pod, r_Container = c \<rparr> \<and>
     BoundIdentity t = \<lparr> b_UID = pod_UID pod, b_NodeName = pod_NodeName pod, b_HostIP = pod_HostIP pod \<rparr> \<and>
     c \<in> set (pod_Containers pod)"

lemma mode_permits_iff:
  "mode_permits m pod c \<longleftrightarrow> m \<in> {[], ''All'', ''KubernetesDefault''} \<and>
     (m = ''KubernetesDefault'' \<longrightarrow> c = kubernetes_default_container pod)"
  by (cases "m = ''KubernetesDefault''") (simp_all add: mode_permits_def)

lemma bind_target_cluster:
  assumes "cluster_ok ce" "bind_target r (ce_pods ce) tgt = Inr t" "t_Kind t = KindPod"
    and "b_UID (BoundIdentity tgt) = []" "\<forall>x \<in> set (t_Options tgt). opt_Value x \<noteq> []"
  shows "\<exists>pod c. bound_to t pod c \<and> ce_pods ce (pod_Namespace pod) (pod_Name pod) = Inr pod \<and>
    mode_permits (br_limitMode r) pod c \<and> mode_permits (br_defaultMode r) pod c"
proof -
  have "t_Kind tgt = KindPod"
    using assms(2,3) by (auto simp: bind_target_def split: if_splits)
  from cluster_pod.bind_target_bound[OF assms(1,2) this assms(4,5)] obtain pod c where p:
      "ce_pods ce (pod_Namespace pod) (pod_Name pod) = Inr pod"
      "Parse (Some t) = Inr \<lparr> r_Namespace = pod_Namespace pod, r_Pod = pod_Name pod, r_Container = c \<rparr>"
      "BoundIdentity t = \<lparr> b_UID = pod_UID pod, b_NodeName = pod_NodeName pod, b_HostIP = pod_HostIP pod \<rparr>"
      "c \<in> set (pod_Containers pod)"
      "\<forall>m \<in> {br_defaultMode r, br_limitMode r}. m \<in> {[], ''All'', ''KubernetesDefault''} \<and>
         (m = ''KubernetesDefault'' \<longrightarrow> c = kubernetes_default_container pod)"
    by (elim exE conjE) (rule that)
  have "mode_permits (br_limitMode r) pod c" unfolding mode_permits_iff using p(5) by (rule bspec) simp
  moreover have "mode_permits (br_defaultMode r) pod c" unfolding mode_permits_iff using p(5) by (rule bspec) simp
  ultimately show ?thesis using p(1-4) by (intro exI[of _ pod] exI[of _ c]) (simp add: bound_to_def)
qed

lemma UsernameResolver_unbound:
  assumes "UsernameResolver_Resolve (st, input) = (st', Inr tgt)"
  shows "b_UID (BoundIdentity tgt) = [] \<and> (\<forall>x \<in> set (t_Options tgt). opt_Value x \<noteq> [])"
proof -
  obtain ns pod c where "tgt = New ns pod c" "ns \<noteq> []" "pod \<noteq> []"
    using assms unfolding UsernameResolver_Resolve_def Let_def prod.case
    by (elim Pair_inject) (simp split: if_splits list.splits, metis, metis)
  then show ?thesis by (auto simp: New_def BoundIdentity_def map_get_def)
qed

lemma newTargetFromHint_unbound:
  assumes "newTargetFromHint hint = Inr tgt"
  shows "b_UID (BoundIdentity tgt) = [] \<and> (\<forall>x \<in> set (t_Options tgt). opt_Value x \<noteq> [])"
  using assms by (auto simp: newTargetFromHint_def BoundIdentity_def map_get_def split: if_splits)

lemma HintResolver_unbound:
  assumes "HintResolver_Resolve (st, input) = (st', Inr tgt)"
  shows "b_UID (BoundIdentity tgt) = [] \<and> (\<forall>x \<in> set (t_Options tgt). opt_Value x \<noteq> [])"
proof -
  have "\<exists>hint. newTargetFromHint hint = Inr tgt"
    using assms unfolding HintResolver_Resolve_def prod.case by (auto split: if_splits option.splits)
  then show ?thesis using newTargetFromHint_unbound by blast
qed

lemma buildResolver_source:
  assumes "buildResolver acc UsernameResolver_Resolve (st, input) = (st', Inr tgt)"
  shows "(\<exists>r st0. acc = Some r \<and> r (st0, input) = (st', Inr tgt)) \<or>
    b_UID (BoundIdentity tgt) = [] \<and> (\<forall>x \<in> set (t_Options tgt). opt_Value x \<noteq> [])"
proof -
  obtain r st0 where r: "r \<in> set ((case acc of Some r \<Rightarrow> [r] | None \<Rightarrow> []) @ [UsernameResolver_Resolve, HintResolver_Resolve])"
      "r (st0, input) = (st', Inr tgt)"
    using chain_loop_Inr[OF assms[unfolded buildResolver_def Chain_Resolve_def]] by blast
  then consider "acc = Some r" | "r = UsernameResolver_Resolve" | "r = HintResolver_Resolve"
    by (cases acc) auto
  then show ?thesis
  proof cases
    case 1
    then show ?thesis using r(2) by (intro disjI1) (rule exI[of _ r], rule exI[of _ st0], simp)
  next
    case 2
    then show ?thesis using UsernameResolver_unbound[of st0 input st' tgt] r(2) by simp
  next
    case 3
    then show ?thesis using HintResolver_unbound[of st0 input st' tgt] r(2) by simp
  qed
qed

lemma bound_to_Bind:
  "pod_Namespace p \<noteq> [] \<Longrightarrow> pod_Name p \<noteq> [] \<Longrightarrow> c \<in> set (pod_Containers p) \<Longrightarrow> bound_to (Bind p c) p c"
  unfolding bound_to_def by (simp add: Parse_Bind) (simp add: Bind_def BoundIdentity_def bind_def map_get_def)

lemma begin_returns:
  assumes "cs_authenticated ctx = Some conn"
  shows "\<exists>tr' h err. beginConnectionOperation env stamp opID ctx tr operation = Inr (tr', h, err)"
  using assms
  by (simp add: beginConnectionOperation_def newOperationContext_def startOperation_def Let_def split: prod.split)

section \<open>Properties\<close>

text \<open>
  C7. No configuration and no embedder's authorizer gets around the policy limits: in a gateway
  run with its own dependencies or with a custom authorizer, an operation begins without error
  only if its capability, its forwarded destination and its bind address are within the limits of
  the options, and, for clients that are not logged in through an Access, within the defaults.
\<close>

theorem policy_limits_enforced:
  assumes gw: "RunWithDependencies_gateway dns opts deps = Inr gw"
    and src: "(\<exists>a. dep_Authorizer deps = Some (Unguarded a)) \<or> (\<exists>ce. buildDependencies ce opts = Inr deps)"
    and op: "beginConnectionOperation env stamp opID ctx tr operation = Inr (tr', h, None)"
    and az: "oe_authz env = GatewayAuthorizer_Authorize (gw_authz gw)"
    and conn: "cs_authenticated ctx = Some conn"
  shows "operation_within (limits_guard (go_Policy opts) (po_Capabilities (pol_Limits (go_Policy opts))))
      (oe_shlex env) (ac_target conn) operation \<and>
    (extra_get (ai_Extra (ac_info conn)) ''kube-ssh/access.name'' = [] \<longrightarrow>
       operation_within (defaults_guard (go_Policy opts) (po_Capabilities (pol_Defaults (go_Policy opts))))
         (oe_shlex env) (ac_target conn) operation)"
proof -
  obtain nxt where g: "gw_authz gw = guarded_by (go_Policy opts) nxt"
    using gateway_guarded[OF gw src] by blast
  obtain sc r e where sc: "oc_info sc = ac_info conn" "oc_target sc = ac_target conn"
    "GatewayAuthorizer_Authorize (guarded_by (go_Policy opts) nxt)
       (operation_request sc (connectionOperationSpec (oe_shlex env) (ac_target conn) operation)) = (DecisionAllow, r, e)"
    using begin_Inr[OF op] conn az g by auto
  from guarded_by_Allow[OF sc(3)] sc(1) show ?thesis
    by (simp add: operation_request_def within_limits_operation)
qed

definition example_dns1123 :: "string \<Rightarrow> string list" where
  "example_dns1123 name = (if name = [] then [''must not be empty''] else [])"

definition example_deps :: Dependencies where
  "example_deps = \<lparr> dep_Start = None, dep_Authenticator = Some Anonymous, dep_Authorizer = Some (Unguarded AllowAll),
     dep_Resolver = Some UsernameResolver_Resolve, dep_AccessPolicy = None, dep_PodBackend = None, dep_SSHProxy = None,
     dep_AuditRecorder = True \<rparr>"

definition example_gateway :: gateway where
  "example_gateway = \<lparr> gw_policy = go_Policy NewDefaultOptions, gw_methods = [''publickey'', ''password''],
     gw_authn = Anonymous, gw_authz = guarded_by (go_Policy NewDefaultOptions) AllowAll,
     gw_resolver = UsernameResolver_Resolve, gw_accessPolicy = None, gw_podBackend = None, gw_sshProxy = None \<rparr>"

lemma parse_default_capabilities:
  "parseCapabilities (po_Capabilities (pol_Limits default_policy)) = Inr (po_Capabilities (pol_Limits default_policy))"
  "parseCapabilities (po_Capabilities (pol_Defaults default_policy)) = Inr (po_Capabilities (pol_Defaults default_policy))"
  by code_simp+

lemma example_gateway_runs:
  "RunWithDependencies_gateway example_dns1123 NewDefaultOptions example_deps = Inr example_gateway"
proof -
  have m: "enabledAuthenticationMethods (no_Methods (go_Authentication NewDefaultOptions)) = Inr [''publickey'', ''password'']"
    by code_simp
  have v: "validatePolicyOptions example_dns1123 NewDefaultOptions = None" by code_simp
  have p: "go_Policy NewDefaultOptions = default_policy" by (simp add: NewDefaultOptions_def)
  have g: "withPolicyGuards NewDefaultOptions AllowAll = Inr (guarded_by (go_Policy NewDefaultOptions) AllowAll)"
    by (simp add: withPolicyGuards_def p parse_default_capabilities guarded_by_def)
  show ?thesis
    by (simp add: RunWithDependencies_gateway_def m v g example_deps_def Dependencies_Validate_def example_gateway_def)
qed

definition example_gateway_env :: operationEnv where
  "example_gateway_env = \<lparr> oe_shlex = (\<lambda>_. []), oe_errorText = (\<lambda>_. ''error''),
     oe_authz = GatewayAuthorizer_Authorize (gw_authz example_gateway) \<rparr>"

definition example_shell :: Operation where
  "example_shell = zero_Operation\<lparr> op_ChannelType := ChannelSession, op_RequestType := RequestShell \<rparr>"

lemma example_shell_begins:
  "\<exists>tr' h. beginConnectionOperation example_gateway_env (''s'', 5) ''op'' example_connection
     \<lparr> tr_audit = [], tr_metrics = [] \<rparr> example_shell = Inr (tr', h, None)"
proof -
  have "cs_authenticated example_connection = Some (the (cs_authenticated example_connection))"
    by (simp add: example_connection_def)
  from begin_returns[OF this] obtain tr' h err where b: "beginConnectionOperation example_gateway_env (''s'', 5) ''op'' example_connection
      \<lparr> tr_audit = [], tr_metrics = [] \<rparr> example_shell = Inr (tr', h, err)"
    by blast
  from begin_Inr[OF b] obtain sc spec d r e where
    s: "spec = connectionOperationSpec (oe_shlex example_gateway_env) (ac_target (the (cs_authenticated example_connection))) example_shell"
      "oe_authz example_gateway_env (operation_request sc spec) = (d, r, e)" "err = None \<longleftrightarrow> d = DecisionAllow" by auto
  have cap: "os_capability spec = CapabilityShell" "at_Action (os_attrs spec) = CapabilityShell"
    unfolding s(1) by (simp_all add: spec_action, simp_all add: connectionOperationSpec_def connectionSessionOperationSpec_def
        example_shell_def zero_Operation_def Let_def)
  have "oe_authz example_gateway_env (operation_request sc spec) = (DecisionAllow, [], None)"
    by (simp add: example_gateway_env_def example_gateway_def guarded_by_def PolicyLimits_Authorize_def operation_request_def
        cap containsOrWildcard_def limits_guard_def defaults_guard_def NewDefaultOptions_def default_policy_def AllowAll_def Let_def)
  then show ?thesis using s b by auto
qed

lemma policy_limits_enforced_witness:
  "\<exists>p. operation_within p (oe_shlex example_gateway_env) (ac_target (the (cs_authenticated example_connection))) example_shell"
proof -
  obtain tr' h where b: "beginConnectionOperation example_gateway_env (''s'', 5) ''op'' example_connection
     \<lparr> tr_audit = [], tr_metrics = [] \<rparr> example_shell = Inr (tr', h, None)"
    using example_shell_begins by blast
  have c: "cs_authenticated example_connection = Some (the (cs_authenticated example_connection))"
    by (simp add: example_connection_def)
  have d: "(\<exists>a. dep_Authorizer example_deps = Some (Unguarded a)) \<or>
      (\<exists>ce. buildDependencies ce NewDefaultOptions = Inr example_deps)"
    by (simp add: example_deps_def)
  have z: "oe_authz example_gateway_env = GatewayAuthorizer_Authorize (gw_authz example_gateway)"
    by (simp add: example_gateway_env_def)
  from policy_limits_enforced[OF example_gateway_runs d b z c] show ?thesis by blast
qed

end
