(* ===== verification/BuiltGateway.thy ===== *)
theory BuiltGateway
  imports DependencyLaws
begin

text \<open>
  Properties of a gateway with the Access policy enabled, as buildDependencies composes it from its
  options: revocation, the origin of Access identities, and the binding of Pod targets.
\<close>

section \<open>An example gateway\<close>

definition example_options :: Options where
  "example_options = NewDefaultOptions\<lparr> go_AccessPolicy := \<lparr> apo_Enabled = True, apo_Namespace = [] \<rparr> \<rparr>"

definition example_cluster :: clusterEnv where
  "example_cluster = \<lparr> ce_crypto = example_crypto, ce_accessIndexer = Some (list_indexer [ObjAccess login_access]),
     ce_secretIndexer = None, ce_podIndexer = example_pods,
     ce_pods = (\<lambda>ns n. if ns = ''ns'' \<and> n = ''web-0'' then Inr (web_pod ''web-0'') else Inl (NotFound n)),
     ce_labels = labels_match, ce_intn = (\<lambda>_. 0), ce_now = 1, ce_dns1123 = example_dns1123,
     ce_review = (\<lambda>_. Inl (External ''unused'')), ce_authnWebhook = (\<lambda>_. Inl (External ''unused'')),
     ce_criNew = (\<lambda>_. None), ce_authzWebhook = (\<lambda>_. Inl (External ''unused'')) \<rparr>"

lemma example_policy_cache: "policy_cache_of example_cluster example_options = example_cache"
  by (simp add: policy_cache_of_def example_cluster_def example_options_def NewDefaultOptions_def example_cache_def)

lemma example_options_simps [simp]:
  "go_Policy example_options = default_policy" "go_AdvertiseAddresses example_options = []"
  "apo_Enabled (go_AccessPolicy example_options)" "no_AuthorizedKeys (go_Authentication example_options) = []"
  "no_Passwords (go_Authentication example_options) = []" "\<not> no_Anonymous (go_Authentication example_options)"
  "\<not> Enabled (no_Webhook (go_Authentication example_options))" "\<not> zo_KubernetesSAR (go_Authorization example_options)"
  "\<not> Enabled (zo_Webhook (go_Authorization example_options))" "zo_AllowAll (go_Authorization example_options)"
  "pso_Transport (go_PodSSH example_options) = PodSSHTransportAPIServer"
  by (simp_all add: example_options_def NewDefaultOptions_def Enabled_def default_webhook_def)

lemma example_built:
  "\<exists>deps. buildDependencies example_cluster example_options = Inr deps \<and>
     (\<exists>gw. RunWithDependencies_gateway example_dns1123 example_options deps = Inr gw)"
proof -
  have rt: "\<exists>rt. buildAccessPolicyRuntime example_cluster example_options = Inr rt"
    by (simp add: buildAccessPolicyRuntime_def advertisedAccessEndpoints_def Let_def)
  have au: "\<exists>au. buildAuthenticator ck hook example_options acc = Inr au" for ck hook acc
    by (simp add: buildAuthenticator_def Let_def)
  have az: "\<exists>c. buildAuthorizer kube hook example_options acc = Inr (PolicyGuarded c)" for kube hook acc
    by (simp add: buildAuthorizer_def withPolicyGuards_def parse_default_capabilities Let_def)
  have pb: "\<exists>pb. buildPodBackend cri example_options = Inr pb" for cri
    by (simp add: buildPodBackend_def)
  obtain rt where "buildAccessPolicyRuntime example_cluster example_options = Inr rt" using rt by blast
  moreover obtain au where "buildAuthenticator (ce_crypto example_cluster) (ce_authnWebhook example_cluster) example_options
      (apr_authenticator rt) = Inr au" using au by blast
  moreover obtain c where "buildAuthorizer (ce_review example_cluster) (ce_authzWebhook example_cluster) example_options
      (apr_authorizer rt) = Inr (PolicyGuarded c)" using az by blast
  moreover obtain pb where "buildPodBackend (ce_criNew example_cluster) example_options = Inr pb" using pb by blast
  moreover have "enabledAuthenticationMethods (no_Methods (go_Authentication example_options)) = Inr [''publickey'', ''password'']"
    by code_simp
  moreover have "validatePolicyOptions example_dns1123 example_options = None" by code_simp
  ultimately show ?thesis
    by (auto simp: buildDependencies_def RunWithDependencies_gateway_def Dependencies_Validate_def)
qed

lemma built_authorizer:
  assumes "buildDependencies ce opts = Inr deps" "RunWithDependencies_gateway dns opts deps = Inr gw"
    and enabled: "apo_Enabled (go_AccessPolicy opts)"
  shows "\<exists>rest. gw_authz gw = guarded_by (go_Policy opts)
    (Chain_Authorize (AccessAuthorizer_Authorize (Some (PolicyCache_Get (policy_cache_of ce opts))) (capability_defaults opts) # rest))"
proof -
  let ?a = "AccessAuthorizer_Authorize (Some (PolicyCache_Get (policy_cache_of ce opts))) (capability_defaults opts)"
  from buildDependencies_Inr[OF assms(1)] obtain rt azr where
    rt: "buildAccessPolicyRuntime ce opts = Inr rt"
      "buildAuthorizer (ce_review ce) (ce_authzWebhook ce) opts (apr_authorizer rt) = Inr azr" "dep_Authorizer deps = Some azr"
    by blast
  have "apr_authorizer rt = Some ?a" using runtime_enabled[OF rt(1) enabled] by blast
  then obtain rest where azr: "azr = guarded_by (go_Policy opts) (Chain_Authorize (?a # rest))"
    using buildAuthorizer_Inr[OF rt(2)] by auto
  then show ?thesis using RunWithDependencies_authorizer[OF assms(2)] rt(3) by (auto simp: guarded_by_def)
qed

definition alice_info :: AuthenticateInfo where
  "alice_info = access_info \<lparr> cm_Access = login_access, cm_Credential = hd (spec_Credentials (acc_Spec login_access)) \<rparr>
     ''crd-password'' CredentialTypePassword"

definition alice_connection :: connectionState where
  "alice_connection = example_connection\<lparr> cs_authenticated := Some \<lparr> ac_info = alice_info,
     ac_target = New ''ns'' ''web-0'' ''app'', ac_fingerprint = [],
     ac_protocol = PodSSH (New ''ns'' ''web-0'' ''app'') ''/bin/sh'' zero_effectiveSessionPolicy \<rparr> \<rparr>"

lemma alice_extra:
  "GetExtra (ai_Extra alice_info) ExtraAccessNamespace = ''ns''" "GetExtra (ai_Extra alice_info) ExtraAccessName = ''acc''"
  "GetExtra (ai_Extra alice_info) ExtraCredentialUser = ''alice''"
  "extra_get (ai_Extra alice_info) ''kube-ssh/access.name'' \<noteq> []"
  by code_simp+

lemma guarded_access_Allow:
  assumes "within_limits (limits_guard p (po_Capabilities (pol_Limits p))) (rq_Attributes req)"
    and "extra_get (rq_AuthExtra req) ''kube-ssh/access.name'' \<noteq> []" "a req = (DecisionAllow, r, None)"
  shows "GatewayAuthorizer_Authorize (guarded_by p (Chain_Authorize (a # rest))) req = (DecisionAllow, r, None)"
proof -
  let ?l = "PolicyLimits_Authorize (limits_guard p (po_Capabilities (pol_Limits p))) req"
  let ?d = "PolicyLimits_Authorize (defaults_guard p (po_Capabilities (pol_Defaults p))) req"
  have "authz_passes ?l" "authz_passes ?d"
    using assms(1,2) PolicyLimits_passes_iff by (auto simp: defaults_guard_def)
  then obtain x y where "?l = (DecisionNoOpinion, x, None)" "?d = (DecisionNoOpinion, y, None)"
    by (cases ?l; cases ?d) (auto simp: authz_passes_def)
  then show ?thesis using assms(3) by (simp add: guarded_by_def)
qed

lemma alice_shell_allowed:
  "AccessAuthorizer_Authorize (Some (PolicyCache_Get example_cache)) (capability_defaults example_options)
     \<lparr> rq_User = ai_User alice_info, rq_AuthMethod = ai_Method alice_info, rq_AuthExtra = ai_Extra alice_info,
       rq_Attributes = os_attrs (connectionOperationSpec (\<lambda>_. []) (New ''ns'' ''web-0'' ''app'') example_shell) \<rparr> =
   (DecisionAllow, [], None)"
proof -
  have cred: "findCredential login_access ''alice'' = Some (hd (spec_Credentials (acc_Spec login_access)))"
    by (simp add: findCredential_def login_access_def zero_values)
  have c: "spec_Containers (acc_Spec login_access) = []"
    "cred_Containers (hd (spec_Credentials (acc_Spec login_access))) = []"
    "cred_Capabilities (hd (spec_Credentials (acc_Spec login_access))) = zero_CapabilityPolicy"
    by (simp_all add: login_access_def zero_values)
  have act: "at_Action (os_attrs (connectionOperationSpec (\<lambda>_. []) (New ''ns'' ''web-0'' ''app'') example_shell)) = CapabilityShell"
    by (simp add: connectionOperationSpec_def connectionSessionOperationSpec_def example_shell_def zero_Operation_def Let_def)
  show ?thesis
    by (simp add: AccessAuthorizer_Authorize_def alice_extra example_cache_get cred c containerAllowed_def
        capabilityAllowed_def act capability_defaults_def default_policy_def zero_values Let_def)
qed

lemma alice_shell_begins:
  assumes "buildDependencies example_cluster example_options = Inr deps"
    and "RunWithDependencies_gateway dns example_options deps = Inr gw"
    and "env = \<lparr> oe_shlex = (\<lambda>_. []), oe_errorText = (\<lambda>_. ''error''), oe_authz = GatewayAuthorizer_Authorize (gw_authz gw) \<rparr>"
  shows "\<exists>tr' h. beginConnectionOperation env (''s'', 5) ''op'' alice_connection
     \<lparr> tr_audit = [], tr_metrics = [] \<rparr> example_shell = Inr (tr', h, None)"
proof -
  let ?conn = "the (cs_authenticated alice_connection)"
  let ?a = "AccessAuthorizer_Authorize (Some (PolicyCache_Get example_cache)) (capability_defaults example_options)"
  let ?attrs = "os_attrs (connectionOperationSpec (\<lambda>_. []) (New ''ns'' ''web-0'' ''app'') example_shell)"
  have conn: "cs_authenticated alice_connection = Some ?conn" by (simp add: alice_connection_def)
  obtain rest where g: "gw_authz gw = guarded_by default_policy (Chain_Authorize (?a # rest))"
    using built_authorizer[OF assms(1,2)] by (auto simp: example_policy_cache)
  from begin_returns[OF conn] obtain tr' h err where b: "beginConnectionOperation env (''s'', 5) ''op'' alice_connection
      \<lparr> tr_audit = [], tr_metrics = [] \<rparr> example_shell = Inr (tr', h, err)" by blast
  from begin_Inr[OF b] obtain sc spec d r e where
    s: "spec = connectionOperationSpec (\<lambda>_. []) (New ''ns'' ''web-0'' ''app'') example_shell" "oc_info sc = alice_info"
      "GatewayAuthorizer_Authorize (gw_authz gw) (operation_request sc spec) = (d, r, e)" "err = None \<longleftrightarrow> d = DecisionAllow"
    using conn by (auto simp: alice_connection_def assms(3))
  have req: "operation_request sc spec = \<lparr> rq_User = ai_User alice_info, rq_AuthMethod = ai_Method alice_info,
      rq_AuthExtra = ai_Extra alice_info, rq_Attributes = ?attrs \<rparr>"
    using s(1,2) by (simp add: operation_request_def)
  have lim: "within_limits (limits_guard default_policy (po_Capabilities (pol_Limits default_policy))) ?attrs"
    unfolding within_limits_operation
    by (simp add: operation_within_def limits_guard_def default_policy_def example_shell_def zero_Operation_def Let_def)
  have "GatewayAuthorizer_Authorize (gw_authz gw) (operation_request sc spec) = (DecisionAllow, [], None)"
    unfolding g req by (rule guarded_access_Allow) (use lim alice_extra(4) alice_shell_allowed in simp_all)
  then show ?thesis using s(3,4) b by auto
qed

section \<open>Properties\<close>

text \<open>
  C16. Revocation is immediate: in a gateway built from its options, an operation of a client that is
  logged in through an Access begins without error only if, at that moment, the Access still
  exists and is accepted by this gateway, still has the client's credential, and both still permit
  the container of the connection's target and the capability with its forwarding restrictions.
\<close>

theorem access_revocation_immediate:
  assumes built: "buildDependencies ce opts = Inr deps" "RunWithDependencies_gateway dns opts deps = Inr gw"
    and enabled: "apo_Enabled (go_AccessPolicy opts)"
    and op: "beginConnectionOperation env stamp opID ctx tr operation = Inr (tr', h, None)"
    and az: "oe_authz env = GatewayAuthorizer_Authorize (gw_authz gw)"
    and conn: "cs_authenticated ctx = Some conn"
    and id: "GetExtra (ai_Extra (ac_info conn)) ExtraAccessNamespace \<noteq> []"
      "GetExtra (ai_Extra (ac_info conn)) ExtraAccessName \<noteq> []"
      "GetExtra (ai_Extra (ac_info conn)) ExtraCredentialUser \<noteq> []"
  shows "access_permits (PolicyCache_Get (policy_cache_of ce opts)) (capability_defaults opts) (ai_Extra (ac_info conn))
    (os_attrs (connectionOperationSpec (oe_shlex env) (ac_target conn) operation))
    (Target_Option (ac_target conn) OptionContainers)"
proof -
  let ?a = "AccessAuthorizer_Authorize (Some (PolicyCache_Get (policy_cache_of ce opts))) (capability_defaults opts)"
  obtain rest where g: "gw_authz gw = guarded_by (go_Policy opts) (Chain_Authorize (?a # rest))"
    using built_authorizer[OF built enabled] by blast
  obtain sc r e where sc: "oc_info sc = ac_info conn" "oc_target sc = ac_target conn"
    "GatewayAuthorizer_Authorize (guarded_by (go_Policy opts) (Chain_Authorize (?a # rest)))
       (operation_request sc (connectionOperationSpec (oe_shlex env) (ac_target conn) operation)) = (DecisionAllow, r, e)"
    using begin_Inr[OF op] conn az g by auto
  let ?req = "operation_request sc (connectionOperationSpec (oe_shlex env) (ac_target conn) operation)"
  have "Chain_Authorize (?a # rest) ?req = (DecisionAllow, r, e)" using guarded_by_Allow[OF sc(3)] by blast
  then have "?a ?req = (DecisionAllow, r, e)"
    by (rule AccessAuthorizer_decides[rotated 3]) (use id sc(1) in \<open>simp_all add: operation_request_def\<close>)
  from AccessAuthorizer_Allow[OF this] show ?thesis
    using sc(1) by (simp add: operation_request_def spec_target_options)
qed

lemma access_revocation_immediate_witness:
  "access_permits (PolicyCache_Get example_cache) (capability_defaults example_options) (ai_Extra alice_info)
    (os_attrs (connectionOperationSpec (\<lambda>_. []) (New ''ns'' ''web-0'' ''app'') example_shell)) ''app''"
proof -
  obtain deps gw where g: "buildDependencies example_cluster example_options = Inr deps"
    "RunWithDependencies_gateway example_dns1123 example_options deps = Inr gw" using example_built by blast
  let ?env = "\<lparr> oe_shlex = (\<lambda>_. []), oe_errorText = (\<lambda>_. ''error''), oe_authz = GatewayAuthorizer_Authorize (gw_authz gw) \<rparr>"
  obtain tr' h where b: "beginConnectionOperation ?env (''s'', 5) ''op'' alice_connection
     \<lparr> tr_audit = [], tr_metrics = [] \<rparr> example_shell = Inr (tr', h, None)"
    using alice_shell_begins[OF g] by blast
  have c: "cs_authenticated alice_connection = Some (the (cs_authenticated alice_connection))"
    "ac_info (the (cs_authenticated alice_connection)) = alice_info"
    "ac_target (the (cs_authenticated alice_connection)) = New ''ns'' ''web-0'' ''app''"
    by (simp_all add: alice_connection_def)
  have e: "apo_Enabled (go_AccessPolicy example_options)" by simp
  have z: "oe_authz ?env = GatewayAuthorizer_Authorize (gw_authz gw)" by simp
  have i: "GetExtra (ai_Extra (ac_info (the (cs_authenticated alice_connection)))) ExtraAccessNamespace \<noteq> []"
    "GetExtra (ai_Extra (ac_info (the (cs_authenticated alice_connection)))) ExtraAccessName \<noteq> []"
    "GetExtra (ai_Extra (ac_info (the (cs_authenticated alice_connection)))) ExtraCredentialUser \<noteq> []"
    unfolding c(2) alice_extra by simp_all
  from access_revocation_immediate[OF g e b z c(1) i] show ?thesis
    unfolding c(2,3) example_policy_cache by simp
qed

text \<open>
  Access identities are genuine: when the gateway's composed authenticator accepts a password or a
  key and the resulting identity claims an Access, that identity was established by the Access
  authenticator, which found the credential in the Access the user name designates; neither
  static entries nor a webhook nor anonymous login can claim one.
\<close>

theorem access_identity_genuine:
  assumes "buildAuthenticator ck hook opts acc = Inr au" "GetExtra (ai_Extra info) ExtraAccessName \<noteq> []"
    and "acc = None \<or> acc = Some (AccessAuthenticator ck c)"
  shows "(au_AuthenticateBasic au u p = Inr info \<longrightarrow>
      (\<exists>m. MatchPassword c u p = Inr m \<and> info = access_info m ''crd-password'' CredentialTypePassword)) \<and>
    (au_AuthenticatePublicKey au u k = Inr info \<longrightarrow>
      (\<exists>m. MatchPublicKey ck c u (Some k) = Inr m \<and> info = access_info m ''crd-publickey'' CredentialTypePublicKey))"
  using identity_from_access(1)[OF assms(1,2), of u p] identity_from_access(2)[OF assms(1,2), of u k] assms(3)
  by (auto simp: AccessAuthenticator_def bind_result_Inr_iff)

lemma access_identity_genuine_witness:
  "\<exists>m. MatchPassword example_cache ''ns.acc'' ''secret'' = Inr m"
proof -
  obtain au where au: "buildAuthenticator example_crypto (\<lambda>_. Inl (External ''unused'')) example_options
      (Some (AccessAuthenticator example_crypto example_cache)) = Inr au"
    "au = NewChain [StaticPublicKeyAuthenticator example_crypto [], StaticPasswordAuthenticator [],
       AccessAuthenticator example_crypto example_cache]"
    by (simp add: buildAuthenticator_def Let_def)
  have "map_option (\<lambda>i. GetExtra (ai_Extra i) ExtraAccessName)
      (case au_AuthenticateBasic (NewChain [StaticPublicKeyAuthenticator example_crypto [], StaticPasswordAuthenticator [],
         AccessAuthenticator example_crypto example_cache]) ''ns.acc'' ''secret'' of Inl _ \<Rightarrow> None | Inr i \<Rightarrow> Some i) = Some ''acc''"
    by code_simp
  then obtain info where i: "au_AuthenticateBasic au ''ns.acc'' ''secret'' = Inr info" "GetExtra (ai_Extra info) ExtraAccessName \<noteq> []"
    unfolding au(2) by (auto split: sum.splits)
  show ?thesis using access_identity_genuine[OF au(1) i(2), of example_cache "''ns.acc''" "''secret''" "''K''"] i(1) by blast
qed

text \<open>
  C17. Every Pod target is bound: whatever route a gateway's resolver takes - an Access, a
  \<^verbatim>\<open>namespace.pod\<close> user name or a hint of the authenticator - a Pod target it returns carries the
  namespace, name, UID, node and address of one Pod of the cluster and names a container of that Pod which
  the gateway's limit mode permits.  The Pod is either the one that the API server returns under that
  name, and then the default mode permits the container too, or an active Pod that the Pod informer
  lists for the namespace and the selector of an Access of the policy cache.
\<close>

theorem pod_targets_bound:
  assumes built: "buildDependencies ce opts = Inr deps" "dep_Resolver deps = Some resolver"
    and ok: "cluster_ok ce" "cache_ok (policy_cache_of ce opts)" "pod_index_ok (ce_podIndexer ce)"
    and uid: "\<And>ns sel ps p. InformerPodLister_List (ce_podIndexer ce) ns sel = Inr ps \<Longrightarrow> p \<in> set ps \<Longrightarrow> pod_UID p \<noteq> []"
    and res: "resolver (st, input) = (st', Inr t)" "t_Kind t = KindPod"
  shows "\<exists>pod c. bound_to t pod c \<and> mode_permits (po_ContainerMode (pol_Limits (go_Policy opts))) pod c \<and>
    (ce_pods ce (pod_Namespace pod) (pod_Name pod) = Inr pod \<and>
       mode_permits (po_ContainerMode (pol_Defaults (go_Policy opts))) pod c \<or>
     (\<exists>a ps. PolicyCache_Get (policy_cache_of ce opts) (acc_Namespace a) (acc_Name a) = Inr a \<and>
        InformerPodLister_List (ce_podIndexer ce) (acc_Namespace a) (spec_Selector (acc_Spec a)) = Inr ps \<and>
        pod \<in> set ps \<and> pod_active pod))"
proof -
  let ?r = "\<lparr> br_defaultMode = po_ContainerMode (pol_Defaults (go_Policy opts)),
    br_limitMode = po_ContainerMode (pol_Limits (go_Policy opts)) \<rparr>"
  from buildDependencies_Inr[OF built(1)] obtain rt where rt: "buildAccessPolicyRuntime ce opts = Inr rt"
    "resolver = BindingResolver_Resolve ?r (ce_pods ce) (buildResolver (apr_resolver rt) UsernameResolver_Resolve)"
    using built(2) by auto
  obtain tgt where tgt: "buildResolver (apr_resolver rt) UsernameResolver_Resolve (st, input) = (st', Inr tgt)"
    "bind_target ?r (ce_pods ce) tgt = Inr t"
    using res(1) by (auto simp: rt(2) BindingResolver_Resolve_def split: prod.splits sum.splits)
  show ?thesis
    using buildResolver_source[OF tgt(1)]
  proof
    assume "b_UID (BoundIdentity tgt) = [] \<and> (\<forall>x \<in> set (t_Options tgt). opt_Value x \<noteq> [])"
    then have u: "b_UID (BoundIdentity tgt) = []" "\<forall>x \<in> set (t_Options tgt). opt_Value x \<noteq> []" by blast+
    from bind_target_cluster[OF ok(1) tgt(2) res(2) u] show ?thesis by fastforce
  next
    assume "\<exists>r st0. apr_resolver rt = Some r \<and> r (st0, input) = (st', Inr tgt)"
    then obtain st0 where acc: "AccessResolver_Resolve (access_resolver_env ce opts) (st0, input) = (st', Inr tgt)"
      using runtime_enabled[OF rt(1)] runtime_disabled[OF rt(1)] by force
    have k: "t_Kind tgt = KindPod" using tgt(2) res(2) by (auto simp: bind_target_def split: if_splits)
    have e: "env_get (access_resolver_env ce opts) = PolicyCache_Get (policy_cache_of ce opts)"
      "env_pods (access_resolver_env ce opts) = Some (InformerPodLister_List (ce_podIndexer ce))"
      "cpol_LimitMode (env_policy (access_resolver_env ce opts)) = po_ContainerMode (pol_Limits (go_Policy opts))"
      by (simp_all add: access_resolver_env_def)
    from AccessResolver_requested[OF ok(2) e(1) ok(3) e(2) acc k] obtain a p c ps where
      p: "tgt = Bind p c" "InformerPodLister_List (ce_podIndexer ce) (acc_Namespace a) (spec_Selector (acc_Spec a)) = Inr ps"
        "p \<in> set ps" "pod_Namespace p \<noteq> []" "pod_Name p \<noteq> []"
        "container_confined (env_policy (access_resolver_env ce opts)) a (GetExtra (ri_AuthExtra input) ExtraCredentialUser) p c"
        "PolicyCache_Get (policy_cache_of ce opts) (acc_Namespace a) (acc_Name a) = Inr a" "pod_active p"
      by blast
    have c: "c \<in> set (pod_Containers p)" "mode_permits (po_ContainerMode (pol_Limits (go_Policy opts))) p c"
      using p(6) e(3) by (auto simp: container_confined_def)
    have b: "bound_to tgt p c" using bound_to_Bind[OF p(4,5) c(1)] p(1) by simp
    then have "b_UID (BoundIdentity tgt) \<noteq> []" using uid[OF p(2,3)] by (simp add: bound_to_def)
    then have "t = tgt" using tgt(2) k by (simp add: bind_target_def)
    then show ?thesis using b c(2) p(2,3,7,8) by blast
  qed
qed

definition direct_input :: ResolveInput where
  "direct_input = example_input\<lparr> ri_SSHUser := ''ns.web-0'' \<rparr>"

lemma example_cluster_ok: "cluster_ok example_cluster"
  by (auto simp: cluster_ok_def example_cluster_def web_pod_def split: if_splits)

lemma pod_targets_bound_witness:
  "\<exists>deps resolver st' t pod c. buildDependencies example_cluster example_options = Inr deps \<and>
     dep_Resolver deps = Some resolver \<and> resolver (example_state, direct_input) = (st', Inr t) \<and> bound_to t pod c \<and>
     pod = web_pod ''web-0''"
proof -
  obtain deps where d: "buildDependencies example_cluster example_options = Inr deps" using example_built by blast
  let ?r = "BindingResolver_Resolve
      \<lparr> br_defaultMode = po_ContainerMode (pol_Defaults default_policy), br_limitMode = po_ContainerMode (pol_Limits default_policy) \<rparr>
      (ce_pods example_cluster)
      (buildResolver (Some (AccessResolver_Resolve (access_resolver_env example_cluster example_options))) UsernameResolver_Resolve)"
  from buildDependencies_Inr[OF d] obtain rt where rt: "buildAccessPolicyRuntime example_cluster example_options = Inr rt"
    "dep_Resolver deps = Some (BindingResolver_Resolve
      \<lparr> br_defaultMode = po_ContainerMode (pol_Defaults default_policy), br_limitMode = po_ContainerMode (pol_Limits default_policy) \<rparr>
      (ce_pods example_cluster) (buildResolver (apr_resolver rt) UsernameResolver_Resolve))"
    by auto
  have r: "dep_Resolver deps = Some ?r" using rt runtime_enabled[OF rt(1)] by simp
  have "map_option t_Kind (case snd (?r (example_state, direct_input)) of Inl _ \<Rightarrow> None | Inr t \<Rightarrow> Some t) = Some KindPod"
    by code_simp
  then obtain st' t where t: "?r (example_state, direct_input) = (st', Inr t)" "t_Kind t = KindPod"
    by (cases "?r (example_state, direct_input)") (auto split: sum.splits)
  have ok: "cache_ok (policy_cache_of example_cluster example_options)" "pod_index_ok (ce_podIndexer example_cluster)"
    using example_cache_ok example_pods_ok by (simp_all add: example_policy_cache) (simp add: example_cluster_def)
  have uid: "\<And>ns sel ps p. InformerPodLister_List (ce_podIndexer example_cluster) ns sel = Inr ps \<Longrightarrow> p \<in> set ps \<Longrightarrow> pod_UID p \<noteq> []"
    by (auto simp: example_cluster_def example_pods_def InformerPodLister_List_def list_indexer_def web_pod_def
        object_pods_iff split: if_splits)
  have "\<exists>pod c. bound_to t pod c \<and> mode_permits (po_ContainerMode (pol_Limits (go_Policy example_options))) pod c \<and>
    (ce_pods example_cluster (pod_Namespace pod) (pod_Name pod) = Inr pod \<and>
       mode_permits (po_ContainerMode (pol_Defaults (go_Policy example_options))) pod c \<or>
     (\<exists>a ps. PolicyCache_Get (policy_cache_of example_cluster example_options) (acc_Namespace a) (acc_Name a) = Inr a \<and>
        InformerPodLister_List (ce_podIndexer example_cluster) (acc_Namespace a) (spec_Selector (acc_Spec a)) = Inr ps \<and>
        pod \<in> set ps \<and> pod_active pod))"
    by (rule pod_targets_bound[OF d r example_cluster_ok ok _ t]) (rule uid)
  then obtain pod c where w: "bound_to t pod c"
    "ce_pods example_cluster (pod_Namespace pod) (pod_Name pod) = Inr pod \<or>
     (\<exists>a ps. InformerPodLister_List (ce_podIndexer example_cluster) (acc_Namespace a) (spec_Selector (acc_Spec a)) = Inr ps \<and> pod \<in> set ps)"
    by blast
  have "pod = web_pod ''web-0''"
    using w(2) by (auto simp: example_cluster_def example_pods_def InformerPodLister_List_def list_indexer_def object_pods_iff split: if_splits)
  then show ?thesis using d r t(1) w(1) by blast
qed

end
