(* ===== verification/GatewayServer.thy ===== *)
theory GatewayServer
  imports BuiltGateway
begin

text \<open>
  One SSH connection of the gateway (\<^verbatim>\<open>pkg/gateway/authentication.go\<close>, \<^verbatim>\<open>gateway.go\<close>: acceptAuthenticated and
  connectionEstablished, \<^verbatim>\<open>server.go\<close>: handleConnection, \<^verbatim>\<open>connection_audit.go\<close>, \<^verbatim>\<open>connection_context.go\<close>).

  The callbacks handed to golang.org/x/crypto/ssh are functions on the connection's state; that package
  is the environment of the machine and behaves as documented: until the callback of method
  \<^verbatim>\<open>none\<close> has answered with a PartialSuccessError no other callback is called, afterwards the user
  name is fixed and only the callbacks it named are called; a public key is first passed to
  PublicKeyCallback, whose permissions it may cache for that key, and VerifiedPublicKeyCallback is called
  with the permissions of that key after the client's signature has been verified; a signature that
  does not verify ends the handshake.
\<close>

section \<open>Connection state\<close>

definition setMetadata :: "connectionState \<Rightarrow> connectionMetadata \<Rightarrow> connectionState" where
  "setMetadata c conn = c\<lparr> cs_metadata := conn \<rparr>"

definition publishAuthenticated :: "connectionState \<Rightarrow> authenticatedConnection \<Rightarrow> connectionState" where
  "publishAuthenticated c result = c\<lparr> cs_authenticated := Some result \<rparr>"

definition markEstablished :: "connectionState \<Rightarrow> connectionState" where
  "markEstablished c = c\<lparr> cs_established := True \<rparr>"

definition remoteHost :: "string option \<Rightarrow> string" where
  "remoteHost addr =
     (case addr of
        None \<Rightarrow> []
      | Some a \<Rightarrow> (case SplitHostPort a of Inl _ \<Rightarrow> a | Inr (host, _) \<Rightarrow> host))"

section \<open>Authentication\<close>

record authenticationResult =
  anr_info :: AuthenticateInfo
  anr_fingerprint :: string
  anr_credential :: string

text \<open>
  The connection as its callbacks see it: the two variables the callbacks share, the state x/crypto
  keeps (the methods it was told to offer, cached permissions, the permissions it finished with), and
  how far handleConnection has come.
\<close>

datatype phase = Handshake | Serving | Ended

record connectionMachine =
  m_cs :: connectionState
  m_resolver :: resolverState
  m_trace :: gatewayTrace
  m_fingerprint :: string
  m_reported :: bool
  m_next :: "(bool \<times> bool) option"
  m_cache :: "(PublicKey \<times> authenticationResult) list"
  m_permissions :: "authenticationResult option"
  m_phase :: phase

definition recordAuthentication ::
  "stamp \<Rightarrow> connectionState \<Rightarrow> gatewayTrace \<Rightarrow> string \<Rightarrow> string \<Rightarrow> string \<Rightarrow> AuthenticateInfo option \<Rightarrow> go_error option \<Rightarrow>
    gatewayTrace" where
  "recordAuthentication stamp ctx tr method fingerprint result info err =
     (let event = connectionEvent stamp ctx ''authentication.result'';
          event1 = event\<lparr> ev_Outcome := Some (zero_Outcome\<lparr> out_Result := result,
            out_Reason := (if err \<noteq> None then ''authentication rejected'' else []) \<rparr>) \<rparr>;
          event2 = (case info of
                      Some i \<Rightarrow> event1\<lparr> ev_Actor := Some (auditActor i fingerprint), ev_Access := auditAccess i \<rparr>
                    | None \<Rightarrow> event1);
          event3 = (if ev_Actor event2 = None
                    then event2\<lparr> ev_Actor := Some \<lparr> act_ID = [], act_Name = [], act_Email = [], act_EmailVerified = False,
                           act_Groups = [], act_AuthenticationMethod = method, act_PublicKeyFingerprint = fingerprint \<rparr> \<rparr>
                    else event2)
      in audit_Record tr event3)"

definition selectConnectionProtocol :: "gateway \<Rightarrow> Target \<Rightarrow> effectiveSessionPolicy \<Rightarrow> Protocol result" where
  "selectConnectionProtocol gw tgt policy =
     (if t_Kind tgt = KindPod then
        (if gw_podBackend gw = None then Inl (Errorf ''pod SSH backend is not configured'' [])
         else Inr (PodSSH tgt (esp_DefaultShell policy) policy))
      else if t_Kind tgt = KindExternalSSH then
        (if gw_sshProxy gw = None then Inl (Errorf ''upstream SSH connector is not configured'' [])
         else Inr (UpstreamSSH tgt policy))
      else Inl (Errorf ''target kind %q has no SSH protocol implementation'' [t_Kind tgt]))"

definition resolve_input :: "connectionState \<Rightarrow> AuthenticateInfo \<Rightarrow> ResolveInput" where
  "resolve_input ctx info =
     \<lparr> ri_SSHUser = cm_user (cs_metadata ctx), ri_UserName = u_Name (ai_User info), ri_AuthExtra = ai_Extra info,
       ri_SourceIP = remoteHost (cm_remote (cs_metadata ctx)), ri_Hints = ai_TargetHints info \<rparr>"

definition target_event ::
  "stamp \<Rightarrow> connectionState \<Rightarrow> AuthenticateInfo \<Rightarrow> string \<Rightarrow> Target option \<Rightarrow> string \<Rightarrow> string \<Rightarrow> Event" where
  "target_event stamp ctx info fingerprint tgt result errText =
     (connectionEvent stamp ctx ''target_resolution.result'')\<lparr> ev_Actor := Some (auditActor info fingerprint),
       ev_Target := (case tgt of Some t \<Rightarrow> auditTarget (Some t)
                     | None \<Rightarrow> ev_Target (connectionEvent stamp ctx ''target_resolution.result'')),
       ev_Access := auditAccess info,
       ev_Outcome := Some (zero_Outcome\<lparr> out_Result := result, out_Error := errText \<rparr>) \<rparr>"

definition acceptAuthenticated ::
  "(go_error \<Rightarrow> string) \<Rightarrow> gateway \<Rightarrow> stamp \<Rightarrow> connectionMachine \<Rightarrow> AuthenticateInfo \<Rightarrow> string \<Rightarrow> string \<Rightarrow>
    connectionMachine \<times> bool" where
  "acceptAuthenticated errorText gw stamp m info publicKeyFingerprint credential =
     (let ctx = m_cs m
      in case gw_resolver gw (m_resolver m, resolve_input ctx info) of
           (rs, Inl err) \<Rightarrow>
             (m\<lparr> m_resolver := rs,
                 m_trace := metrics_Record
                   (audit_Record (m_trace m)
                     (target_event stamp ctx info publicKeyFingerprint None ResultRejected (errorText err)))
                   (AuthAttempt credential ''target_rejected'') \<rparr>, False)
         | (rs, Inr tgt) \<Rightarrow>
             let tr = audit_Record (m_trace m)
                        (target_event stamp ctx info publicKeyFingerprint (Some tgt) ResultSuccess []);
                 m1 = m\<lparr> m_resolver := rs, m_trace := tr \<rparr>
             in case resolveSessionPolicy (gw_policy gw) (gw_accessPolicy gw) (cm_user (cs_metadata ctx)) (ai_Extra info) of
                  Inl err \<Rightarrow>
                    (m1\<lparr> m_trace := metrics_Record tr (AuthAttempt credential ''session_policy_rejected'') \<rparr>, False)
                | Inr policy \<Rightarrow>
                    let ctx1 = ctx\<lparr> cs_policyConn := ApplyPolicy (cs_policyConn ctx) policy (snd stamp) \<rparr>
                    in case selectConnectionProtocol gw tgt policy of
                         Inl err \<Rightarrow>
                           (m1\<lparr> m_cs := ctx1, m_trace := metrics_Record tr (AuthAttempt credential ''protocol_rejected'') \<rparr>, False)
                       | Inr protocol \<Rightarrow>
                           (m1\<lparr> m_cs := publishAuthenticated ctx1 \<lparr> ac_info = info, ac_target = tgt,
                              ac_fingerprint = publicKeyFingerprint, ac_protocol = protocol \<rparr> \<rparr>, True))"

text \<open>The closure \<^verbatim>\<open>finish\<close> of authenticationConfig.\<close>

definition finish_authentication ::
  "(go_error \<Rightarrow> string) \<Rightarrow> gateway \<Rightarrow> stamp \<Rightarrow> stamp \<Rightarrow> connectionMachine \<Rightarrow> authenticationResult \<Rightarrow>
    connectionMachine \<times> authenticationResult result" where
  "finish_authentication errorText gw s1 s2 m result =
     (let tr = recordAuthentication s1 (m_cs m) (m_trace m) (anr_credential result) (anr_fingerprint result) ResultSuccess
            (Some (anr_info result)) None;
          m1 = m\<lparr> m_trace := tr, m_reported := True \<rparr>
      in case acceptAuthenticated errorText gw s2 m1 (anr_info result) (anr_fingerprint result) (anr_credential result) of
           (m2, ok) \<Rightarrow> (m2, if ok then Inr result else Inl (Errorf ''permission denied'' [])))"

definition publicKey_callback ::
  "CryptoSSH \<Rightarrow> gateway \<Rightarrow> connectionMachine \<Rightarrow> PublicKey \<Rightarrow> connectionMachine \<times> authenticationResult result" where
  "publicKey_callback ck gw m key =
     (let fingerprint = ck_FingerprintSHA256 ck key
      in (m\<lparr> m_fingerprint := fingerprint, m_reported := False \<rparr>,
          bind_result (au_AuthenticatePublicKey (gw_authn gw) (cm_user (cs_metadata (m_cs m))) key) (\<lambda>info.
            Inr \<lparr> anr_info = info, anr_fingerprint = fingerprint, anr_credential = ''publickey'' \<rparr>)))"

definition password_callback ::
  "(go_error \<Rightarrow> string) \<Rightarrow> gateway \<Rightarrow> stamp \<Rightarrow> stamp \<Rightarrow> connectionMachine \<Rightarrow> string \<Rightarrow>
    connectionMachine \<times> authenticationResult result" where
  "password_callback errorText gw s1 s2 m v =
     (let m1 = m\<lparr> m_reported := False \<rparr>
      in case au_AuthenticateBasic (gw_authn gw) (cm_user (cs_metadata (m_cs m))) v of
           Inl err \<Rightarrow> (m1, Inl err)
         | Inr info \<Rightarrow>
             finish_authentication errorText gw s1 s2 m1
               \<lparr> anr_info = info, anr_fingerprint = [], anr_credential = ''password'' \<rparr>)"

text \<open>
  The methods offered for a user name: those enabled in the options, and, when the user name designates
  an Access, only those one of its credentials uses.
\<close>

definition offered_methods :: "gateway \<Rightarrow> string \<Rightarrow> string list result" where
  "offered_methods gw user =
     (case gw_accessPolicy gw of
        None \<Rightarrow> Inr (gw_methods gw)
      | Some get \<Rightarrow>
          bind_result (AuthenticationMethods get user) (\<lambda>(accessMethods, found).
            Inr (if found then accessMethods else gw_methods gw)))"

definition none_callback :: "gateway \<Rightarrow> connectionMachine \<Rightarrow> connectionMetadata \<Rightarrow> connectionMachine \<times> (bool \<times> bool) result" where
  "none_callback gw m conn =
     (let m1 = m\<lparr> m_cs := setMetadata (m_cs m) conn \<rparr>
      in (m1,
          case offered_methods gw (cm_user conn) of
            Inl err \<Rightarrow> Inl (Errorf ''permission denied'' [])
          | Inr methods \<Rightarrow>
              let publicKey = (''publickey'' \<in> set (gw_methods gw) \<and> ''publickey'' \<in> set methods);
                  password = (''password'' \<in> set (gw_methods gw) \<and> ''password'' \<in> set methods)
              in if \<not> publicKey \<and> \<not> password then Inl (Errorf ''permission denied'' []) else Inr (publicKey, password)))"

definition authLog_callback ::
  "stamp \<Rightarrow> connectionMachine \<Rightarrow> string \<Rightarrow> go_error option \<Rightarrow> connectionMachine" where
  "authLog_callback stamp m method err =
     (if method = ''none'' \<or> err = None \<or> m_reported m then m\<lparr> m_reported := False \<rparr>
      else
        let attemptFingerprint = (if method = ''publickey'' then m_fingerprint m else [])
        in m\<lparr> m_reported := False,
               m_trace := metrics_Record
                 (recordAuthentication stamp (m_cs m) (m_trace m) method attemptFingerprint ResultRejected None err)
                 (AuthAttempt method ResultRejected) \<rparr>)"

section \<open>The connection\<close>

definition startConnectionAudit :: "stamp \<Rightarrow> string \<Rightarrow> connectionState \<Rightarrow> gatewayTrace \<Rightarrow> connectionState \<times> gatewayTrace" where
  "startConnectionAudit stamp newID ctx tr =
     (let ctx' = ctx\<lparr> cs_auditID := newID, cs_auditStarted := snd stamp \<rparr>
      in (ctx', audit_Record tr (connectionEvent stamp ctx' ''connection.start'')))"

definition finishConnectionAudit :: "stamp \<Rightarrow> connectionState \<Rightarrow> gatewayTrace \<Rightarrow> gatewayTrace" where
  "finishConnectionAudit stamp ctx tr =
     audit_Record tr ((connectionEvent stamp ctx ''connection.end'')\<lparr>
       ev_Outcome := Some (zero_Outcome\<lparr> out_Result := (if cs_established ctx then ''success'' else ''rejected''),
         out_DurationMS := (snd stamp - cs_auditStarted ctx) div 1000000 \<rparr>) \<rparr>)"

definition connectionEstablished :: "stamp \<Rightarrow> connectionMachine \<Rightarrow> string \<Rightarrow> connectionMachine result" where
  "connectionEstablished stamp m credential =
     (let ctx = markEstablished (m_cs m)
      in case cs_authenticated ctx of
           None \<Rightarrow> Inl (Panic ''nil pointer dereference'')
         | Some result \<Rightarrow>
             let ready = (connectionEvent stamp ctx ''connection.ready'')\<lparr>
                   ev_Outcome := Some (zero_Outcome\<lparr> out_Result := ResultSuccess \<rparr>) \<rparr>
             in Inr (m\<lparr> m_cs := ctx, m_phase := Serving,
                        m_trace := metrics_Record (metrics_Record (audit_Record (m_trace m) ready)
                          (AuthAttempt credential ResultSuccess)) (ConnectionOpened (ai_Method (ac_info result))) \<rparr>))"

definition handleConnection_start ::
  "gateway \<Rightarrow> resolverState \<Rightarrow> gatewayTrace \<Rightarrow> stamp \<Rightarrow> string \<Rightarrow> string option \<Rightarrow> string option \<Rightarrow> int \<Rightarrow> connectionMachine" where
  "handleConnection_start gw rs tr stamp newID remote loc now =
     (case startConnectionAudit stamp newID
             \<lparr> cs_metadata = \<lparr> cm_user = [], cm_clientVersion = [], cm_serverVersion = [], cm_remote = remote, cm_local = loc \<rparr>,
               cs_authenticated = None, cs_established = False, cs_auditID = [], cs_auditStarted = 0,
               cs_policyConn = newSessionPolicyConn (buildGlobalSessionPolicy (gw_policy gw)) now \<rparr> tr of
        (ctx, tr') \<Rightarrow>
          \<lparr> m_cs = ctx, m_resolver = rs, m_trace = tr', m_fingerprint = [], m_reported = False, m_next = None,
            m_cache = [], m_permissions = None, m_phase = Handshake \<rparr>)"

text \<open>The deferred function of handleConnection.\<close>

definition handleConnection_end :: "stamp \<Rightarrow> connectionMachine \<Rightarrow> connectionMachine result" where
  "handleConnection_end stamp m =
     (let ctx = (m_cs m)\<lparr> cs_policyConn := conn_Close (cs_policyConn (m_cs m)) \<rparr>
      in if cs_established ctx then
           (case cs_authenticated ctx of
              None \<Rightarrow> Inl (Panic ''nil pointer dereference'')
            | Some result \<Rightarrow>
                Inr (m\<lparr> m_cs := ctx, m_phase := Ended,
                        m_trace := finishConnectionAudit stamp ctx
                          (metrics_Record (m_trace m) (ConnectionClosed (ai_Method (ac_info result)))) \<rparr>))
         else Inr (m\<lparr> m_cs := ctx, m_phase := Ended, m_trace := finishConnectionAudit stamp ctx (m_trace m) \<rparr>))"

text \<open>
  What a connection runs in.  \<^verbatim>\<open>se_verifies\<close> is the check of golang.org/x/crypto/ssh that a signature was
  made with a key over the authentication request of this SSH session for a user name.
\<close>

record serverEnv =
  se_crypto :: CryptoSSH
  se_gateway :: gateway
  se_errorText :: "go_error \<Rightarrow> string"
  se_verifies :: "PublicKey \<Rightarrow> string \<Rightarrow> string \<Rightarrow> bool"

inductive server_step :: "serverEnv \<Rightarrow> connectionMachine \<Rightarrow> connectionMachine \<Rightarrow> bool" for env :: serverEnv where
  step_none_rejected: "m_phase m = Handshake \<Longrightarrow> m_permissions m = None \<Longrightarrow> m_next m = None \<Longrightarrow>
    none_callback (se_gateway env) m conn = (m', Inl err) \<Longrightarrow> server_step env m (authLog_callback s3 m' ''none'' (Some err))"
| step_none_partial: "m_phase m = Handshake \<Longrightarrow> m_permissions m = None \<Longrightarrow> m_next m = None \<Longrightarrow>
    none_callback (se_gateway env) m conn = (m', Inr nxt) \<Longrightarrow>
    server_step env m (authLog_callback s3 (m'\<lparr> m_next := Some nxt \<rparr>) ''none'' (Some (Errorf ''partial success'' [])))"
| step_key_query: "m_phase m = Handshake \<Longrightarrow> m_permissions m = None \<Longrightarrow> m_next m = Some (True, pw) \<Longrightarrow>
    publicKey_callback (se_crypto env) (se_gateway env) m key = (m', Inr result) \<Longrightarrow>
    server_step env m (m'\<lparr> m_cache := (key, result) # m_cache m' \<rparr>)"
| step_key_rejected: "m_phase m = Handshake \<Longrightarrow> m_permissions m = None \<Longrightarrow> m_next m = Some (True, pw) \<Longrightarrow>
    publicKey_callback (se_crypto env) (se_gateway env) m key = (m', Inl err) \<Longrightarrow>
    server_step env m (authLog_callback s3 m' ''publickey'' (Some err))"
| step_key_verified: "m_phase m = Handshake \<Longrightarrow> m_permissions m = None \<Longrightarrow> m_next m = Some (True, pw) \<Longrightarrow>
    (key, result) \<in> set (m_cache m) \<Longrightarrow> se_verifies env key (cm_user (cs_metadata (m_cs m))) signature \<Longrightarrow>
    finish_authentication (se_errorText env) (se_gateway env) s1 s2 m result = (m', Inr result') \<Longrightarrow>
    server_step env m (authLog_callback s3 (m'\<lparr> m_permissions := Some result' \<rparr>) ''publickey'' None)"
| step_key_refused: "m_phase m = Handshake \<Longrightarrow> m_permissions m = None \<Longrightarrow> m_next m = Some (True, pw) \<Longrightarrow>
    (key, result) \<in> set (m_cache m) \<Longrightarrow> se_verifies env key (cm_user (cs_metadata (m_cs m))) signature \<Longrightarrow>
    finish_authentication (se_errorText env) (se_gateway env) s1 s2 m result = (m', Inl err) \<Longrightarrow>
    server_step env m (authLog_callback s3 m' ''publickey'' (Some err))"
| step_password: "m_phase m = Handshake \<Longrightarrow> m_permissions m = None \<Longrightarrow> m_next m = Some (pk, True) \<Longrightarrow>
    password_callback (se_errorText env) (se_gateway env) s1 s2 m v = (m', Inr result) \<Longrightarrow>
    server_step env m (authLog_callback s3 (m'\<lparr> m_permissions := Some result \<rparr>) ''password'' None)"
| step_password_rejected: "m_phase m = Handshake \<Longrightarrow> m_permissions m = None \<Longrightarrow> m_next m = Some (pk, True) \<Longrightarrow>
    password_callback (se_errorText env) (se_gateway env) s1 s2 m v = (m', Inl err) \<Longrightarrow>
    server_step env m (authLog_callback s3 m' ''password'' (Some err))"
| step_established: "m_phase m = Handshake \<Longrightarrow> m_permissions m = Some result \<Longrightarrow>
    connectionEstablished s1 m (anr_credential result) = Inr m' \<Longrightarrow> server_step env m m'"
| step_end: "m_phase m \<noteq> Ended \<Longrightarrow> handleConnection_end s1 m = Inr m' \<Longrightarrow> server_step env m m'"

definition server_init :: "serverEnv \<Rightarrow> connectionMachine \<Rightarrow> bool" where
  "server_init env m \<longleftrightarrow> (\<exists>rs stamp newID remote loc now.
     m = handleConnection_start (se_gateway env) rs \<lparr> tr_audit = [], tr_metrics = [] \<rparr> stamp newID remote loc now)"

end
