(* ===== verification/GatewayServerLaws.thy ===== *)
theory GatewayServerLaws
  imports GatewayServer
begin

text \<open>
  Invariants of a connection: what an identity the gateway acts on was established by, and the
  accounting of connections in metrics and audit.
\<close>

section \<open>Frames\<close>

lemma authLog_simps [simp]:
  "m_cs (authLog_callback s m method err) = m_cs m" "m_next (authLog_callback s m method err) = m_next m"
  "m_cache (authLog_callback s m method err) = m_cache m" "m_permissions (authLog_callback s m method err) = m_permissions m"
  "m_phase (authLog_callback s m method err) = m_phase m"
  by (simp_all add: authLog_callback_def Let_def)

lemma publicKey_callback_frame:
  assumes "publicKey_callback ck gw m key = (m', r)"
  shows "m_cs m' = m_cs m \<and> m_next m' = m_next m \<and> m_cache m' = m_cache m \<and> m_permissions m' = m_permissions m \<and>
    m_phase m' = m_phase m \<and> m_trace m' = m_trace m"
  using assms by (auto simp: publicKey_callback_def Let_def)

text \<open>What publishing an identity has established.\<close>

definition resolved_for :: "gateway \<Rightarrow> connectionState \<Rightarrow> authenticatedConnection \<Rightarrow> bool" where
  "resolved_for gw ctx c \<longleftrightarrow>
     (\<exists>rs rs' policy. gw_resolver gw (rs, resolve_input ctx (ac_info c)) = (rs', Inr (ac_target c)) \<and>
        resolveSessionPolicy (gw_policy gw) (gw_accessPolicy gw) (cm_user (cs_metadata ctx)) (ai_Extra (ac_info c)) = Inr policy \<and>
        selectConnectionProtocol gw (ac_target c) policy = Inr (ac_protocol c))"

lemma acceptAuthenticated_cases:
  assumes "acceptAuthenticated t gw s m info fp cred = (m', ok)"
  shows "m_next m' = m_next m \<and> m_cache m' = m_cache m \<and> m_permissions m' = m_permissions m \<and> m_phase m' = m_phase m \<and>
    cs_metadata (m_cs m') = cs_metadata (m_cs m) \<and> cs_established (m_cs m') = cs_established (m_cs m) \<and>
    (if ok then \<exists>c. cs_authenticated (m_cs m') = Some c \<and> ac_info c = info \<and> ac_fingerprint c = fp \<and>
        resolved_for gw (m_cs m) c
     else cs_authenticated (m_cs m') = cs_authenticated (m_cs m))"
proof -
  obtain rs r where res: "gw_resolver gw (m_resolver m, resolve_input (m_cs m) info) = (rs, r)" by fastforce
  show ?thesis
  proof (cases r)
    case (Inl err)
    then show ?thesis using assms res by (auto simp: acceptAuthenticated_def Let_def)
  next
    case tgt: (Inr tgt)
    show ?thesis
    proof (cases "resolveSessionPolicy (gw_policy gw) (gw_accessPolicy gw) (cm_user (cs_metadata (m_cs m))) (ai_Extra info)")
      case (Inl err)
      then show ?thesis using assms res tgt by (auto simp: acceptAuthenticated_def Let_def)
    next
      case pol: (Inr policy)
      show ?thesis
      proof (cases "selectConnectionProtocol gw tgt policy")
        case (Inl err)
        then show ?thesis using assms res tgt pol by (auto simp: acceptAuthenticated_def Let_def)
      next
        case (Inr protocol)
        have "resolved_for gw (m_cs m) \<lparr> ac_info = info, ac_target = tgt, ac_fingerprint = fp, ac_protocol = protocol \<rparr>"
          unfolding resolved_for_def using res tgt pol Inr
          by (intro exI[of _ "m_resolver m"] exI[of _ rs] exI[of _ policy]) simp
        then show ?thesis using assms res tgt pol Inr
          by (auto simp: acceptAuthenticated_def publishAuthenticated_def Let_def)
      qed
    qed
  qed
qed

lemma finish_authentication_cases:
  assumes "finish_authentication t gw s1 s2 m result = (m', r)"
  shows "m_next m' = m_next m \<and> m_cache m' = m_cache m \<and> m_permissions m' = m_permissions m \<and> m_phase m' = m_phase m \<and>
    cs_metadata (m_cs m') = cs_metadata (m_cs m) \<and> cs_established (m_cs m') = cs_established (m_cs m) \<and>
    (case r of
       Inr result' \<Rightarrow> result' = result \<and> (\<exists>c. cs_authenticated (m_cs m') = Some c \<and> ac_info c = anr_info result \<and>
         ac_fingerprint c = anr_fingerprint result \<and> resolved_for gw (m_cs m) c)
     | Inl _ \<Rightarrow> cs_authenticated (m_cs m') = cs_authenticated (m_cs m))"
proof -
  let ?m1 = "m\<lparr> m_trace := recordAuthentication s1 (m_cs m) (m_trace m) (anr_credential result) (anr_fingerprint result)
    ResultSuccess (Some (anr_info result)) None, m_reported := True \<rparr>"
  obtain m2 ok where a: "acceptAuthenticated t gw s2 ?m1 (anr_info result) (anr_fingerprint result) (anr_credential result) = (m2, ok)"
    by fastforce
  then have r: "m' = m2" "r = (if ok then Inr result else Inl (Errorf ''permission denied'' []))"
    using assms by (simp_all add: finish_authentication_def Let_def)
  show ?thesis using acceptAuthenticated_cases[OF a] r by (cases ok) simp_all
qed

section \<open>Provenance of identities\<close>

definition offered :: "gateway \<Rightarrow> string \<Rightarrow> string \<Rightarrow> bool" where
  "offered gw user method \<longleftrightarrow>
     (\<exists>methods. offered_methods gw user = Inr methods \<and> method \<in> set methods \<and> method \<in> set (gw_methods gw))"

definition authenticated_by :: "serverEnv \<Rightarrow> string \<Rightarrow> authenticationResult \<Rightarrow> bool" where
  "authenticated_by env user r \<longleftrightarrow>
     (anr_credential r = ''password'' \<and> anr_fingerprint r = [] \<and> offered (se_gateway env) user ''password'' \<and>
        (\<exists>p. au_AuthenticateBasic (gw_authn (se_gateway env)) user p = Inr (anr_info r))) \<or>
     (anr_credential r = ''publickey'' \<and> offered (se_gateway env) user ''publickey'' \<and>
        (\<exists>k signature. au_AuthenticatePublicKey (gw_authn (se_gateway env)) user k = Inr (anr_info r) \<and>
           anr_fingerprint r = ck_FingerprintSHA256 (se_crypto env) k \<and> se_verifies env k user signature))"

definition published_with :: "authenticatedConnection \<Rightarrow> authenticationResult \<Rightarrow> bool" where
  "published_with c r \<longleftrightarrow> ac_info c = anr_info r \<and> ac_fingerprint c = anr_fingerprint r"

definition auth_inv :: "serverEnv \<Rightarrow> connectionMachine \<Rightarrow> bool" where
  "auth_inv env m \<longleftrightarrow>
     (let gw = se_gateway env; user = cm_user (cs_metadata (m_cs m))
      in (case m_next m of
            None \<Rightarrow> m_cache m = [] \<and> m_permissions m = None
          | Some (pk, pw) \<Rightarrow> (pk \<longrightarrow> offered gw user ''publickey'') \<and> (pw \<longrightarrow> offered gw user ''password'')) \<and>
         (\<forall>(k, r) \<in> set (m_cache m). au_AuthenticatePublicKey (gw_authn gw) user k = Inr (anr_info r) \<and>
            anr_fingerprint r = ck_FingerprintSHA256 (se_crypto env) k \<and> anr_credential r = ''publickey'' \<and>
            offered gw user ''publickey'') \<and>
         (case cs_authenticated (m_cs m) of
            None \<Rightarrow> m_permissions m = None
          | Some c \<Rightarrow> (\<exists>r. m_permissions m = Some r \<and> published_with c r \<and> authenticated_by env user r) \<and>
              resolved_for gw (m_cs m) c))"

lemma resolved_for_cong:
  "cs_metadata ctx = cs_metadata ctx' \<Longrightarrow> resolved_for gw ctx c \<longleftrightarrow> resolved_for gw ctx' c"
  by (simp add: resolved_for_def resolve_input_def)

lemma auth_inv_same:
  assumes "auth_inv env m" "cs_metadata (m_cs m') = cs_metadata (m_cs m)" "cs_authenticated (m_cs m') = cs_authenticated (m_cs m)"
    and "m_next m' = m_next m" "m_cache m' = m_cache m" "m_permissions m' = m_permissions m"
  shows "auth_inv env m'"
  using assms resolved_for_cong[OF assms(2)] by (auto simp: auth_inv_def Let_def split: option.splits)

lemma auth_inv_published:
  assumes inv: "auth_inv env m" and md: "cs_metadata (m_cs m') = cs_metadata (m_cs m)"
    and nx: "m_next m' = m_next m" "m_next m \<noteq> None" "m_cache m' = m_cache m"
    and c: "cs_authenticated (m_cs m') = Some c" "m_permissions m' = Some r" "published_with c r"
    and prov: "authenticated_by env (cm_user (cs_metadata (m_cs m))) r"
    and res: "resolved_for (se_gateway env) (m_cs m) c"
  shows "auth_inv env m'"
  using inv md nx c prov res resolved_for_cong[OF md, of "se_gateway env" c]
  by (auto simp: auth_inv_def Let_def split: option.splits)

lemma none_callback_cases:
  assumes "none_callback gw m conn = (m', r)"
  shows "m_cs m' = setMetadata (m_cs m) conn \<and> m_next m' = m_next m \<and> m_cache m' = m_cache m \<and>
    m_permissions m' = m_permissions m \<and> m_phase m' = m_phase m \<and> m_trace m' = m_trace m \<and>
    (\<forall>pk pw. r = Inr (pk, pw) \<longrightarrow> (pk \<longrightarrow> offered gw (cm_user conn) ''publickey'') \<and> (pw \<longrightarrow> offered gw (cm_user conn) ''password''))"
  using assms by (auto simp: none_callback_def offered_def Let_def split: sum.splits if_splits)

lemma auth_inv_none:
  assumes "auth_inv env m" "m_next m = None" "none_callback (se_gateway env) m conn = (m', r)"
  shows "auth_inv env m'" "r = Inr nxt \<Longrightarrow> auth_inv env (m'\<lparr> m_next := Some nxt \<rparr>)"
  using assms none_callback_cases[OF assms(3)]
  by (auto simp: auth_inv_def setMetadata_def Let_def split: option.splits prod.splits)

lemma auth_inv_step:
  assumes "auth_inv env m" "server_step env m m''"
  shows "auth_inv env m''"
  using assms(2,1)
proof (cases rule: server_step.cases)
  case (step_none_rejected conn m' err s3)
  show ?thesis unfolding step_none_rejected(1)
    by (rule auth_inv_same[OF auth_inv_none(1)[OF assms(1) step_none_rejected(4,5)]]) simp_all
next
  case (step_none_partial conn m' nxt s3)
  show ?thesis unfolding step_none_partial(1)
    by (rule auth_inv_same[OF auth_inv_none(2)[OF assms(1) step_none_partial(4,5) refl]]) simp_all
next
  case (step_key_query pw key m' result)
  then show ?thesis using assms(1) publicKey_callback_frame[OF step_key_query(5)]
    by (auto simp: auth_inv_def publicKey_callback_def bind_result_Inr_iff Let_def split: option.splits)
next
  case (step_key_rejected pw key m' err s3)
  show ?thesis unfolding step_key_rejected(1)
    by (rule auth_inv_same[OF assms(1)]) (use publicKey_callback_frame[OF step_key_rejected(5)] in simp_all)
next
  case (step_key_verified pw key result signature s1 s2 m' result' s3)
  note f = finish_authentication_cases[OF step_key_verified(7)]
  then obtain c where c: "cs_authenticated (m_cs m') = Some c" "published_with c result'"
    "resolved_for (se_gateway env) (m_cs m) c" "result' = result" by (auto simp: published_with_def)
  have "authenticated_by env (cm_user (cs_metadata (m_cs m))) result'"
    using assms(1) step_key_verified(5,6) c(4) by (auto simp: auth_inv_def authenticated_by_def Let_def)
  then show ?thesis unfolding step_key_verified(1)
    by (intro auth_inv_published[OF assms(1)]) (use f c step_key_verified(4) in simp_all)
next
  case (step_key_refused pw key result signature s1 s2 m' err s3)
  show ?thesis unfolding step_key_refused(1)
    by (rule auth_inv_same[OF assms(1)]) (use finish_authentication_cases[OF step_key_refused(7)] in simp_all)
next
  case (step_password pk s1 s2 v m' result s3)
  obtain info where info: "au_AuthenticateBasic (gw_authn (se_gateway env)) (cm_user (cs_metadata (m_cs m))) v = Inr info"
    and fin: "finish_authentication (se_errorText env) (se_gateway env) s1 s2 (m\<lparr> m_reported := False \<rparr>)
      \<lparr> anr_info = info, anr_fingerprint = [], anr_credential = ''password'' \<rparr> = (m', Inr result)"
    using step_password(5) by (auto simp: password_callback_def Let_def split: sum.splits)
  note f = finish_authentication_cases[OF fin]
  then obtain c where c: "cs_authenticated (m_cs m') = Some c" "published_with c result"
    "resolved_for (se_gateway env) (m_cs m) c"
    "result = \<lparr> anr_info = info, anr_fingerprint = [], anr_credential = ''password'' \<rparr>" by (auto simp: published_with_def)
  have "authenticated_by env (cm_user (cs_metadata (m_cs m))) result"
    using assms(1) step_password(4) c(4) info by (auto simp: auth_inv_def authenticated_by_def Let_def)
  then show ?thesis unfolding step_password(1)
    by (intro auth_inv_published[OF assms(1)]) (use f c step_password(4) in simp_all)
next
  case (step_password_rejected pk s1 s2 v m' err s3)
  have "m_next m' = m_next m \<and> m_cache m' = m_cache m \<and> m_permissions m' = m_permissions m \<and>
      cs_metadata (m_cs m') = cs_metadata (m_cs m) \<and> cs_authenticated (m_cs m') = cs_authenticated (m_cs m)"
  proof (cases "au_AuthenticateBasic (gw_authn (se_gateway env)) (cm_user (cs_metadata (m_cs m))) v")
    case (Inl e)
    then show ?thesis using step_password_rejected(5) by (auto simp: password_callback_def Let_def)
  next
    case (Inr info)
    then have "finish_authentication (se_errorText env) (se_gateway env) s1 s2 (m\<lparr> m_reported := False \<rparr>)
        \<lparr> anr_info = info, anr_fingerprint = [], anr_credential = ''password'' \<rparr> = (m', Inl err)"
      using step_password_rejected(5) by (simp add: password_callback_def Let_def)
    from finish_authentication_cases[OF this] show ?thesis by simp
  qed
  then show ?thesis unfolding step_password_rejected(1) by (intro auth_inv_same[OF assms(1)]) simp_all
next
  case (step_established result s1)
  then show ?thesis
    by (intro auth_inv_same[OF assms(1)])
      (auto simp: connectionEstablished_def markEstablished_def Let_def split: option.splits)
next
  case (step_end s1)
  then show ?thesis
    by (intro auth_inv_same[OF assms(1)]) (auto simp: handleConnection_end_def Let_def split: if_splits option.splits)
qed

lemma auth_inv_init: "server_init env m \<Longrightarrow> auth_inv env m"
  by (auto simp: server_init_def handleConnection_start_def startConnectionAudit_def auth_inv_def Let_def)

section \<open>Accounting\<close>

fun is_opened :: "Metric \<Rightarrow> bool" where
  "is_opened (ConnectionOpened _) = True"
| "is_opened _ = False"

fun is_closed :: "Metric \<Rightarrow> bool" where
  "is_closed (ConnectionClosed _) = True"
| "is_closed _ = False"

definition opened :: "gatewayTrace \<Rightarrow> nat" where
  "opened tr = length (filter is_opened (tr_metrics tr))"

definition closed :: "gatewayTrace \<Rightarrow> nat" where
  "closed tr = length (filter is_closed (tr_metrics tr))"

definition audited :: "string \<Rightarrow> gatewayTrace \<Rightarrow> nat" where
  "audited typ tr = length (filter (\<lambda>e. ev_Type e = typ) (tr_audit tr))"

named_theorems accounting \<open>how recording changes the counts\<close>

lemma counts_Record [accounting]:
  "opened (audit_Record tr e) = opened tr" "closed (audit_Record tr e) = closed tr"
  "opened (metrics_Record tr x) = opened tr + (if is_opened x then 1 else 0)"
  "closed (metrics_Record tr x) = closed tr + (if is_closed x then 1 else 0)"
  "audited typ (metrics_Record tr x) = audited typ tr"
  "audited typ (audit_Record tr e) = audited typ tr + (if ev_Type e = typ then 1 else 0)"
  by (simp_all add: opened_def closed_def audited_def audit_Record_def metrics_Record_def)

lemma connectionEvent_Type [accounting, simp]: "ev_Type (connectionEvent s ctx typ) = typ"
  by (simp add: connectionEvent_def NewEvent_def Let_def split: option.split)

text \<open>The lifecycle part of a trace: connection counts and the connection's own audit events.\<close>

definition lifecycle :: "gatewayTrace \<Rightarrow> nat \<times> nat \<times> nat \<times> nat \<times> nat" where
  "lifecycle tr = (opened tr, closed tr, audited ''connection.start'' tr, audited ''connection.ready'' tr, audited ''connection.end'' tr)"

lemma recordAuthentication_lifecycle [accounting]:
  "lifecycle (recordAuthentication s ctx tr method fp result info err) = lifecycle tr"
  by (simp add: recordAuthentication_def lifecycle_def accounting Let_def split: option.split)

lemma target_event_lifecycle [accounting]:
  "lifecycle (audit_Record tr (target_event s ctx info fp tgt result txt)) = lifecycle tr"
  by (simp add: target_event_def lifecycle_def accounting)

lemma attempt_lifecycle [accounting]: "lifecycle (metrics_Record tr (AuthAttempt c r)) = lifecycle tr"
  by (simp add: lifecycle_def accounting)

lemma acceptAuthenticated_lifecycle [accounting]:
  "lifecycle (m_trace (fst (acceptAuthenticated t gw s m info fp cred))) = lifecycle (m_trace m)"
  by (simp add: acceptAuthenticated_def accounting Let_def split: prod.split sum.split)

lemma finish_authentication_lifecycle [accounting]:
  "lifecycle (m_trace (fst (finish_authentication t gw s1 s2 m result))) = lifecycle (m_trace m)"
proof -
  let ?m1 = "m\<lparr> m_trace := recordAuthentication s1 (m_cs m) (m_trace m) (anr_credential result) (anr_fingerprint result)
    ResultSuccess (Some (anr_info result)) None, m_reported := True \<rparr>"
  have "fst (finish_authentication t gw s1 s2 m result) =
      fst (acceptAuthenticated t gw s2 ?m1 (anr_info result) (anr_fingerprint result) (anr_credential result))"
    by (simp add: finish_authentication_def Let_def split: prod.split)
  then show ?thesis by (simp add: acceptAuthenticated_lifecycle recordAuthentication_lifecycle)
qed

lemma password_callback_frame:
  assumes "password_callback t gw s1 s2 m v = (m', r)"
  shows "cs_established (m_cs m') = cs_established (m_cs m) \<and> m_phase m' = m_phase m \<and> cs_metadata (m_cs m') = cs_metadata (m_cs m)"
proof (cases "au_AuthenticateBasic (gw_authn gw) (cm_user (cs_metadata (m_cs m))) v")
  case (Inl e)
  then show ?thesis using assms by (auto simp: password_callback_def Let_def)
next
  case (Inr info)
  then have "finish_authentication t gw s1 s2 (m\<lparr> m_reported := False \<rparr>)
      \<lparr> anr_info = info, anr_fingerprint = [], anr_credential = ''password'' \<rparr> = (m', r)"
    using assms by (simp add: password_callback_def Let_def)
  from finish_authentication_cases[OF this] show ?thesis by simp
qed

lemma password_callback_lifecycle [accounting]:
  "lifecycle (m_trace (fst (password_callback t gw s1 s2 m v))) = lifecycle (m_trace m)"
  by (simp add: password_callback_def accounting Let_def split: sum.split)

lemma authLog_lifecycle [accounting]: "lifecycle (m_trace (authLog_callback s m method err)) = lifecycle (m_trace m)"
  by (simp add: authLog_callback_def accounting Let_def)

definition life_inv :: "connectionMachine \<Rightarrow> bool" where
  "life_inv m \<longleftrightarrow>
     (let e = (if cs_established (m_cs m) then 1 else 0); d = (if m_phase m = Ended then 1 else 0)
      in lifecycle (m_trace m) = (e, e * d, 1, e, d)) \<and>
     (m_phase m = Handshake \<longrightarrow> \<not> cs_established (m_cs m)) \<and>
     (m_phase m = Serving \<longrightarrow> cs_established (m_cs m)) \<and>
     (cs_established (m_cs m) \<longrightarrow> cs_authenticated (m_cs m) \<noteq> None)"

lemma life_inv_same:
  assumes "life_inv m" "lifecycle (m_trace m') = lifecycle (m_trace m)" "cs_established (m_cs m') = cs_established (m_cs m)"
    and "m_phase m' = m_phase m" "m_phase m = Handshake"
  shows "life_inv m'"
  using assms by (simp add: life_inv_def Let_def)

lemma life_inv_step:
  assumes inv: "auth_inv env m" "life_inv m" and step: "server_step env m m''"
  shows "life_inv m''"
  using step
proof (cases rule: server_step.cases)
  case (step_none_rejected conn m' err s3)
  then show ?thesis using none_callback_cases[OF step_none_rejected(5)]
    by (intro life_inv_same[OF inv(2)]) (simp_all add: accounting setMetadata_def)
next
  case (step_none_partial conn m' nxt s3)
  then show ?thesis using none_callback_cases[OF step_none_partial(5)]
    by (intro life_inv_same[OF inv(2)]) (simp_all add: accounting setMetadata_def)
next
  case (step_key_query pw key m' result)
  then show ?thesis using publicKey_callback_frame[OF step_key_query(5)]
    by (intro life_inv_same[OF inv(2)]) simp_all
next
  case (step_key_rejected pw key m' err s3)
  then show ?thesis using publicKey_callback_frame[OF step_key_rejected(5)]
    by (intro life_inv_same[OF inv(2)]) (simp_all add: accounting)
next
  case (step_key_verified pw key result signature s1 s2 m' result' s3)
  then show ?thesis using finish_authentication_cases[OF step_key_verified(7)]
      finish_authentication_lifecycle[of "se_errorText env" "se_gateway env" s1 s2 m result]
    by (intro life_inv_same[OF inv(2)]) (simp_all add: authLog_lifecycle)
next
  case (step_key_refused pw key result signature s1 s2 m' err s3)
  then show ?thesis using finish_authentication_cases[OF step_key_refused(7)]
      finish_authentication_lifecycle[of "se_errorText env" "se_gateway env" s1 s2 m result]
    by (intro life_inv_same[OF inv(2)]) (simp_all add: authLog_lifecycle)
next
  case (step_password pk s1 s2 v m' result s3)
  then show ?thesis using password_callback_frame[OF step_password(5)]
      password_callback_lifecycle[of "se_errorText env" "se_gateway env" s1 s2 m v]
    by (intro life_inv_same[OF inv(2)]) (simp_all add: authLog_lifecycle)
next
  case (step_password_rejected pk s1 s2 v m' err s3)
  then show ?thesis using password_callback_frame[OF step_password_rejected(5)]
      password_callback_lifecycle[of "se_errorText env" "se_gateway env" s1 s2 m v]
    by (intro life_inv_same[OF inv(2)]) (simp_all add: authLog_lifecycle)
next
  case (step_established result s1)
  then show ?thesis using inv(2)
    by (auto simp: connectionEstablished_def markEstablished_def life_inv_def lifecycle_def accounting Let_def split: option.splits)
next
  case (step_end s1)
  then show ?thesis using inv(2)
    by (auto simp: handleConnection_end_def finishConnectionAudit_def life_inv_def lifecycle_def accounting Let_def
        split: option.splits if_splits)
qed

lemma life_inv_init: "server_init env m \<Longrightarrow> life_inv m"
  by (auto simp: server_init_def handleConnection_start_def startConnectionAudit_def life_inv_def lifecycle_def accounting
      opened_def closed_def audited_def audit_Record_def Let_def)

interpretation served: inductive_invariant "server_init env" "server_step env" "\<lambda>m. auth_inv env m \<and> life_inv m"
  by unfold_locales (auto intro: auth_inv_init life_inv_init auth_inv_step life_inv_step)

section \<open>Properties\<close>

text \<open>
  C6. The gateway acts only on identities that were really authenticated: a connection has a
  published identity exactly from the attempt on that succeeded, so that probing keys, failed
  attempts and refused targets publish nothing.  The identity is the one of that attempt: a
  password the authenticator accepted, or a public key it accepted and for which the SSH library
  verified a signature, for the user name the connection still has and by a method that is enabled
  and offered for that name; its target and its protocol were resolved for exactly that identity.
  A connection becomes established and is served only with a published identity; during the
  handshake it is not.
\<close>

theorem published_identity_authenticated:
  assumes "reach (server_init env) (server_step env) m"
  shows "(cs_authenticated (m_cs m) = None \<longleftrightarrow> m_permissions m = None) \<and>
    (\<forall>c r. cs_authenticated (m_cs m) = Some c \<and> m_permissions m = Some r \<longrightarrow>
       ac_info c = anr_info r \<and> ac_fingerprint c = anr_fingerprint r \<and>
       authenticated_by env (cm_user (cs_metadata (m_cs m))) r \<and> resolved_for (se_gateway env) (m_cs m) c) \<and>
    (m_phase m = Handshake \<longrightarrow> \<not> cs_established (m_cs m)) \<and>
    (m_phase m = Serving \<longrightarrow> cs_established (m_cs m)) \<and>
    (cs_established (m_cs m) \<longrightarrow> cs_authenticated (m_cs m) \<noteq> None)"
proof -
  have inv: "auth_inv env m" "life_inv m" using served.reach_inv[OF assms] by blast+
  have none: "cs_authenticated (m_cs m) = None \<longleftrightarrow> m_permissions m = None"
    using inv(1) unfolding auth_inv_def Let_def by (cases "cs_authenticated (m_cs m)") auto
  have pub: "\<forall>c r. cs_authenticated (m_cs m) = Some c \<and> m_permissions m = Some r \<longrightarrow>
       ac_info c = anr_info r \<and> ac_fingerprint c = anr_fingerprint r \<and>
       authenticated_by env (cm_user (cs_metadata (m_cs m))) r \<and> resolved_for (se_gateway env) (m_cs m) c"
  proof (intro allI impI, elim conjE)
    fix c r assume c: "cs_authenticated (m_cs m) = Some c" "m_permissions m = Some r"
    have "(\<exists>r. m_permissions m = Some r \<and> published_with c r \<and> authenticated_by env (cm_user (cs_metadata (m_cs m))) r) \<and>
        resolved_for (se_gateway env) (m_cs m) c"
      using inv(1) unfolding auth_inv_def Let_def c(1) option.case by (elim conjE) (intro conjI)
    then show "ac_info c = anr_info r \<and> ac_fingerprint c = anr_fingerprint r \<and>
        authenticated_by env (cm_user (cs_metadata (m_cs m))) r \<and> resolved_for (se_gateway env) (m_cs m) c"
      unfolding c(2) published_with_def by (elim conjE exE) simp
  qed
  have "(m_phase m = Handshake \<longrightarrow> \<not> cs_established (m_cs m)) \<and> (m_phase m = Serving \<longrightarrow> cs_established (m_cs m)) \<and>
      (cs_established (m_cs m) \<longrightarrow> cs_authenticated (m_cs m) \<noteq> None)"
    using inv(2) unfolding life_inv_def by (elim conjE) (intro conjI)
  then show ?thesis by (intro conjI none pub) (elim conjE, assumption)+
qed

lemma permissions_published: "auth_inv env m \<Longrightarrow> m_permissions m \<noteq> None \<Longrightarrow> \<exists>c. cs_authenticated (m_cs m) = Some c"
  by (auto simp: auth_inv_def Let_def split: option.splits)

definition example_server :: serverEnv where
  "example_server = \<lparr> se_crypto = example_crypto,
     se_gateway = example_gateway\<lparr> gw_podBackend := Some (APIServerTransport \<lparr> ho_Path = [], ho_RemoteDir = ''/tmp'' \<rparr>) \<rparr>,
     se_errorText = (\<lambda>_. ''error''), se_verifies = (\<lambda>k u signature. signature = k @ u) \<rparr>"

definition example_metadata :: connectionMetadata where
  "example_metadata = \<lparr> cm_user = ''ns.web-0'', cm_clientVersion = [], cm_serverVersion = [], cm_remote = Some ''10.0.0.1:5000'',
     cm_local = None \<rparr>"

definition example_start :: connectionMachine where
  "example_start = handleConnection_start (se_gateway example_server) example_state \<lparr> tr_audit = [], tr_metrics = [] \<rparr>
     (''s'', 5) ''c'' (Some ''10.0.0.1:5000'') None 5"

definition example_offered :: connectionMachine where
  "example_offered = authLog_callback (''n'', 6)
     ((fst (none_callback (se_gateway example_server) example_start example_metadata))\<lparr> m_next := Some (True, True) \<rparr>)
     ''none'' (Some (Errorf ''partial success'' []))"

lemma example_start_reached: "reach (server_init example_server) (server_step example_server) example_start"
  by (rule reach_init) (unfold server_init_def example_start_def, intro exI, rule refl)

lemma example_start_fields: "m_phase example_start = Handshake" "m_permissions example_start = None" "m_next example_start = None"
  by (simp_all add: example_start_def handleConnection_start_def startConnectionAudit_def Let_def)

lemma example_server_fields:
  "gw_methods (se_gateway example_server) = [''publickey'', ''password'']" "gw_accessPolicy (se_gateway example_server) = None"
  "gw_resolver (se_gateway example_server) = UsernameResolver_Resolve" "gw_authn (se_gateway example_server) = Anonymous"
  "gw_policy (se_gateway example_server) = go_Policy NewDefaultOptions"
  "gw_podBackend (se_gateway example_server) = Some (APIServerTransport \<lparr> ho_Path = [], ho_RemoteDir = ''/tmp'' \<rparr>)"
  unfolding example_server_def example_gateway_def serverEnv.simps gateway.simps by (rule refl)+

lemma example_offer: "snd (none_callback (se_gateway example_server) example_start example_metadata) = Inr (True, True)"
  by (simp add: none_callback_def offered_methods_def example_server_fields Let_def)

lemma example_offered_reached: "reach (server_init example_server) (server_step example_server) example_offered"
proof -
  have n: "none_callback (se_gateway example_server) example_start example_metadata =
      (fst (none_callback (se_gateway example_server) example_start example_metadata), Inr (True, True))"
    using example_offer by (rule prod_eqI[OF fst_conv[symmetric], unfolded snd_conv])
  have "server_step example_server example_start example_offered"
    unfolding example_offered_def by (rule step_none_partial[OF example_start_fields n])
  then show ?thesis by (rule reach_step[OF example_start_reached])
qed

lemma example_offered_fields:
  "m_phase example_offered = Handshake" "m_permissions example_offered = None" "m_next example_offered = Some (True, True)"
  "cm_user (cs_metadata (m_cs example_offered)) = ''ns.web-0''"
  by (simp_all add: example_offered_def authLog_callback_def none_callback_def Let_def example_start_fields setMetadata_def
      example_metadata_def)

lemma example_resolves:
  "ri_SSHUser i = ''ns.web-0'' \<Longrightarrow> gw_resolver (se_gateway example_server) (rs, i) = (rs, Inr (New ''ns'' ''web-0'' []))"
  by (simp add: example_server_fields UsernameResolver_Resolve_def contains_byte_def Let_def)

lemma example_session:
  "\<exists>p. resolveSessionPolicy (gw_policy (se_gateway example_server)) (gw_accessPolicy (se_gateway example_server)) u extra = Inr p"
proof -
  have "stringAllowed (po_Shells (pol_Limits (gw_policy (se_gateway example_server))))
     (esp_DefaultShell (buildAccessSessionPolicy (gw_policy (se_gateway example_server)) None))"
    unfolding example_server_fields by code_simp
  then show ?thesis
    by (simp add: resolveSessionPolicy_def sessionPolicyAccess_def example_server_fields bind_result_def Let_def)
qed

lemma example_login:
  "\<exists>m' r. password_callback (se_errorText example_server) (se_gateway example_server) (''a'', 7) (''b'', 8) example_offered ''any'' =
     (m', Inr r)"
proof -
  have "selectConnectionProtocol (se_gateway example_server) (New ''ns'' ''web-0'' []) p =
      Inr (PodSSH (New ''ns'' ''web-0'' []) (esp_DefaultShell p) p)" for p
    by (simp add: selectConnectionProtocol_def example_server_fields New_def)
  moreover obtain p where "resolveSessionPolicy (gw_policy (se_gateway example_server)) (gw_accessPolicy (se_gateway example_server))
      ''ns.web-0'' (ai_Extra anonymousInfo) = Inr p" using example_session by blast
  moreover have "au_AuthenticateBasic (gw_authn (se_gateway example_server)) u v = Inr anonymousInfo" for u v
    by (simp add: example_server_fields Anonymous_def)
  ultimately show ?thesis
    by (simp add: password_callback_def finish_authentication_def acceptAuthenticated_def resolve_input_def example_resolves
        example_offered_fields Let_def)
qed

lemma published_identity_authenticated_witness:
  "\<exists>m c r. reach (server_init example_server) (server_step example_server) m \<and> cs_authenticated (m_cs m) = Some c \<and>
     m_permissions m = Some r \<and> authenticated_by example_server ''ns.web-0'' r \<and>
     resolved_for (se_gateway example_server) (m_cs m) c"
proof -
  obtain m' r where l: "password_callback (se_errorText example_server) (se_gateway example_server) (''a'', 7) (''b'', 8)
      example_offered ''any'' = (m', Inr r)" using example_login by (elim exE) (rule that)
  let ?m = "authLog_callback (''z'', 9) (m'\<lparr> m_permissions := Some r \<rparr>) ''password'' None"
  have "server_step example_server example_offered ?m"
    by (rule step_password[OF example_offered_fields(1-3) l])
  then have m: "reach (server_init example_server) (server_step example_server) ?m"
    by (rule reach_step[OF example_offered_reached])
  have p: "m_permissions ?m = Some r" by (simp add: authLog_callback_def)
  note t = published_identity_authenticated[OF m]
  obtain c where c: "cs_authenticated (m_cs ?m) = Some c" using conjunct1[OF t] p by (cases "cs_authenticated (m_cs ?m)") simp_all
  have u: "cm_user (cs_metadata (m_cs ?m)) = ''ns.web-0''"
    using password_callback_frame[OF l] example_offered_fields(4) by simp
  have "authenticated_by example_server (cm_user (cs_metadata (m_cs ?m))) r \<and> resolved_for (se_gateway example_server) (m_cs ?m) c"
    using conjunct1[OF conjunct2[OF t], rule_format, OF conjI[OF c p]] by (elim conjE) (rule conjI)
  then have a: "authenticated_by example_server ''ns.web-0'' r \<and> resolved_for (se_gateway example_server) (m_cs ?m) c"
    unfolding u .
  from conjunct1[OF a] conjunct2[OF a] show ?thesis using m c p by (intro exI[of _ ?m] exI[of _ c] exI[of _ r] conjI)
qed

text \<open>
  C32. Connections are accounted for exactly: at any time a connection has been counted as opened, and
  reported ready, once if its handshake completed and never otherwise; when it has ended it has
  been counted as closed exactly if it was counted as opened; its start and its end are each
  audited once; and neither establishing nor ending a connection dereferences a missing identity.
\<close>

theorem connections_accounted:
  assumes "reach (server_init env) (server_step env) m"
  shows "opened (m_trace m) = (if cs_established (m_cs m) then 1 else 0) \<and>
    audited ''connection.ready'' (m_trace m) = opened (m_trace m) \<and>
    closed (m_trace m) = (if m_phase m = Ended then opened (m_trace m) else 0) \<and>
    audited ''connection.start'' (m_trace m) = 1 \<and>
    audited ''connection.end'' (m_trace m) = (if m_phase m = Ended then 1 else 0) \<and>
    is_ok (handleConnection_end s m) \<and>
    (m_permissions m \<noteq> None \<longrightarrow> is_ok (connectionEstablished s m credential))"
proof -
  have inv: "auth_inv env m" "life_inv m" using served.reach_inv[OF assms] by blast+
  have "is_ok (handleConnection_end s m)"
    using inv(2) by (auto simp: handleConnection_end_def life_inv_def is_ok_def Let_def split: option.splits)
  moreover have "m_permissions m \<noteq> None \<longrightarrow> is_ok (connectionEstablished s m credential)"
    using inv(1) by (auto simp: connectionEstablished_def markEstablished_def auth_inv_def is_ok_def Let_def split: option.splits)
  ultimately show ?thesis using inv(2) by (auto simp: life_inv_def lifecycle_def Let_def)
qed

lemma connections_accounted_witness:
  "opened (m_trace example_offered) = 0 \<and> is_ok (handleConnection_end (''e'', 9) example_offered)"
proof -
  have "\<not> cs_established (m_cs example_offered)"
    using served.reach_inv[OF example_offered_reached] example_offered_fields(1) by (simp add: life_inv_def)
  then show ?thesis using connections_accounted[OF example_offered_reached, of "(''e'', 9)" "[]"] by simp
qed

end
