(* ===== verification/GatewayListener.thy ===== *)
theory GatewayListener
  imports Dependencies Machines
begin

text \<open>
  The listeners of the gateway (gateway.go, server.go): the host key, the metrics endpoint, and the accept
  loop \<^verbatim>\<open>serveSSH\<close> as a state machine over the connections it has started.  Files, key parsing and
  generation, and sockets are parameters.
\<close>

section \<open>Host key and metrics endpoint\<close>

text \<open>The parameters give the key in a file, parse it, and generate an ephemeral one.\<close>

definition loadHostKey ::
  "(string \<Rightarrow> string result) \<Rightarrow> (string \<Rightarrow> 'k result) \<Rightarrow> 'k result \<Rightarrow> string \<Rightarrow> 'k result" where
  "loadHostKey readFile parsePrivateKey generated filename =
     (if filename \<noteq> [] then
        case readFile filename of
          Inl err \<Rightarrow> Inl (Wrap ''read SSH host key: %w'' [] err)
        | Inr data \<Rightarrow>
            (case parsePrivateKey data of
               Inl err \<Rightarrow> Inl (Wrap ''parse SSH host key: %w'' [] err)
             | Inr signer \<Rightarrow> Inr signer)
      else generated)"

text \<open>The path that is served, if any; \<^verbatim>\<open>provider\<close> says whether the recorder has an HTTP handler.\<close>

definition startMetricsServer :: "bool \<Rightarrow> (string \<Rightarrow> go_error option) \<Rightarrow> MetricsOptions \<Rightarrow> string option result" where
  "startMetricsServer provider listen opts =
     (if mo_ListenAddress opts = [] then Inr None
      else
        let path = (if mo_Path opts = [] then ''/metrics'' else mo_Path opts)
        in if \<not> HasPrefix path ''/'' then Inl (Errorf ''metrics path must start with /'' [])
           else if path = ''/healthz'' \<or> path = ''/readyz''
           then Inl (Errorf ''metrics path %q conflicts with a health endpoint'' [path])
           else if \<not> provider then Inl (Errorf ''metrics recorder does not provide an HTTP handler'' [])
           else case listen (mo_ListenAddress opts) of
                  Some err \<Rightarrow> Inl (Wrap ''listen metrics: %w'' [] err)
                | None \<Rightarrow> Inr (Some path))"

section \<open>The accept loop\<close>

datatype acceptPhase = Accepting | Draining "go_error option" | Returned "go_error option"

record sshListener =
  sl_phase :: acceptPhase
  sl_canceled :: bool
  sl_parentCanceled :: bool
  sl_open :: bool
  sl_connections :: "nat list"
  sl_ended :: "nat list"
  sl_next :: nat

definition newSSHListener :: sshListener where
  "newSSHListener = \<lparr> sl_phase = Accepting, sl_canceled = False, sl_parentCanceled = False, sl_open = True, sl_connections = [],
     sl_ended = [], sl_next = 0 \<rparr>"

text \<open>A connection is accepted and its goroutine started.\<close>

definition accept_connection :: "sshListener \<Rightarrow> sshListener" where
  "accept_connection s = s\<lparr> sl_connections := sl_next s # sl_connections s, sl_next := sl_next s + 1 \<rparr>"

text \<open>\<^verbatim>\<open>Accept\<close> fails: the result depends on the context; the deferred function cancels it and closes the listener.\<close>

definition accept_failed :: "go_error \<Rightarrow> sshListener \<Rightarrow> sshListener" where
  "accept_failed err s =
     s\<lparr> sl_phase := Draining (if sl_canceled s then None else Some err), sl_canceled := True, sl_open := False \<rparr>"

definition parent_canceled :: "sshListener \<Rightarrow> sshListener" where
  "parent_canceled s = s\<lparr> sl_parentCanceled := True, sl_canceled := True \<rparr>"

definition connection_ended :: "nat \<Rightarrow> sshListener \<Rightarrow> sshListener" where
  "connection_ended c s = s\<lparr> sl_connections := remove1 c (sl_connections s), sl_ended := c # sl_ended s \<rparr>"

text \<open>The accept on a listener succeeds only while it is open; the close that follows a cancelled context is a step of its own.\<close>

inductive listener_step :: "sshListener \<Rightarrow> sshListener \<Rightarrow> bool" where
  listener_accept: "sl_phase s = Accepting \<Longrightarrow> sl_open s \<Longrightarrow> listener_step s (accept_connection s)"
| listener_fail: "sl_phase s = Accepting \<Longrightarrow> listener_step s (accept_failed err s)"
| listener_cancel: "listener_step s (parent_canceled s)"
| listener_after: "sl_canceled s \<Longrightarrow> listener_step s (s\<lparr> sl_open := False \<rparr>)"
| listener_ended: "c \<in> set (sl_connections s) \<Longrightarrow> listener_step s (connection_ended c s)"
| listener_return: "sl_phase s = Draining r \<Longrightarrow> sl_connections s = [] \<Longrightarrow> listener_step s (s\<lparr> sl_phase := Returned r \<rparr>)"

definition listener_inv :: "sshListener \<Rightarrow> bool" where
  "listener_inv s =
     ((sl_phase s \<noteq> Accepting \<longrightarrow> \<not> sl_open s \<and> sl_canceled s) \<and>
      (\<forall>r. sl_phase s = Returned r \<longrightarrow> sl_connections s = []) \<and>
      (sl_phase s = Accepting \<longrightarrow> sl_canceled s = sl_parentCanceled s) \<and>
      (sl_phase s \<in> {Draining None, Returned None} \<longrightarrow> sl_parentCanceled s) \<and>
      set (sl_connections s) \<union> set (sl_ended s) = {..<sl_next s} \<and> distinct (sl_connections s @ sl_ended s))"

lemma listener_inv_step: "listener_step s s' \<Longrightarrow> listener_inv s \<Longrightarrow> listener_inv s'"
proof (induction rule: listener_step.induct)
  case (listener_ended c s)
  then have "distinct (sl_connections s)" "c \<notin> set (sl_ended s)" by (auto simp: listener_inv_def)
  then show ?case using listener_ended by (auto simp: listener_inv_def connection_ended_def)
qed (auto simp: listener_inv_def accept_connection_def accept_failed_def parent_canceled_def lessThan_Suc)

interpretation listening: inductive_invariant "\<lambda>s. s = newSSHListener" listener_step listener_inv
  by unfold_locales (simp add: listener_inv_def newSSHListener_def, rule listener_inv_step)

text \<open>
  \<^verbatim>\<open>serveSSH\<close> returns only when its listener is closed and every connection it accepted has ended, each of
  them once, and it returns without an error only when the gateway was shut down.
\<close>

theorem serveSSH_returns_drained:
  assumes "reach (\<lambda>s. s = newSSHListener) listener_step s" "sl_phase s = Returned r"
  shows "\<not> sl_open s \<and> sl_connections s = [] \<and> set (sl_ended s) = {..<sl_next s} \<and> distinct (sl_ended s) \<and>
    (r = None \<longrightarrow> sl_parentCanceled s)"
  using listening.reach_inv[OF assms(1)] assms(2) by (auto simp: listener_inv_def)

end
