(* ===== verification/WebhookClient.thy ===== *)
theory WebhookClient
  imports Dependencies
begin

text \<open>
  The JSON webhook client (pkg/webhook/client.go) and what it gives the webhook authenticator and
  authorizer: a positive answer is one that the configured server itself gave with a success status.
  URL parsing, the HTTP client of client-go, one HTTP exchange and JSON are parameters.
\<close>

section \<open>Construction\<close>

record webhookConfig =
  wc_Host :: string
  wc_BearerToken :: string
  wc_Username :: string
  wc_Password :: string
  wc_Timeout :: int
  wc_CAFile :: string
  wc_CertFile :: string
  wc_KeyFile :: string
  wc_Insecure :: bool
  wc_Proxy :: "string option"

text \<open>
  \<^verbatim>\<open>urlParse\<close> gives the scheme and the canonical form of a URL; \<^verbatim>\<open>clientFor\<close> is the error of making an
  HTTP client for a configuration.
\<close>

definition NewClient ::
  "(string \<Rightarrow> (string \<times> string) result) \<Rightarrow> (webhookConfig \<Rightarrow> go_error option) \<Rightarrow> WebhookOptions \<Rightarrow> webhookConfig result" where
  "NewClient urlParse clientFor opts =
     (if wo_Server opts = [] then Inl (Errorf ''webhook server is required'' [])
      else case urlParse (wo_Server opts) of
             Inl err \<Rightarrow> Inl (Wrap ''parse webhook server: %w'' [] err)
           | Inr (scheme, server) \<Rightarrow>
               if scheme \<noteq> ''http'' \<and> scheme \<noteq> ''https'' then Inl (Errorf ''webhook server must use http or https'' [])
               else
                 let config = \<lparr> wc_Host = server, wc_BearerToken = wo_Token opts, wc_Username = wo_Username opts,
                       wc_Password = wo_Password opts, wc_Timeout = (if wo_Timeout opts = 0 then 2 * second else wo_Timeout opts),
                       wc_CAFile = wo_CAFile opts, wc_CertFile = wo_CertFile opts, wc_KeyFile = wo_KeyFile opts,
                       wc_Insecure = wo_InsecureSkipTLSVerify opts, wc_Proxy = None \<rparr>;
                     build = (\<lambda>c. case clientFor c of Some err \<Rightarrow> Inl (Wrap ''create webhook HTTP client: %w'' [] err) | None \<Rightarrow> Inr c)
                 in if wo_ProxyURL opts = [] then build config
                    else case urlParse (wo_ProxyURL opts) of
                           Inl err \<Rightarrow> Inl (Wrap ''parse webhook proxy URL: %w'' [] err)
                         | Inr (_, proxyURL) \<Rightarrow> build (config\<lparr> wc_Proxy := Some proxyURL \<rparr>))"

section \<open>Requests\<close>

record webhookResponse =
  wr_StatusCode :: int
  wr_Status :: string
  wr_Body :: string

text \<open>
  One exchange with a URL.  The client of the code stops at the first response, so a redirect is a response
  like any other.
\<close>

type_synonym httpExchange = "string \<Rightarrow> string \<Rightarrow> webhookResponse result"

definition Post ::
  "('a \<Rightarrow> string result) \<Rightarrow> (string \<Rightarrow> string \<Rightarrow> go_error option) \<Rightarrow> httpExchange \<Rightarrow> (string \<Rightarrow> 'b result) \<Rightarrow> webhookConfig \<Rightarrow> 'a \<Rightarrow> 'b result" where
  "Post encode newRequest exchange decode c input =
     (case encode input of
        Inl err \<Rightarrow> Inl (Wrap ''encode webhook request: %w'' [] err)
      | Inr data \<Rightarrow>
          (case newRequest (wc_Host c) data of
             Some err \<Rightarrow> Inl (Wrap ''create webhook request: %w'' [] err)
           | None \<Rightarrow>
               (case exchange (wc_Host c) data of
                  Inl err \<Rightarrow> Inl (Wrap ''call webhook: %w'' [] err)
                | Inr resp \<Rightarrow>
                    if wr_StatusCode resp < 200 \<or> wr_StatusCode resp \<ge> 300
                    then Inl (Errorf ''webhook returned %s: %s'' [wr_Status resp, take 4096 (wr_Body resp)])
                    else case decode (wr_Body resp) of
                           Inl err \<Rightarrow> Inl (Wrap ''decode webhook response: %w'' [] err)
                         | Inr out \<Rightarrow> Inr out)))"

section \<open>Answers come from the server\<close>

lemma Post_Inr:
  assumes "Post encode newRequest exchange decode c input = Inr out"
  obtains data resp where "encode input = Inr data" "exchange (wc_Host c) data = Inr resp"
    and "200 \<le> wr_StatusCode resp" "wr_StatusCode resp < 300" "decode (wr_Body resp) = Inr out"
  using assms unfolding Post_def by (auto split: sum.splits option.splits if_splits)

lemma NewClient_server:
  assumes "NewClient urlParse clientFor opts = Inr c"
  shows "\<exists>scheme. urlParse (wo_Server opts) = Inr (scheme, wc_Host c) \<and> scheme \<in> {''http'', ''https''} \<and> wc_Timeout c \<noteq> 0"
  using assms unfolding NewClient_def Let_def
  by (auto simp: second_def split: sum.splits option.splits if_splits)

text \<open>
  A password login through the webhook: the configured server answered the request, which carries the
  user name and the password of the client, with a success status and a body that reports the user
  as authenticated without an error.  A redirect is never followed.
\<close>

theorem webhook_login_answered:
  assumes client: "NewClient urlParse clientFor opts = Inr c"
    and login: "au_AuthenticateBasic (WebhookAuthenticator ck (Post encode newRequest exchange decode c)) username password = Inr info"
  shows "\<exists>scheme server data resp out. urlParse (wo_Server opts) = Inr (scheme, server) \<and> scheme \<in> {''http'', ''https''} \<and>
    encode \<lparr> wrq_Type = ''password'', wrq_SSHUser = username, wrq_Password = Some \<lparr> wpc_Password = password \<rparr>, wrq_PublicKey = None \<rparr> = Inr data \<and>
    exchange server data = Inr resp \<and> 200 \<le> wr_StatusCode resp \<and> wr_StatusCode resp < 300 \<and> decode (wr_Body resp) = Inr out \<and>
    wrs_Error out = [] \<and> wrs_Authenticated out \<and> u_Name (wrs_User out) \<noteq> [] \<and> ai_User info = wrs_User out"
proof -
  let ?req = "\<lparr> wrq_Type = ''password'', wrq_SSHUser = username, wrq_Password = Some \<lparr> wpc_Password = password \<rparr>, wrq_PublicKey = None \<rparr>"
  obtain out where out: "Post encode newRequest exchange decode c ?req = Inr out" "wrs_Error out = []" "wrs_Authenticated out"
      "u_Name (wrs_User out) \<noteq> []" "ai_User info = wrs_User out"
    using login by (auto simp: WebhookAuthenticator_def webhook_authenticate_def split: sum.splits if_splits)
  obtain data resp where "encode ?req = Inr data" "exchange (wc_Host c) data = Inr resp" "200 \<le> wr_StatusCode resp"
      "wr_StatusCode resp < 300" "decode (wr_Body resp) = Inr out"
    by (rule Post_Inr[OF out(1)])
  then show ?thesis using NewClient_server[OF client] out by blast
qed

text \<open>An authorization that the webhook allows was decided by the server with a success status.\<close>

theorem webhook_allow_answered:
  assumes "WebhookAuthorizer_Authorize (Post encode newRequest exchange decode c) req = (DecisionAllow, reason, err)"
  shows "\<exists>data resp out. encode (rq_User req, rq_Attributes req) = Inr data \<and> exchange (wc_Host c) data = Inr resp \<and>
    200 \<le> wr_StatusCode resp \<and> wr_StatusCode resp < 300 \<and> decode (wr_Body resp) = Inr out \<and> wz_Error out = [] \<and>
    wz_Decision out = ''Allow''"
proof -
  obtain out where out: "Post encode newRequest exchange decode c (rq_User req, rq_Attributes req) = Inr out"
      "wz_Error out = []" "wz_Decision out = ''Allow''"
    using assms by (auto simp: WebhookAuthorizer_Authorize_def split: sum.splits if_splits)
  then show ?thesis by (blast elim: Post_Inr)
qed

end
