(* ===== verification/PodBackend.thy ===== *)
theory PodBackend
  imports Operations
begin

text \<open>
  The Pod backend: the requests of pkg/podssh/backend/backend.go and the Executor that serves them
  over a transport.  The transport is a parameter: its answers are arbitrary functions of the
  request, and every operation returns, besides its result, the transport calls it made, in order.
\<close>

section \<open>Requests (backend.go)\<close>

record TerminalSize =
  ts_Width :: "16 word"
  ts_Height :: "16 word"

record Window =
  w_Width :: int
  w_Height :: int

text \<open>The adapter of session.go: the initial size and the queue of later ones.\<close>

record windowSizeQueue =
  q_initialSent :: bool
  q_initW :: "16 word"
  q_initH :: "16 word"

text \<open>The stream ends the requests refer to.\<close>

datatype streamEnd = NoStream | SessionStream | SessionStderr | PipeReader | PipeWriter | StderrBuffer

record ExecRequest =
  er_Target :: Target
  er_Command :: "string list"
  er_Stdin :: streamEnd
  er_Stdout :: streamEnd
  er_Stderr :: streamEnd
  er_TTY :: bool
  er_TerminalSizeQueue :: "windowSizeQueue option"

record PortForwardRequest =
  pf_Target :: Target
  pf_Host :: string
  pf_Port :: "32 word"

record PodPortForwardRequest =
  ppf_Target :: Target
  ppf_Port :: "32 word"

record RemoteForwardRequest =
  rf_Target :: Target
  rf_BindHost :: string
  rf_BindPort :: "32 word"

record AgentForwardRequest =
  af_Target :: Target

record StreamRequest =
  sr_Target :: Target
  sr_Stdin :: streamEnd
  sr_Stdout :: streamEnd
  sr_Stderr :: streamEnd

record SCPRequest =
  scp_Stream :: StreamRequest
  scp_Args :: "string list"

record HelperExecRequest =
  he_Stream :: StreamRequest
  he_Capability :: string
  he_Command :: "string list"

section \<open>Helper capabilities (helper/protocol.go)\<close>

abbreviation HelperSFTP :: string where "HelperSFTP \<equiv> ''sftp''"
abbreviation HelperSCP :: string where "HelperSCP \<equiv> ''scp''"
abbreviation HelperDial :: string where "HelperDial \<equiv> ''dial''"
abbreviation HelperRemoteForward :: string where "HelperRemoteForward \<equiv> ''remote-forward''"
abbreviation HelperAgentForward :: string where "HelperAgentForward \<equiv> ''agent-forward''"
abbreviation CommandServe :: string where "CommandServe \<equiv> ''serve''"

section \<open>The transport\<close>

datatype transportCall =
    TransportExec ExecRequest
  | TransportExecHelper HelperExecRequest
  | TransportPortForward PodPortForwardRequest

record Transport =
  tp_Exec :: "ExecRequest \<Rightarrow> int \<times> go_error option"
  tp_ExecHelper :: "HelperExecRequest \<Rightarrow> int \<times> go_error option"
  tp_PortForward :: "PodPortForwardRequest \<Rightarrow> go_error option"

section \<open>The Executor\<close>

definition Executor_Exec :: "Transport \<Rightarrow> ExecRequest \<Rightarrow> transportCall list \<times> int \<times> go_error option" where
  "Executor_Exec t req = ([TransportExec req], tp_Exec t req)"

definition execHelper ::
  "Transport \<Rightarrow> string \<Rightarrow> string list \<Rightarrow> StreamRequest \<Rightarrow> transportCall list \<times> int \<times> go_error option" where
  "execHelper t capability command stream =
     (let req = \<lparr> he_Stream = stream, he_Capability = capability, he_Command = command \<rparr>
      in ([TransportExecHelper req], tp_ExecHelper t req))"

definition execHelperCommand ::
  "Transport \<Rightarrow> string \<Rightarrow> string list \<Rightarrow> StreamRequest \<Rightarrow> transportCall list \<times> int \<times> go_error option" where
  "execHelperCommand t capability command stream =
     (case execHelper t capability command stream of
        (calls, exitCode, Some err) \<Rightarrow> (calls, exitCode, Some err)
      | (calls, exitCode, None) \<Rightarrow>
          if exitCode \<noteq> 0
          then (calls, exitCode, Some (Errorf ''helper %s exited with %d'' [Join command (CHR '' ''), FormatInt exitCode]))
          else (calls, exitCode, None))"

definition Executor_SFTP :: "Transport \<Rightarrow> StreamRequest \<Rightarrow> transportCall list \<times> int \<times> go_error option" where
  "Executor_SFTP t req = execHelperCommand t HelperSFTP [HelperSFTP] req"

definition Executor_SCP :: "Transport \<Rightarrow> SCPRequest \<Rightarrow> transportCall list \<times> int \<times> go_error option" where
  "Executor_SCP t req = execHelperCommand t HelperSCP (HelperSCP # scp_Args req) (scp_Stream req)"

definition isPodLoopbackHost :: "string \<Rightarrow> bool" where
  "isPodLoopbackHost host =
     (let h = ToLower host in h = [] \<or> h = ''localhost'' \<or> h = ''127.0.0.1'' \<or> h = ''::1'')"

text \<open>
  The terminal result of the goroutine that runs a helper process: the first completion stays.
\<close>

record terminalResult =
  tr_once :: bool
  tr_err :: "go_error option"

definition newTerminalResult :: terminalResult where
  "newTerminalResult = \<lparr> tr_once = False, tr_err = None \<rparr>"

definition terminal_complete :: "terminalResult \<Rightarrow> go_error option \<Rightarrow> terminalResult" where
  "terminal_complete r err = (if tr_once r then r else r\<lparr> tr_once := True, tr_err := err \<rparr>)"

definition terminal_poll :: "terminalResult \<Rightarrow> go_error option \<times> bool" where
  "terminal_poll r = (if tr_once r then (tr_err r, True) else (None, False))"

text \<open>
  A dial through the helper returns its stream at once; the helper runs beside it and completes the
  stream's terminal result, which the model evaluates eagerly.
\<close>

definition dialThroughHelper ::
  "Transport \<Rightarrow> string \<Rightarrow> PortForwardRequest \<Rightarrow> transportCall list \<times> terminalResult result" where
  "dialThroughHelper t stderrText req =
     (case execHelper t HelperDial [HelperDial, ''--host'', pf_Host req, ''--port'', FormatUint (pf_Port req)]
             \<lparr> sr_Target = pf_Target req, sr_Stdin = PipeReader, sr_Stdout = PipeWriter, sr_Stderr = StderrBuffer \<rparr> of
        (calls, exitCode, err) \<Rightarrow>
          (calls,
           Inr (case err of
                  Some e \<Rightarrow> terminal_complete newTerminalResult (Some e)
                | None \<Rightarrow>
                    if exitCode \<noteq> 0
                    then terminal_complete newTerminalResult
                           (Some (Errorf ''helper dial exited with %d: %s'' [FormatInt exitCode, TrimSpace stderrText]))
                    else terminal_complete newTerminalResult None)))"

datatype forwardStream = PodStream | HelperDialStream terminalResult

definition Executor_PortForward ::
  "Transport \<Rightarrow> string \<Rightarrow> PortForwardRequest \<Rightarrow> transportCall list \<times> forwardStream result" where
  "Executor_PortForward t stderrText req =
     (if pf_Port req = 0 \<or> pf_Port req > 65535
      then ([], Inl (BadRequest ''invalid port %d'' [FormatUint (pf_Port req)]))
      else if isPodLoopbackHost (pf_Host req) then
        (let pod = \<lparr> ppf_Target = pf_Target req, ppf_Port = pf_Port req \<rparr>
         in ([TransportPortForward pod], case tp_PortForward t pod of Some err \<Rightarrow> Inl err | None \<Rightarrow> Inr PodStream))
      else (case dialThroughHelper t stderrText req of
              (calls, r) \<Rightarrow> (calls, bind_result r (\<lambda>s. Inr (HelperDialStream s)))))"

text \<open>
  A helper session: one long-running helper process and the client connection over its standard
  streams.  The client (pkg/podssh/backend/helper) answers whether it connected and whether the
  listener it was asked for could be opened.
\<close>

record helperSession =
  hs_result :: terminalResult
  hs_cancelled :: bool
  hs_clientClosed :: bool

abbreviation ErrClientClosed :: go_error where "ErrClientClosed \<equiv> Errorf ''connection closed'' []"

definition startHelperSession ::
  "Transport \<Rightarrow> string \<Rightarrow> go_error option \<Rightarrow> Target \<Rightarrow> string \<Rightarrow> transportCall list \<times> helperSession result" where
  "startHelperSession t stderrText newClient tgt capability =
     (case execHelper t capability [CommandServe]
             \<lparr> sr_Target = tgt, sr_Stdin = PipeReader, sr_Stdout = PipeWriter, sr_Stderr = StderrBuffer \<rparr> of
        (calls, exitCode, err) \<Rightarrow>
          let result =
                (case err of
                   Some e \<Rightarrow> terminal_complete newTerminalResult (Some e)
                 | None \<Rightarrow>
                     if exitCode \<noteq> 0
                     then terminal_complete newTerminalResult
                            (Some (ServiceUnavailable ''helper %s exited with %d: %s''
                               [capability, FormatInt exitCode, TrimSpace stderrText]))
                     else terminal_complete newTerminalResult None)
          in (calls,
              case newClient of
                Some e \<Rightarrow> Inl (Wrap ''create helper connection client: %w'' [] e)
              | None \<Rightarrow> Inr \<lparr> hs_result = result, hs_cancelled = False, hs_clientClosed = False \<rparr>))"

definition resolveClientError :: "helperSession \<Rightarrow> go_error \<Rightarrow> go_error" where
  "resolveClientError s err =
     (if \<not> errors_is err ErrClientClosed then err
      else case tr_err (hs_result s) of Some terminalErr \<Rightarrow> terminalErr | None \<Rightarrow> err)"

definition helperSession_Close :: "helperSession \<Rightarrow> helperSession" where
  "helperSession_Close s = s\<lparr> hs_cancelled := True, hs_clientClosed := True \<rparr>"

text \<open>
  Opening a listener through a fresh helper session.  The session that was started is returned in
  its final state: a failed listener leaves it closed.
\<close>

definition Executor_RemoteForward ::
  "Transport \<Rightarrow> string \<Rightarrow> go_error option \<Rightarrow> (string \<Rightarrow> 32 word \<Rightarrow> 32 word result) \<Rightarrow> RemoteForwardRequest \<Rightarrow>
    transportCall list \<times> helperSession option \<times> 32 word result" where
  "Executor_RemoteForward t stderrText newClient listenRemote req =
     (if rf_BindPort req > 65535
      then ([], None, Inl (BadRequest ''invalid bind port %d'' [FormatUint (rf_BindPort req)]))
      else case startHelperSession t stderrText newClient (rf_Target req) HelperRemoteForward of
             (calls, Inl err) \<Rightarrow> (calls, None, Inl err)
           | (calls, Inr session) \<Rightarrow>
               (case listenRemote (rf_BindHost req) (rf_BindPort req) of
                  Inl err \<Rightarrow> (calls, Some (helperSession_Close session),
                              Inl (Wrap ''create helper remote-forward: %w'' [] (resolveClientError session err)))
                | Inr actualPort \<Rightarrow> (calls, Some session, Inr actualPort)))"

definition Executor_AgentForward ::
  "Transport \<Rightarrow> string \<Rightarrow> go_error option \<Rightarrow> string result \<Rightarrow> AgentForwardRequest \<Rightarrow>
    transportCall list \<times> helperSession option \<times> string result" where
  "Executor_AgentForward t stderrText newClient listenAgent req =
     (case startHelperSession t stderrText newClient (af_Target req) HelperAgentForward of
        (calls, Inl err) \<Rightarrow> (calls, None, Inl err)
      | (calls, Inr session) \<Rightarrow>
          (case listenAgent of
             Inl err \<Rightarrow> (calls, Some (helperSession_Close session),
                         Inl (Wrap ''create helper agent-forward: %w'' [] (resolveClientError session err)))
           | Inr socketPath \<Rightarrow> (calls, Some session, Inr socketPath)))"

end
