(* ===== verification/PodSession.thy ===== *)
theory PodSession
  imports PodBackend SessionPolicy Machines
begin

text \<open>
  Session channels of the Pod SSH protocol: pkg/podssh/protocol.go, operation.go, session.go,
  session_handler.go and agentforward.go.  A session is a state machine: its request loop, the
  goroutine of its operation, the goroutine serving its forwarded agent and the reader of its resize
  queue take steps in any order.  What the session did to the outside is its log.  The decoders of
  the SSH wire format (golang.org/x/crypto) and the answers of the operation gate and of the
  backend are parameters.
\<close>

section \<open>The wire format\<close>

record ptyPayload =
  py_Term :: string
  py_Width :: "32 word"
  py_Height :: "32 word"
  py_PixelWidth :: "32 word"
  py_PixelHeight :: "32 word"
  py_Modes :: string

record windowPayload =
  wp_Width :: "32 word"
  wp_Height :: "32 word"
  wp_PixelWidth :: "32 word"
  wp_PixelHeight :: "32 word"

record sshWire =
  sw_string :: "string \<Rightarrow> string option"
  sw_pair :: "string \<Rightarrow> (string \<times> string) option"
  sw_pty :: "string \<Rightarrow> ptyPayload option"
  sw_window :: "string \<Rightarrow> windowPayload option"

record sshRequest =
  srq_Type :: string
  srq_Payload :: string

section \<open>The protocol of one connection (protocol.go)\<close>

record podProtocol =
  pp_target :: Target
  pp_defaultShell :: string
  pp_envAllowed :: "string \<Rightarrow> bool"

abbreviation EnvironmentSSHAuthSock :: string where "EnvironmentSSHAuthSock \<equiv> ''SSH_AUTH_SOCK''"

section \<open>Commands and environment (session.go)\<close>

fun scp_flag :: "string list \<Rightarrow> bool" where
  "scp_flag [] = False"
| "scp_flag (arg # args) =
     (if arg = ''-t'' \<or> arg = ''-f'' \<or> HasPrefix arg ''-t'' \<or> HasPrefix arg ''-f'' then True else scp_flag args)"

definition pod_isSCPCommand :: "string list \<Rightarrow> bool" where
  "pod_isSCPCommand argv = (if argv = [] \<or> path_Base (hd argv) \<noteq> ''scp'' then False else scp_flag (tl argv))"

definition buildCommand :: "bool \<Rightarrow> string \<Rightarrow> string list \<Rightarrow> string \<Rightarrow> string list" where
  "buildCommand isExec rawCmd env defaultShell =
     (let argv = (if length env > 0 then ''env'' # env else [])
      in if isExec then argv @ [defaultShell, ''-c'', rawCmd] else argv @ [defaultShell])"

fun drop_prefixed :: "string \<Rightarrow> string list \<Rightarrow> string list" where
  "drop_prefixed p [] = []"
| "drop_prefixed p (item # env) = (if HasPrefix item p then drop_prefixed p env else item # drop_prefixed p env)"

definition appendEnvOverride :: "string list \<Rightarrow> string \<Rightarrow> string \<Rightarrow> string list" where
  "appendEnvOverride env key v = (let p = key @ ''='' in drop_prefixed p env @ [p @ v])"

text \<open>
  \<^verbatim>\<open>strings.EqualFold\<close> against an ASCII string: besides the case of ASCII letters, the long s
  (U+017F) folds to s and the Kelvin sign (U+212A) to k; no other non-ASCII character folds to an
  ASCII one.
\<close>

fun ascii_fold :: "string \<Rightarrow> string" where
  "ascii_fold [] = []"
| "ascii_fold (c # s) =
     (if c = CHR 0xC5 then
        (case s of [] \<Rightarrow> [c] | d # s' \<Rightarrow> if d = CHR 0xBF then CHR ''s'' # ascii_fold s' else c # ascii_fold s)
      else if c = CHR 0xE2 then
        (case s of
           d # e # s' \<Rightarrow> if d = CHR 0x84 \<and> e = CHR 0xAA then CHR ''k'' # ascii_fold s' else c # ascii_fold s
         | _ \<Rightarrow> c # ascii_fold s)
      else lower_byte c # ascii_fold s)"

definition EqualFold :: "string \<Rightarrow> string \<Rightarrow> bool" where
  "EqualFold s t = (ascii_fold s = ToLower t)"

fun filterEnv :: "podProtocol \<Rightarrow> string list \<Rightarrow> string list" where
  "filterEnv p [] = []"
| "filterEnv p (env # envs) =
     (case Cut env (CHR ''='') of
        (key, _, found) \<Rightarrow>
          if found \<and> \<not> EqualFold key EnvironmentSSHAuthSock \<and> pp_envAllowed p key then env # filterEnv p envs
          else filterEnv p envs)"

definition sessionOperation :: "string \<Rightarrow> string \<Rightarrow> Operation" where
  "sessionOperation requestType command =
     zero_Operation\<lparr> op_ChannelType := ChannelSession, op_RequestType := requestType, op_Command := command \<rparr>"

section \<open>Terminal output and size\<close>

text \<open>\<^verbatim>\<open>bytes.ReplaceAll\<close> for a non-empty pattern: leftmost occurrences, not overlapping.\<close>

function ReplaceAll :: "string \<Rightarrow> string \<Rightarrow> string \<Rightarrow> string" where
  "ReplaceAll s old new =
     (if s = [] \<or> old = [] then s
      else if prefix old s then new @ ReplaceAll (drop (length old) s) old new
      else hd s # ReplaceAll (tl s) old new)"
  by pat_completeness auto
termination by (relation "measure (\<lambda>(s, _, _). length s)") (auto simp: neq_Nil_conv)

declare ReplaceAll.simps [simp del]

abbreviation LF :: string where "LF \<equiv> [CHR 0x0A]"
abbreviation CRLF :: string where "CRLF \<equiv> [CHR 0x0D, CHR 0x0A]"
abbreviation CRCRLF :: string where "CRCRLF \<equiv> [CHR 0x0D, CHR 0x0D, CHR 0x0A]"

text \<open>The bytes written to the channel, and the count reported when the channel took \<^verbatim>\<open>n\<close> of them.\<close>

definition session_Write :: "bool \<Rightarrow> string \<Rightarrow> nat \<Rightarrow> string \<times> nat" where
  "session_Write pty p n =
     (if \<not> pty then (p, n)
      else (ReplaceAll (ReplaceAll p LF CRLF) CRCRLF CRLF, min n (length p)))"

record PTY =
  pty_Term :: string
  pty_Window :: Window

definition MaxUint16 :: "32 word" where
  "MaxUint16 = 65535"

definition parseSessionPTYRequest :: "sshWire \<Rightarrow> string \<Rightarrow> PTY option" where
  "parseSessionPTYRequest wire payload =
     (case sw_pty wire payload of
        None \<Rightarrow> None
      | Some r \<Rightarrow>
          if py_Width r > MaxUint16 \<or> py_Height r > MaxUint16 then None
          else Some \<lparr> pty_Term = py_Term r,
                 pty_Window = \<lparr> w_Width = uint (py_Width r), w_Height = uint (py_Height r) \<rparr> \<rparr>)"

definition parseSessionWindowChangeRequest :: "sshWire \<Rightarrow> string \<Rightarrow> Window option" where
  "parseSessionWindowChangeRequest wire payload =
     (case sw_window wire payload of
        None \<Rightarrow> None
      | Some r \<Rightarrow>
          if wp_Width r < 1 \<or> wp_Height r < 1 \<or> wp_Width r > MaxUint16 \<or> wp_Height r > MaxUint16 then None
          else Some \<lparr> w_Width = uint (wp_Width r), w_Height = uint (wp_Height r) \<rparr>)"

text \<open>
  \<^verbatim>\<open>windowSizeQueue.Next\<close> on the queued sizes: the initial size first, then the queue; None
  is the nil of a closed queue.
\<close>

definition windowSizeQueue_Next ::
  "windowSizeQueue \<Rightarrow> Window list \<Rightarrow> (windowSizeQueue \<times> Window list) \<times> TerminalSize option" where
  "windowSizeQueue_Next q ch =
     (if \<not> q_initialSent q
      then ((q\<lparr> q_initialSent := True \<rparr>, ch), Some \<lparr> ts_Width = q_initW q, ts_Height = q_initH q \<rparr>)
      else case ch of
             [] \<Rightarrow> ((q, []), None)
           | w # ws \<Rightarrow> ((q, ws), Some \<lparr> ts_Width = word_of_int (w_Width w), ts_Height = word_of_int (w_Height w) \<rparr>))"

section \<open>Operations of a session\<close>

text \<open>
  The answers of the operation gate, by the contract of sshprotocol.BeginOperationFunc: no
  lifecycle was started, or one was and the operation is denied, or allowed.
\<close>

datatype beginAnswer = NotStarted go_error | DeniedOperation go_error | AllowedOperation

datatype opTag = AgentOp | TaskOp

datatype backendCall = CallExec ExecRequest | CallSCP SCPRequest | CallSFTP StreamRequest | CallAgentForward AgentForwardRequest

datatype sessionEffect =
    Began opTag Operation beginAnswer
  | Called opTag backendCall
  | Finished opTag OperationResult
  | WroteError bool go_error
  | Replied bool
  | SentExitStatus "32 word"

definition exit_result :: "int \<Rightarrow> go_error option \<Rightarrow> OperationResult" where
  "exit_result code err = \<lparr> or_Err = err, or_ExitCode = Some code, or_ActualBindPort = None \<rparr>"

definition error_result :: "go_error option \<Rightarrow> OperationResult" where
  "error_result err = \<lparr> or_Err = err, or_ExitCode = None, or_ActualBindPort = None \<rparr>"

text \<open>
  runSessionOperation up to the call of \<^verbatim>\<open>execute\<close>, and from its return on.  The first part
  returns the exit code of an operation that was not allowed.
\<close>

definition runSessionOperation_begin ::
  "beginAnswer \<Rightarrow> Operation \<Rightarrow> bool \<Rightarrow> backendCall \<Rightarrow> sessionEffect list \<times> int option" where
  "runSessionOperation_begin answer operation tty call =
     (case answer of
        NotStarted err \<Rightarrow> ([Began TaskOp operation answer, WroteError tty err], Some 1)
      | DeniedOperation err \<Rightarrow>
          ([Began TaskOp operation answer, Finished TaskOp (exit_result 1 None), WroteError tty err], Some 1)
      | AllowedOperation \<Rightarrow> ([Began TaskOp operation answer, Called TaskOp call], None))"

definition runSessionOperation_end :: "bool \<Rightarrow> int \<Rightarrow> go_error option \<Rightarrow> sessionEffect list \<times> int" where
  "runSessionOperation_end tty exitCode execErr =
     ((case execErr of Some err \<Rightarrow> [WroteError tty err] | None \<Rightarrow> []) @
      [Finished TaskOp (exit_result exitCode execErr)], exitCode)"

section \<open>The session state (session_handler.go)\<close>

datatype taskState = NoTask | Spawned | Running bool | Returned

record sessionAgentForward =
  saf_socket :: string
  saf_closing :: bool
  saf_done :: bool

record serverSession =
  ses_started :: bool
  ses_pty :: "PTY option"
  ses_winch :: "Window list option"
  ses_winchClosed :: bool
  ses_env :: "string list"
  ses_rawCmd :: string
  ses_requestType :: string
  ses_agentForward :: "sessionAgentForward option"
  ses_cancelled :: bool
  ses_channelClosed :: bool
  ses_exitOnce :: bool
  ses_loopDone :: bool
  ses_task :: taskState
  ses_log :: "sessionEffect list"

definition newServerSession :: serverSession where
  "newServerSession =
     \<lparr> ses_started = False, ses_pty = None, ses_winch = None, ses_winchClosed = False, ses_env = [], ses_rawCmd = [],
       ses_requestType = [], ses_agentForward = None, ses_cancelled = False, ses_channelClosed = False,
       ses_exitOnce = False, ses_loopDone = False, ses_task = NoTask, ses_log = [] \<rparr>"

abbreviation logged :: "serverSession \<Rightarrow> sessionEffect list \<Rightarrow> serverSession" where
  "logged s es \<equiv> s\<lparr> ses_log := ses_log s @ es \<rparr>"

definition session_Command :: "(string \<Rightarrow> string list) \<Rightarrow> serverSession \<Rightarrow> string list" where
  "session_Command shlex s = shlex (ses_rawCmd s)"

definition AgentForwardSocket :: "serverSession \<Rightarrow> string" where
  "AgentForwardSocket s = (case ses_agentForward s of None \<Rightarrow> [] | Some f \<Rightarrow> saf_socket f)"

definition session_Exit :: "int \<Rightarrow> serverSession \<Rightarrow> serverSession" where
  "session_Exit code s =
     (if ses_exitOnce s then s
      else (logged s [SentExitStatus (word_of_int code)])\<lparr> ses_exitOnce := True, ses_channelClosed := True, ses_cancelled := True \<rparr>)"

definition resolveSession :: "podProtocol \<Rightarrow> serverSession \<Rightarrow> Operation \<times> ExecRequest" where
  "resolveSession p s =
     (let operation = sessionOperation (ses_requestType s) (ses_rawCmd s);
          env = filterEnv p (ses_env s);
          socket = AgentForwardSocket s;
          env1 = (if socket \<noteq> [] then appendEnvOverride env EnvironmentSSHAuthSock socket else env);
          env2 = (case ses_pty s of
                    Some pty \<Rightarrow> if pty_Term pty \<noteq> [] then env1 @ [''TERM='' @ pty_Term pty] else env1
                  | None \<Rightarrow> env1);
          command = buildCommand (ses_requestType s = RequestExec) (ses_rawCmd s) env2 (pp_defaultShell p)
      in (operation,
          \<lparr> er_Target = pp_target p, er_Command = command, er_Stdin = SessionStream, er_Stdout = SessionStream,
            er_Stderr = (if ses_pty s = None then SessionStderr else NoStream), er_TTY = (ses_pty s \<noteq> None),
            er_TerminalSizeQueue =
              (case ses_pty s of
                 None \<Rightarrow> None
               | Some pty \<Rightarrow> Some \<lparr> q_initialSent = False, q_initW = word_of_int (w_Width (pty_Window pty)),
                   q_initH = word_of_int (w_Height (pty_Window pty)) \<rparr>) \<rparr>))"

text \<open>The operation, the terminal flag and the backend call of each handler.\<close>

definition handleSCP :: "podProtocol \<Rightarrow> (string \<Rightarrow> string list) \<Rightarrow> serverSession \<Rightarrow> Operation \<times> bool \<times> backendCall" where
  "handleSCP p shlex s =
     (sessionOperation RequestExec (ses_rawCmd s), False,
      CallSCP \<lparr> scp_Stream = \<lparr> sr_Target = pp_target p, sr_Stdin = SessionStream, sr_Stdout = SessionStream, sr_Stderr = SessionStderr \<rparr>,
        scp_Args = tl (session_Command shlex s) \<rparr>)"

definition handleSFTP :: "podProtocol \<Rightarrow> Operation \<times> bool \<times> backendCall" where
  "handleSFTP p =
     (zero_Operation\<lparr> op_ChannelType := ChannelSession, op_RequestType := RequestSubsystem, op_Subsystem := SubsystemSFTP \<rparr>, False,
      CallSFTP \<lparr> sr_Target = pp_target p, sr_Stdin = SessionStream, sr_Stdout = SessionStream, sr_Stderr = SessionStderr \<rparr>)"

definition handleSession :: "podProtocol \<Rightarrow> (string \<Rightarrow> string list) \<Rightarrow> serverSession \<Rightarrow> Operation \<times> bool \<times> backendCall" where
  "handleSession p shlex s =
     (if ses_requestType s = RequestExec \<and> pod_isSCPCommand (session_Command shlex s) then handleSCP p shlex s
      else case resolveSession p s of (operation, request) \<Rightarrow> (operation, er_TTY request, CallExec request))"

text \<open>The handler a start request selects: the subsystem request runs SFTP, the others a session.\<close>

definition session_handler :: "podProtocol \<Rightarrow> (string \<Rightarrow> string list) \<Rightarrow> serverSession \<Rightarrow> Operation \<times> bool \<times> backendCall" where
  "session_handler p shlex s = (if ses_requestType s = RequestSubsystem then handleSFTP p else handleSession p shlex s)"

section \<open>Requests\<close>

definition handleStartRequest :: "sshWire \<Rightarrow> bool \<Rightarrow> serverSession \<Rightarrow> sshRequest \<Rightarrow> serverSession" where
  "handleStartRequest wire replyFails s request =
     (if ses_started s then logged s [Replied False]
      else
        let payload = sw_string wire (srq_Payload request);
            isShell = (srq_Type request = RequestShell);
            isSubsystem = (srq_Type request = RequestSubsystem)
        in if isShell \<and> srq_Payload request \<noteq> [] then logged s [Replied False]
           else if \<not> isShell \<and> payload = None then logged s [Replied False]
           else if isSubsystem \<and> payload \<noteq> Some SubsystemSFTP then logged s [Replied False]
           else
             let s1 = (logged s [Replied True])\<lparr> ses_requestType := srq_Type request,
                    ses_rawCmd := (if srq_Type request = RequestExec then the payload else ses_rawCmd s),
                    ses_started := True \<rparr>
             in if replyFails then s1\<lparr> ses_cancelled := True \<rparr> else s1\<lparr> ses_task := Spawned \<rparr>)"

definition handleEnvRequest :: "sshWire \<Rightarrow> serverSession \<Rightarrow> sshRequest \<Rightarrow> serverSession" where
  "handleEnvRequest wire s request =
     (if ses_started s then logged s [Replied False]
      else case sw_pair wire (srq_Payload request) of
             None \<Rightarrow> logged s [Replied False]
           | Some (key, v) \<Rightarrow> (logged s [Replied True])\<lparr> ses_env := ses_env s @ [key @ ''='' @ v] \<rparr>)"

definition handlePTYRequest :: "sshWire \<Rightarrow> serverSession \<Rightarrow> sshRequest \<Rightarrow> serverSession" where
  "handlePTYRequest wire s request =
     (if ses_started s \<or> ses_pty s \<noteq> None then logged s [Replied False]
      else case parseSessionPTYRequest wire (srq_Payload request) of
             None \<Rightarrow> logged s [Replied False]
           | Some pty \<Rightarrow> (logged s [Replied True])\<lparr> ses_pty := Some pty, ses_winch := Some [] \<rparr>)"

definition handleWindowChangeRequest :: "sshWire \<Rightarrow> serverSession \<Rightarrow> sshRequest \<Rightarrow> serverSession" where
  "handleWindowChangeRequest wire s request =
     (if ses_pty s = None then logged s [Replied False]
      else case parseSessionWindowChangeRequest wire (srq_Payload request) of
             None \<Rightarrow> logged s [Replied False]
           | Some window \<Rightarrow>
               (logged s [Replied True])\<lparr> ses_winch := map_option (\<lambda>ch. tl ch @ [window]) (ses_winch s) \<rparr>)"

section \<open>Agent forwarding (agentforward.go)\<close>

definition agentOperation :: Operation where
  "agentOperation = zero_Operation\<lparr> op_ChannelType := ChannelSession, op_RequestType := RequestAgentForward \<rparr>"

definition acceptAgentForward ::
  "podProtocol \<Rightarrow> beginAnswer \<Rightarrow> string result \<Rightarrow> sessionEffect list \<times> sessionAgentForward option" where
  "acceptAgentForward p answer forward =
     (case answer of
        NotStarted err \<Rightarrow> ([Began AgentOp agentOperation answer], None)
      | DeniedOperation err \<Rightarrow> ([Began AgentOp agentOperation answer, Finished AgentOp (error_result None)], None)
      | AllowedOperation \<Rightarrow>
          (case forward of
             Inl err \<Rightarrow>
               ([Began AgentOp agentOperation answer, Called AgentOp (CallAgentForward \<lparr> af_Target = pp_target p \<rparr>),
                 Finished AgentOp (error_result (Some err))], None)
           | Inr socket \<Rightarrow>
               ([Began AgentOp agentOperation answer, Called AgentOp (CallAgentForward \<lparr> af_Target = pp_target p \<rparr>)],
                Some \<lparr> saf_socket = socket, saf_closing = False, saf_done = False \<rparr>)))"

definition handleAgentForwardRequest ::
  "podProtocol \<Rightarrow> beginAnswer \<Rightarrow> string result \<Rightarrow> serverSession \<Rightarrow> sshRequest \<Rightarrow> serverSession" where
  "handleAgentForwardRequest p answer forward s request =
     (if ses_started s \<or> ses_agentForward s \<noteq> None \<or> srq_Payload request \<noteq> [] then logged s [Replied False]
      else case acceptAgentForward p answer forward of
             (effects, None) \<Rightarrow> logged s (effects @ [Replied False])
           | (effects, Some f) \<Rightarrow> (logged s (effects @ [Replied True]))\<lparr> ses_agentForward := Some f \<rparr>)"

text \<open>The end of serveAgentForward on an error of Accept, and the effect of Close on a forward.\<close>

definition serveAgentForward_end :: "bool \<Rightarrow> go_error \<Rightarrow> serverSession \<Rightarrow> sessionAgentForward \<Rightarrow> serverSession" where
  "serveAgentForward_end canceled err s f =
     (logged s [Finished AgentOp (error_result (if saf_closing f \<or> ses_cancelled s \<or> canceled then None else Some err))])
       \<lparr> ses_agentForward := Some (f\<lparr> saf_done := True \<rparr>) \<rparr>"

section \<open>The request loop\<close>

record sessionAnswers =
  sa_begin :: beginAnswer
  sa_agent :: "string result"
  sa_replyFails :: bool

definition handleRequest ::
  "podProtocol \<Rightarrow> sshWire \<Rightarrow> sessionAnswers \<Rightarrow> serverSession \<Rightarrow> sshRequest \<Rightarrow> serverSession" where
  "handleRequest p wire answers s request =
     (if srq_Type request = RequestShell \<or> srq_Type request = RequestExec \<or> srq_Type request = RequestSubsystem
      then handleStartRequest wire (sa_replyFails answers) s request
      else if srq_Type request = RequestEnvironment then handleEnvRequest wire s request
      else if srq_Type request = RequestPTY then handlePTYRequest wire s request
      else if srq_Type request = RequestWindowChange then handleWindowChangeRequest wire s request
      else if srq_Type request = RequestAgentForward
      then handleAgentForwardRequest p (sa_begin answers) (sa_agent answers) s request
      else logged s [Replied False])"

text \<open>The deferred function of handleRequests, up to the waits for the agent forward and the tasks.\<close>

definition handleRequests_exit :: "serverSession \<Rightarrow> serverSession" where
  "handleRequests_exit s =
     s\<lparr> ses_cancelled := True, ses_channelClosed := True, ses_winchClosed := (ses_winch s \<noteq> None),
        ses_agentForward := map_option (\<lambda>f. f\<lparr> saf_closing := True \<rparr>) (ses_agentForward s), ses_loopDone := True \<rparr>"

definition session_returned :: "serverSession \<Rightarrow> bool" where
  "session_returned s \<longleftrightarrow>
     ses_loopDone s \<and> (case ses_agentForward s of None \<Rightarrow> True | Some f \<Rightarrow> saf_done f) \<and>
     (ses_task s = NoTask \<or> ses_task s = Returned)"

record sessionEnv =
  sne_protocol :: podProtocol
  sne_wire :: sshWire
  sne_shlex :: "string \<Rightarrow> string list"

inductive session_step :: "sessionEnv \<Rightarrow> serverSession \<Rightarrow> serverSession \<Rightarrow> bool" for env :: sessionEnv where
  step_request: "\<not> ses_loopDone s \<Longrightarrow>
    session_step env s (handleRequest (sne_protocol env) (sne_wire env) answers s request)"
| step_loop_end: "\<not> ses_loopDone s \<Longrightarrow> session_step env s (handleRequests_exit s)"
| step_resize_taken: "ses_winch s = Some (w # ws) \<Longrightarrow> session_step env s (s\<lparr> ses_winch := Some ws \<rparr>)"
| step_task_allowed: "ses_task s = Spawned \<Longrightarrow>
    session_handler (sne_protocol env) (sne_shlex env) s = (operation, tty, call) \<Longrightarrow>
    runSessionOperation_begin answer operation tty call = (effects, None) \<Longrightarrow>
    session_step env s ((logged s effects)\<lparr> ses_task := Running tty \<rparr>)"
| step_task_denied: "ses_task s = Spawned \<Longrightarrow>
    session_handler (sne_protocol env) (sne_shlex env) s = (operation, tty, call) \<Longrightarrow>
    runSessionOperation_begin answer operation tty call = (effects, Some code) \<Longrightarrow>
    session_step env s ((session_Exit code (logged s effects))\<lparr> ses_task := Returned \<rparr>)"
| step_task_end: "ses_task s = Running tty \<Longrightarrow> runSessionOperation_end tty exitCode execErr = (effects, code) \<Longrightarrow>
    session_step env s ((session_Exit code (logged s effects))\<lparr> ses_task := Returned \<rparr>)"
| step_agent_end: "ses_agentForward s = Some f \<Longrightarrow> \<not> saf_done f \<Longrightarrow>
    session_step env s (serveAgentForward_end canceled err s f)"
| step_parent_cancelled: "session_step env s (s\<lparr> ses_cancelled := True \<rparr>)"

definition session_init :: "serverSession \<Rightarrow> bool" where
  "session_init s \<longleftrightarrow> s = newServerSession"

end
