(* ===== verification/PodForwards.thy ===== *)
theory PodForwards
  imports PodSession
begin

text \<open>
  Port forwarding of the Pod SSH protocol: pkg/podssh/directtcpip.go, remotetcpip.go and
  client_state.go.  A direct-tcpip channel is a function of the answers of its collaborators to the
  effects it has.  Remote forwards are a state machine: global requests, the goroutines
  serving the listeners and the closing of the connection take steps in any order.
\<close>

section \<open>Direct forwarding\<close>

record directTCPIPData =
  d_DestAddr :: string
  d_DestPort :: "32 word"
  d_OriginAddr :: string
  d_OriginPort :: "32 word"

datatype RejectionReason = Prohibited | ConnectionFailed | UnknownChannelType

datatype forwardEffect =
    ForwardBegan Operation beginAnswer
  | ForwardCalled PortForwardRequest
  | ForwardFinished OperationResult
  | Rejected RejectionReason string
  | Accepted
  | RemoteClosed
  | Proxied

definition directOperation :: "directTCPIPData \<Rightarrow> Operation" where
  "directOperation data =
     zero_Operation\<lparr> op_ChannelType := ChannelDirectTCPIP, op_DestinationHost := d_DestAddr data,
       op_DestinationPort := d_DestPort data, op_OriginHost := d_OriginAddr data, op_OriginPort := d_OriginPort data \<rparr>"

text \<open>
  \<^verbatim>\<open>decoded\<close> is the outcome of decoding the extra data of the channel; the other arguments answer
  the gate, the backend, the acceptance of the channel and the copying of the streams.
\<close>

definition handleDirectTCPIP ::
  "Target \<Rightarrow> (go_error \<Rightarrow> string) \<Rightarrow> directTCPIPData result \<Rightarrow> beginAnswer \<Rightarrow> 'stream result \<Rightarrow> go_error option \<Rightarrow> go_error option \<Rightarrow>
    forwardEffect list" where
  "handleDirectTCPIP tgt errorText decoded answer remote accept proxyErr =
     (case decoded of
        Inl err \<Rightarrow> [Rejected ConnectionFailed (''error parsing direct-tcpip data: '' @ errorText err)]
      | Inr data \<Rightarrow>
          let operation = directOperation data;
              call = ForwardCalled \<lparr> pf_Target = tgt, pf_Host = d_DestAddr data, pf_Port = d_DestPort data \<rparr>
          in case answer of
               NotStarted err \<Rightarrow> [ForwardBegan operation answer, Rejected Prohibited (errorText err)]
             | DeniedOperation err \<Rightarrow>
                 [ForwardBegan operation answer, ForwardFinished (error_result None), Rejected Prohibited (errorText err)]
             | AllowedOperation \<Rightarrow>
                 (case remote of
                    Inl err \<Rightarrow>
                      [ForwardBegan operation answer, call, ForwardFinished (error_result (Some err)),
                       Rejected ConnectionFailed (errorText err)]
                  | Inr _ \<Rightarrow>
                      (case accept of
                         Some err \<Rightarrow>
                           [ForwardBegan operation answer, call, RemoteClosed, ForwardFinished (error_result (Some err))]
                       | None \<Rightarrow>
                           [ForwardBegan operation answer, call, Accepted, Proxied, ForwardFinished (error_result proxyErr)])))"

section \<open>The remote forwards of a connection (client_state.go)\<close>

text \<open>
  A forward is identified by its number in the order the backend opened them; its record says what
  has happened to it.
\<close>

record remoteForwardState =
  fw_bind :: string
  fw_actualPort :: "32 word"
  fw_operation :: Operation
  fw_target :: Target
  fw_serving :: bool
  fw_closed :: bool
  fw_cancelled :: bool
  fw_finished :: "OperationResult list"

record clientState =
  cst_closed :: bool
  cst_remoteForwards :: "string \<rightharpoonup> nat"

definition newClientState :: clientState where
  "newClientState = \<lparr> cst_closed = False, cst_remoteForwards = Map.empty \<rparr>"

definition AddRemoteForward :: "clientState \<Rightarrow> string \<Rightarrow> nat \<Rightarrow> clientState \<times> bool" where
  "AddRemoteForward s key forward =
     (if cst_closed s then (s, False)
      else if cst_remoteForwards s key \<noteq> None then (s, False)
      else (s\<lparr> cst_remoteForwards := (cst_remoteForwards s)(key \<mapsto> forward) \<rparr>, True))"

definition RemoveRemoteForward :: "clientState \<Rightarrow> string \<Rightarrow> clientState \<times> nat option" where
  "RemoveRemoteForward s key =
     (s\<lparr> cst_remoteForwards := (cst_remoteForwards s)(key := None) \<rparr>, cst_remoteForwards s key)"

text \<open>Close returns the forwards it closes.\<close>

definition clientState_Close :: "clientState \<Rightarrow> clientState \<times> nat set" where
  "clientState_Close s =
     (if cst_closed s then (s, {})
      else (s\<lparr> cst_closed := True, cst_remoteForwards := Map.empty \<rparr>, ran (cst_remoteForwards s)))"

section \<open>Remote forwarding (remotetcpip.go)\<close>

record remoteForwardRequest =
  rfr_BindAddr :: string
  rfr_BindPort :: "32 word"

definition newRemoteForwardBind :: "string \<Rightarrow> 32 word \<Rightarrow> string" where
  "newRemoteForwardBind host port = JoinHostPort host (FormatUint port)"

text \<open>
  The forwards with the operations begun and the answers of the gate, the results operations were
  finished with, and the calls of the backend, each with the number of the operation it was made for.
\<close>

record podForwards =
  pfs_state :: clientState
  pfs_forwards :: "remoteForwardState list"
  pfs_log :: "(Operation \<times> beginAnswer) list"
  pfs_calls :: "(nat \<times> RemoteForwardRequest) list"
  pfs_finished :: "OperationResult list"

definition remoteOperation :: "remoteForwardRequest \<Rightarrow> Operation" where
  "remoteOperation data =
     zero_Operation\<lparr> op_RequestType := RequestTCPIPForward, op_BindHost := rfr_BindAddr data, op_BindPort := rfr_BindPort data \<rparr>"

abbreviation close_forward :: "remoteForwardState \<Rightarrow> remoteForwardState" where
  "close_forward f \<equiv> f\<lparr> fw_closed := True \<rparr>"

text \<open>
  handleTCPIPForward: the reply to the client is the success flag and the port.  \<^verbatim>\<open>forward\<close>
  is the backend's answer, the actual port of the listener it opened.
\<close>

definition handleTCPIPForward ::
  "Target \<Rightarrow> podForwards \<Rightarrow> remoteForwardRequest option \<Rightarrow> beginAnswer \<Rightarrow> 32 word result \<Rightarrow> podForwards \<times> bool \<times> 32 word option" where
  "handleTCPIPForward tgt s decoded answer forward =
     (case decoded of
        None \<Rightarrow> (s, False, None)
      | Some data \<Rightarrow>
          let operation = remoteOperation data;
              s1 = s\<lparr> pfs_log := pfs_log s @ [(operation, answer)] \<rparr>
          in case answer of
               NotStarted _ \<Rightarrow> (s1, False, None)
             | DeniedOperation _ \<Rightarrow> (s1\<lparr> pfs_finished := pfs_finished s1 @ [error_result None] \<rparr>, False, None)
             | AllowedOperation \<Rightarrow>
                 let request = \<lparr> rf_Target = tgt, rf_BindHost = rfr_BindAddr data, rf_BindPort = rfr_BindPort data \<rparr>;
                     s2 = s1\<lparr> pfs_calls := pfs_calls s1 @ [(length (pfs_log s), request)] \<rparr>
                 in case forward of
                    Inl err \<Rightarrow> (s2\<lparr> pfs_finished := pfs_finished s2 @ [error_result (Some err)] \<rparr>, False, None)
                  | Inr actualPort \<Rightarrow>
                      let key = newRemoteForwardBind (rfr_BindAddr data) actualPort;
                          opened = \<lparr> fw_bind = key, fw_actualPort = actualPort, fw_operation = operation, fw_target = tgt, fw_serving = True,
                                     fw_closed = False, fw_cancelled = False, fw_finished = [] \<rparr>
                      in case AddRemoteForward (pfs_state s2) key (length (pfs_forwards s2)) of
                           (st, False) \<Rightarrow>
                             let result = error_result (Some (Errorf ''remote forward already exists'' []))
                             in (s2\<lparr> pfs_state := st,
                                     pfs_forwards := pfs_forwards s2 @
                                       [(close_forward opened)\<lparr> fw_serving := False, fw_finished := [result] \<rparr>],
                                     pfs_finished := pfs_finished s2 @ [result] \<rparr>, False, None)
                         | (st, True) \<Rightarrow>
                             (s2\<lparr> pfs_state := st, pfs_forwards := pfs_forwards s2 @ [opened] \<rparr>, True, Some actualPort))"

text \<open>
  handleCancelTCPIPForward.  The removal and the cancellation are one step: what other goroutines do
  between them neither reads nor writes the cancelled forward's mark, so it commutes with the
  cancellation.
\<close>

definition handleCancelTCPIPForward ::
  "podForwards \<Rightarrow> remoteForwardRequest option \<Rightarrow> go_error option \<Rightarrow> podForwards \<times> bool" where
  "handleCancelTCPIPForward s decoded cancelErr =
     (case decoded of
        None \<Rightarrow> (s, False)
      | Some data \<Rightarrow>
          (case RemoveRemoteForward (pfs_state s) (newRemoteForwardBind (rfr_BindAddr data) (rfr_BindPort data)) of
             (st, None) \<Rightarrow> (s\<lparr> pfs_state := st \<rparr>, True)
           | (st, Some i) \<Rightarrow>
               let cancelled = (pfs_forwards s ! i)\<lparr> fw_cancelled := True \<rparr>
               in (s\<lparr> pfs_state := st,
                      pfs_forwards := (pfs_forwards s)[i := (if cancelErr \<noteq> None then close_forward cancelled else cancelled)] \<rparr>,
                   True)))"

text \<open>
  The end of serveRemoteForward: Accept failed, with \<^verbatim>\<open>quiet\<close> when the connection is gone or the
  error is a cancellation.  The deferred function removes whatever is registered under the bind of this
  forward, closes it, and finishes the operation of this forward.
\<close>

definition serveRemoteForward_end :: "podForwards \<Rightarrow> nat \<Rightarrow> bool \<Rightarrow> go_error \<Rightarrow> podForwards" where
  "serveRemoteForward_end s i quiet err =
     (let result = \<lparr> or_Err = (if quiet then None else Some err), or_ExitCode = None,
            or_ActualBindPort = Some (fw_actualPort (pfs_forwards s ! i)) \<rparr>
      in case RemoveRemoteForward (pfs_state s) (fw_bind (pfs_forwards s ! i)) of
           (st, current) \<Rightarrow>
             let fs = (case current of None \<Rightarrow> pfs_forwards s | Some j \<Rightarrow> (pfs_forwards s)[j := close_forward (pfs_forwards s ! j)])
             in s\<lparr> pfs_state := st,
                   pfs_forwards := fs[i := (fs ! i)\<lparr> fw_serving := False, fw_finished := fw_finished (fs ! i) @ [result] \<rparr>],
                   pfs_finished := pfs_finished s @ [result] \<rparr>)"

text \<open>The data of the channel opened to the client for one accepted connection.\<close>

record remoteForwardChannelData =
  ch_DestAddr :: string
  ch_DestPort :: "32 word"
  ch_OriginAddr :: string
  ch_OriginPort :: "32 word"

definition forwarded_channel :: "string \<Rightarrow> 32 word \<Rightarrow> string \<Rightarrow> 32 word \<Rightarrow> remoteForwardChannelData" where
  "forwarded_channel bindHost bindPort originHost originPort =
     \<lparr> ch_DestAddr = bindHost, ch_DestPort = bindPort, ch_OriginAddr = originHost, ch_OriginPort = originPort \<rparr>"

definition podProtocol_Close :: "podForwards \<Rightarrow> podForwards" where
  "podProtocol_Close s =
     (case clientState_Close (pfs_state s) of
        (st, closed) \<Rightarrow>
          s\<lparr> pfs_state := st,
             pfs_forwards := map (\<lambda>i. if i \<in> closed then close_forward (pfs_forwards s ! i) else pfs_forwards s ! i)
               [0..<length (pfs_forwards s)] \<rparr>)"

section \<open>Dispatch (protocol.go)\<close>

datatype channelRoute = SessionChannel | DirectChannel | RejectedChannel RejectionReason string

definition HandleChannel :: "string \<Rightarrow> channelRoute" where
  "HandleChannel channelType =
     (if channelType = ChannelSession then SessionChannel
      else if channelType = ChannelDirectTCPIP then DirectChannel
      else RejectedChannel UnknownChannelType ''unsupported channel type'')"

definition HandleGlobalRequest ::
  "Target \<Rightarrow> podForwards \<Rightarrow> string \<Rightarrow> remoteForwardRequest option \<Rightarrow> beginAnswer \<Rightarrow> 32 word result \<Rightarrow> go_error option \<Rightarrow>
    podForwards \<times> bool \<times> 32 word option" where
  "HandleGlobalRequest tgt s requestType decoded answer forward cancelErr =
     (if requestType = RequestTCPIPForward then handleTCPIPForward tgt s decoded answer forward
      else if requestType = RequestCancelTCPIPForward then
        (case handleCancelTCPIPForward s decoded cancelErr of (s', ok) \<Rightarrow> (s', ok, None))
      else (s, False, None))"

inductive forward_step :: "Target \<Rightarrow> podForwards \<Rightarrow> podForwards \<Rightarrow> bool" for tgt :: Target where
  step_global: "HandleGlobalRequest tgt s requestType decoded answer forward cancelErr = (s', reply) \<Longrightarrow> forward_step tgt s s'"
| step_serve_end: "i < length (pfs_forwards s) \<Longrightarrow> fw_serving (pfs_forwards s ! i) \<Longrightarrow>
    forward_step tgt s (serveRemoteForward_end s i quiet err)"
| step_protocol_close: "forward_step tgt s (podProtocol_Close s)"

definition forward_init :: "podForwards \<Rightarrow> bool" where
  "forward_init s \<longleftrightarrow> s = \<lparr> pfs_state = newClientState, pfs_forwards = [], pfs_log = [], pfs_calls = [], pfs_finished = [] \<rparr>"

end
