(* ===== verification/PodSessionLaws.thy ===== *)
theory PodSessionLaws
  imports PodSession
begin

text \<open>
  What a session channel of the Pod SSH protocol guarantees: it runs at most one operation, the one
  that was authorized, with an environment the policy allows, and closes what it opened; and its
  terminal output and sizes.
\<close>

section \<open>Parameters of a session are fixed once it has started\<close>

definition session_params :: "serverSession \<Rightarrow> string \<times> string \<times> string list \<times> PTY option \<times> string" where
  "session_params s = (ses_requestType s, ses_rawCmd s, ses_env s, ses_pty s, AgentForwardSocket s)"

lemma session_handler_params:
  "session_params s = session_params s' \<Longrightarrow> session_handler p shlex s = session_handler p shlex s'"
  by (simp add: session_params_def session_handler_def handleSession_def handleSCP_def resolveSession_def session_Command_def)

lemmas request_defs = handleStartRequest_def handleEnvRequest_def handlePTYRequest_def handleWindowChangeRequest_def
  handleAgentForwardRequest_def acceptAgentForward_def

lemmas request_splits = option.splits prod.splits if_splits beginAnswer.splits sum.splits

lemma handleRequest_started:
  assumes "ses_started s"
  shows "session_params (handleRequest p wire a s r) = session_params s" "ses_started (handleRequest p wire a s r)"
    "ses_task (handleRequest p wire a s r) = ses_task s"
  using assms by (auto simp: handleRequest_def request_defs session_params_def AgentForwardSocket_def Let_def split: option.splits)

lemma session_step_frozen:
  assumes "session_step env s s'" "ses_started s"
  shows "session_params s' = session_params s \<and> ses_started s'"
  using assms
proof (cases rule: session_step.cases)
  case (step_request answers request)
  then show ?thesis using handleRequest_started[OF assms(2)] by simp
qed (auto simp: session_params_def AgentForwardSocket_def handleRequests_exit_def session_Exit_def serveAgentForward_end_def
    split: option.split)

section \<open>The log of the operation\<close>

fun task_effect :: "sessionEffect \<Rightarrow> bool" where
  "task_effect (Began TaskOp _ _) = True"
| "task_effect (Called TaskOp _) = True"
| "task_effect (Finished TaskOp _) = True"
| "task_effect (SentExitStatus _) = True"
| "task_effect _ = False"

definition task_log :: "serverSession \<Rightarrow> sessionEffect list" where
  "task_log s = filter task_effect (ses_log s)"

text \<open>What a session whose operation has the given plan may have logged of it, by the state of its task.\<close>

fun task_shape :: "Operation \<times> bool \<times> backendCall \<Rightarrow> taskState \<Rightarrow> sessionEffect list \<Rightarrow> bool" where
  "task_shape (operation, tty, call) NoTask l \<longleftrightarrow> l = []"
| "task_shape (operation, tty, call) Spawned l \<longleftrightarrow> l = []"
| "task_shape (operation, tty, call) (Running t) l \<longleftrightarrow>
     t = tty \<and> l = [Began TaskOp operation AllowedOperation, Called TaskOp call]"
| "task_shape (operation, tty, call) Returned l \<longleftrightarrow>
     (\<exists>code err. l = [Began TaskOp operation AllowedOperation, Called TaskOp call,
        Finished TaskOp (exit_result code err), SentExitStatus (word_of_int code)]) \<or>
     (\<exists>e. l = [Began TaskOp operation (DeniedOperation e), Finished TaskOp (exit_result 1 None), SentExitStatus 1]) \<or>
     (\<exists>e. l = [Began TaskOp operation (NotStarted e), SentExitStatus 1])"

definition task_inv :: "sessionEnv \<Rightarrow> serverSession \<Rightarrow> bool" where
  "task_inv env s \<longleftrightarrow>
     (ses_task s \<noteq> NoTask \<longrightarrow> ses_started s) \<and> (ses_exitOnce s \<longrightarrow> ses_task s = Returned) \<and>
     (ses_started s \<longrightarrow> ses_requestType s \<in> {RequestShell, RequestExec, RequestSubsystem}) \<and>
     task_shape (session_handler (sne_protocol env) (sne_shlex env) s) (ses_task s) (task_log s)"

lemma task_shape_idle: "k = NoTask \<or> k = Spawned \<Longrightarrow> task_shape plan k l \<longleftrightarrow> l = []"
  by (cases plan) auto

lemma task_log_params: "task_log (logged s es) = task_log s @ filter task_effect es"
  by (simp add: task_log_def)

lemma acceptAgentForward_task_log: "filter task_effect (fst (acceptAgentForward p a f)) = []"
  by (simp add: acceptAgentForward_def split: beginAnswer.split sum.split)

text \<open>Each request handler, as far as the operation is concerned.\<close>

definition task_frame :: "serverSession \<Rightarrow> serverSession \<Rightarrow> bool" where
  "task_frame s s' \<longleftrightarrow> task_log s' = task_log s \<and> ses_exitOnce s' = ses_exitOnce s \<and>
     (ses_task s' = ses_task s \<and> ses_started s' = ses_started s \<and> ses_requestType s' = ses_requestType s \<or>
      \<not> ses_started s \<and> ses_started s' \<and> (ses_task s' = Spawned \<or> ses_task s' = ses_task s) \<and>
        ses_requestType s' \<in> {RequestShell, RequestExec, RequestSubsystem})"

lemma task_frame_logged: "filter task_effect es = [] \<Longrightarrow> task_frame s (logged s es)"
  by (simp add: task_frame_def task_log_def)

lemma handleStartRequest_frame:
  "srq_Type r \<in> {RequestShell, RequestExec, RequestSubsystem} \<Longrightarrow> task_frame s (handleStartRequest wire f s r)"
  by (simp add: handleStartRequest_def task_frame_def task_log_def Let_def)

lemma handleEnvRequest_frame: "task_frame s (handleEnvRequest wire s r)"
  by (simp add: handleEnvRequest_def task_frame_def task_log_def split: option.split prod.split)

lemma handlePTYRequest_frame: "task_frame s (handlePTYRequest wire s r)"
  by (simp add: handlePTYRequest_def task_frame_def task_log_def split: option.split)

lemma handleWindowChangeRequest_frame: "task_frame s (handleWindowChangeRequest wire s r)"
  by (simp add: handleWindowChangeRequest_def task_frame_def task_log_def split: option.split)

lemma handleAgentForwardRequest_frame: "task_frame s (handleAgentForwardRequest p a f s r)"
proof (cases "acceptAgentForward p a f")
  case (Pair effects g)
  then have "filter task_effect effects = []" using acceptAgentForward_task_log[of p a f] by simp
  then show ?thesis
    by (simp add: handleAgentForwardRequest_def Pair task_frame_def task_log_def split: option.split)
qed

lemma handleRequest_cases:
  assumes "\<And>f. srq_Type r \<in> {RequestShell, RequestExec, RequestSubsystem} \<Longrightarrow> P (handleStartRequest wire f s r)"
    and "P (handleEnvRequest wire s r)" "P (handlePTYRequest wire s r)" "P (handleWindowChangeRequest wire s r)"
    and "\<And>b f. P (handleAgentForwardRequest p b f s r)" "P (logged s [Replied False])"
  shows "P (handleRequest p wire a s r)"
proof (cases "srq_Type r = RequestShell \<or> srq_Type r = RequestExec \<or> srq_Type r = RequestSubsystem")
  case True
  then show ?thesis unfolding handleRequest_def if_P[OF True] by (intro assms(1)) blast
next
  case False
  show ?thesis unfolding handleRequest_def if_not_P[OF False] by (simp only: assms(2-) simp_thms split: if_split)
qed

lemma handleRequest_frame: "task_frame s (handleRequest p wire a s r)"
  by (rule handleRequest_cases)
    (simp_all only: handleStartRequest_frame handleEnvRequest_frame handlePTYRequest_frame
      handleWindowChangeRequest_frame handleAgentForwardRequest_frame task_frame_logged filter.simps task_effect.simps if_False)

lemma task_inv_request:
  assumes "task_inv env s"
  shows "task_inv env (handleRequest (sne_protocol env) (sne_wire env) a s r)" (is "task_inv env ?s")
proof (cases "ses_started s")
  case True
  then show ?thesis
    using assms handleRequest_started[OF True] session_handler_params[OF handleRequest_started(1)[OF True]]
      handleRequest_frame[of s "sne_protocol env" "sne_wire env" a r]
    by (simp add: task_inv_def task_frame_def session_params_def)
next
  case False
  then have "ses_task s = NoTask" "\<not> ses_exitOnce s" "task_log s = []"
    using assms by (auto simp: task_inv_def task_shape_idle)
  then show ?thesis
    using False handleRequest_frame[of s "sne_protocol env" "sne_wire env" a r]
    by (auto simp: task_inv_def task_frame_def task_shape_idle)
qed

lemma session_handler_log:
  "session_handler p shlex (s\<lparr> ses_log := l \<rparr>) = session_handler p shlex s"
  "session_handler p shlex (s\<lparr> ses_task := k \<rparr>) = session_handler p shlex s"
  "session_handler p shlex (s\<lparr> ses_winch := w \<rparr>) = session_handler p shlex s"
  "session_handler p shlex (s\<lparr> ses_cancelled := c \<rparr>) = session_handler p shlex s"
  "session_handler p shlex (session_Exit code s) = session_handler p shlex s"
  "session_handler p shlex (handleRequests_exit s) = session_handler p shlex s"
  by (rule session_handler_params;
      simp add: session_params_def AgentForwardSocket_def session_Exit_def handleRequests_exit_def split: option.split)+

lemma session_handler_agent_end:
  "ses_agentForward s = Some f \<Longrightarrow>
    session_handler p shlex (serveAgentForward_end c err s f) = session_handler p shlex s"
  by (rule session_handler_params) (simp add: session_params_def AgentForwardSocket_def serveAgentForward_end_def)

lemma runSessionOperation_begin_shape:
  "runSessionOperation_begin answer operation tty call = (effects, None) \<Longrightarrow>
     effects = [Began TaskOp operation AllowedOperation, Called TaskOp call]"
  "runSessionOperation_begin answer operation tty call = (effects, Some code) \<Longrightarrow>
     code = 1 \<and> ((\<exists>e. filter task_effect effects = [Began TaskOp operation (DeniedOperation e), Finished TaskOp (exit_result 1 None)]) \<or>
       (\<exists>e. filter task_effect effects = [Began TaskOp operation (NotStarted e)]))"
  by (auto simp: runSessionOperation_begin_def split: beginAnswer.splits)

lemma runSessionOperation_end_shape:
  "runSessionOperation_end tty exitCode execErr = (effects, code) \<Longrightarrow>
     code = exitCode \<and> filter task_effect effects = [Finished TaskOp (exit_result exitCode execErr)]"
  by (auto simp: runSessionOperation_end_def split: option.splits)

lemma session_Exit_task_log:
  "\<not> ses_exitOnce s \<Longrightarrow> task_log (session_Exit code s) = task_log s @ [SentExitStatus (word_of_int code)]"
  "ses_exitOnce (session_Exit code s)" "ses_started (session_Exit code s) = ses_started s"
  "ses_requestType (session_Exit code s) = ses_requestType s"
  by (simp_all add: session_Exit_def task_log_def)

lemma task_log_simps [simp]:
  "task_log (s\<lparr> ses_task := k \<rparr>) = task_log s" "task_log (s\<lparr> ses_winch := w \<rparr>) = task_log s"
  "task_log (s\<lparr> ses_cancelled := c \<rparr>) = task_log s" "task_log (handleRequests_exit s) = task_log s"
  "task_log (serveAgentForward_end c err s f) = task_log s"
  by (simp_all add: task_log_def handleRequests_exit_def serveAgentForward_end_def)

lemma task_inv_exit:
  assumes inv: "task_inv env s" and k: "ses_task s = Spawned \<or> (\<exists>t. ses_task s = Running t)"
    and shape: "task_shape (session_handler (sne_protocol env) (sne_shlex env) s) Returned
      (task_log s @ filter task_effect effects @ [SentExitStatus (word_of_int code)])"
  shows "task_inv env ((session_Exit code (logged s effects))\<lparr> ses_task := Returned \<rparr>)"
proof -
  have "\<not> ses_exitOnce s" using inv k by (auto simp: task_inv_def)
  then show ?thesis
    using inv k shape by (auto simp: task_inv_def session_handler_log session_Exit_task_log task_log_params)
qed

lemma task_inv_step:
  assumes inv: "task_inv env s" and "session_step env s s'"
  shows "task_inv env s'"
  using assms(2)
proof (cases rule: session_step.cases)
  case (step_request answers request)
  then show ?thesis using task_inv_request[OF inv] by simp
next
  case step_loop_end
  then show ?thesis using inv by (simp add: task_inv_def session_handler_log) (simp add: handleRequests_exit_def)
next
  case (step_resize_taken w ws)
  then show ?thesis using inv by (simp add: task_inv_def session_handler_log)
next
  case (step_task_allowed operation tty call answer effects)
  then show ?thesis
    using inv runSessionOperation_begin_shape(1)[OF step_task_allowed(4)]
    by (auto simp: task_inv_def session_handler_log task_log_params)
next
  case (step_task_denied operation tty call answer effects code)
  then show ?thesis
    using inv runSessionOperation_begin_shape(2)[OF step_task_denied(4)] unfolding step_task_denied(1)
    by (intro task_inv_exit) (auto simp: task_inv_def)
next
  case (step_task_end tty exitCode execErr effects code)
  obtain operation tty' call where plan: "session_handler (sne_protocol env) (sne_shlex env) s = (operation, tty', call)"
    by (cases "session_handler (sne_protocol env) (sne_shlex env) s") auto
  then show ?thesis
    using inv step_task_end(2) runSessionOperation_end_shape[OF step_task_end(3)] unfolding step_task_end(1)
    by (intro task_inv_exit) (auto simp: task_inv_def)
next
  case (step_agent_end f canceled err)
  then show ?thesis
    using inv by (simp add: task_inv_def session_handler_agent_end) (simp add: serveAgentForward_end_def)
next
  case step_parent_cancelled
  then show ?thesis using inv by (simp add: task_inv_def session_handler_log)
qed

lemma task_inv_init: "session_init s \<Longrightarrow> task_inv env s"
  by (simp add: session_init_def newServerSession_def task_inv_def task_shape_idle task_log_def)

section \<open>Closing what was opened\<close>

fun began :: "opTag \<Rightarrow> sessionEffect \<Rightarrow> bool" where
  "began tag (Began t _ (NotStarted _)) = False"
| "began tag (Began t _ _) = (t = tag)"
| "began tag _ = False"

fun finished :: "opTag \<Rightarrow> sessionEffect \<Rightarrow> bool" where
  "finished tag (Finished t _) = (t = tag)"
| "finished tag _ = False"

definition lifecycles :: "opTag \<Rightarrow> serverSession \<Rightarrow> nat \<times> nat" where
  "lifecycles tag s = (length (filter (began tag) (ses_log s)), length (filter (finished tag) (ses_log s)))"

definition agent_active :: "serverSession \<Rightarrow> bool" where
  "agent_active s \<longleftrightarrow> (case ses_agentForward s of None \<Rightarrow> False | Some f \<Rightarrow> \<not> saf_done f)"

text \<open>Every call of the agent's operation directly follows an authorization of that operation.\<close>

definition agent_calls_begun :: "sessionEffect list \<Rightarrow> bool" where
  "agent_calls_begun l \<longleftrightarrow> (\<forall>pre call post. l = pre @ Called AgentOp call # post \<longrightarrow>
     (\<exists>pre'. pre = pre' @ [Began AgentOp agentOperation AllowedOperation]))"

lemma agent_calls_begun_append:
  assumes "agent_calls_begun l" "agent_calls_begun es"
  shows "agent_calls_begun (l @ es)"
  unfolding agent_calls_begun_def
proof (intro allI impI)
  fix pre call post assume eq: "l @ es = pre @ Called AgentOp call # post"
  then consider us where "l = pre @ us" "us @ es = Called AgentOp call # post" | us where "pre = l @ us" "es = us @ Called AgentOp call # post"
    by (auto simp: append_eq_append_conv2)
  then show "\<exists>pre'. pre = pre' @ [Began AgentOp agentOperation AllowedOperation]"
  proof cases
    case 1
    show ?thesis
    proof (cases us)
      case Nil
      then have "es = [] @ Called AgentOp call # post" using 1 by simp
      then show ?thesis using assms(2) unfolding agent_calls_begun_def by blast
    next
      case (Cons e us')
      then have "l = pre @ Called AgentOp call # us'" using 1 by simp
      then show ?thesis using assms(1) unfolding agent_calls_begun_def by blast
    qed
  next
    case 2
    then obtain pre' where "us = pre' @ [Began AgentOp agentOperation AllowedOperation]"
      using assms(2) unfolding agent_calls_begun_def by blast
    then show ?thesis using 2 by simp
  qed
qed

lemma agent_calls_begun_none: "\<forall>call. Called AgentOp call \<notin> set es \<Longrightarrow> agent_calls_begun es"
  by (auto simp: agent_calls_begun_def)

definition agent_inv :: "serverSession \<Rightarrow> bool" where
  "agent_inv s \<longleftrightarrow>
     (case lifecycles AgentOp s of (b, f) \<Rightarrow> b = f + (if agent_active s then 1 else 0)) \<and> agent_calls_begun (ses_log s)"

text \<open>Steps that leave the agent alone: they add no effect of the agent and keep its state.\<close>

lemma agent_inv_append:
  assumes "agent_inv s" "ses_log s' = ses_log s @ es"
    and "length (filter (began AgentOp) es) + (if agent_active s then 1 else 0) =
      length (filter (finished AgentOp) es) + (if agent_active s' then 1 else 0)"
    and "agent_calls_begun es"
  shows "agent_inv s'"
  using assms(1,3) agent_calls_begun_append[of "ses_log s" es] assms(4) unfolding agent_inv_def lifecycles_def assms(2) by simp

definition agent_quiet :: "serverSession \<Rightarrow> serverSession \<Rightarrow> bool" where
  "agent_quiet s s' \<longleftrightarrow> agent_active s' = agent_active s \<and>
     (\<exists>es. ses_log s' = ses_log s @ es \<and> filter (began AgentOp) es = [] \<and> filter (finished AgentOp) es = [] \<and>
       (\<forall>call. Called AgentOp call \<notin> set es))"

lemma agent_quietI:
  "ses_log s' = ses_log s @ es \<Longrightarrow> agent_active s' = agent_active s \<Longrightarrow> filter (began AgentOp) es = [] \<Longrightarrow>
    filter (finished AgentOp) es = [] \<Longrightarrow> (\<And>call. Called AgentOp call \<notin> set es) \<Longrightarrow> agent_quiet s s'"
  by (auto simp: agent_quiet_def)

lemma agent_inv_quiet: "agent_inv s \<Longrightarrow> agent_quiet s s' \<Longrightarrow> agent_inv s'"
  unfolding agent_quiet_def by (elim exE conjE, rule agent_inv_append, assumption, assumption) (auto intro: agent_calls_begun_none)

lemma request_quiet:
  "agent_quiet s (handleStartRequest wire f s r)" "agent_quiet s (handleEnvRequest wire s r)"
  "agent_quiet s (handlePTYRequest wire s r)" "agent_quiet s (handleWindowChangeRequest wire s r)"
  "agent_quiet s (logged s [Replied b])"
  by (simp_all add: handleStartRequest_def handleEnvRequest_def handlePTYRequest_def handleWindowChangeRequest_def agent_quiet_def
      agent_active_def Let_def split: option.split prod.split)

lemma agent_inv_accept:
  assumes inv: "agent_inv s"
  shows "agent_inv (handleAgentForwardRequest p b f s r)"
proof (cases "ses_started s \<or> ses_agentForward s \<noteq> None \<or> srq_Payload r \<noteq> []")
  case True
  then show ?thesis using agent_inv_quiet[OF inv request_quiet(5)] by (simp add: handleAgentForwardRequest_def)
next
  case False
  have i: "\<not> agent_active s" using False by (simp add: agent_active_def)
  obtain es g where acc: "acceptAgentForward p b f = (es, g)" by (cases "acceptAgentForward p b f")
  have call: "agent_calls_begun es"
    using acc by (auto simp: acceptAgentForward_def agent_calls_begun_def Cons_eq_append_conv
        split: beginAnswer.splits sum.splits)
  have count: "length (filter (began AgentOp) es) = length (filter (finished AgentOp) es) +
      (if \<exists>x. g = Some x \<and> \<not> saf_done x then 1 else 0)" "\<forall>x. g = Some x \<longrightarrow> \<not> saf_done x"
    using acc by (auto simp: acceptAgentForward_def split: beginAnswer.splits sum.splits)
  have reply: "agent_calls_begun (es @ [Replied x])" for x
    by (rule agent_calls_begun_append[OF call agent_calls_begun_none]) simp
  show ?thesis
  proof (cases g)
    case None
    then show ?thesis
      using False acc count i reply
      by (intro agent_inv_append[OF inv, where es = "es @ [Replied False]"])
        (simp_all add: handleAgentForwardRequest_def agent_active_def)
  next
    case (Some x)
    then show ?thesis
      using False acc count i reply
      by (intro agent_inv_append[OF inv, where es = "es @ [Replied True]"])
        (simp_all add: handleAgentForwardRequest_def agent_active_def)
  qed
qed

lemma agent_inv_request: "agent_inv s \<Longrightarrow> agent_inv (handleRequest p wire a s r)"
  by (rule handleRequest_cases[where P = agent_inv]) (blast intro: agent_inv_quiet request_quiet agent_inv_accept)+

lemma session_Exit_quiet: "agent_quiet s (session_Exit code s)"
  by (simp add: session_Exit_def agent_quiet_def agent_active_def)

lemma agent_quiet_trans: "agent_quiet s t \<Longrightarrow> agent_quiet t u \<Longrightarrow> agent_quiet s u"
  unfolding agent_quiet_def by (elim conjE exE, intro conjI, simp, rule exI, intro conjI, simp) auto

lemma runSessionOperation_quiet:
  "runSessionOperation_begin answer operation tty call = (effects, r) \<Longrightarrow> agent_quiet s (logged s effects)"
  "runSessionOperation_end tty exitCode execErr = (effects, code) \<Longrightarrow> agent_quiet s (logged s effects)"
  by (auto simp: runSessionOperation_begin_def runSessionOperation_end_def agent_quiet_def agent_active_def
      split: beginAnswer.splits option.splits)

lemma agent_quiet_task: "agent_quiet s (s'\<lparr> ses_task := k \<rparr>) = agent_quiet s s'"
  by (simp add: agent_quiet_def agent_active_def)

lemma agent_inv_step:
  assumes inv: "agent_inv s" and "session_step env s s'"
  shows "agent_inv s'"
  using assms(2)
proof (cases rule: session_step.cases)
  case (step_request answers request)
  then show ?thesis using agent_inv_request[OF inv] by simp
next
  case step_loop_end
  then show ?thesis
    by (intro agent_inv_quiet[OF inv] agent_quietI[where es = "[]"])
      (simp_all add: handleRequests_exit_def agent_active_def split: option.split)
next
  case (step_resize_taken w ws)
  then show ?thesis by (intro agent_inv_quiet[OF inv] agent_quietI[where es = "[]"]) (simp_all add: agent_active_def)
next
  case (step_task_allowed operation tty call answer effects)
  then show ?thesis using agent_inv_quiet[OF inv] runSessionOperation_quiet(1)[OF step_task_allowed(4), of s] by (simp add: agent_quiet_task)
next
  case (step_task_denied operation tty call answer effects code)
  then show ?thesis
    using agent_inv_quiet[OF inv] agent_quiet_trans[OF runSessionOperation_quiet(1)[OF step_task_denied(4)] session_Exit_quiet]
    by (simp add: agent_quiet_task)
next
  case (step_task_end tty exitCode execErr effects code)
  then show ?thesis
    using agent_inv_quiet[OF inv] agent_quiet_trans[OF runSessionOperation_quiet(2)[OF step_task_end(3)] session_Exit_quiet]
    by (simp add: agent_quiet_task)
next
  case (step_agent_end f canceled err)
  then show ?thesis
    by (intro agent_inv_append[OF inv]) (auto simp: serveAgentForward_end_def agent_active_def intro: agent_calls_begun_none)
next
  case step_parent_cancelled
  then show ?thesis by (intro agent_inv_quiet[OF inv] agent_quietI[where es = "[]"]) (simp_all add: agent_active_def)
qed

text \<open>The only call of the agent's operation is for the target of the connection.\<close>

definition agent_calls :: "podProtocol \<Rightarrow> serverSession \<Rightarrow> bool" where
  "agent_calls p s \<longleftrightarrow> (\<forall>call. Called AgentOp call \<in> set (ses_log s) \<longrightarrow> call = CallAgentForward \<lparr> af_Target = pp_target p \<rparr>)"

lemma agent_calls_quiet: "agent_calls p s \<Longrightarrow> agent_quiet s s' \<Longrightarrow> agent_calls p s'"
  by (auto simp: agent_calls_def agent_quiet_def)

lemma agent_calls_accept: "agent_calls p s \<Longrightarrow> agent_calls p (handleAgentForwardRequest p b f s r)"
  by (auto simp: agent_calls_def handleAgentForwardRequest_def acceptAgentForward_def
      split: beginAnswer.split sum.split option.split)

lemma agent_calls_request: "agent_calls p s \<Longrightarrow> agent_calls p (handleRequest p wire a s r)"
  by (rule handleRequest_cases[where P = "agent_calls p"]) (blast intro: agent_calls_quiet request_quiet agent_calls_accept)+

lemma agent_calls_step:
  assumes inv: "agent_calls (sne_protocol env) s" and "session_step env s s'"
  shows "agent_calls (sne_protocol env) s'"
  using assms(2)
proof (cases rule: session_step.cases)
  case (step_request answers request)
  then show ?thesis using agent_calls_request[OF inv] by simp
next
  case (step_task_allowed operation tty call answer effects)
  then show ?thesis
    using agent_calls_quiet[OF inv] runSessionOperation_quiet(1)[OF step_task_allowed(4), of s] by (simp add: agent_quiet_task)
next
  case (step_task_denied operation tty call answer effects code)
  then show ?thesis
    using agent_calls_quiet[OF inv] agent_quiet_trans[OF runSessionOperation_quiet(1)[OF step_task_denied(4)] session_Exit_quiet]
    by (simp add: agent_quiet_task)
next
  case (step_task_end tty exitCode execErr effects code)
  then show ?thesis
    using agent_calls_quiet[OF inv] agent_quiet_trans[OF runSessionOperation_quiet(2)[OF step_task_end(3)] session_Exit_quiet]
    by (simp add: agent_quiet_task)
qed (use inv in \<open>simp add: agent_calls_def handleRequests_exit_def serveAgentForward_end_def\<close>)+

lemma agent_calls_init: "session_init s \<Longrightarrow> agent_calls p s"
  by (simp add: session_init_def newServerSession_def agent_calls_def)

lemma agent_inv_init: "session_init s \<Longrightarrow> agent_inv s"
  by (simp add: session_init_def newServerSession_def agent_inv_def agent_calls_begun_def lifecycles_def agent_active_def)

section \<open>Terminal sizes\<close>

definition fits_terminal :: "int \<Rightarrow> Window \<Rightarrow> bool" where
  "fits_terminal low w \<longleftrightarrow> low \<le> w_Width w \<and> w_Width w \<le> 65535 \<and> low \<le> w_Height w \<and> w_Height w \<le> 65535"

definition window_inv :: "serverSession \<Rightarrow> bool" where
  "window_inv s \<longleftrightarrow>
     (ses_pty s = None \<longleftrightarrow> ses_winch s = None) \<and>
     (\<forall>pty. ses_pty s = Some pty \<longrightarrow> fits_terminal 0 (pty_Window pty)) \<and>
     (\<forall>ch. ses_winch s = Some ch \<longrightarrow> length ch \<le> 1 \<and> (\<forall>w \<in> set ch. fits_terminal 1 w)) \<and>
     (ses_winchClosed s \<longrightarrow> ses_loopDone s)"

lemma MaxUint16_uint: "\<not> w > MaxUint16 \<longleftrightarrow> uint w \<le> 65535"
  by (simp add: MaxUint16_def word_less_def not_less)

lemma parse_fits:
  "parseSessionPTYRequest wire payload = Some pty \<Longrightarrow> fits_terminal 0 (pty_Window pty)"
  "parseSessionWindowChangeRequest wire payload = Some w \<Longrightarrow> fits_terminal 1 w"
proof -
  show "parseSessionPTYRequest wire payload = Some pty \<Longrightarrow> fits_terminal 0 (pty_Window pty)"
    by (auto simp: parseSessionPTYRequest_def fits_terminal_def MaxUint16_uint split: option.splits if_splits)
  have one: "w \<noteq> 0 \<Longrightarrow> 1 \<le> uint w" for w :: "32 word" using uint_ge_0[of w] uint_0_iff[of w] by linarith
  show "parseSessionWindowChangeRequest wire payload = Some w \<Longrightarrow> fits_terminal 1 w"
    by (auto simp: parseSessionWindowChangeRequest_def fits_terminal_def MaxUint16_uint one split: option.splits if_splits)
qed

lemma window_inv_frame:
  "window_inv s \<Longrightarrow> ses_pty s' = ses_pty s \<Longrightarrow> ses_winch s' = ses_winch s \<Longrightarrow> ses_winchClosed s' = ses_winchClosed s \<Longrightarrow>
    ses_loopDone s' = ses_loopDone s \<Longrightarrow> window_inv s'"
  by (simp add: window_inv_def)

definition window_state :: "serverSession \<Rightarrow> PTY option \<times> Window list option \<times> bool \<times> bool" where
  "window_state s = (ses_pty s, ses_winch s, ses_winchClosed s, ses_loopDone s)"

lemma handleStartRequest_window_state: "window_state (handleStartRequest wire f s r) = window_state s"
  by (simp add: handleStartRequest_def window_state_def Let_def)

lemma handleEnvRequest_window_state: "window_state (handleEnvRequest wire s r) = window_state s"
  by (simp add: handleEnvRequest_def window_state_def split: option.split prod.split)

lemma handleAgentForwardRequest_window_state: "window_state (handleAgentForwardRequest p b g s r) = window_state s"
  by (simp add: handleAgentForwardRequest_def window_state_def split: option.split prod.split)

lemma window_inv_state: "window_inv s \<Longrightarrow> window_state s' = window_state s \<Longrightarrow> window_inv s'"
  by (rule window_inv_frame) (simp_all add: window_state_def)

lemma handlePTYRequest_window: "window_inv s \<Longrightarrow> window_inv (handlePTYRequest wire s r)"
  using parse_fits(1)[of wire "srq_Payload r"]
  by (auto simp: handlePTYRequest_def window_inv_def split: option.splits)

lemma handleWindowChangeRequest_window: "window_inv s \<Longrightarrow> window_inv (handleWindowChangeRequest wire s r)"
  using parse_fits(2)[of wire "srq_Payload r"]
  by (cases "ses_winch s"; cases "the (ses_winch s)") (auto simp: handleWindowChangeRequest_def window_inv_def split: option.splits)

lemma window_inv_step:
  assumes inv: "window_inv s" and "session_step env s s'"
  shows "window_inv s'"
  using assms(2)
proof (cases rule: session_step.cases)
  case (step_request answers request)
  have "window_inv (logged s [Replied False])" by (rule window_inv_frame[OF inv]) simp_all
  note rest = this handlePTYRequest_window[OF inv] handleWindowChangeRequest_window[OF inv]
    window_inv_state[OF inv handleStartRequest_window_state] window_inv_state[OF inv handleEnvRequest_window_state]
    window_inv_state[OF inv handleAgentForwardRequest_window_state]
  show ?thesis unfolding step_request(1) by (rule handleRequest_cases[where P = window_inv]) (rule rest)+
next
  case (step_resize_taken w ws)
  then show ?thesis using inv by (auto simp: window_inv_def)
next
  case step_loop_end
  then show ?thesis using inv by (auto simp: window_inv_def handleRequests_exit_def)
qed (rule window_inv_state[OF inv], simp add: window_state_def session_Exit_def serveAgentForward_end_def)+

lemma window_inv_init: "session_init s \<Longrightarrow> window_inv s"
  by (simp add: session_init_def newServerSession_def window_inv_def)

definition session_inv :: "sessionEnv \<Rightarrow> serverSession \<Rightarrow> bool" where
  "session_inv env s \<longleftrightarrow> task_inv env s \<and> agent_inv s \<and> agent_calls (sne_protocol env) s \<and> window_inv s"

interpretation session: inductive_invariant session_init "session_step env" "session_inv env" for env
proof
  fix s :: serverSession
  assume "session_init s"
  then show "session_inv env s"
    by (simp add: session_inv_def task_inv_init agent_inv_init agent_calls_init window_inv_init)
next
  fix s t
  assume i: "session_inv env s" and t: "session_step env s t"
  show "session_inv env t"
    using task_inv_step[OF _ t] agent_inv_step[OF _ t] agent_calls_step[OF _ t] window_inv_step[OF _ t] i
    by (simp add: session_inv_def)
qed

section \<open>Authorization\<close>

text \<open>
  The capability the gateway classifies an operation under is the one its backend call exercises, and
  the call carries out what the operation said: the command as one argument of the default shell, the
  arguments of an scp command line.
\<close>

definition call_authorized :: "(string \<Rightarrow> string list) \<Rightarrow> podProtocol \<Rightarrow> Operation \<Rightarrow> backendCall \<Rightarrow> bool" where
  "call_authorized shlex p operation call \<longleftrightarrow>
     (let capability = os_capability (connectionOperationSpec shlex (pp_target p) operation)
      in case call of
           CallExec r \<Rightarrow> er_Target r = pp_target p \<and>
             (capability = CapabilityShell \<and> (\<exists>env. er_Command r = env @ [pp_defaultShell p]) \<or>
              capability = CapabilityExec \<and> (\<exists>env. er_Command r = env @ [pp_defaultShell p, ''-c'', op_Command operation]))
         | CallSCP r \<Rightarrow> capability = CapabilitySCP \<and> sr_Target (scp_Stream r) = pp_target p \<and>
             scp_Args r = tl (shlex (op_Command operation))
         | CallSFTP r \<Rightarrow> capability = CapabilitySFTP \<and> sr_Target r = pp_target p
         | CallAgentForward r \<Rightarrow> capability = CapabilityAgentForward \<and> af_Target r = pp_target p)"

lemma scp_flag_iff: "scp_flag args \<longleftrightarrow> (\<exists>arg \<in> set args. HasPrefix arg ''-t'' \<or> HasPrefix arg ''-f'')"
  by (induction args) auto

lemma pod_isSCPCommand_gateway: "pod_isSCPCommand argv = isSCPCommand argv"
  by (cases argv) (simp_all add: pod_isSCPCommand_def isSCPCommand_def scp_flag_iff)

lemma sessionOperation_Command [simp]: "op_Command (sessionOperation t cmd) = cmd"
  by (simp add: sessionOperation_def)

lemma session_capability:
  "os_capability (connectionOperationSpec shlex tgt (sessionOperation RequestShell cmd)) = CapabilityShell"
  "os_capability (connectionOperationSpec shlex tgt (sessionOperation RequestExec cmd)) =
     (if isSCPCommand (shlex cmd) then CapabilitySCP else CapabilityExec)"
  by (simp_all add: connectionOperationSpec_def sessionOperation_def zero_Operation_def connectionSessionOperationSpec_def Let_def)

lemma sftp_capability: "os_capability (connectionOperationSpec shlex tgt (fst (handleSFTP p))) = CapabilitySFTP"
  by (simp add: connectionOperationSpec_def handleSFTP_def zero_Operation_def connectionSFTPOperationSpec_def)

lemma agent_capability: "os_capability (connectionOperationSpec shlex tgt agentOperation) = CapabilityAgentForward"
  by (simp add: connectionOperationSpec_def agentOperation_def zero_Operation_def connectionAgentForwardOperationSpec_def)

lemma buildCommand_shell:
  "\<exists>e. buildCommand False cmd env shell = e @ [shell]" "\<exists>e. buildCommand True cmd env shell = e @ [shell, ''-c'', cmd]"
  by (simp_all add: buildCommand_def Let_def)

lemma session_handler_authorized:
  assumes "ses_requestType s \<in> {RequestShell, RequestExec, RequestSubsystem}"
    and "session_handler p shlex s = (operation, tty, call)"
  shows "call_authorized shlex p operation call"
proof -
  consider (shell) "ses_requestType s = RequestShell" | (exec) "ses_requestType s = RequestExec"
    | (sftp) "ses_requestType s = RequestSubsystem" using assms(1) by blast
  then show ?thesis
  proof cases
    case shell
    then show ?thesis
      using assms(2) buildCommand_shell(1)
      by (auto simp: session_handler_def handleSession_def resolveSession_def call_authorized_def session_capability Let_def)
  next
    case exec
    show ?thesis
    proof (cases "pod_isSCPCommand (shlex (ses_rawCmd s))")
      case True
      then show ?thesis
        using assms(2) exec
        by (auto simp: session_handler_def handleSession_def handleSCP_def session_Command_def call_authorized_def
            session_capability pod_isSCPCommand_gateway Let_def)
    next
      case False
      then show ?thesis
        using assms(2) exec False buildCommand_shell(2)
        by (auto simp: session_handler_def handleSession_def resolveSession_def session_Command_def call_authorized_def
            session_capability pod_isSCPCommand_gateway Let_def)
    qed
  next
    case sftp
    then show ?thesis
      using assms(2) sftp_capability[of shlex "pp_target p" p]
      by (auto simp: session_handler_def handleSFTP_def call_authorized_def Let_def)
  qed
qed

fun effect_tag :: "sessionEffect \<Rightarrow> opTag option" where
  "effect_tag (Began tag _ _) = Some tag"
| "effect_tag (Called tag _) = Some tag"
| "effect_tag (Finished tag _) = Some tag"
| "effect_tag _ = None"

lemma task_effect_tag: "effect_tag e = Some TaskOp \<Longrightarrow> task_effect e"
  by (cases e) auto

lemma filter_first_order:
  assumes "filter P (pre @ b # post) = a # b # r" "P b" "b \<notin> set (a # r)"
  shows "\<exists>pre' mid. pre = pre' @ a # mid \<and> filter P mid = []"
proof -
  have eq: "filter P pre @ b # filter P post = a # b # r" using assms(1,2) by simp
  have "filter P pre = [a]"
  proof (cases "filter P pre")
    case Nil then show ?thesis using eq assms(3) by simp
  next
    case (Cons x xs)
    then show ?thesis using eq assms(3) by (cases xs) auto
  qed
  then obtain us vs where "pre = us @ a # vs" "filter P vs = []" by (auto simp: filter_eq_Cons_iff)
  then show ?thesis by blast
qed

section \<open>The environment of a command\<close>

lemma filterEnv_item:
  "item \<in> set (filterEnv p envs) \<Longrightarrow>
    item \<in> set envs \<and> (\<exists>k v. item = k @ ''='' @ v \<and> CHR ''='' \<notin> set k \<and> pp_envAllowed p k \<and> \<not> EqualFold k EnvironmentSSHAuthSock)"
proof (induction envs)
  case (Cons e envs)
  obtain k v f where c: "Cut e (CHR ''='') = (k, v, f)" by (cases "Cut e (CHR ''='')")
  show ?case
  proof (cases "f \<and> \<not> EqualFold k EnvironmentSSHAuthSock \<and> pp_envAllowed p k \<and> item = e")
    case True
    then have "e = k @ CHR ''='' # v" "CHR ''='' \<notin> set k" using c Cut_found_iff[of e "CHR ''=''" k v] by simp_all
    then show ?thesis using True by (intro conjI exI[of _ k] exI[of _ v]) simp_all
  next
    case False
    then have "item \<in> set (filterEnv p envs)" using Cons.prems c by (auto split: if_splits)
    then show ?thesis using Cons.IH by auto
  qed
qed simp

lemma drop_prefixed_set: "set (drop_prefixed p env) \<subseteq> set env"
  by (induction env) auto

text \<open>The environment a session passes to its command, before the shell.\<close>

definition session_env :: "podProtocol \<Rightarrow> serverSession \<Rightarrow> string list" where
  "session_env p s =
     (let env = filterEnv p (ses_env s);
          env1 = (if AgentForwardSocket s \<noteq> [] then appendEnvOverride env EnvironmentSSHAuthSock (AgentForwardSocket s) else env)
      in case ses_pty s of
           Some pty \<Rightarrow> if pty_Term pty \<noteq> [] then env1 @ [''TERM='' @ pty_Term pty] else env1
         | None \<Rightarrow> env1)"

lemma resolveSession_Command:
  "er_Command (snd (resolveSession p s)) =
     buildCommand (ses_requestType s = RequestExec) (ses_rawCmd s) (session_env p s) (pp_defaultShell p)"
  by (simp add: resolveSession_def session_env_def Let_def)

lemma session_env_item:
  assumes "item \<in> set (session_env p s)"
  shows "(item \<in> set (ses_env s) \<and> (\<exists>k v. item = k @ ''='' @ v \<and> CHR ''='' \<notin> set k \<and> pp_envAllowed p k \<and>
        \<not> EqualFold k EnvironmentSSHAuthSock)) \<or>
    (\<exists>f. ses_agentForward s = Some f \<and> item = EnvironmentSSHAuthSock @ ''='' @ saf_socket f) \<or>
    (\<exists>pty. ses_pty s = Some pty \<and> item = ''TERM='' @ pty_Term pty)"
proof -
  have "item \<in> set (filterEnv p (ses_env s)) \<or>
      (AgentForwardSocket s \<noteq> [] \<and> item = EnvironmentSSHAuthSock @ ''='' @ AgentForwardSocket s) \<or>
      (\<exists>pty. ses_pty s = Some pty \<and> item = ''TERM='' @ pty_Term pty)"
    using assms drop_prefixed_set[of "EnvironmentSSHAuthSock @ ''=''" "filterEnv p (ses_env s)"]
    by (auto simp: session_env_def appendEnvOverride_def Let_def split: option.splits if_splits)
  then show ?thesis
    using filterEnv_item[of item p "ses_env s"] by (auto simp: AgentForwardSocket_def split: option.splits)
qed

section \<open>Terminal output\<close>

text \<open>The reference: a terminal's ONLCR, a carriage return before every line feed that has none.\<close>

fun onlcr :: "bool \<Rightarrow> string \<Rightarrow> string" where
  "onlcr afterCR [] = []"
| "onlcr afterCR (c # s) =
     (if c = CHR 0x0A then (if afterCR then LF else CRLF) else [c]) @ onlcr (c = CHR 0x0D) s"

lemma ReplaceAll_Nil: "ReplaceAll [] old new = []"
  by (simp add: ReplaceAll.simps)

lemma ReplaceAll_match: "old \<noteq> [] \<Longrightarrow> ReplaceAll (old @ s) old new = new @ ReplaceAll s old new"
  by (simp add: ReplaceAll.simps[of "old @ s"])

lemma ReplaceAll_skip: "old \<noteq> [] \<Longrightarrow> \<not> prefix old (c # s) \<Longrightarrow> ReplaceAll (c # s) old new = c # ReplaceAll s old new"
  by (simp add: ReplaceAll.simps[of "c # s"])

definition crlf_all :: "string \<Rightarrow> string" where
  "crlf_all s = concat (map (\<lambda>c. if c = CHR 0x0A then CRLF else [c]) s)"

lemma ReplaceAll_LF: "ReplaceAll s LF CRLF = crlf_all s"
proof (induction s)
  case (Cons c s)
  then show ?case
    using ReplaceAll_match[of LF s CRLF] ReplaceAll_skip[of LF c s CRLF] by (cases "c = CHR 0x0A") (simp_all add: crlf_all_def)
qed (simp add: ReplaceAll_Nil crlf_all_def)

lemma crlf_all_no_LF: "\<not> prefix LF (crlf_all s)"
  by (cases s) (simp_all add: crlf_all_def)

lemma crlf_all_Cons: "crlf_all (c # s) = (if c = CHR 0x0A then CRLF else [c]) @ crlf_all s"
  by (simp add: crlf_all_def)

lemma ReplaceAll_CRCRLF:
  "ReplaceAll (crlf_all s) CRCRLF CRLF = onlcr False s \<and>
   ReplaceAll (CHR 0x0D # crlf_all s) CRCRLF CRLF = CHR 0x0D # onlcr True s"
proof (induction s)
  case Nil
  then show ?case by (simp add: crlf_all_def ReplaceAll_Nil ReplaceAll_skip)
next
  case (Cons c s)
  consider (lf) "c = CHR 0x0A" | (cr) "c = CHR 0x0D" | (other) "c \<noteq> CHR 0x0A" "c \<noteq> CHR 0x0D" by blast
  then show ?case
  proof cases
    case lf
    have "ReplaceAll (CRCRLF @ crlf_all s) CRCRLF CRLF = CRLF @ ReplaceAll (crlf_all s) CRCRLF CRLF"
      by (rule ReplaceAll_match) simp
    then show ?thesis using Cons lf by (simp add: crlf_all_Cons ReplaceAll_skip)
  next
    case cr
    have "\<not> prefix CRCRLF (CHR 0x0D # CHR 0x0D # crlf_all s)" using crlf_all_no_LF[of s] by simp
    then show ?thesis using Cons cr by (simp add: crlf_all_Cons ReplaceAll_skip)
  next
    case other
    then show ?thesis using Cons by (simp add: crlf_all_Cons ReplaceAll_skip)
  qed
qed

section \<open>An example session\<close>

definition example_wire :: sshWire where
  "example_wire = \<lparr> sw_string = Some, sw_pair = (\<lambda>_. Some (''LANG'', ''C'')),
     sw_pty = (\<lambda>_. Some \<lparr> py_Term = ''xterm'', py_Width = 80, py_Height = 24, py_PixelWidth = 0, py_PixelHeight = 0, py_Modes = [] \<rparr>),
     sw_window = (\<lambda>_. Some \<lparr> wp_Width = 100, wp_Height = 50, wp_PixelWidth = 0, wp_PixelHeight = 0 \<rparr>) \<rparr>"

definition example_protocol :: podProtocol where
  "example_protocol = \<lparr> pp_target = New ''ns'' ''web-0'' ''app'', pp_defaultShell = ''/bin/sh'', pp_envAllowed = (\<lambda>k. k = ''LANG'') \<rparr>"

definition example_session_env :: sessionEnv where
  "example_session_env = \<lparr> sne_protocol = example_protocol, sne_wire = example_wire, sne_shlex = (\<lambda>s. [s]) \<rparr>"

definition example_answers :: sessionAnswers where
  "example_answers = \<lparr> sa_begin = AllowedOperation, sa_agent = Inr ''/tmp/agent.sock'', sa_replyFails = False \<rparr>"

abbreviation example_request :: "serverSession \<Rightarrow> string \<Rightarrow> serverSession" where
  "example_request s t \<equiv> handleRequest (sne_protocol example_session_env) (sne_wire example_session_env) example_answers s
     \<lparr> srq_Type = t, srq_Payload = [] \<rparr>"

definition example_opened :: serverSession where
  "example_opened =
     example_request (example_request (example_request (example_request newServerSession RequestEnvironment) RequestPTY)
       RequestAgentForward) RequestShell"

lemmas example_session_defs = example_opened_def handleRequest_def handleEnvRequest_def handlePTYRequest_def
  handleAgentForwardRequest_def acceptAgentForward_def handleStartRequest_def parseSessionPTYRequest_def MaxUint16_def
  example_session_env_def example_wire_def example_protocol_def example_answers_def newServerSession_def

lemma example_opened_reached: "reach session_init (session_step example_session_env) example_opened"
proof -
  have r: "reach session_init (session_step example_session_env) (example_request s t)"
    if "reach session_init (session_step example_session_env) s" "\<not> ses_loopDone s" for s t
    using that by (blast intro: reach_step step_request)
  have "reach session_init (session_step example_session_env) newServerSession"
    by (rule reach_init) (simp add: session_init_def)
  then show ?thesis unfolding example_opened_def by (intro r) (simp_all add: example_session_defs)
qed

lemma example_opened_fields:
  "ses_task example_opened = Spawned" "ses_requestType example_opened = RequestShell" "ses_pty example_opened \<noteq> None"
  by (simp_all add: example_session_defs)

definition example_running :: serverSession where
  "example_running =
     (case session_handler (sne_protocol example_session_env) (sne_shlex example_session_env) example_opened of
        (operation, tty, call) \<Rightarrow>
          (logged example_opened [Began TaskOp operation AllowedOperation, Called TaskOp call])\<lparr> ses_task := Running tty \<rparr>)"

lemma example_running_reached: "reach session_init (session_step example_session_env) example_running"
proof -
  obtain operation tty call where
    h: "session_handler (sne_protocol example_session_env) (sne_shlex example_session_env) example_opened = (operation, tty, call)"
    by (cases "session_handler (sne_protocol example_session_env) (sne_shlex example_session_env) example_opened") auto
  have "runSessionOperation_begin AllowedOperation operation tty call =
      ([Began TaskOp operation AllowedOperation, Called TaskOp call], None)"
    by (simp add: runSessionOperation_begin_def)
  from step_task_allowed[OF example_opened_fields(1) h this] show ?thesis
    unfolding example_running_def h prod.case by (rule reach_step[OF example_opened_reached])
qed

lemma example_running_called: "\<exists>r. Called TaskOp (CallExec r) \<in> set (ses_log example_running)"
  by (auto simp: example_running_def session_handler_def handleSession_def example_opened_fields split: prod.split)

section \<open>Properties\<close>

text \<open>
  What a terminal session writes is exactly the terminal's output processing of its input: every
  line feed gets a carriage return unless one already precedes it, nothing else changes, and the
  reported count never exceeds the caller's bytes.  The two replacements of the code compose to that.
\<close>

theorem pty_output_onlcr:
  "fst (session_Write True p n) = onlcr False p \<and> snd (session_Write True p n) \<le> length p \<and>
   fst (session_Write False p n) = p"
  by (simp add: session_Write_def ReplaceAll_LF ReplaceAll_CRCRLF)

lemma task_shape_called:
  assumes "task_shape (operation, tty, c) k l" "Called TaskOp call \<in> set l"
  shows "(\<exists>r. l = Began TaskOp operation AllowedOperation # Called TaskOp call # r \<and> Called TaskOp call \<notin> set r) \<and>
    c = call \<and> k \<noteq> NoTask"
  using assms by (cases k) auto

lemma session_call_authorized:
  assumes "reach session_init (session_step env) s" and l: "ses_log s = pre @ Called tag call # post"
  shows "\<exists>operation pre' mid. pre = pre' @ Began tag operation AllowedOperation # mid \<and>
    (\<forall>e \<in> set mid. effect_tag e \<noteq> Some tag) \<and> call_authorized (sne_shlex env) (sne_protocol env) operation call"
proof (cases tag)
  case TaskOp
  have inv: "task_inv env s" using session.reach_inv[OF assms(1)] by (simp add: session_inv_def)
  obtain operation tty c where plan: "session_handler (sne_protocol env) (sne_shlex env) s = (operation, tty, c)"
    by (cases "session_handler (sne_protocol env) (sne_shlex env) s") auto
  have "Called TaskOp call \<in> set (task_log s)" using l TaskOp by (simp add: task_log_def)
  then have t: "\<exists>r. task_log s = Began TaskOp operation AllowedOperation # Called TaskOp call # r \<and> Called TaskOp call \<notin> set r"
      "c = call" "ses_task s \<noteq> NoTask"
    using task_shape_called[of operation tty c "ses_task s" "task_log s" call] inv plan by (auto simp: task_inv_def)
  have "ses_requestType s \<in> {RequestShell, RequestExec, RequestSubsystem}" using inv t(3) by (simp add: task_inv_def)
  then have ok: "call_authorized (sne_shlex env) (sne_protocol env) operation call"
    using session_handler_authorized plan t(2) by blast
  obtain r where r: "filter task_effect (pre @ Called TaskOp call # post) = Began TaskOp operation AllowedOperation # Called TaskOp call # r"
    "Called TaskOp call \<notin> set r"
    using t(1) unfolding task_log_def l TaskOp by blast
  have "\<exists>pre' mid. pre = pre' @ Began TaskOp operation AllowedOperation # mid \<and> filter task_effect mid = []"
    by (rule filter_first_order[OF r(1)]) (use r(2) in simp_all)
  then obtain pre' mid where p: "pre = pre' @ Began TaskOp operation AllowedOperation # mid" and "filter task_effect mid = []"
    by blast
  then have "\<forall>e \<in> set mid. effect_tag e \<noteq> Some TaskOp" using task_effect_tag by (auto simp: filter_empty_conv)
  then show ?thesis using ok TaskOp p by (intro exI[of _ operation] exI[of _ pre'] exI[of _ mid]) simp
next
  case AgentOp
  have inv: "agent_inv s" "agent_calls (sne_protocol env) s" using session.reach_inv[OF assms(1)] by (simp_all add: session_inv_def)
  have "Called AgentOp call \<in> set (ses_log s)" using l AgentOp by simp
  then have "call = CallAgentForward \<lparr> af_Target = pp_target (sne_protocol env) \<rparr>" using inv(2) unfolding agent_calls_def by blast
  then have "call_authorized (sne_shlex env) (sne_protocol env) agentOperation call"
    by (simp add: call_authorized_def agent_capability)
  moreover obtain pre' where "pre = pre' @ [Began AgentOp agentOperation AllowedOperation]"
    using inv(1) l AgentOp unfolding agent_inv_def agent_calls_begun_def by blast
  ultimately show ?thesis using AgentOp by (intro exI[of _ agentOperation] exI[of _ pre'] exI[of _ "[]"]) simp
qed

text \<open>
  C8. A session channel performs a backend call only for an operation the gateway was just asked about
  and allowed: whenever a call of the session's operation or of its agent forwarding was made, the
  last thing that happened to that operation before is its authorization, so that every call has an
  authorization of its own and none is made after the operation's end.  The call exercises exactly
  the capability that operation is classified under: a shell or exec call runs the default shell on
  the very command that was authorized, the scp helper is used exactly for command lines authorized
  as scp, SFTP and agent forwarding for theirs, and always on the target of the connection.
\<close>

theorem session_calls_authorized:
  assumes "reach session_init (session_step env) s" "ses_log s = pre @ Called tag call # post"
  shows "\<exists>operation pre' mid. pre = pre' @ Began tag operation AllowedOperation # mid \<and>
    (\<forall>e \<in> set mid. effect_tag e \<noteq> Some tag) \<and>
    call_authorized (sne_shlex env) (sne_protocol env) operation call"
  by (rule session_call_authorized[OF assms])

lemma session_calls_authorized_witness:
  "\<exists>r operation pre mid post. ses_log example_running =
       pre @ Began TaskOp operation AllowedOperation # mid @ Called TaskOp (CallExec r) # post \<and>
     (\<forall>e \<in> set mid. effect_tag e \<noteq> Some TaskOp) \<and>
     call_authorized (sne_shlex example_session_env) (sne_protocol example_session_env) operation (CallExec r)"
proof -
  obtain r pre post where r: "ses_log example_running = pre @ Called TaskOp (CallExec r) # post"
    using example_running_called by (auto simp: in_set_conv_decomp)
  from session_calls_authorized[OF example_running_reached r] obtain operation pre' mid where
    "pre = pre' @ Began TaskOp operation AllowedOperation # mid" "\<forall>e \<in> set mid. effect_tag e \<noteq> Some TaskOp"
    "call_authorized (sne_shlex example_session_env) (sne_protocol example_session_env) operation (CallExec r)"
    by blast
  then show ?thesis using r by (intro exI[of _ r] exI[of _ operation] exI[of _ pre'] exI[of _ mid] exI[of _ post]) simp
qed

text \<open>
  C27. The environment of a command is confined: a command a session ran is the default shell behind
  an environment in which every entry is one the client sent under a name the policy allows, or the
  agent socket of this session, or the terminal type of its terminal.  In particular no client can
  set the agent socket itself, in any spelling.
\<close>

theorem session_environment_confined:
  assumes "reach session_init (session_step env) s" "Called TaskOp (CallExec r) \<in> set (ses_log s)"
  shows "er_Command r = buildCommand (ses_requestType s = RequestExec) (ses_rawCmd s)
      (session_env (sne_protocol env) s) (pp_defaultShell (sne_protocol env)) \<and>
    (\<forall>item \<in> set (session_env (sne_protocol env) s).
      (item \<in> set (ses_env s) \<and> (\<exists>k v. item = k @ ''='' @ v \<and> CHR ''='' \<notin> set k \<and>
         pp_envAllowed (sne_protocol env) k \<and> \<not> EqualFold k EnvironmentSSHAuthSock)) \<or>
      (\<exists>f. ses_agentForward s = Some f \<and> item = EnvironmentSSHAuthSock @ ''='' @ saf_socket f) \<or>
      (\<exists>pty. ses_pty s = Some pty \<and> item = ''TERM='' @ pty_Term pty))"
proof -
  have inv: "task_inv env s" using session.reach_inv[OF assms(1)] by (simp add: session_inv_def)
  obtain operation tty c where plan: "session_handler (sne_protocol env) (sne_shlex env) s = (operation, tty, c)"
    by (cases "session_handler (sne_protocol env) (sne_shlex env) s") auto
  have "Called TaskOp (CallExec r) \<in> set (task_log s)" using assms(2) by (simp add: task_log_def)
  then have "c = CallExec r" using inv plan by (cases "ses_task s") (auto simp: task_inv_def)
  then have "snd (resolveSession (sne_protocol env) s) = r"
    using plan by (auto simp: session_handler_def handleSession_def handleSCP_def handleSFTP_def split: if_splits prod.splits)
  then have "er_Command r = buildCommand (ses_requestType s = RequestExec) (ses_rawCmd s)
      (session_env (sne_protocol env) s) (pp_defaultShell (sne_protocol env))"
    using resolveSession_Command[of "sne_protocol env" s] by simp
  then show ?thesis using session_env_item[of _ "sne_protocol env" s] by simp
qed

lemma session_environment_confined_witness:
  "\<exists>r. Called TaskOp (CallExec r) \<in> set (ses_log example_running) \<and>
     er_Command r = buildCommand (ses_requestType example_running = RequestExec) (ses_rawCmd example_running)
       (session_env (sne_protocol example_session_env) example_running) (pp_defaultShell (sne_protocol example_session_env))"
proof -
  obtain r where r: "Called TaskOp (CallExec r) \<in> set (ses_log example_running)" using example_running_called by blast
  then show ?thesis using session_environment_confined[OF example_running_reached r] by blast
qed

text \<open>
  C33. A session closes what it opens: at any time at most one exit status has been sent, and once the
  session has returned every operation whose lifecycle began, its own and those of agent forwarding, has
  been finished exactly as often as it began, and an exit status was sent exactly if its operation ran.
\<close>

theorem session_operations_closed:
  assumes "reach session_init (session_step env) s"
  shows "length (filter (\<lambda>e. case e of SentExitStatus _ \<Rightarrow> True | _ \<Rightarrow> False) (ses_log s)) = (if ses_task s = Returned then 1 else 0) \<and>
    (session_returned s \<longrightarrow> fst (lifecycles tag s) = snd (lifecycles tag s))"
proof -
  have inv: "task_inv env s" "agent_inv s" using session.reach_inv[OF assms] by (simp_all add: session_inv_def)
  obtain operation tty c where plan: "session_handler (sne_protocol env) (sne_shlex env) s = (operation, tty, c)"
    by (cases "session_handler (sne_protocol env) (sne_shlex env) s") auto
  have sub: "filter Q (ses_log s) = filter Q (task_log s)" if "\<And>e. Q e \<Longrightarrow> task_effect e" for Q
    using that by (auto simp: task_log_def intro!: filter_cong)
  have exits: "filter (\<lambda>e. case e of SentExitStatus _ \<Rightarrow> True | _ \<Rightarrow> False) (ses_log s) =
      filter (\<lambda>e. case e of SentExitStatus _ \<Rightarrow> True | _ \<Rightarrow> False) (task_log s)"
    by (rule sub) (auto split: sessionEffect.splits)
  have "began TaskOp e \<Longrightarrow> task_effect e" "finished TaskOp e \<Longrightarrow> task_effect e" for e
    by (auto elim: began.elims finished.elims)
  then have task: "lifecycles TaskOp s = (length (filter (began TaskOp) (task_log s)), length (filter (finished TaskOp) (task_log s)))"
    unfolding lifecycles_def using sub[of "began TaskOp"] sub[of "finished TaskOp"] by simp
  have one: "length (filter (\<lambda>e. case e of SentExitStatus _ \<Rightarrow> True | _ \<Rightarrow> False) (ses_log s)) = (if ses_task s = Returned then 1 else 0)"
    unfolding exits using inv(1) plan by (cases "ses_task s") (auto simp: task_inv_def)
  have "fst (lifecycles tag s) = snd (lifecycles tag s)" if "session_returned s"
  proof (cases tag)
    case TaskOp
    then show ?thesis
      using inv(1) plan that unfolding TaskOp task session_returned_def by (auto simp: task_inv_def)
  next
    case AgentOp
    then show ?thesis
      using inv(2) that by (auto simp: agent_inv_def agent_active_def session_returned_def split: option.splits prod.splits)
  qed
  then show ?thesis using one by blast
qed

lemma session_operations_closed_witness:
  "length (filter (\<lambda>e. case e of SentExitStatus _ \<Rightarrow> True | _ \<Rightarrow> False) (ses_log example_running)) = 0"
proof -
  have "ses_task example_running \<noteq> Returned" by (simp add: example_running_def split: prod.split)
  then show ?thesis using session_operations_closed[OF example_running_reached, of TaskOp] by simp
qed

text \<open>
  C34. Terminal sizes reach the backend unchanged and current: the first size a terminal's queue gives
  is the one requested with the terminal, and after any accepted resize the queue holds that
  resize alone, however slow the reader, and delivers it without truncation to 16 bits.
\<close>

theorem terminal_sizes_delivered:
  assumes "reach session_init (session_step env) s" "ses_pty s = Some pty"
    and "parseSessionWindowChangeRequest wire (srq_Payload request) = Some w"
  shows "ses_winch (handleWindowChangeRequest wire s request) = Some [w] \<and>
    (\<exists>q size first. er_TerminalSizeQueue (snd (resolveSession p s)) = Some q \<and>
      snd (windowSizeQueue_Next q ch) = Some first \<and>
      uint (ts_Width first) = w_Width (pty_Window pty) \<and> uint (ts_Height first) = w_Height (pty_Window pty) \<and>
      snd (windowSizeQueue_Next (fst (fst (windowSizeQueue_Next q ch))) [w]) = Some size \<and>
      uint (ts_Width size) = w_Width w \<and> uint (ts_Height size) = w_Height w)"
proof -
  have inv: "window_inv s" using session.reach_inv[OF assms(1)] by (simp add: session_inv_def)
  have exact: "uint (word_of_int i :: 16 word) = i" if "0 \<le> i" "i \<le> 65535" for i
    using that by (simp add: uint_word_of_int)
  have fits: "fits_terminal 0 (pty_Window pty)" "fits_terminal 1 w"
    using inv assms(2) parse_fits(2)[OF assms(3)] by (simp_all add: window_inv_def)
  obtain c where c: "ses_winch s = Some c" "length c \<le> 1" using inv assms(2) by (auto simp: window_inv_def)
  have "ses_winch (handleWindowChangeRequest wire s request) = Some [w]"
    using c assms(2,3) by (cases c) (simp_all add: handleWindowChangeRequest_def)
  then show ?thesis
    using fits assms(2) exact
    by (simp add: resolveSession_def windowSizeQueue_Next_def fits_terminal_def Let_def)
qed

lemma terminal_sizes_delivered_witness:
  "\<exists>w. ses_winch (handleWindowChangeRequest example_wire example_opened \<lparr> srq_Type = RequestWindowChange, srq_Payload = [] \<rparr>) = Some [w]"
proof -
  obtain pty where p: "ses_pty example_opened = Some pty" using example_opened_fields(3) by blast
  have w: "parseSessionWindowChangeRequest example_wire (srq_Payload \<lparr> srq_Type = RequestWindowChange, srq_Payload = [] \<rparr>) =
      Some \<lparr> w_Width = 100, w_Height = 50 \<rparr>"
    by (simp add: parseSessionWindowChangeRequest_def example_wire_def MaxUint16_def)
  show ?thesis using terminal_sizes_delivered[OF example_opened_reached p w] by blast
qed

end
