(* ===== verification/PodForwardLaws.thy ===== *)
theory PodForwardLaws
  imports PodForwards PodSessionLaws OperationLaws
begin

text \<open>
  What port forwarding guarantees: forwards are opened only when authorized, on the target of the
  connection, by the mechanism whose Kubernetes permission was reviewed; every operation is finished
  once; and no listener is lost track of.
\<close>

section \<open>Bind keys\<close>

lemma FormatUint_no_colon: "CHR '':'' \<notin> set (FormatUint p)"
proof -
  have "FormatUint p = format_nat (nat (uint p))" by (simp add: FormatUint_def FormatInt_def)
  then show ?thesis using format_nat_no_sep[of "CHR '':''"] by simp
qed

lemma FormatUint_inject: "FormatUint p = FormatUint q \<Longrightarrow> p = q"
proof -
  assume "FormatUint p = FormatUint q"
  then have "nat (uint p) = nat (uint q)" by (auto simp: FormatUint_def FormatInt_def dest: format_nat_inject[THEN iffD1])
  then show "p = q" by (simp add: word_unat_eq_iff)
qed

lemma newRemoteForwardBind_inject:
  "newRemoteForwardBind h p = newRemoteForwardBind h' p' \<longleftrightarrow> h = h' \<and> p = p'"
proof
  let ?w = "\<lambda>h. if CHR '':'' \<in> set h then CHR ''['' # h @ '']'' else h"
  have j: "newRemoteForwardBind h p = ?w h @ CHR '':'' # FormatUint p" for h p
    by (simp add: newRemoteForwardBind_def JoinHostPort_def contains_byte_def)
  assume "newRemoteForwardBind h p = newRemoteForwardBind h' p'"
  then have e: "?w h @ CHR '':'' # FormatUint p = ?w h' @ CHR '':'' # FormatUint p'" unfolding j .
  then have "?w h = ?w h' \<and> FormatUint p = FormatUint p'"
    by (rule append_sep_last_eq[THEN iffD1, rotated -1]) (simp_all add: FormatUint_no_colon)
  then have w: "?w h = ?w h'" and "p = p'" using FormatUint_inject by blast+
  moreover have "h = h'" using w by (auto split: if_splits)
  ultimately show "h = h' \<and> p = p'" by blast
qed simp

section \<open>The invariant of the remote forwards\<close>

definition live :: "podForwards \<Rightarrow> nat \<Rightarrow> bool" where
  "live s i \<longleftrightarrow> \<not> fw_closed (pfs_forwards s ! i) \<and> \<not> fw_cancelled (pfs_forwards s ! i)"

definition registered_inv :: "podForwards \<Rightarrow> bool" where
  "registered_inv s \<longleftrightarrow>
     (\<forall>k i. cst_remoteForwards (pfs_state s) k = Some i \<longrightarrow>
        i < length (pfs_forwards s) \<and> fw_bind (pfs_forwards s ! i) = k \<and> live s i) \<and>
     (\<forall>i < length (pfs_forwards s). live s i \<longrightarrow> (\<exists>k. cst_remoteForwards (pfs_state s) k = Some i)) \<and>
     (cst_closed (pfs_state s) \<longrightarrow> cst_remoteForwards (pfs_state s) = Map.empty)"

text \<open>The operation of a forward: whether it is still served, how it was finished, and what was authorized.\<close>

definition forward_op :: "remoteForwardState \<Rightarrow> bool \<times> OperationResult list \<times> Target \<times> Operation" where
  "forward_op f = (fw_serving f, fw_finished f, fw_target f, fw_operation f)"

definition op_ok :: "Target \<Rightarrow> (Operation \<times> beginAnswer) list \<Rightarrow> bool \<times> OperationResult list \<times> Target \<times> Operation \<Rightarrow> bool" where
  "op_ok tgt log x \<longleftrightarrow> (case x of (serving, results, target, operation) \<Rightarrow>
     length results = (if serving then 0 else 1) \<and> target = tgt \<and> (operation, AllowedOperation) \<in> set log)"

definition started_count :: "(Operation \<times> beginAnswer) list \<Rightarrow> nat" where
  "started_count log = length (filter (\<lambda>(_, a). \<forall>e. a \<noteq> NotStarted e) log)"

definition finished_inv :: "Target \<Rightarrow> podForwards \<Rightarrow> bool" where
  "finished_inv tgt s \<longleftrightarrow>
     list_all (op_ok tgt (pfs_log s)) (map forward_op (pfs_forwards s)) \<and>
     started_count (pfs_log s) = length (pfs_finished s) + length (filter fst (map forward_op (pfs_forwards s)))"

lemma op_ok_mono: "list_all (op_ok tgt l) xs \<Longrightarrow> list_all (op_ok tgt (l @ l')) xs"
  by (auto simp: list_all_iff op_ok_def)

lemma started_count_append:
  "started_count (l @ [(operation, a)]) = started_count l + (case a of NotStarted _ \<Rightarrow> 0 | _ \<Rightarrow> 1)"
  by (simp add: started_count_def split: beginAnswer.split)

lemma registered_invD:
  assumes "registered_inv s" "cst_remoteForwards (pfs_state s) k = Some i"
  shows "i < length (pfs_forwards s)" "fw_bind (pfs_forwards s ! i) = k" "live s i"
  using assms by (simp_all add: registered_inv_def)

lemma live_registered:
  assumes "registered_inv s" "i < length (pfs_forwards s)" "live s i"
  shows "\<exists>k. cst_remoteForwards (pfs_state s) k = Some i"
  using assms by (simp add: registered_inv_def)

lemma registered_inv_remove:
  assumes inv: "registered_inv s" and i: "cst_remoteForwards (pfs_state s) k = Some i"
    and dead: "fw_closed (g (pfs_forwards s ! i)) \<or> fw_cancelled (g (pfs_forwards s ! i))"
  shows "registered_inv (s\<lparr> pfs_state := fst (RemoveRemoteForward (pfs_state s) k),
    pfs_forwards := (pfs_forwards s)[i := g (pfs_forwards s ! i)] \<rparr>)" (is "registered_inv ?s")
proof -
  have l: "live ?s j \<longleftrightarrow> j \<noteq> i \<and> live s j" if "j < length (pfs_forwards s)" for j
    using dead that by (cases "j = i") (auto simp: live_def)
  note ib = registered_invD(1,2)[OF inv i]
  have other: "k' \<noteq> k" if "cst_remoteForwards (pfs_state s) k' = Some j" "j \<noteq> i" for k' j using that i by auto
  show ?thesis
    unfolding registered_inv_def
  proof (intro conjI allI impI)
    fix k' j assume "cst_remoteForwards (pfs_state ?s) k' = Some j"
    then have m: "k' \<noteq> k" "cst_remoteForwards (pfs_state s) k' = Some j"
      by (auto simp: RemoveRemoteForward_def split: if_splits)
    note j = registered_invD[OF inv m(2)]
    then have "j \<noteq> i" using m ib by auto
    then show "j < length (pfs_forwards ?s)" "fw_bind (pfs_forwards ?s ! j) = k'" "live ?s j" using j l by auto
  next
    fix j assume "j < length (pfs_forwards ?s)" "live ?s j"
    then have j: "j < length (pfs_forwards s)" "j \<noteq> i" "live s j" using l by auto
    then obtain k' where k': "cst_remoteForwards (pfs_state s) k' = Some j" using live_registered[OF inv] by blast
    then show "\<exists>k'. cst_remoteForwards (pfs_state ?s) k' = Some j"
      using other[OF k' j(2)] by (intro exI[of _ k']) (simp add: RemoveRemoteForward_def)
  next
    assume "cst_closed (pfs_state ?s)"
    then show "cst_remoteForwards (pfs_state ?s) = Map.empty"
      using inv by (auto simp: registered_inv_def RemoveRemoteForward_def)
  qed
qed

lemma registered_inv_same:
  assumes "registered_inv s" "cst_remoteForwards (pfs_state s') = cst_remoteForwards (pfs_state s)"
    and "cst_closed (pfs_state s') = cst_closed (pfs_state s)" "length (pfs_forwards s') = length (pfs_forwards s)"
    and "\<And>i. i < length (pfs_forwards s) \<Longrightarrow> fw_bind (pfs_forwards s' ! i) = fw_bind (pfs_forwards s ! i)"
    and "\<And>i. i < length (pfs_forwards s) \<Longrightarrow> live s' i = live s i"
  shows "registered_inv s'"
  using assms unfolding registered_inv_def by auto

lemma RemoveRemoteForward_absent:
  "cst_remoteForwards st k = None \<Longrightarrow> fst (RemoveRemoteForward st k) = st"
  by (simp add: RemoveRemoteForward_def fun_upd_idem)

lemma AddRemoteForward_cases:
  "cst_closed st \<or> cst_remoteForwards st k \<noteq> None \<Longrightarrow> AddRemoteForward st k i = (st, False)"
  "\<not> (cst_closed st \<or> cst_remoteForwards st k \<noteq> None) \<Longrightarrow>
     AddRemoteForward st k i = (st\<lparr> cst_remoteForwards := (cst_remoteForwards st)(k \<mapsto> i) \<rparr>, True)"
  by (auto simp: AddRemoteForward_def)

lemma registered_inv_add:
  assumes inv: "registered_inv s" and new: "cst_remoteForwards (pfs_state s) (fw_bind f) = None" "\<not> cst_closed (pfs_state s)"
    and f: "\<not> fw_closed f" "\<not> fw_cancelled f"
  shows "registered_inv (s\<lparr> pfs_state := (pfs_state s)\<lparr> cst_remoteForwards :=
      (cst_remoteForwards (pfs_state s))(fw_bind f \<mapsto> length (pfs_forwards s)) \<rparr>,
    pfs_forwards := pfs_forwards s @ [f] \<rparr>)" (is "registered_inv ?s")
proof -
  have l: "live ?s i = live s i" if "i < length (pfs_forwards s)" for i using that by (simp add: live_def nth_append)
  have n: "live ?s (length (pfs_forwards s))" using f by (simp add: live_def)
  show ?thesis
    unfolding registered_inv_def
  proof (intro conjI allI impI)
    fix k i assume k: "cst_remoteForwards (pfs_state ?s) k = Some i"
    have "i < length (pfs_forwards ?s) \<and> fw_bind (pfs_forwards ?s ! i) = k \<and> live ?s i"
    proof (cases "k = fw_bind f")
      case True
      then have "i = length (pfs_forwards s)" using k by simp
      then show ?thesis using n True by simp
    next
      case False
      then have "cst_remoteForwards (pfs_state s) k = Some i" using k by simp
      note i = registered_invD[OF inv this]
      have "live ?s i" using l[OF i(1)] i(3) by (rule iffD2)
      then show ?thesis using i(1,2) by (simp add: nth_append)
    qed
    then show "i < length (pfs_forwards ?s)" "fw_bind (pfs_forwards ?s ! i) = k" "live ?s i" by blast+
  next
    fix i assume i: "i < length (pfs_forwards ?s)" "live ?s i"
    show "\<exists>k. cst_remoteForwards (pfs_state ?s) k = Some i"
    proof (cases "i = length (pfs_forwards s)")
      case True
      then show ?thesis by (intro exI[of _ "fw_bind f"]) simp
    next
      case False
      then have j: "i < length (pfs_forwards s)" using i(1) by simp
      then obtain k where k: "cst_remoteForwards (pfs_state s) k = Some i" using live_registered[OF inv j] i(2) l[OF j] by blast
      then have "k \<noteq> fw_bind f" using new(1) by auto
      then show ?thesis using k by (intro exI[of _ k]) simp
    qed
  next
    assume "cst_closed (pfs_state ?s)"
    then show "cst_remoteForwards (pfs_state ?s) = Map.empty" using new(2) by simp
  qed
qed

lemma registered_inv_dead:
  assumes inv: "registered_inv s" and f: "fw_closed f"
  shows "registered_inv (s\<lparr> pfs_forwards := pfs_forwards s @ [f] \<rparr>)" (is "registered_inv ?s")
proof -
  have l: "live ?s i = live s i" if "i < length (pfs_forwards s)" for i using that by (simp add: live_def nth_append)
  have n: "\<not> live ?s (length (pfs_forwards s))" using f by (simp add: live_def)
  show ?thesis
    unfolding registered_inv_def
  proof (intro conjI allI impI)
    fix k i assume "cst_remoteForwards (pfs_state ?s) k = Some i"
    then have "cst_remoteForwards (pfs_state s) k = Some i" by simp
    note i = registered_invD[OF inv this]
    show "i < length (pfs_forwards ?s)" "fw_bind (pfs_forwards ?s ! i) = k" "live ?s i"
      using i l[of i] by (simp_all add: nth_append)
  next
    fix i assume i: "i < length (pfs_forwards ?s)" "live ?s i"
    then have j: "i < length (pfs_forwards s)" using n by (cases "i = length (pfs_forwards s)") simp_all
    then obtain k where "cst_remoteForwards (pfs_state s) k = Some i" using live_registered[OF inv j] i(2) l[OF j] by blast
    then show "\<exists>k. cst_remoteForwards (pfs_state ?s) k = Some i" by (intro exI[of _ k]) simp
  next
    assume "cst_closed (pfs_state ?s)"
    then show "cst_remoteForwards (pfs_state ?s) = Map.empty" using inv by (simp add: registered_inv_def)
  qed
qed

lemma registered_inv_forward:
  assumes inv: "registered_inv s" and h: "handleTCPIPForward tgt s decoded answer forward = (s', reply)"
  shows "registered_inv s'"
proof -
  have same: "registered_inv (s\<lparr> pfs_log := l, pfs_finished := f \<rparr>)" "registered_inv (s\<lparr> pfs_log := l, pfs_calls := c \<rparr>)"
    "registered_inv (s\<lparr> pfs_log := l \<rparr>)" "registered_inv (s\<lparr> pfs_log := l, pfs_calls := c, pfs_finished := f \<rparr>)" for l f c
    by (rule registered_inv_same[OF inv]; simp add: live_def)+
  show ?thesis
  proof (cases decoded)
    case None
    then show ?thesis using inv h by (simp add: handleTCPIPForward_def)
  next
    case (Some data)
    show ?thesis
    proof (cases "answer = AllowedOperation \<and> (\<exists>p. forward = Inr p)")
      case False
      then show ?thesis using h Some same by (auto simp: handleTCPIPForward_def Let_def split: beginAnswer.splits sum.splits)
    next
      case True
      then obtain p where a: "answer = AllowedOperation" "forward = Inr p" by blast
      let ?s1 = "s\<lparr> pfs_log := pfs_log s @ [(remoteOperation data, AllowedOperation)], pfs_calls := pfs_calls s @ [(length (pfs_log s),
        \<lparr> rf_Target = tgt, rf_BindHost = rfr_BindAddr data, rf_BindPort = rfr_BindPort data \<rparr>)] \<rparr>"
      let ?k = "newRemoteForwardBind (rfr_BindAddr data) p"
      show ?thesis
      proof (cases "cst_closed (pfs_state s) \<or> cst_remoteForwards (pfs_state s) ?k \<noteq> None")
        case True
        let ?r = "error_result (Some (Errorf ''remote forward already exists'' []))"
        let ?f = "\<lparr> fw_bind = ?k, fw_actualPort = p, fw_operation = remoteOperation data, fw_target = tgt, fw_serving = False,
          fw_closed = True, fw_cancelled = False, fw_finished = [?r] \<rparr>"
        have s': "s' = ?s1\<lparr> pfs_forwards := pfs_forwards ?s1 @ [?f], pfs_finished := pfs_finished s @ [?r] \<rparr>"
          using h Some a AddRemoteForward_cases(1)[OF True] by (simp add: handleTCPIPForward_def Let_def)
        have "registered_inv (?s1\<lparr> pfs_forwards := pfs_forwards ?s1 @ [?f] \<rparr>)" by (rule registered_inv_dead[OF same(2)]) simp
        then show ?thesis by (rule registered_inv_same) (simp_all add: s' live_def)
      next
        case False
        let ?f = "\<lparr> fw_bind = ?k, fw_actualPort = p, fw_operation = remoteOperation data, fw_target = tgt, fw_serving = True,
          fw_closed = False, fw_cancelled = False, fw_finished = [] \<rparr>"
        have "registered_inv (?s1\<lparr> pfs_state := (pfs_state ?s1)\<lparr> cst_remoteForwards :=
            (cst_remoteForwards (pfs_state ?s1))(fw_bind ?f \<mapsto> length (pfs_forwards ?s1)) \<rparr>,
          pfs_forwards := pfs_forwards ?s1 @ [?f] \<rparr>)"
          using False by (intro registered_inv_add[OF same(2)]) simp_all
        then show ?thesis
          using h Some a AddRemoteForward_cases(2)[OF False] by (simp add: handleTCPIPForward_def Let_def)
      qed
    qed
  qed
qed

lemma registered_inv_cancel:
  assumes inv: "registered_inv s" and h: "handleCancelTCPIPForward s decoded cancelErr = (s', reply)"
  shows "registered_inv s'"
proof (cases decoded)
  case None
  then show ?thesis using inv h by (simp add: handleCancelTCPIPForward_def)
next
  case (Some data)
  let ?k = "newRemoteForwardBind (rfr_BindAddr data) (rfr_BindPort data)"
  show ?thesis
  proof (cases "cst_remoteForwards (pfs_state s) ?k")
    case None
    then show ?thesis
      using inv h Some RemoveRemoteForward_absent[OF None] by (auto simp: handleCancelTCPIPForward_def RemoveRemoteForward_def)
  next
    case k: (Some i)
    let ?g = "\<lambda>f. if cancelErr \<noteq> None then close_forward (f\<lparr> fw_cancelled := True \<rparr>) else f\<lparr> fw_cancelled := True \<rparr>"
    have "s' = s\<lparr> pfs_state := fst (RemoveRemoteForward (pfs_state s) ?k), pfs_forwards := (pfs_forwards s)[i := ?g (pfs_forwards s ! i)] \<rparr>"
      using h Some k by (auto simp: handleCancelTCPIPForward_def RemoveRemoteForward_def Let_def)
    then show ?thesis using registered_inv_remove[OF inv k, of ?g] by simp
  qed
qed

lemma registered_inv_touch:
  assumes inv: "registered_inv s" and "fw_bind f = fw_bind (pfs_forwards s ! i)"
    and "fw_closed f = fw_closed (pfs_forwards s ! i)" "fw_cancelled f = fw_cancelled (pfs_forwards s ! i)"
  shows "registered_inv (s\<lparr> pfs_forwards := (pfs_forwards s)[i := f], pfs_finished := l \<rparr>)"
proof -
  have e: "(pfs_forwards s)[i := f] ! j = (if j = i then f else pfs_forwards s ! j)" if "j < length (pfs_forwards s)" for j
    using that by (cases "i = j") simp_all
  show ?thesis using assms(2-) by (intro registered_inv_same[OF inv]) (simp_all add: live_def e)
qed

abbreviation finish_forward :: "OperationResult \<Rightarrow> remoteForwardState \<Rightarrow> remoteForwardState" where
  "finish_forward r f \<equiv> f\<lparr> fw_serving := False, fw_finished := fw_finished f @ [r] \<rparr>"

definition serve_result :: "podForwards \<Rightarrow> nat \<Rightarrow> bool \<Rightarrow> go_error \<Rightarrow> OperationResult" where
  "serve_result s i quiet err = \<lparr> or_Err = (if quiet then None else Some err), or_ExitCode = None,
     or_ActualBindPort = Some (fw_actualPort (pfs_forwards s ! i)) \<rparr>"

text \<open>The two effects of the end of a serving goroutine: what it removes and closes, and what it finishes.\<close>

definition serve_removed :: "podForwards \<Rightarrow> nat \<Rightarrow> podForwards" where
  "serve_removed s i =
     (case cst_remoteForwards (pfs_state s) (fw_bind (pfs_forwards s ! i)) of
        None \<Rightarrow> s
      | Some j \<Rightarrow> s\<lparr> pfs_state := fst (RemoveRemoteForward (pfs_state s) (fw_bind (pfs_forwards s ! i))),
          pfs_forwards := (pfs_forwards s)[j := close_forward (pfs_forwards s ! j)] \<rparr>)"

lemma serveRemoteForward_end_alt:
  "serveRemoteForward_end s i quiet err =
     (serve_removed s i)\<lparr>
       pfs_forwards := (pfs_forwards (serve_removed s i))[i := finish_forward (serve_result s i quiet err) (pfs_forwards (serve_removed s i) ! i)],
       pfs_finished := pfs_finished s @ [serve_result s i quiet err] \<rparr>"
proof (cases "cst_remoteForwards (pfs_state s) (fw_bind (pfs_forwards s ! i))")
  case None
  then have "(cst_remoteForwards (pfs_state s))(fw_bind (pfs_forwards s ! i) := None) = cst_remoteForwards (pfs_state s)"
    by (simp add: fun_upd_idem)
  then show ?thesis
    using None by (simp add: serveRemoteForward_end_def RemoveRemoteForward_def serve_removed_def serve_result_def Let_def)
next
  case (Some j)
  then show ?thesis
    by (simp add: serveRemoteForward_end_def RemoveRemoteForward_def serve_removed_def serve_result_def Let_def)
qed

lemma registered_inv_serve_end:
  assumes inv: "registered_inv s"
  shows "registered_inv (serveRemoteForward_end s i quiet err)"
proof -
  have "registered_inv (serve_removed s i)"
    using inv registered_inv_remove[OF inv, of _ _ close_forward] by (simp add: serve_removed_def split: option.split)
  then show ?thesis unfolding serveRemoteForward_end_alt by (rule registered_inv_touch) simp_all
qed

lemma podProtocol_Close_again: "cst_closed (pfs_state s) \<Longrightarrow> podProtocol_Close s = s"
  by (simp add: podProtocol_Close_def clientState_Close_def map_nth)

lemma podProtocol_Close_open:
  assumes "\<not> cst_closed (pfs_state s)"
  shows "cst_closed (pfs_state (podProtocol_Close s))" "cst_remoteForwards (pfs_state (podProtocol_Close s)) = Map.empty"
    "length (pfs_forwards (podProtocol_Close s)) = length (pfs_forwards s)"
    "i < length (pfs_forwards s) \<Longrightarrow> pfs_forwards (podProtocol_Close s) ! i =
      (if i \<in> ran (cst_remoteForwards (pfs_state s)) then close_forward (pfs_forwards s ! i) else pfs_forwards s ! i)"
  using assms by (simp_all add: podProtocol_Close_def clientState_Close_def)

lemma registered_inv_close:
  assumes inv: "registered_inv s"
  shows "registered_inv (podProtocol_Close s)"
proof (cases "cst_closed (pfs_state s)")
  case True
  then show ?thesis using inv by (simp add: podProtocol_Close_again)
next
  case False
  note c = podProtocol_Close_open[OF False]
  have "\<not> live (podProtocol_Close s) i" if i: "i < length (pfs_forwards s)" for i
  proof (cases "i \<in> ran (cst_remoteForwards (pfs_state s))")
    case True
    then show ?thesis using c(4)[OF i] by (simp add: live_def)
  next
    case out: False
    then have "\<not> live s i" using live_registered[OF inv i] by (auto simp: ran_def)
    then show ?thesis using c(4)[OF i] out by (simp add: live_def)
  qed
  then show ?thesis unfolding registered_inv_def by (simp add: c(1,2,3))
qed

lemma HandleGlobalRequest_cases:
  assumes "HandleGlobalRequest tgt s requestType decoded answer forward cancelErr = (s', reply)"
  obtains "handleTCPIPForward tgt s decoded answer forward = (s', reply)"
  | ok where "handleCancelTCPIPForward s decoded cancelErr = (s', ok)"
  | "s' = s"
  using assms by (auto simp: HandleGlobalRequest_def split: if_splits prod.splits)

lemma registered_inv_step:
  assumes inv: "registered_inv s" and "forward_step tgt s s'"
  shows "registered_inv s'"
  using assms(2)
proof (cases rule: forward_step.cases)
  case (step_global requestType decoded answer forward cancelErr reply)
  then show ?thesis
    by (cases rule: HandleGlobalRequest_cases) (use inv registered_inv_forward[OF inv] registered_inv_cancel[OF inv] in blast)+
next
  case (step_serve_end i quiet err)
  then show ?thesis using registered_inv_serve_end[OF inv] by simp
next
  case step_protocol_close
  then show ?thesis using registered_inv_close[OF inv] by simp
qed

section \<open>Every operation is finished once\<close>

lemma filter_update:
  "i < length xs \<Longrightarrow> length (filter P (xs[i := x])) + (if P (xs ! i) then 1 else 0) = length (filter P xs) + (if P x then 1 else 0)"
proof (induction xs arbitrary: i)
  case (Cons y xs)
  then show ?case by (cases i) auto
qed simp

lemma list_all_update: "list_all P xs \<Longrightarrow> P x \<Longrightarrow> list_all P (xs[i := x])"
  by (auto simp: list_all_iff dest: set_update_subset_insert[THEN subsetD])

lemma finished_inv_cong:
  "finished_inv tgt s \<Longrightarrow> map forward_op (pfs_forwards s') = map forward_op (pfs_forwards s) \<Longrightarrow> pfs_log s' = pfs_log s \<Longrightarrow>
    pfs_finished s' = pfs_finished s \<Longrightarrow> finished_inv tgt s'"
  by (simp add: finished_inv_def del: map_map list.map_comp)

lemma map_update_same: "f x = f (xs ! i) \<Longrightarrow> map f (xs[i := x]) = map f xs"
  by (cases "i < length xs") (simp_all add: map_update list_update_same_conv list_update_beyond not_less)

lemma finished_inv_cancel:
  assumes inv: "finished_inv tgt s" and h: "handleCancelTCPIPForward s decoded cancelErr = (s', reply)"
  shows "finished_inv tgt s'"
proof (rule finished_inv_cong[OF inv])
  show "map forward_op (pfs_forwards s') = map forward_op (pfs_forwards s)" "pfs_log s' = pfs_log s" "pfs_finished s' = pfs_finished s"
    using h by (auto simp: handleCancelTCPIPForward_def forward_op_def Let_def map_update_same split: option.splits prod.splits)
qed

lemma finished_inv_close:
  assumes inv: "finished_inv tgt s"
  shows "finished_inv tgt (podProtocol_Close s)"
proof (rule finished_inv_cong[OF inv])
  have "map forward_op (map (\<lambda>i. if i \<in> A then close_forward (fs ! i) else fs ! i) [0..<length fs]) = map forward_op fs" for A fs
    by (rule nth_equalityI) (simp_all add: forward_op_def)
  then show "map forward_op (pfs_forwards (podProtocol_Close s)) = map forward_op (pfs_forwards s)"
    by (simp add: podProtocol_Close_def split: prod.split)
  show "pfs_log (podProtocol_Close s) = pfs_log s" "pfs_finished (podProtocol_Close s) = pfs_finished s"
    by (simp_all add: podProtocol_Close_def split: prod.split)
qed

lemma finished_inv_start:
  assumes "finished_inv tgt s" "a = DeniedOperation e \<or> a = AllowedOperation"
  shows "finished_inv tgt (s\<lparr> pfs_log := pfs_log s @ [(operation, a)], pfs_finished := pfs_finished s @ [r] \<rparr>)"
  using assms op_ok_mono[of tgt "pfs_log s"] by (auto simp: finished_inv_def started_count_append)

lemma finished_inv_not_started:
  "finished_inv tgt s \<Longrightarrow> finished_inv tgt (s\<lparr> pfs_log := pfs_log s @ [(operation, NotStarted e)] \<rparr>)"
  using op_ok_mono[of tgt "pfs_log s"] by (simp add: finished_inv_def started_count_append)

lemma finished_inv_open:
  assumes inv: "finished_inv tgt s" and f: "forward_op f = (serving, results, tgt, operation)"
    and "length results = (if serving then 0 else 1)"
    and s': "pfs_log s' = pfs_log s @ [(operation, AllowedOperation)]" "pfs_forwards s' = pfs_forwards s @ [f]"
      "pfs_finished s' = pfs_finished s @ results"
  shows "finished_inv tgt s'"
proof -
  have "op_ok tgt (pfs_log s') (forward_op f)" using assms(3) unfolding f s'(1) by (simp add: op_ok_def)
  then show ?thesis
    using inv assms(3) op_ok_mono[of tgt "pfs_log s" _ "[(operation, AllowedOperation)]"] f
    by (cases serving) (simp_all add: finished_inv_def started_count_append s')
qed

lemma finished_inv_forward:
  assumes inv: "finished_inv tgt s" and h: "handleTCPIPForward tgt s decoded answer forward = (s', reply)"
  shows "finished_inv tgt s'"
proof (cases decoded)
  case None
  then show ?thesis using inv h by (simp add: handleTCPIPForward_def)
next
  case (Some data)
  show ?thesis
  proof (cases answer)
    case (NotStarted e)
    then show ?thesis using h Some finished_inv_not_started[OF inv] by (simp add: handleTCPIPForward_def Let_def) blast
  next
    case (DeniedOperation e)
    then show ?thesis using h Some finished_inv_start[OF inv, of "DeniedOperation e"] by (simp add: handleTCPIPForward_def Let_def) blast
  next
    case AllowedOperation
    show ?thesis
    proof (cases forward)
      case (Inl err)
      then show ?thesis using h Some AllowedOperation
        by (intro finished_inv_cong[OF finished_inv_start[OF inv, where a = AllowedOperation and operation = "remoteOperation data"
              and r = "error_result (Some err)"]])
          (auto simp: handleTCPIPForward_def Let_def)
    next
      case (Inr p)
      let ?k = "newRemoteForwardBind (rfr_BindAddr data) p"
      show ?thesis
      proof (cases "cst_closed (pfs_state s) \<or> cst_remoteForwards (pfs_state s) ?k \<noteq> None")
        case True
        show ?thesis
          using h Some AllowedOperation Inr AddRemoteForward_cases(1)[OF True]
          by (intro finished_inv_open[OF inv, of _ False "[error_result (Some (Errorf ''remote forward already exists'' []))]"])
            (auto simp: handleTCPIPForward_def Let_def forward_op_def)
      next
        case False
        show ?thesis
          using h Some AllowedOperation Inr AddRemoteForward_cases(2)[OF False]
          by (intro finished_inv_open[OF inv, of _ True "[]"]) (auto simp: handleTCPIPForward_def Let_def forward_op_def)
      qed
    qed
  qed
qed

lemma finished_inv_serve_end:
  assumes inv: "finished_inv tgt s" and i: "i < length (pfs_forwards s)" "fw_serving (pfs_forwards s ! i)"
  shows "finished_inv tgt (serveRemoteForward_end s i quiet err)"
proof -
  let ?t = "serve_removed s i"
  have "map forward_op (pfs_forwards ?t) = map forward_op (pfs_forwards s)" "pfs_log ?t = pfs_log s" and fin: "pfs_finished ?t = pfs_finished s"
    by (simp_all add: serve_removed_def forward_op_def map_update_same split: option.split)
  then have inv1: "finished_inv tgt ?t" and m: "map forward_op (pfs_forwards ?t) = map forward_op (pfs_forwards s)"
    using finished_inv_cong[OF inv] by blast+
  have l: "i < length (map forward_op (pfs_forwards ?t))" using m i(1) by (metis length_map)
  have "forward_op (pfs_forwards ?t ! i) = forward_op (pfs_forwards s ! i)" using m i(1) by (metis length_map nth_map)
  moreover have "op_ok tgt (pfs_log ?t) (map forward_op (pfs_forwards ?t) ! i)"
    using inv1 l unfolding finished_inv_def list_all_length by blast
  moreover have "map forward_op (pfs_forwards ?t) ! i = forward_op (pfs_forwards ?t ! i)" using l by simp
  ultimately obtain operation where o: "map forward_op (pfs_forwards ?t) ! i = (True, [], tgt, operation)"
      "(operation, AllowedOperation) \<in> set (pfs_log ?t)" "forward_op (pfs_forwards ?t ! i) = (True, [], tgt, operation)"
    using i(2) by (auto simp: forward_op_def op_ok_def)
  let ?r = "serve_result s i quiet err"
  let ?x = "(False, [?r], tgt, operation)"
  have f: "forward_op (finish_forward ?r (pfs_forwards ?t ! i)) = ?x" using o(3) by (auto simp: forward_op_def)
  let ?e = "serveRemoteForward_end s i quiet err"
  have u: "map forward_op (pfs_forwards ?e) = (map forward_op (pfs_forwards ?t))[i := ?x]"
      "pfs_log ?e = pfs_log ?t" "pfs_finished ?e = pfs_finished ?t @ [?r]"
    unfolding serveRemoteForward_end_alt using f fin by (simp_all add: map_update)
  have "length (filter fst ((map forward_op (pfs_forwards ?t))[i := ?x])) + 1 = length (filter fst (map forward_op (pfs_forwards ?t)))"
    using filter_update[OF l, of fst ?x] o(1) by simp
  moreover have "list_all (op_ok tgt (pfs_log ?t)) ((map forward_op (pfs_forwards ?t))[i := ?x])"
    using inv1 o(2) unfolding finished_inv_def by (intro list_all_update) (simp_all add: op_ok_def)
  ultimately show ?thesis
    using inv1 unfolding finished_inv_def u by simp
qed

lemma finished_inv_step:
  assumes inv: "finished_inv tgt s" and "forward_step tgt s s'"
  shows "finished_inv tgt s'"
  using assms(2)
proof (cases rule: forward_step.cases)
  case (step_global requestType decoded answer forward cancelErr reply)
  then show ?thesis
    by (cases rule: HandleGlobalRequest_cases) (use inv finished_inv_forward[OF inv] finished_inv_cancel[OF inv] in blast)+
next
  case (step_serve_end i quiet err)
  then show ?thesis using finished_inv_serve_end[OF inv] by simp
next
  case step_protocol_close
  then show ?thesis using finished_inv_close[OF inv] by simp
qed

section \<open>Every call of the backend has its authorization\<close>

definition calls_inv :: "Target \<Rightarrow> podForwards \<Rightarrow> bool" where
  "calls_inv tgt s \<longleftrightarrow> distinct (map fst (pfs_calls s)) \<and>
     (\<forall>(i, request) \<in> set (pfs_calls s). i < length (pfs_log s) \<and>
        (\<exists>data. pfs_log s ! i = (remoteOperation data, AllowedOperation) \<and>
           request = \<lparr> rf_Target = tgt, rf_BindHost = rfr_BindAddr data, rf_BindPort = rfr_BindPort data \<rparr>))"

lemma handleTCPIPForward_calls:
  assumes "handleTCPIPForward tgt s decoded answer forward = (s', reply)"
  shows "(pfs_calls s' = pfs_calls s \<and> (\<exists>l. pfs_log s' = pfs_log s @ l)) \<or>
    (\<exists>data. pfs_log s' = pfs_log s @ [(remoteOperation data, AllowedOperation)] \<and>
       pfs_calls s' = pfs_calls s @ [(length (pfs_log s),
         \<lparr> rf_Target = tgt, rf_BindHost = rfr_BindAddr data, rf_BindPort = rfr_BindPort data \<rparr>)])"
  using assms
  by (auto simp: handleTCPIPForward_def Let_def split: option.splits beginAnswer.splits sum.splits prod.splits bool.splits)

lemma calls_inv_mono:
  assumes "calls_inv tgt s" "pfs_calls s' = pfs_calls s" "pfs_log s' = pfs_log s @ l"
  shows "calls_inv tgt s'"
  using assms by (fastforce simp: calls_inv_def nth_append)

lemma calls_inv_forward:
  assumes inv: "calls_inv tgt s" and h: "handleTCPIPForward tgt s decoded answer forward = (s', reply)"
  shows "calls_inv tgt s'"
  using handleTCPIPForward_calls[OF h]
proof (elim disjE exE conjE)
  fix l assume "pfs_calls s' = pfs_calls s" "pfs_log s' = pfs_log s @ l"
  then show ?thesis by (rule calls_inv_mono[OF inv])
next
  fix data assume u: "pfs_log s' = pfs_log s @ [(remoteOperation data, AllowedOperation)]"
    "pfs_calls s' = pfs_calls s @ [(length (pfs_log s),
       \<lparr> rf_Target = tgt, rf_BindHost = rfr_BindAddr data, rf_BindPort = rfr_BindPort data \<rparr>)]"
  have "length (pfs_log s) \<notin> fst ` set (pfs_calls s)" using inv by (auto simp: calls_inv_def)
  then show ?thesis using inv unfolding calls_inv_def u by (fastforce simp: nth_append)
qed

lemma calls_inv_step:
  assumes inv: "calls_inv tgt s" and "forward_step tgt s s'"
  shows "calls_inv tgt s'"
  using assms(2)
proof (cases rule: forward_step.cases)
  case (step_global requestType decoded answer forward cancelErr reply)
  have cancel: "calls_inv tgt s'" if "handleCancelTCPIPForward s decoded cancelErr = (s', ok)" for ok
    by (rule calls_inv_mono[OF inv, where l = "[]"])
      (use that in \<open>auto simp: handleCancelTCPIPForward_def Let_def split: option.splits prod.splits\<close>)
  from step_global show ?thesis
    by (cases rule: HandleGlobalRequest_cases) (use inv calls_inv_forward[OF inv] cancel in blast)+
next
  case (step_serve_end i quiet err)
  then show ?thesis
    by (intro calls_inv_mono[OF inv, where l = "[]"]) (simp_all add: serveRemoteForward_end_def RemoveRemoteForward_def Let_def)
next
  case step_protocol_close
  then show ?thesis
    by (intro calls_inv_mono[OF inv, where l = "[]"]) (simp_all add: podProtocol_Close_def split: prod.split)
qed

interpretation forwards: inductive_invariant forward_init "forward_step tgt"
  "\<lambda>s. registered_inv s \<and> finished_inv tgt s \<and> calls_inv tgt s" for tgt
proof
  fix s :: podForwards
  assume "forward_init s"
  then show "registered_inv s \<and> finished_inv tgt s \<and> calls_inv tgt s"
    by (simp add: forward_init_def registered_inv_def finished_inv_def calls_inv_def newClientState_def started_count_def)
next
  fix s t
  assume i: "registered_inv s \<and> finished_inv tgt s \<and> calls_inv tgt s" and t: "forward_step tgt s t"
  show "registered_inv t \<and> finished_inv tgt t \<and> calls_inv tgt t"
    using registered_inv_step[OF _ t] finished_inv_step[OF _ t] calls_inv_step[OF _ t] i by simp
qed

section \<open>Transport and review\<close>

text \<open>The transport calls of a session's backend call, and whether a transport call is an exec on a target.\<close>

definition session_transport ::
  "Transport \<Rightarrow> string \<Rightarrow> go_error option \<Rightarrow> string result \<Rightarrow> backendCall \<Rightarrow> transportCall list" where
  "session_transport t stderrText newClient listenAgent call =
     (case call of
        CallExec r \<Rightarrow> fst (Executor_Exec t r)
      | CallSCP r \<Rightarrow> fst (Executor_SCP t r)
      | CallSFTP r \<Rightarrow> fst (Executor_SFTP t r)
      | CallAgentForward r \<Rightarrow> fst (Executor_AgentForward t stderrText newClient listenAgent r))"

fun reviewed_as :: "Target \<Rightarrow> string \<Rightarrow> transportCall \<Rightarrow> bool" where
  "reviewed_as tgt subresource (TransportExec r) \<longleftrightarrow> subresource = ''exec'' \<and> er_Target r = tgt"
| "reviewed_as tgt subresource (TransportExecHelper r) \<longleftrightarrow> subresource = ''exec'' \<and> sr_Target (he_Stream r) = tgt"
| "reviewed_as tgt subresource (TransportPortForward r) \<longleftrightarrow> subresource = ''portforward'' \<and> ppf_Target r = tgt"

definition review_of :: "(string \<Rightarrow> string list) \<Rightarrow> Target \<Rightarrow> Operation \<Rightarrow> string \<times> bool" where
  "review_of shlex tgt operation = kubernetesSARSubresource (os_attrs (connectionOperationSpec shlex tgt operation))"

lemma execHelper_calls:
  "fst (execHelper t capability command stream) = [TransportExecHelper \<lparr> he_Stream = stream, he_Capability = capability, he_Command = command \<rparr>]"
  by (simp add: execHelper_def Let_def)

lemma execHelperCommand_calls:
  "fst (execHelperCommand t capability command stream) = fst (execHelper t capability command stream)"
  by (simp add: execHelperCommand_def split: prod.split option.split)

lemma startHelperSession_calls:
  "\<exists>r. fst (startHelperSession t stderrText newClient tgt capability) = [TransportExecHelper r] \<and> sr_Target (he_Stream r) = tgt"
  by (simp add: startHelperSession_def execHelper_def Let_def split: prod.split)

lemma Executor_AgentForward_calls:
  "fst (Executor_AgentForward t stderrText newClient listenAgent r) =
     fst (startHelperSession t stderrText newClient (af_Target r) HelperAgentForward)"
  by (simp add: Executor_AgentForward_def split: prod.split sum.split)

lemma Executor_RemoteForward_calls:
  "call \<in> set (fst (Executor_RemoteForward t stderrText newClient listenRemote r)) \<Longrightarrow>
     call \<in> set (fst (startHelperSession t stderrText newClient (rf_Target r) HelperRemoteForward))"
  by (auto simp: Executor_RemoteForward_def split: prod.splits sum.splits if_splits)

lemma review_exec:
  "os_capability (connectionOperationSpec shlex tgt operation) \<in>
     {CapabilityShell, CapabilityExec, CapabilitySFTP, CapabilitySCP, CapabilityRemoteForward, CapabilityAgentForward} \<Longrightarrow>
   review_of shlex tgt operation = (''exec'', True)"
  by (simp add: review_of_def kubernetesSARSubresource_def spec_action)

lemma session_transport_reviewed:
  assumes "call_authorized shlex p operation call" "c \<in> set (session_transport t stderrText newClient listenAgent call)"
  shows "review_of shlex (pp_target p) operation = (''exec'', True) \<and> reviewed_as (pp_target p) ''exec'' c"
proof
  show "review_of shlex (pp_target p) operation = (''exec'', True)"
    by (rule review_exec) (use assms(1) in \<open>auto simp: call_authorized_def Let_def split: backendCall.splits\<close>)
  show "reviewed_as (pp_target p) ''exec'' c"
    using assms startHelperSession_calls[of t stderrText newClient "pp_target p" HelperAgentForward]
    by (auto simp: call_authorized_def session_transport_def Executor_Exec_def Executor_SCP_def Executor_SFTP_def
        execHelperCommand_calls execHelper_calls Executor_AgentForward_calls Let_def split: backendCall.splits)
qed

lemma direct_review:
  "review_of shlex tgt (directOperation data) =
     (if isPodLoopbackHost (d_DestAddr data) then ''portforward'' else ''exec'', True)"
  by (simp add: review_of_def kubernetesSARSubresource_def connectionOperationSpec_def directOperation_def zero_Operation_def
      localForwardOperationSpec_def isKubernetesPodLocalForwardHost_def isPodLoopbackHost_def extraValue_def extra_get_def Let_def)

lemma remote_review: "review_of shlex tgt (remoteOperation data) = (''exec'', True)"
  by (rule review_exec)
    (simp add: connectionOperationSpec_def remoteOperation_def zero_Operation_def connectionRemoteForwardOperationSpec_def Let_def)

section \<open>An example run\<close>

definition example_bind :: remoteForwardRequest where
  "example_bind = \<lparr> rfr_BindAddr = ''0.0.0.0'', rfr_BindPort = 8080 \<rparr>"

definition example_forwards :: podForwards where
  "example_forwards = \<lparr> pfs_state = newClientState, pfs_forwards = [], pfs_log = [], pfs_calls = [], pfs_finished = [] \<rparr>"

definition example_opened_forward :: "Target \<Rightarrow> podForwards" where
  "example_opened_forward tgt = fst (handleTCPIPForward tgt example_forwards (Some example_bind) AllowedOperation (Inr 8080))"

definition example_reopened_forward :: "Target \<Rightarrow> podForwards" where
  "example_reopened_forward tgt =
     fst (handleTCPIPForward tgt (fst (handleCancelTCPIPForward (example_opened_forward tgt) (Some example_bind) None))
       (Some example_bind) AllowedOperation (Inr 8080))"

lemmas example_forward_defs = example_opened_forward_def example_reopened_forward_def example_forwards_def example_bind_def
  handleTCPIPForward_def handleCancelTCPIPForward_def AddRemoteForward_def RemoveRemoteForward_def newClientState_def Let_def

lemma step_opened: "forward_step tgt s (fst (handleTCPIPForward tgt s decoded answer forward))"
  by (rule step_global[of _ _ RequestTCPIPForward decoded answer forward None _ "snd (handleTCPIPForward tgt s decoded answer forward)"])
    (simp add: HandleGlobalRequest_def)

lemma step_cancelled: "forward_step tgt s (fst (handleCancelTCPIPForward s decoded cancelErr))"
  by (rule step_global[of _ _ RequestCancelTCPIPForward decoded AllowedOperation "Inr 0" cancelErr _
        "(snd (handleCancelTCPIPForward s decoded cancelErr), None)"])
    (simp add: HandleGlobalRequest_def split: prod.split)

lemma example_opened_forward_reached: "reach forward_init (forward_step tgt) (example_opened_forward tgt)"
proof -
  have "reach forward_init (forward_step tgt) example_forwards"
    by (rule reach_init) (simp add: forward_init_def example_forwards_def)
  moreover have "forward_step tgt example_forwards (example_opened_forward tgt)"
    unfolding example_opened_forward_def by (rule step_opened)
  ultimately show ?thesis by (rule reach_step)
qed

lemma example_reopened_forward_reached: "reach forward_init (forward_step tgt) (example_reopened_forward tgt)"
proof -
  let ?s = "fst (handleCancelTCPIPForward (example_opened_forward tgt) (Some example_bind) None)"
  have "forward_step tgt (example_opened_forward tgt) ?s" by (rule step_cancelled)
  then have "reach forward_init (forward_step tgt) ?s" by (rule reach_step[OF example_opened_forward_reached])
  moreover have "forward_step tgt ?s (example_reopened_forward tgt)"
    unfolding example_reopened_forward_def by (rule step_opened)
  ultimately show ?thesis by (rule reach_step)
qed

section \<open>Properties\<close>

text \<open>
  C9. The Kubernetes permission that is reviewed for an operation is the one its execution uses: every
  transport call a session, a direct forward or a remote forward makes is made for a backend call
  that was preceded by the authorization of an operation for which the Kubernetes authorizer reviews
  exactly the subresource of that transport call, port forwarding for Pod port forwards and exec for
  everything that runs in a container, and it is made on the target of the connection.  A direct or
  remote forward is asked for with the very address that was authorized, and every remote forward
  has an authorization of its own.
\<close>

theorem transport_matches_review:
  "(reach session_init (session_step env) s \<and> ses_log s = pre @ Called tag call # post \<and>
      c \<in> set (session_transport t stderrText newClient listenAgent call) \<longrightarrow>
      (\<exists>operation. Began tag operation AllowedOperation \<in> set pre \<and>
         review_of (sne_shlex env) (pp_target (sne_protocol env)) operation = (''exec'', True) \<and>
         reviewed_as (pp_target (sne_protocol env)) ''exec'' c)) \<and>
   (ForwardCalled req \<in> set (handleDirectTCPIP tgt errorText decoded answer remote accept proxyErr) \<and>
      c \<in> set (fst (Executor_PortForward t stderrText req)) \<longrightarrow>
      (\<exists>data subresource rest.
         handleDirectTCPIP tgt errorText decoded answer remote accept proxyErr =
           ForwardBegan (directOperation data) AllowedOperation # ForwardCalled req # rest \<and>
         pf_Host req = d_DestAddr data \<and> pf_Port req = d_DestPort data \<and>
         review_of shlex tgt (directOperation data) = (subresource, True) \<and> reviewed_as tgt subresource c)) \<and>
   (reach forward_init (forward_step tgt) fs \<longrightarrow> distinct (map fst (pfs_calls fs)) \<and>
      (\<forall>i request. (i, request) \<in> set (pfs_calls fs) \<longrightarrow>
        (\<exists>data. i < length (pfs_log fs) \<and> pfs_log fs ! i = (remoteOperation data, AllowedOperation) \<and>
           rf_BindHost request = rfr_BindAddr data \<and> rf_BindPort request = rfr_BindPort data \<and>
           review_of shlex tgt (remoteOperation data) = (''exec'', True) \<and>
           (\<forall>c \<in> set (fst (Executor_RemoteForward t stderrText newClient listenRemote request)). reviewed_as tgt ''exec'' c))))"
proof (intro conjI impI; (elim conjE)?)
  assume r: "reach session_init (session_step env) s" and called: "ses_log s = pre @ Called tag call # post"
    and c: "c \<in> set (session_transport t stderrText newClient listenAgent call)"
  from session_call_authorized[OF r called] obtain operation pre' mid where
    p: "pre = pre' @ Began tag operation AllowedOperation # mid"
      and "call_authorized (sne_shlex env) (sne_protocol env) operation call" by blast
  from session_transport_reviewed[OF this(2) c] p
  show "\<exists>operation. Began tag operation AllowedOperation \<in> set pre \<and>
      review_of (sne_shlex env) (pp_target (sne_protocol env)) operation = (''exec'', True) \<and>
      reviewed_as (pp_target (sne_protocol env)) ''exec'' c"
    by (intro exI[of _ operation]) simp
next
  assume called: "ForwardCalled req \<in> set (handleDirectTCPIP tgt errorText decoded answer remote accept proxyErr)"
    and c: "c \<in> set (fst (Executor_PortForward t stderrText req))"
  obtain data where d: "decoded = Inr data" "answer = AllowedOperation"
      "req = \<lparr> pf_Target = tgt, pf_Host = d_DestAddr data, pf_Port = d_DestPort data \<rparr>"
    using called by (auto simp: handleDirectTCPIP_def Let_def split: sum.splits beginAnswer.splits option.splits)
  then have "\<exists>rest. handleDirectTCPIP tgt errorText decoded answer remote accept proxyErr =
      ForwardBegan (directOperation data) AllowedOperation # ForwardCalled req # rest"
    by (simp add: handleDirectTCPIP_def Let_def split: sum.split option.split)
  moreover have "reviewed_as tgt (if isPodLoopbackHost (d_DestAddr data) then ''portforward'' else ''exec'') c"
    using c d(3) by (auto simp: Executor_PortForward_def dialThroughHelper_def execHelper_def Let_def split: if_splits prod.splits)
  moreover have "pf_Host req = d_DestAddr data" "pf_Port req = d_DestPort data" using d(3) by simp_all
  ultimately show "\<exists>data subresource rest.
      handleDirectTCPIP tgt errorText decoded answer remote accept proxyErr =
        ForwardBegan (directOperation data) AllowedOperation # ForwardCalled req # rest \<and>
      pf_Host req = d_DestAddr data \<and> pf_Port req = d_DestPort data \<and>
      review_of shlex tgt (directOperation data) = (subresource, True) \<and> reviewed_as tgt subresource c"
    using direct_review by blast
next
  assume r: "reach forward_init (forward_step tgt) fs"
  have inv: "calls_inv tgt fs" using forwards.reach_inv[OF r] by blast
  then show "distinct (map fst (pfs_calls fs))" by (simp add: calls_inv_def)
  show "\<forall>i request. (i, request) \<in> set (pfs_calls fs) \<longrightarrow>
      (\<exists>data. i < length (pfs_log fs) \<and> pfs_log fs ! i = (remoteOperation data, AllowedOperation) \<and>
         rf_BindHost request = rfr_BindAddr data \<and> rf_BindPort request = rfr_BindPort data \<and>
         review_of shlex tgt (remoteOperation data) = (''exec'', True) \<and>
         (\<forall>c \<in> set (fst (Executor_RemoteForward t stderrText newClient listenRemote request)). reviewed_as tgt ''exec'' c))"
  proof (intro allI impI)
    fix i request assume "(i, request) \<in> set (pfs_calls fs)"
    with inv obtain data where d: "i < length (pfs_log fs)" "pfs_log fs ! i = (remoteOperation data, AllowedOperation)"
        "request = \<lparr> rf_Target = tgt, rf_BindHost = rfr_BindAddr data, rf_BindPort = rfr_BindPort data \<rparr>"
      unfolding calls_inv_def by blast
    have "reviewed_as tgt ''exec'' c"
      if "c \<in> set (fst (Executor_RemoteForward t stderrText newClient listenRemote request))" for c
      using Executor_RemoteForward_calls[OF that] startHelperSession_calls[of t stderrText newClient tgt HelperRemoteForward] d(3) by auto
    then show "\<exists>data. i < length (pfs_log fs) \<and> pfs_log fs ! i = (remoteOperation data, AllowedOperation) \<and>
         rf_BindHost request = rfr_BindAddr data \<and> rf_BindPort request = rfr_BindPort data \<and>
         review_of shlex tgt (remoteOperation data) = (''exec'', True) \<and>
         (\<forall>c \<in> set (fst (Executor_RemoteForward t stderrText newClient listenRemote request)). reviewed_as tgt ''exec'' c)"
      using d remote_review by (intro exI[of _ data]) simp
  qed
qed

text \<open>A session's command, a forward to the Pod's loopback and a remote forward, with the calls they make.\<close>

definition loopback_data :: directTCPIPData where
  "loopback_data = \<lparr> d_DestAddr = ''localhost'', d_DestPort = 8080, d_OriginAddr = ''10.0.0.1'', d_OriginPort = 5000 \<rparr>"

definition loopback_request :: "Target \<Rightarrow> PortForwardRequest" where
  "loopback_request tgt = \<lparr> pf_Target = tgt, pf_Host = ''localhost'', pf_Port = 8080 \<rparr>"

lemma loopback_host: "isPodLoopbackHost ''localhost''"
  by code_simp

lemma loopback_forwarded:
  "ForwardCalled (loopback_request tgt) \<in> set (handleDirectTCPIP tgt e (Inr loopback_data) AllowedOperation (Inr ()) None None)"
  "TransportPortForward \<lparr> ppf_Target = tgt, ppf_Port = 8080 \<rparr> \<in> set (fst (Executor_PortForward t stderrText (loopback_request tgt)))"
  by (simp_all add: handleDirectTCPIP_def Executor_PortForward_def loopback_data_def loopback_request_def loopback_host Let_def)

lemma example_forward_called:
  "(0, \<lparr> rf_Target = tgt, rf_BindHost = ''0.0.0.0'', rf_BindPort = 8080 \<rparr>) \<in> set (pfs_calls (example_opened_forward tgt))"
  by (simp add: example_forward_defs)

lemma transport_matches_review_witness:
  "(\<exists>operation. Began TaskOp operation AllowedOperation \<in> set (ses_log example_running) \<and>
     review_of (sne_shlex example_session_env) (pp_target (sne_protocol example_session_env)) operation = (''exec'', True)) \<and>
   (\<exists>data rest. handleDirectTCPIP (New ''ns'' ''web-0'' ''app'') (\<lambda>_. []) (Inr loopback_data) AllowedOperation (Inr ()) None None =
       ForwardBegan (directOperation data) AllowedOperation # ForwardCalled (loopback_request (New ''ns'' ''web-0'' ''app'')) # rest \<and>
     review_of (\<lambda>_. []) (New ''ns'' ''web-0'' ''app'') (directOperation data) = (''portforward'', True)) \<and>
   (\<exists>data. pfs_log (example_opened_forward (New ''ns'' ''web-0'' ''app'')) ! 0 = (remoteOperation data, AllowedOperation) \<and>
     rfr_BindAddr data = ''0.0.0.0'')"
proof (intro conjI)
  obtain r pre post where l: "ses_log example_running = pre @ Called TaskOp (CallExec r) # post"
    using example_running_called by (auto simp: in_set_conv_decomp)
  have "TransportExec r \<in> set (session_transport t e n l (CallExec r))" for t e n l
    by (simp add: session_transport_def Executor_Exec_def)
  then obtain operation where "Began TaskOp operation AllowedOperation \<in> set pre"
      "review_of (sne_shlex example_session_env) (pp_target (sne_protocol example_session_env)) operation = (''exec'', True)"
    using transport_matches_review[THEN conjunct1, of example_session_env example_running pre TaskOp "CallExec r" post "TransportExec r"]
      example_running_reached l by blast
  then show "\<exists>operation. Began TaskOp operation AllowedOperation \<in> set (ses_log example_running) \<and>
     review_of (sne_shlex example_session_env) (pp_target (sne_protocol example_session_env)) operation = (''exec'', True)"
    using l by (intro exI[of _ operation]) simp
next
  let ?tgt = "New ''ns'' ''web-0'' ''app''"
  let ?h = "handleDirectTCPIP ?tgt (\<lambda>_. []) (Inr loopback_data) AllowedOperation (Inr ()) None None"
  let ?c = "TransportPortForward \<lparr> ppf_Target = ?tgt, ppf_Port = 8080 \<rparr>"
  have "\<exists>data subresource rest. ?h = ForwardBegan (directOperation data) AllowedOperation # ForwardCalled (loopback_request ?tgt) # rest \<and>
      pf_Host (loopback_request ?tgt) = d_DestAddr data \<and> pf_Port (loopback_request ?tgt) = d_DestPort data \<and>
      review_of (\<lambda>_. []) ?tgt (directOperation data) = (subresource, True) \<and> reviewed_as ?tgt subresource ?c"
    using transport_matches_review[THEN conjunct2, THEN conjunct1] loopback_forwarded by blast
  then show "\<exists>data rest. ?h = ForwardBegan (directOperation data) AllowedOperation # ForwardCalled (loopback_request ?tgt) # rest \<and>
      review_of (\<lambda>_. []) ?tgt (directOperation data) = (''portforward'', True)"
    by (elim exE conjE) (intro exI conjI, assumption, simp)
next
  show "\<exists>data. pfs_log (example_opened_forward (New ''ns'' ''web-0'' ''app'')) ! 0 = (remoteOperation data, AllowedOperation) \<and>
     rfr_BindAddr data = ''0.0.0.0''"
    using conjunct2[OF mp[OF conjunct2[OF conjunct2[OF transport_matches_review]] example_opened_forward_reached], rule_format,
        OF example_forward_called, of "New ''ns'' ''web-0'' ''app''" "\<lambda>_. []"]
    by (metis RemoteForwardRequest.select_convs(2))
qed

text \<open>
  C18. No remote forward is lost: at any time a listener that is neither closed nor cancelled is
  registered under its bind address, where a cancellation and the end of the connection find it; after the
  connection has closed its protocol none is left open; every listener was authorized, is on the target
  of the connection, and its operation is finished exactly once, when its serving ends; and over the whole
  connection operations finished and listeners served add up to the operations begun.
\<close>

theorem remote_forwards_owned:
  assumes "reach forward_init (forward_step tgt) s"
  shows "(\<forall>i < length (pfs_forwards s). \<not> fw_closed (pfs_forwards s ! i) \<and> \<not> fw_cancelled (pfs_forwards s ! i) \<longrightarrow>
      cst_remoteForwards (pfs_state s) (fw_bind (pfs_forwards s ! i)) = Some i) \<and>
    (cst_closed (pfs_state s) \<longrightarrow> (\<forall>f \<in> set (pfs_forwards s). fw_closed f \<or> fw_cancelled f)) \<and>
    (\<forall>f \<in> set (pfs_forwards s). fw_target f = tgt \<and> (fw_operation f, AllowedOperation) \<in> set (pfs_log s) \<and>
      length (fw_finished f) = (if fw_serving f then 0 else 1)) \<and>
    started_count (pfs_log s) = length (pfs_finished s) + length (filter fw_serving (pfs_forwards s))"
proof (intro conjI)
  have r: "registered_inv s" and f: "finished_inv tgt s" using forwards.reach_inv[OF assms] by blast+
  have own: "cst_remoteForwards (pfs_state s) (fw_bind (pfs_forwards s ! i)) = Some i"
    if "i < length (pfs_forwards s)" "live s i" for i
    using live_registered[OF r that] registered_invD(2)[OF r] by metis
  then show "\<forall>i < length (pfs_forwards s). \<not> fw_closed (pfs_forwards s ! i) \<and> \<not> fw_cancelled (pfs_forwards s ! i) \<longrightarrow>
      cst_remoteForwards (pfs_state s) (fw_bind (pfs_forwards s ! i)) = Some i" by (simp add: live_def)
  have "fw_closed (pfs_forwards s ! i) \<or> fw_cancelled (pfs_forwards s ! i)"
    if "cst_closed (pfs_state s)" "i < length (pfs_forwards s)" for i
    using own[OF that(2)] r that(1) by (auto simp: live_def registered_inv_def)
  then show "cst_closed (pfs_state s) \<longrightarrow> (\<forall>f \<in> set (pfs_forwards s). fw_closed f \<or> fw_cancelled f)"
    by (metis in_set_conv_nth)
  show "\<forall>f \<in> set (pfs_forwards s). fw_target f = tgt \<and> (fw_operation f, AllowedOperation) \<in> set (pfs_log s) \<and>
      length (fw_finished f) = (if fw_serving f then 0 else 1)"
    using f by (auto simp: finished_inv_def list_all_iff op_ok_def forward_op_def)
  have "filter (fst \<circ> forward_op) (pfs_forwards s) = filter fw_serving (pfs_forwards s)"
    by (rule filter_cong) (simp_all add: forward_op_def)
  then show "started_count (pfs_log s) = length (pfs_finished s) + length (filter fw_serving (pfs_forwards s))"
    using f by (simp add: finished_inv_def filter_map)
qed

lemma remote_forwards_owned_witness:
  "started_count (pfs_log (example_opened_forward (New ''ns'' ''web-0'' ''app''))) = 1"
proof -
  have "pfs_finished (example_opened_forward (New ''ns'' ''web-0'' ''app'')) = []"
    "length (filter fw_serving (pfs_forwards (example_opened_forward (New ''ns'' ''web-0'' ''app'')))) = 1"
    by (simp_all add: example_forward_defs)
  then show ?thesis using remote_forwards_owned[OF example_opened_forward_reached, of "New ''ns'' ''web-0'' ''app''"] by simp
qed

text \<open>
  C35. A race the code leaves open: the goroutine that served a cancelled forward removes and closes
  whatever is registered under its bind address when it ends, so a forward the client has opened again on the
  same address in the meantime is closed although nobody cancelled it, its connection is open, and it is
  still reported as served.
\<close>

theorem stale_forward_closes_successor:
  "\<exists>s. reach forward_init (forward_step tgt) s \<and> \<not> cst_closed (pfs_state s) \<and>
     (\<exists>f \<in> set (pfs_forwards s). fw_closed f \<and> \<not> fw_cancelled f \<and> fw_serving f \<and> fw_finished f = [])"
proof -
  let ?s = "serveRemoteForward_end (example_reopened_forward tgt) 0 True (Errorf ''context canceled'' [])"
  have "forward_step tgt (example_reopened_forward tgt) ?s"
    by (rule step_serve_end) (simp_all add: example_forward_defs)
  then have "reach forward_init (forward_step tgt) ?s" by (rule reach_step[OF example_reopened_forward_reached])
  moreover have "\<not> cst_closed (pfs_state ?s) \<and>
      (\<exists>f \<in> set (pfs_forwards ?s). fw_closed f \<and> \<not> fw_cancelled f \<and> fw_serving f \<and> fw_finished f = [])"
    by (simp add: serveRemoteForward_end_def example_forward_defs)
  ultimately show ?thesis by blast
qed

end
