(* ===== verification/HelperScp.thy ===== *)
theory HelperScp
  imports Operations
begin

text \<open>
  The pod helper's scp implementation, \<^verbatim>\<open>pkg/podssh/backend/helper/scp.go\<close>: option
  parsing, the header parsers, the sink (\<^verbatim>\<open>scp -t\<close>) and the source (\<^verbatim>\<open>scp -f\<close>), over a model
  of the connection and of the container's file system.

  The connection is a record \<open>scpIO\<close>: the bytes still to be read, the error
  that ends them (\<^verbatim>\<open>io.EOF\<close>, or the error of a cancelled context), the bytes written so
  far, and for every write the error it fails with, if any.  The operating system's
  answers are a parameter of the sink (\<open>scpOS\<close>), and each call that changes the
  file system is appended to a log; the source reads a tree of type
  \<open>fsNode\<close>, the answers of \<^verbatim>\<open>os.Stat\<close>, \<^verbatim>\<open>os.ReadDir\<close> and \<^verbatim>\<open>os.Open\<close>.
\<close>

section \<open>Package path/filepath\<close>

text \<open>\<^verbatim>\<open>filepath.Clean\<close> keeps a stack of path elements.\<close>

definition push_element :: "bool \<Rightarrow> string list \<Rightarrow> string \<Rightarrow> string list" where
  "push_element rooted stack e =
     (if e = [] \<or> e = ''.'' then stack
      else if e = ''..'' then
        (if stack \<noteq> [] \<and> last stack \<noteq> ''..'' then butlast stack
         else if rooted then stack else stack @ [''..''])
      else stack @ [e])"

definition path_rooted :: "string \<Rightarrow> bool" where
  "path_rooted p = (p \<noteq> [] \<and> hd p = CHR ''/'')"

definition path_elements :: "string \<Rightarrow> string list" where
  "path_elements p = foldl (push_element (path_rooted p)) [] (Split p (CHR ''/''))"

definition filepath_Clean :: "string \<Rightarrow> string" where
  "filepath_Clean p =
     (let body = Join (path_elements p) (CHR ''/'')
      in if path_rooted p then CHR ''/'' # body else if body = [] then ''.'' else body)"

definition filepath_Join :: "string \<Rightarrow> string \<Rightarrow> string" where
  "filepath_Join parent name =
     (if parent = [] then (if name = [] then [] else filepath_Clean name)
      else filepath_Clean (parent @ CHR ''/'' # name))"

section \<open>Packages strconv, strings and fmt\<close>

text \<open>\<^verbatim>\<open>strconv.ParseUint(s, 8, 32)\<close>, the verb \<^verbatim>\<open>%04o\<close>, \<^verbatim>\<open>strings.SplitN(s, " ", 3)\<close> and
  \<^verbatim>\<open>strings.Fields\<close>.\<close>

fun parse_octal :: "nat \<Rightarrow> string \<Rightarrow> nat option" where
  "parse_octal acc [] = Some acc"
| "parse_octal acc (c # cs) =
     (case char_digit c of
        None \<Rightarrow> None
      | Some d \<Rightarrow> if d < 8 then parse_octal (8 * acc + d) cs else None)"

definition ParseUint8_32 :: "string \<Rightarrow> nat option" where
  "ParseUint8_32 s =
     (if s = [] then None
      else case parse_octal 0 s of
             None \<Rightarrow> None
           | Some n \<Rightarrow> if n < 2 ^ 32 then Some n else None)"

fun format_octal :: "nat \<Rightarrow> string" where
  "format_octal n = (if n < 8 then [digit_char n] else format_octal (n div 8) @ [digit_char (n mod 8)])"

declare format_octal.simps [simp del]

definition octal04 :: "nat \<Rightarrow> string" where
  "octal04 n = replicate (4 - length (format_octal n)) (CHR ''0'') @ format_octal n"

definition SplitN3 :: "string \<Rightarrow> char \<Rightarrow> string list" where
  "SplitN3 s c =
     (case Cut s c of
        (a, rest, found) \<Rightarrow>
          if \<not> found then [a]
          else (case Cut rest c of
                  (b, rest', found') \<Rightarrow> if \<not> found' then [a, b] else [a, b, rest']))"

fun split_space :: "string \<Rightarrow> string list" where
  "split_space [] = [[]]"
| "split_space (c # cs) =
     (if is_space c then [] # split_space cs
      else case split_space cs of [] \<Rightarrow> [[c]] | f # fs \<Rightarrow> (c # f) # fs)"

definition Fields :: "string \<Rightarrow> string list" where
  "Fields s = filter (\<lambda>f. f \<noteq> []) (split_space s)"

section \<open>Options\<close>

record scpOptions =
  scp_source :: bool
  scp_sink :: bool
  scp_recursive :: bool
  scp_preserve :: bool
  scp_target :: string

definition no_scpOptions :: scpOptions where
  "no_scpOptions =
     \<lparr> scp_source = False, scp_sink = False, scp_recursive = False, scp_preserve = False, scp_target = [] \<rparr>"

fun scp_flags :: "scpOptions \<Rightarrow> string \<Rightarrow> scpOptions result" where
  "scp_flags opts [] = Inr opts"
| "scp_flags opts (flag # flags) =
     (if flag = CHR ''t'' then scp_flags (opts\<lparr> scp_sink := True \<rparr>) flags
      else if flag = CHR ''f'' then scp_flags (opts\<lparr> scp_source := True \<rparr>) flags
      else if flag = CHR ''r'' then scp_flags (opts\<lparr> scp_recursive := True \<rparr>) flags
      else if flag = CHR ''p'' then scp_flags (opts\<lparr> scp_preserve := True \<rparr>) flags
      else if flag = CHR ''d'' \<or> flag = CHR ''v'' then scp_flags opts flags
      else Inl (Errorf ''unsupported scp flag -%c'' [[flag]]))"

fun scp_args :: "scpOptions \<Rightarrow> string list \<Rightarrow> scpOptions result" where
  "scp_args opts [] = Inr opts"
| "scp_args opts (arg # args) =
     (if HasPrefix arg ''-'' \<and> arg \<noteq> ''-'' then
        (case scp_flags opts (drop 1 arg) of
           Inl err \<Rightarrow> Inl err
         | Inr opts' \<Rightarrow> scp_args opts' args)
      else scp_args (opts\<lparr> scp_target := arg \<rparr>) args)"

definition parseSCPOptions :: "string list \<Rightarrow> scpOptions result" where
  "parseSCPOptions args =
     (case scp_args no_scpOptions args of
        Inl err \<Rightarrow> Inl err
      | Inr opts \<Rightarrow>
          if scp_target opts = [] then Inl (Errorf ''scp target is required'' [])
          else if scp_sink opts = scp_source opts then Inl (Errorf ''scp requires exactly one of -t or -f'' [])
          else Inr opts)"

section \<open>Headers\<close>

definition parseSCPFile :: "string \<Rightarrow> (nat \<times> int \<times> string) result" where
  "parseSCPFile line =
     (let parts = SplitN3 line (CHR '' '')
      in if length parts \<noteq> 3 \<or> length (parts ! 0) < 5
         then Inl (Errorf ''invalid scp file header %q'' [line])
         else case ParseUint8_32 (drop 1 (parts ! 0)) of
                None \<Rightarrow> Inl (Errorf ''strconv.ParseUint: parsing %q'' [drop 1 (parts ! 0)])
              | Some mode \<Rightarrow>
                  (case ParseInt (parts ! 1) of
                     None \<Rightarrow> Inl (Errorf ''strconv.ParseInt: parsing %q'' [parts ! 1])
                   | Some fsize \<Rightarrow>
                       if fsize < 0 then Inl (Errorf ''invalid scp file size %d'' [FormatInt fsize])
                       else Inr (mode, fsize, parts ! 2)))"

definition parseSCPEntry :: "string \<Rightarrow> (nat \<times> string) result" where
  "parseSCPEntry line =
     (let parts = SplitN3 line (CHR '' '')
      in if length parts \<noteq> 3 \<or> length (parts ! 0) < 5
         then Inl (Errorf ''invalid scp directory header %q'' [line])
         else case ParseUint8_32 (drop 1 (parts ! 0)) of
                None \<Rightarrow> Inl (Errorf ''strconv.ParseUint: parsing %q'' [drop 1 (parts ! 0)])
              | Some mode \<Rightarrow> Inr (mode, parts ! 2))"

text \<open>Both times are in seconds since the epoch.\<close>

record scpTimes =
  st_mtime :: int
  st_atime :: int

definition parseSCPTimes :: "string \<Rightarrow> scpTimes result" where
  "parseSCPTimes line =
     (let fields = Fields line
      in if length fields \<noteq> 5 then Inl (Errorf ''invalid scp time header %q'' [line])
         else case ParseInt (drop 1 (fields ! 0)) of
                None \<Rightarrow> Inl (Errorf ''strconv.ParseInt: parsing %q'' [drop 1 (fields ! 0)])
              | Some mtime \<Rightarrow>
                  (case ParseInt (fields ! 2) of
                     None \<Rightarrow> Inl (Errorf ''strconv.ParseInt: parsing %q'' [fields ! 2])
                   | Some atime \<Rightarrow> Inr \<lparr> st_mtime = mtime, st_atime = atime \<rparr>))"

definition cleanSCPName :: "string \<Rightarrow> string result" where
  "cleanSCPName name =
     (if name = [] \<or> name = ''.'' \<or> name = ''..'' \<or> contains_byte name (CHR ''/'')
      then Inl (Errorf ''invalid scp filename %q'' [name])
      else Inr name)"

section \<open>The connection\<close>

text \<open>
  The operations on the file system, as the code calls them.  \<^verbatim>\<open>os.MkdirAll\<close> creates the directory and
  the missing ones on the way to it, which the operation does not list.
\<close>

datatype fsOp =
    MkdirAll string nat
  | WriteFile string nat string
  | Chtimes string int int

record scpIO =
  io_in :: string
  io_end :: go_error
  io_out :: string
  io_writes :: nat
  io_writeErr :: "nat \<Rightarrow> go_error option"
  io_fs :: "fsOp list"

definition out_Write :: "scpIO \<Rightarrow> string \<Rightarrow> scpIO \<times> go_error option" where
  "out_Write io bytes =
     (case io_writeErr io (io_writes io) of
        Some err \<Rightarrow> (io\<lparr> io_writes := io_writes io + 1 \<rparr>, Some err)
      | None \<Rightarrow> (io\<lparr> io_writes := io_writes io + 1, io_out := io_out io @ bytes \<rparr>, None))"

definition ReadByte :: "scpIO \<Rightarrow> scpIO \<times> char result" where
  "ReadByte io = (case io_in io of [] \<Rightarrow> (io, Inl (io_end io)) | c # cs \<Rightarrow> (io\<lparr> io_in := cs \<rparr>, Inr c))"

text \<open>\<^verbatim>\<open>ReadString('\n')\<close> returns the line with its delimiter, or what is left and the error.\<close>

definition ReadString :: "scpIO \<Rightarrow> scpIO \<times> string \<times> go_error option" where
  "ReadString io =
     (case Cut (io_in io) (CHR 0x0A) of
        (line, rest, found) \<Rightarrow>
          if found then (io\<lparr> io_in := rest \<rparr>, line @ [CHR 0x0A], None)
          else (io\<lparr> io_in := [] \<rparr>, line, Some (io_end io)))"

definition io_op :: "fsOp \<Rightarrow> scpIO \<Rightarrow> scpIO" where
  "io_op a io = io\<lparr> io_fs := io_fs io @ [a] \<rparr>"

definition writeSCPAck :: "(go_error \<Rightarrow> string) \<Rightarrow> scpIO \<Rightarrow> go_error option \<Rightarrow> scpIO \<times> go_error option" where
  "writeSCPAck errorText io err =
     (case err of
        Some e \<Rightarrow> out_Write io (CHR 0x01 # errorText e @ [CHR 0x0A])
      | None \<Rightarrow> out_Write io [CHR 0x00])"

text \<open>\<^verbatim>\<open>_ = writeSCPAck(out, err); return err\<close>.\<close>

definition refuse :: "(go_error \<Rightarrow> string) \<Rightarrow> scpIO \<Rightarrow> go_error \<Rightarrow> scpIO \<times> go_error option" where
  "refuse errorText io err = (fst (writeSCPAck errorText io (Some err)), Some err)"

text \<open>\<^verbatim>\<open>if err := ...; err != nil { return err }\<close> followed by the rest.\<close>

definition io_then ::
  "scpIO \<times> go_error option \<Rightarrow> (scpIO \<Rightarrow> scpIO \<times> go_error option) \<Rightarrow> scpIO \<times> go_error option" where
  "io_then r k = (case r of (io, Some err) \<Rightarrow> (io, Some err) | (io, None) \<Rightarrow> k io)"

definition readSCPResponse :: "scpIO \<Rightarrow> scpIO \<times> go_error option" where
  "readSCPResponse io =
     (case ReadByte io of
        (io1, Inl err) \<Rightarrow> (io1, Some err)
      | (io1, Inr status) \<Rightarrow>
          if status = CHR 0x00 then (io1, None)
          else if status = CHR 0x01 \<or> status = CHR 0x02 then
            (case ReadString io1 of
               (io2, message, _) \<Rightarrow> (io2, Some (Errorf ''scp remote error: %s'' [TrimSpace message])))
          else (io1, Some (Errorf ''unexpected scp response %d'' [format_nat (of_char status)])))"

section \<open>The sink\<close>

text \<open>
  The operating system's answers, which may depend on the calls made so far:
  \<^verbatim>\<open>os.Stat(path).IsDir()\<close>, the errors of \<^verbatim>\<open>os.MkdirAll\<close> and \<^verbatim>\<open>os.OpenFile\<close>, of writing the bytes of
  a file, and of closing it.
\<close>

record scpOS =
  so_isDir :: "string \<Rightarrow> bool"
  so_MkdirAll :: "fsOp list \<Rightarrow> string \<Rightarrow> nat \<Rightarrow> go_error option"
  so_OpenFile :: "fsOp list \<Rightarrow> string \<Rightarrow> nat \<Rightarrow> go_error option"
  so_write :: "fsOp list \<Rightarrow> string \<Rightarrow> string \<Rightarrow> go_error option"
  so_Close :: "fsOp list \<Rightarrow> string \<Rightarrow> go_error option"

definition isDir :: "scpOS \<Rightarrow> string \<Rightarrow> bool" where
  "isDir os path = so_isDir os path"

text \<open>\<^verbatim>\<open>io.CopyN(file, reader, size)\<close> into the opened file.\<close>

definition copy_file :: "scpOS \<Rightarrow> scpIO \<Rightarrow> string \<Rightarrow> nat \<Rightarrow> int \<Rightarrow> scpIO \<times> go_error option" where
  "copy_file os io dest mode fsize =
     (let content = take (nat fsize) (io_in io);
          io1 = io_op (WriteFile dest mode content) (io\<lparr> io_in := drop (nat fsize) (io_in io) \<rparr>)
      in case so_write os (io_fs io) dest content of
           Some err \<Rightarrow> (io1, Some err)
         | None \<Rightarrow> if length (io_in io) < nat fsize then (io1, Some (io_end io)) else (io1, None))"

definition receiveSCPFile ::
  "(go_error \<Rightarrow> string) \<Rightarrow> scpOS \<Rightarrow> scpIO \<Rightarrow> string \<Rightarrow> nat \<Rightarrow> int \<Rightarrow> scpTimes option
     \<Rightarrow> scpIO \<times> go_error option" where
  "receiveSCPFile errorText os io dest mode fsize tms =
     io_then (writeSCPAck errorText io None) (\<lambda>io1.
       case so_OpenFile os (io_fs io1) dest mode of
         Some err \<Rightarrow> refuse errorText io1 err
       | None \<Rightarrow>
           (case copy_file os io1 dest mode fsize of
              (io2, Some copyErr) \<Rightarrow> refuse errorText io2 copyErr
            | (io2, None) \<Rightarrow>
                (case so_Close os (io_fs io2) dest of
                   Some closeErr \<Rightarrow> refuse errorText io2 closeErr
                 | None \<Rightarrow>
                     (case ReadByte io2 of
                        (io3, Inl err) \<Rightarrow> (io3, Some err)
                      | (io3, Inr status) \<Rightarrow>
                          if status \<noteq> CHR 0x00
                          then (io3, Some (Errorf ''invalid scp file terminator %d'' [format_nat (of_char status)]))
                          else writeSCPAck errorText
                                 (case tms of
                                    None \<Rightarrow> io3
                                  | Some t \<Rightarrow> io_op (Chtimes dest (st_atime t) (st_mtime t)) io3)
                                 None))))"

text \<open>
  What one iteration of the sink's loop ends in: the next iteration, with the
  connection, the directory stack and the pending times, or the return of the function.
\<close>

datatype sinkStep =
    SinkNext scpIO "string list" "scpTimes option"
  | SinkReturn "scpIO \<times> go_error option"

text \<open>\<^verbatim>\<open>if err := writeSCPAck(out, nil); err != nil { return err }\<close> at the end of a case.\<close>

definition sink_ack :: "(go_error \<Rightarrow> string) \<Rightarrow> scpIO \<Rightarrow> string list \<Rightarrow> scpTimes option \<Rightarrow> sinkStep" where
  "sink_ack errorText io dirs pending =
     (case writeSCPAck errorText io None of
        (io1, Some err) \<Rightarrow> SinkReturn (io1, Some err)
      | (io1, None) \<Rightarrow> SinkNext io1 dirs pending)"

definition sink_times ::
  "(go_error \<Rightarrow> string) \<Rightarrow> scpIO \<Rightarrow> string list \<Rightarrow> scpTimes option \<Rightarrow> string \<Rightarrow> sinkStep" where
  "sink_times errorText io dirs pending line =
     (case parseSCPTimes line of
        Inl err \<Rightarrow> SinkReturn (refuse errorText io err)
      | Inr tms \<Rightarrow> sink_ack errorText io dirs (Some tms))"

text \<open>The path of an entry: below the innermost directory, or the target itself.\<close>

definition sink_path :: "bool \<Rightarrow> string list \<Rightarrow> string \<Rightarrow> string" where
  "sink_path targetIsDir dirs name =
     (if targetIsDir \<or> length dirs > 1 then filepath_Join (last dirs) name else last dirs)"

definition sink_directory ::
  "(go_error \<Rightarrow> string) \<Rightarrow> scpOS \<Rightarrow> bool \<Rightarrow> scpIO \<Rightarrow> string list \<Rightarrow> scpTimes option \<Rightarrow> string \<Rightarrow> sinkStep" where
  "sink_directory errorText os targetIsDir io dirs pending line =
     (case parseSCPEntry line of
        Inl err \<Rightarrow> SinkReturn (refuse errorText io err)
      | Inr (mode, name) \<Rightarrow>
          (case cleanSCPName name of
             Inl err \<Rightarrow> SinkReturn (refuse errorText io err)
           | Inr name \<Rightarrow>
               let dir = sink_path targetIsDir dirs name
               in case so_MkdirAll os (io_fs io) dir mode of
                    Some err \<Rightarrow> SinkReturn (refuse errorText io err)
                  | None \<Rightarrow>
                      let io1 = io_op (MkdirAll dir mode) io;
                          io2 = (case pending of
                                   None \<Rightarrow> io1
                                 | Some t \<Rightarrow> io_op (Chtimes dir (st_atime t) (st_mtime t)) io1)
                      in sink_ack errorText io2 (dirs @ [dir]) None))"

definition sink_end ::
  "(go_error \<Rightarrow> string) \<Rightarrow> scpIO \<Rightarrow> string list \<Rightarrow> scpTimes option \<Rightarrow> sinkStep" where
  "sink_end errorText io dirs pending =
     sink_ack errorText io (if length dirs > 1 then butlast dirs else dirs) pending"

definition sink_file ::
  "(go_error \<Rightarrow> string) \<Rightarrow> scpOS \<Rightarrow> bool \<Rightarrow> scpIO \<Rightarrow> string list \<Rightarrow> scpTimes option \<Rightarrow> string \<Rightarrow> sinkStep" where
  "sink_file errorText os targetIsDir io dirs pending line =
     (case parseSCPFile line of
        Inl err \<Rightarrow> SinkReturn (refuse errorText io err)
      | Inr (mode, fsize, name) \<Rightarrow>
          (case cleanSCPName name of
             Inl err \<Rightarrow> SinkReturn (refuse errorText io err)
           | Inr name \<Rightarrow>
               (case receiveSCPFile errorText os io (sink_path targetIsDir dirs name) mode fsize pending of
                  (io1, Some err) \<Rightarrow> SinkReturn (io1, Some err)
                | (io1, None) \<Rightarrow> SinkNext io1 dirs None)))"

definition sink_command ::
  "(go_error \<Rightarrow> string) \<Rightarrow> scpOS \<Rightarrow> bool \<Rightarrow> scpIO \<Rightarrow> string list \<Rightarrow> scpTimes option \<Rightarrow> string \<Rightarrow> sinkStep" where
  "sink_command errorText os targetIsDir io dirs pending line =
     (case line of
        [] \<Rightarrow> SinkNext io dirs pending
      | c # _ \<Rightarrow>
          if c = CHR ''T'' then sink_times errorText io dirs pending line
          else if c = CHR ''D'' then sink_directory errorText os targetIsDir io dirs pending line
          else if c = CHR ''E'' then sink_end errorText io dirs pending
          else if c = CHR ''C'' then sink_file errorText os targetIsDir io dirs pending line
          else SinkReturn (refuse errorText io (Errorf ''unsupported scp command %q'' [line])))"

text \<open>Every command leaves at most the input it was given.\<close>

lemma out_Write_in [simp]: "io_in (fst (out_Write io bytes)) = io_in io"
  by (simp add: out_Write_def split: option.split)

lemma writeSCPAck_in [simp]: "io_in (fst (writeSCPAck eT io err)) = io_in io"
  by (simp add: writeSCPAck_def split: option.split)

lemma io_op_fields [simp]:
  "io_in (io_op a io) = io_in io" "io_end (io_op a io) = io_end io" "io_out (io_op a io) = io_out io"
  "io_writes (io_op a io) = io_writes io" "io_writeErr (io_op a io) = io_writeErr io"
  "io_fs (io_op a io) = io_fs io @ [a]"
  by (simp_all add: io_op_def)

lemma sink_ack_Next:
  "sink_ack eT io dirs pending = SinkNext io' dirs' pending' \<Longrightarrow>
     io' = fst (writeSCPAck eT io None) \<and> dirs' = dirs \<and> pending' = pending"
  by (auto simp: sink_ack_def split: prod.splits option.splits)

lemma refuse_in [simp]: "io_in (fst (refuse eT io err)) = io_in io"
  by (simp add: refuse_def)

lemma writeSCPAck_inD: "writeSCPAck eT io err = (io', e) \<Longrightarrow> io_in io' = io_in io"
  by (metis fst_conv writeSCPAck_in)

lemma copy_file_inD:
  "copy_file os io dest mode fsize = (io', e) \<Longrightarrow> length (io_in io') \<le> length (io_in io)"
  by (auto simp: copy_file_def Let_def split: option.splits if_splits)

lemma ReadByte_inD: "ReadByte io = (io', r) \<Longrightarrow> length (io_in io') \<le> length (io_in io)"
  by (auto simp: ReadByte_def split: list.splits)

lemma receiveSCPFile_in: "length (io_in (fst (receiveSCPFile eT os io dest mode fsize tms))) \<le> length (io_in io)"
  unfolding receiveSCPFile_def io_then_def
  by (auto dest!: writeSCPAck_inD copy_file_inD ReadByte_inD split: prod.splits option.splits sum.splits)

lemma receiveSCPFile_inD:
  "receiveSCPFile eT os io dest mode fsize tms = (io', e) \<Longrightarrow> length (io_in io') \<le> length (io_in io)"
  by (metis fst_conv receiveSCPFile_in)

lemma sink_command_in:
  assumes "sink_command eT os isd io dirs pending line = SinkNext io' dirs' pending'"
  shows "length (io_in io') \<le> length (io_in io)"
  using assms
  by (auto simp: sink_command_def sink_times_def sink_directory_def sink_end_def sink_file_def Let_def
      dest!: sink_ack_Next receiveSCPFile_inD
      split: list.splits if_splits sum.splits prod.splits option.splits)

lemma Cut_found_shorter: "Cut s c = (a, b, True) \<Longrightarrow> length b < length s"
  by (auto simp: Cut_found_iff)

lemma ReadString_in: "ReadString io = (io', line, None) \<Longrightarrow> length (io_in io') < length (io_in io)"
  by (auto simp: ReadString_def dest: Cut_found_shorter split: prod.splits if_splits)

function sink_loop ::
  "(go_error \<Rightarrow> string) \<Rightarrow> scpOS \<Rightarrow> bool \<Rightarrow> scpIO \<Rightarrow> string list \<Rightarrow> scpTimes option \<Rightarrow> scpIO \<times> go_error option"
where
  "sink_loop errorText os targetIsDir io dirs pending =
     (case ReadString io of
        (io1, line, Some err) \<Rightarrow> (io1, if err = IoEOF then None else Some err)
      | (io1, line, None) \<Rightarrow>
          (case sink_command errorText os targetIsDir io1 dirs pending (TrimSuffix line [CHR 0x0A]) of
             SinkReturn r \<Rightarrow> r
           | SinkNext io2 dirs' pending' \<Rightarrow> sink_loop errorText os targetIsDir io2 dirs' pending'))"
  by pat_completeness auto
termination
  by (relation "measure (\<lambda>(_, _, _, io, _, _). length (io_in io))")
    (auto dest!: ReadString_in [OF sym] sink_command_in)

declare sink_loop.simps [simp del]

definition runSCPSink :: "(go_error \<Rightarrow> string) \<Rightarrow> scpOS \<Rightarrow> scpOptions \<Rightarrow> scpIO \<Rightarrow> scpIO \<times> go_error option" where
  "runSCPSink errorText os opts io =
     io_then (writeSCPAck errorText io None) (\<lambda>io1.
       sink_loop errorText os (isDir os (scp_target opts)) io1 [scp_target opts] None)"

section \<open>The source\<close>

text \<open>
  A file as \<^verbatim>\<open>os.Stat\<close> and \<^verbatim>\<open>os.Open\<close> describe it: whether it is regular, its permission bits, size
  and modification time, and the error of opening it or the bytes read and the error of
  reading or closing it.  A directory has its permission bits, modification time,
  entries and the error of \<^verbatim>\<open>os.ReadDir\<close>; an entry whose \<^verbatim>\<open>Info\<close> fails has only the error.
\<close>

datatype fsNode =
    FsFile bool nat int int "(string \<times> go_error option) result"
  | FsDir nat int "(string \<times> fsNode) list" "go_error option"
  | FsNoInfo go_error

definition sendSCPTimes :: "scpIO \<Rightarrow> int \<Rightarrow> scpIO \<times> go_error option" where
  "sendSCPTimes io mtime =
     io_then (out_Write io (CHR ''T'' # FormatInt mtime @ '' 0 '' @ FormatInt mtime @ '' 0'' @ [CHR 0x0A]))
       readSCPResponse"

text \<open>\<^verbatim>\<open>io.Copy(out, file)\<close> writes nothing for an empty file.\<close>

definition copy_out :: "scpIO \<Rightarrow> string \<Rightarrow> scpIO \<times> go_error option" where
  "copy_out io content = (if content = [] then (io, None) else out_Write io content)"

definition sendSCPFile ::
  "(go_error \<Rightarrow> string) \<Rightarrow> scpIO \<Rightarrow> string \<Rightarrow> nat \<Rightarrow> int \<Rightarrow> int \<Rightarrow> (string \<times> go_error option) result \<Rightarrow> bool
     \<Rightarrow> scpIO \<times> go_error option" where
  "sendSCPFile errorText io path perm fsize mtime data preserve =
     io_then (if preserve then sendSCPTimes io mtime else (io, None)) (\<lambda>io1.
     io_then (out_Write io1
       (CHR ''C'' # octal04 perm @ '' '' @ FormatInt fsize @ '' '' @ path_Base path @ [CHR 0x0A])) (\<lambda>io2.
     io_then (readSCPResponse io2) (\<lambda>io3.
       case data of
         Inl err \<Rightarrow> refuse errorText io3 err
       | Inr (content, readErr) \<Rightarrow>
           io_then (copy_out io3 content) (\<lambda>io4.
             case readErr of
               Some err \<Rightarrow> (io4, Some err)
             | None \<Rightarrow> io_then (out_Write io4 [CHR 0x00]) readSCPResponse))))"

text \<open>\<open>sendSCPEntries\<close> is the loop over the entries of a directory.\<close>

fun sendSCPDir ::
  "(go_error \<Rightarrow> string) \<Rightarrow> scpIO \<Rightarrow> string \<Rightarrow> nat \<Rightarrow> int \<Rightarrow> (string \<times> fsNode) list \<Rightarrow> go_error option \<Rightarrow> bool
     \<Rightarrow> scpIO \<times> go_error option"
and sendSCPEntries ::
  "(go_error \<Rightarrow> string) \<Rightarrow> scpIO \<Rightarrow> string \<Rightarrow> (string \<times> fsNode) list \<Rightarrow> bool \<Rightarrow> scpIO \<times> go_error option"
where
  "sendSCPDir errorText io path perm mtime entries dirErr preserve =
     io_then (if preserve then sendSCPTimes io mtime else (io, None)) (\<lambda>io1.
     io_then (out_Write io1 (CHR ''D'' # octal04 perm @ '' 0 '' @ path_Base path @ [CHR 0x0A])) (\<lambda>io2.
     io_then (readSCPResponse io2) (\<lambda>io3.
       case dirErr of
         Some err \<Rightarrow> refuse errorText io3 err
       | None \<Rightarrow>
           io_then (sendSCPEntries errorText io3 path entries preserve) (\<lambda>io4.
           io_then (out_Write io4 (''E'' @ [CHR 0x0A])) readSCPResponse))))"
| "sendSCPEntries errorText io path [] preserve = (io, None)"
| "sendSCPEntries errorText io path ((name, FsNoInfo err) # entries) preserve = refuse errorText io err"
| "sendSCPEntries errorText io path ((name, FsDir perm mtime children dirErr) # entries) preserve =
     io_then (sendSCPDir errorText io (filepath_Join path name) perm mtime children dirErr preserve)
       (\<lambda>io1. sendSCPEntries errorText io1 path entries preserve)"
| "sendSCPEntries errorText io path ((name, FsFile regular perm fsize mtime data) # entries) preserve =
     io_then (if regular
              then sendSCPFile errorText io (filepath_Join path name) perm fsize mtime data preserve
              else (io, None))
       (\<lambda>io1. sendSCPEntries errorText io1 path entries preserve)"

declare sendSCPDir.simps [simp del]

definition runSCPSource ::
  "(go_error \<Rightarrow> string) \<Rightarrow> (string \<Rightarrow> fsNode) \<Rightarrow> scpOptions \<Rightarrow> scpIO \<Rightarrow> scpIO \<times> go_error option" where
  "runSCPSource errorText stat opts io =
     io_then (readSCPResponse io) (\<lambda>io1.
       case stat (scp_target opts) of
         FsNoInfo err \<Rightarrow> refuse errorText io1 err
       | FsDir perm mtime entries dirErr \<Rightarrow>
           if \<not> scp_recursive opts
           then refuse errorText io1 (Errorf ''%s: not a regular file'' [scp_target opts])
           else sendSCPDir errorText io1 (scp_target opts) perm mtime entries dirErr (scp_preserve opts)
       | FsFile regular perm fsize mtime data \<Rightarrow>
           sendSCPFile errorText io1 (scp_target opts) perm fsize mtime data (scp_preserve opts))"

definition RunSCP ::
  "(go_error \<Rightarrow> string) \<Rightarrow> scpOS \<Rightarrow> (string \<Rightarrow> fsNode) \<Rightarrow> string list \<Rightarrow> scpIO \<Rightarrow> scpIO \<times> go_error option" where
  "RunSCP errorText os stat args io =
     (case parseSCPOptions args of
        Inl err \<Rightarrow> (io, Some err)
      | Inr opts \<Rightarrow>
          if scp_sink opts then runSCPSink errorText os opts io
          else runSCPSource errorText stat opts io)"

end
