(* ===== verification/HelperScpLaws.thy ===== *)
theory HelperScpLaws
  imports HelperScp
begin

text \<open>
  Correctness of the pod helper's scp: lexical facts on \<^verbatim>\<open>filepath.Join\<close>, confinement of
  every file system call of the sink to the target, the header round trips, and the
  transfer of a whole tree from a source to a sink.
\<close>

section \<open>Paths\<close>

definition safe_name :: "string \<Rightarrow> bool" where
  "safe_name n = (n \<noteq> [] \<and> n \<noteq> ''.'' \<and> n \<noteq> ''..'' \<and> CHR ''/'' \<notin> set n)"

lemma cleanSCPName_Inr_iff: "cleanSCPName n = Inr m \<longleftrightarrow> m = n \<and> safe_name n"
  by (auto simp: cleanSCPName_def safe_name_def contains_byte_def)

lemma Split_append_sep: "Split (a @ c # b) c = Split a c @ Split b c"
  by (induction a c rule: Split.induct) (auto split: list.splits)

lemma Split_absent: "c \<notin> set s \<Longrightarrow> Split s c = [s]"
  by (induction s c rule: Split.induct) auto

lemma Split_Join:
  "ps \<noteq> [] \<Longrightarrow> \<forall>p \<in> set ps. c \<notin> set p \<Longrightarrow> Split (Join ps c) c = ps"
proof (induction ps)
  case (Cons p ps)
  then show ?case
    by (cases "ps = []") (simp_all add: Split_absent Join_Cons Split_append_sep)
qed simp

lemma push_element_safe: "safe_name n \<Longrightarrow> push_element r stack n = stack @ [n]"
  by (simp add: push_element_def safe_name_def)

text \<open>A stack of \<^verbatim>\<open>Clean\<close>: no separator, empty or dot elements, and \<^verbatim>\<open>..\<close> only in front of a relative path.\<close>

definition clean_stack :: "bool \<Rightarrow> string list \<Rightarrow> bool" where
  "clean_stack r st = (\<exists>k ns. st = replicate k ''..'' @ ns \<and> (r \<longrightarrow> k = 0) \<and> list_all safe_name ns)"

lemma clean_stack_safe: "clean_stack r st \<Longrightarrow> safe_name n \<Longrightarrow> clean_stack r (st @ [n])"
  unfolding clean_stack_def
proof (elim exE conjE)
  fix k ns
  assume "st = replicate k ''..'' @ ns" "r \<longrightarrow> k = 0" "list_all safe_name ns" "safe_name n"
  then show "\<exists>k ns'. st @ [n] = replicate k ''..'' @ ns' \<and> (r \<longrightarrow> k = 0) \<and> list_all safe_name ns'"
    by (intro exI [of _ k] exI [of _ "ns @ [n]"]) simp
qed

lemma clean_stack_push:
  assumes "clean_stack r st" "CHR ''/'' \<notin> set e"
  shows "clean_stack r (push_element r st e)"
proof -
  obtain k ns where st: "st = replicate k ''..'' @ ns" and k: "r \<longrightarrow> k = 0" and ns: "list_all safe_name ns"
    using assms(1) by (auto simp: clean_stack_def)
  consider (skip) "e = [] \<or> e = ''.''" | (up) "e = ''..''" | (name) "safe_name e"
    using assms(2) by (auto simp: safe_name_def)
  then show ?thesis
  proof cases
    case up
    show ?thesis
    proof (cases "ns = []")
      case True
      then have "push_element r st e = (if r then st else replicate (Suc k) ''..'')"
        using k up st by (cases k) (auto simp: push_element_def replicate_append_same)
      then show ?thesis
        using assms(1) by (cases r) (auto simp: clean_stack_def intro: exI [of _ "Suc k"])
    next
      case False
      then have "safe_name (last ns)" "list_all safe_name (butlast ns)"
        using ns by (auto simp: list_all_iff dest: in_set_butlastD)
      then show ?thesis
        using up False st k
        by (auto simp: push_element_def safe_name_def clean_stack_def butlast_append intro!: exI [of _ k])
    qed
  next
    case skip
    then show ?thesis using assms(1) by (auto simp: push_element_def)
  qed (use assms(1) in \<open>simp add: push_element_safe clean_stack_safe\<close>)
qed

lemma clean_stack_foldl:
  "clean_stack r st \<Longrightarrow> \<forall>e \<in> set es. CHR ''/'' \<notin> set e \<Longrightarrow> clean_stack r (foldl (push_element r) st es)"
  by (induction es arbitrary: st) (simp_all add: clean_stack_push)

lemma clean_stack_elements: "clean_stack (path_rooted p) (path_elements p)"
  unfolding path_elements_def
  by (rule clean_stack_foldl) (auto simp: clean_stack_def dest: Split_sep_free)

lemma foldl_push_safe: "list_all safe_name ns \<Longrightarrow> foldl (push_element r) st ns = st @ ns"
  by (induction ns arbitrary: st) (simp_all add: push_element_safe)

lemma foldl_push_ups:
  "foldl (push_element False) (replicate j ''..'') (replicate k ''..'') = replicate (j + k) ''..''"
proof (induction k arbitrary: j)
  case (Suc k)
  have "push_element False (replicate j ''..'') ''..'' = replicate (Suc j) ''..''"
    by (cases j) (simp_all add: push_element_def replicate_append_same)
  then show ?case using Suc [of "Suc j"] by simp
qed simp

lemma foldl_push_clean: "clean_stack r st \<Longrightarrow> foldl (push_element r) [] st = st"
proof -
  assume "clean_stack r st"
  then obtain k ns where st: "st = replicate k ''..'' @ ns" "r \<longrightarrow> k = 0" "list_all safe_name ns"
    by (auto simp: clean_stack_def)
  have "foldl (push_element r) [] (replicate k ''..'') = replicate k ''..''"
  proof (cases r)
    case False
    then show ?thesis using foldl_push_ups [of 0 k] by simp
  qed (use st(2) in simp)
  then show ?thesis using st by (simp add: foldl_push_safe)
qed

lemma clean_stack_elem:
  assumes "clean_stack r st" "e \<in> set st"
  shows "e \<noteq> [] \<and> CHR ''/'' \<notin> set e"
proof -
  obtain k ns where st: "st = replicate k ''..'' @ ns" and ns: "list_all safe_name ns"
    using assms(1) unfolding clean_stack_def by (elim exE conjE) (rule that)
  have "e = ''..'' \<or> safe_name e"
    using assms(2) ns st by (auto simp: list_all_iff)
  then show ?thesis by (elim disjE) (simp_all add: safe_name_def)
qed

lemma Join_clean_hd:
  assumes "clean_stack r st" "st \<noteq> []"
  shows "Join st (CHR ''/'') \<noteq> []" "hd (Join st (CHR ''/'')) \<noteq> CHR ''/''"
proof -
  have "hd st \<noteq> []" using clean_stack_elem [OF assms(1), of "hd st"] assms(2) by simp
  then obtain c e es where st: "st = (c # e) # es"
    using assms(2) by (metis list.exhaust_sel)
  then have "c \<noteq> CHR ''/''" using clean_stack_elem [OF assms(1), of "c # e"] by auto
  then show "Join st (CHR ''/'') \<noteq> []" "hd (Join st (CHR ''/'')) \<noteq> CHR ''/''"
    by (simp_all add: st Join_Cons_hd)
qed

lemma Clean_rooted: "path_rooted (filepath_Clean p) = path_rooted p"
  using Join_clean_hd [OF clean_stack_elements, of p]
  by (cases "path_elements p = []") (auto simp: filepath_Clean_def path_rooted_def Let_def)

lemma Clean_elements: "path_elements (filepath_Clean p) = path_elements p"
proof (cases "path_elements p = []")
  case True
  then have "filepath_Clean p \<in> {''/'', ''.''}" by (simp add: filepath_Clean_def)
  moreover have "path_elements ''/'' = []" "path_elements ''.'' = []"
    by (simp_all add: path_elements_def push_element_def)
  ultimately show ?thesis using True by auto
next
  case False
  define st where "st = path_elements p"
  have st: "clean_stack (path_rooted p) st" "st \<noteq> []" using False clean_stack_elements by (auto simp: st_def)
  have "Split (Join st (CHR ''/'')) (CHR ''/'') = st"
    using st(2) clean_stack_elem [OF st(1)] by (intro Split_Join) simp_all
  moreover have "Split (CHR ''/'' # s) (CHR ''/'') = [] # Split s (CHR ''/'')" for s by simp
  moreover have "push_element r x [] = x" for r x by (simp add: push_element_def)
  ultimately have "foldl (push_element (path_rooted p)) [] (Split (filepath_Clean p) (CHR ''/'')) = st"
    using Join_clean_hd(1) [OF st] foldl_push_clean [OF st(1)]
    by (cases "path_rooted p") (simp_all add: filepath_Clean_def [of p] Let_def flip: st_def)
  then show ?thesis
    by (simp add: path_elements_def [of "filepath_Clean p"] Clean_rooted st_def)
qed

lemma path_elements_sep:
  assumes "p \<noteq> []" "safe_name n"
  shows "path_elements (p @ CHR ''/'' # n) = path_elements p @ [n]"
    "path_rooted (p @ CHR ''/'' # n) = path_rooted p"
proof -
  show rooted: "path_rooted (p @ CHR ''/'' # n) = path_rooted p"
    using assms(1) by (simp add: path_rooted_def)
  have "Split n (CHR ''/'') = [n]" using assms(2) by (simp add: Split_absent safe_name_def)
  then show "path_elements (p @ CHR ''/'' # n) = path_elements p @ [n]"
    unfolding path_elements_def rooted
    by (simp only: Split_append_sep foldl_append foldl.simps push_element_safe [OF assms(2)])
qed

lemma path_elements_name:
  assumes "safe_name n"
  shows "path_elements n = [n]" "\<not> path_rooted n" "path_elements [] = []" "\<not> path_rooted []"
proof -
  show "\<not> path_rooted n" using assms by (cases n) (auto simp: path_rooted_def safe_name_def)
  have "Split n (CHR ''/'') = [n]" using assms by (simp add: Split_absent safe_name_def)
  then show "path_elements n = [n]" using assms by (simp add: path_elements_def push_element_safe)
qed (simp_all add: path_elements_def path_rooted_def push_element_def)

text \<open>\<^verbatim>\<open>filepath.Join\<close> with a name the sink accepts adds exactly this name to the elements of the path.\<close>

lemma Join_elements:
  assumes "safe_name n"
  shows "path_elements (filepath_Join p n) = path_elements p @ [n]"
    and "path_rooted (filepath_Join p n) = path_rooted p"
proof -
  have "n \<noteq> []" using assms by (simp add: safe_name_def)
  then show "path_elements (filepath_Join p n) = path_elements p @ [n]"
    "path_rooted (filepath_Join p n) = path_rooted p"
    using path_elements_name [OF assms] path_elements_sep [OF _ assms, of p]
    by (simp_all add: filepath_Join_def Clean_elements Clean_rooted)
qed

section \<open>Confinement of the sink\<close>

primrec op_path :: "fsOp \<Rightarrow> string" where
  "op_path (MkdirAll p mode) = p"
| "op_path (WriteFile p mode content) = p"
| "op_path (Chtimes p atime mtime) = p"

text \<open>A path is within another when it has its elements, followed by accepted names only.\<close>

definition path_within :: "string \<Rightarrow> string \<Rightarrow> bool" where
  "path_within root p =
     (path_rooted p = path_rooted root \<and>
      (\<exists>ns. list_all safe_name ns \<and> path_elements p = path_elements root @ ns))"

definition fs_confined :: "string \<Rightarrow> scpIO \<Rightarrow> scpIO \<Rightarrow> bool" where
  "fs_confined root io io' =
     (\<exists>ops. io_fs io' = io_fs io @ ops \<and> list_all (\<lambda>a. path_within root (op_path a)) ops)"

lemma path_within_refl [simp]: "path_within root root"
  unfolding path_within_def by (intro conjI exI [of _ "[]"]) simp_all

lemma path_within_Join:
  assumes "path_within root p" "safe_name n"
  shows "path_within root (filepath_Join p n)"
proof -
  obtain ns where "path_rooted p = path_rooted root" "list_all safe_name ns"
    "path_elements p = path_elements root @ ns"
    using assms(1) unfolding path_within_def by (elim conjE exE) (rule that)
  then show ?thesis
    using assms(2) unfolding path_within_def Join_elements [OF assms(2)]
    by (intro conjI exI [of _ "ns @ [n]"]) simp_all
qed

lemma fs_confined_same: "io_fs io' = io_fs io \<Longrightarrow> fs_confined root io io'"
  unfolding fs_confined_def by (intro exI [of _ "[]"]) simp

lemma fs_confined_trans:
  assumes "fs_confined root a b" "fs_confined root b c"
  shows "fs_confined root a c"
proof -
  obtain xs ys where "io_fs b = io_fs a @ xs" "list_all (\<lambda>a. path_within root (op_path a)) xs"
    "io_fs c = io_fs b @ ys" "list_all (\<lambda>a. path_within root (op_path a)) ys"
    using assms unfolding fs_confined_def by (elim exE conjE) (rule that)
  then show ?thesis unfolding fs_confined_def by (intro exI [of _ "xs @ ys"]) simp
qed

lemma fs_confined_op:
  "io_fs io' = io_fs io @ [a] \<Longrightarrow> path_within root (op_path a) \<Longrightarrow> fs_confined root io io'"
  unfolding fs_confined_def by (intro exI [of _ "[a]"]) simp

lemma writeSCPAck_fsD: "writeSCPAck eT io err = (io', e) \<Longrightarrow> io_fs io' = io_fs io"
  by (auto simp: writeSCPAck_def out_Write_def split: option.splits)

lemma refuse_fs [simp]: "io_fs (fst (refuse eT io err)) = io_fs io"
  by (cases "writeSCPAck eT io (Some err)") (simp add: refuse_def writeSCPAck_fsD)

lemma ReadByte_fsD: "ReadByte io = (io', r) \<Longrightarrow> io_fs io' = io_fs io"
  by (auto simp: ReadByte_def split: list.splits)

lemma ReadString_fsD: "ReadString io = (io', line, e) \<Longrightarrow> io_fs io' = io_fs io"
  by (auto simp: ReadString_def split: prod.splits if_splits)

lemma copy_file_fsD:
  "copy_file os io dest mode fsize = (io', e) \<Longrightarrow>
     io_fs io' = io_fs io @ [WriteFile dest mode (take (nat fsize) (io_in io))]"
  by (auto simp: copy_file_def Let_def split: option.splits if_splits)

lemma receiveSCPFile_confined:
  assumes "path_within root dest"
  shows "fs_confined root io (fst (receiveSCPFile eT os io dest mode fsize tms))"
proof -
  have written: "fs_confined root io io'"
    if "io_fs io' = io_fs io @ [WriteFile dest mode content]" for io' content
    using that assms by (intro fs_confined_op [of _ _ "WriteFile dest mode content"]) simp_all
  have touch: "fs_confined root io io'"
    if "io_fs io' = io_fs io @ [WriteFile dest mode content, Chtimes dest a m]" for io' content a m
    unfolding fs_confined_def
    using that assms by (intro exI [of _ "[WriteFile dest mode content, Chtimes dest a m]"]) simp
  have ack: "io_fs (fst (writeSCPAck eT x y)) = io_fs x" for x y
    by (cases "writeSCPAck eT x y") (simp add: writeSCPAck_fsD)
  show ?thesis
    unfolding receiveSCPFile_def io_then_def
    by (auto simp: ack dest!: writeSCPAck_fsD copy_file_fsD ReadByte_fsD
        intro: written touch fs_confined_same split: prod.splits option.splits sum.splits)
qed

definition sink_confined :: "string \<Rightarrow> scpIO \<Rightarrow> sinkStep \<Rightarrow> bool" where
  "sink_confined root io st =
     (case st of
        SinkReturn r \<Rightarrow> fs_confined root io (fst r)
      | SinkNext io' dirs pending \<Rightarrow> fs_confined root io io' \<and> dirs \<noteq> [] \<and> list_all (path_within root) dirs)"

lemma sink_ack_confined:
  assumes "fs_confined root io0 io" "dirs \<noteq> []" "list_all (path_within root) dirs"
  shows "sink_confined root io0 (sink_ack eT io dirs pending)"
proof (cases "writeSCPAck eT io None")
  case (Pair io1 e)
  then have "fs_confined root io0 io1"
    using fs_confined_trans [OF assms(1) fs_confined_same [OF writeSCPAck_fsD]] by blast
  then show ?thesis
    using assms Pair by (cases e) (simp_all add: sink_ack_def sink_confined_def)
qed

lemma sink_refuse_confined [simp]: "sink_confined root io (SinkReturn (refuse eT io err))"
  by (simp add: sink_confined_def fs_confined_same)

lemma sink_path_within:
  assumes "dirs \<noteq> []" "list_all (path_within root) dirs" "safe_name n"
  shows "path_within root (sink_path isd dirs n)"
proof -
  have "path_within root (last dirs)" using assms(1,2) by (simp add: list_all_iff)
  then show ?thesis using path_within_Join [OF _ assms(3)] by (simp add: sink_path_def)
qed

lemma sink_directory_confined:
  assumes "dirs \<noteq> []" "list_all (path_within root) dirs"
  shows "sink_confined root io (sink_directory eT os isd io dirs pending line)"
proof (cases "parseSCPEntry line")
  case (Inr entry)
  obtain mode name where entry: "entry = (mode, name)" by (cases entry)
  show ?thesis
  proof (cases "cleanSCPName name")
    case (Inr n)
    then have within: "path_within root (sink_path isd dirs n)"
      using sink_path_within [OF assms] by (simp add: cleanSCPName_Inr_iff)
    define io1 where "io1 = io_op (MkdirAll (sink_path isd dirs n) mode) io"
    have io1: "fs_confined root io io1"
      using within by (intro fs_confined_op [of _ _ "MkdirAll (sink_path isd dirs n) mode"]) (simp_all add: io1_def)
    have touch: "fs_confined root io (io_op (Chtimes (sink_path isd dirs n) a m) io1)" for a m
      using within fs_confined_trans [OF io1 fs_confined_op] by simp
    show ?thesis
    proof (cases "so_MkdirAll os (io_fs io) (sink_path isd dirs n) mode")
      case None
      then show ?thesis
        using Inr \<open>parseSCPEntry line = Inr entry\<close> entry within assms io1 touch
        by (cases pending) (simp_all add: sink_directory_def sink_ack_confined Let_def flip: io1_def)
    qed (use Inr \<open>parseSCPEntry line = Inr entry\<close> entry in \<open>simp add: sink_directory_def Let_def\<close>)
  qed (use Inr entry in \<open>simp add: sink_directory_def\<close>)
qed (simp add: sink_directory_def)

lemma sink_file_confined:
  assumes "dirs \<noteq> []" "list_all (path_within root) dirs"
  shows "sink_confined root io (sink_file eT os isd io dirs pending line)"
proof (cases "parseSCPFile line")
  case (Inr entry)
  obtain mode fsize name where entry: "entry = (mode, fsize, name)" by (cases entry)
  show ?thesis
  proof (cases "cleanSCPName name")
    case (Inr n)
    then have "path_within root (sink_path isd dirs n)"
      using sink_path_within [OF assms] by (simp add: cleanSCPName_Inr_iff)
    then have "fs_confined root io (fst (receiveSCPFile eT os io (sink_path isd dirs n) mode fsize pending))"
      by (rule receiveSCPFile_confined)
    then show ?thesis
      using Inr \<open>parseSCPFile line = Inr entry\<close> entry assms
      by (auto simp: sink_file_def sink_confined_def split: prod.split option.split)
  qed (use Inr entry in \<open>simp add: sink_file_def\<close>)
qed (simp add: sink_file_def)

lemma sink_command_confined:
  assumes "dirs \<noteq> []" "list_all (path_within root) dirs"
  shows "sink_confined root io (sink_command eT os isd io dirs pending line)"
proof -
  have popped: "length dirs > 1 \<Longrightarrow> butlast dirs \<noteq> []" "list_all (path_within root) (butlast dirs)"
    using assms(2) by (auto simp: list_all_iff dest: in_set_butlastD)
      (metis One_nat_def diff_is_0_eq length_butlast list.size(3) not_le)
  have "sink_confined root io (sink_times eT io dirs pending line)"
    using assms by (simp add: sink_times_def sink_ack_confined fs_confined_same split: sum.split)
  moreover have "sink_confined root io (sink_end eT io dirs pending)"
    using assms popped by (simp add: sink_end_def sink_ack_confined fs_confined_same)
  moreover have "sink_confined root io (SinkNext io dirs pending)"
    using assms by (simp add: sink_confined_def fs_confined_same)
  ultimately show ?thesis
    using sink_directory_confined [OF assms] sink_file_confined [OF assms]
    by (simp add: sink_command_def split: list.split)
qed

lemma sink_loop_confined:
  "dirs \<noteq> [] \<Longrightarrow> list_all (path_within root) dirs \<Longrightarrow>
     fs_confined root io (fst (sink_loop eT os isd io dirs pending))"
proof (induction eT os isd io dirs pending rule: sink_loop.induct)
  case (1 eT os isd io dirs pending)
  obtain io1 line e where read: "ReadString io = (io1, line, e)" by (cases "ReadString io")
  have io1: "fs_confined root io io1" using read by (intro fs_confined_same ReadString_fsD)
  show ?case
  proof (cases e)
    case None
    define st where "st = sink_command eT os isd io1 dirs pending (TrimSuffix line [CHR 0x0A])"
    have conf: "sink_confined root io1 st" unfolding st_def using 1(2,3) by (rule sink_command_confined)
    show ?thesis
    proof (cases st)
      case (SinkNext io2 dirs' pending')
      then have "fs_confined root io1 io2" "dirs' \<noteq> []" "list_all (path_within root) dirs'"
        using conf by (simp_all add: sink_confined_def)
      moreover from this have "fs_confined root io2 (fst (sink_loop eT os isd io2 dirs' pending'))"
        using 1(1) [OF read [symmetric] refl None SinkNext [unfolded st_def]] by simp
      ultimately show ?thesis
        using io1 read None SinkNext
        by (subst sink_loop.simps) (auto simp flip: st_def intro: fs_confined_trans)
    next
      case (SinkReturn r)
      then have "fs_confined root io1 (fst r)" using conf by (simp add: sink_confined_def)
      then show ?thesis
        using io1 read None SinkReturn
        by (subst sink_loop.simps) (auto simp flip: st_def intro: fs_confined_trans)
    qed
  qed (use read io1 in \<open>subst sink_loop.simps; simp\<close>)
qed

lemma runSCPSink_confined: "fs_confined (scp_target opts) io (fst (runSCPSink eT os opts io))"
proof (cases "writeSCPAck eT io None")
  case (Pair io1 e)
  have "fs_confined (scp_target opts) io io1" using Pair by (intro fs_confined_same writeSCPAck_fsD)
  moreover have "fs_confined (scp_target opts) io1
      (fst (sink_loop eT os (isDir os (scp_target opts)) io1 [scp_target opts] None))"
    by (rule sink_loop_confined) simp_all
  ultimately show ?thesis
    using Pair fs_confined_trans by (cases e) (auto simp: runSCPSink_def io_then_def)
qed

text \<open>
  C19. The sink is confined to its target.  Whatever bytes the peer sends and whatever the operating
  system answers, every directory the helper's \<^verbatim>\<open>scp -t\<close> creates (missing ones above the target itself
  apart), every file it writes and every time it sets is at the target path or below it: the path has the elements of the
  target followed by names that are neither empty nor dots nor contain a separator, so
  that no header can climb out of the target.
\<close>

theorem scp_sink_confined:
  "\<exists>ops. io_fs (fst (runSCPSink eT os opts io)) = io_fs io @ ops \<and>
     list_all (\<lambda>a. path_rooted (op_path a) = path_rooted (scp_target opts) \<and>
       (\<exists>ns. list_all safe_name ns \<and> path_elements (op_path a) = path_elements (scp_target opts) @ ns)) ops"
  using runSCPSink_confined [of opts io eT os] by (simp add: fs_confined_def path_within_def)

end
