(* ===== verification/HelperScpTransfer.thy ===== *)
theory HelperScpTransfer
  imports HelperScpLaws
begin

text \<open>
  Transfer of a whole tree by the pod helper's scp: what the source writes, the sink
  reads back.  The headers the source prints are the ones the sink's parsers accept, the
  sink's acknowledgements are the responses the source waits for, and the file system
  calls of the sink rebuild the source's tree.
\<close>

section \<open>Header round trips\<close>

lemma parse_octal_append:
  "parse_octal acc (a @ b) = (case parse_octal acc a of None \<Rightarrow> None | Some n \<Rightarrow> parse_octal n b)"
  by (induction a arbitrary: acc) (auto split: option.split)

lemma parse_octal_zeros: "parse_octal 0 (replicate k (CHR ''0'') @ s) = parse_octal 0 s"
proof (induction k)
  case (Suc k)
  have "char_digit (CHR ''0'') = Some 0" by code_simp
  then show ?case using Suc by simp
qed simp

lemma parse_octal_format: "parse_octal 0 (format_octal n) = Some n"
proof (induction n rule: format_octal.induct)
  case (1 n)
  show ?case
  proof (cases "n < 8")
    case True
    then show ?thesis by (subst format_octal.simps) simp
  next
    case False
    then show ?thesis using 1 by (subst format_octal.simps) (simp add: parse_octal_append)
  qed
qed

lemma format_octal_not_Nil [simp]: "format_octal n \<noteq> []"
  by (subst format_octal.simps) simp

lemma ParseUint_octal04: "n < 2 ^ 32 \<Longrightarrow> ParseUint8_32 (octal04 n) = Some n"
  by (simp add: ParseUint8_32_def octal04_def parse_octal_zeros parse_octal_format)

lemma length_octal04: "4 \<le> length (octal04 n)"
  by (simp add: octal04_def)

lemma format_octal_digits: "c \<in> set (format_octal n) \<Longrightarrow> \<exists>d<10. c = digit_char d"
proof (induction n rule: format_octal.induct)
  case (1 n)
  show ?case
  proof (cases "n < 8")
    case True
    then have "c = digit_char n" using 1(2) by (subst (asm) format_octal.simps) simp
    then show ?thesis using True by (intro exI [of _ n]) simp
  next
    case False
    then have "c \<in> set (format_octal (n div 8)) \<or> c = digit_char (n mod 8)"
      using 1(2) by (subst (asm) format_octal.simps) auto
    moreover have "n mod 8 < 10" using mod_less_divisor [of 8 n] by linarith
    ultimately show ?thesis using 1(1) [OF False] by blast
  qed
qed

text \<open>Digits are neither separators nor line ends.\<close>

lemma octal04_no_sep:
  assumes "char_digit c = None"
  shows "c \<notin> set (octal04 n)"
proof
  assume "c \<in> set (octal04 n)"
  then have "c = CHR ''0'' \<or> (\<exists>d<10. c = digit_char d)"
    using format_octal_digits by (auto simp: octal04_def)
  moreover have "char_digit (CHR ''0'') = Some 0" by code_simp
  ultimately show False using assms by auto
qed

lemma FormatInt_no_sep:
  assumes "char_digit c = None" "c \<noteq> CHR ''-''"
  shows "c \<notin> set (FormatInt i)"
  using assms by (simp add: FormatInt_def format_nat_no_sep)

lemma SplitN3_words:
  "c \<notin> set a \<Longrightarrow> c \<notin> set b \<Longrightarrow> SplitN3 (a @ c # b @ c # d) c = [a, b, d]"
  by (simp add: SplitN3_def)

lemma digit_separators:
  "char_digit (CHR '' '') = None" "char_digit (CHR 0x0A) = None"
  by code_simp+

text \<open>The line of a file or directory header.\<close>

definition file_header :: "nat \<Rightarrow> int \<Rightarrow> string \<Rightarrow> string" where
  "file_header perm fsize name = CHR ''C'' # octal04 perm @ '' '' @ FormatInt fsize @ '' '' @ name"

definition dir_header :: "nat \<Rightarrow> string \<Rightarrow> string" where
  "dir_header perm name = CHR ''D'' # octal04 perm @ '' 0 '' @ name"

lemma parseSCPFile_header:
  assumes "perm < 2 ^ 32" "0 \<le> fsize" "fits64 fsize"
  shows "parseSCPFile (file_header perm fsize name) = Inr (perm, fsize, name)"
proof -
  have "SplitN3 ((CHR ''C'' # octal04 perm) @ CHR '' '' # FormatInt fsize @ CHR '' '' # name) (CHR '' '') =
      [CHR ''C'' # octal04 perm, FormatInt fsize, name]"
    by (rule SplitN3_words) (simp_all add: octal04_no_sep FormatInt_no_sep digit_separators)
  then show ?thesis
    using assms length_octal04 [of perm]
    by (simp add: parseSCPFile_def file_header_def ParseUint_octal04)
qed

lemma parseSCPEntry_header:
  assumes "perm < 2 ^ 32"
  shows "parseSCPEntry (dir_header perm name) = Inr (perm, name)"
proof -
  have "SplitN3 ((CHR ''D'' # octal04 perm) @ CHR '' '' # ''0'' @ CHR '' '' # name) (CHR '' '') =
      [CHR ''D'' # octal04 perm, ''0'', name]"
    by (rule SplitN3_words) (simp_all add: octal04_no_sep digit_separators)
  then show ?thesis
    using assms length_octal04 [of perm]
    by (simp add: parseSCPEntry_def dir_header_def ParseUint_octal04)
qed

lemma header_no_newline:
  assumes "CHR 0x0A \<notin> set name"
  shows "CHR 0x0A \<notin> set (file_header perm fsize name)" "CHR 0x0A \<notin> set (dir_header perm name)"
  using assms octal04_no_sep [OF digit_separators(2), of perm] FormatInt_no_sep [OF digit_separators(2), of fsize]
  by (simp_all add: file_header_def dir_header_def)

text \<open>The name of a joined path is its last element.\<close>

lemma path_Base_sep:
  assumes "safe_name n"
  shows "path_Base (a @ CHR ''/'' # n) = n" "path_Base n = n"
proof -
  have n: "n \<noteq> []" "CHR ''/'' \<notin> set n" using assms by (simp_all add: safe_name_def)
  have strip: "rev (dropWhile (\<lambda>c. c = CHR ''/'') (rev (x @ n))) = x @ n" for x
  proof -
    obtain m c where "n = m @ [c]" using n(1) by (metis rev_exhaust)
    then show ?thesis using n(2) by auto
  qed
  show "path_Base (a @ CHR ''/'' # n) = n"
    using strip [of "a @ [CHR ''/'']"] n by (simp add: path_Base_def)
  show "path_Base n = n"
    using strip [of "[]"] n by (simp add: path_Base_def Let_def LastIndexByte_None_iff [THEN iffD2])
qed

lemma Join_snoc: "Join (es @ [e]) c = (if es = [] then e else Join es c @ c # e)"
  by (induction es) (auto simp: Join_Cons)

lemma path_Base_Clean:
  assumes "path_elements p = es @ [n]" "safe_name n"
  shows "path_Base (filepath_Clean p) = n"
proof -
  have "n \<noteq> []" using assms(2) by (simp add: safe_name_def)
  then have "filepath_Clean p = n \<or> (\<exists>a. filepath_Clean p = a @ CHR ''/'' # n)"
    by (auto simp: filepath_Clean_def assms(1) Join_snoc Let_def intro: exI [of _ "[]"])
  then show ?thesis using path_Base_sep [OF assms(2)] by auto
qed

lemma path_Base_Join:
  assumes "safe_name n"
  shows "path_Base (filepath_Join p n) = n"
proof (cases "p = []")
  case True
  then show ?thesis
    using path_Base_Clean [of n "[]"] path_elements_name(1) [OF assms] assms
    by (simp add: filepath_Join_def safe_name_def)
next
  case False
  then show ?thesis
    using path_Base_Clean [OF path_elements_sep(1) [OF False assms] assms] by (simp add: filepath_Join_def)
qed

section \<open>Trees\<close>

text \<open>
  The entries of a directory that a transfer reproduces: every regular file is read
  in full, its size is the number of its bytes, modes are permission bits and names fit on a
  header line.  Entries that are not regular files are skipped by the source.
\<close>

definition line_name :: "string \<Rightarrow> bool" where
  "line_name n = (safe_name n \<and> CHR 0x0A \<notin> set n)"

definition whole_file :: "nat \<Rightarrow> int \<Rightarrow> (string \<times> go_error option) result \<Rightarrow> bool" where
  "whole_file perm fsize data =
     (case data of
        Inr (content, None) \<Rightarrow> perm < 512 \<and> fsize = int (length content) \<and> fits64 fsize
      | _ \<Rightarrow> False)"

definition file_content :: "(string \<times> go_error option) result \<Rightarrow> string" where
  "file_content data = (case data of Inr (content, _) \<Rightarrow> content | Inl _ \<Rightarrow> [])"

fun entries_ok :: "(string \<times> fsNode) list \<Rightarrow> bool" where
  "entries_ok [] = True"
| "entries_ok ((n, FsNoInfo err) # es) = False"
| "entries_ok ((n, FsDir perm mtime children dirErr) # es) =
     (line_name n \<and> perm < 512 \<and> dirErr = None \<and> entries_ok children \<and> entries_ok es)"
| "entries_ok ((n, FsFile regular perm fsize mtime data) # es) =
     ((regular \<longrightarrow> line_name n \<and> whole_file perm fsize data) \<and> entries_ok es)"

text \<open>The bytes a source writes for a file or for the entries of a directory.\<close>

definition file_stream :: "string \<Rightarrow> nat \<Rightarrow> int \<Rightarrow> (string \<times> go_error option) result \<Rightarrow> string" where
  "file_stream n perm fsize data = file_header perm fsize n @ CHR 0x0A # file_content data @ [CHR 0x00]"

fun entries_stream :: "(string \<times> fsNode) list \<Rightarrow> string" where
  "entries_stream [] = []"
| "entries_stream ((n, FsNoInfo err) # es) = entries_stream es"
| "entries_stream ((n, FsDir perm mtime children dirErr) # es) =
     dir_header perm n @ CHR 0x0A # entries_stream children @ CHR ''E'' # CHR 0x0A # entries_stream es"
| "entries_stream ((n, FsFile regular perm fsize mtime data) # es) =
     (if regular then file_stream n perm fsize data else []) @ entries_stream es"

text \<open>The number of acknowledgements they take.\<close>

fun entries_acks :: "(string \<times> fsNode) list \<Rightarrow> nat" where
  "entries_acks [] = 0"
| "entries_acks ((n, FsNoInfo err) # es) = entries_acks es"
| "entries_acks ((n, FsDir perm mtime children dirErr) # es) =
     Suc (entries_acks children + Suc (entries_acks es))"
| "entries_acks ((n, FsFile regular perm fsize mtime data) # es) = (if regular then 2 else 0) + entries_acks es"

text \<open>The file system calls that rebuild the entries below a path.\<close>

fun entries_ops :: "string \<Rightarrow> (string \<times> fsNode) list \<Rightarrow> fsOp list" where
  "entries_ops p [] = []"
| "entries_ops p ((n, FsNoInfo err) # es) = entries_ops p es"
| "entries_ops p ((n, FsDir perm mtime children dirErr) # es) =
     MkdirAll (filepath_Join p n) perm # entries_ops (filepath_Join p n) children @ entries_ops p es"
| "entries_ops p ((n, FsFile regular perm fsize mtime data) # es) =
     (if regular then [WriteFile (filepath_Join p n) perm (file_content data)] else []) @ entries_ops p es"

section \<open>The source's side\<close>

definition reliable :: "scpIO \<Rightarrow> bool" where
  "reliable io = (io_writeErr io = (\<lambda>_. None))"

abbreviation acks :: "nat \<Rightarrow> string" where
  "acks k \<equiv> replicate k (CHR 0x00)"

text \<open>A connection after \<open>w\<close> writes, the output \<open>bytes\<close> more and the input \<open>rest\<close> left.\<close>

definition moved :: "scpIO \<Rightarrow> string \<Rightarrow> string \<Rightarrow> nat \<Rightarrow> scpIO" where
  "moved io bytes rest w = io\<lparr> io_in := rest, io_out := io_out io @ bytes, io_writes := w \<rparr>"

lemma moved_simps [simp]:
  "reliable (moved io b r w) = reliable io" "io_in (moved io b r w) = r"
  "moved (moved io b r w) b' r' w' = moved io (b @ b') r' w'"
  "io_fs (moved io b r w) = io_fs io" "io_end (moved io b r w) = io_end io"
  "io_out (moved io b r w) = io_out io @ b"
  by (simp_all add: moved_def reliable_def)

lemma moved_refl: "io = moved io [] (io_in io) (io_writes io)"
  by (simp add: moved_def)

lemma out_Write_reliable:
  "reliable io \<Longrightarrow> out_Write io b = (moved io b (io_in io) (Suc (io_writes io)), None)"
  by (simp add: out_Write_def reliable_def moved_def)

lemma readSCPResponse_ok:
  "io_in io = CHR 0x00 # rest \<Longrightarrow> readSCPResponse io = (moved io [] rest (io_writes io), None)"
  by (simp add: readSCPResponse_def ReadByte_def moved_def)

lemma io_then_ok [simp]: "io_then (io, None) k = k io" "io_then (io, Some e) k = (io, Some e)"
  by (simp_all add: io_then_def)

lemma copy_out_reliable:
  assumes "reliable io"
  shows "\<exists>w. copy_out io b = (moved io b (io_in io) w, None)"
  using assms moved_refl [of io] by (cases "b = []") (auto simp: copy_out_def out_Write_reliable)

text \<open>One exchange: a message, and the acknowledgement of the peer.\<close>

lemma exchange:
  assumes "reliable io" "io_in io = CHR 0x00 # rest"
  shows "io_then (out_Write io b) (\<lambda>io1. io_then (readSCPResponse io1) k) = k (moved io b rest (Suc (io_writes io)))"
    and "io_then (out_Write io b) readSCPResponse = (moved io b rest (Suc (io_writes io)), None)"
  using assms
  by (simp_all add: out_Write_reliable readSCPResponse_ok) (simp_all add: moved_def)

lemma sendSCPFile_stream:
  assumes "reliable io" "io_in io = acks 2 @ rest" "whole_file perm fsize data"
  shows "\<exists>w. sendSCPFile eT io path perm fsize mtime data False =
    (moved io (file_stream (path_Base path) perm fsize data) rest w, None)"
proof -
  obtain content where data: "data = Inr (content, None)"
    using assms(3) by (auto simp: whole_file_def split: sum.splits option.splits)
  define header where "header = file_header perm fsize (path_Base path) @ [CHR 0x0A]"
  define io3 where "io3 = moved io header (CHR 0x00 # rest) (Suc (io_writes io))"
  have io3: "reliable io3" "io_in io3 = CHR 0x00 # rest" using assms(1) by (simp_all add: io3_def)
  obtain w where copied: "copy_out io3 content = (moved io3 content (io_in io3) w, None)"
    using copy_out_reliable [OF io3(1)] by blast
  define io4 where "io4 = moved io3 content (io_in io3) w"
  have io4: "reliable io4" "io_in io4 = CHR 0x00 # rest" using io3 by (simp_all add: io4_def)
  have "io_in io = CHR 0x00 # CHR 0x00 # rest" using assms(2) by (simp add: numeral_2_eq_2)
  then have "sendSCPFile eT io path perm fsize mtime data False =
      io_then (copy_out io3 content) (\<lambda>io4. io_then (out_Write io4 [CHR 0x00]) readSCPResponse)"
    using exchange(1) [OF assms(1), of "CHR 0x00 # rest" header] data
    by (simp add: sendSCPFile_def header_def file_header_def io3_def)
  also have "\<dots> = (moved io4 [CHR 0x00] rest (Suc (io_writes io4)), None)"
    using exchange(2) [OF io4] copied by (simp add: io4_def)
  finally show ?thesis
    by (simp add: io4_def io3_def header_def file_stream_def file_content_def data) blast
qed

definition dir_stream :: "string \<Rightarrow> nat \<Rightarrow> (string \<times> fsNode) list \<Rightarrow> string" where
  "dir_stream n perm children =
     dir_header perm n @ CHR 0x0A # entries_stream children @ [CHR ''E'', CHR 0x0A]"

lemma sendSCPDir_stream:
  assumes "reliable io" "io_in io = CHR 0x00 # acks k @ CHR 0x00 # rest"
    and children: "\<And>io rest. reliable io \<Longrightarrow> io_in io = acks k @ rest \<Longrightarrow>
      \<exists>w. sendSCPEntries eT io path children False = (moved io (entries_stream children) rest w, None)"
  shows "\<exists>w. sendSCPDir eT io path perm mtime children None False =
    (moved io (dir_stream (path_Base path) perm children) rest w, None)"
proof -
  define header where "header = dir_header perm (path_Base path) @ [CHR 0x0A]"
  define io3 where "io3 = moved io header (acks k @ CHR 0x00 # rest) (Suc (io_writes io))"
  have "reliable io3" "io_in io3 = acks k @ CHR 0x00 # rest" using assms(1) by (simp_all add: io3_def)
  then obtain w where sent: "sendSCPEntries eT io3 path children False =
      (moved io3 (entries_stream children) (CHR 0x00 # rest) w, None)"
    using children by blast
  define io4 where "io4 = moved io3 (entries_stream children) (CHR 0x00 # rest) w"
  have io4: "reliable io4" "io_in io4 = CHR 0x00 # rest"
    using assms(1) by (simp_all add: io4_def io3_def)
  have "sendSCPDir eT io path perm mtime children None False =
      io_then (out_Write io4 (''E'' @ [CHR 0x0A])) readSCPResponse"
    using exchange(1) [OF assms(1,2), of header] sent
    by (simp add: sendSCPDir.simps header_def dir_header_def io3_def io4_def)
  also have "\<dots> = (moved io4 (''E'' @ [CHR 0x0A]) rest (Suc (io_writes io4)), None)"
    by (rule exchange(2) [OF io4])
  finally show ?thesis
    by (simp add: io4_def io3_def header_def dir_stream_def) blast
qed

lemma sendSCPEntries_stream:
  "entries_ok es \<Longrightarrow> reliable io \<Longrightarrow> io_in io = acks (entries_acks es) @ rest \<Longrightarrow>
     \<exists>w. sendSCPEntries eT io path es False = (moved io (entries_stream es) rest w, None)"
proof (induction es arbitrary: io path rest rule: entries_stream.induct)
  case 1
  then show ?case using moved_refl [of io] by auto
next
  case (2 n err es)
  then show ?case by simp
next
  case (3 n perm mtime children dirErr es)
  define rest1 where "rest1 = acks (entries_acks es) @ rest"
  have ok: "line_name n" "dirErr = None" "entries_ok children" "entries_ok es" using 3(3) by simp_all
  have "io_in io = CHR 0x00 # acks (entries_acks children) @ CHR 0x00 # rest1"
    using 3(5) by (simp add: rest1_def replicate_add replicate_app_Cons_same)
  then obtain w where dir: "sendSCPDir eT io (filepath_Join path n) perm mtime children None False =
      (moved io (dir_stream (path_Base (filepath_Join path n)) perm children) rest1 w, None)"
    using sendSCPDir_stream [OF 3(4)] 3(1) [OF ok(3)] by blast
  define io1 where "io1 = moved io (dir_stream n perm children) rest1 w"
  have "reliable io1" "io_in io1 = acks (entries_acks es) @ rest"
    using 3(4) by (simp_all add: io1_def rest1_def)
  then obtain w' where "sendSCPEntries eT io1 path es False = (moved io1 (entries_stream es) rest w', None)"
    using 3(2) [OF ok(4)] by blast
  then show ?case
    using dir ok(1,2) by (auto simp: path_Base_Join line_name_def io1_def dir_stream_def)
next
  case (4 n regular perm fsize mtime data es)
  define rest1 where "rest1 = acks (entries_acks es) @ rest"
  define io1 where "io1 w = moved io (if regular then file_stream n perm fsize data else []) rest1 w" for w
  obtain w where "(if regular then sendSCPFile eT io (filepath_Join path n) perm fsize mtime data False else (io, None)) =
      (io1 w, None)"
  proof (cases regular)
    case True
    have "io_in io = acks 2 @ rest1" using 4(4) True by (simp add: rest1_def numeral_2_eq_2)
    moreover have "path_Base (filepath_Join path n) = n" "whole_file perm fsize data"
      using 4(2) True by (simp_all add: path_Base_Join line_name_def)
    ultimately show ?thesis
      using that sendSCPFile_stream [OF 4(3), of rest1 perm fsize data eT "filepath_Join path n" mtime] True
      by (auto simp: io1_def)
  next
    case False
    then show ?thesis
      using that [of "io_writes io"] 4(4) moved_refl [of io] by (simp add: io1_def rest1_def)
  qed
  moreover have "reliable (io1 w)" "io_in (io1 w) = acks (entries_acks es) @ rest"
    using 4(3) by (simp_all add: io1_def rest1_def)
  moreover have "entries_ok es" using 4(2) by simp
  ultimately obtain w' where "sendSCPEntries eT io path ((n, FsFile regular perm fsize mtime data) # es) False =
      (moved (io1 w) (entries_stream es) rest w', None)"
    using 4(1) by fastforce
  then show ?case by (auto simp: io1_def)
qed

section \<open>The sink's side\<close>

definition quiet :: "scpOS \<Rightarrow> bool" where
  "quiet os =
     (so_MkdirAll os = (\<lambda>_ _ _. None) \<and> so_OpenFile os = (\<lambda>_ _ _. None) \<and>
      so_write os = (\<lambda>_ _ _. None) \<and> so_Close os = (\<lambda>_ _. None))"

text \<open>The connection of a sink after \<open>k\<close> acknowledgements and the calls \<open>ops\<close>.\<close>

definition sunk :: "scpIO \<Rightarrow> nat \<Rightarrow> string \<Rightarrow> fsOp list \<Rightarrow> nat \<Rightarrow> scpIO" where
  "sunk io k rest ops w = (moved io (acks k) rest w)\<lparr> io_fs := io_fs io @ ops \<rparr>"

lemma sunk_simps [simp]:
  "reliable (sunk io k r ops w) = reliable io" "io_in (sunk io k r ops w) = r"
  "sunk (sunk io k r ops w) k' r' ops' w' = sunk io (k + k') r' (ops @ ops') w'"
  "io_fs (sunk io k r ops w) = io_fs io @ ops" "io_end (sunk io k r ops w) = io_end io"
  "io_out (sunk io k r ops w) = io_out io @ acks k"
  by (simp_all add: sunk_def moved_def reliable_def replicate_add)

lemma sunk_id [simp]: "io_in io = rest \<Longrightarrow> sunk io 0 rest [] (io_writes io) = io"
  by (auto simp: sunk_def moved_def)

lemma ack_reliable:
  "reliable io \<Longrightarrow> writeSCPAck eT io None = (sunk io 1 (io_in io) [] (Suc (io_writes io)), None)"
  by (simp add: writeSCPAck_def out_Write_reliable sunk_def moved_def)

lemma sink_ack_reliable:
  "reliable io \<Longrightarrow> sink_ack eT io dirs pending = SinkNext (sunk io 1 (io_in io) [] (Suc (io_writes io))) dirs pending"
  by (simp add: sink_ack_def ack_reliable)

lemma sink_loop_line:
  assumes "io_in io = line @ CHR 0x0A # rest" "CHR 0x0A \<notin> set line"
  shows "sink_loop eT os isd io dirs pending =
    (case sink_command eT os isd (sunk io 0 rest [] (io_writes io)) dirs pending line of
       SinkReturn r \<Rightarrow> r
     | SinkNext io2 dirs' pending' \<Rightarrow> sink_loop eT os isd io2 dirs' pending')"
proof -
  have "ReadString io = (sunk io 0 rest [] (io_writes io), line @ [CHR 0x0A], None)"
    using assms by (simp add: ReadString_def sunk_def moved_def)
  then show ?thesis
    by (subst sink_loop.simps) (simp add: TrimSuffix_def)
qed

lemma copy_file_whole:
  assumes "quiet os" "io_in io = content @ rest"
  shows "copy_file os io dest mode (int (length content)) =
    (sunk io 0 rest [WriteFile dest mode content] (io_writes io), None)"
  using assms by (simp add: copy_file_def quiet_def io_op_def sunk_def moved_def)

lemma receiveSCPFile_whole:
  assumes "reliable io" "quiet os" "io_in io = content @ CHR 0x00 # rest"
  shows "\<exists>w. receiveSCPFile eT os io dest mode (int (length content)) None =
    (sunk io 2 rest [WriteFile dest mode content] w, None)"
proof -
  define io1 where "io1 = sunk io 1 (io_in io) [] (Suc (io_writes io))"
  have "writeSCPAck eT io None = (io1, None)" using assms(1) by (simp add: ack_reliable io1_def)
  moreover have "copy_file os io1 dest mode (int (length content)) =
      (sunk io1 0 (CHR 0x00 # rest) [WriteFile dest mode content] (io_writes io1), None)"
    using assms by (intro copy_file_whole) (simp_all add: io1_def)
  moreover have "ReadByte (sunk io1 0 (CHR 0x00 # rest) ops w) = (sunk io1 0 rest ops w, Inr (CHR 0x00))" for ops w
    by (simp add: ReadByte_def sunk_def moved_def)
  ultimately show ?thesis
    using assms(1,2)
    by (auto simp: receiveSCPFile_def quiet_def ack_reliable io1_def numeral_2_eq_2)
qed

text \<open>The three commands of a tree: a file, the start of a directory and its end.\<close>

lemma sink_file_stream:
  assumes "reliable io" "quiet os" "line_name n" "whole_file perm fsize data"
    and "io_in io = file_stream n perm fsize data @ rest"
  shows "\<exists>w. sink_loop eT os isd io dirs None =
    sink_loop eT os isd (sunk io 2 rest [WriteFile (sink_path isd dirs n) perm (file_content data)] w) dirs None"
proof -
  obtain content where data: "data = Inr (content, None)" "perm < 512" "fsize = int (length content)" "fits64 fsize"
    using assms(4) by (auto simp: whole_file_def split: sum.splits option.splits)
  define line where "line = file_header perm fsize n"
  define io0 where "io0 = sunk io 0 (content @ CHR 0x00 # rest) [] (io_writes io)"
  obtain w where received: "receiveSCPFile eT os io0 (sink_path isd dirs n) perm fsize None =
      (sunk io0 2 rest [WriteFile (sink_path isd dirs n) perm content] w, None)"
    using receiveSCPFile_whole [of io0 os content rest eT "sink_path isd dirs n" perm] assms(1,2)
    by (auto simp: io0_def data(3))
  have "io_in io = line @ CHR 0x0A # content @ CHR 0x00 # rest" "CHR 0x0A \<notin> set line"
    using assms(3,5) header_no_newline(1) by (simp_all add: file_stream_def file_content_def data line_def line_name_def)
  then have "sink_loop eT os isd io dirs None =
      (case sink_command eT os isd io0 dirs None line of
         SinkReturn r \<Rightarrow> r
       | SinkNext io2 dirs' pending' \<Rightarrow> sink_loop eT os isd io2 dirs' pending')"
    unfolding io0_def by (rule sink_loop_line)
  moreover have "parseSCPFile line = Inr (perm, fsize, n)"
    using data unfolding line_def by (intro parseSCPFile_header) simp_all
  moreover have "sink_command eT os isd io0 dirs None line = sink_file eT os isd io0 dirs None line"
    by (simp add: sink_command_def line_def file_header_def)
  moreover have "cleanSCPName n = Inr n" using assms(3) by (simp add: cleanSCPName_Inr_iff line_name_def)
  ultimately show ?thesis
    using received by (auto simp: sink_file_def io0_def data(1) file_content_def numeral_2_eq_2)
qed

lemma sink_dir_start:
  assumes "reliable io" "quiet os" "line_name n" "perm < 512"
    and "io_in io = dir_header perm n @ CHR 0x0A # rest"
  shows "\<exists>w. sink_loop eT os isd io dirs None =
    sink_loop eT os isd (sunk io 1 rest [MkdirAll (sink_path isd dirs n) perm] w)
      (dirs @ [sink_path isd dirs n]) None"
proof -
  define line where "line = dir_header perm n"
  define io0 where "io0 = sunk io 0 rest [] (io_writes io)"
  have "sink_loop eT os isd io dirs None =
      (case sink_command eT os isd io0 dirs None line of
         SinkReturn r \<Rightarrow> r
       | SinkNext io2 dirs' pending' \<Rightarrow> sink_loop eT os isd io2 dirs' pending')"
    unfolding io0_def using assms(3,5) header_no_newline(2)
    by (intro sink_loop_line) (simp_all add: line_def line_name_def)
  moreover have "sink_command eT os isd io0 dirs None line = sink_directory eT os isd io0 dirs None line"
    by (simp add: sink_command_def line_def dir_header_def)
  moreover have "parseSCPEntry line = Inr (perm, n)"
    using assms(4) unfolding line_def by (intro parseSCPEntry_header) simp
  moreover have "cleanSCPName n = Inr n" using assms(3) by (simp add: cleanSCPName_Inr_iff line_name_def)
  moreover have "io_op a io0 = sunk io0 0 rest [a] (io_writes io0)" for a
    by (simp add: io_op_def io0_def sunk_def moved_def)
  ultimately show ?thesis
    using assms(1,2) by (auto simp: sink_directory_def quiet_def sink_ack_reliable io0_def Let_def)
qed

lemma sink_dir_end:
  assumes "reliable io" "dirs \<noteq> []" "io_in io = CHR ''E'' # CHR 0x0A # rest"
  shows "\<exists>w. sink_loop eT os isd io (dirs @ [d]) None = sink_loop eT os isd (sunk io 1 rest [] w) dirs None"
proof -
  have "sink_command eT os isd (sunk io 0 rest [] (io_writes io)) (dirs @ [d]) None ''E'' =
      SinkNext (sunk io 1 rest [] (Suc (io_writes (sunk io 0 rest [] (io_writes io))))) dirs None"
    using assms(1,2) by (simp add: sink_command_def sink_end_def sink_ack_reliable)
  then show ?thesis
    using sink_loop_line [of io "''E''" rest] assms(3) by auto
qed

lemma sink_entries_stream:
  "entries_ok es \<Longrightarrow> reliable io \<Longrightarrow> quiet os \<Longrightarrow> dirs \<noteq> [] \<Longrightarrow> isd \<or> length dirs > 1 \<Longrightarrow>
   io_in io = entries_stream es @ rest \<Longrightarrow>
   \<exists>w. sink_loop eT os isd io dirs None =
     sink_loop eT os isd (sunk io (entries_acks es) rest (entries_ops (last dirs) es) w) dirs None"
proof (induction es arbitrary: io dirs rest rule: entries_stream.induct)
  case 1
  then show ?case by (intro exI [of _ "io_writes io"]) simp
next
  case (2 n err es)
  then show ?case by simp
next
  case (3 n perm mtime children dirErr es)
  define p where "p = filepath_Join (last dirs) n"
  have p: "sink_path isd dirs n = p" using 3(7) by (auto simp: p_def sink_path_def)
  have ok: "line_name n" "perm < 512" "entries_ok children" "entries_ok es" using 3(3) by simp_all
  define rest2 where "rest2 = entries_stream es @ rest"
  define rest1 where "rest1 = entries_stream children @ CHR ''E'' # CHR 0x0A # rest2"
  have "io_in io = dir_header perm n @ CHR 0x0A # rest1" using 3(8) by (simp add: rest1_def rest2_def)
  then obtain w1 where start: "sink_loop eT os isd io dirs None =
      sink_loop eT os isd (sunk io 1 rest1 [MkdirAll p perm] w1) (dirs @ [p]) None"
    using sink_dir_start [OF 3(4,5) ok(1,2)] p by metis
  define io1 where "io1 = sunk io 1 rest1 [MkdirAll p perm] w1"
  have "reliable io1" "dirs @ [p] \<noteq> []" "isd \<or> length (dirs @ [p]) > 1"
    "io_in io1 = entries_stream children @ CHR ''E'' # CHR 0x0A # rest2" "last (dirs @ [p]) = p"
    using 3(4,6) by (simp_all add: io1_def rest1_def Suc_lessI)
  then obtain w2 where inner: "sink_loop eT os isd io1 (dirs @ [p]) None =
      sink_loop eT os isd (sunk io1 (entries_acks children) (CHR ''E'' # CHR 0x0A # rest2) (entries_ops p children) w2)
        (dirs @ [p]) None"
    using 3(1) [OF ok(3) _ 3(5)] by metis
  define io2 where "io2 = sunk io1 (entries_acks children) (CHR ''E'' # CHR 0x0A # rest2) (entries_ops p children) w2"
  have "reliable io2" "io_in io2 = CHR ''E'' # CHR 0x0A # rest2" using 3(4) by (simp_all add: io1_def io2_def)
  then obtain w3 where closed: "sink_loop eT os isd io2 (dirs @ [p]) None = sink_loop eT os isd (sunk io2 1 rest2 [] w3) dirs None"
    using sink_dir_end [OF _ 3(6)] by metis
  define io3 where "io3 = sunk io2 1 rest2 [] w3"
  have "reliable io3" "io_in io3 = entries_stream es @ rest" using 3(4) by (simp_all add: io1_def io2_def io3_def rest2_def)
  then obtain w4 where "sink_loop eT os isd io3 dirs None =
      sink_loop eT os isd (sunk io3 (entries_acks es) rest (entries_ops (last dirs) es) w4) dirs None"
    using 3(2) [OF ok(4) _ 3(5,6,7)] by metis
  then show ?case
    using start inner closed
    by (intro exI [of _ w4]) (simp add: io1_def io2_def io3_def ac_simps flip: p_def)
next
  case (4 n regular perm fsize mtime data es)
  define p where "p = filepath_Join (last dirs) n"
  have p: "sink_path isd dirs n = p" using 4(6) by (auto simp: p_def sink_path_def)
  define rest1 where "rest1 = entries_stream es @ rest"
  define k where "k = (if regular then 2 else 0 :: nat)"
  define ops where "ops = (if regular then [WriteFile p perm (file_content data)] else [])"
  obtain w1 where first: "sink_loop eT os isd io dirs None = sink_loop eT os isd (sunk io k rest1 ops w1) dirs None"
  proof (cases regular)
    case True
    have "io_in io = file_stream n perm fsize data @ rest1" using 4(7) True by (simp add: rest1_def)
    moreover have "line_name n" "whole_file perm fsize data" using 4(2) True by simp_all
    ultimately obtain w where "sink_loop eT os isd io dirs None =
        sink_loop eT os isd (sunk io 2 rest1 [WriteFile p perm (file_content data)] w) dirs None"
      using sink_file_stream [OF 4(3,4)] p by metis
    then show ?thesis using that True by (simp add: k_def ops_def)
  next
    case False
    then show ?thesis
      using that [of "io_writes io"] 4(7) by (simp add: k_def ops_def rest1_def)
  qed
  define io1 where "io1 = sunk io k rest1 ops w1"
  have "reliable io1" "io_in io1 = entries_stream es @ rest" "entries_ok es"
    using 4(2,3) by (simp_all add: io1_def rest1_def)
  then obtain w2 where "sink_loop eT os isd io1 dirs None =
      sink_loop eT os isd (sunk io1 (entries_acks es) rest (entries_ops (last dirs) es) w2) dirs None"
    using 4(1) [OF _ _ 4(4,5,6)] by metis
  then show ?case
    using first by (intro exI [of _ w2]) (simp add: io1_def k_def ops_def flip: p_def)
qed

section \<open>The transfer\<close>

definition node_ops :: "string \<Rightarrow> fsNode \<Rightarrow> fsOp list" where
  "node_ops p node =
     (case node of
        FsFile regular perm fsize mtime data \<Rightarrow> [WriteFile p perm (file_content data)]
      | FsDir perm mtime children dirErr \<Rightarrow> MkdirAll p perm # entries_ops p children
      | FsNoInfo err \<Rightarrow> [])"

definition whole_tree :: "string \<Rightarrow> fsNode \<Rightarrow> bool" where
  "whole_tree n node =
     (line_name n \<and>
      (case node of
         FsFile regular perm fsize mtime data \<Rightarrow> whole_file perm fsize data
       | FsDir perm mtime children dirErr \<Rightarrow> perm < 512 \<and> dirErr = None \<and> entries_ok children
       | FsNoInfo err \<Rightarrow> False))"

definition node_stream :: "string \<Rightarrow> fsNode \<Rightarrow> string" where
  "node_stream n node =
     (case node of
        FsFile regular perm fsize mtime data \<Rightarrow> file_stream n perm fsize data
      | FsDir perm mtime children dirErr \<Rightarrow> dir_stream n perm children
      | FsNoInfo err \<Rightarrow> [])"

definition node_acks :: "fsNode \<Rightarrow> nat" where
  "node_acks node =
     (case node of
        FsFile regular perm fsize mtime data \<Rightarrow> 2
      | FsDir perm mtime children dirErr \<Rightarrow> entries_acks children + 2
      | FsNoInfo err \<Rightarrow> 0)"

text \<open>A fresh connection on which the peer sends the given bytes and then closes.\<close>

definition connection :: "string \<Rightarrow> scpIO" where
  "connection bytes =
     \<lparr> io_in = bytes, io_end = IoEOF, io_out = [], io_writes = 0, io_writeErr = (\<lambda>_. None), io_fs = [] \<rparr>"

lemma connection_simps [simp]:
  "reliable (connection b)" "io_in (connection b) = b" "io_out (connection b) = []" "io_fs (connection b) = []"
  "io_end (connection b) = IoEOF"
  by (simp_all add: connection_def reliable_def)

lemma runSCPSource_stream:
  assumes "whole_tree (path_Base (scp_target opts)) (stat (scp_target opts))" "scp_recursive opts" "\<not> scp_preserve opts"
  shows "\<exists>w. runSCPSource eT stat opts (connection (acks (Suc (node_acks (stat (scp_target opts)))))) =
    (moved (connection (acks (Suc (node_acks (stat (scp_target opts))))))
       (node_stream (path_Base (scp_target opts)) (stat (scp_target opts))) [] w, None)"
proof -
  define src where "src = scp_target opts"
  define node where "node = stat src"
  define c where "c = connection (acks (Suc (node_acks node)))"
  define io1 where "io1 = moved c [] (acks (node_acks node)) (io_writes c)"
  have read: "readSCPResponse c = (io1, None)"
    unfolding io1_def by (rule readSCPResponse_ok) (simp add: c_def)
  have io1: "reliable io1" "io_in io1 = acks (node_acks node) @ []" by (simp_all add: io1_def c_def)
  have "\<exists>w. runSCPSource eT stat opts c = (moved io1 (node_stream (path_Base src) node) [] w, None)"
  proof (cases node)
    case (FsFile regular perm fsize mtime data)
    then have "whole_file perm fsize data" using assms(1) by (simp add: whole_tree_def flip: src_def node_def)
    then show ?thesis
      using sendSCPFile_stream [OF io1(1), of "[]" perm fsize data eT src mtime] io1(2) FsFile read assms(3)
      by (simp add: runSCPSource_def node_stream_def node_acks_def flip: src_def node_def)
  next
    case (FsDir perm mtime children dirErr)
    then have ok: "entries_ok children" "dirErr = None" using assms(1) by (simp_all add: whole_tree_def flip: src_def node_def)
    have "io_in io1 = CHR 0x00 # acks (entries_acks children) @ CHR 0x00 # []"
      using io1(2) FsDir by (simp add: node_acks_def replicate_add numeral_2_eq_2 replicate_append_same)
    then obtain w where "sendSCPDir eT io1 src perm mtime children None False =
        (moved io1 (dir_stream (path_Base src) perm children) [] w, None)"
      using sendSCPDir_stream [OF io1(1)] sendSCPEntries_stream [OF ok(1)] by metis
    then show ?thesis
      using FsDir read assms(2,3) ok(2)
      by (auto simp: runSCPSource_def node_stream_def simp flip: src_def node_def)
  next
    case (FsNoInfo err)
    then show ?thesis using assms(1) by (simp add: whole_tree_def flip: src_def node_def)
  qed
  then show ?thesis by (simp add: io1_def c_def flip: src_def node_def)
qed

lemma runSCPSink_stream:
  assumes "whole_tree n node" "quiet os"
  shows "\<exists>w. runSCPSink eT os opts (connection (node_stream n node)) =
    (sunk (connection (node_stream n node)) (Suc (node_acks node)) []
       (node_ops (sink_path (isDir os (scp_target opts)) [scp_target opts] n) node) w, None)"
proof -
  define dst where "dst = scp_target opts"
  define isd where "isd = isDir os dst"
  define p where "p = sink_path isd [dst] n"
  define c where "c = connection (node_stream n node)"
  define io1 where "io1 = sunk c 1 (io_in c) [] (Suc (io_writes c))"
  have name: "line_name n" using assms(1) by (simp add: whole_tree_def)
  have io1: "reliable io1" "io_in io1 = node_stream n node @ []" by (simp_all add: io1_def c_def)
  have loop: "\<exists>w. sink_loop eT os isd io1 [dst] None =
      sink_loop eT os isd (sunk io1 (node_acks node) [] (node_ops p node) w) [dst] None"
  proof (cases node)
    case (FsFile regular perm fsize mtime data)
    then have "whole_file perm fsize data" using assms(1) by (simp add: whole_tree_def)
    then show ?thesis
      using sink_file_stream [OF io1(1) assms(2) name, of perm fsize data "[]" eT isd "[dst]"] io1(2) FsFile
      by (simp add: node_stream_def node_ops_def node_acks_def flip: p_def)
  next
    case (FsDir perm mtime children dirErr)
    then have ok: "entries_ok children" "perm < 512" using assms(1) by (simp_all add: whole_tree_def)
    define rest where "rest = entries_stream children @ [CHR ''E'', CHR 0x0A]"
    have "io_in io1 = dir_header perm n @ CHR 0x0A # rest"
      using io1(2) FsDir by (simp add: node_stream_def dir_stream_def rest_def)
    then obtain w1 where start: "sink_loop eT os isd io1 [dst] None =
        sink_loop eT os isd (sunk io1 1 rest [MkdirAll p perm] w1) ([dst] @ [p]) None"
      using sink_dir_start [OF io1(1) assms(2) name ok(2)] p_def by metis
    define io2 where "io2 = sunk io1 1 rest [MkdirAll p perm] w1"
    have "reliable io2" "io_in io2 = entries_stream children @ [CHR ''E'', CHR 0x0A]"
      "[dst] @ [p] \<noteq> []" "isd \<or> length ([dst] @ [p]) > 1" "last ([dst] @ [p]) = p"
      using io1(1) by (simp_all add: io2_def rest_def)
    then obtain w2 where inner: "sink_loop eT os isd io2 ([dst] @ [p]) None = sink_loop eT os isd
        (sunk io2 (entries_acks children) [CHR ''E'', CHR 0x0A] (entries_ops p children) w2) ([dst] @ [p]) None"
      using sink_entries_stream [OF ok(1) _ assms(2)] by metis
    define io3 where "io3 = sunk io2 (entries_acks children) [CHR ''E'', CHR 0x0A] (entries_ops p children) w2"
    have "reliable io3" "io_in io3 = CHR ''E'' # CHR 0x0A # []" using io1(1) by (simp_all add: io3_def io2_def)
    then obtain w3 where "sink_loop eT os isd io3 ([dst] @ [p]) None = sink_loop eT os isd (sunk io3 1 [] [] w3) [dst] None"
      using sink_dir_end [of io3 "[dst]"] by blast
    then show ?thesis
      using start inner FsDir
      by (intro exI [of _ w3]) (simp add: io2_def io3_def node_ops_def node_acks_def)
  qed (use assms(1) in \<open>simp add: whole_tree_def\<close>)
  then obtain w where w: "sink_loop eT os isd io1 [dst] None =
      sink_loop eT os isd (sunk io1 (node_acks node) [] (node_ops p node) w) [dst] None" by blast
  define io2 where "io2 = sunk io1 (node_acks node) [] (node_ops p node) w"
  have "sink_loop eT os isd io2 [dst] None = (io2, None)"
    by (simp add: sink_loop.simps ReadString_def io2_def io1_def c_def sunk_def moved_def)
  moreover have "writeSCPAck eT c None = (io1, None)" by (simp add: ack_reliable c_def io1_def)
  ultimately show ?thesis
    using w
    by (auto simp: runSCPSink_def io1_def io2_def simp flip: dst_def isd_def p_def c_def)
qed

lemma scp_args_plain:
  assumes "p \<noteq> []" "\<not> HasPrefix p ''-''"
  shows "parseSCPOptions [''-rf'', p] =
      Inr \<lparr> scp_source = True, scp_sink = False, scp_recursive = True, scp_preserve = False, scp_target = p \<rparr>"
    "parseSCPOptions [''-rt'', p] =
      Inr \<lparr> scp_source = False, scp_sink = True, scp_recursive = True, scp_preserve = False, scp_target = p \<rparr>"
    "parseSCPOptions [''-pf'', p] =
      Inr \<lparr> scp_source = True, scp_sink = False, scp_recursive = False, scp_preserve = True, scp_target = p \<rparr>"
    "parseSCPOptions [''-pt'', p] =
      Inr \<lparr> scp_source = False, scp_sink = True, scp_recursive = False, scp_preserve = True, scp_target = p \<rparr>"
  using assms by (simp_all add: parseSCPOptions_def no_scpOptions_def)

text \<open>
  C25. A recursive scp transfer between two helpers is complete.  For every tree of
  readable files whose names fit on a header line, there are byte streams \<open>down\<close> and \<open>up\<close> such
  that the source, given the responses \<open>up\<close>, writes exactly \<open>down\<close> and succeeds, and the
  sink, given \<open>down\<close>, writes exactly the responses \<open>up\<close> and succeeds; neither leaves
  input unread, and the sink's file system calls are those that rebuild the tree (every
  directory before its entries, every file with its permission bits and all of its bytes)
  below the target directory, or at the target when it is not a directory.
\<close>

theorem scp_transfers_tree:
  assumes "whole_tree (path_Base src) (stat src)" "quiet os"
    and "src \<noteq> []" "\<not> HasPrefix src ''-''" "dst \<noteq> []" "\<not> HasPrefix dst ''-''"
  shows "\<exists>up down source sink.
    RunSCP eT os stat [''-rf'', src] (connection up) = (source, None) \<and> io_in source = [] \<and> io_out source = down \<and>
    RunSCP eT os stat [''-rt'', dst] (connection down) = (sink, None) \<and> io_in sink = [] \<and> io_out sink = up \<and>
    io_fs sink = node_ops (if isDir os dst then filepath_Join dst (path_Base src) else dst) (stat src)"
proof -
  define up where "up = acks (Suc (node_acks (stat src)))"
  define down where "down = node_stream (path_Base src) (stat src)"
  obtain w1 where source: "RunSCP eT os stat [''-rf'', src] (connection up) = (moved (connection up) down [] w1, None)"
    using runSCPSource_stream [of "\<lparr> scp_source = True, scp_sink = False, scp_recursive = True,
      scp_preserve = False, scp_target = src \<rparr>" stat eT] assms(1,3,4)
    by (auto simp: RunSCP_def scp_args_plain up_def down_def)
  obtain w2 where sink: "RunSCP eT os stat [''-rt'', dst] (connection down) =
      (sunk (connection down) (Suc (node_acks (stat src))) []
        (node_ops (sink_path (isDir os dst) [dst] (path_Base src)) (stat src)) w2, None)"
    using runSCPSink_stream [OF assms(1,2), of eT "\<lparr> scp_source = False, scp_sink = True, scp_recursive = True,
      scp_preserve = False, scp_target = dst \<rparr>"] assms(5,6)
    by (auto simp: RunSCP_def scp_args_plain down_def)
  have "io_out (moved (connection up) down [] w1) = down"
    "io_out (sunk (connection down) (Suc (node_acks (stat src))) []
        (node_ops (sink_path (isDir os dst) [dst] (path_Base src)) (stat src)) w2) = up"
    "sink_path (isDir os dst) [dst] (path_Base src) = (if isDir os dst then filepath_Join dst (path_Base src) else dst)"
    by (simp_all add: up_def sink_path_def)
  then show ?thesis using source sink by fastforce
qed

definition example_tree :: fsNode where
  "example_tree =
     FsDir 493 0 [(''a.txt'', FsFile True 420 5 0 (Inr (''hello'', None))),
                  (''pipe'', FsFile False 420 0 0 (Inl NetErrClosed)),
                  (''sub'', FsDir 448 0 [(''b c'', FsFile True 384 0 0 (Inr ([], None)))] None)] None"

definition example_os :: scpOS where
  "example_os =
     \<lparr> so_isDir = (\<lambda>p. p = ''/tmp''), so_MkdirAll = (\<lambda>_ _ _. None), so_OpenFile = (\<lambda>_ _ _. None),
       so_write = (\<lambda>_ _ _. None), so_Close = (\<lambda>_ _. None) \<rparr>"

lemma example_tree_whole: "whole_tree (path_Base ''/srv/data'') example_tree"
  by code_simp

theorem scp_transfers_tree_witness:
  "\<exists>up down source sink.
    RunSCP (\<lambda>_. []) example_os (\<lambda>_. example_tree) [''-rf'', ''/srv/data''] (connection up) = (source, None) \<and>
      io_in source = [] \<and> io_out source = down \<and>
    RunSCP (\<lambda>_. []) example_os (\<lambda>_. example_tree) [''-rt'', ''/tmp''] (connection down) = (sink, None) \<and>
      io_in sink = [] \<and> io_out sink = up \<and>
    io_fs sink = node_ops
      (if isDir example_os ''/tmp'' then filepath_Join ''/tmp'' (path_Base ''/srv/data'') else ''/tmp'') example_tree"
  by (rule scp_transfers_tree [of "''/srv/data''" "\<lambda>_. example_tree" example_os "''/tmp''" "\<lambda>_. []"])
    (simp_all add: example_tree_whole, simp add: quiet_def example_os_def)

section \<open>Preserved times\<close>

text \<open>
  The line \<^verbatim>\<open>T<mtime> 0 <atime> 0\<close> that announces the times of a file has four fields;
  \<open>parseSCPTimes\<close> asks for five.
\<close>

definition times_header :: "int \<Rightarrow> string" where
  "times_header mtime = CHR ''T'' # FormatInt mtime @ '' 0 '' @ FormatInt mtime @ '' 0''"

lemma split_space_word:
  "list_all (\<lambda>c. \<not> is_space c) a \<Longrightarrow> split_space (a @ CHR '' '' # b) = a # split_space b"
  by (induction a) (simp_all add: is_space_def)

lemma space_not_digit: "is_space c \<Longrightarrow> char_digit c = None"
  by (auto simp: is_space_def char_digit_def)

lemma digit_not_space: "d < 10 \<Longrightarrow> \<not> is_space (digit_char d)"
  using space_not_digit by fastforce

lemma FormatInt_not_space: "list_all (\<lambda>c. \<not> is_space c) (FormatInt i)"
proof -
  have "\<not> is_space c" if "c \<in> set (format_nat n)" for c n
    using format_nat_digits [OF that] digit_not_space by auto
  then show ?thesis by (auto simp: FormatInt_def list_all_iff is_space_def)
qed

lemma Fields_times: "Fields (times_header mtime) = [CHR ''T'' # FormatInt mtime, ''0'', FormatInt mtime, ''0'']"
proof -
  have "split_space ((CHR ''T'' # FormatInt mtime) @ CHR '' '' # ''0'' @ CHR '' '' # FormatInt mtime @ CHR '' '' # ''0'') =
      [CHR ''T'' # FormatInt mtime, ''0'', FormatInt mtime, ''0'']"
    using FormatInt_not_space [of mtime]
    by (subst split_space_word; simp add: is_space_def split_space_word)
  then show ?thesis by (auto simp: Fields_def times_header_def FormatInt_def)
qed

lemma parseSCPTimes_header:
  "parseSCPTimes (times_header mtime) = Inl (Errorf ''invalid scp time header %q'' [times_header mtime])"
  by (simp add: parseSCPTimes_def Fields_times)

lemma sendSCPFile_preserve:
  "sendSCPFile eT io path perm fsize mtime data True =
     io_then (sendSCPTimes io mtime) (\<lambda>io1. sendSCPFile eT io1 path perm fsize mtime data False)"
  by (simp add: sendSCPFile_def)

lemma sendSCPTimes_header:
  assumes "reliable io" "io_in io = CHR 0x00 # rest"
  shows "sendSCPTimes io mtime = (moved io (times_header mtime @ [CHR 0x0A]) rest (Suc (io_writes io)), None)"
  using exchange(2) [OF assms] by (simp add: sendSCPTimes_def times_header_def)

lemma sink_times_refused:
  assumes "reliable io" "io_in io = times_header mtime @ CHR 0x0A # rest"
  shows "sink_loop eT os isd io dirs pending =
    refuse eT (sunk io 0 rest [] (io_writes io)) (Errorf ''invalid scp time header %q'' [times_header mtime])"
proof -
  have "CHR 0x0A \<notin> set (times_header mtime)"
    using FormatInt_no_sep [OF digit_separators(2), of mtime] by (simp add: times_header_def)
  then have "sink_loop eT os isd io dirs pending =
      (case sink_command eT os isd (sunk io 0 rest [] (io_writes io)) dirs pending (times_header mtime) of
         SinkReturn r \<Rightarrow> r
       | SinkNext io2 dirs' pending' \<Rightarrow> sink_loop eT os isd io2 dirs' pending')"
    using assms(2) by (intro sink_loop_line)
  moreover have "sink_command eT os isd io' dirs pending (times_header mtime) =
      sink_times eT io' dirs pending (times_header mtime)" for io'
    by (simp add: sink_command_def times_header_def)
  ultimately show ?thesis by (simp add: sink_times_def parseSCPTimes_header)
qed

text \<open>
  C39. A transfer that preserves times (\<^verbatim>\<open>scp -p\<close>) never succeeds.  For every readable
  file, a source that gets its four acknowledgements announces the modification time and
  succeeds, but the sink refuses the very bytes this source wrote: it
  returns the error \<^verbatim>\<open>invalid scp time header\<close> and makes no file system call.
\<close>

theorem scp_preserve_refused:
  assumes "stat src = FsFile regular perm fsize mtime data" "whole_file perm fsize data"
    and "src \<noteq> []" "\<not> HasPrefix src ''-''" "dst \<noteq> []" "\<not> HasPrefix dst ''-''"
  shows "\<exists>source sink.
    RunSCP eT os stat [''-pf'', src] (connection (acks 4)) = (source, None) \<and>
    RunSCP eT os stat [''-pt'', dst] (connection (io_out source)) =
      (sink, Some (Errorf ''invalid scp time header %q'' [times_header mtime])) \<and>
    io_fs sink = []"
proof -
  define line where "line = times_header mtime @ [CHR 0x0A]"
  define c where "c = connection (acks 4)"
  define io1 where "io1 = moved c [] (acks 3) (io_writes c)"
  define io2 where "io2 = moved io1 line (acks 2) (Suc (io_writes io1))"
  have "readSCPResponse c = (io1, None)"
    unfolding io1_def by (rule readSCPResponse_ok) (simp add: c_def numeral_eq_Suc)
  moreover have "sendSCPTimes io1 mtime = (io2, None)"
    unfolding io2_def line_def
    by (rule sendSCPTimes_header) (simp_all add: io1_def c_def numeral_eq_Suc)
  moreover obtain w where "sendSCPFile eT io2 src perm fsize mtime data False =
      (moved io2 (file_stream (path_Base src) perm fsize data) [] w, None)"
    using sendSCPFile_stream [of io2 "[]" perm fsize data eT src mtime] assms(2) by (auto simp: io2_def io1_def c_def)
  ultimately have source: "RunSCP eT os stat [''-pf'', src] c =
      (moved io2 (file_stream (path_Base src) perm fsize data) [] w, None)"
    using assms(1,3,4) by (simp add: RunSCP_def scp_args_plain runSCPSource_def sendSCPFile_preserve)
  define d where "d = connection (times_header mtime @ CHR 0x0A # file_stream (path_Base src) perm fsize data)"
  define io3 where "io3 = sunk d 1 (io_in d) [] (Suc (io_writes d))"
  have "writeSCPAck eT d None = (io3, None)" by (simp add: ack_reliable d_def io3_def)
  then have "RunSCP eT os stat [''-pt'', dst] d =
      refuse eT (sunk io3 0 (file_stream (path_Base src) perm fsize data) [] (io_writes io3))
        (Errorf ''invalid scp time header %q'' [times_header mtime])"
    using assms(5,6) sink_times_refused [of io3 mtime]
    by (simp add: RunSCP_def scp_args_plain runSCPSink_def io3_def d_def)
  moreover have "snd (refuse eT io err) = Some err" for io err by (simp add: refuse_def)
  ultimately have "snd (RunSCP eT os stat [''-pt'', dst] d) =
      Some (Errorf ''invalid scp time header %q'' [times_header mtime])"
    "io_fs (fst (RunSCP eT os stat [''-pt'', dst] d)) = []"
    by (simp_all add: io3_def d_def)
  moreover have "connection (io_out (moved io2 (file_stream (path_Base src) perm fsize data) [] w)) = d"
    by (simp add: io2_def io1_def c_def d_def line_def)
  ultimately show ?thesis
    using source unfolding c_def by (metis prod.collapse)
qed

lemma example_file_whole: "whole_file 420 5 (Inr (''hello'', None))"
  by code_simp

theorem scp_preserve_refused_witness:
  "\<exists>source sink.
    RunSCP (\<lambda>_. []) example_os (\<lambda>_. FsFile True 420 5 1700000000 (Inr (''hello'', None))) [''-pf'', ''/a'']
      (connection (acks 4)) = (source, None) \<and>
    RunSCP (\<lambda>_. []) example_os (\<lambda>_. FsFile True 420 5 1700000000 (Inr (''hello'', None))) [''-pt'', ''/tmp'']
      (connection (io_out source)) = (sink, Some (Errorf ''invalid scp time header %q'' [times_header 1700000000])) \<and>
    io_fs sink = []"
  by (rule scp_preserve_refused [where data = "Inr (''hello'', None)", OF _ example_file_whole]) simp_all

end
