(* ===== verification/SpdyRpc.thy ===== *)
theory SpdyRpc
  imports GoPrelude
begin

text \<open>
  Bidirectional RPC over SPDY, \<^verbatim>\<open>pkg/spdyrpc\<close>: the messages (\<^verbatim>\<open>transport.go\<close>), the life of a
  connection (\<^verbatim>\<open>connection.go\<close>) and the dispatch of the peer's streams (\<^verbatim>\<open>spdy.go\<close>).

  JSON documents are modelled by their syntax trees.  The SPDY framing of
  \<^verbatim>\<open>moby/spdystream\<close> is not modelled: whether a stream could be created or a reply sent is an
  argument of the operation that asks for it.
\<close>

section \<open>JSON documents\<close>

datatype json =
    JNull
  | JBool bool
  | JNumber int
  | JString string
  | JArray "json list"
  | JObject "(string \<times> json) list"

text \<open>
  A Go string in a document: \<^verbatim>\<open>json.Marshal\<close> writes the replacement character for every byte that does
  not belong to valid UTF-8.  \<^verbatim>\<open>utf8_len\<close> is the length of the encoded character a string starts
  with, or 0.
\<close>

definition byte_in :: "nat \<Rightarrow> nat \<Rightarrow> char \<Rightarrow> bool" where
  "byte_in lo hi c = (lo \<le> of_char c \<and> of_char c \<le> hi)"

definition utf8_len :: "string \<Rightarrow> nat" where
  "utf8_len s =
     (case s of
        [] \<Rightarrow> 0
      | c # rest \<Rightarrow>
          if byte_in 0 127 c then 1
          else if byte_in 194 223 c
          then (case rest of c1 # _ \<Rightarrow> if byte_in 128 191 c1 then 2 else 0 | _ \<Rightarrow> 0)
          else if byte_in 224 239 c
          then (case rest of
                  c1 # c2 # _ \<Rightarrow>
                    if byte_in (if of_char c = (224 :: nat) then 160 else 128) (if of_char c = (237 :: nat) then 159 else 191) c1 \<and>
                       byte_in 128 191 c2
                    then 3 else 0
                | _ \<Rightarrow> 0)
          else if byte_in 240 244 c
          then (case rest of
                  c1 # c2 # c3 # _ \<Rightarrow>
                    if byte_in (if of_char c = (240 :: nat) then 144 else 128) (if of_char c = (244 :: nat) then 143 else 191) c1 \<and>
                       byte_in 128 191 c2 \<and> byte_in 128 191 c3
                    then 4 else 0
                | _ \<Rightarrow> 0)
          else 0)"

definition replacement_character :: string where
  "replacement_character = [char_of (239 :: nat), char_of (191 :: nat), char_of (189 :: nat)]"

function json_text :: "string \<Rightarrow> string" where
  "json_text [] = []"
| "json_text (c # rest) =
     (let n = utf8_len (c # rest)
      in if n = 0 then replacement_character @ json_text rest
         else c # take (n - 1) rest @ json_text (drop (n - 1) rest))"
  by pat_completeness auto

termination json_text
  by (relation "measure length") auto

text \<open>The last member of a name wins, as in \<^verbatim>\<open>encoding/json\<close>.\<close>

definition json_field :: "(string \<times> json) list \<Rightarrow> string \<Rightarrow> json option" where
  "json_field members key = map_of (rev members) key"

text \<open>Decoding a member into a Go field: absent or null leaves it, another type is an error.\<close>

definition json_string :: "(string \<times> json) list \<Rightarrow> string \<Rightarrow> string \<Rightarrow> string result" where
  "json_string members key old =
     (case json_field members key of
        None \<Rightarrow> Inr old
      | Some JNull \<Rightarrow> Inr old
      | Some (JString s) \<Rightarrow> Inr s
      | Some _ \<Rightarrow> Inl (Errorf ''json: cannot unmarshal into Go struct field %s'' [key]))"

definition json_bool :: "(string \<times> json) list \<Rightarrow> string \<Rightarrow> bool \<Rightarrow> bool result" where
  "json_bool members key old =
     (case json_field members key of
        None \<Rightarrow> Inr old
      | Some JNull \<Rightarrow> Inr old
      | Some (JBool b) \<Rightarrow> Inr b
      | Some _ \<Rightarrow> Inl (Errorf ''json: cannot unmarshal into Go struct field %s'' [key]))"

definition json_uint32 :: "(string \<times> json) list \<Rightarrow> string \<Rightarrow> nat \<Rightarrow> nat result" where
  "json_uint32 members key old =
     (case json_field members key of
        None \<Rightarrow> Inr old
      | Some JNull \<Rightarrow> Inr old
      | Some (JNumber n) \<Rightarrow>
          if 0 \<le> n \<and> n < 2 ^ 32 then Inr (nat n)
          else Inl (Errorf ''json: cannot unmarshal into Go struct field %s'' [key])
      | Some _ \<Rightarrow> Inl (Errorf ''json: cannot unmarshal into Go struct field %s'' [key]))"

definition json_members :: "json \<Rightarrow> (string \<times> json) list result" where
  "json_members doc =
     (case doc of
        JObject members \<Rightarrow> Inr members
      | JNull \<Rightarrow> Inr []
      | _ \<Rightarrow> Inl (Errorf ''json: cannot unmarshal into Go struct'' []))"

section \<open>Messages\<close>

text \<open>A \<^verbatim>\<open>RawMessage\<close> is empty or an encoded document.\<close>

type_synonym RawMessage = "json option"

record rpcRequest =
  rq_Method :: string
  rq_Payload :: RawMessage

record rpcResponse =
  rs_OK :: bool
  rs_Error :: string
  rs_Payload :: RawMessage

text \<open>An \<^verbatim>\<open>any\<close> that is sent: nil, or a value with the outcome of \<^verbatim>\<open>json.Marshal\<close> on it.\<close>

type_synonym anyValue = "json result option"

definition newRPCRequest :: "string \<Rightarrow> anyValue \<Rightarrow> rpcRequest result" where
  "newRPCRequest mthd payload =
     (case payload of
        None \<Rightarrow> Inr \<lparr> rq_Method = mthd, rq_Payload = None \<rparr>
      | Some (Inl err) \<Rightarrow> Inl err
      | Some (Inr data) \<Rightarrow> Inr \<lparr> rq_Method = mthd, rq_Payload = Some data \<rparr>)"

definition newRPCResponse :: "anyValue \<Rightarrow> rpcResponse result" where
  "newRPCResponse payload =
     (case payload of
        None \<Rightarrow> Inr \<lparr> rs_OK = True, rs_Error = [], rs_Payload = None \<rparr>
      | Some (Inl err) \<Rightarrow> Inl err
      | Some (Inr data) \<Rightarrow> Inr \<lparr> rs_OK = True, rs_Error = [], rs_Payload = Some data \<rparr>)"

definition newRPCErrorResponse :: "(go_error \<Rightarrow> string) \<Rightarrow> go_error \<Rightarrow> rpcResponse" where
  "newRPCErrorResponse errorText err = \<lparr> rs_OK = False, rs_Error = errorText err, rs_Payload = None \<rparr>"

text \<open>\<open>decodeRPCResponse\<close> leaves the caller's variable \<open>old\<close>, or decodes the payload into it.\<close>

definition decodeRPCResponse ::
  "string \<Rightarrow> rpcResponse \<Rightarrow> (json \<Rightarrow> 'a \<Rightarrow> 'a result) option \<Rightarrow> 'a \<Rightarrow> 'a result" where
  "decodeRPCResponse mthd response out old =
     (if \<not> rs_OK response then Inl (Errorf ''RPC request %q failed: %s'' [mthd, rs_Error response])
      else case (out, rs_Payload response) of
             (Some unmarshal, Some data) \<Rightarrow> unmarshal data old
           | _ \<Rightarrow> Inr old)"

text \<open>The documents of requests and responses: empty members are omitted.\<close>

definition encode_request :: "rpcRequest \<Rightarrow> json" where
  "encode_request request =
     JObject ((''type'', JString (json_text (rq_Method request))) #
       (case rq_Payload request of None \<Rightarrow> [] | Some data \<Rightarrow> [(''payload'', data)]))"

definition decode_request :: "json \<Rightarrow> rpcRequest result" where
  "decode_request doc =
     bind_result (json_members doc) (\<lambda>members.
     bind_result (json_string members ''type'' []) (\<lambda>mthd.
       Inr \<lparr> rq_Method = mthd, rq_Payload = json_field members ''payload'' \<rparr>))"

definition encode_response :: "rpcResponse \<Rightarrow> json" where
  "encode_response response =
     JObject ((''ok'', JBool (rs_OK response)) #
       (if rs_Error response = [] then [] else [(''error'', JString (json_text (rs_Error response)))]) @
       (case rs_Payload response of None \<Rightarrow> [] | Some data \<Rightarrow> [(''payload'', data)]))"

definition decode_response :: "json \<Rightarrow> rpcResponse result" where
  "decode_response doc =
     bind_result (json_members doc) (\<lambda>members.
     bind_result (json_bool members ''ok'' False) (\<lambda>ok.
     bind_result (json_string members ''error'' []) (\<lambda>err.
       Inr \<lparr> rs_OK = ok, rs_Error = err, rs_Payload = json_field members ''payload'' \<rparr>)))"

section \<open>Connections\<close>

datatype rpcConnectionState = connectionNew | connectionServing | connectionClosing | connectionClosed

text \<open>
  Handlers are values of a type \<open>'h\<close> (RPC) and \<open>'s\<close> (streams).  \<open>cn_work\<close> is the counter of
  the wait group, \<open>cn_fatal\<close> the channel of capacity one, \<open>cn_canceled\<close> the state of the
  connection's context, \<open>cn_transportClosed\<close> the number of times the transport was closed,
  \<open>cn_stopped\<close> the error \<^verbatim>\<open>Serve\<close> will return once it has left its select, and
  \<open>cn_returned\<close> whether \<^verbatim>\<open>Serve\<close> has returned.
\<close>

record ('h, 's) rpcConnection =
  cn_state :: rpcConnectionState
  cn_handlers :: "string \<rightharpoonup> 'h"
  cn_streamHandlers :: "string \<rightharpoonup> 's"
  cn_work :: nat
  cn_fatal :: "go_error option"
  cn_canceled :: bool
  cn_transportClosed :: nat
  cn_stopped :: "go_error option option"
  cn_returned :: bool

definition newConnection :: "('h, 's) rpcConnection" where
  "newConnection =
     \<lparr> cn_state = connectionNew, cn_handlers = Map.empty, cn_streamHandlers = Map.empty, cn_work = 0,
       cn_fatal = None, cn_canceled = False, cn_transportClosed = 0, cn_stopped = None, cn_returned = False \<rparr>"

definition ErrConnectionClosed :: go_error where
  "ErrConnectionClosed = Errorf ''connection closed'' []"

definition ErrConnectionStarted :: go_error where
  "ErrConnectionStarted = Errorf ''connection already started'' []"

definition StreamTypeHeader :: string where
  "StreamTypeHeader = ''StreamType''"

definition StreamTypeControl :: string where
  "StreamTypeControl = ''Control''"

definition Register ::
  "('h, 's) rpcConnection \<Rightarrow> string \<Rightarrow> 'h option \<Rightarrow> ('h, 's) rpcConnection \<times> go_error option" where
  "Register s mthd handler =
     (if mthd = [] then (s, Some (Errorf ''RPC method is required'' []))
      else case handler of
             None \<Rightarrow> (s, Some (Errorf ''RPC handler for %q is nil'' [mthd]))
           | Some h \<Rightarrow>
               if cn_state s \<noteq> connectionNew then (s, Some ErrConnectionStarted)
               else if cn_handlers s mthd \<noteq> None
               then (s, Some (Errorf ''RPC handler for %q is already registered'' [mthd]))
               else (s\<lparr> cn_handlers := (cn_handlers s)(mthd \<mapsto> h) \<rparr>, None))"

definition RegisterStreamHandler ::
  "('h, 's) rpcConnection \<Rightarrow> string \<Rightarrow> 's option \<Rightarrow> ('h, 's) rpcConnection \<times> go_error option" where
  "RegisterStreamHandler s streamType handler =
     (if streamType = [] \<or> streamType = StreamTypeControl
      then (s, Some (Errorf ''invalid stream type %q'' [streamType]))
      else case handler of
             None \<Rightarrow> (s, Some (Errorf ''stream handler for %q is nil'' [streamType]))
           | Some h \<Rightarrow>
               if cn_state s = connectionClosing \<or> cn_state s = connectionClosed then (s, Some ErrConnectionClosed)
               else if cn_streamHandlers s streamType \<noteq> None
               then (s, Some (Errorf ''stream handler for %q is already registered'' [streamType]))
               else (s\<lparr> cn_streamHandlers := (cn_streamHandlers s)(streamType \<mapsto> h) \<rparr>, None))"

definition beginWork :: "('h, 's) rpcConnection \<Rightarrow> ('h, 's) rpcConnection \<times> bool" where
  "beginWork s =
     (if cn_state s \<noteq> connectionServing then (s, False) else (s\<lparr> cn_work := cn_work s + 1 \<rparr>, True))"

definition work_Done :: "('h, 's) rpcConnection \<Rightarrow> ('h, 's) rpcConnection" where
  "work_Done s = s\<lparr> cn_work := cn_work s - 1 \<rparr>"

definition fail :: "('h, 's) rpcConnection \<Rightarrow> go_error \<Rightarrow> ('h, 's) rpcConnection" where
  "fail s err = (case cn_fatal s of None \<Rightarrow> s\<lparr> cn_fatal := Some err \<rparr> | Some _ \<Rightarrow> s)"

definition conn_shutdown :: "('h, 's) rpcConnection \<Rightarrow> ('h, 's) rpcConnection" where
  "conn_shutdown s =
     (if cn_state s = connectionClosing \<or> cn_state s = connectionClosed then s
      else s\<lparr> cn_state := connectionClosing, cn_canceled := True, cn_transportClosed := cn_transportClosed s + 1 \<rparr>)"

definition Connection_Close :: "('h, 's) rpcConnection \<Rightarrow> ('h, 's) rpcConnection" where
  "Connection_Close s = conn_shutdown s"

text \<open>\<open>Go\<close> starts the function; \<open>Go_end\<close> is its return with the given error.\<close>

definition Connection_Go :: "('h, 's) rpcConnection \<Rightarrow> ('h, 's) rpcConnection \<times> go_error option" where
  "Connection_Go s = (case beginWork s of (s1, False) \<Rightarrow> (s1, Some ErrConnectionClosed) | (s1, True) \<Rightarrow> (s1, None))"

definition Go_end :: "('h, 's) rpcConnection \<Rightarrow> go_error option \<Rightarrow> ('h, 's) rpcConnection" where
  "Go_end s err = work_Done (case err of None \<Rightarrow> s | Some e \<Rightarrow> fail s e)"

section \<open>Serve\<close>

text \<open>
  \<^verbatim>\<open>Serve\<close> in three parts: the start, the select that ends serving (the context, the
  end of the SPDY connection, or a fatal error) with the shutdown, and the return
  after the wait group is empty.
\<close>

definition Serve_start :: "('h, 's) rpcConnection \<Rightarrow> ('h, 's) rpcConnection \<times> go_error option" where
  "Serve_start s =
     (if cn_state s \<noteq> connectionNew then (s, Some ErrConnectionStarted)
      else (s\<lparr> cn_state := connectionServing \<rparr>, None))"

datatype serveWake = WakeContext | WakeSpdyClosed | WakeFatal

definition ctx_Err :: "('h, 's) rpcConnection \<Rightarrow> go_error option" where
  "ctx_Err s = (if cn_canceled s then Some ContextCanceled else None)"

definition Serve_stop :: "('h, 's) rpcConnection \<Rightarrow> serveWake \<Rightarrow> ('h, 's) rpcConnection" where
  "Serve_stop s wake =
     (case wake of
        WakeContext \<Rightarrow> conn_shutdown (s\<lparr> cn_stopped := Some (ctx_Err s) \<rparr>)
      | WakeSpdyClosed \<Rightarrow> conn_shutdown (s\<lparr> cn_stopped := Some (ctx_Err s) \<rparr>)
      | WakeFatal \<Rightarrow> conn_shutdown (s\<lparr> cn_stopped := Some (cn_fatal s), cn_fatal := None \<rparr>))"

definition Serve_return :: "('h, 's) rpcConnection \<Rightarrow> ('h, 's) rpcConnection" where
  "Serve_return s = s\<lparr> cn_state := connectionClosed, cn_returned := True \<rparr>"

section \<open>Streams of the peer\<close>

text \<open>What happens to a stream: it is reset, answered and handed to a goroutine, or to a handler.\<close>

datatype 's streamFate =
    StreamReset
  | RPCServed
  | HandedTo 's

definition handleRPCStream ::
  "('h, 's) rpcConnection \<Rightarrow> bool \<Rightarrow> ('h, 's) rpcConnection \<times> 's streamFate" where
  "handleRPCStream s replyOk =
     (case beginWork s of
        (s1, False) \<Rightarrow> (s1, StreamReset)
      | (s1, True) \<Rightarrow> if replyOk then (s1, RPCServed) else (work_Done s1, StreamReset))"

text \<open>A stream handler returns whether it kept the stream.\<close>

definition handleDataStream ::
  "('h, 's) rpcConnection \<Rightarrow> string \<Rightarrow> bool \<Rightarrow> ('s \<Rightarrow> go_error option) \<Rightarrow> 's streamFate" where
  "handleDataStream s streamType replyOk run =
     (case cn_streamHandlers s streamType of
        None \<Rightarrow> StreamReset
      | Some handler \<Rightarrow>
          if \<not> replyOk then StreamReset
          else case run handler of None \<Rightarrow> HandedTo handler | Some _ \<Rightarrow> StreamReset)"

definition newSPDYStream ::
  "('h, 's) rpcConnection \<Rightarrow> (string \<rightharpoonup> string) \<Rightarrow> bool \<Rightarrow> ('s \<Rightarrow> go_error option)
     \<Rightarrow> ('h, 's) rpcConnection \<times> 's streamFate" where
  "newSPDYStream s headers replyOk run =
     (let streamType = (case headers StreamTypeHeader of None \<Rightarrow> [] | Some t \<Rightarrow> t)
      in if streamType = StreamTypeControl then handleRPCStream s replyOk
         else (s, handleDataStream s streamType replyOk run))"

text \<open>
  \<open>serveRPC\<close> on the document read from the stream (or the error of reading it):
  the document it answers with, if any.  \<open>handle\<close> runs a handler on a payload.
\<close>

definition serveRPC ::
  "(go_error \<Rightarrow> string) \<Rightarrow> ('h, 's) rpcConnection \<Rightarrow> ('h \<Rightarrow> RawMessage \<Rightarrow> anyValue result) \<Rightarrow> json result
     \<Rightarrow> json option" where
  "serveRPC errorText s handle input =
     (case bind_result input decode_request of
        Inl err \<Rightarrow> if err = IoEOF then None else Some (encode_response (newRPCErrorResponse errorText err))
      | Inr request \<Rightarrow>
          (case cn_handlers s (rq_Method request) of
             None \<Rightarrow> Some (encode_response (newRPCErrorResponse errorText
                       (Errorf ''unsupported RPC method %q'' [rq_Method request])))
           | Some handler \<Rightarrow>
               (case handle handler (rq_Payload request) of
                  Inl err \<Rightarrow> Some (encode_response (newRPCErrorResponse errorText err))
                | Inr payload \<Rightarrow>
                    Some (encode_response
                      (case newRPCResponse payload of
                         Inl err \<Rightarrow> newRPCErrorResponse errorText err
                       | Inr response \<Rightarrow> response)))))"

definition serveRPC_end :: "('h, 's) rpcConnection \<Rightarrow> ('h, 's) rpcConnection" where
  "serveRPC_end s = work_Done s"

section \<open>Calls\<close>

text \<open>What a caller waits for: the answer or the error of reading it, its own context, or the connection's.\<close>

datatype callWake = CallAnswer "json result" | CallContext go_error | CallConnectionDone

definition CreateStream :: "go_error option \<Rightarrow> go_error option \<Rightarrow> unit result" where
  "CreateStream createErr waitErr =
     (case createErr of
        Some err \<Rightarrow> Inl err
      | None \<Rightarrow> (case waitErr of Some err \<Rightarrow> Inl err | None \<Rightarrow> Inr ()))"

text \<open>\<open>Call\<close>: \<open>stream\<close> is the outcome of \<^verbatim>\<open>CreateStream\<close>, \<open>writeErr\<close> the error of sending the
  request and \<open>wait\<close> what the request is answered by.\<close>

definition Connection_Call ::
  "string \<Rightarrow> anyValue \<Rightarrow> (json \<Rightarrow> 'a \<Rightarrow> 'a result) option \<Rightarrow> 'a \<Rightarrow> unit result \<Rightarrow> go_error option \<Rightarrow>
   (json \<Rightarrow> callWake) \<Rightarrow> 'a result" where
  "Connection_Call mthd payload out old stream writeErr wait =
     (if mthd = [] then Inl (Errorf ''RPC method is required'' [])
      else bind_result stream (\<lambda>_.
        bind_result (newRPCRequest mthd payload) (\<lambda>request.
          case writeErr of
            Some err \<Rightarrow> Inl err
          | None \<Rightarrow>
              (case wait (encode_request request) of
                 CallAnswer answer \<Rightarrow>
                   bind_result (bind_result answer decode_response) (\<lambda>response.
                     decodeRPCResponse mthd response out old)
               | CallContext err \<Rightarrow> Inl err
               | CallConnectionDone \<Rightarrow> Inl ErrConnectionClosed))))"

end
