(* ===== verification/HelperForward.thy ===== *)
theory HelperForward
  imports SpdyRpc
begin

text \<open>
  Remote and agent forwarding between the gateway and the helper process
  (\<^verbatim>\<open>pkg/podssh/backend/helper\<close>): the client side with its listeners (\<^verbatim>\<open>client.go\<close>,
  \<^verbatim>\<open>remote_forward.go\<close>, \<^verbatim>\<open>agent_forward.go\<close>) and the services of the helper, and the
  adapters \<^verbatim>\<open>stdio.go\<close>, \<^verbatim>\<open>dial.go\<close> and \<^verbatim>\<open>server.go\<close>.

  A stream is identified by a number.  Operations that reset streams return them.
  Pointers to listeners are numbers too, and the listeners ever created are kept in
  a heap.  A call that is answered by the peer is split in two operations, before and after the
  answer, so that other operations can come in between.
\<close>

section \<open>Messages\<close>

record remoteListenResponse =
  lr_Bind :: string
  lr_ActualBind :: string
  lr_ActualPort :: nat

record ConnectionInfo =
  ci_Bind :: string
  ci_RequestedBind :: string
  ci_OriginHost :: string
  ci_OriginPort :: nat

record remoteIncoming =
  ri_stream :: nat
  ri_info :: ConnectionInfo

text \<open>
  The documents of the calls.  Addresses and socket paths are taken as UTF-8, so that they are the
  texts of their documents.
\<close>

definition bind_request :: "string \<Rightarrow> json" where
  "bind_request b = JObject [(''bind'', JString b)]"

definition decode_bind :: "json \<Rightarrow> string result" where
  "decode_bind doc = bind_result (json_members doc) (\<lambda>members. json_string members ''bind'' [])"

definition encode_listenResponse :: "remoteListenResponse \<Rightarrow> json" where
  "encode_listenResponse r =
     JObject [(''bind'', JString (lr_Bind r)), (''actualBind'', JString (lr_ActualBind r)),
              (''actualPort'', JNumber (int (lr_ActualPort r)))]"

definition decode_listenResponse :: "json \<Rightarrow> remoteListenResponse \<Rightarrow> remoteListenResponse result" where
  "decode_listenResponse doc old =
     bind_result (json_members doc) (\<lambda>members.
     bind_result (json_string members ''bind'' (lr_Bind old)) (\<lambda>b.
     bind_result (json_string members ''actualBind'' (lr_ActualBind old)) (\<lambda>a.
     bind_result (json_uint32 members ''actualPort'' (lr_ActualPort old)) (\<lambda>p.
       Inr \<lparr> lr_Bind = b, lr_ActualBind = a, lr_ActualPort = p \<rparr>))))"

definition remoteConnectionHeaders :: "string \<Rightarrow> string \<Rightarrow> string \<Rightarrow> string \<Rightarrow> (string \<rightharpoonup> string)" where
  "remoteConnectionHeaders b requestedBind originHost originPort =
     [StreamTypeHeader \<mapsto> ''remote-forward.connection'', ''remoteForwardBind'' \<mapsto> b,
      ''remoteForwardRequestedBind'' \<mapsto> requestedBind, ''originHost'' \<mapsto> originHost, ''originPort'' \<mapsto> originPort]"

text \<open>\<^verbatim>\<open>http.Header.Get\<close> returns the empty string for a missing header.\<close>

definition header_Get :: "(string \<rightharpoonup> string) \<Rightarrow> string \<Rightarrow> string" where
  "header_Get headers key = (case headers key of None \<Rightarrow> [] | Some v \<Rightarrow> v)"

definition remoteConnectionHeaderValues :: "(string \<rightharpoonup> string) \<Rightarrow> string \<times> string \<times> string \<times> string" where
  "remoteConnectionHeaderValues headers =
     (header_Get headers ''remoteForwardBind'', header_Get headers ''remoteForwardRequestedBind'',
      header_Get headers ''originHost'', header_Get headers ''originPort'')"

text \<open>\<^verbatim>\<open>strconv.ParseUint(s, 10, 32)\<close>.\<close>

definition ParseUint32 :: "string \<Rightarrow> nat option" where
  "ParseUint32 s = (case parse_nat s of None \<Rightarrow> None | Some n \<Rightarrow> if n < 2 ^ 32 then Some n else None)"

definition remoteIncomingFromStream :: "nat \<Rightarrow> (string \<rightharpoonup> string) \<Rightarrow> remoteIncoming result" where
  "remoteIncomingFromStream stream headers =
     (case remoteConnectionHeaderValues headers of
        (b, requestedBind, originHost, originPortText) \<Rightarrow>
          (case ParseUint32 originPortText of
             None \<Rightarrow> Inl (Wrap ''invalid origin port %q: %w'' [originPortText] (Errorf ''strconv.ParseUint'' [originPortText]))
           | Some originPort \<Rightarrow>
               Inr \<lparr> ri_stream = stream,
                     ri_info = \<lparr> ci_Bind = b, ci_RequestedBind = requestedBind, ci_OriginHost = originHost,
                                 ci_OriginPort = originPort \<rparr> \<rparr>))"

section \<open>Listeners of the client\<close>

abbreviation ErrClientClosed :: go_error where
  "ErrClientClosed \<equiv> ErrConnectionClosed"

record RemoteListener =
  rl_actualBind :: string
  rl_actualPort :: nat
  rl_incoming :: "remoteIncoming list"
  rl_closed :: bool
  rl_closeErr :: "go_error option"
  rl_canceled :: bool
  rl_cancelErr :: "go_error option"

definition new_RemoteListener :: RemoteListener where
  "new_RemoteListener =
     \<lparr> rl_actualBind = [], rl_actualPort = 0, rl_incoming = [], rl_closed = False, rl_closeErr = None,
       rl_canceled = False, rl_cancelErr = None \<rparr>"

text \<open>What \<^verbatim>\<open>Accept\<close> does on one pass of its loop: return a stream, return an error, or wait.\<close>

datatype 'a acceptOutcome = Accepted 'a | AcceptFailed go_error | AcceptWaits

definition RemoteListener_Accept ::
  "RemoteListener \<Rightarrow> go_error option \<Rightarrow> bool \<Rightarrow> RemoteListener \<times> remoteIncoming acceptOutcome" where
  "RemoteListener_Accept f ctxErr helperClosed =
     (case rl_incoming f of
        incoming # rest \<Rightarrow> (f\<lparr> rl_incoming := rest \<rparr>, Accepted incoming)
      | [] \<Rightarrow>
          (f, case ctxErr of
                Some err \<Rightarrow> AcceptFailed err
              | None \<Rightarrow>
                  (case (rl_closed f, rl_closeErr f) of
                     (True, Some err) \<Rightarrow> AcceptFailed err
                   | _ \<Rightarrow>
                       if helperClosed then AcceptFailed ErrClientClosed
                       else if rl_closed f then AcceptFailed ContextCanceled
                       else AcceptWaits)))"

definition RemoteListener_deliver ::
  "RemoteListener \<Rightarrow> bool \<Rightarrow> remoteIncoming \<Rightarrow> RemoteListener \<times> remoteIncoming list" where
  "RemoteListener_deliver f helperClosed incoming =
     (if rl_closed f then (f, [incoming])
      else if helperClosed then (f, [incoming])
      else (f\<lparr> rl_incoming := rl_incoming f @ [incoming] \<rparr>, []))"

definition RemoteListener_closeLocal ::
  "RemoteListener \<Rightarrow> go_error \<Rightarrow> RemoteListener \<times> remoteIncoming list" where
  "RemoteListener_closeLocal f err =
     (if rl_closed f then (f, [])
      else (f\<lparr> rl_closed := True, rl_closeErr := Some err, rl_incoming := [] \<rparr>, rl_incoming f))"

record AgentListener =
  al_socketPath :: string
  al_incoming :: "nat list"
  al_closed :: bool
  al_closeErr :: "go_error option"
  al_canceled :: bool
  al_cancelErr :: "go_error option"

definition newAgentListener :: AgentListener where
  "newAgentListener =
     \<lparr> al_socketPath = [], al_incoming = [], al_closed = False, al_closeErr = None, al_canceled = False,
       al_cancelErr = None \<rparr>"

definition AgentListener_Accept ::
  "AgentListener \<Rightarrow> go_error option \<Rightarrow> bool \<Rightarrow> AgentListener \<times> nat acceptOutcome" where
  "AgentListener_Accept f ctxErr helperClosed =
     (case al_incoming f of
        stream # rest \<Rightarrow> (f\<lparr> al_incoming := rest \<rparr>, Accepted stream)
      | [] \<Rightarrow>
          (f, case ctxErr of
                Some err \<Rightarrow> AcceptFailed err
              | None \<Rightarrow>
                  (case (al_closed f, al_closeErr f) of
                     (True, Some err) \<Rightarrow> AcceptFailed err
                   | _ \<Rightarrow>
                       if helperClosed then AcceptFailed ErrClientClosed
                       else if al_closed f then AcceptFailed ContextCanceled
                       else AcceptWaits)))"

definition AgentListener_deliver :: "AgentListener \<Rightarrow> bool \<Rightarrow> nat \<Rightarrow> AgentListener \<times> nat list" where
  "AgentListener_deliver f helperClosed stream =
     (if al_closed f then (f, [stream])
      else if helperClosed then (f, [stream])
      else (f\<lparr> al_incoming := al_incoming f @ [stream] \<rparr>, []))"

definition AgentListener_closeLocal :: "AgentListener \<Rightarrow> go_error \<Rightarrow> AgentListener \<times> nat list" where
  "AgentListener_closeLocal f err =
     (if al_closed f then (f, [])
      else (f\<lparr> al_closed := True, al_closeErr := Some err, al_incoming := [] \<rparr>, al_incoming f))"

section \<open>The client\<close>

text \<open>
  \<open>hc_forwards\<close> and \<open>hc_agent\<close> are the registries of \<^verbatim>\<open>remoteForwardClient\<close> and
  \<^verbatim>\<open>agentForwardClient\<close>; \<open>hc_remotes\<close> and \<open>hc_agents\<close> the heaps of listeners;
  \<open>hc_pending\<close> the remote listeners whose listen call is in flight, with the bind requested,
  \<open>hc_pendingAgents\<close> the same for agent listeners;
  \<open>hc_remotesClosed\<close> and \<open>hc_agentsClosed\<close> how far \<^verbatim>\<open>Close\<close> has come.  Three logs tell what became of the
  streams of the peer: \<open>hc_arrived\<close>, \<open>hc_taken\<close> (returned by \<^verbatim>\<open>Accept\<close>) and \<open>hc_resets\<close>.
\<close>

record helperClient =
  hc_closed :: bool
  hc_remotesClosed :: bool
  hc_agentsClosed :: bool
  hc_forwards :: "string \<rightharpoonup> nat"
  hc_agent :: "nat option"
  hc_remotes :: "nat \<rightharpoonup> RemoteListener"
  hc_agents :: "nat \<rightharpoonup> AgentListener"
  hc_next :: nat
  hc_pending :: "nat \<rightharpoonup> string"
  hc_pendingAgents :: "nat set"
  hc_arrived :: "nat list"
  hc_taken :: "nat list"
  hc_resets :: "nat list"

definition new_helperClient :: helperClient where
  "new_helperClient =
     \<lparr> hc_closed = False, hc_remotesClosed = False, hc_agentsClosed = False, hc_forwards = Map.empty, hc_agent = None, hc_remotes = Map.empty, hc_agents = Map.empty,
       hc_next = 0, hc_pending = Map.empty, hc_pendingAgents = {}, hc_arrived = [], hc_taken = [], hc_resets = [] \<rparr>"

text \<open>\<open>Client.call\<close> maps the error of a call.\<close>

definition Client_call :: "helperClient \<Rightarrow> 'a result \<Rightarrow> 'a result" where
  "Client_call c outcome =
     (case outcome of
        Inr x \<Rightarrow> Inr x
      | Inl err \<Rightarrow>
          if hc_closed c then Inl ErrClientClosed
          else if errors_is err IoEOF \<or> errors_is err (External ''io: read/write on closed pipe'') \<or>
                  errors_is err ErrConnectionClosed
          then Inl ErrClientClosed
          else Inl err)"

text \<open>Closing a listener of the heap and resetting what it had queued.\<close>

definition close_remote :: "nat \<Rightarrow> go_error \<Rightarrow> helperClient \<Rightarrow> helperClient" where
  "close_remote i err c =
     (case hc_remotes c i of
        None \<Rightarrow> c
      | Some f \<Rightarrow>
          (case RemoteListener_closeLocal f err of
             (f', pending) \<Rightarrow>
               c\<lparr> hc_remotes := (hc_remotes c)(i \<mapsto> f'), hc_resets := hc_resets c @ map ri_stream pending \<rparr>))"

definition close_agent :: "nat \<Rightarrow> go_error \<Rightarrow> helperClient \<Rightarrow> helperClient" where
  "close_agent i err c =
     (case hc_agents c i of
        None \<Rightarrow> c
      | Some f \<Rightarrow>
          (case AgentListener_closeLocal f err of
             (f', pending) \<Rightarrow>
               c\<lparr> hc_agents := (hc_agents c)(i \<mapsto> f'), hc_resets := hc_resets c @ pending \<rparr>))"

definition add_forward :: "string \<Rightarrow> nat \<Rightarrow> helperClient \<Rightarrow> helperClient \<times> bool" where
  "add_forward b i c =
     (if hc_forwards c b \<noteq> None then (c, False)
      else (c\<lparr> hc_forwards := (hc_forwards c)(b \<mapsto> i) \<rparr>, True))"

definition removeIfMatch :: "string \<Rightarrow> nat \<Rightarrow> helperClient \<Rightarrow> helperClient" where
  "removeIfMatch b i c =
     (if hc_forwards c b = Some i then c\<lparr> hc_forwards := (hc_forwards c)(b := None) \<rparr> else c)"

definition rekey :: "string \<Rightarrow> string \<Rightarrow> nat \<Rightarrow> helperClient \<Rightarrow> helperClient \<times> bool" where
  "rekey oldBind newBind i c =
     (if hc_forwards c oldBind \<noteq> Some i then (c, False)
      else
        let forwards = (if oldBind \<noteq> newBind then (hc_forwards c)(oldBind := None) else hc_forwards c)
        in (c\<lparr> hc_forwards := forwards(newBind \<mapsto> i) \<rparr>, True))"

definition removeForward :: "nat \<Rightarrow> helperClient \<Rightarrow> helperClient" where
  "removeForward i c =
     c\<lparr> hc_forwards := (\<lambda>b. if hc_forwards c b = Some i then None else hc_forwards c b) \<rparr>"

text \<open>\<open>Listen\<close> before its call: a listener is registered under the requested bind.\<close>

definition Listen_begin :: "string \<Rightarrow> nat \<Rightarrow> helperClient \<Rightarrow> helperClient \<times> nat result" where
  "Listen_begin host port c =
     (let b = JoinHostPort host (format_nat port);
          i = hc_next c;
          c1 = c\<lparr> hc_next := Suc i, hc_remotes := (hc_remotes c)(i \<mapsto> new_RemoteListener) \<rparr>
      in case add_forward b i c1 of
           (_, False) \<Rightarrow> (c, Inl (Errorf ''remote-forward listener already exists for %s'' [b]))
         | (c2, True) \<Rightarrow> (c2\<lparr> hc_pending := (hc_pending c2)(i \<mapsto> b) \<rparr>, Inr i))"

text \<open>\<open>Listen\<close> after its call, with the listener and the bind requested.\<close>

definition Listen_end ::
  "nat \<Rightarrow> string \<Rightarrow> remoteListenResponse result \<Rightarrow> helperClient \<Rightarrow> helperClient \<times> nat result" where
  "Listen_end i b outcome c0 =
     (let c = c0\<lparr> hc_pending := (hc_pending c0)(i := None) \<rparr>
      in case Client_call c outcome of
           Inl err \<Rightarrow> (close_remote i err (removeIfMatch b i c), Inl err)
         | Inr response \<Rightarrow>
             let c1 = c\<lparr> hc_remotes := (hc_remotes c)(i := map_option
                          (\<lambda>f. f\<lparr> rl_actualBind := lr_ActualBind response, rl_actualPort := lr_ActualPort response \<rparr>)
                          (hc_remotes c i)) \<rparr>
             in case rekey b (lr_ActualBind response) i c1 of
                  (_, False) \<Rightarrow> (close_remote i ContextCanceled c1, Inl (Errorf ''remote-forward listener closed'' []))
                | (c2, True) \<Rightarrow> (c2, Inr i))"

text \<open>\<open>dispatch\<close> of a stream the peer opened; a stream nobody listens for is reset.\<close>

definition remote_dispatch :: "remoteIncoming \<Rightarrow> helperClient \<Rightarrow> helperClient" where
  "remote_dispatch incoming c =
     (case (case hc_forwards c (ci_Bind (ri_info incoming)) of
              Some i \<Rightarrow> Some i
            | None \<Rightarrow> hc_forwards c (ci_RequestedBind (ri_info incoming))) of
        None \<Rightarrow> c\<lparr> hc_resets := hc_resets c @ [ri_stream incoming] \<rparr>
      | Some i \<Rightarrow>
          (case hc_remotes c i of
             None \<Rightarrow> c
           | Some f \<Rightarrow>
               (case RemoteListener_deliver f (hc_closed c) incoming of
                  (f', resets) \<Rightarrow>
                    c\<lparr> hc_remotes := (hc_remotes c)(i \<mapsto> f'),
                       hc_resets := hc_resets c @ map ri_stream resets \<rparr>)))"

text \<open>\<open>handleRemoteStream\<close>: a stream with a bad header is refused, and the RPC layer resets it.\<close>

definition handleRemoteStream :: "nat \<Rightarrow> (string \<rightharpoonup> string) \<Rightarrow> helperClient \<Rightarrow> helperClient" where
  "handleRemoteStream stream headers c0 =
     (let c = c0\<lparr> hc_arrived := hc_arrived c0 @ [stream] \<rparr>
      in case remoteIncomingFromStream stream headers of
           Inl err \<Rightarrow> c\<lparr> hc_resets := hc_resets c @ [stream] \<rparr>
         | Inr incoming \<Rightarrow> remote_dispatch incoming c)"

definition remote_Accept :: "nat \<Rightarrow> go_error option \<Rightarrow> helperClient \<Rightarrow> helperClient" where
  "remote_Accept i ctxErr c =
     (case hc_remotes c i of
        None \<Rightarrow> c
      | Some f \<Rightarrow>
          (case RemoteListener_Accept f ctxErr (hc_closed c) of
             (f', Accepted incoming) \<Rightarrow>
               c\<lparr> hc_remotes := (hc_remotes c)(i \<mapsto> f'), hc_taken := hc_taken c @ [ri_stream incoming] \<rparr>
           | (f', _) \<Rightarrow> c))"

text \<open>\<open>Cancel\<close> runs once; \<open>outcome\<close> is the answer to its stop call.\<close>

definition remote_Cancel :: "nat \<Rightarrow> unit result \<Rightarrow> helperClient \<Rightarrow> helperClient \<times> go_error option" where
  "remote_Cancel i outcome c =
     (case hc_remotes c i of
        None \<Rightarrow> (c, None)
      | Some f \<Rightarrow>
          if rl_canceled f then (c, rl_cancelErr f)
          else
            let c1 = close_remote i ContextCanceled (removeForward i c);
                cancelErr = (case Client_call c1 outcome of
                               Inr _ \<Rightarrow> None
                             | Inl err \<Rightarrow> if errors_is err ErrClientClosed then None else Some err)
            in (c1\<lparr> hc_remotes := (hc_remotes c1)(i := map_option
                      (\<lambda>f. f\<lparr> rl_canceled := True, rl_cancelErr := cancelErr \<rparr>) (hc_remotes c1 i)) \<rparr>, cancelErr))"

subsection \<open>Agent listeners\<close>

definition agent_Listen_begin :: "helperClient \<Rightarrow> helperClient \<times> nat result" where
  "agent_Listen_begin c =
     (if hc_agent c \<noteq> None then (c, Inl (Errorf ''agent-forward listener already exists'' []))
      else
        let i = hc_next c
        in (c\<lparr> hc_next := Suc i, hc_agents := (hc_agents c)(i \<mapsto> newAgentListener), hc_agent := Some i,
               hc_pendingAgents := insert i (hc_pendingAgents c) \<rparr>, Inr i))"

definition agent_removeIfMatch :: "nat \<Rightarrow> helperClient \<Rightarrow> helperClient" where
  "agent_removeIfMatch i c = (if hc_agent c = Some i then c\<lparr> hc_agent := None \<rparr> else c)"

definition agent_Listen_end :: "nat \<Rightarrow> string result \<Rightarrow> helperClient \<Rightarrow> helperClient \<times> nat result" where
  "agent_Listen_end i outcome c0 =
     (let c = c0\<lparr> hc_pendingAgents := hc_pendingAgents c0 - {i} \<rparr>
      in case Client_call c outcome of
           Inl err \<Rightarrow> (close_agent i err (agent_removeIfMatch i c), Inl err)
         | Inr socketPath \<Rightarrow>
             (c\<lparr> hc_agents := (hc_agents c)(i := map_option (\<lambda>f. f\<lparr> al_socketPath := socketPath \<rparr>) (hc_agents c i)) \<rparr>,
              Inr i))"

definition agent_dispatch :: "nat \<Rightarrow> helperClient \<Rightarrow> helperClient" where
  "agent_dispatch stream c =
     (case hc_agent c of
        None \<Rightarrow> c\<lparr> hc_resets := hc_resets c @ [stream] \<rparr>
      | Some i \<Rightarrow>
          (case hc_agents c i of
             None \<Rightarrow> c
           | Some f \<Rightarrow>
               (case AgentListener_deliver f (hc_closed c) stream of
                  (f', resets) \<Rightarrow>
                    c\<lparr> hc_agents := (hc_agents c)(i \<mapsto> f'), hc_resets := hc_resets c @ resets \<rparr>)))"

definition handleAgentStream :: "nat \<Rightarrow> helperClient \<Rightarrow> helperClient" where
  "handleAgentStream stream c = agent_dispatch stream (c\<lparr> hc_arrived := hc_arrived c @ [stream] \<rparr>)"

definition agent_Accept :: "nat \<Rightarrow> go_error option \<Rightarrow> helperClient \<Rightarrow> helperClient" where
  "agent_Accept i ctxErr c =
     (case hc_agents c i of
        None \<Rightarrow> c
      | Some f \<Rightarrow>
          (case AgentListener_Accept f ctxErr (hc_closed c) of
             (f', Accepted stream) \<Rightarrow>
               c\<lparr> hc_agents := (hc_agents c)(i \<mapsto> f'), hc_taken := hc_taken c @ [stream] \<rparr>
           | (f', _) \<Rightarrow> c))"

definition agent_Cancel :: "nat \<Rightarrow> unit result \<Rightarrow> helperClient \<Rightarrow> helperClient \<times> go_error option" where
  "agent_Cancel i outcome c =
     (case hc_agents c i of
        None \<Rightarrow> (c, None)
      | Some f \<Rightarrow>
          if al_canceled f then (c, al_cancelErr f)
          else
            let c1 = close_agent i ContextCanceled (agent_removeIfMatch i c);
                cancelErr = (case Client_call c1 outcome of
                               Inr _ \<Rightarrow> None
                             | Inl err \<Rightarrow> if errors_is err ErrClientClosed then None else Some err)
            in (c1\<lparr> hc_agents := (hc_agents c1)(i := map_option
                      (\<lambda>f. f\<lparr> al_canceled := True, al_cancelErr := cancelErr \<rparr>) (hc_agents c1 i)) \<rparr>, cancelErr))"

subsection \<open>Closing the client\<close>

text \<open>
  \<open>Close\<close> closes the channel \<open>closed\<close>, then the remote listeners, then the agent listener; other
  operations may come in between.  \<open>keys\<close> are the keys of the registry in the order of the
  iteration over the map.
\<close>

definition Client_Close_begin :: "helperClient \<Rightarrow> helperClient" where
  "Client_Close_begin c = c\<lparr> hc_closed := True \<rparr>"

definition remote_close :: "string list \<Rightarrow> helperClient \<Rightarrow> helperClient" where
  "remote_close keys c =
     fold (\<lambda>i. close_remote i ErrClientClosed) (List.map_filter (hc_forwards c) keys)
       (c\<lparr> hc_forwards := Map.empty, hc_remotesClosed := True \<rparr>)"

definition agent_close :: "helperClient \<Rightarrow> helperClient" where
  "agent_close c =
     (let c1 = c\<lparr> hc_agent := None, hc_agentsClosed := True \<rparr>
      in case hc_agent c of None \<Rightarrow> c1 | Some i \<Rightarrow> close_agent i ErrClientClosed c1)"

definition Client_Close :: "string list \<Rightarrow> helperClient \<Rightarrow> helperClient" where
  "Client_Close keys c =
     (if hc_closed c then c else agent_close (remote_close keys (Client_Close_begin c)))"

end
