(* ===== verification/SpdyRpcLaws.thy ===== *)
theory SpdyRpcLaws
  imports SpdyRpc Machines
begin

text \<open>
  Correctness of the RPC layer: messages survive their encoding, a call returns what the
  peer's handler returned, and \<^verbatim>\<open>Serve\<close> returns only when all work of the connection has ended.
\<close>

section \<open>Messages\<close>

lemma json_text_ascii: "list_all (byte_in 0 127) s \<Longrightarrow> json_text s = s"
  by (induction s) (simp_all add: utf8_len_def)

lemma decode_encode_request [simp]:
  "decode_request (encode_request r) = Inr (r\<lparr> rq_Method := json_text (rq_Method r) \<rparr>)"
  by (cases r) (simp add: decode_request_def encode_request_def json_members_def json_string_def json_field_def
      split: option.split)

lemma decode_encode_response [simp]:
  "decode_response (encode_response r) = Inr (r\<lparr> rs_Error := json_text (rs_Error r) \<rparr>)"
  by (cases r) (simp add: decode_response_def encode_response_def json_members_def json_string_def json_bool_def
      json_field_def split: option.split)

text \<open>The answer the peer gives to a request document, as the caller waits for it.\<close>

definition peer_answer ::
  "(go_error \<Rightarrow> string) \<Rightarrow> ('h, 's) rpcConnection \<Rightarrow> ('h \<Rightarrow> RawMessage \<Rightarrow> anyValue result) \<Rightarrow> json \<Rightarrow> callWake" where
  "peer_answer errorText peer handle doc =
     (case serveRPC errorText peer handle (Inr doc) of
        None \<Rightarrow> CallConnectionDone
      | Some answer \<Rightarrow> CallAnswer (Inr answer))"

text \<open>
  C22. A call returns what the peer's handler returned.  For a call whose stream is
  created and whose request is sent, with or without a payload, the result is the one of the
  handler registered for the method on the request's payload: its value decoded into the caller's
  variable (left alone when there is none), its error, or the error of encoding its value, wrapped
  in the RPC error; a method without a handler is an error, and so is a payload that cannot be
  encoded.  Method names and error texts arrive as JSON texts, in which bytes that are not UTF-8 are
  replaced.
\<close>

theorem rpc_call_exact:
  assumes "mthd \<noteq> []"
  shows "Connection_Call mthd payload out old (Inr ()) None (peer_answer eT peer handle) =
    (case payload of
       Some (Inl err) \<Rightarrow> Inl err
     | _ \<Rightarrow>
       (case cn_handlers peer (json_text mthd) of
          None \<Rightarrow> Inl (Errorf ''RPC request %q failed: %s''
                    [mthd, json_text (eT (Errorf ''unsupported RPC method %q'' [json_text mthd]))])
        | Some h \<Rightarrow>
            (case handle h (case payload of Some (Inr doc) \<Rightarrow> Some doc | _ \<Rightarrow> None) of
               Inl err \<Rightarrow> Inl (Errorf ''RPC request %q failed: %s'' [mthd, json_text (eT err)])
             | Inr None \<Rightarrow> Inr old
             | Inr (Some (Inl err)) \<Rightarrow> Inl (Errorf ''RPC request %q failed: %s'' [mthd, json_text (eT err)])
             | Inr (Some (Inr value)) \<Rightarrow> (case out of None \<Rightarrow> Inr old | Some unmarshal \<Rightarrow> unmarshal value old))))"
  using assms
  by (auto simp: Connection_Call_def newRPCRequest_def peer_answer_def serveRPC_def decodeRPCResponse_def
      newRPCErrorResponse_def newRPCResponse_def split: option.split sum.split)

text \<open>A peer whose method answers with the payload, or with \<^verbatim>\<open>true\<close> when there is none.\<close>

definition echo_handler :: "unit \<Rightarrow> RawMessage \<Rightarrow> anyValue result" where
  "echo_handler _ payload = Inr (Some (Inr (case payload of None \<Rightarrow> JBool True | Some doc \<Rightarrow> doc)))"

definition echo_peer :: "(unit, unit) rpcConnection" where
  "echo_peer = fst (Register newConnection ''echo'' (Some ()))"

theorem rpc_call_exact_witness:
  "Connection_Call ''echo'' (Some (Inr (JNumber 7))) (Some (\<lambda>d _. Inr d)) JNull (Inr ()) None
     (peer_answer (\<lambda>_. []) echo_peer echo_handler) = Inr (JNumber 7) \<and>
   Connection_Call ''echo'' None (Some (\<lambda>d _. Inr d)) JNull (Inr ()) None
     (peer_answer (\<lambda>_. []) echo_peer echo_handler) = Inr (JBool True)"
proof -
  have t: "json_text ''echo'' = ''echo''" by (rule json_text_ascii) (simp add: byte_in_def)
  have h: "cn_handlers echo_peer ''echo'' = Some ()" by (simp add: echo_peer_def Register_def newConnection_def)
  show ?thesis
    using rpc_call_exact [of "''echo''" "Some (Inr (JNumber 7))" "Some (\<lambda>d _. Inr d)" JNull "\<lambda>_. []" echo_peer echo_handler]
      rpc_call_exact [of "''echo''" None "Some (\<lambda>d _. Inr d)" JNull "\<lambda>_. []" echo_peer echo_handler] t h
    by (simp add: echo_handler_def)
qed

section \<open>The life of a connection\<close>

text \<open>
  The machine of a connection: its record and the number of goroutines started by \<open>Go\<close> and by
  RPC streams that have not returned yet.
\<close>

inductive conn_init :: "('h, 's) rpcConnection \<times> nat \<Rightarrow> bool" where
  "conn_init (newConnection, 0)"

inductive conn_step :: "('h, 's) rpcConnection \<times> nat \<Rightarrow> ('h, 's) rpcConnection \<times> nat \<Rightarrow> bool" where
  step_register: "conn_step (s, n) (fst (Register s mthd handler), n)"
| step_register_stream: "conn_step (s, n) (fst (RegisterStreamHandler s streamType stream_handler), n)"
| step_parent_canceled: "conn_step (s, n) (s\<lparr> cn_canceled := True \<rparr>, n)"
| step_serve: "conn_step (s, n) (fst (Serve_start s), n)"
| step_go: "Connection_Go s = (t, err) \<Longrightarrow> conn_step (s, n) (t, if err = None then Suc n else n)"
| step_go_end: "conn_step (s, Suc n) (Go_end s err, n)"
| step_stream: "newSPDYStream s headers replyOk run = (t, fate) \<Longrightarrow>
    conn_step (s, n) (t, if fate = RPCServed then Suc n else n)"
| step_rpc_end: "conn_step (s, Suc n) (serveRPC_end s, n)"
| step_close: "conn_step (s, n) (Connection_Close s, n)"
| step_stop: "cn_state s \<noteq> connectionNew \<Longrightarrow> cn_stopped s = None \<Longrightarrow> conn_step (s, n) (Serve_stop s wake, n)"
| step_return: "cn_stopped s = Some err \<Longrightarrow> \<not> cn_returned s \<Longrightarrow> cn_work s = 0 \<Longrightarrow> conn_step (s, n) (Serve_return s, n)"

definition conn_closing :: "('h, 's) rpcConnection \<Rightarrow> bool" where
  "conn_closing s = (cn_state s = connectionClosing \<or> cn_state s = connectionClosed)"

definition conn_inv :: "('h, 's) rpcConnection \<times> nat \<Rightarrow> bool" where
  "conn_inv = (\<lambda>(s, n).
     cn_work s = n \<and>
     (cn_state s = connectionNew \<longrightarrow> n = 0) \<and>
     (cn_state s = connectionClosed \<longrightarrow> n = 0) \<and>
     (cn_returned s \<longleftrightarrow> cn_state s = connectionClosed) \<and>
     (cn_stopped s \<noteq> None \<longrightarrow> conn_closing s) \<and>
     (conn_closing s \<longrightarrow> cn_canceled s) \<and>
     cn_transportClosed s = (if conn_closing s then 1 else 0))"

lemma Register_frame:
  "fst (Register s m h) = s\<lparr> cn_handlers := cn_handlers (fst (Register s m h)) \<rparr>"
  "cn_state s \<noteq> connectionNew \<Longrightarrow> cn_handlers (fst (Register s m h)) = cn_handlers s"
  by (auto simp: Register_def split: option.split)

lemma RegisterStreamHandler_frame:
  "fst (RegisterStreamHandler s m h) = s\<lparr> cn_streamHandlers := cn_streamHandlers (fst (RegisterStreamHandler s m h)) \<rparr>"
  by (auto simp: RegisterStreamHandler_def split: option.split)

lemma conn_inv_frame:
  assumes "conn_inv (s, n)" "cn_work t = m" "cn_state t = cn_state s" "cn_returned t = cn_returned s"
    "cn_stopped t = cn_stopped s" "cn_canceled s \<longrightarrow> cn_canceled t" "cn_transportClosed t = cn_transportClosed s"
    "cn_state s = connectionServing \<or> m \<le> n"
  shows "conn_inv (t, m)"
  using assms by (auto simp: conn_inv_def conn_closing_def)

lemma fail_frame [simp]:
  "cn_work (fail s e) = cn_work s" "cn_state (fail s e) = cn_state s" "cn_returned (fail s e) = cn_returned s"
  "cn_stopped (fail s e) = cn_stopped s" "cn_canceled (fail s e) = cn_canceled s"
  "cn_transportClosed (fail s e) = cn_transportClosed s" "cn_handlers (fail s e) = cn_handlers s"
  by (simp_all add: fail_def split: option.split)

lemma beginWork_inv: "conn_inv (s, n) \<Longrightarrow> beginWork s = (t, ok) \<Longrightarrow> conn_inv (t, if ok then Suc n else n)"
  by (rule conn_inv_frame [of s n]) (auto simp: beginWork_def conn_inv_def split: if_splits)

lemma work_Done_inv: "conn_inv (s, Suc n) \<Longrightarrow> conn_inv (work_Done s, n)"
  by (rule conn_inv_frame [of s "Suc n"]) (auto simp: work_Done_def conn_inv_def)

lemma fail_inv: "conn_inv (s, n) \<Longrightarrow> conn_inv (fail s e, n)"
  by (rule conn_inv_frame [of s n]) (auto simp: conn_inv_def)

lemma shutdown_inv:
  "conn_inv (s, n) \<Longrightarrow> conn_inv (conn_shutdown s, n)"
  by (auto simp: conn_inv_def conn_shutdown_def conn_closing_def)

lemma shutdown_stop_inv:
  assumes "conn_inv (s, n)"
  shows "conn_inv (conn_shutdown (s\<lparr> cn_stopped := e \<rparr>), n)" "conn_inv (conn_shutdown (s\<lparr> cn_stopped := e, cn_fatal := f \<rparr>), n)"
  using assms by (auto simp: conn_inv_def conn_shutdown_def conn_closing_def)

lemma Serve_stop_inv: "conn_inv (s, n) \<Longrightarrow> conn_inv (Serve_stop s wake, n)"
  by (cases wake) (simp_all add: Serve_stop_def shutdown_stop_inv)

lemma handleRPCStream_inv:
  assumes "conn_inv (s, n)" "handleRPCStream s replyOk = (t, fate)"
  shows "conn_inv (t, if fate = RPCServed then Suc n else n)"
proof (cases "beginWork s")
  case (Pair s1 ok)
  have "conn_inv (s1, if ok then Suc n else n)" using beginWork_inv [OF assms(1) Pair] .
  then show ?thesis
    using assms(2) Pair work_Done_inv [of s1 n]
    by (auto simp: handleRPCStream_def split: if_splits bool.splits)
qed

lemma handleDataStream_not_RPC: "handleDataStream s ty replyOk run \<noteq> RPCServed"
  by (simp add: handleDataStream_def split: option.split)

lemma newSPDYStream_inv:
  assumes "conn_inv (s, n)" "newSPDYStream s headers replyOk run = (t, fate)"
  shows "conn_inv (t, if fate = RPCServed then Suc n else n)"
proof -
  consider "handleRPCStream s replyOk = (t, fate)"
    | ty where "t = s" "fate = handleDataStream s ty replyOk run"
    using assms(2) by (auto simp: newSPDYStream_def Let_def split: if_splits)
  then show ?thesis
  proof cases
    case 1
    then show ?thesis by (rule handleRPCStream_inv [OF assms(1)])
  next
    case 2
    then show ?thesis using assms(1) by (simp add: handleDataStream_not_RPC)
  qed
qed

lemma Register_inv: "conn_inv (s, n) \<Longrightarrow> conn_inv (fst (Register s m h), n)"
  by (subst Register_frame(1)) (rule conn_inv_frame [of s n], auto simp: conn_inv_def)

lemma RegisterStreamHandler_inv: "conn_inv (s, n) \<Longrightarrow> conn_inv (fst (RegisterStreamHandler s m h), n)"
  by (subst RegisterStreamHandler_frame) (rule conn_inv_frame [of s n], auto simp: conn_inv_def)

lemma Serve_start_inv: "conn_inv (s, n) \<Longrightarrow> conn_inv (fst (Serve_start s), n)"
  by (auto simp: conn_inv_def Serve_start_def conn_closing_def)

lemma Connection_Go_inv:
  assumes "conn_inv (s, n)" "Connection_Go s = (t, err)"
  shows "conn_inv (t, if err = None then Suc n else n)"
proof (cases "beginWork s")
  case (Pair s1 ok)
  then show ?thesis
    using beginWork_inv [OF assms(1) Pair] assms(2) by (cases ok) (auto simp: Connection_Go_def)
qed

lemma Go_end_inv: "conn_inv (s, Suc n) \<Longrightarrow> conn_inv (Go_end s err, n)"
  by (cases err) (simp_all add: Go_end_def work_Done_inv fail_inv)

lemma canceled_inv: "conn_inv (s, n) \<Longrightarrow> conn_inv (s\<lparr> cn_canceled := True \<rparr>, n)"
  by (rule conn_inv_frame [of s n]) (auto simp: conn_inv_def)

lemma Serve_return_inv:
  "conn_inv (s, n) \<Longrightarrow> cn_stopped s = Some err \<Longrightarrow> cn_work s = 0 \<Longrightarrow> conn_inv (Serve_return s, n)"
  by (auto simp: conn_inv_def Serve_return_def conn_closing_def)

lemmas conn_op_inv = Register_inv RegisterStreamHandler_inv canceled_inv Serve_start_inv Connection_Go_inv Go_end_inv
  newSPDYStream_inv Serve_stop_inv Serve_return_inv

interpretation rpc_connection: inductive_invariant conn_init conn_step conn_inv
proof
  show "conn_init s \<Longrightarrow> conn_inv s" for s :: "('h, 's) rpcConnection \<times> nat"
    by (auto simp: conn_inv_def newConnection_def conn_closing_def elim: conn_init.cases)
  show "conn_inv x \<Longrightarrow> conn_step x y \<Longrightarrow> conn_inv y" for x y :: "('h, 's) rpcConnection \<times> nat"
    by (erule conn_step.cases)
      (simp_all only: conn_op_inv serveRPC_end_def work_Done_inv Connection_Close_def shutdown_inv)
qed

lemma conn_step_returned:
  assumes "conn_step x y" "conn_inv x" "cn_returned (fst x)"
  shows "cn_returned (fst y) \<and> snd y = 0"
proof -
  have "cn_returned (fst y)"
    using assms(1,3)
    by (cases rule: conn_step.cases)
      (auto simp: Register_def RegisterStreamHandler_def Serve_start_def Connection_Go_def beginWork_def Go_end_def
        work_Done_def newSPDYStream_def handleRPCStream_def serveRPC_end_def Connection_Close_def conn_shutdown_def
        Serve_stop_def Serve_return_def Let_def split: option.splits if_splits prod.splits serveWake.splits)
  moreover have "conn_inv y" using rpc_connection.step_inv [OF assms(2,1)] .
  ultimately show ?thesis by (cases y) (auto simp: conn_inv_def)
qed

lemma conn_step_handlers:
  assumes "conn_step x y" "cn_state (fst x) \<noteq> connectionNew"
  shows "cn_handlers (fst y) = cn_handlers (fst x) \<and> cn_state (fst y) \<noteq> connectionNew"
  using assms
  by (cases rule: conn_step.cases)
    (auto simp: Register_def RegisterStreamHandler_def Serve_start_def Connection_Go_def beginWork_def Go_end_def
      work_Done_def newSPDYStream_def handleRPCStream_def serveRPC_end_def Connection_Close_def conn_shutdown_def
      Serve_stop_def Serve_return_def Let_def split: option.splits if_splits prod.splits serveWake.splits)

text \<open>
  The life of an RPC connection.  In every reachable state the wait group counts exactly the
  goroutines that have not returned; the transport has been closed exactly once if the
  connection is shutting down and not at all before; and once \<^verbatim>\<open>Serve\<close> has returned, no
  goroutine of the connection is left, its context is cancelled, and this stays so whatever
  happens next.  The handlers are those registered before \<^verbatim>\<open>Serve\<close>.
\<close>

theorem rpc_serve_waits_for_work:
  assumes "reach conn_init conn_step (s, n)" "conn_step\<^sup>*\<^sup>* (s, n) (t, m)"
  shows "cn_work s = n \<and>
    cn_transportClosed s = (if cn_state s = connectionClosing \<or> cn_state s = connectionClosed then 1 else 0) \<and>
    (cn_returned s \<longrightarrow> cn_canceled s \<and> n = 0 \<and> cn_returned t \<and> m = 0) \<and>
    (cn_state s \<noteq> connectionNew \<longrightarrow> cn_handlers t = cn_handlers s)"
proof -
  have inv: "conn_inv (s, n)" using rpc_connection.reach_inv [OF assms(1)] .
  have returned: "cn_returned (fst y) \<and> snd y = 0 \<and> conn_inv y"
    if "conn_step\<^sup>*\<^sup>* (s, n) y" "cn_returned s" for y
    using that
  proof (induction rule: rtranclp_induct)
    case base
    then show ?case using inv by (auto simp: conn_inv_def)
  next
    case (step y z)
    then show ?case using conn_step_returned rpc_connection.step_inv by blast
  qed
  have handlers: "cn_handlers (fst y) = cn_handlers s \<and> cn_state (fst y) \<noteq> connectionNew"
    if "conn_step\<^sup>*\<^sup>* (s, n) y" "cn_state s \<noteq> connectionNew" for y
    using that
  proof (induction rule: rtranclp_induct)
    case (step y z)
    then show ?case using conn_step_handlers by metis
  qed simp
  show ?thesis
    using inv returned [OF assms(2)] handlers [OF assms(2)]
    by (auto simp: conn_inv_def conn_closing_def)
qed

definition example_served :: "(unit, unit) rpcConnection" where
  "example_served =
     Serve_return (Serve_stop (fst (Serve_start (fst (Register newConnection ''echo'' (Some ()))))) WakeSpdyClosed)"

lemma example_served_reach: "reach conn_init conn_step (example_served, 0)"
proof -
  define s1 :: "(unit, unit) rpcConnection" where "s1 = fst (Register newConnection ''echo'' (Some ()))"
  define s2 where "s2 = fst (Serve_start s1)"
  define s3 where "s3 = Serve_stop s2 WakeSpdyClosed"
  have "reach conn_init conn_step (newConnection :: (unit, unit) rpcConnection, 0)"
    by (intro reach_init conn_init.intros)
  moreover have "conn_step (newConnection, 0) (s1, 0)" unfolding s1_def by (rule step_register)
  ultimately have 1: "reach conn_init conn_step (s1, 0)" by (rule reach_step)
  have "conn_step (s1, 0) (s2, 0)" unfolding s2_def by (rule step_serve)
  with 1 have 2: "reach conn_init conn_step (s2, 0)" by (rule reach_step)
  have "cn_state s2 \<noteq> connectionNew" "cn_stopped s2 = None"
    by (simp_all add: s2_def s1_def Serve_start_def Register_def newConnection_def)
  then have "conn_step (s2, 0) (s3, 0)" unfolding s3_def by (rule step_stop)
  with 2 have 3: "reach conn_init conn_step (s3, 0)" by (rule reach_step)
  have "cn_stopped s3 = Some None" "\<not> cn_returned s3" "cn_work s3 = 0"
    by (simp_all add: s3_def s2_def s1_def Serve_stop_def conn_shutdown_def ctx_Err_def Serve_start_def Register_def newConnection_def)
  then have "conn_step (s3, 0) (Serve_return s3, 0)" by (rule step_return)
  with 3 have "reach conn_init conn_step (Serve_return s3, 0)" by (rule reach_step)
  then show ?thesis by (simp add: example_served_def s3_def s2_def s1_def)
qed

theorem rpc_serve_waits_for_work_witness:
  "cn_returned example_served \<and> cn_work example_served = 0 \<and> cn_transportClosed example_served = 1 \<and>
   cn_canceled example_served \<and> cn_handlers example_served ''echo'' = Some ()"
proof -
  have "cn_returned example_served" "cn_state example_served = connectionClosed"
    "cn_handlers example_served ''echo'' = Some ()"
    by (simp_all add: example_served_def Serve_return_def Serve_stop_def conn_shutdown_def Serve_start_def Register_def newConnection_def)
  then show ?thesis
    using rpc_serve_waits_for_work [OF example_served_reach rtranclp.rtrancl_refl] by simp
qed

end
