(* ===== verification/HelperForwardLaws.thy ===== *)
theory HelperForwardLaws
  imports HelperForward SpdyRpcLaws "HOL-Library.Multiset"
begin

text \<open>
  Correctness of the forwarding client of the helper: both kinds of listener
  implement the same mailbox, no stream of the peer is lost or handed out twice, and closing the
  client releases every listener.
\<close>

section \<open>The mailbox a listener implements\<close>

text \<open>
  A mailbox is open, with the streams waiting in it, or shut, with the error that shut it.
  Its operations are the arrival of a stream, an attempt to take one, and closing.
\<close>

datatype 'a mailbox = Open "'a list" | Shut "go_error option"

datatype 'a mailOp = OpDeliver bool 'a | OpAccept "go_error option" bool | OpClose go_error

datatype 'a mailOut = OutReset "'a list" | OutTaken 'a | OutError go_error | OutWaits

fun mailbox_step :: "'a mailbox \<Rightarrow> 'a mailOp \<Rightarrow> 'a mailbox \<times> 'a mailOut" where
  "mailbox_step (Open xs) (OpDeliver clientClosed x) =
     (if clientClosed then (Open xs, OutReset [x]) else (Open (xs @ [x]), OutReset []))"
| "mailbox_step (Shut e) (OpDeliver clientClosed x) = (Shut e, OutReset [x])"
| "mailbox_step (Open (x # xs)) (OpAccept ctxErr clientClosed) = (Open xs, OutTaken x)"
| "mailbox_step (Open []) (OpAccept ctxErr clientClosed) =
     (Open [], case ctxErr of
                 Some err \<Rightarrow> OutError err
               | None \<Rightarrow> if clientClosed then OutError ErrClientClosed else OutWaits)"
| "mailbox_step (Shut e) (OpAccept ctxErr clientClosed) =
     (Shut e, case ctxErr of
                Some err \<Rightarrow> OutError err
              | None \<Rightarrow> (case e of
                           Some err \<Rightarrow> OutError err
                         | None \<Rightarrow> OutError (if clientClosed then ErrClientClosed else ContextCanceled)))"
| "mailbox_step (Open xs) (OpClose err) = (Shut (Some err), OutReset xs)"
| "mailbox_step (Shut e) (OpClose err) = (Shut e, OutReset [])"

text \<open>Running a sequence of operations of any object, with their outputs.\<close>

fun run_ops :: "('l \<Rightarrow> 'o \<Rightarrow> 'l \<times> 'r) \<Rightarrow> 'l \<Rightarrow> 'o list \<Rightarrow> 'l \<times> 'r list" where
  "run_ops step l [] = (l, [])"
| "run_ops step l (a # as) =
     (let (l1, r) = step l a; (l2, rs) = run_ops step l1 as in (l2, r # rs))"

text \<open>What was put into the mailbox, what was taken out of it, and what closing threw out.\<close>

definition kept_by :: "'a mailOp \<Rightarrow> 'a mailOut \<Rightarrow> 'a list" where
  "kept_by a r = (case (a, r) of (OpDeliver c x, OutReset []) \<Rightarrow> [x] | _ \<Rightarrow> [])"

definition left_by :: "'a mailOp \<Rightarrow> 'a mailOut \<Rightarrow> 'a list" where
  "left_by a r = (case (a, r) of (OpAccept e c, OutTaken x) \<Rightarrow> [x] | (OpClose e, OutReset xs) \<Rightarrow> xs | _ \<Rightarrow> [])"

definition mailbox_content :: "'a mailbox \<Rightarrow> 'a list" where
  "mailbox_content m = (case m of Open xs \<Rightarrow> xs | Shut _ \<Rightarrow> [])"

lemma mailbox_step_fifo:
  assumes "mailbox_step m a = (m', r)"
  shows "mailbox_content m @ kept_by a r = left_by a r @ mailbox_content m'"
  using assms
  by (cases "(m, a)" rule: mailbox_step.cases)
    (auto simp: mailbox_content_def kept_by_def left_by_def split: if_splits option.splits)

lemma run_ops_Cons:
  assumes "run_ops step l (a # as) = (l', rs)"
  obtains l1 r rs' where "step l a = (l1, r)" "run_ops step l1 as = (l', rs')" "rs = r # rs'"
  using assms by (auto simp: Let_def split: prod.splits)

lemma mailbox_run_fifo:
  "run_ops mailbox_step m as = (m', rs) \<Longrightarrow>
     mailbox_content m @ concat (map2 kept_by as rs) = concat (map2 left_by as rs) @ mailbox_content m'"
proof (induction as arbitrary: m rs)
  case (Cons a as)
  obtain m1 r rs' where step: "mailbox_step m a = (m1, r)" and run: "run_ops mailbox_step m1 as = (m', rs')"
    and rs: "rs = r # rs'"
    using Cons.prems by (rule run_ops_Cons)
  have "mailbox_content m @ kept_by a r @ concat (map2 kept_by as rs') =
      left_by a r @ mailbox_content m1 @ concat (map2 kept_by as rs')"
    using mailbox_step_fifo [OF step] by (metis append.assoc)
  then show ?case using Cons.IH [OF run] by (simp add: rs)
qed simp

text \<open>
  The contract of a listener: an abstraction to mailboxes under which every operation is
  the operation of the mailbox, for the states of its invariant.
\<close>

locale listener_impl =
  fixes step :: "'l \<Rightarrow> 'a mailOp \<Rightarrow> 'l \<times> 'a mailOut"
    and abs :: "'l \<Rightarrow> 'a mailbox"
    and good :: "'l \<Rightarrow> bool"
  assumes step_sim: "good l \<Longrightarrow> step l a = (l', r) \<Longrightarrow> good l' \<and> mailbox_step (abs l) a = (abs l', r)"
begin

lemma run_sim:
  "good l \<Longrightarrow> run_ops step l as = (l', rs) \<Longrightarrow> good l' \<and> run_ops mailbox_step (abs l) as = (abs l', rs)"
proof (induction as arbitrary: l rs)
  case (Cons a as)
  obtain l1 r rs' where step: "step l a = (l1, r)" and run: "run_ops step l1 as = (l', rs')"
    and rs: "rs = r # rs'"
    using Cons.prems(2) by (rule run_ops_Cons)
  have sim: "good l1" "mailbox_step (abs l) a = (abs l1, r)" using step_sim [OF Cons.prems(1) step] by simp_all
  then show ?case using Cons.IH [OF sim(1) run] by (simp add: rs)
qed simp

lemma run_fifo:
  assumes "good l" "run_ops step l as = (l', rs)"
  shows "mailbox_content (abs l) @ concat (map2 kept_by as rs) =
    concat (map2 left_by as rs) @ mailbox_content (abs l')"
  using run_sim [OF assms] by (intro mailbox_run_fifo) simp

end

section \<open>Both listeners implement it\<close>

definition accept_out :: "'a acceptOutcome \<Rightarrow> 'a mailOut" where
  "accept_out out =
     (case out of Accepted x \<Rightarrow> OutTaken x | AcceptFailed err \<Rightarrow> OutError err | AcceptWaits \<Rightarrow> OutWaits)"

fun RemoteListener_step :: "RemoteListener \<Rightarrow> remoteIncoming mailOp \<Rightarrow> RemoteListener \<times> remoteIncoming mailOut" where
  "RemoteListener_step f (OpDeliver c x) = map_prod id OutReset (RemoteListener_deliver f c x)"
| "RemoteListener_step f (OpAccept e c) = map_prod id accept_out (RemoteListener_Accept f e c)"
| "RemoteListener_step f (OpClose err) = map_prod id OutReset (RemoteListener_closeLocal f err)"

fun AgentListener_step :: "AgentListener \<Rightarrow> nat mailOp \<Rightarrow> AgentListener \<times> nat mailOut" where
  "AgentListener_step f (OpDeliver c x) = map_prod id OutReset (AgentListener_deliver f c x)"
| "AgentListener_step f (OpAccept e c) = map_prod id accept_out (AgentListener_Accept f e c)"
| "AgentListener_step f (OpClose err) = map_prod id OutReset (AgentListener_closeLocal f err)"

definition remote_mailbox :: "RemoteListener \<Rightarrow> remoteIncoming mailbox" where
  "remote_mailbox f = (if rl_closed f then Shut (rl_closeErr f) else Open (rl_incoming f))"

definition agent_mailbox :: "AgentListener \<Rightarrow> nat mailbox" where
  "agent_mailbox f = (if al_closed f then Shut (al_closeErr f) else Open (al_incoming f))"

definition remote_good :: "RemoteListener \<Rightarrow> bool" where
  "remote_good f = (rl_closed f \<longrightarrow> rl_incoming f = [])"

definition agent_good :: "AgentListener \<Rightarrow> bool" where
  "agent_good f = (al_closed f \<longrightarrow> al_incoming f = [])"

interpretation remote_listener: listener_impl RemoteListener_step remote_mailbox remote_good
proof
  show "remote_good f \<Longrightarrow> RemoteListener_step f a = (f', r) \<Longrightarrow>
      remote_good f' \<and> mailbox_step (remote_mailbox f) a = (remote_mailbox f', r)" for f a f' r
    by (cases a; cases "rl_incoming f"; cases "rl_closeErr f"; cases "rl_closed f")
      (auto simp: RemoteListener_deliver_def RemoteListener_Accept_def RemoteListener_closeLocal_def accept_out_def
        remote_good_def remote_mailbox_def split: option.splits if_splits)
qed

interpretation agent_listener: listener_impl AgentListener_step agent_mailbox agent_good
proof
  show "agent_good f \<Longrightarrow> AgentListener_step f a = (f', r) \<Longrightarrow>
      agent_good f' \<and> mailbox_step (agent_mailbox f) a = (agent_mailbox f', r)" for f a f' r
    by (cases a; cases "al_incoming f"; cases "al_closeErr f"; cases "al_closed f")
      (auto simp: AgentListener_deliver_def AgentListener_Accept_def AgentListener_closeLocal_def accept_out_def
        agent_good_def agent_mailbox_def split: option.splits if_splits)
qed

text \<open>
  C21. A remote listener refines a mailbox.  For every sequence of arriving streams,
  attempts to accept and closings, a new listener gives the outputs of an
  initially empty mailbox and ends in the state the mailbox ends in.  In particular the
  streams it returned or threw out when it was closed, followed by those still waiting, are the
  streams it kept, in the order of their arrival: none is lost, duplicated or overtaken.
\<close>

theorem remote_listener_refines_mailbox:
  "\<exists>f outs. run_ops RemoteListener_step new_RemoteListener ops = (f, outs) \<and>
     run_ops mailbox_step (Open []) ops = (remote_mailbox f, outs) \<and>
     concat (map2 kept_by ops outs) = concat (map2 left_by ops outs) @ rl_incoming f"
proof -
  obtain f outs where run: "run_ops RemoteListener_step new_RemoteListener ops = (f, outs)"
    by (cases "run_ops RemoteListener_step new_RemoteListener ops")
  have new: "remote_good new_RemoteListener" "remote_mailbox new_RemoteListener = Open []"
    by (simp_all add: remote_good_def remote_mailbox_def new_RemoteListener_def)
  have "remote_good f" "run_ops mailbox_step (Open []) ops = (remote_mailbox f, outs)"
    using remote_listener.run_sim [OF new(1) run] new(2) by simp_all
  moreover have "mailbox_content (remote_mailbox f) = rl_incoming f"
    using \<open>remote_good f\<close> by (simp add: remote_mailbox_def mailbox_content_def remote_good_def)
  ultimately show ?thesis
    using run remote_listener.run_fifo [OF new(1) run] new(2) by (simp add: mailbox_content_def)
qed

text \<open>The same for an agent listener.\<close>

lemma agent_listener_refines_mailbox:
  "\<exists>f outs. run_ops AgentListener_step newAgentListener ops = (f, outs) \<and>
     run_ops mailbox_step (Open []) ops = (agent_mailbox f, outs) \<and>
     concat (map2 kept_by ops outs) = concat (map2 left_by ops outs) @ al_incoming f"
proof -
  obtain f outs where run: "run_ops AgentListener_step newAgentListener ops = (f, outs)"
    by (cases "run_ops AgentListener_step newAgentListener ops")
  have new: "agent_good newAgentListener" "agent_mailbox newAgentListener = Open []"
    by (simp_all add: agent_good_def agent_mailbox_def newAgentListener_def)
  have "agent_good f" "run_ops mailbox_step (Open []) ops = (agent_mailbox f, outs)"
    using agent_listener.run_sim [OF new(1) run] new(2) by simp_all
  moreover have "mailbox_content (agent_mailbox f) = al_incoming f"
    using \<open>agent_good f\<close> by (simp add: agent_mailbox_def mailbox_content_def agent_good_def)
  ultimately show ?thesis
    using run agent_listener.run_fifo [OF new(1) run] new(2) by (simp add: mailbox_content_def)
qed

section \<open>The machine of a client\<close>

text \<open>
  The steps of a client.  Two guards state what the peer and the connection guarantee: an address the helper
  reports for a new listener is not the address of another established listener
  (the kernel does not bind an address twice), and a call that starts after the connection was closed fails.
\<close>

inductive helper_step :: "helperClient \<Rightarrow> helperClient \<Rightarrow> bool" where
  listen_begin: "helper_step c (fst (Listen_begin host port c))"
| listen_failed: "hc_pending c i = Some b \<Longrightarrow> helper_step c (fst (Listen_end i b (Inl err) c))"
| listen_answered: "hc_pending c i = Some b \<Longrightarrow>
    \<not> (hc_remotesClosed c \<and> hc_forwards c b = Some i) \<Longrightarrow>
    (\<And>j. hc_forwards c (lr_ActualBind r) = Some j \<Longrightarrow> j = i \<or> hc_pending c j \<noteq> None) \<Longrightarrow>
    helper_step c (fst (Listen_end i b (Inr r) c))"
| remote_stream: "helper_step c (handleRemoteStream stream headers c)"
| remote_accept: "helper_step c (remote_Accept i ctxErr c)"
| remote_cancel: "hc_pending c i = None \<Longrightarrow> helper_step c (fst (remote_Cancel i outcome c))"
| agent_begin: "helper_step c (fst (agent_Listen_begin c))"
| agent_failed: "i \<in> hc_pendingAgents c \<Longrightarrow> helper_step c (fst (agent_Listen_end i (Inl err) c))"
| agent_answered: "i \<in> hc_pendingAgents c \<Longrightarrow> \<not> (hc_agentsClosed c \<and> hc_agent c = Some i) \<Longrightarrow>
    helper_step c (fst (agent_Listen_end i (Inr path) c))"
| agent_stream: "helper_step c (handleAgentStream stream c)"
| agent_accept: "helper_step c (agent_Accept i ctxErr c)"
| agent_cancel: "i \<notin> hc_pendingAgents c \<Longrightarrow> helper_step c (fst (agent_Cancel i outcome c))"
| close_begin: "helper_step c (Client_Close_begin c)"
| close_remotes: "hc_closed c \<Longrightarrow> set keys = dom (hc_forwards c) \<Longrightarrow> helper_step c (remote_close keys c)"
| close_agents: "hc_closed c \<Longrightarrow> helper_step c (agent_close c)"

inductive helper_init :: "helperClient \<Rightarrow> bool" where
  "helper_init new_helperClient"

text \<open>The invariant, in four parts over the fields they concern.\<close>

definition heap_ok :: "nat \<Rightarrow> (nat \<rightharpoonup> RemoteListener) \<Rightarrow> (nat \<rightharpoonup> AgentListener) \<Rightarrow> bool" where
  "heap_ok n rm ag =
     (dom rm \<subseteq> {..<n} \<and> dom ag \<subseteq> {..<n} \<and>
      (\<forall>i f. rm i = Some f \<longrightarrow> remote_good f) \<and> (\<forall>i f. ag i = Some f \<longrightarrow> agent_good f))"

definition registry_ok ::
  "(string \<rightharpoonup> nat) \<Rightarrow> (nat \<rightharpoonup> RemoteListener) \<Rightarrow> (nat \<rightharpoonup> string) \<Rightarrow> bool \<Rightarrow> bool" where
  "registry_ok fw rm pd closed =
     ((\<forall>b i. fw b = Some i \<longrightarrow> rm i \<noteq> None) \<and>
      (\<forall>i b. pd i = Some b \<longrightarrow> rm i \<noteq> None \<and> (\<forall>b'. fw b' = Some i \<longrightarrow> b' = b)) \<and>
      (\<forall>i f. rm i = Some f \<longrightarrow> rl_closed f \<or> pd i \<noteq> None \<or> fw (rl_actualBind f) = Some i) \<and>
      (closed \<longrightarrow> (\<forall>b i. fw b = Some i \<longrightarrow> pd i \<noteq> None)))"

definition agents_ok :: "nat option \<Rightarrow> (nat \<rightharpoonup> AgentListener) \<Rightarrow> nat set \<Rightarrow> bool \<Rightarrow> bool" where
  "agents_ok cur ag pa closed =
     ((\<forall>i. cur = Some i \<longrightarrow> ag i \<noteq> None) \<and>
      (\<forall>i f. ag i = Some f \<longrightarrow> al_closed f \<or> cur = Some i) \<and>
      (closed \<longrightarrow> (\<forall>i. cur = Some i \<longrightarrow> i \<in> pa)))"

definition remote_queue :: "(nat \<rightharpoonup> RemoteListener) \<Rightarrow> nat \<Rightarrow> nat multiset" where
  "remote_queue rm i = (case rm i of None \<Rightarrow> {#} | Some f \<Rightarrow> mset (map ri_stream (rl_incoming f)))"

definition agent_queue :: "(nat \<rightharpoonup> AgentListener) \<Rightarrow> nat \<Rightarrow> nat multiset" where
  "agent_queue ag i = (case ag i of None \<Rightarrow> {#} | Some f \<Rightarrow> mset (al_incoming f))"

text \<open>The streams waiting in all listeners.\<close>

definition waiting :: "nat \<Rightarrow> (nat \<rightharpoonup> RemoteListener) \<Rightarrow> (nat \<rightharpoonup> AgentListener) \<Rightarrow> nat multiset" where
  "waiting n rm ag = (\<Sum>i<n. remote_queue rm i) + (\<Sum>i<n. agent_queue ag i)"

definition conserved :: "helperClient \<Rightarrow> bool" where
  "conserved c =
     (mset (hc_arrived c) =
      mset (hc_taken c) + mset (hc_resets c) + waiting (hc_next c) (hc_remotes c) (hc_agents c))"

definition helper_inv :: "helperClient \<Rightarrow> bool" where
  "helper_inv c =
     (heap_ok (hc_next c) (hc_remotes c) (hc_agents c) \<and>
      registry_ok (hc_forwards c) (hc_remotes c) (hc_pending c) (hc_remotesClosed c) \<and>
      agents_ok (hc_agent c) (hc_agents c) (hc_pendingAgents c) (hc_agentsClosed c) \<and>
      conserved c)"

subsection \<open>The heap and the waiting streams\<close>

lemma heap_okD:
  assumes "heap_ok n rm ag"
  shows "rm i = Some f \<Longrightarrow> i < n \<and> remote_good f" "ag i = Some g \<Longrightarrow> i < n \<and> agent_good g"
  using assms by (auto simp: heap_ok_def)

lemma heap_ok_remote: "heap_ok n rm ag \<Longrightarrow> i < n \<Longrightarrow> remote_good f \<Longrightarrow> heap_ok n (rm(i \<mapsto> f)) ag"
  by (auto simp: heap_ok_def)

lemma heap_ok_agent: "heap_ok n rm ag \<Longrightarrow> i < n \<Longrightarrow> agent_good f \<Longrightarrow> heap_ok n rm (ag(i \<mapsto> f))"
  by (auto simp: heap_ok_def)

lemma heap_ok_new:
  assumes "heap_ok n rm ag"
  shows "remote_good f \<Longrightarrow> heap_ok (Suc n) (rm(n \<mapsto> f)) ag" "agent_good g \<Longrightarrow> heap_ok (Suc n) rm (ag(n \<mapsto> g))"
  using assms by (auto simp: heap_ok_def less_Suc_eq)

lemma sum_change:
  fixes f g :: "nat \<Rightarrow> 'a :: comm_monoid_add"
  assumes "i < n" "\<And>j. j \<noteq> i \<Longrightarrow> g j = f j"
  shows "sum g {..<n} + f i = sum f {..<n} + g i"
proof -
  have "sum g ({..<n} - {i}) = sum f ({..<n} - {i})" using assms(2) by (intro sum.cong) auto
  then show ?thesis
    using assms(1) sum.remove [of "{..<n}" i g] sum.remove [of "{..<n}" i f] by (simp add: ac_simps)
qed

lemma waiting_remote:
  assumes "i < n" "rm i = Some f"
  shows "waiting n (rm(i \<mapsto> f')) ag + mset (map ri_stream (rl_incoming f)) =
    waiting n rm ag + mset (map ri_stream (rl_incoming f'))"
proof -
  have "(\<Sum>j<n. remote_queue (rm(i \<mapsto> f')) j) + remote_queue rm i =
      (\<Sum>j<n. remote_queue rm j) + remote_queue (rm(i \<mapsto> f')) i"
    using assms(1) by (rule sum_change) (simp add: remote_queue_def)
  then show ?thesis using assms(2) by (simp add: waiting_def remote_queue_def ac_simps)
qed

lemma waiting_agent:
  assumes "i < n" "ag i = Some f"
  shows "waiting n rm (ag(i \<mapsto> f')) + mset (al_incoming f) = waiting n rm ag + mset (al_incoming f')"
proof -
  have "(\<Sum>j<n. agent_queue (ag(i \<mapsto> f')) j) + agent_queue ag i =
      (\<Sum>j<n. agent_queue ag j) + agent_queue (ag(i \<mapsto> f')) i"
    using assms(1) by (rule sum_change) (simp add: agent_queue_def)
  then show ?thesis using assms(2) by (simp add: waiting_def agent_queue_def ac_simps)
qed

lemma waiting_new:
  assumes "heap_ok n rm ag"
  shows "rl_incoming f = [] \<Longrightarrow> waiting (Suc n) (rm(n \<mapsto> f)) ag = waiting n rm ag"
    "al_incoming g = [] \<Longrightarrow> waiting (Suc n) rm (ag(n \<mapsto> g)) = waiting n rm ag"
proof -
  have none: "rm n = None" "ag n = None" using assms by (auto simp: heap_ok_def)
  have "(\<Sum>j<n. remote_queue (rm(n \<mapsto> f)) j) = (\<Sum>j<n. remote_queue rm j)"
    "(\<Sum>j<n. agent_queue (ag(n \<mapsto> g)) j) = (\<Sum>j<n. agent_queue ag j)"
    by (auto intro!: sum.cong simp: remote_queue_def agent_queue_def)
  then show "rl_incoming f = [] \<Longrightarrow> waiting (Suc n) (rm(n \<mapsto> f)) ag = waiting n rm ag"
    "al_incoming g = [] \<Longrightarrow> waiting (Suc n) rm (ag(n \<mapsto> g)) = waiting n rm ag"
    using none by (simp_all add: waiting_def remote_queue_def agent_queue_def)
qed

subsection \<open>The registry\<close>

lemma registry_okD:
  assumes "registry_ok fw rm pd cl"
  shows "fw b = Some i \<Longrightarrow> rm i \<noteq> None" "pd i = Some b \<Longrightarrow> rm i \<noteq> None"
    "pd i = Some b \<Longrightarrow> fw b' = Some i \<Longrightarrow> b' = b"
    "rm i = Some f \<Longrightarrow> \<not> rl_closed f \<Longrightarrow> pd i = None \<Longrightarrow> fw (rl_actualBind f) = Some i"
    "cl \<Longrightarrow> fw b = Some i \<Longrightarrow> pd i \<noteq> None"
  using assms unfolding registry_ok_def by blast+

lemma registry_okI:
  assumes "\<And>b i. fw b = Some i \<Longrightarrow> rm i \<noteq> None" "\<And>i b. pd i = Some b \<Longrightarrow> rm i \<noteq> None"
    "\<And>i b b'. pd i = Some b \<Longrightarrow> fw b' = Some i \<Longrightarrow> b' = b"
    "\<And>i f. rm i = Some f \<Longrightarrow> \<not> rl_closed f \<Longrightarrow> pd i = None \<Longrightarrow> fw (rl_actualBind f) = Some i"
    "\<And>b i. cl \<Longrightarrow> fw b = Some i \<Longrightarrow> pd i \<noteq> None"
  shows "registry_ok fw rm pd cl"
  using assms unfolding registry_ok_def by blast

text \<open>A listener is replaced by one with the same address that is closed if it was.\<close>

lemma registry_ok_update:
  assumes ok: "registry_ok fw rm pd cl" and "rm i = Some f" "rl_actualBind f' = rl_actualBind f" "rl_closed f \<longrightarrow> rl_closed f'"
  shows "registry_ok fw (rm(i \<mapsto> f')) pd cl"
proof (rule registry_okI)
  show "fw (rl_actualBind g) = Some j" if "(rm(i \<mapsto> f')) j = Some g" "\<not> rl_closed g" "pd j = None" for j g
    using that assms(2-) registry_okD(4) [OF ok, of j] by (cases "j = i") auto
qed (use registry_okD [OF ok] in auto)

text \<open>A listener is closed and keys of it are dropped from the registry.\<close>

lemma registry_ok_drop:
  assumes ok: "registry_ok fw rm pd cl" and "rm i = Some f" "rl_closed f'"
    and fw': "\<And>b. fw' b = fw b \<or> fw b = Some i \<and> fw' b = None"
    and pd': "pd' = pd \<or> pd' = pd(i := None)"
    and gone: "\<And>b. cl \<Longrightarrow> pd' i = None \<Longrightarrow> fw' b \<noteq> Some i"
  shows "registry_ok fw' (rm(i \<mapsto> f')) pd' cl"
proof (rule registry_okI)
  have sub: "fw b = Some j" if "fw' b = Some j" for b j using that fw' [of b] by auto
  have pd: "pd j = Some b" if "pd' j = Some b" for j b using that pd' by (auto split: if_splits)
  show "(rm(i \<mapsto> f')) j \<noteq> None" if "fw' b = Some j" for b j
    using registry_okD(1) [OF ok sub [OF that]] by simp
  show "(rm(i \<mapsto> f')) j \<noteq> None" if "pd' j = Some b" for b j
    using registry_okD(2) [OF ok pd [OF that]] by simp
  show "b' = b" if "pd' j = Some b" "fw' b' = Some j" for j b b'
    using registry_okD(3) [OF ok pd [OF that(1)] sub [OF that(2)]] .
  show "fw' (rl_actualBind g) = Some j" if "(rm(i \<mapsto> f')) j = Some g" "\<not> rl_closed g" "pd' j = None" for j g
  proof -
    have ji: "j \<noteq> i" using that assms(3) by auto
    then have "rm j = Some g" "pd j = None" using that pd' by auto
    then have "fw (rl_actualBind g) = Some j" using registry_okD(4) [OF ok] that(2) by blast
    then show ?thesis using fw' [of "rl_actualBind g"] ji by auto
  qed
  show "pd' j \<noteq> None" if "cl" "fw' b = Some j" for b j
  proof (cases "j = i")
    case True
    then show ?thesis using gone [OF that(1), of b] that(2) by auto
  next
    case False
    then show ?thesis using registry_okD(5) [OF ok that(1) sub [OF that(2)]] pd' by auto
  qed
qed

text \<open>A listener gets its address and is registered under it.\<close>

lemma registry_ok_rekey:
  assumes ok: "registry_ok fw rm pd cl" and "rm i = Some f" "pd i = Some b" "fw b = Some i" "\<not> cl"
    and fresh: "\<And>j. fw a = Some j \<Longrightarrow> j = i \<or> pd j \<noteq> None"
  shows "registry_ok ((if b \<noteq> a then fw(b := None) else fw)(a \<mapsto> i)) (rm(i \<mapsto> f\<lparr> rl_actualBind := a, rl_actualPort := p \<rparr>))
    (pd(i := None)) cl"
proof (rule registry_okI)
  show "((if b \<noteq> a then fw(b := None) else fw)(a \<mapsto> i)) (rl_actualBind g) = Some j"
    if "(rm(i \<mapsto> f\<lparr> rl_actualBind := a, rl_actualPort := p \<rparr>)) j = Some g" "\<not> rl_closed g" "(pd(i := None)) j = None" for j g
  proof (cases "j = i")
    case False
    then have j: "rm j = Some g" "pd j = None" using that by auto
    then have at: "fw (rl_actualBind g) = Some j" using registry_okD(4) [OF ok] that(2) by blast
    then have "rl_actualBind g \<noteq> b" "rl_actualBind g \<noteq> a" using assms(4) False fresh [of j] j(2) by auto
    then show ?thesis using at by simp
  qed (use that in auto)
  show "b1 = b2" if "(pd(i := None)) j = Some b2" "((if b \<noteq> a then fw(b := None) else fw)(a \<mapsto> i)) b1 = Some j" for j b2 b1
    using that registry_okD(3) [OF ok, of j b2 b1] by (auto split: if_splits)
qed (use registry_okD [OF ok] assms in \<open>auto split: if_splits\<close>)

subsection \<open>Every step keeps the invariant\<close>

lemma helper_invD:
  assumes "helper_inv c"
  shows "heap_ok (hc_next c) (hc_remotes c) (hc_agents c)"
    "registry_ok (hc_forwards c) (hc_remotes c) (hc_pending c) (hc_remotesClosed c)"
    "agents_ok (hc_agent c) (hc_agents c) (hc_pendingAgents c) (hc_agentsClosed c)"
    "conserved c"
  using assms by (simp_all add: helper_inv_def)

lemma close_remote_eq:
  assumes "hc_remotes c i = Some f" "remote_good f"
  obtains f' where "close_remote i err c =
      c\<lparr> hc_remotes := (hc_remotes c)(i \<mapsto> f'), hc_resets := hc_resets c @ map ri_stream (rl_incoming f) \<rparr>"
    "rl_closed f'" "rl_incoming f' = []" "rl_actualBind f' = rl_actualBind f" "remote_good f'"
proof -
  define f' where "f' = fst (RemoteListener_closeLocal f err)"
  have "close_remote i err c =
      c\<lparr> hc_remotes := (hc_remotes c)(i \<mapsto> f'), hc_resets := hc_resets c @ map ri_stream (rl_incoming f) \<rparr>"
    "rl_closed f'" "rl_incoming f' = []" "rl_actualBind f' = rl_actualBind f" "remote_good f'"
    using assms by (auto simp: close_remote_def f'_def RemoteListener_closeLocal_def remote_good_def)
  then show ?thesis by (rule that)
qed

lemma close_agent_eq:
  assumes "hc_agents c i = Some f" "agent_good f"
  obtains f' where "close_agent i err c =
      c\<lparr> hc_agents := (hc_agents c)(i \<mapsto> f'), hc_resets := hc_resets c @ al_incoming f \<rparr>"
    "al_closed f'" "al_incoming f' = []" "agent_good f'"
proof -
  define f' where "f' = fst (AgentListener_closeLocal f err)"
  have "close_agent i err c =
      c\<lparr> hc_agents := (hc_agents c)(i \<mapsto> f'), hc_resets := hc_resets c @ al_incoming f \<rparr>"
    "al_closed f'" "al_incoming f' = []" "agent_good f'"
    using assms by (auto simp: close_agent_def f'_def AgentListener_closeLocal_def agent_good_def)
  then show ?thesis by (rule that)
qed

text \<open>Moving streams between a listener, the callers and the resets.\<close>

lemma conserved_remote:
  assumes "conserved c" "i < hc_next c" "hc_remotes c i = Some f"
    and "mset (map ri_stream (rl_incoming f)) + mset new =
      mset (map ri_stream (rl_incoming f')) + mset got + mset reset"
  shows "conserved (c\<lparr> hc_remotes := (hc_remotes c)(i \<mapsto> f'), hc_arrived := hc_arrived c @ new,
    hc_taken := hc_taken c @ got, hc_resets := hc_resets c @ reset \<rparr>)"
proof -
  define w where "w = waiting (hc_next c) (hc_remotes c) (hc_agents c)"
  define w' where "w' = waiting (hc_next c) ((hc_remotes c)(i \<mapsto> f')) (hc_agents c)"
  define q where "q = mset (map ri_stream (rl_incoming f))"
  define q' where "q' = mset (map ri_stream (rl_incoming f'))"
  have "w' + q = w + q'" unfolding w_def w'_def q_def q'_def using assms(2,3) by (rule waiting_remote)
  moreover have "q + mset new = q' + mset got + mset reset" using assms(4) by (simp add: q_def q'_def)
  ultimately have "(w + mset new) + (q + q') = (w' + mset got + mset reset) + (q + q')"
    by (metis (no_types, lifting) add.assoc add.commute)
  then have "w + mset new = w' + mset got + mset reset" by simp
  then show ?thesis
    using assms(1) by (simp add: conserved_def ac_simps flip: w_def w'_def)
qed

lemma conserved_agent:
  assumes "conserved c" "i < hc_next c" "hc_agents c i = Some f"
    and "mset (al_incoming f) + mset new = mset (al_incoming f') + mset got + mset reset"
  shows "conserved (c\<lparr> hc_agents := (hc_agents c)(i \<mapsto> f'), hc_arrived := hc_arrived c @ new,
    hc_taken := hc_taken c @ got, hc_resets := hc_resets c @ reset \<rparr>)"
proof -
  define w where "w = waiting (hc_next c) (hc_remotes c) (hc_agents c)"
  define w' where "w' = waiting (hc_next c) (hc_remotes c) ((hc_agents c)(i \<mapsto> f'))"
  have "w' + mset (al_incoming f) = w + mset (al_incoming f')"
    unfolding w_def w'_def using assms(2,3) by (rule waiting_agent)
  then have "(w + mset new) + (mset (al_incoming f) + mset (al_incoming f')) =
      (w' + mset got + mset reset) + (mset (al_incoming f) + mset (al_incoming f'))"
    using assms(4) by (metis (no_types, lifting) add.assoc add.commute)
  then have "w + mset new = w' + mset got + mset reset" by simp
  then show ?thesis
    using assms(1) by (simp add: conserved_def ac_simps flip: w_def w'_def)
qed

text \<open>A step that replaces one remote listener, drops keys of it and moves its streams.\<close>

lemma helper_inv_remote:
  assumes inv: "helper_inv c" and f: "hc_remotes c i = Some f" and f': "remote_good f'"
    and reg: "registry_ok fw ((hc_remotes c)(i \<mapsto> f')) pd (hc_remotesClosed c)"
    and streams: "mset (map ri_stream (rl_incoming f)) + mset new =
      mset (map ri_stream (rl_incoming f')) + mset got + mset reset"
  shows "helper_inv (c\<lparr> hc_forwards := fw, hc_pending := pd, hc_remotes := (hc_remotes c)(i \<mapsto> f'),
    hc_arrived := hc_arrived c @ new, hc_taken := hc_taken c @ got, hc_resets := hc_resets c @ reset \<rparr>)"
proof -
  have i: "i < hc_next c" using heap_okD(1) [OF helper_invD(1) [OF inv] f] by simp
  have "conserved (c\<lparr> hc_remotes := (hc_remotes c)(i \<mapsto> f'), hc_arrived := hc_arrived c @ new,
      hc_taken := hc_taken c @ got, hc_resets := hc_resets c @ reset \<rparr>)"
    using conserved_remote [OF helper_invD(4) [OF inv] i f streams] .
  then show ?thesis
    using reg heap_ok_remote [OF helper_invD(1) [OF inv] i f'] helper_invD(3) [OF inv]
    by (simp add: helper_inv_def conserved_def)
qed

lemma helper_inv_agent:
  assumes inv: "helper_inv c" and f: "hc_agents c i = Some f" and f': "agent_good f'"
    and reg: "agents_ok cur ((hc_agents c)(i \<mapsto> f')) pa (hc_agentsClosed c)"
    and streams: "mset (al_incoming f) + mset new = mset (al_incoming f') + mset got + mset reset"
  shows "helper_inv (c\<lparr> hc_agent := cur, hc_pendingAgents := pa, hc_agents := (hc_agents c)(i \<mapsto> f'),
    hc_arrived := hc_arrived c @ new, hc_taken := hc_taken c @ got, hc_resets := hc_resets c @ reset \<rparr>)"
proof -
  have i: "i < hc_next c" using heap_okD(2) [OF helper_invD(1) [OF inv] f] by simp
  have "conserved (c\<lparr> hc_agents := (hc_agents c)(i \<mapsto> f'), hc_arrived := hc_arrived c @ new,
      hc_taken := hc_taken c @ got, hc_resets := hc_resets c @ reset \<rparr>)"
    using conserved_agent [OF helper_invD(4) [OF inv] i f streams] .
  then show ?thesis
    using reg heap_ok_agent [OF helper_invD(1) [OF inv] i f'] helper_invD(2) [OF inv]
    by (simp add: helper_inv_def conserved_def)
qed

text \<open>A stream that is reset on arrival.\<close>

lemma helper_inv_reset:
  "helper_inv c \<Longrightarrow> helper_inv (c\<lparr> hc_arrived := hc_arrived c @ [x], hc_resets := hc_resets c @ [x] \<rparr>)"
  by (simp add: helper_inv_def conserved_def)

lemma Listen_begin_inv:
  assumes "helper_inv c"
  shows "helper_inv (fst (Listen_begin host port c))"
proof -
  define b where "b = JoinHostPort host (format_nat port)"
  define n where "n = hc_next c"
  note inv = helper_invD [OF assms, folded n_def]
  have n: "hc_remotes c n = None" using inv(1) by (auto simp: heap_ok_def)
  have "registry_ok ((hc_forwards c)(b \<mapsto> n)) ((hc_remotes c)(n \<mapsto> new_RemoteListener)) ((hc_pending c)(n \<mapsto> b))
      (hc_remotesClosed c)" if "hc_forwards c b = None"
  proof (rule registry_okI)
    show "((hc_forwards c)(b \<mapsto> n)) (rl_actualBind f) = Some i"
      if "((hc_remotes c)(n \<mapsto> new_RemoteListener)) i = Some f" "\<not> rl_closed f" "((hc_pending c)(n \<mapsto> b)) i = None" for i f
      using that registry_okD(4) [OF inv(2), of i f] \<open>hc_forwards c b = None\<close> by (auto split: if_splits)
    show "b1 = b2" if "((hc_pending c)(n \<mapsto> b)) i = Some b2" "((hc_forwards c)(b \<mapsto> n)) b1 = Some i" for i b1 b2
      using that registry_okD(1) [OF inv(2), of b1 n] registry_okD(2,3) [OF inv(2)] n
      by (auto split: if_splits)
  qed (use registry_okD [OF inv(2)] in \<open>auto split: if_splits\<close>)
  moreover have "heap_ok (Suc n) ((hc_remotes c)(n \<mapsto> new_RemoteListener)) (hc_agents c)"
    by (rule heap_ok_new(1) [OF inv(1)]) (simp add: remote_good_def new_RemoteListener_def)
  moreover have "waiting (Suc n) ((hc_remotes c)(n \<mapsto> new_RemoteListener)) (hc_agents c) = waiting n (hc_remotes c) (hc_agents c)"
    by (rule waiting_new(1) [OF inv(1)]) (simp add: new_RemoteListener_def)
  ultimately show ?thesis
    using inv(3,4) assms
    by (cases "hc_forwards c b")
      (simp_all add: Listen_begin_def add_forward_def Let_def helper_inv_def conserved_def flip: b_def n_def)
qed

lemma Client_call_error:
  obtains err' where "Client_call c (Inl err) = Inl err'"
  by (cases "hc_closed c \<or> errors_is err IoEOF \<or> errors_is err (External ''io: read/write on closed pipe'') \<or>
      errors_is err ErrConnectionClosed") (auto simp: Client_call_def)

lemma Listen_failed_inv:
  assumes "helper_inv c" "hc_pending c i = Some b"
  shows "helper_inv (fst (Listen_end i b (Inl err) c))"
proof -
  note inv = helper_invD [OF assms(1)]
  obtain f where f: "hc_remotes c i = Some f" using registry_okD(2) [OF inv(2) assms(2)] by blast
  have good: "remote_good f" using heap_okD(1) [OF inv(1) f] by simp
  define pd where "pd = (hc_pending c)(i := None)"
  define fw where "fw = (if hc_forwards c b = Some i then (hc_forwards c)(b := None) else hc_forwards c)"
  define c1 where "c1 = c\<lparr> hc_pending := pd, hc_forwards := fw \<rparr>"
  obtain err' where call: "Client_call (c\<lparr> hc_pending := pd \<rparr>) (Inl err) = (Inl err' :: remoteListenResponse result)"
    by (rule Client_call_error)
  have "hc_remotes c1 i = Some f" using f by (simp add: c1_def)
  then obtain f' where f': "close_remote i err' c1 =
      c1\<lparr> hc_remotes := (hc_remotes c1)(i \<mapsto> f'), hc_resets := hc_resets c1 @ map ri_stream (rl_incoming f) \<rparr>"
    "rl_closed f'" "rl_incoming f' = []" "remote_good f'"
    using good by (rule close_remote_eq)
  have ended: "fst (Listen_end i b (Inl err) c) = close_remote i err' c1"
    using call by (simp add: Listen_end_def Let_def removeIfMatch_def c1_def fw_def flip: pd_def)
  have "registry_ok fw ((hc_remotes c)(i \<mapsto> f')) pd (hc_remotesClosed c)"
  proof (rule registry_ok_drop [OF inv(2) f f'(2)])
    show "fw b' \<noteq> Some i" for b'
      using registry_okD(3) [OF inv(2) assms(2), of b'] by (auto simp: fw_def)
  qed (auto simp: fw_def pd_def)
  from helper_inv_remote [OF assms(1) f f'(4) this, of "[]" "[]" "map ri_stream (rl_incoming f)"]
  have "helper_inv (c\<lparr> hc_forwards := fw, hc_pending := pd, hc_remotes := (hc_remotes c)(i \<mapsto> f'),
      hc_resets := hc_resets c @ map ri_stream (rl_incoming f) \<rparr>)"
    using f'(3) by simp
  then show ?thesis unfolding ended f'(1) unfolding c1_def by (simp add: helper_inv_def conserved_def)
qed

lemma Listen_answered_inv:
  assumes "helper_inv c" "hc_pending c i = Some b" "\<not> (hc_remotesClosed c \<and> hc_forwards c b = Some i)"
    and fresh: "\<And>j. hc_forwards c (lr_ActualBind r) = Some j \<Longrightarrow> j = i \<or> hc_pending c j \<noteq> None"
  shows "helper_inv (fst (Listen_end i b (Inr r) c))"
proof -
  note inv = helper_invD [OF assms(1)]
  obtain f where f: "hc_remotes c i = Some f" using registry_okD(2) [OF inv(2) assms(2)] by blast
  have good: "remote_good f" using heap_okD(1) [OF inv(1) f] by simp
  define a where "a = lr_ActualBind r"
  define g where "g = f\<lparr> rl_actualBind := a, rl_actualPort := lr_ActualPort r \<rparr>"
  define pd where "pd = (hc_pending c)(i := None)"
  have g: "remote_good g" "rl_incoming g = rl_incoming f" using good by (simp_all add: g_def remote_good_def)
  show ?thesis
  proof (cases "hc_forwards c b = Some i")
    case True
    define fw where "fw = (if b \<noteq> a then (hc_forwards c)(b := None) else hc_forwards c)(a \<mapsto> i)"
    have "registry_ok fw ((hc_remotes c)(i \<mapsto> g)) pd (hc_remotesClosed c)"
      unfolding fw_def g_def pd_def
      using registry_ok_rekey [OF inv(2) f assms(2) True _ fresh] assms(3) True a_def by blast
    from helper_inv_remote [OF assms(1) f g(1) this, of "[]" "[]" "[]"]
    have "helper_inv (c\<lparr> hc_forwards := fw, hc_pending := pd, hc_remotes := (hc_remotes c)(i \<mapsto> g) \<rparr>)"
      using g(2) by simp
    moreover have "fst (Listen_end i b (Inr r) c) =
        c\<lparr> hc_forwards := fw, hc_pending := pd, hc_remotes := (hc_remotes c)(i \<mapsto> g) \<rparr>"
      using True f by (simp add: Listen_end_def Client_call_def rekey_def Let_def fw_def pd_def g_def a_def)
    ultimately show ?thesis by simp
  next
    case False
    define c1 where "c1 = c\<lparr> hc_pending := pd, hc_remotes := (hc_remotes c)(i \<mapsto> g) \<rparr>"
    have "hc_remotes c1 i = Some g" by (simp add: c1_def)
    then obtain f' where f': "close_remote i ContextCanceled c1 =
        c1\<lparr> hc_remotes := (hc_remotes c1)(i \<mapsto> f'), hc_resets := hc_resets c1 @ map ri_stream (rl_incoming g) \<rparr>"
      "rl_closed f'" "rl_incoming f' = []" "remote_good f'"
      using g(1) by (rule close_remote_eq)
    have "registry_ok (hc_forwards c) ((hc_remotes c)(i \<mapsto> f')) pd (hc_remotesClosed c)"
    proof (rule registry_ok_drop [OF inv(2) f f'(2)])
      show "hc_forwards c b' \<noteq> Some i" for b'
        using registry_okD(3) [OF inv(2) assms(2), of b'] False by auto
    qed (auto simp: pd_def)
    from helper_inv_remote [OF assms(1) f f'(4) this, of "[]" "[]" "map ri_stream (rl_incoming f)"]
    have "helper_inv (c\<lparr> hc_pending := pd, hc_remotes := (hc_remotes c)(i \<mapsto> f'),
        hc_resets := hc_resets c @ map ri_stream (rl_incoming f) \<rparr>)"
      using f'(3) by simp
    moreover have ended: "fst (Listen_end i b (Inr r) c) = close_remote i ContextCanceled c1"
      using False f by (simp add: Listen_end_def Client_call_def rekey_def Let_def pd_def g_def a_def c1_def)
    ultimately show ?thesis using g(2) unfolding ended f'(1) unfolding c1_def by simp
  qed
qed

lemma handleRemoteStream_inv:
  assumes "helper_inv c"
  shows "helper_inv (handleRemoteStream x headers c)"
proof (cases "remoteIncomingFromStream x headers")
  case (Inl err)
  then show ?thesis using helper_inv_reset [OF assms] by (simp add: handleRemoteStream_def Let_def)
next
  case (Inr incoming)
  note inv = helper_invD [OF assms]
  have x: "ri_stream incoming = x"
    using Inr by (auto simp: remoteIncomingFromStream_def split: prod.splits option.splits)
  define target where "target = (case hc_forwards c (ci_Bind (ri_info incoming)) of
      Some i \<Rightarrow> Some i | None \<Rightarrow> hc_forwards c (ci_RequestedBind (ri_info incoming)))"
  show ?thesis
  proof (cases target)
    case None
    then show ?thesis
      using Inr x helper_inv_reset [OF assms]
      by (auto simp: handleRemoteStream_def Let_def remote_dispatch_def target_def split: option.splits)
  next
    case (Some i)
    then obtain b where "hc_forwards c b = Some i" by (auto simp: target_def split: option.splits)
    then obtain f where f: "hc_remotes c i = Some f" using registry_okD(1) [OF inv(2)] by blast
    have good: "remote_good f" using heap_okD(1) [OF inv(1) f] by simp
    obtain f' xs where deliver: "RemoteListener_deliver f (hc_closed c) incoming = (f', xs)"
      by (cases "RemoteListener_deliver f (hc_closed c) incoming")
    have f': "remote_good f'" "rl_actualBind f' = rl_actualBind f" "rl_closed f' = rl_closed f"
      "mset (map ri_stream (rl_incoming f)) + mset [x] = mset (map ri_stream (rl_incoming f')) + mset [] + mset (map ri_stream xs)"
      using deliver good x by (auto simp: RemoteListener_deliver_def remote_good_def split: if_splits)
    have "registry_ok (hc_forwards c) ((hc_remotes c)(i \<mapsto> f')) (hc_pending c) (hc_remotesClosed c)"
      using f'(2,3) by (intro registry_ok_update [OF inv(2) f]) auto
    from helper_inv_remote [OF assms f f'(1) this f'(4)]
    have "helper_inv (c\<lparr> hc_arrived := hc_arrived c @ [x], hc_remotes := (hc_remotes c)(i \<mapsto> f'),
        hc_resets := hc_resets c @ map ri_stream xs \<rparr>)"
      by (simp add: helper_inv_def conserved_def)
    then show ?thesis
      using Inr Some f deliver
      by (auto simp: handleRemoteStream_def Let_def remote_dispatch_def target_def split: option.splits)
  qed
qed

lemma remote_Accept_inv:
  assumes "helper_inv c"
  shows "helper_inv (remote_Accept i ctxErr c)"
proof (cases "hc_remotes c i")
  case (Some f)
  note inv = helper_invD [OF assms]
  have good: "remote_good f" using heap_okD(1) [OF inv(1) Some] by simp
  obtain f' out where accept: "RemoteListener_Accept f ctxErr (hc_closed c) = (f', out)"
    by (cases "RemoteListener_Accept f ctxErr (hc_closed c)")
  show ?thesis
  proof (cases out)
    case (Accepted x)
    have f': "remote_good f'" "rl_actualBind f' = rl_actualBind f" "rl_closed f' = rl_closed f"
      "mset (map ri_stream (rl_incoming f)) + mset [] =
        mset (map ri_stream (rl_incoming f')) + mset [ri_stream x] + mset []"
      using accept good Accepted
      by (auto simp: RemoteListener_Accept_def remote_good_def split: list.splits option.splits bool.splits if_splits)
    have "registry_ok (hc_forwards c) ((hc_remotes c)(i \<mapsto> f')) (hc_pending c) (hc_remotesClosed c)"
      using f'(2,3) by (intro registry_ok_update [OF inv(2) Some]) auto
    from helper_inv_remote [OF assms Some f'(1) this f'(4)]
    show ?thesis using Some accept Accepted by (simp add: remote_Accept_def)
  qed (use assms Some accept in \<open>simp_all add: remote_Accept_def\<close>)
qed (use assms in \<open>simp add: remote_Accept_def\<close>)

lemma remote_Cancel_inv:
  assumes "helper_inv c" "hc_pending c i = None"
  shows "helper_inv (fst (remote_Cancel i outcome c))"
proof (cases "hc_remotes c i")
  case (Some f)
  note inv = helper_invD [OF assms(1)]
  have good: "remote_good f" using heap_okD(1) [OF inv(1) Some] by simp
  define fw where "fw = (\<lambda>b. if hc_forwards c b = Some i then None else hc_forwards c b)"
  define c1 where "c1 = c\<lparr> hc_forwards := fw \<rparr>"
  have "hc_remotes c1 i = Some f" using Some by (simp add: c1_def)
  then obtain f' where f': "close_remote i ContextCanceled c1 =
      c1\<lparr> hc_remotes := (hc_remotes c1)(i \<mapsto> f'), hc_resets := hc_resets c1 @ map ri_stream (rl_incoming f) \<rparr>"
    "rl_closed f'" "rl_incoming f' = []" "rl_actualBind f' = rl_actualBind f" "remote_good f'"
    using good by (rule close_remote_eq)
  have step: "helper_inv (c\<lparr> hc_forwards := fw, hc_remotes := (hc_remotes c)(i \<mapsto> g),
      hc_resets := hc_resets c @ map ri_stream (rl_incoming f) \<rparr>)"
    if g: "g = f'\<lparr> rl_canceled := True, rl_cancelErr := e \<rparr>" for g e
  proof -
    have "registry_ok fw ((hc_remotes c)(i \<mapsto> g)) (hc_pending c) (hc_remotesClosed c)"
      using f'(2) by (intro registry_ok_drop [OF inv(2) Some]) (auto simp: fw_def g)
    moreover have "remote_good g" "rl_incoming g = []" using f'(3) by (simp_all add: g remote_good_def)
    ultimately show ?thesis
      using helper_inv_remote [OF assms(1) Some, of g fw "hc_pending c" "[]" "[]" "map ri_stream (rl_incoming f)"] by simp
  qed
  show ?thesis
  proof (cases "rl_canceled f")
    case False
    have c1': "removeForward i c = c1" by (simp add: removeForward_def c1_def fw_def)
    show ?thesis
      using Some False step [OF refl]
      unfolding remote_Cancel_def c1' f'(1) unfolding c1_def
      by (simp add: Let_def helper_inv_def conserved_def)
  qed (use Some assms in \<open>simp add: remote_Cancel_def\<close>)
qed (use assms in \<open>simp add: remote_Cancel_def\<close>)

lemma agents_okD:
  assumes "agents_ok cur ag pa cl"
  shows "cur = Some i \<Longrightarrow> ag i \<noteq> None" "ag i = Some f \<Longrightarrow> \<not> al_closed f \<Longrightarrow> cur = Some i"
    "cl \<Longrightarrow> cur = Some i \<Longrightarrow> i \<in> pa"
  using assms unfolding agents_ok_def by blast+

lemma agents_okI:
  assumes "\<And>i. cur = Some i \<Longrightarrow> ag i \<noteq> None" "\<And>i f. ag i = Some f \<Longrightarrow> \<not> al_closed f \<Longrightarrow> cur = Some i"
    "\<And>i. cl \<Longrightarrow> cur = Some i \<Longrightarrow> i \<in> pa"
  shows "agents_ok cur ag pa cl"
  using assms unfolding agents_ok_def by blast

lemma agents_ok_update:
  assumes ok: "agents_ok cur ag pa cl" and "ag i = Some f" "al_closed f \<longrightarrow> al_closed f'"
  shows "agents_ok cur (ag(i \<mapsto> f')) pa cl"
proof (rule agents_okI)
  show "cur = Some j" if "(ag(i \<mapsto> f')) j = Some g" "\<not> al_closed g" for j g
    using that assms(2-) agents_okD(2) [OF ok, of j] by (cases "j = i") auto
qed (use agents_okD [OF ok] in auto)

lemma agents_ok_drop:
  assumes ok: "agents_ok cur ag pa cl" and "al_closed f'" "ag i = Some f" and pa': "pa' = pa \<or> pa' = pa - {i}"
  shows "agents_ok (if cur = Some i then None else cur) (ag(i \<mapsto> f')) pa' cl"
proof (rule agents_okI)
  show "(if cur = Some i then None else cur) = Some j" if "(ag(i \<mapsto> f')) j = Some g" "\<not> al_closed g" for j g
    using that assms(2-) agents_okD(2) [OF ok, of j] by (cases "j = i") auto
  show "j \<in> pa'" if "cl" "(if cur = Some i then None else cur) = Some j" for j
    using that agents_okD(3) [OF ok that(1), of j] pa' by (auto split: if_splits)
qed (use agents_okD(1) [OF ok] in \<open>auto split: if_splits\<close>)

lemma agent_begin_inv:
  assumes "helper_inv c"
  shows "helper_inv (fst (agent_Listen_begin c))"
proof -
  define n where "n = hc_next c"
  note inv = helper_invD [OF assms, folded n_def]
  have "agents_ok (Some n) ((hc_agents c)(n \<mapsto> newAgentListener)) (insert n (hc_pendingAgents c)) (hc_agentsClosed c)"
    if "hc_agent c = None"
  proof (rule agents_okI)
    show "Some n = Some i" if "((hc_agents c)(n \<mapsto> newAgentListener)) i = Some f" "\<not> al_closed f" for i f
      using that agents_okD(2) [OF inv(3), of i f] \<open>hc_agent c = None\<close> by (auto split: if_splits)
  qed auto
  moreover have "heap_ok (Suc n) (hc_remotes c) ((hc_agents c)(n \<mapsto> newAgentListener))"
    by (rule heap_ok_new(2) [OF inv(1)]) (simp add: agent_good_def newAgentListener_def)
  moreover have "waiting (Suc n) (hc_remotes c) ((hc_agents c)(n \<mapsto> newAgentListener)) = waiting n (hc_remotes c) (hc_agents c)"
    by (rule waiting_new(2) [OF inv(1)]) (simp add: newAgentListener_def)
  ultimately show ?thesis
    using inv(2,4) assms
    by (cases "hc_agent c")
      (simp_all add: agent_Listen_begin_def Let_def helper_inv_def conserved_def flip: n_def)
qed

text \<open>Closing an agent listener after taking it out of the registry.\<close>

lemma close_agent_inv:
  assumes "helper_inv c" "hc_agents c i = Some f" "pa = hc_pendingAgents c \<or> pa = hc_pendingAgents c - {i}"
  obtains f' where "close_agent i err (agent_removeIfMatch i (c\<lparr> hc_pendingAgents := pa \<rparr>)) =
      c\<lparr> hc_pendingAgents := pa, hc_agent := (if hc_agent c = Some i then None else hc_agent c),
         hc_agents := (hc_agents c)(i \<mapsto> f'), hc_resets := hc_resets c @ al_incoming f \<rparr>"
    "al_closed f'" "al_incoming f' = []"
    "\<And>g. al_closed g \<Longrightarrow> al_incoming g = [] \<Longrightarrow>
      helper_inv (c\<lparr> hc_pendingAgents := pa, hc_agent := (if hc_agent c = Some i then None else hc_agent c),
        hc_agents := (hc_agents c)(i \<mapsto> g), hc_resets := hc_resets c @ al_incoming f \<rparr>)"
proof -
  note inv = helper_invD [OF assms(1)]
  have good: "agent_good f" using heap_okD(2) [OF inv(1) assms(2)] by simp
  define cur where "cur = (if hc_agent c = Some i then None else hc_agent c)"
  define c1 where "c1 = c\<lparr> hc_pendingAgents := pa, hc_agent := cur \<rparr>"
  have "hc_agents c1 i = Some f" using assms(2) by (simp add: c1_def)
  then obtain f' where f': "close_agent i err c1 =
      c1\<lparr> hc_agents := (hc_agents c1)(i \<mapsto> f'), hc_resets := hc_resets c1 @ al_incoming f \<rparr>"
    "al_closed f'" "al_incoming f' = []"
    using good by (rule close_agent_eq)
  have "agent_removeIfMatch i (c\<lparr> hc_pendingAgents := pa \<rparr>) = c1"
    by (simp add: agent_removeIfMatch_def c1_def cur_def)
  then have 1: "close_agent i err (agent_removeIfMatch i (c\<lparr> hc_pendingAgents := pa \<rparr>)) =
      c\<lparr> hc_pendingAgents := pa, hc_agent := cur, hc_agents := (hc_agents c)(i \<mapsto> f'), hc_resets := hc_resets c @ al_incoming f \<rparr>"
    using f'(1) by (simp add: c1_def)
  have "helper_inv (c\<lparr> hc_pendingAgents := pa, hc_agent := cur, hc_agents := (hc_agents c)(i \<mapsto> g),
      hc_resets := hc_resets c @ al_incoming f \<rparr>)"
    if g: "al_closed g" "al_incoming g = []" for g
  proof -
    have "agents_ok cur ((hc_agents c)(i \<mapsto> g)) pa (hc_agentsClosed c)"
      unfolding cur_def using inv(3) g(1) assms(2,3) by (rule agents_ok_drop)
    moreover have "agent_good g" using g(2) by (simp add: agent_good_def)
    ultimately have "helper_inv (c\<lparr> hc_agent := cur, hc_pendingAgents := pa, hc_agents := (hc_agents c)(i \<mapsto> g),
        hc_arrived := hc_arrived c @ [], hc_taken := hc_taken c @ [], hc_resets := hc_resets c @ al_incoming f \<rparr>)"
      using g(2) by (intro helper_inv_agent [OF assms(1,2)]) simp_all
    then show ?thesis by (simp add: helper_inv_def conserved_def)
  qed
  with 1 f'(2,3) show ?thesis using that [of f'] by (simp add: cur_def)
qed

lemma agent_pending_inv:
  assumes "helper_inv c" "hc_agent c = Some i \<longrightarrow> \<not> hc_agentsClosed c"
  shows "helper_inv (c\<lparr> hc_pendingAgents := hc_pendingAgents c - {i} \<rparr>)"
proof -
  note inv = helper_invD [OF assms(1)]
  have "agents_ok (hc_agent c) (hc_agents c) (hc_pendingAgents c - {i}) (hc_agentsClosed c)"
    using agents_okD [OF inv(3)] assms(2) by (intro agents_okI) auto
  then show ?thesis using inv by (simp add: helper_inv_def conserved_def)
qed

lemma agent_failed_inv:
  assumes "helper_inv c"
  shows "helper_inv (fst (agent_Listen_end i (Inl err) c))"
proof -
  define pa where "pa = hc_pendingAgents c - {i}"
  obtain err' where call: "Client_call (c\<lparr> hc_pendingAgents := pa \<rparr>) (Inl err) = (Inl err' :: string result)"
    by (rule Client_call_error)
  have ended: "fst (agent_Listen_end i (Inl err) c) = close_agent i err' (agent_removeIfMatch i (c\<lparr> hc_pendingAgents := pa \<rparr>))"
    using call by (simp add: agent_Listen_end_def Let_def flip: pa_def)
  show ?thesis
  proof (cases "hc_agents c i")
    case None
    then have "hc_agent c \<noteq> Some i" using agents_okD(1) [OF helper_invD(3) [OF assms], of i] by auto
    then show ?thesis
      using None agent_pending_inv [OF assms, of i]
      by (simp add: ended agent_removeIfMatch_def close_agent_def pa_def)
  next
    case (Some f)
    have "pa = hc_pendingAgents c \<or> pa = hc_pendingAgents c - {i}" by (simp add: pa_def)
    with assms Some obtain f' where "close_agent i err' (agent_removeIfMatch i (c\<lparr> hc_pendingAgents := pa \<rparr>)) =
      c\<lparr> hc_pendingAgents := pa, hc_agent := (if hc_agent c = Some i then None else hc_agent c),
         hc_agents := (hc_agents c)(i \<mapsto> f'), hc_resets := hc_resets c @ al_incoming f \<rparr>"
      "helper_inv (c\<lparr> hc_pendingAgents := pa, hc_agent := (if hc_agent c = Some i then None else hc_agent c),
         hc_agents := (hc_agents c)(i \<mapsto> f'), hc_resets := hc_resets c @ al_incoming f \<rparr>)"
      by (rule close_agent_inv [of c i f pa err']) blast
    then show ?thesis by (simp add: ended)
  qed
qed

text \<open>An agent listener is replaced by one that is closed if it was, and streams move.\<close>

lemma agent_update_inv:
  assumes "helper_inv c" "hc_agents c i = Some f" "agent_good f'" "al_closed f \<longrightarrow> al_closed f'"
    "mset (al_incoming f) + mset new = mset (al_incoming f') + mset got + mset reset"
  shows "helper_inv (c\<lparr> hc_agents := (hc_agents c)(i \<mapsto> f'), hc_arrived := hc_arrived c @ new,
    hc_taken := hc_taken c @ got, hc_resets := hc_resets c @ reset \<rparr>)"
proof -
  have "agents_ok (hc_agent c) ((hc_agents c)(i \<mapsto> f')) (hc_pendingAgents c) (hc_agentsClosed c)"
    using helper_invD(3) [OF assms(1)] assms(2,4) by (rule agents_ok_update)
  from helper_inv_agent [OF assms(1,2,3) this assms(5)] show ?thesis by simp
qed

lemma agent_answered_inv:
  assumes "helper_inv c" "\<not> (hc_agentsClosed c \<and> hc_agent c = Some i)"
  shows "helper_inv (fst (agent_Listen_end i (Inr path) c))"
proof -
  define c1 where "c1 = c\<lparr> hc_pendingAgents := hc_pendingAgents c - {i} \<rparr>"
  have c1: "helper_inv c1" unfolding c1_def using assms by (intro agent_pending_inv) auto
  have ended: "fst (agent_Listen_end i (Inr path) c) =
      c1\<lparr> hc_agents := (hc_agents c1)(i := map_option (\<lambda>f. f\<lparr> al_socketPath := path \<rparr>) (hc_agents c1 i)) \<rparr>"
    by (simp add: agent_Listen_end_def Let_def Client_call_def c1_def)
  show ?thesis
  proof (cases "hc_agents c1 i")
    case None
    then have "(hc_agents c1)(i := None) = hc_agents c1" by (simp add: fun_upd_idem)
    then show ?thesis using c1 None by (simp add: ended helper_inv_def conserved_def)
  next
    case (Some f)
    have "agent_good f" using heap_okD(2) [OF helper_invD(1) [OF c1] Some] by simp
    then have "helper_inv (c1\<lparr> hc_agents := (hc_agents c1)(i \<mapsto> f\<lparr> al_socketPath := path \<rparr>),
        hc_arrived := hc_arrived c1 @ [], hc_taken := hc_taken c1 @ [], hc_resets := hc_resets c1 @ [] \<rparr>)"
      by (intro agent_update_inv [OF c1 Some]) (simp_all add: agent_good_def)
    then show ?thesis using Some by (simp add: ended)
  qed
qed

lemma handleAgentStream_inv:
  assumes "helper_inv c"
  shows "helper_inv (handleAgentStream x c)"
proof (cases "hc_agent c")
  case None
  then show ?thesis using helper_inv_reset [OF assms] by (simp add: handleAgentStream_def agent_dispatch_def)
next
  case (Some i)
  then obtain f where f: "hc_agents c i = Some f" using agents_okD(1) [OF helper_invD(3) [OF assms]] by blast
  have good: "agent_good f" using heap_okD(2) [OF helper_invD(1) [OF assms] f] by simp
  obtain f' xs where deliver: "AgentListener_deliver f (hc_closed c) x = (f', xs)"
    by (cases "AgentListener_deliver f (hc_closed c) x")
  have "helper_inv (c\<lparr> hc_agents := (hc_agents c)(i \<mapsto> f'), hc_arrived := hc_arrived c @ [x],
      hc_taken := hc_taken c @ [], hc_resets := hc_resets c @ xs \<rparr>)"
    using deliver good
    by (intro agent_update_inv [OF assms f]) (auto simp: AgentListener_deliver_def agent_good_def split: if_splits)
  then show ?thesis
    using Some f deliver
    by (simp add: handleAgentStream_def agent_dispatch_def helper_inv_def conserved_def)
qed

lemma agent_Accept_inv:
  assumes "helper_inv c"
  shows "helper_inv (agent_Accept i ctxErr c)"
proof (cases "hc_agents c i")
  case (Some f)
  have good: "agent_good f" using heap_okD(2) [OF helper_invD(1) [OF assms] Some] by simp
  obtain f' out where accept: "AgentListener_Accept f ctxErr (hc_closed c) = (f', out)"
    by (cases "AgentListener_Accept f ctxErr (hc_closed c)")
  show ?thesis
  proof (cases out)
    case (Accepted x)
    have "helper_inv (c\<lparr> hc_agents := (hc_agents c)(i \<mapsto> f'), hc_arrived := hc_arrived c @ [],
        hc_taken := hc_taken c @ [x], hc_resets := hc_resets c @ [] \<rparr>)"
      using accept good Accepted
      by (intro agent_update_inv [OF assms Some])
        (auto simp: AgentListener_Accept_def agent_good_def split: list.splits option.splits bool.splits if_splits)
    then show ?thesis using Some accept Accepted by (simp add: agent_Accept_def)
  qed (use assms Some accept in \<open>simp_all add: agent_Accept_def\<close>)
qed (use assms in \<open>simp add: agent_Accept_def\<close>)

lemma agent_Cancel_inv:
  assumes "helper_inv c"
  shows "helper_inv (fst (agent_Cancel i outcome c))"
proof (cases "hc_agents c i")
  case (Some f)
  show ?thesis
  proof (cases "al_canceled f")
    case False
    have "hc_pendingAgents c = hc_pendingAgents c \<or> hc_pendingAgents c = hc_pendingAgents c - {i}" by simp
    with assms Some obtain f' where f': "close_agent i ContextCanceled (agent_removeIfMatch i (c\<lparr> hc_pendingAgents := hc_pendingAgents c \<rparr>)) =
      c\<lparr> hc_pendingAgents := hc_pendingAgents c, hc_agent := (if hc_agent c = Some i then None else hc_agent c),
         hc_agents := (hc_agents c)(i \<mapsto> f'), hc_resets := hc_resets c @ al_incoming f \<rparr>"
      "al_closed f'" "al_incoming f' = []"
      and step: "\<And>g. al_closed g \<Longrightarrow> al_incoming g = [] \<Longrightarrow>
        helper_inv (c\<lparr> hc_pendingAgents := hc_pendingAgents c, hc_agent := (if hc_agent c = Some i then None else hc_agent c),
          hc_agents := (hc_agents c)(i \<mapsto> g), hc_resets := hc_resets c @ al_incoming f \<rparr>)"
      by (rule close_agent_inv [of c i f "hc_pendingAgents c" ContextCanceled]) blast
    have "helper_inv (c\<lparr> hc_agent := (if hc_agent c = Some i then None else hc_agent c),
          hc_agents := (hc_agents c)(i \<mapsto> f'\<lparr> al_canceled := True, al_cancelErr := e \<rparr>),
          hc_resets := hc_resets c @ al_incoming f \<rparr>)" for e
      using step [of "f'\<lparr> al_canceled := True, al_cancelErr := e \<rparr>"] f'(2,3) by simp
    then show ?thesis
      using Some False f'(1) by (simp add: agent_Cancel_def Let_def helper_inv_def conserved_def)
  qed (use Some assms in \<open>simp add: agent_Cancel_def\<close>)
qed (use assms in \<open>simp add: agent_Cancel_def\<close>)

text \<open>Closing a list of remote listeners.\<close>

definition closed_from :: "nat set \<Rightarrow> (nat \<rightharpoonup> RemoteListener) \<Rightarrow> (nat \<rightharpoonup> RemoteListener) \<Rightarrow> bool" where
  "closed_from ids rm rm' =
     (\<forall>i. (rm' i = None \<longleftrightarrow> rm i = None) \<and>
          (\<forall>f f'. rm i = Some f \<longrightarrow> rm' i = Some f' \<longrightarrow> rl_closed f \<or> i \<in> ids \<longrightarrow> rl_closed f'))"

lemma closed_fromD:
  assumes "closed_from ids rm rm'"
  shows "rm' i = None \<longleftrightarrow> rm i = None" "rm i = Some f \<Longrightarrow> rm' i = Some f' \<Longrightarrow> rl_closed f \<or> i \<in> ids \<Longrightarrow> rl_closed f'"
  using assms unfolding closed_from_def by blast+

lemma closed_fromI:
  assumes "\<And>i. rm' i = None \<longleftrightarrow> rm i = None"
    "\<And>i f f'. rm i = Some f \<Longrightarrow> rm' i = Some f' \<Longrightarrow> rl_closed f \<or> i \<in> ids \<Longrightarrow> rl_closed f'"
  shows "closed_from ids rm rm'"
  using assms unfolding closed_from_def by blast

lemma closed_from_step:
  assumes "rm i = Some f" "rl_closed f'" "closed_from ids (rm(i \<mapsto> f')) rm'"
  shows "closed_from (insert i ids) rm rm'"
proof (rule closed_fromI)
  show "rm' j = None \<longleftrightarrow> rm j = None" for j
    using closed_fromD(1) [OF assms(3), of j] assms(1) by (cases "j = i") auto
  show "rl_closed g'" if "rm j = Some g" "rm' j = Some g'" "rl_closed g \<or> j \<in> insert i ids" for j g g'
    using closed_fromD(2) [OF assms(3), of j _ g'] that assms(2) by (cases "j = i") auto
qed

lemma closed_from_absent:
  assumes "rm i = None" "closed_from ids rm rm'"
  shows "closed_from (insert i ids) rm rm'"
proof (rule closed_fromI)
  show "rl_closed g'" if "rm j = Some g" "rm' j = Some g'" "rl_closed g \<or> j \<in> insert i ids" for j g g'
    using closed_fromD(2) [OF assms(2) that(1,2)] that(1,3) assms(1) by auto
qed (rule closed_fromD(1) [OF assms(2)])

lemma fold_close_remote:
  assumes "heap_ok (hc_next c) (hc_remotes c) (hc_agents c)" "conserved c"
  shows "\<exists>rm resets. fold (\<lambda>i. close_remote i err) ids c = c\<lparr> hc_remotes := rm, hc_resets := resets \<rparr> \<and>
    heap_ok (hc_next c) rm (hc_agents c) \<and> conserved (c\<lparr> hc_remotes := rm, hc_resets := resets \<rparr>) \<and>
    closed_from (set ids) (hc_remotes c) rm"
  using assms
proof (induction ids arbitrary: c)
  case Nil
  have "closed_from {} (hc_remotes c) (hc_remotes c)" by (rule closed_fromI) simp_all
  then show ?case using Nil by (intro exI [of _ "hc_remotes c"] exI [of _ "hc_resets c"]) simp
next
  case (Cons i ids)
  show ?case
  proof (cases "hc_remotes c i")
    case None
    then have "close_remote i err c = c" by (simp add: close_remote_def)
    then show ?thesis
      using Cons.IH [OF Cons.prems] closed_from_absent [of "hc_remotes c" i] None by auto
  next
    case (Some f)
    have f: "remote_good f" "i < hc_next c" using heap_okD(1) [OF Cons.prems(1) Some] by simp_all
    obtain f' where f': "close_remote i err c =
        c\<lparr> hc_remotes := (hc_remotes c)(i \<mapsto> f'), hc_resets := hc_resets c @ map ri_stream (rl_incoming f) \<rparr>"
      "rl_closed f'" "rl_incoming f' = []" "remote_good f'"
      using Some f(1) by (rule close_remote_eq)
    define c1 where "c1 = close_remote i err c"
    have c1: "c1 = c\<lparr> hc_remotes := (hc_remotes c)(i \<mapsto> f'), hc_resets := hc_resets c @ map ri_stream (rl_incoming f) \<rparr>"
      by (simp add: c1_def f'(1))
    have "heap_ok (hc_next c1) (hc_remotes c1) (hc_agents c1)"
      using heap_ok_remote [OF Cons.prems(1) f(2) f'(4)] by (simp add: c1)
    moreover have "conserved c1"
      using conserved_remote [OF Cons.prems(2) f(2) Some, of "[]" f' "[]" "map ri_stream (rl_incoming f)"] f'(3)
      by (simp add: c1)
    ultimately obtain rm resets where r: "fold (\<lambda>i. close_remote i err) ids c1 = c1\<lparr> hc_remotes := rm, hc_resets := resets \<rparr>"
      "heap_ok (hc_next c1) rm (hc_agents c1)" "conserved (c1\<lparr> hc_remotes := rm, hc_resets := resets \<rparr>)"
      "closed_from (set ids) (hc_remotes c1) rm"
      using Cons.IH [of c1] by blast
    have "closed_from (set ids) ((hc_remotes c)(i \<mapsto> f')) rm" using r(4) by (simp add: c1)
    with Some f'(2) have "closed_from (insert i (set ids)) (hc_remotes c) rm" by (rule closed_from_step)
    moreover have "c1\<lparr> hc_remotes := rm, hc_resets := resets \<rparr> = c\<lparr> hc_remotes := rm, hc_resets := resets \<rparr>"
      "hc_next c1 = hc_next c" "hc_agents c1 = hc_agents c"
      by (simp_all add: c1)
    ultimately show ?thesis
      using r(1-3) by (intro exI [of _ rm] exI [of _ resets]) (simp flip: c1_def)
  qed
qed

lemma remote_close_inv:
  assumes "helper_inv c" "set keys = dom (hc_forwards c)"
  shows "helper_inv (remote_close keys c)"
proof -
  note inv = helper_invD [OF assms(1)]
  define ids where "ids = List.map_filter (hc_forwards c) keys"
  have ids: "i \<in> set ids" if "hc_forwards c b = Some i" for b i
    using that assms(2) by (force simp: ids_def List.map_filter_def)
  define c1 where "c1 = c\<lparr> hc_forwards := Map.empty, hc_remotesClosed := True \<rparr>"
  have "heap_ok (hc_next c1) (hc_remotes c1) (hc_agents c1)" "conserved c1"
    using inv(1,4) by (simp_all add: c1_def conserved_def)
  then obtain rm resets where r: "fold (\<lambda>i. close_remote i ErrClientClosed) ids c1 = c1\<lparr> hc_remotes := rm, hc_resets := resets \<rparr>"
    "heap_ok (hc_next c1) rm (hc_agents c1)" "conserved (c1\<lparr> hc_remotes := rm, hc_resets := resets \<rparr>)"
    "closed_from (set ids) (hc_remotes c1) rm"
    using fold_close_remote by blast
  have shut: "closed_from (set ids) (hc_remotes c) rm" using r(4) by (simp add: c1_def)
  have "registry_ok Map.empty rm (hc_pending c) True"
  proof (rule registry_okI)
    show "rm i \<noteq> None" if "hc_pending c i = Some b" for i b
      using registry_okD(2) [OF inv(2) that] closed_fromD(1) [OF shut, of i] by simp
    show "Map.empty (rl_actualBind f) = Some i" if "rm i = Some f" "\<not> rl_closed f" "hc_pending c i = None" for i f
    proof -
      have "hc_remotes c i \<noteq> None" using closed_fromD(1) [OF shut, of i] that(1) by simp
      then obtain g where g: "hc_remotes c i = Some g" by blast
      have "\<not> rl_closed g" "i \<notin> set ids" using closed_fromD(2) [OF shut g that(1)] that(2) by auto
      then show ?thesis using registry_okD(4) [OF inv(2) g _ that(3)] ids by blast
    qed
  qed auto
  then show ?thesis
    using r inv(3)
    by (simp add: remote_close_def helper_inv_def conserved_def flip: ids_def c1_def) (simp add: c1_def)
qed

lemma agent_close_inv:
  assumes "helper_inv c"
  shows "helper_inv (agent_close c)"
proof (cases "hc_agent c")
  case None
  have "agents_ok None (hc_agents c) (hc_pendingAgents c) True"
    using agents_okD [OF helper_invD(3) [OF assms]] None by (intro agents_okI) auto
  then show ?thesis
    using helper_invD [OF assms] None by (simp add: agent_close_def helper_inv_def conserved_def Let_def)
next
  case (Some i)
  then obtain f where f: "hc_agents c i = Some f" using agents_okD(1) [OF helper_invD(3) [OF assms]] by blast
  have good: "agent_good f" "i < hc_next c" using heap_okD(2) [OF helper_invD(1) [OF assms] f] by simp_all
  define c1 where "c1 = c\<lparr> hc_agent := None, hc_agentsClosed := True \<rparr>"
  have "hc_agents c1 i = Some f" using f by (simp add: c1_def)
  then obtain f' where f': "close_agent i ErrClientClosed c1 =
      c1\<lparr> hc_agents := (hc_agents c1)(i \<mapsto> f'), hc_resets := hc_resets c1 @ al_incoming f \<rparr>"
    "al_closed f'" "al_incoming f' = []" "agent_good f'"
    using good(1) by (rule close_agent_eq)
  have "agents_ok None ((hc_agents c)(i \<mapsto> f')) (hc_pendingAgents c) True"
  proof (rule agents_okI)
    show "None = Some j" if "((hc_agents c)(i \<mapsto> f')) j = Some g" "\<not> al_closed g" for j g
      using that f'(2) agents_okD(2) [OF helper_invD(3) [OF assms], of j g] Some by (cases "j = i") auto
  qed auto
  moreover have "conserved (c\<lparr> hc_agents := (hc_agents c)(i \<mapsto> f'), hc_resets := hc_resets c @ al_incoming f \<rparr>)"
    using conserved_agent [OF helper_invD(4) [OF assms] good(2) f, of "[]" f' "[]" "al_incoming f"] f'(3) by simp
  moreover have "agent_close c = c1\<lparr> hc_agents := (hc_agents c1)(i \<mapsto> f'), hc_resets := hc_resets c1 @ al_incoming f \<rparr>"
    using Some f'(1) by (simp add: agent_close_def c1_def)
  ultimately show ?thesis
    using helper_invD(1,2) [OF assms] heap_ok_agent [OF helper_invD(1) [OF assms] good(2) f'(4)]
    by (simp add: helper_inv_def conserved_def c1_def)
qed

interpretation helper_client: inductive_invariant helper_init helper_step helper_inv
proof
  show "helper_init c \<Longrightarrow> helper_inv c" for c
    by (auto simp: helper_inv_def new_helperClient_def heap_ok_def registry_ok_def agents_ok_def conserved_def
        waiting_def remote_queue_def agent_queue_def elim: helper_init.cases)
  show "helper_inv t" if inv: "helper_inv c" and step: "helper_step c t" for c t
    using step
  proof cases
    case close_begin
    then show ?thesis using inv by (simp add: Client_Close_begin_def helper_inv_def conserved_def)
  next
    case (listen_answered i b r)
    show ?thesis unfolding listen_answered(1) using inv listen_answered(2-4) by (rule Listen_answered_inv)
  next
    case (agent_answered i path)
    show ?thesis unfolding agent_answered(1) using inv agent_answered(3) by (rule agent_answered_inv)
  qed (use inv in \<open>simp_all only: Listen_begin_inv Listen_failed_inv Listen_answered_inv handleRemoteStream_inv
      remote_Accept_inv remote_Cancel_inv agent_begin_inv agent_failed_inv agent_answered_inv handleAgentStream_inv
      agent_Accept_inv agent_Cancel_inv remote_close_inv agent_close_inv\<close>)
qed

text \<open>
  C20. The forwarding client loses no stream and releases every listener.  In every reachable state of a
  client, the streams the helper opened are exactly those an \<^verbatim>\<open>Accept\<close> returned, those that were
  reset and those waiting in a listener, each as often as it arrived.  An established
  listener that has not been closed is registered under its own address, so that its streams reach it.
  Once \<^verbatim>\<open>Close\<close> has closed the remote (or agent) listeners, every such listener whose
  \<^verbatim>\<open>Listen\<close> has returned is closed, with nothing waiting in it, and an \<^verbatim>\<open>Accept\<close> on it returns an error
  instead of waiting.
\<close>

theorem helper_client_streams:
  assumes "reach helper_init helper_step c"
  shows "mset (hc_arrived c) =
      mset (hc_taken c) + mset (hc_resets c) + waiting (hc_next c) (hc_remotes c) (hc_agents c) \<and>
    (\<forall>i f. hc_remotes c i = Some f \<longrightarrow> hc_pending c i = None \<longrightarrow>
       (rl_closed f \<or> hc_forwards c (rl_actualBind f) = Some i) \<and>
       (hc_remotesClosed c \<longrightarrow> rl_closed f \<and> rl_incoming f = [] \<and>
          snd (RemoteListener_Accept f ctxErr (hc_closed c)) \<noteq> AcceptWaits)) \<and>
    (\<forall>i f. hc_agents c i = Some f \<longrightarrow> i \<notin> hc_pendingAgents c \<longrightarrow>
       (al_closed f \<or> hc_agent c = Some i) \<and>
       (hc_agentsClosed c \<longrightarrow> al_closed f \<and> al_incoming f = [] \<and>
          snd (AgentListener_Accept f ctxErr (hc_closed c)) \<noteq> AcceptWaits))"
proof (intro conjI allI impI)
  note inv = helper_invD [OF helper_client.reach_inv [OF assms]]
  show "mset (hc_arrived c) =
      mset (hc_taken c) + mset (hc_resets c) + waiting (hc_next c) (hc_remotes c) (hc_agents c)"
    using inv(4) by (simp add: conserved_def)
  fix i
  show at: "rl_closed f \<or> hc_forwards c (rl_actualBind f) = Some i"
    if "hc_remotes c i = Some f" "hc_pending c i = None" for f
    using registry_okD(4) [OF inv(2) that(1) _ that(2)] by blast
  show closed: "rl_closed f" if "hc_remotes c i = Some f" "hc_pending c i = None" "hc_remotesClosed c" for f
    using at [OF that(1,2)] registry_okD(5) [OF inv(2) that(3)] that(2) by blast
  show "rl_incoming f = []" if "hc_remotes c i = Some f" "hc_pending c i = None" "hc_remotesClosed c" for f
    using closed [OF that] heap_okD(1) [OF inv(1) that(1)] by (simp add: remote_good_def)
  show "snd (RemoteListener_Accept f ctxErr (hc_closed c)) \<noteq> AcceptWaits"
    if "hc_remotes c i = Some f" "hc_pending c i = None" "hc_remotesClosed c" for f
    using closed [OF that] by (simp add: RemoteListener_Accept_def split: list.split option.split)
  show cur: "al_closed f \<or> hc_agent c = Some i" if "hc_agents c i = Some f" for f
    using agents_okD(2) [OF inv(3) that] by blast
  show shut: "al_closed f" if "hc_agents c i = Some f" "i \<notin> hc_pendingAgents c" "hc_agentsClosed c" for f
    using cur [OF that(1)] agents_okD(3) [OF inv(3) that(3)] that(2) by blast
  show "al_incoming f = []" if "hc_agents c i = Some f" "i \<notin> hc_pendingAgents c" "hc_agentsClosed c" for f
    using shut [OF that] heap_okD(2) [OF inv(1) that(1)] by (simp add: agent_good_def)
  show "snd (AgentListener_Accept f ctxErr (hc_closed c)) \<noteq> AcceptWaits"
    if "hc_agents c i = Some f" "i \<notin> hc_pendingAgents c" "hc_agentsClosed c" for f
    using shut [OF that] by (simp add: AgentListener_Accept_def split: list.split option.split)
qed

text \<open>A listener whose first connection arrives before the answer to its listen call, and the end of the client.\<close>

definition example_response :: remoteListenResponse where
  "example_response = \<lparr> lr_Bind = ''127.0.0.1:0'', lr_ActualBind = ''127.0.0.1:4000'', lr_ActualPort = 4000 \<rparr>"

definition example_listening :: helperClient where
  "example_listening = fst (Listen_begin ''127.0.0.1'' 0 new_helperClient)"

definition example_early :: helperClient where
  "example_early = handleRemoteStream 7
     (remoteConnectionHeaders ''127.0.0.1:4000'' ''127.0.0.1:0'' ''10.0.0.9'' ''5000'') example_listening"

definition example_established :: helperClient where
  "example_established = fst (Listen_end 0 ''127.0.0.1:0'' (Inr example_response) example_early)"

definition example_closed :: helperClient where
  "example_closed = remote_close [''127.0.0.1:4000''] (Client_Close_begin example_established)"

lemma example_bind: "JoinHostPort ''127.0.0.1'' (format_nat 0) = ''127.0.0.1:0''"
  by code_simp

lemma example_incoming:
  "remoteIncomingFromStream 7 (remoteConnectionHeaders ''127.0.0.1:4000'' ''127.0.0.1:0'' ''10.0.0.9'' ''5000'') =
     Inr \<lparr> ri_stream = 7, ri_info = \<lparr> ci_Bind = ''127.0.0.1:4000'', ci_RequestedBind = ''127.0.0.1:0'',
            ci_OriginHost = ''10.0.0.9'', ci_OriginPort = 5000 \<rparr> \<rparr>"
proof -
  have "ParseUint32 ''5000'' = Some 5000"
    by (simp add: ParseUint32_def parse_nat_def char_digit_def)
  then show ?thesis
    by (simp add: remoteIncomingFromStream_def remoteConnectionHeaderValues_def header_Get_def remoteConnectionHeaders_def
        StreamTypeHeader_def)
qed

definition example_remote :: RemoteListener where
  "example_remote = new_RemoteListener\<lparr> rl_actualBind := ''127.0.0.1:4000'', rl_actualPort := 4000 \<rparr>"

definition example_accepted :: remoteIncoming where
  "example_accepted =
     \<lparr> ri_stream = 7, ri_info = \<lparr> ci_Bind = ''127.0.0.1:4000'', ci_RequestedBind = ''127.0.0.1:0'',
       ci_OriginHost = ''10.0.0.9'', ci_OriginPort = 5000 \<rparr> \<rparr>"

lemma example_listening_eq:
  "example_listening = new_helperClient\<lparr> hc_next := 1, hc_remotes := [0 \<mapsto> new_RemoteListener],
     hc_forwards := [''127.0.0.1:0'' \<mapsto> 0], hc_pending := [0 \<mapsto> ''127.0.0.1:0''] \<rparr>"
  by (simp add: example_listening_def Listen_begin_def example_bind add_forward_def new_helperClient_def Let_def)

lemma example_early_eq:
  "example_early = example_listening\<lparr> hc_arrived := [7],
     hc_remotes := [0 \<mapsto> new_RemoteListener\<lparr> rl_incoming := [example_accepted] \<rparr>] \<rparr>"
proof -
  define c where "c = example_listening\<lparr> hc_arrived := [7] \<rparr>"
  have c: "hc_forwards c = [''127.0.0.1:0'' \<mapsto> 0]" "hc_remotes c = [0 \<mapsto> new_RemoteListener]" "\<not> hc_closed c" "hc_resets c = []"
    by (simp_all add: c_def example_listening_eq new_helperClient_def)
  have "remote_dispatch example_accepted c =
      c\<lparr> hc_remotes := [0 \<mapsto> new_RemoteListener\<lparr> rl_incoming := [example_accepted] \<rparr>], hc_resets := [] \<rparr>"
    by (simp add: remote_dispatch_def c example_accepted_def RemoteListener_deliver_def new_RemoteListener_def)
  moreover have "example_early = remote_dispatch example_accepted c"
    by (simp add: example_early_def handleRemoteStream_def example_incoming c_def example_listening_eq new_helperClient_def
        flip: example_accepted_def)
  ultimately show ?thesis by (simp add: c_def example_listening_eq new_helperClient_def)
qed

lemma example_early_fields:
  "hc_pending example_early = [0 \<mapsto> ''127.0.0.1:0'']" "\<not> hc_remotesClosed example_early"
  "hc_forwards example_early = [''127.0.0.1:0'' \<mapsto> 0]" "\<not> hc_closed example_early" "hc_arrived example_early = [7]"
  "hc_remotes example_early = [0 \<mapsto> new_RemoteListener\<lparr> rl_incoming := [example_accepted] \<rparr>]" "hc_resets example_early = []"
  by (simp_all add: example_early_eq example_listening_eq new_helperClient_def)

lemma example_established_eq:
  "example_established = example_early\<lparr> hc_pending := Map.empty,
     hc_remotes := [0 \<mapsto> example_remote\<lparr> rl_incoming := [example_accepted] \<rparr>], hc_forwards := [''127.0.0.1:4000'' \<mapsto> 0] \<rparr>"
  by (simp add: example_established_def Listen_end_def Client_call_def example_response_def rekey_def example_early_fields
      example_remote_def new_RemoteListener_def)

lemma example_established_fields:
  "hc_forwards example_established = [''127.0.0.1:4000'' \<mapsto> 0]"
  by (simp add: example_established_eq)

lemma example_closed_fields:
  "hc_resets example_closed = [7]" "hc_arrived example_closed = [7]" "hc_remotesClosed example_closed"
  "hc_pending example_closed 0 = None"
  "hc_remotes example_closed 0 = Some (example_remote\<lparr> rl_closed := True, rl_closeErr := Some ErrClientClosed \<rparr>)"
proof -
  define c where "c = Client_Close_begin example_established"
  have c: "hc_forwards c = [''127.0.0.1:4000'' \<mapsto> 0]"
    "hc_remotes c = [0 \<mapsto> example_remote\<lparr> rl_incoming := [example_accepted] \<rparr>]" "hc_resets c = []" "hc_arrived c = [7]"
    "hc_pending c = Map.empty"
    by (simp_all add: c_def Client_Close_begin_def example_established_eq example_early_fields)
  have closed: "example_closed = close_remote 0 ErrClientClosed (c\<lparr> hc_forwards := Map.empty, hc_remotesClosed := True \<rparr>)"
    by (simp add: example_closed_def remote_close_def List.map_filter_def c flip: c_def)
  show "hc_resets example_closed = [7]" "hc_arrived example_closed = [7]" "hc_remotesClosed example_closed"
    "hc_pending example_closed 0 = None"
    "hc_remotes example_closed 0 = Some (example_remote\<lparr> rl_closed := True, rl_closeErr := Some ErrClientClosed \<rparr>)"
    by (simp_all add: closed close_remote_def c RemoteListener_closeLocal_def example_accepted_def example_remote_def
        new_RemoteListener_def)
qed

lemma example_closed_reach: "reach helper_init helper_step example_closed"
proof -
  have "reach helper_init helper_step new_helperClient" by (intro reach_init helper_init.intros)
  moreover have "helper_step new_helperClient example_listening" unfolding example_listening_def by (rule listen_begin)
  ultimately have 1: "reach helper_init helper_step example_listening" by (rule reach_step)
  have "helper_step example_listening example_early" unfolding example_early_def by (rule remote_stream)
  with 1 have 2: "reach helper_init helper_step example_early" by (rule reach_step)
  have "helper_step example_early example_established"
    unfolding example_established_def
    by (rule listen_answered) (simp_all add: example_early_fields example_response_def)
  with 2 have 3: "reach helper_init helper_step example_established" by (rule reach_step)
  have "helper_step example_established (Client_Close_begin example_established)" by (rule close_begin)
  with 3 have 4: "reach helper_init helper_step (Client_Close_begin example_established)" by (rule reach_step)
  have "helper_step (Client_Close_begin example_established) example_closed"
    unfolding example_closed_def
    by (rule close_remotes) (simp_all add: Client_Close_begin_def example_established_fields)
  with 4 show ?thesis by (rule reach_step)
qed

theorem helper_client_streams_witness:
  "hc_resets example_closed = [7] \<and> hc_arrived example_closed = [7] \<and>
   (\<exists>f. hc_remotes example_closed 0 = Some f \<and> rl_closed f \<and> rl_incoming f = [] \<and>
     snd (RemoteListener_Accept f None (hc_closed example_closed)) \<noteq> AcceptWaits)"
  using example_closed_fields
    helper_client_streams [OF example_closed_reach, of None, THEN conjunct2, THEN conjunct1, rule_format,
      OF example_closed_fields(5,4), THEN conjunct2, rule_format, OF example_closed_fields(3)]
  by simp

end
