(* ===== verification/HelperService.thy ===== *)
theory HelperService
  imports HelperForward HelperScp Machines
begin

text \<open>
  The forwarding services of the helper process (\<^verbatim>\<open>pkg/podssh/backend/helper\<close>): the TCP
  listeners of \<^verbatim>\<open>remoteForwardService\<close>, the socket of \<^verbatim>\<open>agentForwardService\<close> with its
  temporary directory, their registration (\<^verbatim>\<open>server.go\<close>), and the connection over standard
  input and output (\<^verbatim>\<open>stdio.go\<close>, \<^verbatim>\<open>dial.go\<close>).

  Sockets are numbers.  The kernel's answers (the address of a new socket, the name of a temporary
  directory) are arguments of the operations, as is whether \<^verbatim>\<open>Connection.Go\<close>
  accepted the goroutine of a new listener.
\<close>

section \<open>Remote listeners\<close>

record remoteTCPListener =
  tl_requestedBind :: string
  tl_actualBind :: string
  tl_actualPort :: nat

text \<open>
  \<open>sv_sockets\<close> are all sockets ever opened, \<open>sv_open\<close> those not closed, and
  \<open>sv_running\<close> the listeners whose accept loop has not returned.
\<close>

record remoteForwardService =
  sv_listeners :: "string \<rightharpoonup> nat"
  sv_sockets :: "nat \<rightharpoonup> remoteTCPListener"
  sv_open :: "nat set"
  sv_running :: "nat set"
  sv_next :: nat

definition newRemoteForwardService :: remoteForwardService where
  "newRemoteForwardService =
     \<lparr> sv_listeners = Map.empty, sv_sockets = Map.empty, sv_open = {}, sv_running = {}, sv_next = 0 \<rparr>"

definition listener_Close :: "nat \<Rightarrow> remoteForwardService \<Rightarrow> remoteForwardService" where
  "listener_Close i m = m\<lparr> sv_open := sv_open m - {i} \<rparr>"

text \<open>\<open>listen\<close> is \<^verbatim>\<open>net.Listen("tcp", address)\<close> and gives the address of the socket.\<close>

definition newRemoteTCPListener ::
  "(string \<Rightarrow> string result) \<Rightarrow> string \<Rightarrow> remoteForwardService \<Rightarrow> remoteForwardService \<times> (nat \<times> remoteTCPListener) result" where
  "newRemoteTCPListener listen b m =
     (if b = [] then (m, Inl (Errorf ''bind is required'' []))
      else case SplitHostPort b of
        Inl err \<Rightarrow> (m, Inl err)
      | Inr (host, portText) \<Rightarrow>
          (case ParseUint32 portText of
             None \<Rightarrow> (m, Inl (Errorf ''strconv.ParseUint'' [portText]))
           | Some port \<Rightarrow>
               if port > 65535 then (m, Inl (Errorf ''port must be between 0 and 65535'' []))
               else case listen (JoinHostPort host portText) of
                 Inl err \<Rightarrow> (m, Inl err)
               | Inr actualBind \<Rightarrow>
                   let i = sv_next m;
                       opened = m\<lparr> sv_next := Suc i, sv_open := insert i (sv_open m) \<rparr>
                   in case SplitHostPort actualBind of
                        Inl err \<Rightarrow> (listener_Close i opened, Inl err)
                      | Inr (_, actualPortText) \<Rightarrow>
                          (case ParseUint32 actualPortText of
                             None \<Rightarrow> (listener_Close i opened, Inl (Errorf ''strconv.ParseUint'' [actualPortText]))
                           | Some actualPort \<Rightarrow>
                               let l = \<lparr> tl_requestedBind = b, tl_actualBind = actualBind, tl_actualPort = actualPort \<rparr>
                               in (opened\<lparr> sv_sockets := (sv_sockets m)(i \<mapsto> l) \<rparr>, Inr (i, l)))))"

definition service_remove :: "nat \<Rightarrow> remoteForwardService \<Rightarrow> remoteForwardService" where
  "service_remove i m =
     (case sv_sockets m i of
        None \<Rightarrow> m
      | Some l \<Rightarrow>
          if sv_listeners m (tl_actualBind l) = Some i
          then m\<lparr> sv_listeners := (sv_listeners m)(tl_actualBind l := None) \<rparr> else m)"

definition decode_payload :: "RawMessage \<Rightarrow> string result" where
  "decode_payload payload =
     (case payload of
        None \<Rightarrow> Inl (Errorf ''unexpected end of JSON input'' [])
      | Some doc \<Rightarrow> decode_bind doc)"

definition handleListen ::
  "(string \<Rightarrow> string result) \<Rightarrow> bool \<Rightarrow> RawMessage \<Rightarrow> remoteForwardService \<Rightarrow> remoteForwardService \<times> anyValue result" where
  "handleListen listen goOk payload m =
     (case decode_payload payload of
        Inl err \<Rightarrow> (m, Inl err)
      | Inr b \<Rightarrow>
          (case newRemoteTCPListener listen b m of
             (m1, Inl err) \<Rightarrow> (m1, Inl err)
           | (m1, Inr (i, l)) \<Rightarrow>
               let m2 = m1\<lparr> sv_listeners := (sv_listeners m1)(tl_actualBind l \<mapsto> i) \<rparr>
               in if \<not> goOk then (listener_Close i (service_remove i m2), Inl ErrConnectionClosed)
                  else (m2\<lparr> sv_running := insert i (sv_running m2) \<rparr>,
                        Inr (Some (Inr (encode_listenResponse
                          \<lparr> lr_Bind = b, lr_ActualBind = tl_actualBind l, lr_ActualPort = tl_actualPort l \<rparr>))))))"

definition handleStop :: "RawMessage \<Rightarrow> remoteForwardService \<Rightarrow> remoteForwardService \<times> anyValue result" where
  "handleStop payload m =
     (case decode_payload payload of
        Inl err \<Rightarrow> (m, Inl err)
      | Inr b \<Rightarrow>
          let m1 = m\<lparr> sv_listeners := (sv_listeners m)(b := None) \<rparr>
          in (case sv_listeners m b of None \<Rightarrow> m1 | Some i \<Rightarrow> listener_Close i m1, Inr None))"

text \<open>
  The accept loop of a listener: \<open>acceptErr\<close> is the error \<^verbatim>\<open>Accept\<close> fails with, \<open>None\<close> that
  it returned because a connection could not be handed to a goroutine.
  The loop returns an error or not, and its deferred calls close the listener and remove it.
\<close>

definition listener_run :: "go_error option \<Rightarrow> go_error option" where
  "listener_run acceptErr =
     (case acceptErr of
        None \<Rightarrow> None
      | Some err \<Rightarrow> if errors_is err NetErrClosed then None else Some err)"

definition service_run_end :: "nat \<Rightarrow> remoteForwardService \<Rightarrow> remoteForwardService" where
  "service_run_end i m = service_remove i (listener_Close i (m\<lparr> sv_running := sv_running m - {i} \<rparr>))"

text \<open>A connection accepted by a listener opens a stream with these headers.\<close>

definition proxyRemoteListenerConnection :: "remoteTCPListener \<Rightarrow> string \<Rightarrow> (string \<rightharpoonup> string)" where
  "proxyRemoteListenerConnection l remoteAddr =
     (let (originHost, originPortText) = (case SplitHostPort remoteAddr of Inl _ \<Rightarrow> ([], []) | Inr hp \<Rightarrow> hp);
          originPort = (case ParseUint32 originPortText of None \<Rightarrow> 0 | Some p \<Rightarrow> p)
      in remoteConnectionHeaders (tl_actualBind l) (tl_requestedBind l) originHost (format_nat originPort))"

section \<open>The agent socket\<close>

text \<open>
  \<open>as_dirs\<close> are the temporary directories that exist and \<open>as_open\<close> the sockets not closed.
  \<open>as_conn\<close> tells how far the shutdown of the connection has come: serving, no
  longer accepting work, or with its context cancelled.
\<close>

datatype connPhase = ConnServing | ConnClosing | ConnCanceled

record agentForwardService =
  as_listener :: "nat option"
  as_dir :: string
  as_closed :: bool
  as_dirs :: "string set"
  as_open :: "nat set"
  as_running :: "nat set"
  as_next :: nat
  as_conn :: connPhase

definition newAgentForwardService :: agentForwardService where
  "newAgentForwardService =
     \<lparr> as_listener = None, as_dir = [], as_closed = False, as_dirs = {}, as_open = {}, as_running = {}, as_next = 0,
       as_conn = ConnServing \<rparr>"

definition agentForwardSocketName :: string where
  "agentForwardSocketName = ''agent.sock''"

definition RemoveAll :: "string \<Rightarrow> agentForwardService \<Rightarrow> agentForwardService" where
  "RemoveAll dir m = (if dir \<noteq> [] then m\<lparr> as_dirs := as_dirs m - {dir} \<rparr> else m)"

text \<open>\<^verbatim>\<open>decodeEmptyPayload\<close> decodes the payload, if any, into an empty struct.\<close>

definition decodeEmptyPayload :: "RawMessage \<Rightarrow> go_error option" where
  "decodeEmptyPayload payload =
     (case payload of
        None \<Rightarrow> None
      | Some doc \<Rightarrow> (case json_members doc of Inl err \<Rightarrow> Some err | Inr _ \<Rightarrow> None))"

definition agent_closeIfMatch :: "nat \<Rightarrow> agentForwardService \<Rightarrow> agentForwardService \<times> bool" where
  "agent_closeIfMatch i m =
     (if as_listener m \<noteq> Some i \<or> as_closed m then (m, False)
      else
        let dir = as_dir m;
            m1 = m\<lparr> as_listener := None, as_dir := [], as_closed := True, as_open := as_open m - {i} \<rparr>
        in (RemoveAll dir m1, True))"

definition agent_isClosed :: "nat \<Rightarrow> agentForwardService \<Rightarrow> bool" where
  "agent_isClosed i m = (as_closed m \<or> as_listener m \<noteq> Some i)"

definition agent_service_close :: "agentForwardService \<Rightarrow> agentForwardService \<times> bool" where
  "agent_service_close m =
     (let active = as_listener m \<noteq> None \<and> \<not> as_closed m;
          dir = as_dir m;
          m1 = m\<lparr> as_listener := None, as_dir := [], as_closed := True,
                  as_open := (case as_listener m of None \<Rightarrow> as_open m | Some i \<Rightarrow> as_open m - {i}) \<rparr>
      in (RemoveAll dir m1, active))"

definition agent_handleListen ::
  "string result \<Rightarrow> go_error option \<Rightarrow> (string \<Rightarrow> go_error option) \<Rightarrow> RawMessage
     \<Rightarrow> agentForwardService \<Rightarrow> agentForwardService \<times> anyValue result" where
  "agent_handleListen mkdirTemp chmodErr listen payload m =
     (case decodeEmptyPayload payload of
        Some err \<Rightarrow> (m, Inl err)
      | None \<Rightarrow>
          if as_listener m \<noteq> None \<and> \<not> as_closed m
          then (m, Inl (Errorf ''agent-forward listener already exists'' []))
          else case mkdirTemp of
            Inl err \<Rightarrow> (m, Inl err)
          | Inr dir \<Rightarrow>
              let m1 = m\<lparr> as_dirs := insert dir (as_dirs m) \<rparr>
              in case chmodErr of
                   Some err \<Rightarrow> (RemoveAll dir m1, Inl err)
                 | None \<Rightarrow>
                     let socketPath = filepath_Join dir agentForwardSocketName
                     in case listen socketPath of
                          Some err \<Rightarrow> (RemoveAll dir m1, Inl err)
                        | None \<Rightarrow>
                            let i = as_next m1;
                                m2 = m1\<lparr> as_next := Suc i, as_open := insert i (as_open m1), as_listener := Some i,
                                         as_dir := dir, as_closed := False \<rparr>
                            in if as_conn m2 \<noteq> ConnServing
                               then (fst (agent_closeIfMatch i m2), Inl ErrConnectionClosed)
                               else (m2\<lparr> as_running := insert i (as_running m2) \<rparr>,
                                     Inr (Some (Inr (JObject [(''socketPath'', JString socketPath)])))))"

definition agent_handleStop :: "RawMessage \<Rightarrow> agentForwardService \<Rightarrow> agentForwardService \<times> anyValue result" where
  "agent_handleStop payload m =
     (case decodeEmptyPayload payload of
        Some err \<Rightarrow> (m, Inl err)
      | None \<Rightarrow> (fst (agent_service_close m), Inr None))"

text \<open>
  The accept loop returns in two ways: \<^verbatim>\<open>Accept\<close> fails, or a connection was accepted that
  \<^verbatim>\<open>Connection.Go\<close> refuses because the connection is shutting down.
\<close>

definition agent_accept_failed :: "nat \<Rightarrow> go_error \<Rightarrow> agentForwardService \<Rightarrow> agentForwardService \<times> go_error option" where
  "agent_accept_failed i err m0 =
     (let m = m0\<lparr> as_running := as_running m0 - {i} \<rparr>
      in if agent_isClosed i m then (m, None)
         else (fst (agent_closeIfMatch i m), if errors_is err NetErrClosed then None else Some err))"

definition agent_go_refused :: "nat \<Rightarrow> agentForwardService \<Rightarrow> agentForwardService \<times> go_error option" where
  "agent_go_refused i m = (m\<lparr> as_running := as_running m - {i} \<rparr>, None)"

text \<open>The function registered with \<^verbatim>\<open>context.AfterFunc\<close> runs for the loops that have not returned.\<close>

definition agent_context_done :: "nat \<Rightarrow> agentForwardService \<Rightarrow> agentForwardService" where
  "agent_context_done i m = fst (agent_closeIfMatch i m)"

section \<open>Registration\<close>

datatype forwardingHandler = RemoteListen | RemoteStop | AgentListen | AgentStop

fun register_all ::
  "(string \<times> forwardingHandler) list \<Rightarrow> (forwardingHandler, 's) rpcConnection
     \<Rightarrow> (forwardingHandler, 's) rpcConnection \<times> go_error option" where
  "register_all [] s = (s, None)"
| "register_all ((mthd, handler) # rest) s =
     (case Register s mthd (Some handler) of
        (s1, Some err) \<Rightarrow> (s1, Some err)
      | (s1, None) \<Rightarrow> register_all rest s1)"

definition registerForwardingServices ::
  "(forwardingHandler, 's) rpcConnection \<Rightarrow> (forwardingHandler, 's) rpcConnection \<times> go_error option" where
  "registerForwardingServices s =
     register_all
       [(''remote-forward.listen'', RemoteListen), (''remote-forward.stop'', RemoteStop),
        (''agent-forward.listen'', AgentListen), (''agent-forward.stop'', AgentStop)] s"

text \<open>\<open>ServeConnection\<close> up to the call of \<^verbatim>\<open>Serve\<close>.\<close>

definition ServeConnection :: "go_error option \<Rightarrow> (forwardingHandler, 's) rpcConnection result" where
  "ServeConnection transportErr =
     (case transportErr of
        Some err \<Rightarrow> Inl err
      | None \<Rightarrow>
          (case registerForwardingServices newConnection of
             (s, Some err) \<Rightarrow> Inl err
           | (s, None) \<Rightarrow> Inr (fst (Serve_start s))))"

section \<open>Standard input and output\<close>

text \<open>\<open>stdioConn\<close>: each of the two ends is closed once, and the first error is remembered.\<close>

record stdioConn =
  sc_readerCloses :: nat
  sc_writerCloses :: nat
  sc_closed :: bool
  sc_closeErr :: "go_error list"
  sc_writeClosed :: bool
  sc_closeWriteErr :: "go_error option"

definition newStdioConn :: stdioConn where
  "newStdioConn =
     \<lparr> sc_readerCloses = 0, sc_writerCloses = 0, sc_closed = False, sc_closeErr = [], sc_writeClosed = False,
       sc_closeWriteErr = None \<rparr>"

definition stdio_CloseWrite :: "go_error option \<Rightarrow> stdioConn \<Rightarrow> stdioConn \<times> go_error option" where
  "stdio_CloseWrite writerErr c =
     (if sc_writeClosed c then (c, sc_closeWriteErr c)
      else (c\<lparr> sc_writeClosed := True, sc_writerCloses := sc_writerCloses c + 1, sc_closeWriteErr := writerErr \<rparr>, writerErr))"

text \<open>\<^verbatim>\<open>errors.Join\<close> keeps the errors that are not nil.\<close>

definition errors_Join :: "go_error option list \<Rightarrow> go_error list" where
  "errors_Join errs = List.map_filter id errs"

definition stdio_Close :: "go_error option \<Rightarrow> go_error option \<Rightarrow> stdioConn \<Rightarrow> stdioConn \<times> go_error list" where
  "stdio_Close readerErr writerErr c =
     (if sc_closed c then (c, sc_closeErr c)
      else
        let c1 = c\<lparr> sc_closed := True, sc_readerCloses := sc_readerCloses c + 1 \<rparr>;
            (c2, closeWriteErr) = stdio_CloseWrite writerErr c1;
            closeErr = errors_Join [readerErr, closeWriteErr]
        in (c2\<lparr> sc_closeErr := closeErr \<rparr>, closeErr))"

text \<open>\<open>RunDial\<close>: what is dialled, or the error.\<close>

definition RunDial :: "(string \<Rightarrow> go_error option) \<Rightarrow> string \<Rightarrow> nat \<Rightarrow> go_error option \<Rightarrow> go_error option \<times> string list" where
  "RunDial dial host port proxyErr =
     (if host = [] then (Some (Errorf ''host is required'' []), [])
      else if port = 0 \<or> port > 65535 then (Some (Errorf ''port must be between 1 and 65535'' []), [])
      else
        let address = JoinHostPort host (format_nat port)
        in case dial address of
             Some err \<Rightarrow> (Some err, [address])
           | None \<Rightarrow> (proxyErr, [address]))"

end
