(* ===== verification/HelperServiceLaws.thy ===== *)
theory HelperServiceLaws
  imports HelperService SpdyRpcLaws
begin

text \<open>
  Correctness of the helper's forwarding services: which sockets and temporary directories exist, and
  what a listen call answered through the RPC layer tells the client.
\<close>

section \<open>Remote listeners\<close>

text \<open>
  The machine of the service.  The guard of \<open>listen\<close> is the kernel's: an address it hands out is
  not the address of a socket that is still open.
\<close>

definition free_address :: "remoteForwardService \<Rightarrow> string \<Rightarrow> bool" where
  "free_address m a = (\<forall>i \<in> sv_open m. \<forall>l. sv_sockets m i = Some l \<longrightarrow> tl_actualBind l \<noteq> a)"

inductive service_step :: "remoteForwardService \<Rightarrow> remoteForwardService \<Rightarrow> bool" where
  service_listen: "(\<And>b a. listen b = Inr a \<Longrightarrow> free_address m a) \<Longrightarrow>
    service_step m (fst (handleListen listen goOk payload m))"
| service_stop: "service_step m (fst (handleStop payload m))"
| service_run_ends: "i \<in> sv_running m \<Longrightarrow> service_step m (service_run_end i m)"

inductive service_init :: "remoteForwardService \<Rightarrow> bool" where
  "service_init newRemoteForwardService"

definition service_inv :: "remoteForwardService \<Rightarrow> bool" where
  "service_inv m =
     ((\<forall>i \<in> sv_open m. i \<in> sv_running m \<and>
         (\<exists>l. sv_sockets m i = Some l \<and> sv_listeners m (tl_actualBind l) = Some i)) \<and>
      (\<forall>b i. sv_listeners m b = Some i \<longrightarrow> (\<exists>l. sv_sockets m i = Some l \<and> tl_actualBind l = b)) \<and>
      dom (sv_sockets m) \<union> sv_open m \<union> sv_running m \<subseteq> {..<sv_next m})"

lemma service_invD:
  assumes "service_inv m"
  shows "i \<in> sv_open m \<Longrightarrow> i \<in> sv_running m"
    "i \<in> sv_open m \<Longrightarrow> \<exists>l. sv_sockets m i = Some l \<and> sv_listeners m (tl_actualBind l) = Some i"
    "sv_listeners m b = Some i \<Longrightarrow> \<exists>l. sv_sockets m i = Some l \<and> tl_actualBind l = b"
    "i \<in> sv_open m \<Longrightarrow> i < sv_next m" "i \<in> sv_running m \<Longrightarrow> i < sv_next m" "sv_sockets m i = Some l \<Longrightarrow> i < sv_next m"
  using assms unfolding service_inv_def by blast+

lemma service_invI:
  assumes "\<And>i. i \<in> sv_open m \<Longrightarrow> i \<in> sv_running m"
    "\<And>i. i \<in> sv_open m \<Longrightarrow> \<exists>l. sv_sockets m i = Some l \<and> sv_listeners m (tl_actualBind l) = Some i"
    "\<And>b i. sv_listeners m b = Some i \<Longrightarrow> \<exists>l. sv_sockets m i = Some l \<and> tl_actualBind l = b"
    "\<And>i. i \<in> sv_running m \<Longrightarrow> i < sv_next m" "\<And>i l. sv_sockets m i = Some l \<Longrightarrow> i < sv_next m"
  shows "service_inv m"
  using assms unfolding service_inv_def by blast

text \<open>What a successful \<open>newRemoteTCPListener\<close> does.\<close>

lemma newRemoteTCPListener_outcomes:
  "(\<exists>err. newRemoteTCPListener listen b m = (m, Inl err)) \<or>
   (\<exists>err. newRemoteTCPListener listen b m =
      (m\<lparr> sv_next := Suc (sv_next m), sv_open := sv_open m - {sv_next m} \<rparr>, Inl err)) \<or>
   (\<exists>l a. newRemoteTCPListener listen b m =
      (m\<lparr> sv_next := Suc (sv_next m), sv_open := insert (sv_next m) (sv_open m),
          sv_sockets := (sv_sockets m)(sv_next m \<mapsto> l) \<rparr>, Inr (sv_next m, l)) \<and>
      listen a = Inr (tl_actualBind l) \<and> tl_requestedBind l = b)"
  unfolding newRemoteTCPListener_def listener_Close_def Let_def
  by (auto split: prod.splits sum.splits option.splits)

lemma handleListen_inv:
  assumes "service_inv m" "\<And>b a. listen b = Inr a \<Longrightarrow> free_address m a"
  shows "service_inv (fst (handleListen listen goOk payload m))"
proof (cases "decode_payload payload")
  case (Inr b)
  define n where "n = sv_next m"
  have n: "n \<notin> sv_open m" "sv_sockets m n = None" "n \<notin> sv_running m"
    using service_invD(4,5,6) [OF assms(1), of n] by (cases "sv_sockets m n"; auto simp: n_def)+
  consider (failed) err where "newRemoteTCPListener listen b m = (m, Inl err)"
    | (aborted) err where "newRemoteTCPListener listen b m = (m\<lparr> sv_next := Suc n, sv_open := sv_open m - {n} \<rparr>, Inl err)"
    | (opened) l a where "newRemoteTCPListener listen b m =
        (m\<lparr> sv_next := Suc n, sv_open := insert n (sv_open m), sv_sockets := (sv_sockets m)(n \<mapsto> l) \<rparr>, Inr (n, l))"
      "listen a = Inr (tl_actualBind l)"
    using newRemoteTCPListener_outcomes [of listen b m] unfolding n_def by blast
  then show ?thesis
  proof cases
    case failed
    then show ?thesis using Inr assms(1) by (simp add: handleListen_def)
  next
    case aborted
    have "service_inv (m\<lparr> sv_next := Suc n, sv_open := sv_open m - {n} \<rparr>)"
      using service_invD [OF assms(1)] by (intro service_invI) (auto simp: n_def less_SucI)
    then show ?thesis using Inr aborted by (simp add: handleListen_def)
  next
    case opened
    define a where "a = tl_actualBind l"
    have free: "free_address m a" using assms(2) opened(2) by (simp add: a_def)
    have moved: "sv_listeners m (tl_actualBind l') = Some i \<and> tl_actualBind l' \<noteq> a"
      if "i \<in> sv_open m" "sv_sockets m i = Some l'" for i l'
      using that service_invD(2) [OF assms(1) that(1)] free by (auto simp: free_address_def)
    show ?thesis
    proof (cases goOk)
      case True
      define t where "t = m\<lparr> sv_next := Suc n, sv_open := insert n (sv_open m), sv_sockets := (sv_sockets m)(n \<mapsto> l),
        sv_listeners := (sv_listeners m)(a \<mapsto> n), sv_running := insert n (sv_running m) \<rparr>"
      have "service_inv t"
      proof (rule service_invI)
        show "\<exists>l'. sv_sockets t i = Some l' \<and> sv_listeners t (tl_actualBind l') = Some i" if "i \<in> sv_open t" for i
        proof (cases "i = n")
          case False
          then have i: "i \<in> sv_open m" using that by (simp add: t_def)
          then obtain l' where "sv_sockets m i = Some l'" using service_invD(2) [OF assms(1)] by blast
          then show ?thesis using moved [OF i] False by (simp add: t_def)
        qed (simp add: t_def a_def)
        show "\<exists>l'. sv_sockets t i = Some l' \<and> tl_actualBind l' = b'" if "sv_listeners t b' = Some i" for b' i
        proof (cases "b' = a")
          case False
          then have "sv_listeners m b' = Some i" using that by (simp add: t_def)
          then show ?thesis using service_invD(3) [OF assms(1)] n(2) by (fastforce simp: t_def)
        qed (use that in \<open>simp add: t_def a_def\<close>)
      qed (use service_invD [OF assms(1)] in \<open>auto simp: t_def n_def less_SucI split: if_splits\<close>)
      moreover have "fst (handleListen listen goOk payload m) = t"
        using Inr opened True by (simp add: handleListen_def t_def a_def Let_def)
      ultimately show ?thesis by simp
    next
      case False
      define t where "t = m\<lparr> sv_next := Suc n, sv_open := sv_open m - {n}, sv_sockets := (sv_sockets m)(n \<mapsto> l),
        sv_listeners := (sv_listeners m)(a := None) \<rparr>"
      have "service_inv t"
      proof (rule service_invI)
        show "\<exists>l'. sv_sockets t i = Some l' \<and> sv_listeners t (tl_actualBind l') = Some i" if "i \<in> sv_open t" for i
        proof -
          have i: "i \<in> sv_open m" "i \<noteq> n" using that n(1) by (auto simp: t_def)
          then obtain l' where "sv_sockets m i = Some l'" using service_invD(2) [OF assms(1)] by blast
          then show ?thesis using moved [OF i(1)] i(2) by (simp add: t_def)
        qed
        show "\<exists>l'. sv_sockets t i = Some l' \<and> tl_actualBind l' = b'" if "sv_listeners t b' = Some i" for b' i
        proof -
          have "sv_listeners m b' = Some i" using that by (simp add: t_def split: if_splits)
          then show ?thesis using service_invD(3) [OF assms(1)] n(2) by (fastforce simp: t_def)
        qed
      qed (use service_invD [OF assms(1)] in \<open>auto simp: t_def n_def less_SucI split: if_splits\<close>)
      moreover have "fst (handleListen listen goOk payload m) = t"
        using Inr opened False n(1)
        by (simp add: handleListen_def t_def a_def Let_def service_remove_def listener_Close_def)
      ultimately show ?thesis by simp
    qed
  qed
qed (use assms in \<open>simp add: handleListen_def\<close>)

lemma handleStop_inv:
  assumes "service_inv m"
  shows "service_inv (fst (handleStop payload m))"
proof (cases "decode_payload payload")
  case (Inr b)
  define t where "t = (case sv_listeners m b of None \<Rightarrow> m | Some i \<Rightarrow> m\<lparr> sv_open := sv_open m - {i} \<rparr>)
    \<lparr> sv_listeners := (sv_listeners m)(b := None) \<rparr>"
  have t: "sv_open t = (case sv_listeners m b of None \<Rightarrow> sv_open m | Some i \<Rightarrow> sv_open m - {i})"
    "sv_running t = sv_running m" "sv_sockets t = sv_sockets m" "sv_next t = sv_next m"
    "sv_listeners t = (sv_listeners m)(b := None)"
    by (simp_all add: t_def split: option.split)
  have "service_inv t"
  proof (rule service_invI)
    show "\<exists>l. sv_sockets t i = Some l \<and> sv_listeners t (tl_actualBind l) = Some i" if "i \<in> sv_open t" for i
    proof -
      have "i \<in> sv_open m" "sv_listeners m b \<noteq> Some i" using that t(1) by (auto split: option.splits)
      then show ?thesis using service_invD(2) [OF assms] t by fastforce
    qed
    show "i \<in> sv_running t" if "i \<in> sv_open t" for i
      using that service_invD(1) [OF assms] t by (auto split: option.splits)
  qed (use service_invD [OF assms] t in \<open>auto split: if_splits\<close>)
  moreover have "fst (handleStop payload m) = t"
    using Inr by (auto simp: handleStop_def t_def Let_def listener_Close_def split: option.split)
  ultimately show ?thesis by simp
qed (use assms in \<open>simp add: handleStop_def\<close>)

lemma service_run_end_inv:
  assumes "service_inv m"
  shows "service_inv (service_run_end i m)"
proof (rule service_invI)
  have t: "sv_open (service_run_end i m) = sv_open m - {i}" "sv_running (service_run_end i m) = sv_running m - {i}"
    "sv_sockets (service_run_end i m) = sv_sockets m" "sv_next (service_run_end i m) = sv_next m"
    "\<And>b j. sv_listeners (service_run_end i m) b = Some j \<Longrightarrow> sv_listeners m b = Some j"
    "\<And>b j. sv_listeners m b = Some j \<Longrightarrow> j \<noteq> i \<Longrightarrow> sv_listeners (service_run_end i m) b = Some j"
    by (auto simp: service_run_end_def service_remove_def listener_Close_def split: option.splits if_splits)
  show "\<exists>l. sv_sockets (service_run_end i m) j = Some l \<and> sv_listeners (service_run_end i m) (tl_actualBind l) = Some j"
    if "j \<in> sv_open (service_run_end i m)" for j
  proof -
    have j: "j \<in> sv_open m" "j \<noteq> i" using that t(1) by auto
    then show ?thesis using service_invD(2) [OF assms j(1)] t(3,6) by auto
  qed
  show "\<exists>l. sv_sockets (service_run_end i m) j = Some l \<and> tl_actualBind l = b"
    if "sv_listeners (service_run_end i m) b = Some j" for b j
    using service_invD(3) [OF assms t(5) [OF that]] t(3) by simp
qed (use service_invD [OF assms] in \<open>auto simp: service_run_end_def service_remove_def listener_Close_def split: option.splits if_splits\<close>)

interpretation remote_service: inductive_invariant service_init service_step service_inv
proof
  show "service_init m \<Longrightarrow> service_inv m" for m
    by (auto simp: service_inv_def newRemoteForwardService_def elim: service_init.cases)
  show "service_inv t" if inv: "service_inv m" and step: "service_step m t" for m t
    using step
  proof cases
    case (service_listen listen goOk payload)
    show ?thesis unfolding service_listen(1) using inv service_listen(2) by (rule handleListen_inv)
  qed (use inv in \<open>simp_all only: handleStop_inv service_run_end_inv\<close>)
qed

lemma decode_bind_request [simp]: "decode_bind (bind_request b) = Inr b"
  by (simp add: decode_bind_def bind_request_def json_members_def json_string_def json_field_def)

lemma handleStop_closes:
  assumes "service_inv m" "i \<in> sv_open m" "sv_sockets m i = Some l"
  shows "i \<notin> sv_open (fst (handleStop (Some (bind_request (tl_actualBind l))) m))"
proof -
  have "sv_listeners m (tl_actualBind l) = Some i" using service_invD(2) [OF assms(1,2)] assms(3) by auto
  then show ?thesis by (simp add: handleStop_def decode_payload_def Let_def listener_Close_def)
qed

text \<open>
  C23. Every listening socket of the helper is served and can be stopped.  In every reachable state of the
  remote forwarding service, a socket that is open has an accept loop that has not
  returned, and a stop call with the address that was reported for it closes it; so once all
  accept loops have returned, no socket is left open.
\<close>

theorem helper_sockets_stoppable:
  assumes "reach service_init service_step m"
  shows "(\<forall>i \<in> sv_open m. i \<in> sv_running m \<and>
      (\<exists>l. sv_sockets m i = Some l \<and>
        i \<notin> sv_open (fst (handleStop (Some (bind_request (tl_actualBind l))) m)))) \<and>
    (sv_running m = {} \<longrightarrow> sv_open m = {})"
proof -
  have inv: "service_inv m" using remote_service.reach_inv [OF assms] .
  have "i \<in> sv_running m \<and> (\<exists>l. sv_sockets m i = Some l \<and>
      i \<notin> sv_open (fst (handleStop (Some (bind_request (tl_actualBind l))) m)))" if "i \<in> sv_open m" for i
    using service_invD(1,2) [OF inv that] handleStop_closes [OF inv that] by blast
  then show ?thesis by blast
qed

definition example_listen :: "string \<Rightarrow> string result" where
  "example_listen a = (if a = ''127.0.0.1:0'' then Inr ''127.0.0.1:4000'' else Inl NetErrClosed)"

definition example_service :: remoteForwardService where
  "example_service = fst (handleListen example_listen True (Some (bind_request ''127.0.0.1:0'')) newRemoteForwardService)"

lemma example_parse:
  "SplitHostPort ''127.0.0.1:0'' = Inr (''127.0.0.1'', ''0'')" "SplitHostPort ''127.0.0.1:4000'' = Inr (''127.0.0.1'', ''4000'')"
  "JoinHostPort ''127.0.0.1'' ''0'' = ''127.0.0.1:0''"
  by code_simp+

lemma example_ports: "ParseUint32 ''0'' = Some 0" "ParseUint32 ''4000'' = Some 4000"
  by (simp_all add: ParseUint32_def parse_nat_def char_digit_def)

lemma example_service_open: "sv_open example_service = {0}"
  by (simp add: example_service_def handleListen_def decode_payload_def newRemoteTCPListener_def example_parse example_ports
      example_listen_def newRemoteForwardService_def Let_def)

lemma example_service_reach: "reach service_init service_step example_service"
proof -
  have "reach service_init service_step newRemoteForwardService" by (intro reach_init service_init.intros)
  moreover have "service_step newRemoteForwardService example_service"
    unfolding example_service_def
    by (rule service_listen) (simp add: free_address_def newRemoteForwardService_def)
  ultimately show ?thesis by (rule reach_step)
qed

theorem helper_sockets_stoppable_witness:
  "0 \<in> sv_running example_service \<and> (\<exists>l. sv_sockets example_service 0 = Some l \<and>
    0 \<notin> sv_open (fst (handleStop (Some (bind_request (tl_actualBind l))) example_service)))"
  using helper_sockets_stoppable [OF example_service_reach, THEN conjunct1, rule_format, of 0] example_service_open by simp

section \<open>Connections handed to the client\<close>

lemma header_values_of_headers [simp]:
  "remoteConnectionHeaderValues (remoteConnectionHeaders b r h p) = (b, r, h, p)"
  by (simp add: remoteConnectionHeaderValues_def remoteConnectionHeaders_def header_Get_def StreamTypeHeader_def)

lemma ParseUint32_bound: "ParseUint32 s = Some n \<Longrightarrow> n < 2 ^ 32"
  by (simp add: ParseUint32_def split: option.splits if_splits)

lemma ParseUint32_format: "n < 2 ^ 32 \<Longrightarrow> ParseUint32 (format_nat n) = Some n"
  by (simp add: ParseUint32_def)

text \<open>
  C24. The client understands every connection the helper announces.  Whatever the address of the peer of an
  accepted connection looks like, the headers the helper sends are decoded without an
  error: to the listener's own two addresses, under which the client has registered it, and to
  a port that fits in 32 bits; and when the address is a host and a port in the form of
  \<^verbatim>\<open>net.JoinHostPort\<close>, to this host and this port.
\<close>

theorem forwarded_connection_understood:
  "\<exists>incoming. remoteIncomingFromStream x (proxyRemoteListenerConnection l addr) = Inr incoming \<and>
     ri_stream incoming = x \<and>
     ci_Bind (ri_info incoming) = tl_actualBind l \<and>
     ci_RequestedBind (ri_info incoming) = tl_requestedBind l \<and>
     ci_OriginPort (ri_info incoming) < 2 ^ 32 \<and>
     (\<forall>host port. SplitHostPort addr = Inr (host, format_nat port) \<and> port < 2 ^ 32 \<longrightarrow>
        ci_OriginHost (ri_info incoming) = host \<and> ci_OriginPort (ri_info incoming) = port)"
proof -
  obtain host portText where split: "(case SplitHostPort addr of Inl _ \<Rightarrow> ([], []) | Inr hp \<Rightarrow> hp) = (host, portText)"
    by (cases "case SplitHostPort addr of Inl _ \<Rightarrow> ([], []) | Inr hp \<Rightarrow> hp")
  define port where "port = (case ParseUint32 portText of None \<Rightarrow> 0 | Some p \<Rightarrow> p)"
  have bound: "port < 2 ^ 32" using ParseUint32_bound by (auto simp: port_def split: option.split)
  define incoming where "incoming = \<lparr> ri_stream = x, ri_info = \<lparr> ci_Bind = tl_actualBind l,
    ci_RequestedBind = tl_requestedBind l, ci_OriginHost = host, ci_OriginPort = port \<rparr> \<rparr>"
  have "proxyRemoteListenerConnection l addr =
      remoteConnectionHeaders (tl_actualBind l) (tl_requestedBind l) host (format_nat port)"
    by (simp add: proxyRemoteListenerConnection_def split port_def Let_def)
  then have "remoteIncomingFromStream x (proxyRemoteListenerConnection l addr) = Inr incoming"
    using ParseUint32_format [OF bound] by (simp add: remoteIncomingFromStream_def incoming_def)
  moreover have "host = h \<and> port = p" if "SplitHostPort addr = Inr (h, format_nat p)" "p < 2 ^ 32" for h p
    using split that ParseUint32_format [OF that(2)] by (auto simp: port_def)
  ultimately show ?thesis using bound by (intro exI [of _ incoming]) (simp add: incoming_def)
qed

definition example_listener :: remoteTCPListener where
  "example_listener = \<lparr> tl_requestedBind = ''127.0.0.1:0'', tl_actualBind = ''127.0.0.1:4000'', tl_actualPort = 4000 \<rparr>"

theorem forwarded_connection_understood_witness:
  "\<exists>incoming. remoteIncomingFromStream 7 (proxyRemoteListenerConnection example_listener ''10.0.0.9:22'') = Inr incoming \<and>
     ci_Bind (ri_info incoming) = ''127.0.0.1:4000'' \<and> ci_OriginHost (ri_info incoming) = ''10.0.0.9'' \<and>
     ci_OriginPort (ri_info incoming) = 22"
proof -
  have "SplitHostPort ''10.0.0.9:22'' = Inr (''10.0.0.9'', format_nat 22)" by code_simp
  then show ?thesis
    using forwarded_connection_understood [of 7 example_listener "''10.0.0.9:22''"] by (auto simp: example_listener_def)
qed

section \<open>The agent socket\<close>

text \<open>
  The machine of the agent service.  The kernel does not hand out the name of a temporary directory that exists; the
  connection first stops accepting work and then cancels its context.
\<close>

inductive agent_step :: "agentForwardService \<Rightarrow> agentForwardService \<Rightarrow> bool" where
  agent_listen: "(\<And>dir. mkdirTemp = Inr dir \<Longrightarrow> dir \<noteq> [] \<and> dir \<notin> as_dirs m) \<Longrightarrow>
    agent_step m (fst (agent_handleListen mkdirTemp chmodErr listen payload m))"
| agent_stop: "agent_step m (fst (agent_handleStop payload m))"
| agent_accept_fails: "i \<in> as_running m \<Longrightarrow> agent_step m (fst (agent_accept_failed i err m))"
| agent_refused: "i \<in> as_running m \<Longrightarrow> as_conn m \<noteq> ConnServing \<Longrightarrow> agent_step m (fst (agent_go_refused i m))"
| agent_conn_closing: "as_conn m = ConnServing \<Longrightarrow> agent_step m (m\<lparr> as_conn := ConnClosing \<rparr>)"
| agent_conn_canceled: "as_conn m = ConnClosing \<Longrightarrow> agent_step m (m\<lparr> as_conn := ConnCanceled \<rparr>)"
| agent_after_func: "i \<in> as_running m \<Longrightarrow> as_conn m = ConnCanceled \<Longrightarrow> agent_step m (agent_context_done i m)"

inductive agent_init :: "agentForwardService \<Rightarrow> bool" where
  "agent_init newAgentForwardService"

definition agent_inv :: "agentForwardService \<Rightarrow> bool" where
  "agent_inv m =
     (case as_listener m of
        None \<Rightarrow> as_open m = {} \<and> as_dirs m = {} \<and> as_dir m = []
      | Some i \<Rightarrow> as_open m = {i} \<and> as_dirs m = {as_dir m} \<and> as_dir m \<noteq> [] \<and> \<not> as_closed m)"

lemma RemoveAll_fields [simp]:
  "as_listener (RemoveAll d m) = as_listener m" "as_open (RemoveAll d m) = as_open m" "as_dir (RemoveAll d m) = as_dir m"
  "as_closed (RemoveAll d m) = as_closed m" "as_running (RemoveAll d m) = as_running m" "as_conn (RemoveAll d m) = as_conn m"
  "d \<noteq> [] \<Longrightarrow> as_dirs (RemoveAll d m) = as_dirs m - {d}" "as_dirs (RemoveAll [] m) = as_dirs m"
  by (simp_all add: RemoveAll_def)

lemma agent_closeIfMatch_inv: "agent_inv m \<Longrightarrow> agent_inv (fst (agent_closeIfMatch i m))"
  by (cases "as_listener m") (auto simp: agent_inv_def agent_closeIfMatch_def Let_def)

lemma agent_service_close_inv: "agent_inv m \<Longrightarrow> agent_inv (fst (agent_service_close m))"
  by (cases "as_listener m") (auto simp: agent_inv_def agent_service_close_def Let_def)

lemma agent_inv_running [simp]: "agent_inv (m\<lparr> as_running := r \<rparr>) = agent_inv m"
  by (simp add: agent_inv_def split: option.split)

lemma agent_inv_conn [simp]: "agent_inv (m\<lparr> as_conn := p \<rparr>) = agent_inv m"
  by (simp add: agent_inv_def split: option.split)

lemma agent_handleListen_inv:
  assumes "agent_inv m" "\<And>dir. mkdirTemp = Inr dir \<Longrightarrow> dir \<noteq> [] \<and> dir \<notin> as_dirs m"
  shows "agent_inv (fst (agent_handleListen mkdirTemp chmodErr listen payload m))"
proof (cases mkdirTemp)
  case (Inl err)
  then show ?thesis using assms(1) by (simp add: agent_handleListen_def split: option.split)
next
  case (Inr dir)
  have dir: "dir \<noteq> []" "dir \<notin> as_dirs m" using assms(2) [OF Inr] by simp_all
  show ?thesis
  proof (cases "as_listener m")
    case (Some i)
    then have "\<not> as_closed m" using assms(1) by (simp add: agent_inv_def)
    then show ?thesis using Some assms(1) by (simp add: agent_handleListen_def split: option.split)
  next
    case None
    then have m: "as_open m = {}" "as_dirs m = {}" "as_dir m = []" using assms(1) by (simp_all add: agent_inv_def)
    define m1 where "m1 = m\<lparr> as_dirs := insert dir (as_dirs m) \<rparr>"
    define m2 where "m2 = m1\<lparr> as_next := Suc (as_next m1), as_open := insert (as_next m1) (as_open m1),
      as_listener := Some (as_next m1), as_dir := dir, as_closed := False \<rparr>"
    have "agent_inv m2" using m dir(1) by (simp add: m2_def m1_def agent_inv_def)
    moreover have "agent_inv (RemoveAll dir m1)" using m None dir by (simp add: m1_def agent_inv_def)
    ultimately show ?thesis
      using Inr None agent_closeIfMatch_inv [of m2 "as_next m1"] assms(1)
      by (simp add: agent_handleListen_def Let_def m2_def m1_def split: option.split)
  qed
qed

interpretation agent_service: inductive_invariant agent_init agent_step agent_inv
proof
  show "agent_init m \<Longrightarrow> agent_inv m" for m
    by (auto simp: agent_inv_def newAgentForwardService_def elim: agent_init.cases)
  show "agent_inv t" if inv: "agent_inv m" and step: "agent_step m t" for m t
    using step
  proof cases
    case (agent_listen mkdirTemp chmodErr listen payload)
    show ?thesis unfolding agent_listen(1) using inv agent_listen(2) by (rule agent_handleListen_inv)
  qed (use inv in \<open>simp_all add: agent_handleStop_def agent_service_close_inv agent_accept_failed_def
      agent_closeIfMatch_inv agent_go_refused_def agent_context_done_def Let_def split: option.split\<close>)
qed

text \<open>
  At most one agent socket.  In every reachable state of the agent forwarding service at most one socket is
  open and at most one temporary directory exists: those of the current listener; without a listener there is neither.
  A stop call leaves neither.
\<close>

theorem agent_socket_exclusive:
  assumes "reach agent_init agent_step m"
  shows "(case as_listener m of
       None \<Rightarrow> as_open m = {} \<and> as_dirs m = {}
     | Some i \<Rightarrow> as_open m = {i} \<and> as_dirs m = {as_dir m}) \<and>
    as_open (fst (agent_handleStop None m)) = {} \<and> as_dirs (fst (agent_handleStop None m)) = {}"
proof -
  have inv: "agent_inv m" using agent_service.reach_inv [OF assms] .
  have "agent_inv (fst (agent_service_close m))" using inv by (rule agent_service_close_inv)
  moreover have "as_listener (fst (agent_service_close m)) = None" by (simp add: agent_service_close_def Let_def)
  ultimately show ?thesis
    using inv by (auto simp: agent_inv_def agent_handleStop_def decodeEmptyPayload_def split: option.splits)
qed

definition example_agent :: agentForwardService where
  "example_agent = fst (agent_handleListen (Inr ''/tmp/kube-ssh-agent-1'') None (\<lambda>_. None) None newAgentForwardService)"

lemma example_agent_reach: "reach agent_init agent_step example_agent"
proof -
  have "reach agent_init agent_step newAgentForwardService" by (intro reach_init agent_init.intros)
  moreover have "agent_step newAgentForwardService example_agent"
    unfolding example_agent_def by (rule agent_listen) (auto simp: newAgentForwardService_def)
  ultimately show ?thesis by (rule reach_step)
qed

lemma example_agent_fields:
  "as_listener example_agent = Some 0" "as_open example_agent = {0}" "as_dirs example_agent = {''/tmp/kube-ssh-agent-1''}"
  "as_running example_agent = {0}" "as_conn example_agent = ConnServing"
  by (simp_all add: example_agent_def agent_handleListen_def decodeEmptyPayload_def newAgentForwardService_def Let_def)

theorem agent_socket_exclusive_witness:
  "as_open example_agent = {0} \<and> as_dirs (fst (agent_handleStop None example_agent)) = {}"
  using agent_socket_exclusive [OF example_agent_reach] example_agent_fields by simp

text \<open>
  The accept loop returns without closing its socket when \<^verbatim>\<open>Connection.Go\<close> refuses an accepted
  connection.  When this happens between the moment the connection stops accepting work and the
  cancellation of its context, the loop unregisters the function that would have closed the socket: a
  state is reachable in which the context is cancelled and no accept loop is left, but the
  socket is open and its directory exists.
\<close>

theorem agent_socket_left_behind:
  "\<exists>m. reach agent_init agent_step m \<and> as_conn m = ConnCanceled \<and> as_running m = {} \<and>
     as_open m = {0} \<and> as_dirs m = {''/tmp/kube-ssh-agent-1''}"
proof -
  define m1 where "m1 = example_agent\<lparr> as_conn := ConnClosing \<rparr>"
  define m2 where "m2 = fst (agent_go_refused 0 m1)"
  define m3 where "m3 = m2\<lparr> as_conn := ConnCanceled \<rparr>"
  have "agent_step example_agent m1" unfolding m1_def by (rule agent_conn_closing) (simp add: example_agent_fields)
  with example_agent_reach have 1: "reach agent_init agent_step m1" by (rule reach_step)
  have "agent_step m1 m2" unfolding m2_def by (rule agent_refused) (simp_all add: m1_def example_agent_fields)
  with 1 have 2: "reach agent_init agent_step m2" by (rule reach_step)
  have "agent_step m2 m3" unfolding m3_def by (rule agent_conn_canceled) (simp add: m2_def m1_def agent_go_refused_def)
  with 2 have "reach agent_init agent_step m3" by (rule reach_step)
  then show ?thesis
    by (intro exI [of _ m3]) (simp add: m3_def m2_def m1_def agent_go_refused_def example_agent_fields)
qed

end
