(* ===== verification/StreamProxy.thy ===== *)
theory StreamProxy
  imports Machines
begin

text \<open>
  Bidirectional copying with half-close, \<^verbatim>\<open>pkg/ioproxy/proxy.go\<close>.  The two copying
  goroutines and the function itself are interleaved: a machine whose steps are the reading and
  writing of a chunk, the end of a copy, the receipt of its result, the cancellation of
  the context and the return.

  Each end is described by the bytes it has yet to produce.  How the ends answer (a
  write error, an error that ends the reading, the terminal result of \<^verbatim>\<open>Wait\<close>) is an
  argument of the steps.
\<close>

section \<open>The proxy\<close>

text \<open>
  A direction of copying: the bytes the source has not delivered yet, the number of bytes
  reported to the observer, the bytes written to the destination, whether the copy
  has returned and with which error, and how often the destination's write side was closed.
\<close>

record copyState =
  cs_source :: string
  cs_observed :: nat
  cs_written :: string
  cs_done :: bool
  cs_err :: "go_error option"
  cs_halfClosed :: nat

definition new_copy :: "string \<Rightarrow> copyState" where
  "new_copy bytes = \<lparr> cs_source = bytes, cs_observed = 0, cs_written = [], cs_done = False, cs_err = None, cs_halfClosed = 0 \<rparr>"

text \<open>
  \<open>px_dir True\<close> copies from \<open>b\<close> to \<open>a\<close> and \<open>px_dir False\<close> from \<open>a\<close> to \<open>b\<close>; \<open>px_errCh\<close> is the channel of capacity two.
  \<open>px_closed\<close> counts the calls of \<open>closeBoth\<close>, and \<open>px_opened\<close> and \<open>px_ended\<close> those of the
  observer.
\<close>

record proxyState =
  px_dir :: "bool \<Rightarrow> copyState"
  px_errCh :: "go_error option list"
  px_received :: nat
  px_result :: "go_error option"
  px_closed :: nat
  px_canceled :: bool
  px_returned :: "go_error option option"
  px_opened :: nat
  px_ended :: nat

definition ErrClosedPipe :: go_error where
  "ErrClosedPipe = External ''io: read/write on closed pipe''"

definition normalizeErr :: "go_error option \<Rightarrow> go_error option" where
  "normalizeErr err =
     (case err of
        None \<Rightarrow> None
      | Some e \<Rightarrow>
          if \<not> errors_is e IoEOF \<and> \<not> errors_is e NetErrClosed \<and> \<not> errors_is e ErrClosedPipe then Some e else None)"

text \<open>The start of \<open>ProxyWithObserver\<close> on two ends that will produce the given bytes.\<close>

definition ProxyWithObserver_start :: "bool \<Rightarrow> string \<Rightarrow> string \<Rightarrow> proxyState" where
  "ProxyWithObserver_start observed fromA fromB =
     \<lparr> px_dir = (\<lambda>toA. new_copy (if toA then fromB else fromA)), px_errCh = [], px_received = 0, px_result = None,
       px_closed = 0, px_canceled = False, px_returned = None, px_opened = (if observed then 1 else 0), px_ended = 0 \<rparr>"

definition Proxy_start :: "string \<Rightarrow> string \<Rightarrow> proxyState" where
  "Proxy_start fromA fromB = ProxyWithObserver_start False fromA fromB"

text \<open>Reading a chunk: the observer, if there is one, is told its size.\<close>

definition observedReader_Read :: "bool \<Rightarrow> nat \<Rightarrow> copyState \<Rightarrow> copyState \<times> string" where
  "observedReader_Read observed n c =
     (let chunk = take n (cs_source c)
      in (c\<lparr> cs_source := drop n (cs_source c),
             cs_observed := cs_observed c + (if observed \<and> chunk \<noteq> [] then length chunk else 0) \<rparr>, chunk))"

definition set_dir :: "bool \<Rightarrow> copyState \<Rightarrow> proxyState \<Rightarrow> proxyState" where
  "set_dir toA c p = p\<lparr> px_dir := (px_dir p)(toA := c) \<rparr>"

text \<open>The end of a copying goroutine: the destination is half-closed and the result sent.\<close>

definition copy_end :: "bool \<Rightarrow> go_error option \<Rightarrow> proxyState \<Rightarrow> proxyState" where
  "copy_end toA err p =
     (let c = px_dir p toA
      in (set_dir toA (c\<lparr> cs_done := True, cs_err := err, cs_halfClosed := cs_halfClosed c + 1 \<rparr>) p)
           \<lparr> px_errCh := px_errCh p @ [normalizeErr err] \<rparr>)"

text \<open>One round of \<^verbatim>\<open>io.Copy\<close>: a chunk is read and written, or written in part when the write fails.\<close>

definition copyObserved_chunk :: "bool \<Rightarrow> bool \<Rightarrow> nat \<Rightarrow> proxyState \<Rightarrow> proxyState" where
  "copyObserved_chunk observed toA n p =
     (case observedReader_Read observed n (px_dir p toA) of
        (c, chunk) \<Rightarrow> set_dir toA (c\<lparr> cs_written := cs_written c @ chunk \<rparr>) p)"

definition copyObserved_write_fails ::
  "bool \<Rightarrow> bool \<Rightarrow> nat \<Rightarrow> nat \<Rightarrow> go_error \<Rightarrow> proxyState \<Rightarrow> proxyState" where
  "copyObserved_write_fails observed toA n k err p =
     (case observedReader_Read observed n (px_dir p toA) of
        (c, chunk) \<Rightarrow> copy_end toA (Some err) (set_dir toA (c\<lparr> cs_written := cs_written c @ take k chunk \<rparr>) p))"

text \<open>The loop of the function: a result, or the end of the context.\<close>

definition proxy_receive :: "proxyState \<Rightarrow> proxyState" where
  "proxy_receive p =
     (case px_errCh p of
        [] \<Rightarrow> p
      | err # rest \<Rightarrow>
          p\<lparr> px_errCh := rest, px_received := px_received p + 1,
             px_result := (if err \<noteq> None \<and> px_result p = None then err else px_result p) \<rparr>)"

text \<open>The deferred calls run on every return; \<open>closeBoth\<close> runs once.\<close>

definition proxy_return :: "bool \<Rightarrow> go_error option \<Rightarrow> proxyState \<Rightarrow> proxyState" where
  "proxy_return observed result p =
     p\<lparr> px_closed := (if px_closed p = 0 then 1 else px_closed p),
        px_ended := px_ended p + (if observed then 1 else 0), px_returned := Some result \<rparr>"

definition proxy_context_done :: "bool \<Rightarrow> proxyState \<Rightarrow> proxyState" where
  "proxy_context_done observed p =
     proxy_return observed None (p\<lparr> px_closed := (if px_closed p = 0 then 1 else px_closed p), px_canceled := True \<rparr>)"

text \<open>Waiting for the terminal results of \<open>a\<close> and then \<open>b\<close>; an end without \<^verbatim>\<open>Wait\<close> has none.\<close>

definition keep_first :: "go_error option \<Rightarrow> go_error option \<Rightarrow> go_error option" where
  "keep_first result err = (if err \<noteq> None \<and> result = None then err else result)"

definition proxy_finish :: "bool \<Rightarrow> go_error option \<Rightarrow> go_error option \<Rightarrow> proxyState \<Rightarrow> proxyState" where
  "proxy_finish observed waitA waitB p =
     proxy_return observed (keep_first (keep_first (px_result p) waitA) waitB) p"

section \<open>The machine\<close>

text \<open>
  The steps, for a proxy of two ends that produce \<open>fromA\<close> and \<open>fromB\<close>.  A copy ends
  without an error when its source is exhausted, and with any error at any time.
\<close>

inductive proxy_init :: "bool \<Rightarrow> string \<Rightarrow> string \<Rightarrow> proxyState \<Rightarrow> bool" for observed fromA fromB where
  "proxy_init observed fromA fromB (ProxyWithObserver_start observed fromA fromB)"

inductive proxy_step :: "bool \<Rightarrow> proxyState \<Rightarrow> proxyState \<Rightarrow> bool" for observed where
  proxy_chunk: "\<not> cs_done (px_dir p toA) \<Longrightarrow> proxy_step observed p (copyObserved_chunk observed toA n p)"
| proxy_write_fails: "\<not> cs_done (px_dir p toA) \<Longrightarrow> proxy_step observed p (copyObserved_write_fails observed toA n k err p)"
| proxy_eof: "\<not> cs_done (px_dir p toA) \<Longrightarrow> cs_source (px_dir p toA) = [] \<Longrightarrow> proxy_step observed p (copy_end toA None p)"
| proxy_read_fails: "\<not> cs_done (px_dir p toA) \<Longrightarrow> proxy_step observed p (copy_end toA (Some err) p)"
| proxy_receives: "px_returned p = None \<Longrightarrow> px_received p < 2 \<Longrightarrow> px_errCh p \<noteq> [] \<Longrightarrow> proxy_step observed p (proxy_receive p)"
| proxy_cancels: "px_returned p = None \<Longrightarrow> px_received p < 2 \<Longrightarrow> proxy_step observed p (proxy_context_done observed p)"
| proxy_finishes: "px_returned p = None \<Longrightarrow> px_received p = 2 \<Longrightarrow>
    proxy_step observed p (proxy_finish observed waitA waitB p)"

section \<open>Correctness\<close>

text \<open>
  The bytes of a source are those written, those lost by a failed write, and those not yet
  read.
\<close>

definition copy_inv :: "bool \<Rightarrow> string \<Rightarrow> copyState \<Rightarrow> bool" where
  "copy_inv observed bytes c =
     (\<exists>lost. bytes = cs_written c @ lost @ cs_source c \<and>
        (\<not> cs_done c \<longrightarrow> lost = []) \<and>
        (cs_done c \<longrightarrow> cs_err c = None \<longrightarrow> lost = [] \<and> cs_source c = []) \<and>
        (observed \<longrightarrow> cs_observed c = length (cs_written c) + length lost) \<and>
        cs_halfClosed c = (if cs_done c then 1 else 0))"

text \<open>A real error of a copy that has ended is on its way to the caller.\<close>

definition errors_reported :: "proxyState \<Rightarrow> bool" where
  "errors_reported p =
     (\<forall>d. cs_done (px_dir p d) \<longrightarrow> normalizeErr (cs_err (px_dir p d)) \<noteq> None \<longrightarrow>
        normalizeErr (cs_err (px_dir p d)) \<in> set (px_errCh p) \<or> px_result p \<noteq> None)"

definition done_count :: "proxyState \<Rightarrow> nat" where
  "done_count p = (if cs_done (px_dir p True) then 1 else 0) + (if cs_done (px_dir p False) then 1 else 0)"

definition return_inv :: "proxyState \<Rightarrow> bool" where
  "return_inv p =
     (case px_returned p of
        None \<Rightarrow> px_closed p = 0 \<and> px_ended p = 0 \<and> \<not> px_canceled p
      | Some result \<Rightarrow> px_closed p = 1 \<and> px_ended p = px_opened p \<and>
          (if px_canceled p then result = None
           else px_received p = 2 \<and> (result = None \<longrightarrow> px_result p = None)))"

definition proxy_inv :: "bool \<Rightarrow> string \<Rightarrow> string \<Rightarrow> proxyState \<Rightarrow> bool" where
  "proxy_inv observed fromA fromB p =
     ((\<forall>d. copy_inv observed (if d then fromB else fromA) (px_dir p d)) \<and>
      length (px_errCh p) + px_received p = done_count p \<and> errors_reported p \<and>
      px_opened p = (if observed then 1 else 0) \<and> return_inv p)"

lemma copy_inv_new: "copy_inv observed bytes (new_copy bytes)"
  unfolding copy_inv_def by (rule exI [of _ "[]"]) (simp add: new_copy_def)

lemma copy_invD:
  assumes "copy_inv observed bytes c" "\<not> cs_done c"
  shows "bytes = cs_written c @ cs_source c" "observed \<longrightarrow> cs_observed c = length (cs_written c)" "cs_halfClosed c = 0"
  using assms by (auto simp: copy_inv_def)

text \<open>Reading and writing the next chunk, or a part of it.\<close>

lemma copy_inv_read:
  assumes "copy_inv observed bytes c" "\<not> cs_done c" "observedReader_Read observed n c = (c', chunk)"
  shows "copy_inv observed bytes (c'\<lparr> cs_written := cs_written c' @ chunk \<rparr>)"
    and "copy_inv observed bytes (c'\<lparr> cs_written := cs_written c' @ take k chunk, cs_done := True, cs_err := Some err,
      cs_halfClosed := cs_halfClosed c' + 1 \<rparr>)"
proof -
  note c = copy_invD [OF assms(1,2)]
  have split: "cs_source c = chunk @ cs_source c'" and c': "cs_written c' = cs_written c" "cs_done c' = cs_done c"
    "cs_halfClosed c' = cs_halfClosed c" "observed \<longrightarrow> cs_observed c' = cs_observed c + length chunk"
    using assms(3) by (auto simp: observedReader_Read_def Let_def)
  show "copy_inv observed bytes (c'\<lparr> cs_written := cs_written c' @ chunk \<rparr>)"
    unfolding copy_inv_def using c split c' assms(2) by (intro exI [of _ "[]"]) simp
  show "copy_inv observed bytes (c'\<lparr> cs_written := cs_written c' @ take k chunk, cs_done := True, cs_err := Some err,
      cs_halfClosed := cs_halfClosed c' + 1 \<rparr>)"
    unfolding copy_inv_def using c split c' by (intro exI [of _ "drop k chunk"]) (auto simp: min_def)
qed

lemma copy_inv_end:
  assumes "copy_inv observed bytes c" "\<not> cs_done c" "err = None \<longrightarrow> cs_source c = []"
  shows "copy_inv observed bytes (c\<lparr> cs_done := True, cs_err := err, cs_halfClosed := cs_halfClosed c + 1 \<rparr>)"
  unfolding copy_inv_def using copy_invD [OF assms(1,2)] assms(3) by (intro exI [of _ "[]"]) simp

lemma proxy_invD:
  assumes "proxy_inv observed fromA fromB p"
  shows "copy_inv observed (if d then fromB else fromA) (px_dir p d)" "length (px_errCh p) + px_received p = done_count p"
    "errors_reported p" "px_opened p = (if observed then 1 else 0)" "return_inv p"
  using assms by (simp_all add: proxy_inv_def)

lemma return_inv_frame:
  "px_returned q = px_returned p \<Longrightarrow> px_closed q = px_closed p \<Longrightarrow> px_ended q = px_ended p \<Longrightarrow>
   px_canceled q = px_canceled p \<Longrightarrow> px_opened q = px_opened p \<Longrightarrow> px_received q = px_received p \<Longrightarrow>
   px_result q = px_result p \<Longrightarrow> return_inv q = return_inv p"
  by (simp add: return_inv_def split: option.split)

text \<open>A step of one direction that does not end it.\<close>

lemma proxy_inv_set_dir:
  assumes inv: "proxy_inv observed fromA fromB p" and "\<not> cs_done (px_dir p d)" "\<not> cs_done c"
    and "copy_inv observed (if d then fromB else fromA) c"
  shows "proxy_inv observed fromA fromB (set_dir d c p)"
proof -
  have "done_count (set_dir d c p) = done_count p" using assms(2,3) by (cases d) (simp_all add: done_count_def set_dir_def)
  moreover have "errors_reported (set_dir d c p)"
    using proxy_invD(3) [OF inv] assms(3) by (auto simp: errors_reported_def set_dir_def)
  moreover have "return_inv (set_dir d c p) = return_inv p" by (rule return_inv_frame) (simp_all add: set_dir_def)
  moreover have "copy_inv observed (if e then fromB else fromA) (px_dir (set_dir d c p) e)" for e
    using proxy_invD(1) [OF inv, of e] assms(4) by (cases "e = d") (simp_all add: set_dir_def)
  ultimately show ?thesis
    using proxy_invD(2-) [OF inv] by (simp add: proxy_inv_def) (simp add: set_dir_def)
qed

text \<open>The end of a direction, of which some bytes may have been moved before.\<close>

lemma proxy_inv_end:
  assumes inv: "proxy_inv observed fromA fromB p" and "\<not> cs_done (px_dir p d)" "\<not> cs_done c"
    and ended: "copy_inv observed (if d then fromB else fromA)
      (c\<lparr> cs_done := True, cs_err := err, cs_halfClosed := cs_halfClosed c + 1 \<rparr>)"
  shows "proxy_inv observed fromA fromB (copy_end d err (set_dir d c p))"
proof -
  define q where "q = copy_end d err (set_dir d c p)"
  have q: "px_dir q = (px_dir p)(d := c\<lparr> cs_done := True, cs_err := err, cs_halfClosed := cs_halfClosed c + 1 \<rparr>)"
    "px_errCh q = px_errCh p @ [normalizeErr err]" "px_received q = px_received p" "px_result q = px_result p"
    "px_opened q = px_opened p" "px_returned q = px_returned p" "px_closed q = px_closed p" "px_ended q = px_ended p"
    "px_canceled q = px_canceled p"
    by (simp_all add: q_def copy_end_def set_dir_def Let_def)
  have "done_count q = Suc (done_count p)" using assms(2) by (cases d) (simp_all add: done_count_def q)
  moreover have "errors_reported q"
    using proxy_invD(3) [OF inv] by (auto simp: errors_reported_def q)
  moreover have "return_inv q = return_inv p" by (rule return_inv_frame) (simp_all add: q)
  ultimately show ?thesis
    unfolding q_def [symmetric]
    using proxy_invD [OF inv] ended by (simp add: proxy_inv_def q)
qed

lemma set_dir_same [simp]: "set_dir d (px_dir p d) p = p"
  by (simp add: set_dir_def)

lemma proxy_receive_inv:
  assumes inv: "proxy_inv observed fromA fromB p" and "px_returned p = None"
  shows "proxy_inv observed fromA fromB (proxy_receive p)"
proof (cases "px_errCh p")
  case (Cons err rest)
  define q where "q = proxy_receive p"
  have q: "px_dir q = px_dir p" "px_errCh q = rest" "px_received q = Suc (px_received p)"
    "px_result q = (if err \<noteq> None \<and> px_result p = None then err else px_result p)"
    "px_opened q = px_opened p" "px_returned q = None" "px_closed q = px_closed p" "px_ended q = px_ended p"
    "px_canceled q = px_canceled p"
    using Cons assms(2) by (simp_all add: q_def proxy_receive_def)
  have "errors_reported q"
    using proxy_invD(3) [OF inv] Cons by (auto simp: errors_reported_def q)
  then show ?thesis
    unfolding q_def [symmetric]
    using proxy_invD [OF inv] Cons assms(2) by (simp add: proxy_inv_def q return_inv_def done_count_def)
qed (use inv in \<open>simp add: proxy_receive_def\<close>)

lemma proxy_return_inv:
  assumes inv: "proxy_inv observed fromA fromB p" and "px_returned p = None"
  shows "proxy_inv observed fromA fromB (proxy_context_done observed p)"
    and "px_received p = 2 \<Longrightarrow> proxy_inv observed fromA fromB (proxy_finish observed waitA waitB p)"
  using proxy_invD [OF inv] assms(2)
  by (simp_all add: proxy_inv_def proxy_context_done_def proxy_finish_def proxy_return_def return_inv_def done_count_def
      errors_reported_def keep_first_def)

lemma proxy_step_inv:
  assumes "proxy_inv observed fromA fromB p" "proxy_step observed p t"
  shows "proxy_inv observed fromA fromB t"
  using assms(2)
proof cases
  case (proxy_chunk d n)
  obtain c chunk where read: "observedReader_Read observed n (px_dir p d) = (c, chunk)"
    by (cases "observedReader_Read observed n (px_dir p d)")
  have "\<not> cs_done c" using read proxy_chunk(2) by (auto simp: observedReader_Read_def Let_def)
  then show ?thesis
    using proxy_inv_set_dir [OF assms(1) proxy_chunk(2), of "c\<lparr> cs_written := cs_written c @ chunk \<rparr>"]
      copy_inv_read(1) [OF proxy_invD(1) [OF assms(1)] proxy_chunk(2) read]
    by (simp add: proxy_chunk(1) copyObserved_chunk_def read)
next
  case (proxy_write_fails d n k err)
  obtain c chunk where read: "observedReader_Read observed n (px_dir p d) = (c, chunk)"
    by (cases "observedReader_Read observed n (px_dir p d)")
  have "\<not> cs_done c" using read proxy_write_fails(2) by (auto simp: observedReader_Read_def Let_def)
  then show ?thesis
    using proxy_inv_end [OF assms(1) proxy_write_fails(2), of "c\<lparr> cs_written := cs_written c @ take k chunk \<rparr>" "Some err"]
      copy_inv_read(2) [OF proxy_invD(1) [OF assms(1)] proxy_write_fails(2) read, where k = k and err = err]
    by (simp add: proxy_write_fails(1) copyObserved_write_fails_def read)
next
  case (proxy_eof d)
  have "copy_inv observed (if d then fromB else fromA) ((px_dir p d)\<lparr> cs_done := True, cs_err := None,
      cs_halfClosed := cs_halfClosed (px_dir p d) + 1 \<rparr>)"
    using proxy_eof(3) by (intro copy_inv_end [OF proxy_invD(1) [OF assms(1)] proxy_eof(2)]) simp
  from proxy_inv_end [OF assms(1) proxy_eof(2) proxy_eof(2) this] show ?thesis by (simp add: proxy_eof(1))
next
  case (proxy_read_fails d err)
  have "copy_inv observed (if d then fromB else fromA) ((px_dir p d)\<lparr> cs_done := True, cs_err := Some err,
      cs_halfClosed := cs_halfClosed (px_dir p d) + 1 \<rparr>)"
    by (intro copy_inv_end [OF proxy_invD(1) [OF assms(1)] proxy_read_fails(2)]) simp
  from proxy_inv_end [OF assms(1) proxy_read_fails(2) proxy_read_fails(2) this] show ?thesis by (simp add: proxy_read_fails(1))
qed (use assms(1) proxy_receive_inv proxy_return_inv in blast)+

interpretation stream_proxy: inductive_invariant "proxy_init observed fromA fromB" "proxy_step observed"
  "proxy_inv observed fromA fromB" for observed fromA fromB
proof
  show "proxy_init observed fromA fromB p \<Longrightarrow> proxy_inv observed fromA fromB p" for p
    by (erule proxy_init.cases)
      (simp add: ProxyWithObserver_start_def proxy_inv_def copy_inv_new errors_reported_def done_count_def return_inv_def,
       simp add: new_copy_def)
qed (rule proxy_step_inv)

text \<open>
  C26. A proxied connection is complete and released.  In every reachable state of \<^verbatim>\<open>ProxyWithObserver\<close>, what was
  written to each end is a prefix of what the other end produced.  When the function has
  returned, both ends have been closed exactly once and the observer has been told the end as
  often as the beginning.  When it returned without cancellation, both copies have ended,
  each destination was half-closed exactly once, everything was written in a direction whose
  copy ended without an error, and a result of nil means that neither copy
  ended with an error other than those of a closed connection.
\<close>

theorem proxy_complete:
  assumes "reach (proxy_init observed fromA fromB) (proxy_step observed) p"
  shows "(\<forall>toA. prefix (cs_written (px_dir p toA)) (if toA then fromB else fromA)) \<and>
    (\<forall>result. px_returned p = Some result \<longrightarrow> px_closed p = 1 \<and> px_ended p = px_opened p \<and>
      (\<not> px_canceled p \<longrightarrow>
        (\<forall>toA. cs_done (px_dir p toA) \<and> cs_halfClosed (px_dir p toA) = 1 \<and>
           (cs_err (px_dir p toA) = None \<longrightarrow> cs_written (px_dir p toA) = (if toA then fromB else fromA)) \<and>
           (result = None \<longrightarrow> normalizeErr (cs_err (px_dir p toA)) = None))))"
proof (intro conjI allI impI)
  note inv = proxy_invD [OF stream_proxy.reach_inv [OF assms]]
  show "prefix (cs_written (px_dir p toA)) (if toA then fromB else fromA)" for toA
    using inv(1) [of toA] by (auto simp: copy_inv_def)
  fix result
  assume ret: "px_returned p = Some result"
  then show "px_closed p = 1" "px_ended p = px_opened p" using inv(5) by (simp_all add: return_inv_def)
  assume "\<not> px_canceled p"
  then have fin: "px_received p = 2" "result = None \<longrightarrow> px_result p = None"
    using inv(5) ret by (simp_all add: return_inv_def)
  have counts: "done_count p \<le> 2" by (simp add: done_count_def)
  then have "length (px_errCh p) = 0" "done_count p = 2" using inv(2) fin(1) by linarith+
  then have "px_errCh p = []" by simp
  fix toA
  show ended: "cs_done (px_dir p toA)" using \<open>done_count p = 2\<close> by (cases toA) (auto simp: done_count_def split: if_splits)
  show "cs_halfClosed (px_dir p toA) = 1" using inv(1) [of toA] ended by (auto simp: copy_inv_def)
  show "cs_written (px_dir p toA) = (if toA then fromB else fromA)" if "cs_err (px_dir p toA) = None"
    using inv(1) [of toA] ended that by (auto simp: copy_inv_def)
  show "normalizeErr (cs_err (px_dir p toA)) = None" if "result = None"
    using inv(3) ended fin(2) that \<open>px_errCh p = []\<close> by (auto simp: errors_reported_def)
qed

text \<open>A connection whose two ends send some bytes each.\<close>

definition example_proxied :: proxyState where
  "example_proxied =
     proxy_finish True None None (proxy_receive (proxy_receive
       (copy_end False None (copyObserved_chunk True False 4 (copy_end True None
         (copyObserved_chunk True True 2 (ProxyWithObserver_start True ''ping'' ''ok'')))))))"

lemma example_proxied_reach: "reach (proxy_init True ''ping'' ''ok'') (proxy_step True) example_proxied"
proof -
  define p1 where "p1 = copyObserved_chunk True True 2 (ProxyWithObserver_start True ''ping'' ''ok'')"
  define p2 where "p2 = copy_end True None p1"
  define p3 where "p3 = copyObserved_chunk True False 4 p2"
  define p4 where "p4 = copy_end False None p3"
  define p5 where "p5 = proxy_receive p4"
  define p6 where "p6 = proxy_receive p5"
  note defs = p1_def p2_def p3_def p4_def p5_def p6_def ProxyWithObserver_start_def copyObserved_chunk_def
    observedReader_Read_def set_dir_def copy_end_def new_copy_def proxy_receive_def normalizeErr_def Let_def
  have "reach (proxy_init True ''ping'' ''ok'') (proxy_step True) (ProxyWithObserver_start True ''ping'' ''ok'')"
    by (intro reach_init proxy_init.intros)
  moreover have "proxy_step True (ProxyWithObserver_start True ''ping'' ''ok'') p1"
    unfolding p1_def by (rule proxy_chunk) (simp add: defs)
  ultimately have 1: "reach (proxy_init True ''ping'' ''ok'') (proxy_step True) p1" by (rule reach_step)
  have "proxy_step True p1 p2" unfolding p2_def by (rule proxy_eof) (simp_all add: defs)
  with 1 have 2: "reach (proxy_init True ''ping'' ''ok'') (proxy_step True) p2" by (rule reach_step)
  have "proxy_step True p2 p3" unfolding p3_def by (rule proxy_chunk) (simp add: defs)
  with 2 have 3: "reach (proxy_init True ''ping'' ''ok'') (proxy_step True) p3" by (rule reach_step)
  have "proxy_step True p3 p4" unfolding p4_def by (rule proxy_eof) (simp_all add: defs)
  with 3 have 4: "reach (proxy_init True ''ping'' ''ok'') (proxy_step True) p4" by (rule reach_step)
  have "proxy_step True p4 p5" unfolding p5_def by (rule proxy_receives) (simp_all add: defs)
  with 4 have 5: "reach (proxy_init True ''ping'' ''ok'') (proxy_step True) p5" by (rule reach_step)
  have "proxy_step True p5 p6" unfolding p6_def by (rule proxy_receives) (simp_all add: defs)
  with 5 have 6: "reach (proxy_init True ''ping'' ''ok'') (proxy_step True) p6" by (rule reach_step)
  have "proxy_step True p6 (proxy_finish True None None p6)" by (rule proxy_finishes) (simp_all add: defs)
  with 6 have "reach (proxy_init True ''ping'' ''ok'') (proxy_step True) (proxy_finish True None None p6)" by (rule reach_step)
  then show ?thesis by (simp add: example_proxied_def p6_def p5_def p4_def p3_def p2_def p1_def)
qed

theorem proxy_complete_witness:
  "px_returned example_proxied = Some None \<and> px_closed example_proxied = 1 \<and>
   cs_written (px_dir example_proxied True) = ''ok'' \<and> cs_written (px_dir example_proxied False) = ''ping''"
proof -
  have fields: "px_returned example_proxied = Some None" "\<not> px_canceled example_proxied"
    "cs_err (px_dir example_proxied True) = None" "cs_err (px_dir example_proxied False) = None"
    by (simp_all add: example_proxied_def proxy_finish_def proxy_return_def keep_first_def ProxyWithObserver_start_def
        copyObserved_chunk_def observedReader_Read_def set_dir_def copy_end_def new_copy_def proxy_receive_def
        normalizeErr_def Let_def)
  note returned = proxy_complete [OF example_proxied_reach, THEN conjunct2, rule_format, OF fields(1)]
  show ?thesis
    using returned fields by (auto dest: spec [of _ True] spec [of _ False])
qed

end
