(* ===== verification/SshProxy.thy ===== *)
theory SshProxy
  imports PodSession Machines "HOL-Library.AList"
begin

text \<open>
  The SSH proxy of External targets: pkg/sshproxy/proxy.go and protocol.go.  The handlers are cut
  where a peer answers (the dial of the upstream server, the opening of a channel, the reply to a
  request): what runs up to such a call is one step, which leaves a pending call, and its answer is
  another step.  A \<^verbatim>\<open>FinishOperation\<close> is the number of the operation it closes.  The decoders
  of golang.org/x/crypto/ssh are a parameter.
\<close>

section \<open>Wire data\<close>

record channelForwardData =
  cfd_Host :: string
  cfd_Port :: "32 word"
  cfd_OriginHost :: string
  cfd_OriginPort :: "32 word"

record globalForwardData =
  gfd_Host :: string
  gfd_Port :: "32 word"

record proxyWire =
  pw_string :: "string \<Rightarrow> string result"
  pw_pair :: "string \<Rightarrow> (string \<times> string) result"
  pw_channelForward :: "string \<Rightarrow> channelForwardData result"
  pw_globalForward :: "string \<Rightarrow> globalForwardData result"
  pw_uint32 :: "string \<Rightarrow> (32 word) result"

record proxyEnv =
  pe_wire :: proxyWire
  pe_envAllowed :: "string \<Rightarrow> bool"
  pe_errorText :: "go_error \<Rightarrow> string"

record proxyRequest =
  prq_Type :: string
  prq_WantReply :: bool
  prq_Payload :: string

section \<open>Plans\<close>

definition parseChannelOperation :: "proxyWire \<Rightarrow> string \<Rightarrow> string \<Rightarrow> Operation option result" where
  "parseChannelOperation wire channelType payload =
     (if channelType = ChannelSession then Inr None
      else if channelType = ChannelDirectTCPIP then
        (case pw_channelForward wire payload of
           Inl err \<Rightarrow> Inl (Wrap ''parse direct-tcpip request: %w'' [] err)
         | Inr data \<Rightarrow>
             Inr (Some (zero_Operation\<lparr> op_ChannelType := channelType, op_DestinationHost := cfd_Host data,
               op_DestinationPort := cfd_Port data, op_OriginHost := cfd_OriginHost data,
               op_OriginPort := cfd_OriginPort data \<rparr>)))
      else Inr (Some (zero_Operation\<lparr> op_ChannelType := channelType \<rparr>)))"

definition forwardKey :: "globalForwardData \<Rightarrow> string" where
  "forwardKey data = JoinHostPort (gfd_Host data) (FormatUint (gfd_Port data))"

record globalRequestPlan =
  grp_operation :: "Operation option"
  grp_forwardKey :: string

definition planGlobalRequest :: "proxyWire \<Rightarrow> string \<Rightarrow> string \<Rightarrow> globalRequestPlan result" where
  "planGlobalRequest wire requestType payload =
     (if requestType = RequestTCPIPForward then
        (case pw_globalForward wire payload of
           Inl err \<Rightarrow> Inl (Wrap ''parse tcpip-forward request: %w'' [] err)
         | Inr data \<Rightarrow>
             Inr \<lparr> grp_operation = Some (zero_Operation\<lparr> op_RequestType := requestType,
                     op_BindHost := gfd_Host data, op_BindPort := gfd_Port data \<rparr>),
                   grp_forwardKey = forwardKey data \<rparr>)
      else if requestType = RequestCancelTCPIPForward then
        (case pw_globalForward wire payload of
           Inl err \<Rightarrow> Inl (Wrap ''parse cancel-tcpip-forward request: %w'' [] err)
         | Inr data \<Rightarrow> Inr \<lparr> grp_operation = None, grp_forwardKey = forwardKey data \<rparr>)
      else if requestType = RequestKeepalive \<or> requestType = RequestNoMoreSessions
      then Inr \<lparr> grp_operation = None, grp_forwardKey = [] \<rparr>
      else Inr \<lparr> grp_operation = Some (zero_Operation\<lparr> op_RequestType := requestType \<rparr>), grp_forwardKey = [] \<rparr>)"

definition actualRemoteForwardKey :: "proxyWire \<Rightarrow> string \<Rightarrow> string \<Rightarrow> string" where
  "actualRemoteForwardKey wire requested payload =
     (case SplitHostPort requested of
        Inl _ \<Rightarrow> requested
      | Inr (host, port) \<Rightarrow>
          if port \<noteq> ''0'' then requested
          else case pw_uint32 wire payload of
                 Inl _ \<Rightarrow> requested
               | Inr p \<Rightarrow> JoinHostPort host (FormatUint p))"

datatype downstreamRequestEffect = downstreamRequestNone | downstreamRequestSession | downstreamRequestAgentForward

record downstreamRequestPlan =
  drp_operation :: "Operation option"
  drp_effect :: downstreamRequestEffect

abbreviation session_operation :: "string \<Rightarrow> Operation" where
  "session_operation requestType \<equiv> zero_Operation\<lparr> op_ChannelType := ChannelSession, op_RequestType := requestType \<rparr>"

definition planDownstreamRequest :: "proxyEnv \<Rightarrow> proxyRequest \<Rightarrow> downstreamRequestPlan result" where
  "planDownstreamRequest env request =
     (let wire = pe_wire env; requestType = prq_Type request in
      if requestType = RequestShell
      then Inr \<lparr> drp_operation = Some (session_operation requestType), drp_effect = downstreamRequestSession \<rparr>
      else if requestType = RequestExec then
        (case pw_string wire (prq_Payload request) of
           Inl err \<Rightarrow> Inl (Wrap ''parse exec request: %w'' [] err)
         | Inr v \<Rightarrow> Inr \<lparr> drp_operation = Some ((session_operation requestType)\<lparr> op_Command := v \<rparr>),
                         drp_effect = downstreamRequestSession \<rparr>)
      else if requestType = RequestSubsystem then
        (case pw_string wire (prq_Payload request) of
           Inl err \<Rightarrow> Inl (Wrap ''parse subsystem request: %w'' [] err)
         | Inr v \<Rightarrow> Inr \<lparr> drp_operation = Some ((session_operation requestType)\<lparr> op_Subsystem := v \<rparr>),
                         drp_effect = downstreamRequestSession \<rparr>)
      else if requestType = RequestAgentForward
      then Inr \<lparr> drp_operation = Some (session_operation requestType), drp_effect = downstreamRequestAgentForward \<rparr>
      else if requestType = RequestEnvironment then
        (case pw_pair wire (prq_Payload request) of
           Inl err \<Rightarrow> Inl (Wrap ''parse env request: %w'' [] err)
         | Inr (key, _) \<Rightarrow>
             if \<not> pe_envAllowed env key then Inl (Errorf ''environment variable %q is not allowed'' [key])
             else Inr \<lparr> drp_operation = None, drp_effect = downstreamRequestNone \<rparr>)
      else if requestType \<in> {RequestPTY, RequestWindowChange, RequestSignal, RequestBreak}
      then Inr \<lparr> drp_operation = None, drp_effect = downstreamRequestNone \<rparr>
      else Inr \<lparr> drp_operation = Some (session_operation requestType), drp_effect = downstreamRequestNone \<rparr>)"

section \<open>The state of a proxied connection\<close>

datatype upstreamState = NotConnected | ConnectFailed go_error | Connected

text \<open>
  A channel between the two sides.  \<^verbatim>\<open>pc_forwarded\<close> says that the loop forwarding the
  requests of the upstream side has ended.
\<close>

record proxiedChannel =
  pc_terminalRequest :: bool
  pc_finish :: "nat option"
  pc_exitCode :: "int option"
  pc_forwarded :: bool
  pc_served :: bool

datatype pendingCall =
    ChannelConnect string string "nat option"
  | ChannelOpen string string "nat option"
  | GlobalConnect proxyRequest "nat option" string
  | GlobalSend proxyRequest "nat option" string
  | DownstreamOpen string string "nat option"
  | DownstreamSend proxyRequest "nat option"
  | ChannelSend nat proxyRequest "nat option" downstreamRequestEffect
  | ChannelBack nat proxyRequest

datatype proxyEffect =
    ProxyBegan nat Operation beginAnswer
  | ProxyFinished nat OperationResult
  | UpstreamChannel string string
  | UpstreamGlobal string string
  | UpstreamRequest nat string string
  | DownstreamChannel string string
  | DownstreamGlobal string string
  | DownstreamRequest nat string string
  | RejectedDownstream "32 word" string
  | RejectedUpstream "32 word" string
  | ChannelProxied nat
  | ChannelClosed
  | RepliedDownstream bool string
  | RepliedUpstream bool string
  | UpstreamClosed
  | DownstreamClosed

abbreviation reasonProhibited :: "32 word" where "reasonProhibited \<equiv> 1"
abbreviation reasonConnectionFailed :: "32 word" where "reasonConnectionFailed \<equiv> 2"

text \<open>
  The operations begun, with the results they were finished with; the remote forwards by their
  key, the map of the code as an association list.
\<close>

record sshProxy =
  sp_closed :: bool
  sp_upstream :: upstreamState
  sp_remoteForwards :: "(string \<times> nat) list"
  sp_agentForward :: "nat option"
  sp_channels :: "proxiedChannel list"
  sp_ops :: "(Operation \<times> OperationResult list) list"
  sp_pending :: "pendingCall list"
  sp_log :: "proxyEffect list"

definition newProxy :: sshProxy where
  "newProxy = \<lparr> sp_closed = False, sp_upstream = NotConnected, sp_remoteForwards = [], sp_agentForward = None,
     sp_channels = [], sp_ops = [], sp_pending = [], sp_log = [] \<rparr>"

definition emit :: "proxyEffect \<Rightarrow> sshProxy \<Rightarrow> sshProxy" where
  "emit e p = p\<lparr> sp_log := sp_log p @ [e] \<rparr>"

definition await :: "pendingCall \<Rightarrow> sshProxy \<Rightarrow> sshProxy" where
  "await call p = p\<lparr> sp_pending := sp_pending p @ [call] \<rparr>"

section \<open>Operation lifecycles\<close>

definition finishOperation :: "nat option \<Rightarrow> OperationResult \<Rightarrow> sshProxy \<Rightarrow> sshProxy" where
  "finishOperation finish result p =
     (case finish of
        None \<Rightarrow> p
      | Some k \<Rightarrow>
          emit (ProxyFinished k result)
            (p\<lparr> sp_ops := (sp_ops p)[k := (fst (sp_ops p ! k), snd (sp_ops p ! k) @ [result])] \<rparr>))"

definition beginOperation :: "beginAnswer \<Rightarrow> Operation option \<Rightarrow> sshProxy \<Rightarrow> sshProxy \<times> nat option result" where
  "beginOperation answer operation p =
     (case operation of
        None \<Rightarrow> (p, Inr None)
      | Some op \<Rightarrow>
          let k = length (sp_ops p);
              p1 = emit (ProxyBegan k op answer) p;
              started = p1\<lparr> sp_ops := sp_ops p1 @ [(op, [])] \<rparr>
          in case answer of
               NotStarted err \<Rightarrow> (p1, Inl err)
             | DeniedOperation err \<Rightarrow> (finishOperation (Some k) (error_result None) started, Inl err)
             | AllowedOperation \<Rightarrow> (started, Inr (Some k)))"

definition hasRemoteForward :: "string \<Rightarrow> sshProxy \<Rightarrow> bool" where
  "hasRemoteForward key p = (map_of (sp_remoteForwards p) key \<noteq> None)"

text \<open>A tcpip-forward request always comes with an operation (\<^verbatim>\<open>planGlobalRequest\<close>), hence with a finish.\<close>

definition addRemoteForward :: "string \<Rightarrow> nat option \<Rightarrow> sshProxy \<Rightarrow> sshProxy" where
  "addRemoteForward key finish p =
     (if sp_closed p then finishOperation finish (error_result (Some ContextCanceled)) p
      else case finish of
             None \<Rightarrow> p
           | Some k \<Rightarrow> p\<lparr> sp_remoteForwards := AList.update key k (sp_remoteForwards p) \<rparr>)"

definition removeRemoteForward :: "string \<Rightarrow> OperationResult \<Rightarrow> sshProxy \<Rightarrow> sshProxy" where
  "removeRemoteForward key result p =
     finishOperation (map_of (sp_remoteForwards p) key) result
       (p\<lparr> sp_remoteForwards := AList.delete key (sp_remoteForwards p) \<rparr>)"

definition setAgentForward :: "nat option \<Rightarrow> sshProxy \<Rightarrow> sshProxy" where
  "setAgentForward finish p =
     (if sp_closed p then finishOperation finish (error_result (Some ContextCanceled)) p
      else finishOperation (sp_agentForward p)
             (error_result (Some (Errorf ''agent forwarding was requested more than once'' [])))
             (p\<lparr> sp_agentForward := finish \<rparr>))"

definition replaceFinish :: "nat \<Rightarrow> nat option \<Rightarrow> sshProxy \<Rightarrow> sshProxy" where
  "replaceFinish c finish p =
     finishOperation (pc_finish (sp_channels p ! c))
       (error_result (Some (Errorf ''another session operation started on the same channel'' [])))
       (p\<lparr> sp_channels := (sp_channels p)[c := (sp_channels p ! c)\<lparr> pc_finish := finish \<rparr>] \<rparr>)"

text \<open>Close finishes the operations of the remote forwards and of the agent forward.\<close>

primrec finish_all :: "nat list \<Rightarrow> OperationResult \<Rightarrow> sshProxy \<Rightarrow> sshProxy" where
  "finish_all [] result p = p"
| "finish_all (k # ks) result p = finish_all ks result (finishOperation (Some k) result p)"

definition proxy_close :: "sshProxy \<Rightarrow> sshProxy" where
  "proxy_close p =
     (if sp_closed p then p
      else
        let finishes = map snd (sp_remoteForwards p) @ (case sp_agentForward p of None \<Rightarrow> [] | Some k \<Rightarrow> [k]);
            p1 = p\<lparr> sp_closed := True, sp_remoteForwards := [], sp_agentForward := None \<rparr>;
            p2 = (if sp_upstream p1 = Connected then emit UpstreamClosed p1 else p1)
        in finish_all finishes (error_result (Some ContextCanceled)) (emit DownstreamClosed p2))"

text \<open>\<^verbatim>\<open>dial\<close> is the answer of the connector, consulted by the first call only.\<close>

definition proxy_connect :: "go_error option \<Rightarrow> sshProxy \<Rightarrow> sshProxy \<times> go_error option" where
  "proxy_connect dial p =
     (case sp_upstream p of
        Connected \<Rightarrow> (p, None)
      | ConnectFailed err \<Rightarrow> (p, Some err)
      | NotConnected \<Rightarrow>
          (case dial of
             Some err \<Rightarrow> (p\<lparr> sp_upstream := ConnectFailed err \<rparr>, Some err)
           | None \<Rightarrow>
               if sp_closed p then (emit UpstreamClosed (p\<lparr> sp_upstream := ConnectFailed ContextCanceled \<rparr>), Some ContextCanceled)
               else (p\<lparr> sp_upstream := Connected \<rparr>, None)))"

section \<open>Channels and requests of the client\<close>

definition handleChannel_begin :: "proxyEnv \<Rightarrow> string \<Rightarrow> string \<Rightarrow> beginAnswer \<Rightarrow> sshProxy \<Rightarrow> sshProxy" where
  "handleChannel_begin env channelType data answer p =
     (case parseChannelOperation (pe_wire env) channelType data of
        Inl err \<Rightarrow> emit (RejectedDownstream reasonConnectionFailed (pe_errorText env err)) p
      | Inr operation \<Rightarrow>
          (case beginOperation answer operation p of
             (p1, Inl err) \<Rightarrow> emit (RejectedDownstream reasonProhibited (pe_errorText env err)) p1
           | (p1, Inr finish) \<Rightarrow> await (ChannelConnect channelType data finish) p1))"

definition handleChannel_connect ::
  "go_error option \<Rightarrow> string \<Rightarrow> string \<Rightarrow> nat option \<Rightarrow> sshProxy \<Rightarrow> sshProxy" where
  "handleChannel_connect dial channelType data finish p =
     (case proxy_connect dial p of
        (p1, Some err) \<Rightarrow>
          proxy_close (emit (RejectedDownstream reasonConnectionFailed ''upstream SSH connection failed'')
            (finishOperation finish (error_result (Some err)) p1))
      | (p1, None) \<Rightarrow> await (ChannelOpen channelType data finish) (emit (UpstreamChannel channelType data) p1))"

datatype openFailure = OpenChannelError "32 word" string | OpenFailed go_error

fun open_error :: "openFailure \<Rightarrow> go_error" where
  "open_error (OpenChannelError reason message) = Errorf ''ssh: rejected: %s (%s)'' [message, FormatUint reason]"
| "open_error (OpenFailed err) = err"

definition add_channel :: "string \<Rightarrow> nat option \<Rightarrow> sshProxy \<Rightarrow> sshProxy" where
  "add_channel channelType finish p =
     emit (ChannelProxied (length (sp_channels p)))
       (p\<lparr> sp_channels := sp_channels p @
             [\<lparr> pc_terminalRequest = (channelType = ChannelSession), pc_finish = finish, pc_exitCode = None,
                pc_forwarded = False, pc_served = False \<rparr>] \<rparr>)"

definition handleChannel_end ::
  "openFailure option \<Rightarrow> go_error option \<Rightarrow> string \<Rightarrow> nat option \<Rightarrow> sshProxy \<Rightarrow> sshProxy" where
  "handleChannel_end opened accept channelType finish p =
     (case opened of
        Some failure \<Rightarrow>
          (let p1 = finishOperation finish (error_result (Some (open_error failure))) p
           in case failure of
                OpenChannelError reason message \<Rightarrow> emit (RejectedDownstream reason message) p1
              | OpenFailed _ \<Rightarrow> emit (RejectedDownstream reasonConnectionFailed ''upstream rejected channel'') p1)
      | None \<Rightarrow>
          (case accept of
             Some err \<Rightarrow> finishOperation finish (error_result (Some err)) (emit ChannelClosed p)
           | None \<Rightarrow> add_channel channelType finish p))"

definition handleRequest_begin :: "proxyEnv \<Rightarrow> proxyRequest \<Rightarrow> beginAnswer \<Rightarrow> sshProxy \<Rightarrow> sshProxy" where
  "handleRequest_begin env request answer p =
     (case planGlobalRequest (pe_wire env) (prq_Type request) (prq_Payload request) of
        Inl err \<Rightarrow> emit (RepliedDownstream False []) p
      | Inr plan \<Rightarrow>
          (case beginOperation answer (grp_operation plan) p of
             (p1, Inl err) \<Rightarrow> emit (RepliedDownstream False []) p1
           | (p1, Inr finish) \<Rightarrow>
               if prq_Type request = RequestTCPIPForward \<and> hasRemoteForward (grp_forwardKey plan) p1
               then emit (RepliedDownstream False [])
                      (finishOperation finish (error_result (Some (Errorf ''remote forward already exists'' []))) p1)
               else if prq_Type request = RequestCancelTCPIPForward \<and> \<not> hasRemoteForward (grp_forwardKey plan) p1
               then emit (RepliedDownstream False []) p1
               else await (GlobalConnect request finish (grp_forwardKey plan)) p1))"

definition handleRequest_connect ::
  "go_error option \<Rightarrow> proxyRequest \<Rightarrow> nat option \<Rightarrow> string \<Rightarrow> sshProxy \<Rightarrow> sshProxy" where
  "handleRequest_connect dial request finish key p =
     (case proxy_connect dial p of
        (p1, Some err) \<Rightarrow>
          emit (RepliedDownstream False []) (proxy_close (finishOperation finish (error_result (Some err)) p1))
      | (p1, None) \<Rightarrow>
          await (GlobalSend request finish key) (emit (UpstreamGlobal (prq_Type request) (prq_Payload request)) p1))"

text \<open>\<^verbatim>\<open>sent\<close> is what the upstream server answers: an error, or a flag and a payload.\<close>

definition handleRequest_end ::
  "proxyEnv \<Rightarrow> (bool \<times> string) result \<Rightarrow> proxyRequest \<Rightarrow> nat option \<Rightarrow> string \<Rightarrow> sshProxy \<Rightarrow> sshProxy" where
  "handleRequest_end env sent request finish key p =
     (case sent of
        Inl err \<Rightarrow> emit (RepliedDownstream False []) (finishOperation finish (error_result (Some err)) p)
      | Inr (ok, payload) \<Rightarrow>
          if prq_WantReply request \<and> \<not> ok
          then emit (RepliedDownstream False payload)
                 (finishOperation finish
                   (error_result (Some (Errorf ''upstream rejected %s'' [prq_Type request]))) p)
          else
            let p1 = (if prq_Type request = RequestTCPIPForward
                      then addRemoteForward (actualRemoteForwardKey (pe_wire env) key payload) finish p
                      else if prq_Type request = RequestCancelTCPIPForward
                      then finishOperation finish (error_result None) (removeRemoteForward key (error_result None) p)
                      else finishOperation finish (error_result None) p)
            in emit (RepliedDownstream (\<not> prq_WantReply request \<or> ok) payload) p1)"

section \<open>Channels and requests of the upstream server\<close>

definition operationForUpstreamChannel :: "proxyEnv \<Rightarrow> string \<Rightarrow> string \<Rightarrow> sshProxy \<Rightarrow> Operation option result" where
  "operationForUpstreamChannel env channelType data p =
     (if channelType = ChannelForwardedTCPIP then
        (case pw_channelForward (pe_wire env) data of
           Inl err \<Rightarrow> Inl (Wrap ''parse forwarded-tcpip channel: %w'' [] err)
         | Inr d \<Rightarrow>
             if \<not> hasRemoteForward (JoinHostPort (cfd_Host d) (FormatUint (cfd_Port d))) p
             then Inl (Errorf ''forwarded-tcpip channel has no authorized remote forward'' [])
             else Inr None)
      else if channelType = ChannelAgent then
        (if sp_agentForward p = None then Inl (Errorf ''agent forwarding was not authorized'' []) else Inr None)
      else Inr (Some (zero_Operation\<lparr> op_ChannelType := channelType \<rparr>)))"

text \<open>
  serveUpstreamChannels up to the opening of the channel.  The step and its effect stand for the
  decision, taken under the lock of the proxy; the opening follows it, and what other goroutines do before the
  client is reached comes after the decision in the log.
\<close>

definition serveUpstreamChannels_begin ::
  "proxyEnv \<Rightarrow> string \<Rightarrow> string \<Rightarrow> beginAnswer \<Rightarrow> sshProxy \<Rightarrow> sshProxy" where
  "serveUpstreamChannels_begin env channelType data answer p =
     (case operationForUpstreamChannel env channelType data p of
        Inl err \<Rightarrow> emit (RejectedUpstream reasonProhibited (pe_errorText env err)) p
      | Inr operation \<Rightarrow>
          (case beginOperation answer operation p of
             (p1, Inl err) \<Rightarrow> emit (RejectedUpstream reasonProhibited (pe_errorText env err)) p1
           | (p1, Inr finish) \<Rightarrow>
               await (DownstreamOpen channelType data finish) (emit (DownstreamChannel channelType data) p1)))"

definition serveUpstreamChannels_end ::
  "go_error option \<Rightarrow> go_error option \<Rightarrow> string \<Rightarrow> nat option \<Rightarrow> sshProxy \<Rightarrow> sshProxy" where
  "serveUpstreamChannels_end opened accept channelType finish p =
     (case opened of
        Some err \<Rightarrow>
          emit (RejectedUpstream reasonConnectionFailed ''downstream rejected channel'')
            (finishOperation finish (error_result (Some err)) p)
      | None \<Rightarrow>
          (case accept of
             Some err \<Rightarrow> finishOperation finish (error_result (Some err)) (emit ChannelClosed p)
           | None \<Rightarrow> add_channel channelType finish p))"

definition serveUpstreamRequests_begin :: "proxyRequest \<Rightarrow> beginAnswer \<Rightarrow> sshProxy \<Rightarrow> sshProxy" where
  "serveUpstreamRequests_begin request answer p =
     (let operation = (if prq_Type request \<noteq> RequestKeepalive \<and> prq_Type request \<noteq> RequestNoMoreSessions
                       then Some (zero_Operation\<lparr> op_RequestType := prq_Type request \<rparr>) else None)
      in case beginOperation answer operation p of
           (p1, Inl err) \<Rightarrow> (if prq_WantReply request then emit (RepliedUpstream False []) p1 else p1)
         | (p1, Inr finish) \<Rightarrow>
             await (DownstreamSend request finish) (emit (DownstreamGlobal (prq_Type request) (prq_Payload request)) p1))"

definition serveUpstreamRequests_end ::
  "(bool \<times> string) result \<Rightarrow> proxyRequest \<Rightarrow> nat option \<Rightarrow> sshProxy \<Rightarrow> sshProxy" where
  "serveUpstreamRequests_end sent request finish p =
     (let p1 = finishOperation finish (error_result (case sent of Inl err \<Rightarrow> Some err | Inr _ \<Rightarrow> None)) p
      in if prq_WantReply request
         then (case sent of
                 Inl _ \<Rightarrow> emit (RepliedUpstream False []) p1
               | Inr (ok, payload) \<Rightarrow> emit (RepliedUpstream ok payload) p1)
         else p1)"

section \<open>Requests on a proxied channel\<close>

definition forwardRequests_downstream_begin ::
  "proxyEnv \<Rightarrow> nat \<Rightarrow> proxyRequest \<Rightarrow> beginAnswer \<Rightarrow> sshProxy \<Rightarrow> sshProxy" where
  "forwardRequests_downstream_begin env c request answer p =
     (case planDownstreamRequest env request of
        Inl err \<Rightarrow> (if prq_WantReply request then emit (RepliedDownstream False []) p else p)
      | Inr plan \<Rightarrow>
          (case beginOperation answer (drp_operation plan) p of
             (p1, Inl err) \<Rightarrow> (if prq_WantReply request then emit (RepliedDownstream False []) p1 else p1)
           | (p1, Inr finish) \<Rightarrow>
               await (ChannelSend c request finish (drp_effect plan))
                 (emit (UpstreamRequest c (prq_Type request) (prq_Payload request)) p1)))"

definition forwardRequests_downstream_end ::
  "bool result \<Rightarrow> nat \<Rightarrow> proxyRequest \<Rightarrow> nat option \<Rightarrow> downstreamRequestEffect \<Rightarrow> sshProxy \<Rightarrow> sshProxy" where
  "forwardRequests_downstream_end sent c request finish effect p =
     (let p1 = (if finish = None then p
                else case sent of
                       Inl err \<Rightarrow> finishOperation finish (error_result (Some err)) p
                     | Inr ok \<Rightarrow>
                         if prq_WantReply request \<and> \<not> ok
                         then finishOperation finish
                                (error_result (Some (Errorf ''upstream rejected %s'' [prq_Type request]))) p
                         else (case effect of
                                 downstreamRequestAgentForward \<Rightarrow> setAgentForward finish p
                               | downstreamRequestSession \<Rightarrow> replaceFinish c finish p
                               | downstreamRequestNone \<Rightarrow> finishOperation finish (error_result None) p))
      in if prq_WantReply request
         then emit (RepliedDownstream (case sent of Inl _ \<Rightarrow> False | Inr ok \<Rightarrow> ok) []) p1
         else p1)"

definition recordExitStatus :: "proxyWire \<Rightarrow> nat \<Rightarrow> string \<Rightarrow> sshProxy \<Rightarrow> sshProxy" where
  "recordExitStatus wire c payload p =
     (case pw_uint32 wire payload of
        Inl _ \<Rightarrow> p
      | Inr status \<Rightarrow>
          p\<lparr> sp_channels := (sp_channels p)[c := (sp_channels p ! c)\<lparr> pc_exitCode := Some (uint status) \<rparr>] \<rparr>)"

definition forwardRequests_upstream_begin :: "proxyEnv \<Rightarrow> nat \<Rightarrow> proxyRequest \<Rightarrow> sshProxy \<Rightarrow> sshProxy" where
  "forwardRequests_upstream_begin env c request p =
     (let p1 = (if prq_Type request = RequestExitStatus
                then recordExitStatus (pe_wire env) c (prq_Payload request) p else p)
      in await (ChannelBack c request) (emit (DownstreamRequest c (prq_Type request) (prq_Payload request)) p1))"

definition requests_forwarded :: "nat \<Rightarrow> sshProxy \<Rightarrow> sshProxy" where
  "requests_forwarded c p =
     p\<lparr> sp_channels := (sp_channels p)[c := (sp_channels p ! c)\<lparr> pc_forwarded := True \<rparr>] \<rparr>"

definition forwardRequests_upstream_end :: "bool result \<Rightarrow> nat \<Rightarrow> proxyRequest \<Rightarrow> sshProxy \<Rightarrow> sshProxy" where
  "forwardRequests_upstream_end sent c request p =
     (let p1 = (if prq_WantReply request
                then emit (RepliedUpstream (case sent of Inl _ \<Rightarrow> False | Inr ok \<Rightarrow> ok) []) p else p)
      in if prq_Type request = RequestExitStatus \<or> prq_Type request = RequestExitSignal
         then requests_forwarded c p1 else p1)"

text \<open>
  The end of \<^verbatim>\<open>serve\<close>, once the copying of the streams has returned \<^verbatim>\<open>proxyErr\<close>.  Unless the
  connection is cancelled, a session waits for the terminal request of the upstream side.
\<close>

definition channel_wait :: "bool \<Rightarrow> proxiedChannel \<Rightarrow> bool" where
  "channel_wait canceled ch = (canceled \<or> \<not> pc_terminalRequest ch \<or> pc_forwarded ch)"

definition serve_end :: "nat \<Rightarrow> go_error option \<Rightarrow> sshProxy \<Rightarrow> sshProxy" where
  "serve_end c proxyErr p =
     (let ch = sp_channels p ! c
      in finishOperation (pc_finish ch) \<lparr> or_Err = proxyErr, or_ExitCode = pc_exitCode ch, or_ActualBindPort = None \<rparr>
           (p\<lparr> sp_channels := (sp_channels p)[c := ch\<lparr> pc_finish := None, pc_served := True \<rparr>] \<rparr>))"

section \<open>The protocol of a connection (protocol.go)\<close>

text \<open>
  The proxy is made when the first message arrives; \<^verbatim>\<open>spp_current\<close> says that the protocol refers
  to it.  Its handlers keep running on it after the protocol is closed.
\<close>

record proxyProtocol =
  spp_closed :: bool
  spp_current :: bool
  spp_proxy :: sshProxy

definition NewProtocol :: proxyProtocol where
  "NewProtocol = \<lparr> spp_closed = False, spp_current = False, spp_proxy = newProxy \<rparr>"

definition on_proxy :: "(sshProxy \<Rightarrow> sshProxy) \<Rightarrow> proxyProtocol \<Rightarrow> proxyProtocol" where
  "on_proxy f s = s\<lparr> spp_proxy := f (spp_proxy s) \<rparr>"

definition connectionProxy :: "proxyProtocol \<Rightarrow> proxyProtocol \<times> bool" where
  "connectionProxy s = (if spp_closed s then (s, False) else (s\<lparr> spp_current := True \<rparr>, True))"

definition proxy_HandleChannel ::
  "proxyEnv \<Rightarrow> string \<Rightarrow> string \<Rightarrow> beginAnswer \<Rightarrow> proxyProtocol \<Rightarrow> proxyProtocol" where
  "proxy_HandleChannel env channelType data answer s =
     (case connectionProxy s of
        (s1, False) \<Rightarrow> on_proxy (emit (RejectedDownstream reasonConnectionFailed ''SSH connection is closed'')) s1
      | (s1, True) \<Rightarrow> on_proxy (handleChannel_begin env channelType data answer) s1)"

definition proxy_HandleGlobalRequest :: "proxyEnv \<Rightarrow> proxyRequest \<Rightarrow> beginAnswer \<Rightarrow> proxyProtocol \<Rightarrow> proxyProtocol" where
  "proxy_HandleGlobalRequest env request answer s =
     (case connectionProxy s of
        (s1, False) \<Rightarrow> on_proxy (emit (RepliedDownstream False [])) s1
      | (s1, True) \<Rightarrow> on_proxy (handleRequest_begin env request answer) s1)"

definition proxyProtocol_Close :: "proxyProtocol \<Rightarrow> proxyProtocol" where
  "proxyProtocol_Close s =
     (let s1 = s\<lparr> spp_closed := True, spp_current := False \<rparr>
      in if spp_current s then on_proxy proxy_close s1 else s1)"

section \<open>The machine\<close>

text \<open>
  The answers of the peers to the pending calls arrive in any order; the upstream side acts once
  it is connected.
\<close>

inductive answer_step :: "proxyEnv \<Rightarrow> pendingCall \<Rightarrow> sshProxy \<Rightarrow> sshProxy \<Rightarrow> bool" for env where
  "answer_step env (ChannelConnect t d f) p (handleChannel_connect dial t d f p)"
| "answer_step env (ChannelOpen t d f) p (handleChannel_end opened accept t f p)"
| "answer_step env (GlobalConnect r f key) p (handleRequest_connect dial r f key p)"
| "answer_step env (GlobalSend r f key) p (handleRequest_end env sent r f key p)"
| "answer_step env (DownstreamOpen t d f) p (serveUpstreamChannels_end failed accept t f p)"
| "answer_step env (DownstreamSend r f) p (serveUpstreamRequests_end sent r f p)"
| "answer_step env (ChannelSend c r f effect) p (forwardRequests_downstream_end replied c r f effect p)"
| "answer_step env (ChannelBack c r) p (forwardRequests_upstream_end replied c r p)"

inductive peer_step :: "proxyEnv \<Rightarrow> sshProxy \<Rightarrow> sshProxy \<Rightarrow> bool" for env where
  "sp_upstream p = Connected \<Longrightarrow> peer_step env p (serveUpstreamChannels_begin env t d answer p)"
| "sp_upstream p = Connected \<Longrightarrow> peer_step env p (serveUpstreamRequests_begin r answer p)"
| "c < length (sp_channels p) \<Longrightarrow> peer_step env p (forwardRequests_downstream_begin env c r answer p)"
| "c < length (sp_channels p) \<Longrightarrow> \<not> pc_forwarded (sp_channels p ! c) \<Longrightarrow>
     peer_step env p (forwardRequests_upstream_begin env c r p)"
| "c < length (sp_channels p) \<Longrightarrow> peer_step env p (requests_forwarded c p)"
| "c < length (sp_channels p) \<Longrightarrow> \<not> pc_served (sp_channels p ! c) \<Longrightarrow> channel_wait canceled (sp_channels p ! c) \<Longrightarrow>
     peer_step env p (serve_end c proxyErr p)"
| "sp_upstream p = Connected \<Longrightarrow> peer_step env p (proxy_close p)"
| "sp_pending p = before @ call # after \<Longrightarrow> answer_step env call (p\<lparr> sp_pending := before @ after \<rparr>) q \<Longrightarrow>
     peer_step env p q"

inductive protocol_step :: "proxyEnv \<Rightarrow> proxyProtocol \<Rightarrow> proxyProtocol \<Rightarrow> bool" for env where
  protocol_channel: "protocol_step env s (proxy_HandleChannel env t d answer s)"
| protocol_request: "protocol_step env s (proxy_HandleGlobalRequest env r answer s)"
| protocol_close: "protocol_step env s (proxyProtocol_Close s)"
| protocol_peer: "peer_step env (spp_proxy s) q \<Longrightarrow> protocol_step env s (s\<lparr> spp_proxy := q \<rparr>)"

abbreviation protocol_init :: "proxyProtocol \<Rightarrow> bool" where
  "protocol_init s \<equiv> s = NewProtocol"

end
