(* ===== verification/SshProxyLaws.thy ===== *)
theory SshProxyLaws
  imports SshProxy
begin

text \<open>
  What the SSH proxy guarantees in every order of its steps: nothing reaches the upstream server,
  and nothing of the upstream server reaches the client, without an authorized operation;
  and an operation is finished at most once, by the one place that holds it.
\<close>

section \<open>The specification of the log\<close>

definition op_allowed :: "proxyEffect list \<Rightarrow> Operation \<Rightarrow> bool" where
  "op_allowed older op = (\<exists>k. ProxyBegan k op AllowedOperation \<in> set older)"

text \<open>An allowed operation that has not been finished.\<close>

definition op_open :: "proxyEffect list \<Rightarrow> Operation \<Rightarrow> bool" where
  "op_open older op =
     (\<exists>k. ProxyBegan k op AllowedOperation \<in> set older \<and> (\<forall>r. ProxyFinished k r \<notin> set older))"

text \<open>
  The address a forward is known by: the requested host (less a pair of brackets), and the
  requested port or, where that is zero, any port.
\<close>

definition serves :: "Operation \<Rightarrow> string \<Rightarrow> bool" where
  "serves op key =
     (op_RequestType op = RequestTCPIPForward \<and>
      (\<exists>host port. key = JoinHostPort host (FormatUint port) \<and>
        (op_BindHost op = host \<or> op_BindHost op = CHR ''['' # host @ '']'') \<and>
        (op_BindPort op = port \<or> op_BindPort op = 0)))"

definition channel_allowed :: "proxyWire \<Rightarrow> proxyEffect list \<Rightarrow> string \<Rightarrow> string \<Rightarrow> bool" where
  "channel_allowed wire older t d =
     (t = ChannelSession \<or>
      (\<exists>op. op_allowed older op \<and> op_ChannelType op = t \<and>
        (t = ChannelDirectTCPIP \<longrightarrow>
          (\<exists>data. pw_channelForward wire d = Inr data \<and> op_DestinationHost op = cfd_Host data \<and>
             op_DestinationPort op = cfd_Port data))))"

definition global_allowed :: "proxyWire \<Rightarrow> proxyEffect list \<Rightarrow> string \<Rightarrow> string \<Rightarrow> bool" where
  "global_allowed wire older t d =
     (t \<in> {RequestKeepalive, RequestNoMoreSessions} \<or>
      (if t = RequestCancelTCPIPForward
       then \<exists>data op. pw_globalForward wire d = Inr data \<and> op_allowed older op \<and> serves op (forwardKey data)
       else \<exists>op. op_allowed older op \<and> op_RequestType op = t \<and>
              (t = RequestTCPIPForward \<longrightarrow>
                (\<exists>data. pw_globalForward wire d = Inr data \<and> op_BindHost op = gfd_Host data \<and> op_BindPort op = gfd_Port data))))"

definition request_allowed :: "proxyEnv \<Rightarrow> proxyEffect list \<Rightarrow> string \<Rightarrow> string \<Rightarrow> bool" where
  "request_allowed env older t d =
     (t \<in> {RequestPTY, RequestWindowChange, RequestSignal, RequestBreak} \<or>
      (if t = RequestEnvironment
       then \<exists>key v. pw_pair (pe_wire env) d = Inr (key, v) \<and> pe_envAllowed env key
       else \<exists>op. op_allowed older op \<and> op_ChannelType op = ChannelSession \<and> op_RequestType op = t \<and>
              (t = RequestExec \<longrightarrow> pw_string (pe_wire env) d = Inr (op_Command op)) \<and>
              (t = RequestSubsystem \<longrightarrow> pw_string (pe_wire env) d = Inr (op_Subsystem op))))"

definition incoming_allowed :: "proxyWire \<Rightarrow> proxyEffect list \<Rightarrow> string \<Rightarrow> string \<Rightarrow> bool" where
  "incoming_allowed wire older t d =
     (if t = ChannelForwardedTCPIP
      then \<exists>data op. pw_channelForward wire d = Inr data \<and> op_open older op \<and>
             serves op (JoinHostPort (cfd_Host data) (FormatUint (cfd_Port data)))
      else if t = ChannelAgent then op_open older (session_operation RequestAgentForward)
      else \<exists>op. op_allowed older op \<and> op_ChannelType op = t)"

fun effect_ok :: "proxyEnv \<Rightarrow> proxyEffect list \<Rightarrow> proxyEffect \<Rightarrow> bool" where
  "effect_ok env older (UpstreamChannel t d) = channel_allowed (pe_wire env) older t d"
| "effect_ok env older (UpstreamGlobal t d) = global_allowed (pe_wire env) older t d"
| "effect_ok env older (UpstreamRequest c t d) = request_allowed env older t d"
| "effect_ok env older (DownstreamChannel t d) = incoming_allowed (pe_wire env) older t d"
| "effect_ok env older (DownstreamGlobal t d) =
     (t \<in> {RequestKeepalive, RequestNoMoreSessions} \<or> (\<exists>op. op_allowed older op \<and> op_RequestType op = t))"
| "effect_ok env older _ = True"

definition log_ok :: "proxyEnv \<Rightarrow> proxyEffect list \<Rightarrow> bool" where
  "log_ok env log = (\<forall>older e newer. log = older @ e # newer \<longrightarrow> effect_ok env older e)"

lemma log_ok_Nil [simp]: "log_ok env []"
  by (simp add: log_ok_def)

lemma log_ok_snoc [simp]: "log_ok env (log @ [e]) = (log_ok env log \<and> effect_ok env log e)"
proof
  assume ok: "log_ok env (log @ [e])"
  have "effect_ok env older x" if "log = older @ x # newer" for older x newer
    using ok that unfolding log_ok_def by (metis append.assoc append_Cons)
  moreover have "effect_ok env log e" using ok unfolding log_ok_def by blast
  ultimately show "log_ok env log \<and> effect_ok env log e" unfolding log_ok_def by blast
next
  assume ok: "log_ok env log \<and> effect_ok env log e"
  have "effect_ok env older x" if "log @ [e] = older @ x # newer" for older x newer
    using ok that unfolding log_ok_def by (cases newer rule: rev_cases) auto
  then show "log_ok env (log @ [e])" unfolding log_ok_def by blast
qed

section \<open>Who holds an operation\<close>

definition opt_list :: "nat option \<Rightarrow> nat list" where
  "opt_list f = (case f of None \<Rightarrow> [] | Some k \<Rightarrow> [k])"

lemma opt_list_simps [simp]: "opt_list None = []" "opt_list (Some k) = [k]"
  by (simp_all add: opt_list_def)

fun pending_finish :: "pendingCall \<Rightarrow> nat option" where
  "pending_finish (ChannelConnect _ _ f) = f"
| "pending_finish (ChannelOpen _ _ f) = f"
| "pending_finish (GlobalConnect _ f _) = f"
| "pending_finish (GlobalSend _ f _) = f"
| "pending_finish (DownstreamOpen _ _ f) = f"
| "pending_finish (DownstreamSend _ f) = f"
| "pending_finish (ChannelSend _ _ f _) = f"
| "pending_finish (ChannelBack _ _) = None"

text \<open>
  The operations held by pending calls, forwards, the agent forward and channels, and how often an
  operation has been finished.
\<close>

definition held :: "sshProxy \<Rightarrow> nat list" where
  "held p =
     concat (map (\<lambda>call. opt_list (pending_finish call)) (sp_pending p)) @ map snd (sp_remoteForwards p) @
     opt_list (sp_agentForward p) @ concat (map (\<lambda>c. opt_list (pc_finish c)) (sp_channels p))"

definition finishes :: "sshProxy \<Rightarrow> nat \<Rightarrow> nat" where
  "finishes p k = (if k < length (sp_ops p) then length (snd (sp_ops p ! k)) else 0)"

text \<open>With the operations \<open>fs\<close> in hand, every operation has one holder or has been finished once.\<close>

definition owns :: "nat list \<Rightarrow> sshProxy \<Rightarrow> bool" where
  "owns fs p =
     (\<forall>k. count_list (held p) k + count_list fs k + finishes p k \<le> (if k < length (sp_ops p) then 1 else 0))"

lemma held_emit [simp]: "held (emit e p) = held p" by (simp add: held_def emit_def)

lemma finishes_emit [simp]: "finishes (emit e p) = finishes p" by (rule ext) (simp add: finishes_def emit_def)

lemma emit_fields [simp]:
  "sp_ops (emit e p) = sp_ops p" "sp_closed (emit e p) = sp_closed p" "sp_upstream (emit e p) = sp_upstream p"
  "sp_remoteForwards (emit e p) = sp_remoteForwards p" "sp_agentForward (emit e p) = sp_agentForward p"
  "sp_channels (emit e p) = sp_channels p" "sp_pending (emit e p) = sp_pending p" "sp_log (emit e p) = sp_log p @ [e]"
  by (simp_all add: emit_def)

lemma owns_emit [simp]: "owns fs (emit e p) = owns fs p" by (simp add: owns_def)

lemma owns_bound: "owns fs p \<Longrightarrow> k \<in> set fs \<Longrightarrow> k < length (sp_ops p)"
proof (rule ccontr)
  assume "owns fs p" "k \<in> set fs" "\<not> k < length (sp_ops p)"
  then have "count_list fs k = 0" unfolding owns_def by (metis add_is_0 le_zero_eq)
  then show False using \<open>k \<in> set fs\<close> by (simp add: count_list_0_iff)
qed

lemma count_list_append_comm: "count_list (xs @ ys) k = count_list (ys @ xs) k"
  by simp

lemma owns_finish:
  assumes "owns (opt_list f @ fs) p"
  shows "owns fs (finishOperation f r p)"
proof (cases f)
  case None
  then show ?thesis using assms by (simp add: finishOperation_def)
next
  case (Some j)
  have j: "j < length (sp_ops p)" using owns_bound[OF assms] Some by simp
  have b: "count_list (held p) k + count_list (opt_list f @ fs) k + finishes p k \<le> (if k < length (sp_ops p) then 1 else 0)" for k
    using assms unfolding owns_def by blast
  have "finishes (finishOperation f r p) k = finishes p k + count_list (opt_list f) k" for k
    using Some j by (simp add: finishes_def finishOperation_def nth_list_update)
  moreover have "held (finishOperation f r p) = held p" "length (sp_ops (finishOperation f r p)) = length (sp_ops p)"
    using Some by (simp_all add: held_def finishOperation_def)
  ultimately show ?thesis using b unfolding owns_def by (simp add: add.commute add.left_commute add.assoc)
qed

section \<open>The invariant\<close>

abbreviation agent_operation :: Operation where "agent_operation \<equiv> session_operation RequestAgentForward"

definition forward_call :: "proxyEffect list \<Rightarrow> proxyRequest \<Rightarrow> nat option \<Rightarrow> string \<Rightarrow> bool" where
  "forward_call log r f key =
     (prq_Type r = RequestTCPIPForward \<longrightarrow>
       (\<exists>k op. f = Some k \<and> ProxyBegan k op AllowedOperation \<in> set log \<and> op_RequestType op = RequestTCPIPForward \<and>
          key = JoinHostPort (op_BindHost op) (FormatUint (op_BindPort op))))"

fun call_ok :: "proxyEnv \<Rightarrow> proxyEffect list \<Rightarrow> nat \<Rightarrow> pendingCall \<Rightarrow> bool" where
  "call_ok env log n (ChannelConnect t d f) = channel_allowed (pe_wire env) log t d"
| "call_ok env log n (GlobalConnect r f key) =
     (global_allowed (pe_wire env) log (prq_Type r) (prq_Payload r) \<and> forward_call log r f key)"
| "call_ok env log n (GlobalSend r f key) = forward_call log r f key"
| "call_ok env log n (ChannelSend c r f effect) =
     (c < n \<and> (effect = downstreamRequestAgentForward \<longrightarrow>
        (\<exists>k. f = Some k \<and> ProxyBegan k agent_operation AllowedOperation \<in> set log)))"
| "call_ok env log n (ChannelBack c r) = (c < n)"
| "call_ok env log n _ = True"

definition forwards_ok :: "sshProxy \<Rightarrow> bool" where
  "forwards_ok p =
     (\<forall>key k. (key, k) \<in> set (sp_remoteForwards p) \<longrightarrow>
       (\<exists>op. ProxyBegan k op AllowedOperation \<in> set (sp_log p) \<and> serves op key))"

definition agent_ok :: "sshProxy \<Rightarrow> bool" where
  "agent_ok p = (\<forall>k. sp_agentForward p = Some k \<longrightarrow> ProxyBegan k agent_operation AllowedOperation \<in> set (sp_log p))"

definition finished_ok :: "sshProxy \<Rightarrow> bool" where
  "finished_ok p = (\<forall>k r. ProxyFinished k r \<in> set (sp_log p) \<longrightarrow> finishes p k > 0)"

abbreviation calls_ok :: "proxyEnv \<Rightarrow> sshProxy \<Rightarrow> bool" where
  "calls_ok env p \<equiv> list_all (call_ok env (sp_log p) (length (sp_channels p))) (sp_pending p)"

definition good :: "proxyEnv \<Rightarrow> nat list \<Rightarrow> sshProxy \<Rightarrow> bool" where
  "good env fs p = (owns fs p \<and> log_ok env (sp_log p) \<and> finished_ok p \<and> forwards_ok p \<and> agent_ok p \<and> calls_ok env p)"

lemma goodI:
  assumes "owns fs p" "log_ok env (sp_log p)" "finished_ok p" "forwards_ok p" "agent_ok p" "calls_ok env p"
  shows "good env fs p"
  using assms by (simp add: good_def)

lemma goodD:
  assumes "good env fs p"
  shows "owns fs p" "log_ok env (sp_log p)" "finished_ok p" "forwards_ok p" "agent_ok p" "calls_ok env p"
  using assms by (simp_all add: good_def)

lemma op_allowed_mono: "op_allowed log op \<Longrightarrow> set log \<subseteq> set log' \<Longrightarrow> op_allowed log' op"
  unfolding op_allowed_def by blast

lemma channel_allowed_mono: "channel_allowed wire log t d \<Longrightarrow> set log \<subseteq> set log' \<Longrightarrow> channel_allowed wire log' t d"
  unfolding channel_allowed_def using op_allowed_mono by blast

lemma global_allowed_mono: "global_allowed wire log t d \<Longrightarrow> set log \<subseteq> set log' \<Longrightarrow> global_allowed wire log' t d"
  unfolding global_allowed_def using op_allowed_mono by (smt (verit))

lemma forward_call_mono: "forward_call log r f key \<Longrightarrow> set log \<subseteq> set log' \<Longrightarrow> forward_call log' r f key"
  unfolding forward_call_def by blast

lemma call_ok_mono:
  assumes "call_ok env log n call" "set log \<subseteq> set log'" "n \<le> n'"
  shows "call_ok env log' n' call"
proof (cases call)
  case (ChannelConnect t d f)
  then show ?thesis using assms channel_allowed_mono by simp
next
  case (GlobalConnect r f key)
  then show ?thesis using assms(1) global_allowed_mono[OF _ assms(2)] forward_call_mono[OF _ assms(2)] by simp
next
  case (GlobalSend r f key)
  then show ?thesis using assms forward_call_mono by simp
next
  case (ChannelSend c r f effect)
  then show ?thesis using assms by auto
qed (use assms in simp_all)

lemma calls_ok_mono:
  assumes "list_all (call_ok env log n) calls" "set log \<subseteq> set log'" "n \<le> n'"
  shows "list_all (call_ok env log' n') calls"
  using assms call_ok_mono by (metis list.pred_mono_strong)

text \<open>What the later parts of a handler may rely on: the log only grows, and so do the channels.\<close>

definition later :: "sshProxy \<Rightarrow> sshProxy \<Rightarrow> bool" where
  "later p q = (set (sp_log p) \<subseteq> set (sp_log q) \<and> length (sp_channels p) \<le> length (sp_channels q))"

lemma later_refl [simp]: "later p p" by (simp add: later_def)

lemma later_trans: "later p q \<Longrightarrow> later q r \<Longrightarrow> later p r" unfolding later_def by (meson le_trans subset_trans)

lemma good_emit:
  assumes "good env fs p" "effect_ok env (sp_log p) e" "\<And>k r. e \<noteq> ProxyFinished k r"
  shows "good env fs (emit e p)"
proof (rule goodI)
  note g = goodD[OF assms(1)]
  show "calls_ok env (emit e p)" using calls_ok_mono[OF g(6), of "sp_log (emit e p)"] by auto
  show "finished_ok (emit e p)" using g(3) assms(3) unfolding finished_ok_def by auto
  show "forwards_ok (emit e p)" using g(4) unfolding forwards_ok_def by fastforce
  show "agent_ok (emit e p)" using g(5) unfolding agent_ok_def by simp
qed (use goodD[OF assms(1)] assms(2) in simp_all)

lemma good_finish:
  assumes "good env (opt_list f @ fs) p"
  shows "good env fs (finishOperation f r p)"
proof (cases f)
  case None
  then show ?thesis using assms by (simp add: finishOperation_def)
next
  case (Some j)
  note g = goodD[OF assms]
  have j: "j < length (sp_ops p)" using owns_bound[OF g(1)] Some by simp
  have log: "sp_log (finishOperation f r p) = sp_log p @ [ProxyFinished j r]"
    and fields: "sp_remoteForwards (finishOperation f r p) = sp_remoteForwards p"
      "sp_agentForward (finishOperation f r p) = sp_agentForward p" "sp_channels (finishOperation f r p) = sp_channels p"
      "sp_pending (finishOperation f r p) = sp_pending p"
    using Some by (simp_all add: finishOperation_def)
  have "finishes (finishOperation f r p) k \<ge> finishes p k" "finishes (finishOperation f r p) j > 0" for k
    using Some j by (auto simp: finishes_def finishOperation_def nth_list_update)
  then have "finished_ok (finishOperation f r p)"
    using g(3) unfolding finished_ok_def log by (auto intro: less_le_trans)
  moreover have "forwards_ok (finishOperation f r p)" using g(4) unfolding forwards_ok_def log fields by fastforce
  moreover have "agent_ok (finishOperation f r p)" using g(5) unfolding agent_ok_def log fields by simp
  moreover have "calls_ok env (finishOperation f r p)" using calls_ok_mono[OF g(6), of "sp_log (finishOperation f r p)"]
    unfolding log fields by auto
  ultimately show ?thesis using owns_finish[OF g(1)] g(2) by (auto intro!: goodI simp: log)
qed

lemma later_finish [simp]: "later p (finishOperation f r p)"
  by (auto simp: later_def finishOperation_def split: option.split)

lemma later_emit [simp]: "later p (emit e p)" by (auto simp: later_def)

lemma good_finish_all: "good env (ks @ fs) p \<Longrightarrow> good env fs (finish_all ks r p)"
proof (induction ks arbitrary: p)
  case (Cons k ks)
  have "good env (ks @ fs) (finishOperation (Some k) r p)" using Cons.prems by (intro good_finish) simp
  then show ?case using Cons.IH by simp
qed simp

lemma good_frame:
  assumes "good env fs p" and same: "sp_ops q = sp_ops p" "sp_log q = sp_log p"
    and "\<And>k. count_list (held q) k + count_list gs k \<le> count_list (held p) k + count_list fs k"
    and "forwards_ok q" "agent_ok q" "calls_ok env q"
  shows "good env gs q"
proof (rule goodI)
  note g = goodD[OF assms(1)]
  have f: "finishes q = finishes p" by (rule ext) (simp add: finishes_def same)
  show "owns gs q" unfolding owns_def f same
  proof
    fix k
    have "count_list (held p) k + count_list fs k + finishes p k \<le> (if k < length (sp_ops p) then 1 else 0)"
      using g(1) unfolding owns_def by blast
    then show "count_list (held q) k + count_list gs k + finishes p k \<le> (if k < length (sp_ops p) then 1 else 0)"
      using assms(4)[of k] by linarith
  qed
  show "log_ok env (sp_log q)" using g(2) same by simp
  show "finished_ok q" using g(3) unfolding finished_ok_def f same by simp
qed (use assms in simp_all)

lemma forwards_okI:
  assumes "forwards_ok p" "set (sp_remoteForwards q) \<subseteq> set (sp_remoteForwards p)" "sp_log q = sp_log p"
  shows "forwards_ok q"
  using assms unfolding forwards_ok_def by auto

lemma agent_okI: "agent_ok p \<Longrightarrow> sp_agentForward q = sp_agentForward p \<Longrightarrow> sp_log q = sp_log p \<Longrightarrow> agent_ok q"
  by (simp add: agent_ok_def)

lemma good_await:
  assumes "good env (opt_list (pending_finish call) @ fs) p" "call_ok env (sp_log p) (length (sp_channels p)) call"
  shows "good env fs (await call p)"
  by (rule good_frame[OF assms(1)])
    (use goodD[OF assms(1)] assms(2) in \<open>auto simp: await_def held_def intro: forwards_okI agent_okI\<close>)

lemma good_settle:
  assumes "good env [] p" "sp_pending p = before @ call # after"
  shows "good env (opt_list (pending_finish call)) (p\<lparr> sp_pending := before @ after \<rparr>)"
    and "call_ok env (sp_log p) (length (sp_channels p)) call"
proof -
  show "good env (opt_list (pending_finish call)) (p\<lparr> sp_pending := before @ after \<rparr>)"
    by (rule good_frame[OF assms(1)])
      (use goodD[OF assms(1)] assms(2) in \<open>auto simp: held_def intro: forwards_okI agent_okI\<close>)
  show "call_ok env (sp_log p) (length (sp_channels p)) call" using goodD(6)[OF assms(1)] assms(2) by simp
qed

section \<open>The operations on the state\<close>

lemma good_begin:
  assumes "good env [] p" "beginOperation answer operation p = (p1, res)"
  shows "case res of
           Inl _ \<Rightarrow> good env [] p1
         | Inr f \<Rightarrow> good env (opt_list f) p1 \<and>
             (case operation of
                None \<Rightarrow> f = None
              | Some op \<Rightarrow> \<exists>k. f = Some k \<and> ProxyBegan k op AllowedOperation \<in> set (sp_log p1))"
    and "later p p1" "sp_upstream p1 = sp_upstream p"
    "sp_remoteForwards p1 = sp_remoteForwards p" "sp_agentForward p1 = sp_agentForward p"
proof -
  note g = goodD[OF assms(1)]
  let ?k = "length (sp_ops p)"
  show "later p p1" "sp_upstream p1 = sp_upstream p" "sp_remoteForwards p1 = sp_remoteForwards p"
    "sp_agentForward p1 = sp_agentForward p"
    using assms(2) by (auto simp: beginOperation_def later_def finishOperation_def Let_def split: option.splits beginAnswer.splits)
  show "case res of
           Inl _ \<Rightarrow> good env [] p1
         | Inr f \<Rightarrow> good env (opt_list f) p1 \<and>
             (case operation of
                None \<Rightarrow> f = None
              | Some op \<Rightarrow> \<exists>k. f = Some k \<and> ProxyBegan k op AllowedOperation \<in> set (sp_log p1))"
  proof (cases operation)
    case None
    then show ?thesis using assms by (auto simp: beginOperation_def)
  next
    case (Some op)
    let ?p1 = "emit (ProxyBegan ?k op answer) p"
    let ?started = "?p1\<lparr> sp_ops := sp_ops ?p1 @ [(op, [])] \<rparr>"
    have e: "good env [] ?p1" using assms(1) by (rule good_emit) simp_all
    note ge = goodD[OF e]
    have fin: "finishes ?started k = finishes ?p1 k" for k by (simp add: finishes_def nth_append)
    have started: "good env [?k] ?started"
    proof (rule goodI)
      show "owns [?k] ?started" unfolding owns_def
      proof
        fix k
        have "count_list (held ?p1) k + finishes ?p1 k \<le> (if k < ?k then 1 else 0)"
          using ge(1) unfolding owns_def by simp
        moreover have "held ?started = held ?p1" by (simp add: held_def)
        ultimately show "count_list (held ?started) k + count_list [?k] k + finishes ?started k
            \<le> (if k < length (sp_ops ?started) then 1 else 0)"
          unfolding fin by (auto split: if_splits)
      qed
      show "finished_ok ?started" using ge(3) unfolding finished_ok_def fin by simp
    qed (use ge in \<open>simp_all add: forwards_ok_def agent_ok_def\<close>)
    show ?thesis
    proof (cases answer)
      case (NotStarted err)
      then show ?thesis using assms(2) Some e by (auto simp: beginOperation_def)
    next
      case (DeniedOperation err)
      have "good env [] (finishOperation (Some ?k) (error_result None) ?started)" using started by (intro good_finish) simp
      then show ?thesis using assms(2) Some DeniedOperation by (auto simp: beginOperation_def Let_def)
    next
      case AllowedOperation
      then show ?thesis using assms(2) Some started by (auto simp: beginOperation_def Let_def)
    qed
  qed
qed

text \<open>The host and port of a joined address; a host in brackets loses them.\<close>

lemma SplitHostPort_JoinHostPort_SomeD:
  assumes "SplitHostPort (JoinHostPort h port) = Inr (h', port')" and colon: "CHR '':'' \<notin> set port"
  shows "port' = port \<and> (h = h' \<or> h = CHR ''['' # h' @ '']'')"
proof (cases "CHR '':'' \<in> set h")
  case True
  let ?s = "(CHR ''['' # h @ [CHR '']'']) @ CHR '':'' # port"
  have j: "JoinHostPort h port = ?s" using True by (simp add: JoinHostPort_def contains_byte_def)
  have l: "LastIndexByte ?s (CHR '':'') = Some (length (CHR ''['' # h @ [CHR '']'']))"
    using colon by (rule LastIndexByte_sep)
  show ?thesis using assms(1) unfolding j SplitHostPort_def l by (auto split: option.splits if_splits)
next
  case False
  let ?s = "h @ CHR '':'' # port"
  have j: "JoinHostPort h port = ?s" using False by (simp add: JoinHostPort_def contains_byte_def)
  have l: "LastIndexByte ?s (CHR '':'') = Some (length h)" using colon by (rule LastIndexByte_sep)
  show ?thesis
  proof (cases "hd ?s = CHR ''[''")
    case True
    then obtain t where h: "h = CHR ''['' # t" by (cases h) auto
    obtain e where e: "IndexByte ?s (CHR '']'') = Some e" "Suc e = length h" "h' = take (e - 1) (drop 1 ?s)" "port' = port"
      using assms(1) True unfolding j SplitHostPort_def l by (auto split: option.splits if_splits)
    have "?s ! e = CHR '']''" using IndexByte_SomeD[OF e(1)] by simp
    then have t: "t \<noteq> []" "last t = CHR '']''" using e(2) h
      by (auto simp: nth_append nth_Cons' last_conv_nth split: if_splits)
    then have "h' = butlast t" using e(2,3) h by (simp add: butlast_conv_take)
    then show ?thesis using e(4) h t by (metis append_butlast_last_id)
  next
    case False
    then show ?thesis using assms(1) unfolding j SplitHostPort_def l by (auto split: option.splits if_splits)
  qed
qed

lemma FormatUint_digits: "char_digit c = None \<Longrightarrow> c \<notin> set (FormatUint n)"
  using format_nat_no_sep[of c "nat (uint n)"] by (simp add: FormatUint_def FormatInt_def uint_ge_0 not_less)

lemma FormatUint_zero: "FormatUint n = ''0'' \<Longrightarrow> n = 0"
proof -
  assume "FormatUint n = ''0''"
  moreover have "format_nat 0 = ''0''" by code_simp
  ultimately have "format_nat (nat (uint n)) = format_nat 0" by (simp add: FormatUint_def FormatInt_def uint_ge_0 not_less)
  then have "nat (uint n) = 0" by simp
  then show "n = 0" by (simp add: word_unat_eq_iff)
qed

lemma serves_actual_key:
  assumes "op_RequestType op = RequestTCPIPForward"
  shows "serves op (actualRemoteForwardKey wire (JoinHostPort (op_BindHost op) (FormatUint (op_BindPort op))) payload)"
proof -
  let ?key = "JoinHostPort (op_BindHost op) (FormatUint (op_BindPort op))"
  have requested: "serves op ?key" using assms unfolding serves_def by blast
  show ?thesis
  proof (cases "\<exists>host p. SplitHostPort ?key = Inr (host, ''0'') \<and> pw_uint32 wire payload = Inr p")
    case True
    then obtain host p where split: "SplitHostPort ?key = Inr (host, ''0'')" and p: "pw_uint32 wire payload = Inr p" by blast
    have "CHR '':'' \<notin> set (FormatUint (op_BindPort op))" by (rule FormatUint_digits) simp
    from SplitHostPort_JoinHostPort_SomeD[OF split this] have "op_BindPort op = 0"
        "op_BindHost op = host \<or> op_BindHost op = CHR ''['' # host @ '']''"
      using FormatUint_zero[of "op_BindPort op"] by (metis, blast)
    then have "serves op (JoinHostPort host (FormatUint p))" using assms unfolding serves_def by blast
    then show ?thesis using split p by (simp add: actualRemoteForwardKey_def)
  next
    case False
    then have "actualRemoteForwardKey wire ?key payload = ?key"
      by (auto simp: actualRemoteForwardKey_def split: sum.splits)
    then show ?thesis using requested by simp
  qed
qed

lemma good_addRemoteForward:
  assumes "good env (opt_list f @ fs) p"
    and "\<And>k. f = Some k \<Longrightarrow> \<exists>op. ProxyBegan k op AllowedOperation \<in> set (sp_log p) \<and> serves op key"
  shows "good env fs (addRemoteForward key f p)"
proof (cases "sp_closed p \<or> f = None")
  case True
  then show ?thesis using assms(1) good_finish[OF assms(1)] by (auto simp: addRemoteForward_def)
next
  case False
  then obtain k where f: "f = Some k" and opened: "\<not> sp_closed p" by blast
  let ?q = "p\<lparr> sp_remoteForwards := AList.update key k (sp_remoteForwards p) \<rparr>"
  note g = goodD[OF assms(1)]
  have entries: "set (AList.update key k al) \<subseteq> insert (key, k) (set al)" for al :: "(string \<times> nat) list"
    by (induction al) auto
  have counts: "count_list (map snd (AList.update key k al)) j \<le> count_list (map snd al) j + count_list [k] j"
    for al :: "(string \<times> nat) list" and j by (induction al) auto
  have "good env fs ?q"
  proof (rule good_frame[OF assms(1)])
    show "count_list (held ?q) j + count_list fs j \<le> count_list (held p) j + count_list (opt_list f @ fs) j" for j
      using counts[of "sp_remoteForwards p" j] by (auto simp: held_def f split: if_splits)
    show "forwards_ok ?q"
      using g(4) entries[of "sp_remoteForwards p"] assms(2)[OF f] unfolding forwards_ok_def by auto
  qed (use g in \<open>simp_all add: agent_ok_def\<close>)
  then show ?thesis using f opened by (simp add: addRemoteForward_def)
qed

lemma count_list_delete: "map_of al key = f \<Longrightarrow>
    count_list (map snd (AList.delete key al)) j + count_list (opt_list f) j \<le> count_list (map snd al) j"
proof (induction al arbitrary: f)
  case (Cons kv al)
  obtain k' v where kv: "kv = (k', v)" by (cases kv)
  have "count_list (map snd (AList.delete key al)) j \<le> count_list (map snd al) j"
    using Cons.IH[of "map_of al key"] by simp
  then show ?case using Cons.IH[of f] Cons.prems kv by (cases "k' = key") (auto simp: delete_conv)
qed simp

lemma good_removeRemoteForward:
  assumes "good env fs p"
  shows "good env fs (removeRemoteForward key r p)"
proof -
  note g = goodD[OF assms(1)]
  let ?q = "p\<lparr> sp_remoteForwards := AList.delete key (sp_remoteForwards p) \<rparr>"
  have "good env (opt_list (map_of (sp_remoteForwards p) key) @ fs) ?q"
  proof (rule good_frame[OF assms])
    show "count_list (held ?q) j + count_list (opt_list (map_of (sp_remoteForwards p) key) @ fs) j \<le>
        count_list (held p) j + count_list fs j" for j
      using count_list_delete[of "sp_remoteForwards p" key _ j, OF refl] by (simp add: held_def)
    show "forwards_ok ?q" using g(4) by (rule forwards_okI) (auto simp: AList.delete_eq)
  qed (use g in \<open>simp_all add: agent_ok_def\<close>)
  then show ?thesis unfolding removeRemoteForward_def by (rule good_finish)
qed

lemma good_setAgentForward:
  assumes "good env (opt_list f @ fs) p" "\<And>k. f = Some k \<Longrightarrow> ProxyBegan k agent_operation AllowedOperation \<in> set (sp_log p)"
  shows "good env fs (setAgentForward f p)"
proof (cases "sp_closed p")
  case True
  then show ?thesis using good_finish[OF assms(1)] by (simp add: setAgentForward_def)
next
  case False
  note g = goodD[OF assms(1)]
  have "good env (opt_list (sp_agentForward p) @ fs) (p\<lparr> sp_agentForward := f \<rparr>)"
    by (rule good_frame[OF assms(1)]) (use g assms(2) in \<open>auto simp: held_def forwards_ok_def agent_ok_def\<close>)
  then show ?thesis using False good_finish by (simp add: setAgentForward_def)
qed

lemma count_list_channels:
  assumes "c < length chs"
  shows "count_list (concat (map (\<lambda>c. opt_list (pc_finish c)) (chs[c := ch]))) j + count_list (opt_list (pc_finish (chs ! c))) j =
    count_list (concat (map (\<lambda>c. opt_list (pc_finish c)) chs)) j + count_list (opt_list (pc_finish ch)) j"
  using assms by (induction chs arbitrary: c) (auto simp: nth_Cons split: nat.splits)

lemma good_channel:
  assumes "good env fs p" "c < length (sp_channels p)"
    and "\<And>j. count_list (opt_list (pc_finish ch)) j + count_list gs j \<le>
      count_list (opt_list (pc_finish (sp_channels p ! c))) j + count_list fs j"
  shows "good env gs (p\<lparr> sp_channels := (sp_channels p)[c := ch] \<rparr>)"
proof (rule good_frame[OF assms(1)])
  note g = goodD[OF assms(1)]
  show "count_list (held (p\<lparr> sp_channels := (sp_channels p)[c := ch] \<rparr>)) j + count_list gs j \<le>
      count_list (held p) j + count_list fs j" for j
    using count_list_channels[OF assms(2), of ch j] assms(3)[of j] by (simp add: held_def)
qed (use goodD[OF assms(1)] in \<open>simp_all add: forwards_ok_def agent_ok_def\<close>)

lemma good_replaceFinish:
  assumes "good env (opt_list f @ fs) p" "c < length (sp_channels p)"
  shows "good env fs (replaceFinish c f p)"
  unfolding replaceFinish_def by (rule good_finish, rule good_channel[OF assms]) simp

lemma good_close:
  assumes "good env fs p"
  shows "good env fs (proxy_close p)"
proof (cases "sp_closed p")
  case True
  then show ?thesis using assms by (simp add: proxy_close_def)
next
  case False
  note g = goodD[OF assms]
  let ?ks = "map snd (sp_remoteForwards p) @ opt_list (sp_agentForward p)"
  let ?p1 = "p\<lparr> sp_closed := True, sp_remoteForwards := [], sp_agentForward := None \<rparr>"
  let ?p2 = "if sp_upstream ?p1 = Connected then emit UpstreamClosed ?p1 else ?p1"
  have "good env (?ks @ fs) ?p1"
    by (rule good_frame[OF assms]) (use g in \<open>auto simp: held_def forwards_ok_def agent_ok_def\<close>)
  then have "good env (?ks @ fs) ?p2" by (auto intro: good_emit)
  then have "good env (?ks @ fs) (emit DownstreamClosed ?p2)" by (rule good_emit) simp_all
  then have "good env fs (finish_all ?ks (error_result (Some ContextCanceled)) (emit DownstreamClosed ?p2))"
    by (rule good_finish_all)
  then show ?thesis using False by (simp add: proxy_close_def opt_list_def Let_def)
qed

lemma good_connect:
  assumes "good env fs p" "proxy_connect dial p = (p1, err)"
  shows "good env fs p1" "later p p1"
proof -
  have up: "good env fs (p\<lparr> sp_upstream := u \<rparr>)" for u
    by (rule good_frame[OF assms(1)]) (use goodD[OF assms(1)] in \<open>auto simp: held_def forwards_ok_def agent_ok_def\<close>)
  show "good env fs p1" using assms(2) assms(1) up good_emit[OF up]
    by (auto simp: proxy_connect_def split: upstreamState.splits option.splits if_splits)
  show "later p p1" using assms(2)
    by (auto simp: proxy_connect_def later_def split: upstreamState.splits option.splits if_splits)
qed

lemma good_add_channel:
  assumes "good env (opt_list f @ fs) p"
  shows "good env fs (add_channel t f p)"
proof -
  have "good env fs (p\<lparr> sp_channels := sp_channels p @
      [\<lparr> pc_terminalRequest = b, pc_finish = f, pc_exitCode = None, pc_forwarded = False, pc_served = False \<rparr>] \<rparr>)" for b
  proof (rule good_frame[OF assms])
    note g = goodD[OF assms]
    show "calls_ok env (p\<lparr> sp_channels := sp_channels p @
      [\<lparr> pc_terminalRequest = b, pc_finish = f, pc_exitCode = None, pc_forwarded = False, pc_served = False \<rparr>] \<rparr>)"
      using calls_ok_mono[OF g(6), of "sp_log p" "Suc (length (sp_channels p))"] by simp
  qed (use goodD[OF assms] in \<open>simp_all add: held_def forwards_ok_def agent_ok_def\<close>)
  then show ?thesis unfolding add_channel_def by (intro good_emit) simp_all
qed

section \<open>The plans\<close>

lemma parseChannelOperation_allowed:
  assumes "parseChannelOperation wire t d = Inr operation" "\<And>op. operation = Some op \<Longrightarrow> op_allowed log op"
  shows "channel_allowed wire log t d"
proof -
  consider "t = ChannelSession"
    | data where "t = ChannelDirectTCPIP" "pw_channelForward wire d = Inr data"
        "operation = Some (zero_Operation\<lparr> op_ChannelType := t, op_DestinationHost := cfd_Host data,
          op_DestinationPort := cfd_Port data, op_OriginHost := cfd_OriginHost data, op_OriginPort := cfd_OriginPort data \<rparr>)"
    | "t \<noteq> ChannelDirectTCPIP" "operation = Some (zero_Operation\<lparr> op_ChannelType := t \<rparr>)"
    using assms(1) unfolding parseChannelOperation_def by (auto split: if_splits sum.splits)
  then show ?thesis
  proof cases
    case 1
    then show ?thesis unfolding channel_allowed_def by blast
  next
    case 2
    then show ?thesis using assms(2)[OF 2(3)] unfolding channel_allowed_def by (intro disjI2 exI conjI) auto
  next
    case 3
    then show ?thesis using assms(2)[OF 3(2)] unfolding channel_allowed_def by (intro disjI2 exI conjI) auto
  qed
qed

lemma planGlobalRequest_allowed:
  assumes "planGlobalRequest wire t d = Inr plan" "\<And>op. grp_operation plan = Some op \<Longrightarrow> op_allowed log op"
    and "t = RequestCancelTCPIPForward \<Longrightarrow> \<exists>op. op_allowed log op \<and> serves op (grp_forwardKey plan)"
  shows "global_allowed wire log t d"
proof -
  consider "t \<in> {RequestKeepalive, RequestNoMoreSessions}"
    | data where "t = RequestTCPIPForward" "pw_globalForward wire d = Inr data"
        "grp_operation plan = Some (zero_Operation\<lparr> op_RequestType := t, op_BindHost := gfd_Host data, op_BindPort := gfd_Port data \<rparr>)"
    | data where "t = RequestCancelTCPIPForward" "pw_globalForward wire d = Inr data" "grp_forwardKey plan = forwardKey data"
    | "t \<noteq> RequestTCPIPForward" "t \<noteq> RequestCancelTCPIPForward" "grp_operation plan = Some (zero_Operation\<lparr> op_RequestType := t \<rparr>)"
    using assms(1) unfolding planGlobalRequest_def by (auto split: if_splits sum.splits)
  then show ?thesis
  proof cases
    case 1
    then show ?thesis unfolding global_allowed_def by blast
  next
    case 2
    then show ?thesis using assms(2)[OF 2(3)] unfolding global_allowed_def by (auto intro!: exI conjI)
  next
    case 3
    then show ?thesis using assms(3) unfolding global_allowed_def by auto
  next
    case 4
    then show ?thesis using assms(2)[OF 4(3)] unfolding global_allowed_def by (auto intro!: exI conjI)
  qed
qed

lemma planGlobalRequest_forward:
  assumes "planGlobalRequest wire RequestTCPIPForward d = Inr plan"
  shows "\<exists>op. grp_operation plan = Some op \<and> op_RequestType op = RequestTCPIPForward \<and>
    grp_forwardKey plan = JoinHostPort (op_BindHost op) (FormatUint (op_BindPort op))"
  using assms unfolding planGlobalRequest_def forwardKey_def by (auto split: sum.splits)

lemma planDownstreamRequest_allowed:
  assumes "planDownstreamRequest env r = Inr plan" "\<And>op. drp_operation plan = Some op \<Longrightarrow> op_allowed log op"
  shows "request_allowed env log (prq_Type r) (prq_Payload r)"
proof -
  let ?t = "prq_Type r" and ?d = "prq_Payload r"
  consider "?t \<in> {RequestPTY, RequestWindowChange, RequestSignal, RequestBreak}"
    | key v where "?t = RequestEnvironment" "pw_pair (pe_wire env) ?d = Inr (key, v)" "pe_envAllowed env key"
    | v where "?t = RequestExec" "pw_string (pe_wire env) ?d = Inr v"
        "drp_operation plan = Some ((session_operation ?t)\<lparr> op_Command := v \<rparr>)"
    | v where "?t = RequestSubsystem" "pw_string (pe_wire env) ?d = Inr v"
        "drp_operation plan = Some ((session_operation ?t)\<lparr> op_Subsystem := v \<rparr>)"
    | "?t \<notin> {RequestExec, RequestSubsystem, RequestEnvironment}" "drp_operation plan = Some (session_operation ?t)"
    using assms(1) unfolding planDownstreamRequest_def Let_def by (auto split: if_splits sum.splits prod.splits)
  then show ?thesis
  proof cases
    case 3
    then show ?thesis using assms(2)[OF 3(3)] unfolding request_allowed_def by (auto intro!: exI conjI)
  next
    case 4
    then show ?thesis using assms(2)[OF 4(3)] unfolding request_allowed_def by (auto intro!: exI conjI)
  next
    case 5
    then show ?thesis using assms(2)[OF 5(2)] unfolding request_allowed_def by (auto intro!: exI conjI)
  qed (unfold request_allowed_def, auto)
qed

lemma planDownstreamRequest_agent:
  assumes "planDownstreamRequest env r = Inr plan" "drp_effect plan = downstreamRequestAgentForward"
  shows "drp_operation plan = Some agent_operation"
  using assms unfolding planDownstreamRequest_def Let_def by (auto split: if_splits sum.splits prod.splits)

text \<open>What is held has not been finished.\<close>

lemma held_unfinished:
  assumes "good env fs p" "k \<in> set (held p)"
  shows "ProxyFinished k r \<notin> set (sp_log p)"
proof
  note g = goodD[OF assms(1)]
  assume "ProxyFinished k r \<in> set (sp_log p)"
  then have "finishes p k > 0" using g(3) unfolding finished_ok_def by blast
  moreover have "count_list (held p) k > 0" using assms(2) count_list_0_iff[of "held p" k] by fastforce
  moreover have "count_list (held p) k + count_list fs k + finishes p k \<le> (if k < length (sp_ops p) then 1 else 0)"
    using g(1) unfolding owns_def by blast
  ultimately show False by (simp split: if_splits)
qed

lemma forward_open:
  assumes "good env fs p" "hasRemoteForward key p"
  shows "\<exists>op. op_open (sp_log p) op \<and> serves op key"
proof -
  obtain k where k: "(key, k) \<in> set (sp_remoteForwards p)" using assms(2) map_of_SomeD unfolding hasRemoteForward_def by fast
  then obtain op where "ProxyBegan k op AllowedOperation \<in> set (sp_log p)" "serves op key"
    using goodD(4)[OF assms(1)] unfolding forwards_ok_def by blast
  moreover have "k \<in> set (held p)" using k by (force simp: held_def)
  ultimately show ?thesis using held_unfinished[OF assms(1)] unfolding op_open_def by blast
qed

lemma agent_open:
  assumes "good env fs p" "sp_agentForward p = Some k"
  shows "op_open (sp_log p) agent_operation"
proof -
  have "ProxyBegan k agent_operation AllowedOperation \<in> set (sp_log p)"
    using goodD(5)[OF assms(1)] assms(2) unfolding agent_ok_def by blast
  moreover have "k \<in> set (held p)" using assms(2) by (simp add: held_def)
  ultimately show ?thesis using held_unfinished[OF assms(1)] unfolding op_open_def by blast
qed

lemma op_open_allowed: "op_open log op \<Longrightarrow> op_allowed log op"
  unfolding op_open_def op_allowed_def by blast

lemma incoming_channel_allowed:
  assumes "good env fs p" "operationForUpstreamChannel env t d p = Inr operation"
    and "\<And>op. operation = Some op \<Longrightarrow> op_allowed log op" "operation = None \<Longrightarrow> log = sp_log p"
  shows "incoming_allowed (pe_wire env) log t d"
proof -
  consider data where "t = ChannelForwardedTCPIP" "pw_channelForward (pe_wire env) d = Inr data" "operation = None"
      "hasRemoteForward (JoinHostPort (cfd_Host data) (FormatUint (cfd_Port data))) p"
    | k where "t = ChannelAgent" "operation = None" "sp_agentForward p = Some k"
    | "t \<noteq> ChannelForwardedTCPIP" "t \<noteq> ChannelAgent" "operation = Some (zero_Operation\<lparr> op_ChannelType := t \<rparr>)"
    using assms(2) unfolding operationForUpstreamChannel_def by (auto split: if_splits sum.splits)
  then show ?thesis
  proof cases
    case 1
    then show ?thesis using forward_open[OF assms(1) 1(4)] assms(4) unfolding incoming_allowed_def by auto
  next
    case 2
    then show ?thesis using agent_open[OF assms(1) 2(3)] assms(4) unfolding incoming_allowed_def by auto
  next
    case 3
    then show ?thesis using assms(3)[OF 3(3)] unfolding incoming_allowed_def by (auto intro!: exI conjI)
  qed
qed

section \<open>The steps\<close>

text \<open>The two outcomes of asking for an operation.\<close>

lemma good_beginE:
  assumes "good env [] p" "beginOperation answer operation p = (p1, res)"
  obtains (refused) err where "res = Inl err" "good env [] p1"
  | (started) f where "res = Inr f" "good env (opt_list f) p1" "later p p1"
      "\<And>op. operation = Some op \<Longrightarrow> \<exists>k. f = Some k \<and> ProxyBegan k op AllowedOperation \<in> set (sp_log p1)"
      "operation = None \<Longrightarrow> p1 = p \<and> f = None"
      "sp_remoteForwards p1 = sp_remoteForwards p"
proof (cases res)
  case (Inl err)
  then show ?thesis using good_begin(1)[OF assms] refused by simp
next
  case (Inr f)
  note gb = good_begin[OF assms]
  have allowed: "\<exists>k. f = Some k \<and> ProxyBegan k op AllowedOperation \<in> set (sp_log p1)" if "operation = Some op" for op
    using gb(1) Inr that by simp
  have none: "p1 = p \<and> f = None" if "operation = None" using assms(2) that Inr by (simp add: beginOperation_def)
  have good: "good env (opt_list f) p1" using gb(1) Inr by simp
  show ?thesis by (rule started[OF Inr good gb(2) allowed none gb(4)])
qed

lemma started_allowed:
  assumes "\<And>op. operation = Some op \<Longrightarrow> \<exists>k. f = Some k \<and> ProxyBegan k op AllowedOperation \<in> set log"
    and "operation = Some op"
  shows "op_allowed log op"
  using assms(1)[OF assms(2)] unfolding op_allowed_def by blast

lemma good_handleChannel_begin:
  assumes "good env [] p"
  shows "good env [] (handleChannel_begin env t d answer p)"
proof (cases "parseChannelOperation (pe_wire env) t d")
  case (Inl err)
  then show ?thesis using assms by (simp add: handleChannel_begin_def good_emit)
next
  case (Inr operation)
  obtain p1 res where b: "beginOperation answer operation p = (p1, res)" by fastforce
  from assms b show ?thesis
  proof (cases rule: good_beginE)
    case (refused err)
    then show ?thesis using b Inr by (simp add: handleChannel_begin_def good_emit)
  next
    case (started f)
    have "channel_allowed (pe_wire env) (sp_log p1) t d"
      using parseChannelOperation_allowed[OF Inr] started_allowed[OF started(4)] by blast
    then have "good env [] (await (ChannelConnect t d f) p1)" using started(2) by (intro good_await) simp_all
    then show ?thesis using b Inr started(1) by (simp add: handleChannel_begin_def)
  qed
qed

lemma good_handleRequest_begin:
  assumes "good env [] p"
  shows "good env [] (handleRequest_begin env r answer p)"
proof (cases "planGlobalRequest (pe_wire env) (prq_Type r) (prq_Payload r)")
  case (Inl err)
  then show ?thesis using assms by (simp add: handleRequest_begin_def good_emit)
next
  case (Inr plan)
  obtain p1 res where b: "beginOperation answer (grp_operation plan) p = (p1, res)" by fastforce
  from assms b show ?thesis
  proof (cases rule: good_beginE)
    case (refused err)
    then show ?thesis using b Inr by (simp add: handleRequest_begin_def good_emit)
  next
    case (started f)
    let ?dup = "prq_Type r = RequestTCPIPForward \<and> hasRemoteForward (grp_forwardKey plan) p1"
    let ?unknown = "prq_Type r = RequestCancelTCPIPForward \<and> \<not> hasRemoteForward (grp_forwardKey plan) p1"
    consider ?dup | ?unknown | "\<not> ?dup" "\<not> ?unknown" by blast
    then show ?thesis
    proof cases
      case 1
      have "good env [] (finishOperation f res' p1)" for res' using started(2) by (intro good_finish) simp
      then show ?thesis using 1 b Inr started(1) by (simp add: handleRequest_begin_def good_emit)
    next
      case 2
      then have "grp_operation plan = None" using Inr by (auto simp: planGlobalRequest_def split: sum.splits)
      then have "p1 = p" "f = None" using started(5) by simp_all
      then show ?thesis using 2 b Inr started(1) assms by (simp add: handleRequest_begin_def good_emit)
    next
      case 3
      have cancel: "\<exists>op. op_allowed (sp_log p1) op \<and> serves op (grp_forwardKey plan)" if "prq_Type r = RequestCancelTCPIPForward"
        using 3(2) that forward_open[OF started(2)] op_open_allowed by blast
      have "global_allowed (pe_wire env) (sp_log p1) (prq_Type r) (prq_Payload r)"
        by (rule planGlobalRequest_allowed[OF Inr started_allowed[OF started(4)] cancel])
      moreover have "forward_call (sp_log p1) r f (grp_forwardKey plan)"
        using planGlobalRequest_forward[of "pe_wire env" "prq_Payload r" plan] Inr started(4) unfolding forward_call_def by metis
      ultimately have "good env [] (await (GlobalConnect r f (grp_forwardKey plan)) p1)"
        using started(2) by (intro good_await) simp_all
      then show ?thesis using 3 b Inr started(1) by (auto simp: handleRequest_begin_def)
    qed
  qed
qed

lemma good_serveUpstreamChannels_begin:
  assumes "good env [] p"
  shows "good env [] (serveUpstreamChannels_begin env t d answer p)"
proof (cases "operationForUpstreamChannel env t d p")
  case (Inl err)
  then show ?thesis using assms by (simp add: serveUpstreamChannels_begin_def good_emit)
next
  case (Inr operation)
  obtain p1 res where b: "beginOperation answer operation p = (p1, res)" by fastforce
  from assms b show ?thesis
  proof (cases rule: good_beginE)
    case (refused err)
    then show ?thesis using b Inr by (simp add: serveUpstreamChannels_begin_def good_emit)
  next
    case (started f)
    have same: "sp_log p1 = sp_log p" if "operation = None" using started(5) that by simp
    have "incoming_allowed (pe_wire env) (sp_log p1) t d"
      by (rule incoming_channel_allowed[OF assms Inr started_allowed[OF started(4)] same])
    then have "good env (opt_list f) (emit (DownstreamChannel t d) p1)" using started(2) by (intro good_emit) simp_all
    then have "good env [] (await (DownstreamOpen t d f) (emit (DownstreamChannel t d) p1))" by (intro good_await) simp_all
    then show ?thesis using b Inr started(1) by (simp add: serveUpstreamChannels_begin_def)
  qed
qed

lemma good_serveUpstreamRequests_begin:
  assumes "good env [] p"
  shows "good env [] (serveUpstreamRequests_begin r answer p)"
proof -
  let ?operation = "if prq_Type r \<noteq> RequestKeepalive \<and> prq_Type r \<noteq> RequestNoMoreSessions
                     then Some (zero_Operation\<lparr> op_RequestType := prq_Type r \<rparr>) else None"
  obtain p1 res where b: "beginOperation answer ?operation p = (p1, res)" by fastforce
  from assms b show ?thesis
  proof (cases rule: good_beginE)
    case (refused err)
    then show ?thesis using b by (auto simp: serveUpstreamRequests_begin_def intro: good_emit)
  next
    case (started f)
    let ?op = "zero_Operation\<lparr> op_RequestType := prq_Type r \<rparr>"
    have "op_allowed (sp_log p1) ?op" if "prq_Type r \<notin> {RequestKeepalive, RequestNoMoreSessions}"
      using started_allowed[OF started(4)] that by simp
    then have "effect_ok env (sp_log p1) (DownstreamGlobal (prq_Type r) (prq_Payload r))"
      using exI[of "\<lambda>op. op_allowed (sp_log p1) op \<and> op_RequestType op = prq_Type r" ?op] by simp blast
    then have "good env (opt_list f) (emit (DownstreamGlobal (prq_Type r) (prq_Payload r)) p1)"
      using started(2) by (intro good_emit) simp_all
    then have "good env [] (await (DownstreamSend r f) (emit (DownstreamGlobal (prq_Type r) (prq_Payload r)) p1))"
      by (intro good_await) simp_all
    then show ?thesis using b started(1) by (simp add: serveUpstreamRequests_begin_def)
  qed
qed

lemma good_forwardRequests_downstream_begin:
  assumes "good env [] p" "c < length (sp_channels p)"
  shows "good env [] (forwardRequests_downstream_begin env c r answer p)"
proof (cases "planDownstreamRequest env r")
  case (Inl err)
  then show ?thesis using assms by (simp add: forwardRequests_downstream_begin_def good_emit)
next
  case (Inr plan)
  let ?e = "UpstreamRequest c (prq_Type r) (prq_Payload r)"
  obtain p1 res where b: "beginOperation answer (drp_operation plan) p = (p1, res)" by fastforce
  from assms(1) b show ?thesis
  proof (cases rule: good_beginE)
    case (refused err)
    then show ?thesis using b Inr by (simp add: forwardRequests_downstream_begin_def good_emit)
  next
    case (started f)
    have "request_allowed env (sp_log p1) (prq_Type r) (prq_Payload r)"
      by (rule planDownstreamRequest_allowed[OF Inr started_allowed[OF started(4)]])
    then have "good env (opt_list f) (emit ?e p1)" using started(2) by (intro good_emit) simp_all
    moreover have "c < length (sp_channels p1)" using started(3) assms(2) by (simp add: later_def)
    moreover have "\<exists>k. f = Some k \<and> ProxyBegan k agent_operation AllowedOperation \<in> set (sp_log p1)"
      if "drp_effect plan = downstreamRequestAgentForward" using planDownstreamRequest_agent[OF Inr that] started(4) by blast
    ultimately have "good env [] (await (ChannelSend c r f (drp_effect plan)) (emit ?e p1))" by (intro good_await) auto
    then show ?thesis using b Inr started(1) by (simp add: forwardRequests_downstream_begin_def)
  qed
qed

text \<open>The answers of the peers.\<close>

lemma good_finish_one: "good env (opt_list f) p \<Longrightarrow> good env [] (finishOperation f r p)"
  using good_finish[of env f "[]" p r] by simp

lemmas good_answer = good_finish_one good_emit good_close good_add_channel[where fs = "[]", simplified]

lemma good_handleChannel_connect:
  assumes "good env (opt_list f) p" "channel_allowed (pe_wire env) (sp_log p) t d"
  shows "good env [] (handleChannel_connect dial t d f p)"
proof -
  obtain p1 err where c: "proxy_connect dial p = (p1, err)" by fastforce
  note g = good_connect[OF assms(1) c]
  show ?thesis
  proof (cases err)
    case None
    have "channel_allowed (pe_wire env) (sp_log p1) t d"
      using channel_allowed_mono[OF assms(2)] g(2) by (simp add: later_def)
    then have "good env (opt_list f) (emit (UpstreamChannel t d) p1)" using g(1) by (intro good_emit) simp_all
    then have "good env [] (await (ChannelOpen t d f) (emit (UpstreamChannel t d) p1))" by (intro good_await) simp_all
    then show ?thesis using c None by (simp add: handleChannel_connect_def)
  next
    case (Some e)
    then show ?thesis using c g(1) by (simp add: handleChannel_connect_def good_answer)
  qed
qed

lemma good_handleChannel_end:
  assumes "good env (opt_list f) p"
  shows "good env [] (handleChannel_end opened accept t f p)"
    and "good env [] (serveUpstreamChannels_end failed accept t f p)"
proof -
  have closed: "good env (opt_list f) (emit ChannelClosed p)" using assms by (rule good_emit) simp_all
  show "good env [] (handleChannel_end opened accept t f p)"
    using assms closed by (simp add: handleChannel_end_def Let_def good_answer split: option.split openFailure.split)
  show "good env [] (serveUpstreamChannels_end failed accept t f p)"
    using assms closed by (simp add: serveUpstreamChannels_end_def good_answer split: option.split)
qed

lemma good_handleRequest_connect:
  assumes "good env (opt_list f) p" "call_ok env (sp_log p) (length (sp_channels p)) (GlobalConnect r f key)"
  shows "good env [] (handleRequest_connect dial r f key p)"
proof -
  obtain p1 err where c: "proxy_connect dial p = (p1, err)" by fastforce
  note g = good_connect[OF assms(1) c]
  show ?thesis
  proof (cases err)
    case None
    let ?e = "UpstreamGlobal (prq_Type r) (prq_Payload r)"
    have logs: "set (sp_log p) \<subseteq> set (sp_log p1)" using g(2) by (simp add: later_def)
    have "global_allowed (pe_wire env) (sp_log p1) (prq_Type r) (prq_Payload r)"
      using global_allowed_mono[OF _ logs] assms(2) by simp
    then have "good env (opt_list f) (emit ?e p1)" using g(1) by (intro good_emit) simp_all
    moreover have "forward_call (sp_log (emit ?e p1)) r f key"
      using forward_call_mono[of "sp_log p" r f key "sp_log (emit ?e p1)"] assms(2) logs by auto
    ultimately have "good env [] (await (GlobalSend r f key) (emit ?e p1))" by (intro good_await) simp_all
    then show ?thesis using c None by (simp add: handleRequest_connect_def)
  next
    case (Some e)
    then show ?thesis using c g(1) by (simp add: handleRequest_connect_def good_answer)
  qed
qed

lemma good_handleRequest_end:
  assumes "good env (opt_list f) p" "forward_call (sp_log p) r f key"
  shows "good env [] (handleRequest_end env sent r f key p)"
proof -
  have add: "good env [] (addRemoteForward (actualRemoteForwardKey (pe_wire env) key payload) f p)"
    if t: "prq_Type r = RequestTCPIPForward" for payload
  proof (rule good_addRemoteForward)
    show "good env (opt_list f @ []) p" using assms(1) by simp
    fix k
    assume "f = Some k"
    then obtain op where "ProxyBegan k op AllowedOperation \<in> set (sp_log p)" "op_RequestType op = RequestTCPIPForward"
        "key = JoinHostPort (op_BindHost op) (FormatUint (op_BindPort op))"
      using assms(2) t unfolding forward_call_def by auto
    then show "\<exists>op. ProxyBegan k op AllowedOperation \<in> set (sp_log p) \<and>
        serves op (actualRemoteForwardKey (pe_wire env) key payload)"
      using serves_actual_key[of op "pe_wire env" payload] by blast
  qed
  have remove: "good env (opt_list f) (removeRemoteForward key res p)" for res
    using assms(1) by (rule good_removeRemoteForward)
  show ?thesis
  proof (cases sent)
    case (Inl err)
    then show ?thesis using assms(1) by (simp add: handleRequest_end_def good_answer)
  next
    case (Inr reply)
    obtain ok payload where "reply = (ok, payload)" by fastforce
    then show ?thesis using Inr assms(1) add remove by (simp add: handleRequest_end_def Let_def good_answer)
  qed
qed

lemma good_serveUpstreamRequests_end:
  assumes "good env (opt_list f) p"
  shows "good env [] (serveUpstreamRequests_end sent r f p)"
  using assms by (simp add: serveUpstreamRequests_end_def Let_def good_answer split: sum.split prod.split)

lemma good_forwardRequests_downstream_end:
  assumes "good env (opt_list f) p" "call_ok env (sp_log p) (length (sp_channels p)) (ChannelSend c r f effect)"
  shows "good env [] (forwardRequests_downstream_end replied c r f effect p)"
proof -
  have agent: "good env [] (setAgentForward f p)" if "effect = downstreamRequestAgentForward"
    by (rule good_setAgentForward) (use assms that in auto)
  have replace: "good env [] (replaceFinish c f p)"
    by (rule good_replaceFinish) (use assms in auto)
  have none: "good env [] p" if "f = None" using assms(1) that by simp
  show ?thesis
    using assms(1) agent replace none
    by (auto simp: forwardRequests_downstream_end_def Let_def good_answer split: sum.split downstreamRequestEffect.split)
qed

lemma good_channel_flag:
  assumes "good env fs p" "c < length (sp_channels p)" "pc_finish ch = pc_finish (sp_channels p ! c)"
  shows "good env fs (p\<lparr> sp_channels := (sp_channels p)[c := ch] \<rparr>)"
  using good_channel[OF assms(1,2), of ch fs] assms(3) by simp

lemma good_requests_forwarded:
  assumes "good env fs p" "c < length (sp_channels p)"
  shows "good env fs (requests_forwarded c p)"
  unfolding requests_forwarded_def using assms by (intro good_channel_flag) simp_all

lemma good_forwardRequests_upstream_begin:
  assumes "good env [] p" "c < length (sp_channels p)"
  shows "good env [] (forwardRequests_upstream_begin env c r p)"
proof -
  let ?p1 = "if prq_Type r = RequestExitStatus then recordExitStatus (pe_wire env) c (prq_Payload r) p else p"
  have "good env [] ?p1" "c < length (sp_channels ?p1)"
    using assms by (auto simp: recordExitStatus_def good_channel_flag split: sum.split)
  then show ?thesis unfolding forwardRequests_upstream_begin_def Let_def by (intro good_await good_emit) simp_all
qed

lemma good_forwardRequests_upstream_end:
  assumes "good env [] p" "c < length (sp_channels p)"
  shows "good env [] (forwardRequests_upstream_end replied c r p)"
  using assms by (simp add: forwardRequests_upstream_end_def Let_def good_requests_forwarded good_emit)

lemma good_serve_end:
  assumes "good env [] p" "c < length (sp_channels p)"
  shows "good env [] (serve_end c proxyErr p)"
  unfolding serve_end_def Let_def by (rule good_finish_one, rule good_channel[OF assms]) simp

lemma good_answer_step:
  assumes "answer_step env call p q" "good env (opt_list (pending_finish call)) p"
    and "call_ok env (sp_log p) (length (sp_channels p)) call"
  shows "good env [] q"
  using assms
proof cases
  case (7 c r f effect replied)
  then show ?thesis using assms(2,3) by (auto intro: good_forwardRequests_downstream_end)
next
  case (3 r f key dial)
  then show ?thesis using assms(2,3) by (auto intro: good_handleRequest_connect)
qed (use assms(2,3) in \<open>auto intro: good_handleChannel_connect good_handleChannel_end good_handleRequest_end
  good_serveUpstreamRequests_end good_forwardRequests_upstream_end\<close>)

lemma good_peer_step:
  assumes "peer_step env p q" "good env [] p"
  shows "good env [] q"
  using assms
proof cases
  case (8 before call after)
  show ?thesis by (rule good_answer_step[OF 8(2)]) (use good_settle[OF assms(2) 8(1)] in simp_all)
qed (use assms(2) in \<open>auto intro: good_serveUpstreamChannels_begin good_serveUpstreamRequests_begin
  good_forwardRequests_downstream_begin good_forwardRequests_upstream_begin good_requests_forwarded good_serve_end good_close\<close>)

section \<open>A closed proxy\<close>

text \<open>After its closing a proxy has no forwards any more.\<close>

definition closed_ok :: "sshProxy \<Rightarrow> bool" where
  "closed_ok p = (sp_closed p \<longrightarrow> sp_remoteForwards p = [] \<and> sp_agentForward p = None)"

lemma closed_ok_fields [simp]:
  "closed_ok (emit e p) = closed_ok p" "closed_ok (await call p) = closed_ok p"
  "closed_ok (finishOperation f r p) = closed_ok p" "closed_ok (p\<lparr> sp_pending := calls \<rparr>) = closed_ok p"
  "closed_ok (p\<lparr> sp_channels := chs \<rparr>) = closed_ok p" "closed_ok (p\<lparr> sp_upstream := u \<rparr>) = closed_ok p"
  "closed_ok (p\<lparr> sp_ops := ops \<rparr>) = closed_ok p"
  by (simp_all add: closed_ok_def emit_def await_def finishOperation_def split: option.split)

lemma closed_ok_finish_all [simp]: "closed_ok (finish_all ks r p) = closed_ok p"
  by (induction ks arbitrary: p) simp_all

lemma closed_ok_ops [simp]:
  assumes "closed_ok p"
  shows "closed_ok (addRemoteForward key f p)" "closed_ok (removeRemoteForward key r p)" "closed_ok (setAgentForward f p)"
    "closed_ok (replaceFinish c f p)" "closed_ok (add_channel t f p)" "closed_ok (requests_forwarded c p)"
    "closed_ok (recordExitStatus wire c d p)" "closed_ok (serve_end c e p)"
    "closed_ok (proxy_close p)" "closed_ok (fst (beginOperation answer operation p))" "closed_ok (fst (proxy_connect dial p))"
proof -
  show "closed_ok (addRemoteForward key f p)"
    using assms by (simp add: addRemoteForward_def) (simp add: closed_ok_def split: option.split)
  show "closed_ok (removeRemoteForward key r p)"
    using assms by (simp add: removeRemoteForward_def) (simp add: closed_ok_def)
  show "closed_ok (setAgentForward f p)" using assms by (simp add: setAgentForward_def) (simp add: closed_ok_def)
  show "closed_ok (proxy_close p)" using assms by (simp add: proxy_close_def Let_def) (simp add: closed_ok_def)
  show "closed_ok (replaceFinish c f p)" "closed_ok (add_channel t f p)" "closed_ok (requests_forwarded c p)"
    "closed_ok (serve_end c e p)"
    using assms by (simp_all add: replaceFinish_def add_channel_def requests_forwarded_def serve_end_def Let_def)
  show "closed_ok (recordExitStatus wire c d p)" using assms by (simp add: recordExitStatus_def split: sum.split)
  show "closed_ok (fst (beginOperation answer operation p))"
    using assms by (simp add: beginOperation_def Let_def split: option.split beginAnswer.split)
  show "closed_ok (fst (proxy_connect dial p))"
    using assms by (simp add: proxy_connect_def split: upstreamState.split option.split)
qed

lemma closed_ok_pairs:
  assumes "closed_ok p"
  shows "beginOperation answer operation p = (p1, res) \<Longrightarrow> closed_ok p1" "proxy_connect dial p = (p1, err) \<Longrightarrow> closed_ok p1"
  using closed_ok_ops(10)[OF assms, of answer operation] closed_ok_ops(11)[OF assms, of dial] by simp_all

lemma closed_ok_begins:
  assumes "closed_ok p"
  shows "closed_ok (handleChannel_begin env t d answer p)" "closed_ok (handleRequest_begin env r answer p)"
    "closed_ok (serveUpstreamChannels_begin env t d answer p)" "closed_ok (serveUpstreamRequests_begin r answer p)"
    "closed_ok (forwardRequests_downstream_begin env c r answer p)" "closed_ok (forwardRequests_upstream_begin env c r p)"
  using assms closed_ok_pairs(1)[OF assms]
  by (auto simp: handleChannel_begin_def handleRequest_begin_def serveUpstreamChannels_begin_def
    serveUpstreamRequests_begin_def forwardRequests_downstream_begin_def forwardRequests_upstream_begin_def Let_def
    split: sum.split prod.split option.split)

lemma closed_ok_answer_step:
  assumes "answer_step env call p q" "closed_ok p"
  shows "closed_ok q"
  using assms(1)
proof cases
  case (1 t d f dial)
  then show ?thesis using assms(2) closed_ok_pairs(2)[OF assms(2)]
    by (auto simp: handleChannel_connect_def split: prod.split option.split)
next
  case (3 r f key dial)
  then show ?thesis using assms(2) closed_ok_pairs(2)[OF assms(2)]
    by (auto simp: handleRequest_connect_def split: prod.split option.split)
qed (use assms(2) in \<open>simp_all add: handleChannel_end_def serveUpstreamChannels_end_def handleRequest_end_def
  serveUpstreamRequests_end_def forwardRequests_downstream_end_def forwardRequests_upstream_end_def Let_def
  split: option.split openFailure.split sum.split prod.split downstreamRequestEffect.split\<close>)

lemma closed_ok_peer_step: "peer_step env p q \<Longrightarrow> closed_ok p \<Longrightarrow> closed_ok q"
  by (erule peer_step.cases) (auto simp: closed_ok_begins dest: closed_ok_answer_step)

section \<open>The machine keeps the invariant\<close>

definition protocol_inv :: "proxyEnv \<Rightarrow> proxyProtocol \<Rightarrow> bool" where
  "protocol_inv env s = (good env [] (spp_proxy s) \<and> closed_ok (spp_proxy s))"

lemma good_newProxy: "good env [] newProxy"
  by (simp add: good_def owns_def held_def finishes_def newProxy_def finished_ok_def forwards_ok_def agent_ok_def)

lemma protocol_inv_step:
  assumes "protocol_inv env s" "protocol_step env s t"
  shows "protocol_inv env t"
  using assms(2)
proof cases
  case (protocol_channel c d answer)
  then show ?thesis using assms(1)
    by (simp add: protocol_inv_def proxy_HandleChannel_def connectionProxy_def on_proxy_def good_emit
      good_handleChannel_begin closed_ok_begins)
next
  case (protocol_request r answer)
  then show ?thesis using assms(1)
    by (simp add: protocol_inv_def proxy_HandleGlobalRequest_def connectionProxy_def on_proxy_def good_emit
      good_handleRequest_begin closed_ok_begins)
next
  case protocol_close
  then show ?thesis using assms(1)
    by (simp add: protocol_inv_def proxyProtocol_Close_def on_proxy_def good_close Let_def)
next
  case (protocol_peer q)
  then show ?thesis using assms(1) good_peer_step closed_ok_peer_step by (simp add: protocol_inv_def)
qed

interpretation proxied: inductive_invariant protocol_init "protocol_step env" "protocol_inv env"
proof
  show "protocol_inv env s" if "s = NewProtocol" for s
    using that good_newProxy by (simp add: protocol_inv_def NewProtocol_def closed_ok_def newProxy_def)
  show "protocol_inv env t" if "protocol_inv env s" "protocol_step env s t" for s t
    using that by (rule protocol_inv_step)
qed

section \<open>Properties\<close>

text \<open>
  C10. Everything the SSH proxy passes on was authorized.  In every run, with the peers answering and acting in any
  order, a channel or request that is sent to the upstream server belongs to an operation that was allowed
  before, with the destination, bind address, command or subsystem that was authorized (the exceptions
  are session channels, terminal requests, keep-alives and allowed environment variables); and a channel of the
  upstream server is passed to the client only under a remote forward or agent forward that is still open when
  the proxy decides about the channel, or under an allowed operation of its own.
\<close>

theorem proxied_effects_authorized:
  assumes "reach protocol_init (protocol_step env) s" "sp_log (spp_proxy s) = older @ e # newer"
  shows "effect_ok env older e"
  using proxied.reach_inv[OF assms(1)] assms(2) by (simp add: protocol_inv_def good_def log_ok_def)

definition example_proxyEnv :: proxyEnv where
  "example_proxyEnv = \<lparr>
     pe_wire = \<lparr> pw_string = Inr, pw_pair = (\<lambda>d. Inr (d, [])),
       pw_channelForward = (\<lambda>d. Inr \<lparr> cfd_Host = d, cfd_Port = 5432, cfd_OriginHost = ''localhost'', cfd_OriginPort = 1 \<rparr>),
       pw_globalForward = (\<lambda>d. Inr \<lparr> gfd_Host = d, gfd_Port = 8080 \<rparr>), pw_uint32 = (\<lambda>_. Inr 0) \<rparr>,
     pe_envAllowed = (\<lambda>_. False), pe_errorText = (\<lambda>_. []) \<rparr>"

definition example_direct :: Operation where
  "example_direct = zero_Operation\<lparr> op_ChannelType := ChannelDirectTCPIP, op_DestinationHost := ''db'',
     op_DestinationPort := 5432, op_OriginHost := ''localhost'', op_OriginPort := 1 \<rparr>"

definition example_opened :: proxyProtocol where
  "example_opened = \<lparr> spp_closed = False, spp_current = True,
     spp_proxy = newProxy\<lparr> sp_ops := [(example_direct, [])], sp_pending := [ChannelConnect ChannelDirectTCPIP ''db'' (Some 0)],
       sp_log := [ProxyBegan 0 example_direct AllowedOperation] \<rparr> \<rparr>"

definition example_forwarded :: proxyProtocol where
  "example_forwarded = \<lparr> spp_closed = False, spp_current = True,
     spp_proxy = newProxy\<lparr> sp_upstream := Connected, sp_ops := [(example_direct, [])],
       sp_pending := [ChannelOpen ChannelDirectTCPIP ''db'' (Some 0)],
       sp_log := [ProxyBegan 0 example_direct AllowedOperation, UpstreamChannel ChannelDirectTCPIP ''db''] \<rparr> \<rparr>"

lemma example_opened_eq:
  "proxy_HandleChannel example_proxyEnv ChannelDirectTCPIP ''db'' AllowedOperation NewProtocol = example_opened"
  by (simp add: proxy_HandleChannel_def connectionProxy_def NewProtocol_def on_proxy_def handleChannel_begin_def
    parseChannelOperation_def example_proxyEnv_def beginOperation_def newProxy_def emit_def await_def example_opened_def
    example_direct_def)

text \<open>Answering the first of the pending calls.\<close>

lemma protocol_answer:
  assumes "sp_pending (spp_proxy s) = call # rest" "answer_step env call ((spp_proxy s)\<lparr> sp_pending := rest \<rparr>) q"
  shows "protocol_step env s (s\<lparr> spp_proxy := q \<rparr>)"
  using peer_step.intros(8)[of "spp_proxy s" "[]" call rest env q] assms by (intro protocol_peer) simp

lemma example_forwarded_reach: "reach protocol_init (protocol_step example_proxyEnv) example_forwarded"
proof -
  have opened: "reach protocol_init (protocol_step example_proxyEnv) example_opened"
    unfolding example_opened_eq[symmetric] by (rule reach_step, rule reach_init, rule refl, rule protocol_channel)
  have "example_forwarded = example_opened\<lparr> spp_proxy :=
      handleChannel_connect None ChannelDirectTCPIP ''db'' (Some 0) ((spp_proxy example_opened)\<lparr> sp_pending := [] \<rparr>) \<rparr>"
    by (simp add: example_forwarded_def example_opened_def handleChannel_connect_def proxy_connect_def newProxy_def
      emit_def await_def)
  then show ?thesis
    using reach_step[OF opened protocol_answer[OF _ answer_step.intros(1)[where dial = None]]]
    by (simp add: example_opened_def)
qed

lemma proxied_effects_authorized_witness:
  "reach protocol_init (protocol_step example_proxyEnv) example_forwarded \<and>
   effect_ok example_proxyEnv [ProxyBegan 0 example_direct AllowedOperation] (UpstreamChannel ChannelDirectTCPIP ''db'')"
  using example_forwarded_reach
    proxied_effects_authorized[OF example_forwarded_reach, of "[ProxyBegan 0 example_direct AllowedOperation]" _ "[]"]
  by (simp add: example_forwarded_def)

text \<open>
  C11. An operation of a proxied connection is finished at most once.  In every reachable state an operation that was
  begun is finished already, and then no pending call, forward, agent forward or channel refers to it any more,
  or it is referred to by at most one of them; a closed proxy keeps no forward and no agent forward.
\<close>

theorem proxied_operations_finished_once:
  assumes "reach protocol_init (protocol_step env) s" "k < length (sp_ops (spp_proxy s))"
  shows "count_list (held (spp_proxy s)) k + length (snd (sp_ops (spp_proxy s) ! k)) \<le> 1 \<and>
    (sp_closed (spp_proxy s) \<longrightarrow> sp_remoteForwards (spp_proxy s) = [] \<and> sp_agentForward (spp_proxy s) = None)"
proof -
  have inv: "owns [] (spp_proxy s)" "closed_ok (spp_proxy s)"
    using proxied.reach_inv[OF assms(1)] by (simp_all add: protocol_inv_def good_def)
  show ?thesis
    using inv(1)[unfolded owns_def, rule_format, of k] inv(2)[unfolded closed_ok_def] assms(2) by (simp add: finishes_def)
qed

lemma proxied_operations_finished_once_witness:
  "count_list (held (spp_proxy example_forwarded)) 0 + length (snd (sp_ops (spp_proxy example_forwarded) ! 0)) \<le> 1"
  using proxied_operations_finished_once[OF example_forwarded_reach, of 0] by (simp add: example_forwarded_def)

text \<open>
  An operation that is never finished.  \<^verbatim>\<open>serve\<close> may end before the goroutine forwarding the requests of the
  client has handled the answer to an exec request; \<^verbatim>\<open>replaceFinish\<close> then stores the operation in a channel
  that is not served any more.
\<close>

abbreviation stranded_exec :: proxyRequest where
  "stranded_exec \<equiv> \<lparr> prq_Type = RequestExec, prq_WantReply = True, prq_Payload = ''id'' \<rparr>"

abbreviation stranded_exit :: proxyRequest where
  "stranded_exit \<equiv> \<lparr> prq_Type = RequestExitStatus, prq_WantReply = False, prq_Payload = [] \<rparr>"

definition stranded_operation :: Operation where
  "stranded_operation = (session_operation RequestExec)\<lparr> op_Command := ''id'' \<rparr>"

definition stranded_channel :: "nat option \<Rightarrow> int option \<Rightarrow> bool \<Rightarrow> bool \<Rightarrow> proxiedChannel" where
  "stranded_channel f code forwarded served = \<lparr> pc_terminalRequest = True, pc_finish = f, pc_exitCode = code,
     pc_forwarded = forwarded, pc_served = served \<rparr>"

definition stranded_state :: "pendingCall list \<Rightarrow> proxiedChannel list \<Rightarrow> (Operation \<times> OperationResult list) list \<Rightarrow> proxyEffect list \<Rightarrow> proxyProtocol" where
  "stranded_state calls chs ops log = \<lparr> spp_closed = False, spp_current = True,
     spp_proxy = newProxy\<lparr> sp_upstream := Connected, sp_channels := chs, sp_ops := ops, sp_pending := calls, sp_log := log \<rparr> \<rparr>"

abbreviation stranded_log :: "proxyEffect list" where
  "stranded_log \<equiv> [UpstreamChannel ChannelSession [], ChannelProxied 0]"

abbreviation stranded_log' :: "proxyEffect list" where
  "stranded_log' \<equiv> stranded_log @ [ProxyBegan 0 stranded_operation AllowedOperation, UpstreamRequest 0 RequestExec ''id'']"

abbreviation stranded_log'' :: "proxyEffect list" where
  "stranded_log'' \<equiv> stranded_log' @ [DownstreamRequest 0 RequestExitStatus []]"

abbreviation stranded_reach :: "proxyProtocol \<Rightarrow> bool" where
  "stranded_reach \<equiv> reach protocol_init (protocol_step example_proxyEnv)"

lemmas stranded_defs = stranded_state_def stranded_channel_def newProxy_def emit_def await_def

text \<open>One step of the run, from a state to the state a handler gives.\<close>

lemma stranded_step:
  assumes "stranded_reach s" "peer_step example_proxyEnv (spp_proxy s) q" "t = s\<lparr> spp_proxy := q \<rparr>"
  shows "stranded_reach t"
  unfolding assms(3) using assms(1) protocol_peer[OF assms(2)] by (rule reach_step)

lemma stranded_answer:
  assumes "stranded_reach s" "sp_pending (spp_proxy s) = before @ call # after"
    and "answer_step example_proxyEnv call ((spp_proxy s)\<lparr> sp_pending := before @ after \<rparr>) q" "t = s\<lparr> spp_proxy := q \<rparr>"
  shows "stranded_reach t"
  using stranded_step[OF assms(1) peer_step.intros(8)[OF assms(2,3)] assms(4)] .

lemma stranded_start:
  "stranded_reach \<lparr> spp_closed = False, spp_current = True,
      spp_proxy = newProxy\<lparr> sp_pending := [ChannelConnect ChannelSession [] None] \<rparr> \<rparr>"
proof -
  have "proxy_HandleChannel example_proxyEnv ChannelSession [] AllowedOperation NewProtocol =
      \<lparr> spp_closed = False, spp_current = True, spp_proxy = newProxy\<lparr> sp_pending := [ChannelConnect ChannelSession [] None] \<rparr> \<rparr>"
    by (simp add: proxy_HandleChannel_def connectionProxy_def NewProtocol_def on_proxy_def handleChannel_begin_def
      parseChannelOperation_def beginOperation_def newProxy_def await_def)
  moreover have "stranded_reach (proxy_HandleChannel example_proxyEnv ChannelSession [] AllowedOperation NewProtocol)"
    by (rule reach_step, rule reach_init, rule refl, rule protocol_channel)
  ultimately show ?thesis by simp
qed

abbreviation stranded_send :: pendingCall where
  "stranded_send \<equiv> ChannelSend 0 stranded_exec (Some 0) downstreamRequestSession"

lemma stranded_connected:
  "stranded_reach (stranded_state [ChannelOpen ChannelSession [] None] [] [] [UpstreamChannel ChannelSession []])"
  by (rule stranded_answer[OF stranded_start, where before = "[]" and after = "[]", OF _ answer_step.intros(1)[where dial = None]])
    (simp_all add: handleChannel_connect_def proxy_connect_def stranded_defs)

lemma stranded_session:
  "stranded_reach (stranded_state [] [stranded_channel None None False False] [] stranded_log)"
  by (rule stranded_answer[OF stranded_connected, where before = "[]" and after = "[]", OF _
        answer_step.intros(2)[where opened = None and accept = None]])
    (simp_all add: handleChannel_end_def add_channel_def stranded_defs)

lemma stranded_requested:
  "stranded_reach (stranded_state [stranded_send] [stranded_channel None None False False] [(stranded_operation, [])] stranded_log')"
  by (rule stranded_step[OF stranded_session peer_step.intros(3)[where r = stranded_exec and c = 0 and answer = AllowedOperation]])
    (simp_all add: forwardRequests_downstream_begin_def planDownstreamRequest_def example_proxyEnv_def beginOperation_def
      Let_def stranded_operation_def stranded_defs)

lemma stranded_exited:
  "stranded_reach (stranded_state [stranded_send, ChannelBack 0 stranded_exit] [stranded_channel None (Some 0) False False]
     [(stranded_operation, [])] stranded_log'')"
  by (rule stranded_step[OF stranded_requested peer_step.intros(4)[where r = stranded_exit and c = 0]])
    (simp_all add: forwardRequests_upstream_begin_def recordExitStatus_def example_proxyEnv_def Let_def stranded_defs)

lemma stranded_forwarded:
  "stranded_reach (stranded_state [stranded_send] [stranded_channel None (Some 0) True False] [(stranded_operation, [])] stranded_log'')"
  by (rule stranded_answer[OF stranded_exited, where before = "[stranded_send]" and after = "[]", OF _
        answer_step.intros(8)[where replied = "Inr True" and c = 0 and r = stranded_exit]])
    (simp_all add: forwardRequests_upstream_end_def requests_forwarded_def stranded_defs)

lemma stranded_served:
  "stranded_reach (stranded_state [stranded_send] [stranded_channel None (Some 0) True True] [(stranded_operation, [])] stranded_log'')"
  by (rule stranded_step[OF stranded_forwarded peer_step.intros(6)[where c = 0 and proxyErr = None and canceled = False]])
    (simp_all add: serve_end_def channel_wait_def finishOperation_def Let_def stranded_defs)

lemma stranded_replied:
  "stranded_reach (stranded_state [] [stranded_channel (Some 0) (Some 0) True True] [(stranded_operation, [])]
     (stranded_log'' @ [RepliedDownstream True []]))"
  by (rule stranded_answer[OF stranded_served, where before = "[]" and after = "[]", OF _
        answer_step.intros(7)[where replied = "Inr True" and c = 0 and r = stranded_exec and f = "Some 0" and
          effect = downstreamRequestSession]])
    (simp_all add: forwardRequests_downstream_end_def replaceFinish_def finishOperation_def Let_def stranded_defs)

theorem session_operation_stranded:
  "\<exists>s. reach protocol_init (protocol_step example_proxyEnv) s \<and> sp_pending (spp_proxy s) = [] \<and>
     sp_ops (spp_proxy s) = [(stranded_operation, [])] \<and>
     (\<exists>ch. sp_channels (spp_proxy s) = [ch] \<and> pc_served ch \<and> pc_finish ch = Some 0)"
  by (rule exI, rule conjI, rule stranded_replied) (simp add: stranded_defs)

end
