(* ===== verification/SshConnector.thy ===== *)
theory SshConnector
  imports SshTarget Dependencies
begin

text \<open>
  Upstream connections of the SSH proxy: pkg/sshproxy/connector.go.  The connector reads the Access of
  a bound target again, takes credentials and pinned host keys of the endpoint from it and from
  Secrets of its namespace, and makes one TCP and one SSH connection.  The network and the SSH
  client of golang.org/x/crypto are parameters.
\<close>

section \<open>What the connector reads\<close>

record connectorSource =
  src_Get :: "string \<Rightarrow> string \<Rightarrow> Access result"
  src_SecretValue :: "string \<Rightarrow> LocalSecretKeyRef \<Rightarrow> string result"

text \<open>The gateway gives the connector its policy cache.\<close>

definition policySource :: "PolicyCache \<Rightarrow> connectorSource" where
  "policySource c = \<lparr> src_Get = PolicyCache_Get c, src_SecretValue = SecretValue c \<rparr>"

definition findEndpoint :: "AccessEndpoint list \<Rightarrow> string \<Rightarrow> AccessEndpoint option" where
  "findEndpoint endpoints name = find (\<lambda>e. ep_Name e = name) endpoints"

definition splitLines :: "string \<Rightarrow> string list" where
  "splitLines value = filter (\<lambda>line. line \<noteq> []) (map TrimSpace (Split value (CHR 0x0A)))"

definition endpointAddress :: "(string \<Rightarrow> string list) \<Rightarrow> AccessEndpoint \<Rightarrow> string result" where
  "endpointAddress dns1123 endpoint =
     (if \<not> ParseIP_ok (ep_Address endpoint) \<and> dns1123 (ep_Address endpoint) \<noteq> []
      then Inl (Errorf ''address must be a DNS name or IP'' [])
      else Inr (JoinHostPort (ep_Address endpoint) (FormatInt (ep_Port endpoint))))"

text \<open>The values of a list of Secret keys, up to the first that cannot be read.\<close>

fun secretValues :: "connectorSource \<Rightarrow> string \<Rightarrow> LocalSecretKeyRef list \<Rightarrow> string list result" where
  "secretValues source namespace [] = Inr []"
| "secretValues source namespace (ref # refs) =
     (case src_SecretValue source namespace ref of
        Inl err \<Rightarrow> Inl err
      | Inr v \<Rightarrow> bind_result (secretValues source namespace refs) (\<lambda>vs. Inr (v # vs)))"

fun parse_all :: "string \<Rightarrow> (string \<Rightarrow> 'a result) \<Rightarrow> string list \<Rightarrow> 'a list result" where
  "parse_all message parse [] = Inr []"
| "parse_all message parse (v # vs) =
     (case parse v of
        Inl err \<Rightarrow> Inl (Wrap message [] err)
      | Inr x \<Rightarrow> bind_result (parse_all message parse vs) (\<lambda>xs. Inr (x # xs)))"

section \<open>Authentication and trust\<close>

datatype 'signer upstreamAuth = PublicKeysAuth "'signer list" | PasswordsAuth "string list"

definition authMethod ::
  "(string \<Rightarrow> 'signer result) \<Rightarrow> connectorSource \<Rightarrow> string \<Rightarrow> AccessEndpoint \<Rightarrow> 'signer upstreamAuth result" where
  "authMethod parsePrivateKey source namespace endpoint =
     (if ep_PrivateKeys endpoint \<noteq> [] \<or> ep_PrivateKeysFrom endpoint \<noteq> []
      then bind_result (secretValues source namespace (ep_PrivateKeysFrom endpoint))
             (\<lambda>values. bind_result
                (parse_all ''parse private key: %w'' parsePrivateKey (ep_PrivateKeys endpoint @ values))
                (\<lambda>signers. Inr (PublicKeysAuth signers)))
      else bind_result (secretValues source namespace (ep_PasswordsFrom endpoint))
             (\<lambda>values. Inr (PasswordsAuth (ep_Passwords endpoint @ values))))"

text \<open>The password callback of the \<open>n\<close>-th attempt; indexing past the end panics.\<close>

definition nextPassword :: "string list \<Rightarrow> nat \<Rightarrow> string result" where
  "nextPassword passwords n = (if n < length passwords then Inr (passwords ! n) else Inl (Panic ''index out of range''))"

datatype hostKeyPolicy = InsecureIgnoreHostKey | PinnedHostKeys "PublicKey list"

definition hostKeyCallback :: "CryptoSSH \<Rightarrow> connectorSource \<Rightarrow> string \<Rightarrow> AccessEndpoint \<Rightarrow> hostKeyPolicy result" where
  "hostKeyCallback ck source namespace endpoint =
     (if ep_InsecureSkipVerification endpoint then Inr InsecureIgnoreHostKey
      else bind_result (secretValues source namespace (ep_PublicKeysFrom endpoint))
             (\<lambda>values. bind_result
                (parse_all ''parse public key: %w'' (ck_ParseAuthorizedKey ck)
                  (ep_PublicKeys endpoint @ concat (map splitLines values)))
                (\<lambda>keys. if keys = []
                   then Inl (Errorf ''at least one public key is required unless insecureSkipVerification is true'' [])
                   else Inr (PinnedHostKeys keys))))"

text \<open>The callback itself; a key is identified with its wire form, which is what the code compares.\<close>

fun checkHostKey :: "CryptoSSH \<Rightarrow> hostKeyPolicy \<Rightarrow> PublicKey \<Rightarrow> go_error option" where
  "checkHostKey ck InsecureIgnoreHostKey presented = None"
| "checkHostKey ck (PinnedHostKeys keys) presented =
     (if presented \<in> set keys then None
      else Some (Errorf ''upstream host key %s is not pinned'' [ck_FingerprintSHA256 ck presented]))"

record 'signer endpointConfig =
  ec_address :: string
  ec_auth :: "'signer upstreamAuth"
  ec_hostKey :: hostKeyPolicy

definition Connector_endpointConfig ::
  "(string \<Rightarrow> string list) \<Rightarrow> CryptoSSH \<Rightarrow> (string \<Rightarrow> 'signer result) \<Rightarrow> connectorSource \<Rightarrow> string \<Rightarrow> AccessEndpoint \<Rightarrow>
    'signer endpointConfig result" where
  "Connector_endpointConfig dns1123 ck parsePrivateKey source namespace endpoint =
     (case endpointAddress dns1123 endpoint of
        Inl err \<Rightarrow> Inl (Wrap ''load endpoint %q address: %w'' [ep_Name endpoint] err)
      | Inr address \<Rightarrow>
          (case authMethod parsePrivateKey source namespace endpoint of
             Inl err \<Rightarrow> Inl (Wrap ''load endpoint %q authentication: %w'' [ep_Name endpoint] err)
           | Inr auth \<Rightarrow>
               (case hostKeyCallback ck source namespace endpoint of
                  Inl err \<Rightarrow> Inl (Wrap ''load endpoint %q host keys: %w'' [ep_Name endpoint] err)
                | Inr hostKey \<Rightarrow> Inr \<lparr> ec_address = address, ec_auth = auth, ec_hostKey = hostKey \<rparr>)))"

section \<open>Connecting\<close>

record ('conn, 'ssh, 'signer) upstreamNet =
  un_Dial :: "string \<Rightarrow> 'conn result"
  un_SetDeadline :: "'conn \<Rightarrow> go_error option"
  un_NewClientConn :: "'conn \<Rightarrow> string \<Rightarrow> string \<Rightarrow> 'signer upstreamAuth \<Rightarrow> (PublicKey \<Rightarrow> go_error option) \<Rightarrow> 'ssh result"
  un_ClearDeadline :: "'ssh \<Rightarrow> go_error option"

datatype ('conn, 'ssh) connectEffect = Dialed string 'conn | ConnClosed 'conn | SshClosed 'ssh

definition Connect ::
  "(string \<Rightarrow> string list) \<Rightarrow> CryptoSSH \<Rightarrow> (string \<Rightarrow> 'signer result) \<Rightarrow> connectorSource \<Rightarrow>
    ('conn, 'ssh, 'signer) upstreamNet \<Rightarrow> Target option \<Rightarrow> ('conn, 'ssh) connectEffect list \<times> 'ssh result" where
  "Connect dns1123 ck parsePrivateKey source net tgt =
     (case parseTarget tgt of
        Inl err \<Rightarrow> ([], Inl err)
      | Inr bound \<Rightarrow>
     (case src_Get source (bt_Namespace bound) (bt_Access bound) of
        Inl err \<Rightarrow> ([], Inl (Wrap ''get External Access: %w'' [] err))
      | Inr access \<Rightarrow>
          if m_UID (acc_Meta access) \<noteq> bt_AccessUID bound \<or> acc_Generation access \<noteq> bt_Generation bound
          then ([], Inl (Conflict ''external Access %s/%s changed after target resolution'' [bt_Namespace bound, bt_Access bound]))
          else if spec_Type (acc_Spec access) \<noteq> AccessTypeExternal
          then ([], Inl (Errorf ''access %s/%s is not External'' [bt_Namespace bound, bt_Access bound]))
          else
     (case findEndpoint (spec_Endpoints (acc_Spec access)) (bt_Endpoint bound) of
        None \<Rightarrow> ([], Inl (Errorf ''endpoint %q no longer exists in Access %s/%s''
                       [bt_Endpoint bound, bt_Namespace bound, bt_Access bound]))
      | Some endpoint \<Rightarrow>
     (case Connector_endpointConfig dns1123 ck parsePrivateKey source (acc_Namespace access) endpoint of
        Inl err \<Rightarrow> ([], Inl err)
      | Inr config \<Rightarrow>
     (case un_Dial net (ec_address config) of
        Inl err \<Rightarrow> ([], Inl (Wrap ''dial endpoint %q: %w'' [ep_Name endpoint] err))
      | Inr conn \<Rightarrow>
     (case un_SetDeadline net conn of
        Some err \<Rightarrow> ([Dialed (ec_address config) conn, ConnClosed conn],
          Inl (Wrap ''set endpoint %q handshake deadline: %w'' [ep_Name endpoint] err))
      | None \<Rightarrow>
     (case un_NewClientConn net conn (ec_address config) (ep_Username endpoint) (ec_auth config)
             (checkHostKey ck (ec_hostKey config)) of
        Inl err \<Rightarrow> ([Dialed (ec_address config) conn, ConnClosed conn],
          Inl (Wrap ''authenticate endpoint %q: %w'' [ep_Name endpoint] err))
      | Inr ssh \<Rightarrow>
     (case un_ClearDeadline net ssh of
        Some err \<Rightarrow> ([Dialed (ec_address config) conn, SshClosed ssh],
          Inl (Wrap ''clear endpoint %q handshake deadline: %w'' [ep_Name endpoint] err))
      | None \<Rightarrow> ([Dialed (ec_address config) conn], Inr ssh)))))))))"

section \<open>Lemmas\<close>

lemma splitLines_is_splitSecretLines: "splitLines = splitSecretLines"
  by (rule ext) (simp add: splitLines_def splitSecretLines_def)

lemma secretValues_from:
  "secretValues source ns refs = Inr vs \<Longrightarrow> v \<in> set vs \<Longrightarrow> \<exists>ref \<in> set refs. src_SecretValue source ns ref = Inr v"
  by (induction refs arbitrary: vs) (auto simp: bind_result_Inr_iff split: sum.splits)

lemma secretValues_length: "secretValues source ns refs = Inr vs \<Longrightarrow> length vs = length refs"
  by (induction refs arbitrary: vs) (auto simp: bind_result_Inr_iff split: sum.splits)

lemma parse_all_from: "parse_all m parse vs = Inr xs \<Longrightarrow> x \<in> set xs \<Longrightarrow> \<exists>v \<in> set vs. parse v = Inr x"
  by (induction vs arbitrary: xs) (auto simp: bind_result_Inr_iff split: sum.splits)

text \<open>A host key that the callback accepts is pinned by the endpoint, unless it skips verification.\<close>

definition key_pinned :: "CryptoSSH \<Rightarrow> connectorSource \<Rightarrow> string \<Rightarrow> AccessEndpoint \<Rightarrow> PublicKey \<Rightarrow> bool" where
  "key_pinned ck source ns endpoint key =
     (\<exists>line. ck_ParseAuthorizedKey ck line = Inr key \<and>
       (line \<in> set (ep_PublicKeys endpoint) \<or>
        (\<exists>ref \<in> set (ep_PublicKeysFrom endpoint). \<exists>v. src_SecretValue source ns ref = Inr v \<and> line \<in> set (splitLines v))))"

lemma checkHostKey_pinned:
  assumes "hostKeyCallback ck source ns endpoint = Inr policy" "checkHostKey ck policy key = None"
    and "\<not> ep_InsecureSkipVerification endpoint"
  shows "key_pinned ck source ns endpoint key"
proof -
  obtain vs keys where vs: "secretValues source ns (ep_PublicKeysFrom endpoint) = Inr vs"
    and keys: "parse_all ''parse public key: %w'' (ck_ParseAuthorizedKey ck) (ep_PublicKeys endpoint @ concat (map splitLines vs)) = Inr keys"
    and policy: "policy = PinnedHostKeys keys"
    using assms(1,3) by (auto simp: hostKeyCallback_def bind_result_Inr_iff split: if_splits)
  have "key \<in> set keys" using assms(2) policy by (simp split: if_splits)
  from parse_all_from[OF keys this] obtain line where
      line: "ck_ParseAuthorizedKey ck line = Inr key" "line \<in> set (ep_PublicKeys endpoint @ concat (map splitLines vs))" by blast
  show ?thesis
  proof (cases "line \<in> set (ep_PublicKeys endpoint)")
    case True
    then show ?thesis using line(1) unfolding key_pinned_def by blast
  next
    case False
    then obtain v where "v \<in> set vs" "line \<in> set (splitLines v)" using line(2) by auto
    then show ?thesis using secretValues_from[OF vs] line(1) unfolding key_pinned_def by blast
  qed
qed

text \<open>
  An endpoint that the schema of the Access admits has credentials: the password callback finds a
  password on its first attempt.
\<close>

lemma authMethod_has_credentials:
  assumes "authMethod parsePrivateKey source ns endpoint = Inr (PasswordsAuth passwords)"
    and "ep_PrivateKeys endpoint \<noteq> [] \<or> ep_PrivateKeysFrom endpoint \<noteq> [] \<or> ep_Passwords endpoint \<noteq> [] \<or> ep_PasswordsFrom endpoint \<noteq> []"
  shows "\<exists>p. nextPassword passwords 0 = Inr p"
proof -
  obtain vs where "secretValues source ns (ep_PasswordsFrom endpoint) = Inr vs" "passwords = ep_Passwords endpoint @ vs"
    using assms(1) by (auto simp: authMethod_def bind_result_Inr_iff split: if_splits)
  moreover have "ep_Passwords endpoint \<noteq> [] \<or> ep_PasswordsFrom endpoint \<noteq> []"
    using assms by (auto simp: authMethod_def bind_result_Inr_iff split: if_splits)
  ultimately have "passwords \<noteq> []" using secretValues_length by fastforce
  then show ?thesis by (simp add: nextPassword_def)
qed

section \<open>Properties\<close>

text \<open>A successful connection went through every check.\<close>

lemma ConnectE:
  assumes "Connect dns1123 ck parse source net tgt = (effects, Inr ssh)"
  obtains bound access endpoint config conn where
    "parseTarget tgt = Inr bound" "src_Get source (bt_Namespace bound) (bt_Access bound) = Inr access"
    "m_UID (acc_Meta access) = bt_AccessUID bound" "acc_Generation access = bt_Generation bound"
    "spec_Type (acc_Spec access) = AccessTypeExternal"
    "findEndpoint (spec_Endpoints (acc_Spec access)) (bt_Endpoint bound) = Some endpoint"
    "Connector_endpointConfig dns1123 ck parse source (acc_Namespace access) endpoint = Inr config"
    "un_NewClientConn net conn (ec_address config) (ep_Username endpoint) (ec_auth config) (checkHostKey ck (ec_hostKey config)) = Inr ssh"
    "effects = [Dialed (ec_address config) conn]"
  using assms unfolding Connect_def by (auto split: sum.splits option.splits if_splits)

lemma Connector_endpointConfigE:
  assumes "Connector_endpointConfig dns1123 ck parse source ns endpoint = Inr config"
  shows "ec_address config = JoinHostPort (ep_Address endpoint) (FormatInt (ep_Port endpoint))"
    and "hostKeyCallback ck source ns endpoint = Inr (ec_hostKey config)"
  using assms unfolding Connector_endpointConfig_def endpointAddress_def by (auto split: sum.splits if_splits)

text \<open>A failed connection leaves nothing open: what was dialled is closed.\<close>

lemma connect_failure_releases:
  assumes "Connect dns1123 ck parse source net tgt = (effects, Inl err)"
  shows "effects = [] \<or> (\<exists>address conn. effects = [Dialed address conn, ConnClosed conn]) \<or>
    (\<exists>address conn ssh. effects = [Dialed address conn, SshClosed ssh])"
  using assms unfolding Connect_def by (auto split: sum.splits option.splits if_splits)

text \<open>
  C12. The gateway proxies a connection only to the server its Access names and trusts.  When the connector
  succeeds on a target, and the SSH client completes a handshake only if the host key callback accepts the key of
  the server, then the Access of the target still exists with the UID and generation the target was resolved
  with and is External, the address that was dialled is the one of the endpoint the target names, and the key of the server
  is pinned by that endpoint or by a Secret of the namespace of the Access, unless the endpoint skips verification.
\<close>

theorem upstream_connection_trusted:
  assumes cache: "cache_ok c"
    and connected: "Connect dns1123 ck parse (policySource c) net tgt = (effects, Inr ssh)"
    and handshake: "\<And>conn address user auth callback ssh.
      un_NewClientConn net conn address user auth callback = Inr ssh \<Longrightarrow> callback (hostKey ssh) = None"
  shows "\<exists>bound access endpoint conn. parseTarget tgt = Inr bound \<and>
    PolicyCache_Get c (bt_Namespace bound) (bt_Access bound) = Inr access \<and>
    acc_Namespace access = bt_Namespace bound \<and> acc_Name access = bt_Access bound \<and>
    m_UID (acc_Meta access) = bt_AccessUID bound \<and> acc_Generation access = bt_Generation bound \<and>
    spec_Type (acc_Spec access) = AccessTypeExternal \<and>
    endpoint \<in> set (spec_Endpoints (acc_Spec access)) \<and> ep_Name endpoint = bt_Endpoint bound \<and>
    effects = [Dialed (JoinHostPort (ep_Address endpoint) (FormatInt (ep_Port endpoint))) conn] \<and>
    (ep_InsecureSkipVerification endpoint \<or> key_pinned ck (policySource c) (bt_Namespace bound) endpoint (hostKey ssh))"
proof -
  from connected obtain bound access endpoint config conn where
    c: "parseTarget tgt = Inr bound" "src_Get (policySource c) (bt_Namespace bound) (bt_Access bound) = Inr access"
      "m_UID (acc_Meta access) = bt_AccessUID bound" "acc_Generation access = bt_Generation bound"
      "spec_Type (acc_Spec access) = AccessTypeExternal"
      "findEndpoint (spec_Endpoints (acc_Spec access)) (bt_Endpoint bound) = Some endpoint"
      "Connector_endpointConfig dns1123 ck parse (policySource c) (acc_Namespace access) endpoint = Inr config"
      "un_NewClientConn net conn (ec_address config) (ep_Username endpoint) (ec_auth config) (checkHostKey ck (ec_hostKey config)) = Inr ssh"
      "effects = [Dialed (ec_address config) conn]"
    by (rule ConnectE)
  have get: "PolicyCache_Get c (bt_Namespace bound) (bt_Access bound) = Inr access" using c(2) by (simp add: policySource_def)
  have id: "acc_Namespace access = bt_Namespace bound \<and> acc_Name access = bt_Access bound"
    by (rule policy_cache.get_identity[OF cache get])
  have endpoint: "endpoint \<in> set (spec_Endpoints (acc_Spec access))" "ep_Name endpoint = bt_Endpoint bound"
    using c(6) unfolding findEndpoint_def by (auto dest: find_SomeD)
  have "key_pinned ck (policySource c) (acc_Namespace access) endpoint (hostKey ssh)" if "\<not> ep_InsecureSkipVerification endpoint"
    by (rule checkHostKey_pinned[OF Connector_endpointConfigE(2)[OF c(7)] handshake[OF c(8)] that])
  then show ?thesis using c get id endpoint Connector_endpointConfigE(1)[OF c(7)] by auto
qed

definition pinned_access :: Access where
  "pinned_access = zero_Access\<lparr>
     acc_Meta := zero_ObjectMeta\<lparr> m_Namespace := ''ns'', m_Name := ''acc'', m_UID := ''u1'', m_Generation := 7 \<rparr>,
     acc_Spec := zero_AccessSpec\<lparr> spec_Type := AccessTypeExternal,
       spec_Endpoints := [zero_AccessEndpoint\<lparr> ep_Name := ''main'', ep_Address := ''10.0.0.1'', ep_Port := 22,
         ep_Username := ''root'', ep_Passwords := [''pw''], ep_PublicKeys := [''key''] \<rparr>] \<rparr> \<rparr>"

definition pinned_cache :: PolicyCache where
  "pinned_cache = \<lparr> cache_accessIndexer = Some (list_indexer [ObjAccess pinned_access]), cache_secretIndexer = None,
     cache_namespace = [], cache_gatewayClassName = [] \<rparr>"

definition pinned_crypto :: CryptoSSH where
  "pinned_crypto = \<lparr> ck_ParseAuthorizedKey = Inr, ck_FingerprintSHA256 = (\<lambda>k. k), ck_MarshalAuthorizedKey = (\<lambda>k. k) \<rparr>"

text \<open>A server with the key \<open>key\<close>; a connection is the key it was made with.\<close>

definition pinned_net :: "(unit, string, string) upstreamNet" where
  "pinned_net = \<lparr> un_Dial = (\<lambda>_. Inr ()), un_SetDeadline = (\<lambda>_. None),
     un_NewClientConn = (\<lambda>_ _ _ _ callback. case callback ''key'' of None \<Rightarrow> Inr ''key'' | Some err \<Rightarrow> Inl err),
     un_ClearDeadline = (\<lambda>_. None) \<rparr>"

lemma pinned_cache_ok: "cache_ok pinned_cache"
  unfolding cache_ok_def pinned_cache_def
  by (simp add: list_indexer_ok object_id_def valid_id_def pinned_access_def zero_values)

lemma pinned_connects:
  "Connect (\<lambda>_. []) pinned_crypto Inr (policySource pinned_cache) pinned_net (Some (NewTarget pinned_access ''main'')) =
     ([Dialed ''10.0.0.1:22'' ()], Inr ''key'')"
  by code_simp

lemma upstream_connection_trusted_witness:
  "\<exists>access endpoint. PolicyCache_Get pinned_cache ''ns'' ''acc'' = Inr access \<and>
     endpoint \<in> set (spec_Endpoints (acc_Spec access)) \<and> ep_Name endpoint = ''main'' \<and>
     (ep_InsecureSkipVerification endpoint \<or> key_pinned pinned_crypto (policySource pinned_cache) ''ns'' endpoint ''key'')"
proof -
  let ?tgt = "Some (NewTarget pinned_access ''main'')"
  have bound: "parseTarget ?tgt =
      Inr \<lparr> bt_Namespace = ''ns'', bt_Access = ''acc'', bt_Endpoint = ''main'', bt_AccessUID = ''u1'', bt_Generation = 7 \<rparr>"
    by code_simp
  have "\<exists>bound access endpoint conn. parseTarget ?tgt = Inr bound \<and>
    PolicyCache_Get pinned_cache (bt_Namespace bound) (bt_Access bound) = Inr access \<and>
    acc_Namespace access = bt_Namespace bound \<and> acc_Name access = bt_Access bound \<and>
    m_UID (acc_Meta access) = bt_AccessUID bound \<and> acc_Generation access = bt_Generation bound \<and>
    spec_Type (acc_Spec access) = AccessTypeExternal \<and>
    endpoint \<in> set (spec_Endpoints (acc_Spec access)) \<and> ep_Name endpoint = bt_Endpoint bound \<and>
    [Dialed ''10.0.0.1:22'' ()] =
      [Dialed (JoinHostPort (ep_Address endpoint) (FormatInt (ep_Port endpoint))) conn :: (unit, string) connectEffect] \<and>
    (ep_InsecureSkipVerification endpoint \<or>
      key_pinned pinned_crypto (policySource pinned_cache) (bt_Namespace bound) endpoint (id ''key''))"
    by (rule upstream_connection_trusted[OF pinned_cache_ok pinned_connects])
      (auto simp: pinned_net_def split: option.splits)
  then show ?thesis using bound by auto
qed

end
