(* ===== verification/CriTransport.thy ===== *)
theory CriTransport
  imports PodBackend
begin

text \<open>
  The transport to the node agents (pkg/podssh/backend/cri): the gateway locates the node of the
  bound Pod and sends one HTTPS request per operation.  A query is a function from keys to their values in
  order, as \<^verbatim>\<open>url.Values\<close> is; requests carry it decoded.  The Kubernetes client, the SPDY upgrade
  and the streaming of client-go are parameters that answer the calls.
\<close>

section \<open>Requests to a node\<close>

type_synonym urlValues = "string \<Rightarrow> string list"

definition no_values :: urlValues where
  "no_values = (\<lambda>_. [])"

definition values_Add :: "string \<Rightarrow> string \<Rightarrow> urlValues \<Rightarrow> urlValues" where
  "values_Add key v q = q(key := q key @ [v])"

definition values_Set :: "string \<Rightarrow> string \<Rightarrow> urlValues \<Rightarrow> urlValues" where
  "values_Set key v q = q(key := [v])"

definition values_Get :: "urlValues \<Rightarrow> string \<Rightarrow> string" where
  "values_Get q key = (case q key of [] \<Rightarrow> [] | v # _ \<Rightarrow> v)"

definition FormatBool :: "bool \<Rightarrow> string" where
  "FormatBool b = (if b then ''true'' else ''false'')"

definition ParseBool :: "string \<Rightarrow> bool option" where
  "ParseBool s =
     (if s \<in> {''1'', ''t'', ''T'', ''TRUE'', ''true'', ''True''} then Some True
      else if s \<in> {''0'', ''f'', ''F'', ''FALSE'', ''false'', ''False''} then Some False
      else None)"

abbreviation QueryCommand :: string where "QueryCommand \<equiv> ''command''"
abbreviation QueryArgument :: string where "QueryArgument \<equiv> ''arg''"
abbreviation QueryStdin :: string where "QueryStdin \<equiv> ''stdin''"
abbreviation QueryStdout :: string where "QueryStdout \<equiv> ''stdout''"
abbreviation QueryStderr :: string where "QueryStderr \<equiv> ''stderr''"
abbreviation QueryTTY :: string where "QueryTTY \<equiv> ''tty''"
abbreviation QueryPort :: string where "QueryPort \<equiv> ''port''"
abbreviation APIVersion :: string where "APIVersion \<equiv> ''v1''"

text \<open>A request as the node sees it; its certificate is added by the TLS layer.\<close>

record nodeURL =
  nu_Scheme :: string
  nu_Host :: string
  nu_Path :: string
  nu_Query :: urlValues

section \<open>Options and location (transport.go)\<close>

record criOptions =
  co_Port :: int
  co_ServerName :: string
  co_CAFile :: string
  co_CertFile :: string
  co_KeyFile :: string

abbreviation DefaultStreamPort :: int where "DefaultStreamPort \<equiv> 10443"

definition cri_New :: "criOptions \<Rightarrow> criOptions result" where
  "cri_New opts =
     (let options = (if co_Port opts = 0 then opts\<lparr> co_Port := DefaultStreamPort \<rparr> else opts)
      in if co_Port options < 1 \<or> co_Port options > 65535
         then Inl (Errorf ''node port %d is invalid'' [FormatInt (co_Port options)])
         else if co_ServerName options = [] \<or> co_CAFile options = [] \<or> co_CertFile options = [] \<or> co_KeyFile options = []
         then Inl (Errorf ''node server name, CA, client certificate, and client key are required'' [])
         else Inr options)"

record podLocation =
  pl_Namespace :: string
  pl_Pod :: string
  pl_UID :: string
  pl_Container :: string
  pl_HostIP :: string
  pl_NodeName :: string

definition locate :: "(string \<Rightarrow> string \<Rightarrow> Pod result) \<Rightarrow> Target \<Rightarrow> podLocation result" where
  "locate getPod tgt =
     (case Parse (Some tgt) of
        Inl err \<Rightarrow> Inl err
      | Inr podTarget \<Rightarrow>
          (case getPod (r_Namespace podTarget) (r_Pod podTarget) of
             Inl err \<Rightarrow> Inl (Wrap ''resolve target Pod for CRI transport: %w'' [] err)
           | Inr pod \<Rightarrow>
               let name = [pod_Namespace pod, pod_Name pod];
                   binding = BoundIdentity tgt
               in if pod_UID pod = [] \<or> pod_NodeName pod = [] \<or> pod_HostIP pod = []
                  then Inl (ServiceUnavailable ''pod %s/%s is not assigned to a reachable node'' name)
                  else if pod_Phase pod \<noteq> ''Running'' \<or> m_DeletionTimestamp (pod_Meta pod) \<noteq> None
                  then Inl (ServiceUnavailable ''pod %s/%s is not running'' name)
                  else if b_UID binding = [] \<or> b_NodeName binding = [] \<or> b_HostIP binding = []
                  then Inl (BadRequest ''pod %s/%s target is not bound to a node instance'' name)
                  else if b_UID binding \<noteq> pod_UID pod
                  then Inl (Conflict ''pod %s/%s was replaced after target resolution'' name)
                  else if b_NodeName binding \<noteq> pod_NodeName pod \<or> b_HostIP binding \<noteq> pod_HostIP pod
                  then Inl (Conflict ''pod %s/%s moved after target resolution'' name)
                  else Inr \<lparr> pl_Namespace = pod_Namespace pod, pl_Pod = pod_Name pod, pl_UID = pod_UID pod,
                             pl_Container = r_Container podTarget, pl_HostIP = pod_HostIP pod, pl_NodeName = pod_NodeName pod \<rparr>))"

definition cri_endpoint :: "criOptions \<Rightarrow> podLocation \<Rightarrow> string \<Rightarrow> string list \<Rightarrow> nodeURL" where
  "cri_endpoint opts location operation segments =
     \<lparr> nu_Scheme = ''https'', nu_Host = JoinHostPort (pl_HostIP location) (FormatInt (co_Port opts)),
       nu_Path = Join ([[], APIVersion, operation, pl_Namespace location, pl_Pod location, pl_UID location] @ segments) (CHR ''/''),
       nu_Query = no_values \<rparr>"

text \<open>The client configuration: every request uses the certificate and the server name of the options.\<close>

record nodeTLS =
  nt_Host :: string
  nt_CAFile :: string
  nt_CertFile :: string
  nt_KeyFile :: string
  nt_ServerName :: string

definition cri_restConfig :: "criOptions \<Rightarrow> nodeURL \<Rightarrow> nodeTLS" where
  "cri_restConfig opts u =
     \<lparr> nt_Host = nu_Scheme u @ ''://'' @ nu_Host u, nt_CAFile = co_CAFile opts, nt_CertFile = co_CertFile opts,
       nt_KeyFile = co_KeyFile opts, nt_ServerName = co_ServerName opts \<rparr>"

section \<open>Exec and helper commands\<close>

datatype streamOutcome = StreamDone | StreamExit int | StreamFailed go_error

text \<open>
  The network side of client-go: making an executor for a configuration and a URL may fail, and
  so may streaming.
\<close>

record nodeNet =
  nn_NewExecutor :: "nodeTLS \<Rightarrow> nodeURL \<Rightarrow> go_error option"
  nn_Stream :: "nodeTLS \<Rightarrow> nodeURL \<Rightarrow> streamOutcome"

abbreviation stream_given :: "streamEnd \<Rightarrow> bool" where
  "stream_given s \<equiv> s \<noteq> NoStream"

definition stream_result :: "string \<Rightarrow> streamOutcome \<Rightarrow> int \<times> go_error option" where
  "stream_result message outcome =
     (case outcome of
        StreamDone \<Rightarrow> (0, None)
      | StreamExit code \<Rightarrow> (code, None)
      | StreamFailed err \<Rightarrow> (1, Some (Wrap message [] err)))"

definition exec_query :: "ExecRequest \<Rightarrow> urlValues" where
  "exec_query req =
     values_Set QueryTTY (FormatBool (er_TTY req))
      (values_Set QueryStderr (FormatBool (\<not> er_TTY req \<and> stream_given (er_Stderr req)))
        (values_Set QueryStdout (FormatBool (stream_given (er_Stdout req)))
          (values_Set QueryStdin (FormatBool (stream_given (er_Stdin req)))
            (fold (values_Add QueryCommand) (er_Command req) no_values))))"

text \<open>The requests that were sent, and the result.\<close>

definition cri_Exec ::
  "criOptions \<Rightarrow> (string \<Rightarrow> string \<Rightarrow> Pod result) \<Rightarrow> nodeNet \<Rightarrow> ExecRequest \<Rightarrow> nodeURL list \<times> int \<times> go_error option" where
  "cri_Exec opts getPod net req =
     (case locate getPod (er_Target req) of
        Inl err \<Rightarrow> ([], 1, Some err)
      | Inr location \<Rightarrow>
          let u = (cri_endpoint opts location ''exec'' [pl_Container location])\<lparr> nu_Query := exec_query req \<rparr>;
              config = cri_restConfig opts u
          in case nn_NewExecutor net config u of
               Some err \<Rightarrow> ([], 1, Some (Wrap ''create node executor: %w'' [] err))
             | None \<Rightarrow> ([u], stream_result ''node exec stream: %w'' (nn_Stream net config u)))"

definition helper_query :: "HelperExecRequest \<Rightarrow> urlValues" where
  "helper_query req =
     values_Set QueryStderr (FormatBool (stream_given (sr_Stderr (he_Stream req))))
      (values_Set QueryStdout (FormatBool (stream_given (sr_Stdout (he_Stream req))))
        (values_Set QueryStdin (FormatBool (stream_given (sr_Stdin (he_Stream req))))
          (fold (values_Add QueryArgument) (he_Command req) no_values)))"

definition cri_ExecHelper ::
  "criOptions \<Rightarrow> (string \<Rightarrow> string \<Rightarrow> Pod result) \<Rightarrow> nodeNet \<Rightarrow> HelperExecRequest \<Rightarrow> nodeURL list \<times> int \<times> go_error option" where
  "cri_ExecHelper opts getPod net req =
     (case locate getPod (sr_Target (he_Stream req)) of
        Inl err \<Rightarrow> ([], 1, Some err)
      | Inr location \<Rightarrow>
          let u = (cri_endpoint opts location ''helper'' [pl_Container location, he_Capability req])\<lparr> nu_Query := helper_query req \<rparr>;
              config = cri_restConfig opts u
          in case nn_NewExecutor net config u of
               Some err \<Rightarrow> ([], 1, Some (Wrap ''create node helper executor: %w'' [] err))
             | None \<Rightarrow> ([u], stream_result ''node helper stream: %w'' (nn_Stream net config u)))"

section \<open>Port forwarding\<close>

text \<open>
  One SPDY connection with an error stream and a data stream; the API server transport opens it
  the same way.  \<^verbatim>\<open>label\<close> is the name the messages use.
\<close>

abbreviation PortForwardProtocolV1Name :: string where "PortForwardProtocolV1Name \<equiv> ''portforward.k8s.io''"

record spdyDial =
  sd_RoundTripper :: "go_error option"
  sd_Request :: "go_error option"
  sd_Negotiate :: "string result"
  sd_ErrorStream :: "go_error option"
  sd_DataStream :: "go_error option"

datatype spdyEffect = SpdyNegotiated | SpdyStream string string | SpdyClosed

text \<open>What the reader of the error stream reports once the stream ends.\<close>

definition error_stream_result :: "string \<Rightarrow> string result \<Rightarrow> go_error option" where
  "error_stream_result label read =
     (case read of
        Inl err \<Rightarrow> Some (Wrap ''read %s port-forward error: %w'' [label] err)
      | Inr message \<Rightarrow>
          if length message \<noteq> 0 then Some (Errorf ''%s port-forward: %s'' [label, TrimSpace message]) else None)"

record portForwardStream =
  ps_wait :: bool
  ps_err :: "go_error option"
  ps_reset :: bool
  ps_closed :: bool

definition open_portForward ::
  "string \<Rightarrow> spdyDial \<Rightarrow> 32 word \<Rightarrow> spdyEffect list \<times> portForwardStream result" where
  "open_portForward label dial port =
     (let failed = (\<lambda>m err. Inl (Wrap m [label] err)) in
      case sd_RoundTripper dial of
        Some err \<Rightarrow> ([], failed ''create %s port-forward transport: %w'' err)
      | None \<Rightarrow>
     (case sd_Request dial of
        Some err \<Rightarrow> ([], failed ''create %s port-forward request: %w'' err)
      | None \<Rightarrow>
     (case sd_Negotiate dial of
        Inl err \<Rightarrow> ([], failed ''dial %s port-forward: %w'' err)
      | Inr protocol \<Rightarrow>
          if protocol \<noteq> PortForwardProtocolV1Name
          then ([SpdyNegotiated, SpdyClosed], Inl (Errorf ''dial %s port-forward: unexpected protocol %q'' [label, protocol]))
          else
     (case sd_ErrorStream dial of
        Some err \<Rightarrow> ([SpdyNegotiated, SpdyClosed], failed ''create %s port-forward error stream: %w'' err)
      | None \<Rightarrow>
     (case sd_DataStream dial of
        Some err \<Rightarrow> ([SpdyNegotiated, SpdyStream ''error'' (FormatUint port), SpdyClosed],
                    failed ''create %s port-forward data stream: %w'' err)
      | None \<Rightarrow>
          ([SpdyNegotiated, SpdyStream ''error'' (FormatUint port), SpdyStream ''data'' (FormatUint port)],
           Inr \<lparr> ps_wait = False, ps_err = None, ps_reset = False, ps_closed = False \<rparr>))))))"

text \<open>\<^verbatim>\<open>Wait\<close> resets the data stream and takes the result once.\<close>

definition portForward_Wait :: "go_error option \<Rightarrow> portForwardStream \<Rightarrow> portForwardStream \<times> go_error option" where
  "portForward_Wait result s =
     (if ps_wait s then (s, ps_err s)
      else (s\<lparr> ps_wait := True, ps_reset := True, ps_err := result \<rparr>, result))"

definition cri_PortForward ::
  "criOptions \<Rightarrow> (string \<Rightarrow> string \<Rightarrow> Pod result) \<Rightarrow> (nodeTLS \<Rightarrow> nodeURL \<Rightarrow> spdyDial) \<Rightarrow> PodPortForwardRequest \<Rightarrow>
    (nodeURL \<times> spdyEffect list) list \<times> portForwardStream result" where
  "cri_PortForward opts getPod dial req =
     (case locate getPod (ppf_Target req) of
        Inl err \<Rightarrow> ([], Inl err)
      | Inr location \<Rightarrow>
          let u = (cri_endpoint opts location ''portforward'' [])\<lparr> nu_Query := values_Set QueryPort (FormatUint (ppf_Port req)) no_values \<rparr>
          in case open_portForward ''node'' (dial (cri_restConfig opts u) u) (ppf_Port req) of
               (effects, r) \<Rightarrow> ([(u, effects)], r))"

section \<open>Lemmas\<close>

lemma ParseBool_FormatBool [simp]: "ParseBool (FormatBool b) = Some b"
  by (simp add: ParseBool_def FormatBool_def)

lemma fold_values_Add: "fold (values_Add key) vs q = q(key := q key @ vs)"
  by (induction vs arbitrary: q) (simp_all add: values_Add_def)

text \<open>The query carries the command and the stream flags of the request.\<close>

lemma exec_query_values:
  "exec_query req QueryCommand = er_Command req"
  "ParseBool (values_Get (exec_query req) QueryStdin) = Some (stream_given (er_Stdin req))"
  "ParseBool (values_Get (exec_query req) QueryStdout) = Some (stream_given (er_Stdout req))"
  "ParseBool (values_Get (exec_query req) QueryStderr) = Some (\<not> er_TTY req \<and> stream_given (er_Stderr req))"
  "ParseBool (values_Get (exec_query req) QueryTTY) = Some (er_TTY req)"
  by (simp_all add: exec_query_def values_Set_def values_Get_def fold_values_Add no_values_def)

lemma helper_query_values:
  "helper_query req QueryArgument = he_Command req"
  "ParseBool (values_Get (helper_query req) QueryStdin) = Some (stream_given (sr_Stdin (he_Stream req)))"
  "ParseBool (values_Get (helper_query req) QueryStdout) = Some (stream_given (sr_Stdout (he_Stream req)))"
  "ParseBool (values_Get (helper_query req) QueryStderr) = Some (stream_given (sr_Stderr (he_Stream req)))"
  by (simp_all add: helper_query_def values_Set_def values_Get_def fold_values_Add no_values_def)

text \<open>A location is the Pod instance the target is bound to.\<close>

lemma locate_bound:
  assumes "locate getPod tgt = Inr l"
  shows "\<exists>pod ref. Parse (Some tgt) = Inr ref \<and> getPod (r_Namespace ref) (r_Pod ref) = Inr pod \<and>
    pl_Namespace l = pod_Namespace pod \<and> pl_Pod l = pod_Name pod \<and> pl_Container l = r_Container ref \<and>
    pl_UID l = pod_UID pod \<and> pl_UID l = b_UID (BoundIdentity tgt) \<and> pl_UID l \<noteq> [] \<and>
    pl_HostIP l = b_HostIP (BoundIdentity tgt) \<and> pl_NodeName l = b_NodeName (BoundIdentity tgt) \<and> pl_HostIP l \<noteq> [] \<and>
    pod_Phase pod = ''Running'' \<and> m_DeletionTimestamp (pod_Meta pod) = None"
  using assms unfolding locate_def Let_def by (auto split: sum.splits if_splits)

text \<open>A port forward that fails after the connection was negotiated closes it.\<close>

lemma open_portForward_failure_closes:
  assumes "open_portForward label dial port = (effects, Inl err)"
  shows "effects = [] \<or> (hd effects = SpdyNegotiated \<and> last effects = SpdyClosed)"
  using assms unfolding open_portForward_def Let_def by (auto split: option.splits sum.splits if_splits)

lemma portForward_Wait_once:
  "portForward_Wait r s = (s', e) \<Longrightarrow> portForward_Wait r' s' = (s', e)"
  by (auto simp: portForward_Wait_def split: if_splits)

end
