(* ===== verification/CriNode.thy ===== *)
theory CriNode
  imports CriTransport Machines
begin

text \<open>
  The node agent (pkg/podssh/backend/cri/node): it admits only the gateway's certificate, resolves the
  Pod identity of a request to a sandbox and a container of the local runtime, prepares the helper
  binary, and proxies the stream the runtime offers.  The container runtime (CRI), TLS and the
  parser of URLs are parameters.
\<close>

section \<open>Options (server.go)\<close>

record nodeOptions =
  no_ListenAddress :: string
  no_ManagementAddress :: string
  no_RuntimeEndpoints :: "string list"
  no_HelperPath :: string
  no_HelperRemoteDir :: string
  no_TLSCAFile :: string
  no_TLSCertFile :: string
  no_TLSKeyFile :: string
  no_ExpectedClientName :: string
  no_ShutdownTimeout :: int
  no_RuntimeTimeout :: int

abbreviation DefaultMetricsPort :: int where "DefaultMetricsPort \<equiv> 18080"
abbreviation DefaultClientName :: string where "DefaultClientName \<equiv> ''kube-ssh-gateway''"
abbreviation nanoseconds :: "int \<Rightarrow> int" where "nanoseconds s \<equiv> s * 1000000000"

definition defaultRuntimeEndpoints :: "string list" where
  "defaultRuntimeEndpoints =
     [''unix:///run/containerd/containerd.sock'', ''unix:///run/crio/crio.sock'',
      ''unix:///run/k3s/containerd/containerd.sock'', ''unix:///run/k0s/containerd.sock'', ''unix:///run/cri-dockerd.sock'']"

definition node_defaultOptions :: "nodeOptions \<Rightarrow> nodeOptions" where
  "node_defaultOptions o1 =
     (let o2 = (if no_ListenAddress o1 = [] then o1\<lparr> no_ListenAddress := '':'' @ FormatInt DefaultStreamPort \<rparr> else o1);
          o3 = (if no_ManagementAddress o2 = [] then o2\<lparr> no_ManagementAddress := '':'' @ FormatInt DefaultMetricsPort \<rparr> else o2);
          o4 = (if length (no_RuntimeEndpoints o3) = 0 then o3\<lparr> no_RuntimeEndpoints := defaultRuntimeEndpoints \<rparr> else o3);
          o5 = (if no_ExpectedClientName o4 = [] then o4\<lparr> no_ExpectedClientName := DefaultClientName \<rparr> else o4);
          o6 = (if no_ShutdownTimeout o5 \<le> 0 then o5\<lparr> no_ShutdownTimeout := nanoseconds 30 \<rparr> else o5)
      in if no_RuntimeTimeout o6 \<le> 0 then o6\<lparr> no_RuntimeTimeout := nanoseconds 10 \<rparr> else o6)"

text \<open>\<^verbatim>\<open>stat\<close> answers whether a path is a regular file.\<close>

definition node_validateOptions :: "(string \<Rightarrow> bool result) \<Rightarrow> nodeOptions \<Rightarrow> go_error option" where
  "node_validateOptions stat opts =
     (case find (\<lambda>e. \<not> HasPrefix e ''unix://'') (no_RuntimeEndpoints opts) of
        Some endpoint \<Rightarrow> Some (Errorf ''CRI runtime endpoint %q must use unix://'' [endpoint])
      | None \<Rightarrow>
          (case stat (no_HelperPath opts) of
             Inl err \<Rightarrow> Some (Wrap ''stat helper binary: %w'' [] err)
           | Inr regular \<Rightarrow>
               if \<not> regular then Some (Errorf ''helper path %q is not a regular file'' [no_HelperPath opts]) else None))"

section \<open>The runtime (runtime.go)\<close>

record sandboxMetadata =
  sm_Uid :: string
  sm_Namespace :: string
  sm_Name :: string

record podSandbox =
  sb_Id :: string
  sb_Ready :: bool
  sb_Metadata :: "sandboxMetadata option"

record criContainer =
  ct_Id :: string
  ct_Running :: bool
  ct_Name :: "string option"

record criExec =
  ce_ContainerId :: string
  ce_Cmd :: "string list"
  ce_Stdin :: bool
  ce_Stdout :: bool
  ce_Stderr :: bool
  ce_Tty :: bool

record execSyncResult =
  es_ExitCode :: int
  es_Stdout :: string
  es_Stderr :: string

text \<open>A runtime answers the calls; a status has its conditions, with \<^verbatim>\<open>RuntimeReady\<close> among them or not.\<close>

record runtimeClient =
  rc_Version :: "go_error option"
  rc_Status :: "(string \<times> bool) list option result"
  rc_ListPodSandbox :: "podSandbox list result"
  rc_ListContainers :: "string \<Rightarrow> criContainer list result"
  rc_Exec :: "criExec \<Rightarrow> string result"
  rc_ExecSync :: "string \<Rightarrow> string list \<Rightarrow> execSyncResult result"
  rc_PortForward :: "string \<Rightarrow> int \<Rightarrow> string result"

record podIdentity =
  pi_Namespace :: string
  pi_Name :: string
  pi_UID :: string
  pi_Container :: string

record resolvedTarget =
  rt_SandboxID :: string
  rt_ContainerID :: string

definition sandbox_matches :: "podIdentity \<Rightarrow> podSandbox \<Rightarrow> bool" where
  "sandbox_matches identity sandbox =
     (case sb_Metadata sandbox of
        None \<Rightarrow> False
      | Some m \<Rightarrow> sb_Ready sandbox \<and> sm_Uid m = pi_UID identity \<and> sm_Namespace m = pi_Namespace identity \<and>
                  sm_Name m = pi_Name identity)"

fun find_container :: "podIdentity \<Rightarrow> string \<Rightarrow> criContainer list \<Rightarrow> string result" where
  "find_container identity found [] =
     (if found = []
      then Inl (Errorf ''running container %q was not found in pod uid %s'' [pi_Container identity, pi_UID identity])
      else Inr found)"
| "find_container identity found (c # cs) =
     (if ct_Running c \<and> ct_Name c = Some (pi_Container identity)
      then if found \<noteq> []
           then Inl (Errorf ''multiple running containers named %q matched pod uid %s'' [pi_Container identity, pi_UID identity])
           else find_container identity (ct_Id c) cs
      else find_container identity found cs)"

definition resolveRuntimeTarget :: "runtimeClient \<Rightarrow> podIdentity \<Rightarrow> bool \<Rightarrow> resolvedTarget result" where
  "resolveRuntimeTarget runtime identity needContainer =
     (let name = [pi_Namespace identity, pi_Name identity, pi_UID identity] in
      case rc_ListPodSandbox runtime of
        Inl err \<Rightarrow> Inl (Wrap ''list CRI pod sandboxes: %w'' [] err)
      | Inr sandboxes \<Rightarrow>
          (case filter (sandbox_matches identity) sandboxes of
             [] \<Rightarrow> Inl (Errorf ''ready pod sandbox %s/%s uid %s was not found on this node'' name)
           | [sandbox] \<Rightarrow>
               if \<not> needContainer then Inr \<lparr> rt_SandboxID = sb_Id sandbox, rt_ContainerID = [] \<rparr>
               else (case rc_ListContainers runtime (sb_Id sandbox) of
                       Inl err \<Rightarrow> Inl (Wrap ''list CRI containers: %w'' [] err)
                     | Inr containers \<Rightarrow>
                         bind_result (find_container identity [] containers)
                           (\<lambda>c. Inr \<lparr> rt_SandboxID = sb_Id sandbox, rt_ContainerID = c \<rparr>))
           | _ \<Rightarrow> Inl (Errorf ''multiple ready pod sandboxes matched %s/%s uid %s'' name)))"

text \<open>\<^verbatim>\<open>urlParse\<close> gives the scheme and the host of a URL.\<close>

definition parseStreamingURL :: "(string \<Rightarrow> (string \<times> string) result) \<Rightarrow> string \<Rightarrow> (string \<times> string) result" where
  "parseStreamingURL urlParse raw =
     (case urlParse raw of
        Inl err \<Rightarrow> Inl (Wrap ''parse CRI streaming URL: %w'' [] err)
      | Inr (scheme, host) \<Rightarrow>
          if scheme \<noteq> ''http'' \<and> scheme \<noteq> ''https''
          then Inl (Errorf ''CRI streaming URL uses unsupported scheme %q'' [scheme])
          else if host = [] then Inl (Errorf ''CRI streaming URL has no host'' [])
          else Inr (scheme, host))"

fun runtime_ready :: "(string \<times> bool) list \<Rightarrow> bool" where
  "runtime_ready [] = False"
| "runtime_ready ((t, s) # cs) = ((t = ''RuntimeReady'' \<and> s) \<or> runtime_ready cs)"

definition checkRuntime :: "runtimeClient \<Rightarrow> go_error option" where
  "checkRuntime runtime =
     (case rc_Version runtime of
        Some err \<Rightarrow> Some (Wrap ''CRI v1 version check: %w'' [] err)
      | None \<Rightarrow>
          (case rc_Status runtime of
             Inl err \<Rightarrow> Some (Wrap ''CRI status: %w'' [] err)
           | Inr None \<Rightarrow> Some (Errorf ''CRI runtime returned no status'' [])
           | Inr (Some conditions) \<Rightarrow>
               if runtime_ready conditions then None else Some (Errorf ''CRI runtime is not ready'' [])))"

text \<open>
  Selection of a runtime: \<^verbatim>\<open>socket\<close> answers whether a path is a Unix socket, \<^verbatim>\<open>connect\<close> connects an
  endpoint, \<^verbatim>\<open>canceled\<close> whether the context was cancelled by the time its check failed.  The
  connections that were made and closed again are listed; a failure is the list of the errors that the code joins.
\<close>

definition TrimPrefix :: "string \<Rightarrow> string \<Rightarrow> string" where
  "TrimPrefix s p = (if HasPrefix s p then drop (length p) s else s)"

fun selectRuntime ::
  "(string \<Rightarrow> bool result) \<Rightarrow> (string \<Rightarrow> runtimeClient result) \<Rightarrow> (string \<Rightarrow> bool) \<Rightarrow> string list \<Rightarrow> go_error list \<Rightarrow> string list \<Rightarrow>
    string list \<times> (go_error list + runtimeClient \<times> string)" where
  "selectRuntime socket connect canceled [] failures closed = (closed, Inl failures)"
| "selectRuntime socket connect canceled (endpoint # endpoints) failures closed =
     (case socket (TrimPrefix endpoint ''unix://'') of
        Inl err \<Rightarrow> selectRuntime socket connect canceled endpoints (failures @ [Wrap ''%s: stat socket: %w'' [endpoint] err]) closed
      | Inr False \<Rightarrow>
          selectRuntime socket connect canceled endpoints
            (failures @ [Errorf ''%s: %s is not a Unix socket'' [endpoint, TrimPrefix endpoint ''unix://'']]) closed
      | Inr True \<Rightarrow>
          (case connect endpoint of
             Inl err \<Rightarrow> selectRuntime socket connect canceled endpoints (failures @ [Wrap ''%s: %w'' [endpoint] err]) closed
           | Inr runtime \<Rightarrow>
               (case checkRuntime runtime of
                  Some err \<Rightarrow>
                    if canceled endpoint
                    then (closed @ [endpoint], Inl (failures @ [Wrap ''%s: %w'' [endpoint] err]))
                    else selectRuntime socket connect canceled endpoints (failures @ [Wrap ''%s: %w'' [endpoint] err]) (closed @ [endpoint])
                | None \<Rightarrow> (closed, Inr (runtime, endpoint)))))"

section \<open>Admission and routing\<close>

text \<open>
  A request: its method, path and query, and the common names of the certificates the TLS layer
  verified.
\<close>

record nodeRequest =
  nr_Method :: string
  nr_Path :: string
  nr_Query :: urlValues
  nr_TLS :: "string list option"

definition authorizedPeer :: "nodeRequest \<Rightarrow> string \<Rightarrow> bool" where
  "authorizedPeer r expected =
     (case nr_TLS r of
        None \<Rightarrow> False
      | Some [] \<Rightarrow> False
      | Some (commonName # _) \<Rightarrow> commonName = expected)"

datatype nodeRoute =
    RouteExec podIdentity
  | RouteHelper podIdentity string
  | RoutePortForward podIdentity
  | RouteNone

text \<open>
  The patterns of the stream handler.  A wildcard takes one segment; a path that is not clean, with
  an empty segment or one that names a directory relative to itself, is redirected and reaches no
  handler.
\<close>

definition clean_segment :: "string \<Rightarrow> bool" where
  "clean_segment seg = (seg \<notin> {[], ''.'', ''..''})"

definition streamRoute :: "nodeRequest \<Rightarrow> nodeRoute" where
  "streamRoute r =
     (if nr_Method r \<noteq> ''POST'' then RouteNone
      else case Split (nr_Path r) (CHR ''/'') of
             [root, version, operation, namespace, pod, uid] \<Rightarrow>
               if root = [] \<and> version = APIVersion \<and> operation = ''portforward'' \<and> list_all clean_segment [namespace, pod, uid]
               then RoutePortForward \<lparr> pi_Namespace = namespace, pi_Name = pod, pi_UID = uid, pi_Container = [] \<rparr>
               else RouteNone
           | [root, version, operation, namespace, pod, uid, container] \<Rightarrow>
               if root = [] \<and> version = APIVersion \<and> operation = ''exec'' \<and> list_all clean_segment [namespace, pod, uid, container]
               then RouteExec \<lparr> pi_Namespace = namespace, pi_Name = pod, pi_UID = uid, pi_Container = container \<rparr>
               else RouteNone
           | [root, version, operation, namespace, pod, uid, container, capability] \<Rightarrow>
               if root = [] \<and> version = APIVersion \<and> operation = ''helper'' \<and> list_all clean_segment [namespace, pod, uid, container, capability]
               then RouteHelper \<lparr> pi_Namespace = namespace, pi_Name = pod, pi_UID = uid, pi_Container = container \<rparr> capability
               else RouteNone
           | _ \<Rightarrow> RouteNone)"

definition validateIdentity :: "podIdentity \<Rightarrow> bool \<Rightarrow> go_error option" where
  "validateIdentity identity needContainer =
     (if pi_Namespace identity = [] \<or> pi_Name identity = [] \<or> pi_UID identity = []
      then Some (Errorf ''namespace, pod, and uid are required'' [])
      else if needContainer \<and> pi_Container identity = [] then Some (Errorf ''container is required'' [])
      else None)"

definition queryBool :: "urlValues \<Rightarrow> string \<Rightarrow> bool" where
  "queryBool q key = (case ParseBool (values_Get q key) of None \<Rightarrow> False | Some b \<Rightarrow> b)"

section \<open>The handlers\<close>

datatype nodeReply =
    HttpError nat go_error
  | ProxiedStream string string bool

datatype nodeCall = NodeExec criExec | NodePortForward string int

text \<open>
  Proxying a stream: an https URL of the runtime is used without verifying its certificate, which the runtime does
  not publish.
\<close>

definition proxyStream :: "(string \<Rightarrow> (string \<times> string) result) \<Rightarrow> string \<Rightarrow> nodeReply" where
  "proxyStream urlParse rawURL =
     (case parseStreamingURL urlParse rawURL of
        Inl err \<Rightarrow> HttpError 502 err
      | Inr (scheme, host) \<Rightarrow> ProxiedStream scheme host (scheme = ''https''))"

definition handleExec ::
  "(string \<Rightarrow> (string \<times> string) result) \<Rightarrow> runtimeClient \<Rightarrow> podIdentity \<Rightarrow> urlValues \<Rightarrow> nodeCall list \<times> nodeReply" where
  "handleExec urlParse runtime identity query =
     (case validateIdentity identity True of
        Some err \<Rightarrow> ([], HttpError 400 err)
      | None \<Rightarrow>
          (case resolveRuntimeTarget runtime identity True of
             Inl err \<Rightarrow> ([], HttpError 404 err)
           | Inr target \<Rightarrow>
               let call = \<lparr> ce_ContainerId = rt_ContainerID target, ce_Cmd = query QueryCommand,
                            ce_Stdin = queryBool query QueryStdin, ce_Stdout = queryBool query QueryStdout,
                            ce_Stderr = queryBool query QueryStderr, ce_Tty = queryBool query QueryTTY \<rparr>
               in case rc_Exec runtime call of
                    Inl err \<Rightarrow> ([NodeExec call], HttpError 503 (Wrap ''prepare CRI exec: '' [] err))
                  | Inr url \<Rightarrow> ([NodeExec call], proxyStream urlParse url)))"

text \<open>\<^verbatim>\<open>prepared\<close> is the answer of the helper manager for the container and the capability.\<close>

definition handleHelper ::
  "(string \<Rightarrow> (string \<times> string) result) \<Rightarrow> runtimeClient \<Rightarrow> (string \<Rightarrow> string \<Rightarrow> string result) \<Rightarrow> podIdentity \<Rightarrow> string \<Rightarrow> urlValues \<Rightarrow>
    nodeCall list \<times> nodeReply" where
  "handleHelper urlParse runtime prepared identity capability query =
     (case validateIdentity identity True of
        Some err \<Rightarrow> ([], HttpError 400 err)
      | None \<Rightarrow>
          (case resolveRuntimeTarget runtime identity True of
             Inl err \<Rightarrow> ([], HttpError 404 err)
           | Inr target \<Rightarrow>
               (case prepared (rt_ContainerID target) capability of
                  Inl err \<Rightarrow> ([], HttpError 503 err)
                | Inr helperPath \<Rightarrow>
                    let call = \<lparr> ce_ContainerId = rt_ContainerID target, ce_Cmd = helperPath # query QueryArgument,
                                 ce_Stdin = queryBool query QueryStdin, ce_Stdout = queryBool query QueryStdout,
                                 ce_Stderr = queryBool query QueryStderr, ce_Tty = False \<rparr>
                    in case rc_Exec runtime call of
                         Inl err \<Rightarrow> ([NodeExec call], HttpError 503 (Wrap ''prepare helper exec: '' [] err))
                       | Inr url \<Rightarrow> ([NodeExec call], proxyStream urlParse url))))"

text \<open>\<^verbatim>\<open>strconv.ParseInt\<close> at 32 bits.\<close>

definition ParseInt32 :: "string \<Rightarrow> int option" where
  "ParseInt32 s = (case ParseInt s of Some i \<Rightarrow> if - (2 ^ 31) \<le> i \<and> i < 2 ^ 31 then Some i else None | None \<Rightarrow> None)"

definition handlePortForward ::
  "(string \<Rightarrow> (string \<times> string) result) \<Rightarrow> runtimeClient \<Rightarrow> podIdentity \<Rightarrow> urlValues \<Rightarrow> nodeCall list \<times> nodeReply" where
  "handlePortForward urlParse runtime identity query =
     (case validateIdentity identity False of
        Some err \<Rightarrow> ([], HttpError 400 err)
      | None \<Rightarrow>
          (case resolveRuntimeTarget runtime identity False of
             Inl err \<Rightarrow> ([], HttpError 404 err)
           | Inr target \<Rightarrow>
               (case ParseInt32 (values_Get query QueryPort) of
                  None \<Rightarrow> ([], HttpError 400 (Errorf ''invalid port'' []))
                | Some port \<Rightarrow>
                    if port < 1 \<or> port > 65535 then ([], HttpError 400 (Errorf ''invalid port'' []))
                    else case rc_PortForward runtime (rt_SandboxID target) port of
                           Inl err \<Rightarrow> ([NodePortForward (rt_SandboxID target) port],
                                       HttpError 503 (Wrap ''prepare CRI port-forward: '' [] err))
                         | Inr url \<Rightarrow> ([NodePortForward (rt_SandboxID target) port], proxyStream urlParse url))))"

definition handleReady :: "runtimeClient \<Rightarrow> nat \<times> go_error option" where
  "handleReady runtime = (case checkRuntime runtime of Some err \<Rightarrow> (503, Some err) | None \<Rightarrow> (200, None))"

section \<open>Draining\<close>

text \<open>
  The streams of a server.  \<^verbatim>\<open>ns_drained\<close> counts how often the channel that \<^verbatim>\<open>startStreamDrain\<close> returned has been closed:
  closing it twice would panic.
\<close>

record nodeStreams =
  ns_active :: int
  ns_draining :: bool
  ns_channel :: bool
  ns_drained :: nat

definition newNodeStreams :: nodeStreams where
  "newNodeStreams = \<lparr> ns_active = 0, ns_draining = False, ns_channel = False, ns_drained = 0 \<rparr>"

definition beginStream :: "nodeStreams \<Rightarrow> nodeStreams \<times> bool" where
  "beginStream s = (if ns_draining s then (s, False) else (s\<lparr> ns_active := ns_active s + 1 \<rparr>, True))"

definition endStream :: "nodeStreams \<Rightarrow> nodeStreams" where
  "endStream s =
     (let s1 = s\<lparr> ns_active := ns_active s - 1 \<rparr>
      in if ns_draining s1 \<and> ns_active s1 = 0 \<and> ns_channel s1
         then s1\<lparr> ns_drained := ns_drained s1 + 1, ns_channel := False \<rparr> else s1)"

definition startStreamDrain :: "nodeStreams \<Rightarrow> nodeStreams" where
  "startStreamDrain s =
     (let s1 = s\<lparr> ns_draining := True \<rparr>
      in if ns_active s1 = 0 then s1\<lparr> ns_drained := ns_drained s1 + 1 \<rparr> else s1\<lparr> ns_channel := True \<rparr>)"

section \<open>The server\<close>

text \<open>
  A handler runs between \<^verbatim>\<open>beginStream\<close> and \<^verbatim>\<open>endStream\<close> (\<^verbatim>\<open>observe\<close>); a request that arrives while the
  server drains is refused.
\<close>

definition observeStream :: "(nodeCall list \<times> nodeReply) \<Rightarrow> nodeStreams \<Rightarrow> nodeStreams \<times> bool \<times> nodeCall list \<times> nodeReply" where
  "observeStream handler s =
     (case beginStream s of
        (s1, False) \<Rightarrow> (s1, False, [], HttpError 503 (Errorf ''node data plane is draining'' []))
      | (s1, True) \<Rightarrow> (s1, True, handler))"

text \<open>The result: the streams, whether a handler is now running, the calls to the runtime, and the reply.\<close>

definition streamHandler ::
  "nodeOptions \<Rightarrow> (string \<Rightarrow> (string \<times> string) result) \<Rightarrow> runtimeClient \<Rightarrow> (string \<Rightarrow> string \<Rightarrow> string result) \<Rightarrow> nodeRequest \<Rightarrow>
    nodeStreams \<Rightarrow> nodeStreams \<times> bool \<times> nodeCall list \<times> nodeReply" where
  "streamHandler opts urlParse runtime prepared r s =
     (if \<not> authorizedPeer r (no_ExpectedClientName opts)
      then (s, False, [], HttpError 403 (Errorf ''unauthorized gateway certificate'' []))
      else case streamRoute r of
             RouteExec identity \<Rightarrow> observeStream (handleExec urlParse runtime identity (nr_Query r)) s
           | RouteHelper identity capability \<Rightarrow>
               observeStream (handleHelper urlParse runtime prepared identity capability (nr_Query r)) s
           | RoutePortForward identity \<Rightarrow> observeStream (handlePortForward urlParse runtime identity (nr_Query r)) s
           | RouteNone \<Rightarrow> (s, False, [], HttpError 404 (Errorf ''404 page not found'' [])))"

text \<open>The server with the handlers that run, the calls made for each request, and whether it shuts down.\<close>

record nodeServer =
  nd_options :: nodeOptions
  nd_streams :: nodeStreams
  nd_running :: nat
  nd_shutdown :: bool
  nd_calls :: "(nodeRequest \<times> nodeCall list) list"

definition newNodeServer :: "nodeOptions \<Rightarrow> nodeServer" where
  "newNodeServer opts =
     \<lparr> nd_options = opts, nd_streams = newNodeStreams, nd_running = 0, nd_shutdown = False, nd_calls = [] \<rparr>"

definition serve_request ::
  "(string \<Rightarrow> (string \<times> string) result) \<Rightarrow> runtimeClient \<Rightarrow> (string \<Rightarrow> string \<Rightarrow> string result) \<Rightarrow> nodeRequest \<Rightarrow> nodeServer \<Rightarrow> nodeServer" where
  "serve_request urlParse runtime prepared r d =
     (case streamHandler (nd_options d) urlParse runtime prepared r (nd_streams d) of
        (s, running, calls, _) \<Rightarrow>
          d\<lparr> nd_streams := s, nd_running := nd_running d + (if running then 1 else 0), nd_calls := (r, calls) # nd_calls d \<rparr>)"

definition handler_return :: "nodeServer \<Rightarrow> nodeServer" where
  "handler_return d = d\<lparr> nd_streams := endStream (nd_streams d), nd_running := nd_running d - 1 \<rparr>"

definition serve_shutdown :: "nodeServer \<Rightarrow> nodeServer" where
  "serve_shutdown d = d\<lparr> nd_streams := startStreamDrain (nd_streams d), nd_shutdown := True \<rparr>"

text \<open>
  Requests arrive in any order and overlap, with whatever the runtime answers at that time; the
  goroutine that drains runs once.
\<close>

inductive node_step :: "nodeServer \<Rightarrow> nodeServer \<Rightarrow> bool" where
  node_request: "node_step d (serve_request urlParse runtime prepared r d)"
| node_return: "0 < nd_running d \<Longrightarrow> node_step d (handler_return d)"
| node_shutdown: "\<not> nd_shutdown d \<Longrightarrow> node_step d (serve_shutdown d)"

text \<open>
  The start of the agent: the options are completed and checked, the TLS files loaded, and the
  first runtime that answers is used.  The sockets and the connections are those of \<^verbatim>\<open>selectRuntime\<close>.
\<close>

definition node_Run ::
  "(string \<Rightarrow> bool result) \<Rightarrow> (nodeOptions \<Rightarrow> go_error option) \<Rightarrow> (string \<Rightarrow> bool result) \<Rightarrow> (string \<Rightarrow> runtimeClient result) \<Rightarrow>
    (string \<Rightarrow> bool) \<Rightarrow> nodeOptions \<Rightarrow> go_error list + nodeServer \<times> runtimeClient \<times> string" where
  "node_Run stat loadTLS socket connect canceled opts =
     (let options = node_defaultOptions opts in
      case node_validateOptions stat options of
        Some err \<Rightarrow> Inl [err]
      | None \<Rightarrow>
          (case loadTLS options of
             Some err \<Rightarrow> Inl [err]
           | None \<Rightarrow>
               (case snd (selectRuntime socket connect canceled (no_RuntimeEndpoints options) [] []) of
                  Inl errs \<Rightarrow> Inl errs
                | Inr (runtime, endpoint) \<Rightarrow> Inr (newNodeServer options, runtime, endpoint))))"

end
