(* ===== verification/CriNodeLaws.thy ===== *)
theory CriNodeLaws
  imports CriNode HelperScpLaws
begin

text \<open>
  Laws of the node agent: what the gateway asks for a bound Pod reaches the container of that very
  Pod, only the gateway's certificate is served, draining ends exactly when the last stream
  does, and a selected runtime is ready.
\<close>

section \<open>Resolution\<close>

lemma find_container_sound:
  assumes "find_container identity found cs = Inr c"
  shows "c \<noteq> [] \<and> (c = found \<or> (\<exists>x \<in> set cs. ct_Running x \<and> ct_Name x = Some (pi_Container identity) \<and> ct_Id x = c))"
  using assms by (induction identity found cs rule: find_container.induct) (auto split: if_splits)

definition runs_in :: "runtimeClient \<Rightarrow> string \<Rightarrow> string \<Rightarrow> string \<Rightarrow> string \<Rightarrow> string \<Rightarrow> bool" where
  "runs_in runtime namespace name uid container containerID =
     (\<exists>sandboxes sandbox m containers c. rc_ListPodSandbox runtime = Inr sandboxes \<and> sandbox \<in> set sandboxes \<and> sb_Ready sandbox \<and>
        sb_Metadata sandbox = Some m \<and> sm_Uid m = uid \<and> sm_Namespace m = namespace \<and> sm_Name m = name \<and>
        rc_ListContainers runtime (sb_Id sandbox) = Inr containers \<and> c \<in> set containers \<and> ct_Running c \<and>
        ct_Name c = Some container \<and> ct_Id c = containerID)"

lemma resolveRuntimeTarget_sandbox:
  assumes "resolveRuntimeTarget runtime identity need = Inr t"
  obtains sandboxes sandbox where "rc_ListPodSandbox runtime = Inr sandboxes"
    and "filter (sandbox_matches identity) sandboxes = [sandbox]" and "rt_SandboxID t = sb_Id sandbox"
    and "need \<Longrightarrow> \<exists>containers. rc_ListContainers runtime (sb_Id sandbox) = Inr containers \<and>
           find_container identity [] containers = Inr (rt_ContainerID t)"
  using assms unfolding resolveRuntimeTarget_def Let_def
  by (auto simp: bind_result_Inr_iff split: sum.splits list.splits if_splits)

lemma resolveRuntimeTarget_sound:
  assumes "resolveRuntimeTarget runtime identity True = Inr t"
  shows "runs_in runtime (pi_Namespace identity) (pi_Name identity) (pi_UID identity) (pi_Container identity) (rt_ContainerID t)"
proof -
  obtain sandboxes sandbox containers where s: "rc_ListPodSandbox runtime = Inr sandboxes"
      "filter (sandbox_matches identity) sandboxes = [sandbox]"
      "rc_ListContainers runtime (sb_Id sandbox) = Inr containers"
      "find_container identity [] containers = Inr (rt_ContainerID t)"
    using resolveRuntimeTarget_sandbox[OF assms] by metis
  have "sandbox \<in> set (filter (sandbox_matches identity) sandboxes)" by (simp add: s)
  then have "sandbox \<in> set sandboxes" "sandbox_matches identity sandbox" by auto
  then show ?thesis using s(1,3) find_container_sound[OF s(4)]
    by (auto simp: runs_in_def sandbox_matches_def split: option.splits)
qed

section \<open>From the gateway to the container\<close>

lemma endpoint_route:
  assumes "nr_Method r = ''POST''" "nr_Path r = nu_Path u" "nu_Path u = nu_Path (cri_endpoint opts l operation segments)"
    and "\<forall>seg \<in> set ([operation, pl_Namespace l, pl_Pod l, pl_UID l] @ segments). CHR ''/'' \<notin> set seg"
  shows "Split (nr_Path r) (CHR ''/'') = [[], APIVersion, operation, pl_Namespace l, pl_Pod l, pl_UID l] @ segments"
proof -
  have "Split (Join ([[], APIVersion, operation, pl_Namespace l, pl_Pod l, pl_UID l] @ segments) (CHR ''/'')) (CHR ''/'') =
      [[], APIVersion, operation, pl_Namespace l, pl_Pod l, pl_UID l] @ segments"
    by (rule Split_Join) (use assms(4) in auto)
  then show ?thesis using assms(2,3) by (simp only: cri_endpoint_def nodeURL.simps)
qed

lemma observeStream_calls: "observeStream h s = (s', running, calls, reply) \<Longrightarrow> set calls \<subseteq> set (fst h)"
  by (auto simp: observeStream_def beginStream_def split: if_splits)

text \<open>Every call of a handler is for what the identity of the request resolves to.\<close>

lemma handleExec_call:
  assumes "call \<in> set (fst (handleExec urlParse runtime identity query))"
  obtains t where "resolveRuntimeTarget runtime identity True = Inr t"
    and "call = NodeExec \<lparr> ce_ContainerId = rt_ContainerID t, ce_Cmd = query QueryCommand, ce_Stdin = queryBool query QueryStdin,
           ce_Stdout = queryBool query QueryStdout, ce_Stderr = queryBool query QueryStderr, ce_Tty = queryBool query QueryTTY \<rparr>"
  using assms unfolding handleExec_def Let_def by (auto split: option.splits sum.splits)

lemma handleHelper_call:
  assumes "call \<in> set (fst (handleHelper urlParse runtime prepared identity capability query))"
  obtains t path where "resolveRuntimeTarget runtime identity True = Inr t" "prepared (rt_ContainerID t) capability = Inr path"
    and "call = NodeExec \<lparr> ce_ContainerId = rt_ContainerID t, ce_Cmd = path # query QueryArgument, ce_Stdin = queryBool query QueryStdin,
           ce_Stdout = queryBool query QueryStdout, ce_Stderr = queryBool query QueryStderr, ce_Tty = False \<rparr>"
  using assms unfolding handleHelper_def Let_def by (auto split: option.splits sum.splits)

lemma handlePortForward_call:
  assumes "call \<in> set (fst (handlePortForward urlParse runtime identity query))"
  obtains t port where "resolveRuntimeTarget runtime identity False = Inr t" "call = NodePortForward (rt_SandboxID t) port"
    and "ParseInt32 (values_Get query QueryPort) = Some port" "1 \<le> port" "port \<le> 65535"
  using assms unfolding handlePortForward_def Let_def by (auto split: option.splits sum.splits if_splits)

lemma streamHandler_authorized:
  "streamHandler opts urlParse runtime prepared r s = (s', running, calls, reply) \<Longrightarrow> calls \<noteq> [] \<or> running \<Longrightarrow>
    authorizedPeer r (no_ExpectedClientName opts)"
  by (auto simp: streamHandler_def split: if_splits)

lemma exec_request_located:
  assumes "u \<in> set (fst (cri_Exec opts getPod net req))"
  obtains l where "locate getPod (er_Target req) = Inr l" "nu_Query u = exec_query req"
    and "nu_Path u = nu_Path (cri_endpoint opts l ''exec'' [pl_Container l])"
  using assms unfolding cri_Exec_def Let_def by (auto split: sum.splits option.splits)

text \<open>
  C14. A command that the gateway sends to a node runs where it is meant to: whatever call the agent
  makes to its runtime for a request of \<^verbatim>\<open>Transport.Exec\<close>, it made for the gateway's certificate, with the command,
  the streams and the terminal of the gateway's request, and in a container that the runtime reports as
  running under the name of the target, in the ready sandbox whose namespace and name are those of
  the target and whose UID is the one the target was bound to.  The client answers with the Pod that was asked
  for, and the names have no slash, as Kubernetes requires of them.
\<close>

theorem cri_exec_reaches_bound_container:
  assumes "\<And>namespace name pod. getPod namespace name = Inr pod \<Longrightarrow> pod_Namespace pod = namespace \<and> pod_Name pod = name"
    and "Parse (Some (er_Target req)) = Inr ref"
    and "\<forall>seg \<in> {r_Namespace ref, r_Pod ref, r_Container ref, b_UID (BoundIdentity (er_Target req))}. CHR ''/'' \<notin> set seg"
    and "u \<in> set (fst (cri_Exec opts getPod net req))"
    and "nr_Method r = ''POST''" "nr_Path r = nu_Path u" "nr_Query r = nu_Query u"
    and "streamHandler nodeOpts urlParse runtime prepared r s = (s', running, calls, reply)" "call \<in> set calls"
  shows "authorizedPeer r (no_ExpectedClientName nodeOpts) \<and>
    (\<exists>c. call = NodeExec \<lparr> ce_ContainerId = c, ce_Cmd = er_Command req, ce_Stdin = stream_given (er_Stdin req),
            ce_Stdout = stream_given (er_Stdout req), ce_Stderr = (\<not> er_TTY req \<and> stream_given (er_Stderr req)),
            ce_Tty = er_TTY req \<rparr> \<and>
         runs_in runtime (r_Namespace ref) (r_Pod ref) (b_UID (BoundIdentity (er_Target req))) (r_Container ref) c)"
proof -
  obtain l where l: "locate getPod (er_Target req) = Inr l" "nu_Query u = exec_query req"
      "nu_Path u = nu_Path (cri_endpoint opts l ''exec'' [pl_Container l])"
    by (rule exec_request_located[OF assms(4)])
  have names: "pl_Namespace l = r_Namespace ref" "pl_Pod l = r_Pod ref" "pl_Container l = r_Container ref"
      "pl_UID l = b_UID (BoundIdentity (er_Target req))"
    using locate_bound[OF l(1)] assms(1,2) by (metis sum.inject(2))+
  let ?i = "\<lparr> pi_Namespace = r_Namespace ref, pi_Name = r_Pod ref, pi_UID = b_UID (BoundIdentity (er_Target req)),
      pi_Container = r_Container ref \<rparr>"
  have "Split (nr_Path r) (CHR ''/'') = [[], APIVersion, ''exec'', pl_Namespace l, pl_Pod l, pl_UID l] @ [pl_Container l]"
    by (rule endpoint_route[OF assms(5,6) l(3)]) (use assms(3) names in auto)
  then have "streamRoute r = RouteExec ?i \<or> streamRoute r = RouteNone"
    using assms(5) by (simp add: streamRoute_def names)
  moreover have auth: "authorizedPeer r (no_ExpectedClientName nodeOpts)"
    by (rule streamHandler_authorized[OF assms(8)]) (use assms(9) in auto)
  ultimately have "observeStream (handleExec urlParse runtime ?i (nr_Query r)) s = (s', running, calls, reply)"
    using assms(8,9) by (auto simp: streamHandler_def)
  then have "call \<in> set (fst (handleExec urlParse runtime ?i (exec_query req)))"
    using observeStream_calls assms(7,9) l(2) by fastforce
  then obtain t where t: "resolveRuntimeTarget runtime ?i True = Inr t"
    "call = NodeExec \<lparr> ce_ContainerId = rt_ContainerID t, ce_Cmd = er_Command req, ce_Stdin = stream_given (er_Stdin req),
            ce_Stdout = stream_given (er_Stdout req), ce_Stderr = (\<not> er_TTY req \<and> stream_given (er_Stderr req)),
            ce_Tty = er_TTY req \<rparr>"
    by (rule handleExec_call) (simp add: queryBool_def exec_query_values)
  then show ?thesis using auth resolveRuntimeTarget_sound[OF t(1)] by auto
qed

text \<open>A Pod with one container, a target bound to it, its runtime, and a command for it.\<close>

definition bound_target :: Target where
  "bound_target = \<lparr> t_Kind = KindPod, t_Options = [\<lparr> opt_Key = OptionNamespaces, opt_Value = ''ns'' \<rparr>,
       \<lparr> opt_Key = OptionPods, opt_Value = ''web'' \<rparr>, \<lparr> opt_Key = OptionContainers, opt_Value = ''app'' \<rparr>],
     t_Runtime = [runtimePodUID \<mapsto> ''u1'', runtimeNodeName \<mapsto> ''node1'', runtimeHostIP \<mapsto> ''10.0.0.1''] \<rparr>"

definition bound_getPod :: "string \<Rightarrow> string \<Rightarrow> Pod result" where
  "bound_getPod namespace name = Inr (zero_Pod\<lparr> pod_Meta := zero_ObjectMeta\<lparr> m_Namespace := namespace, m_Name := name, m_UID := ''u1'' \<rparr>,
     pod_NodeName := ''node1'', pod_Phase := ''Running'', pod_HostIP := ''10.0.0.1'' \<rparr>)"

definition bound_request :: ExecRequest where
  "bound_request = \<lparr> er_Target = bound_target, er_Command = [''id''], er_Stdin = NoStream, er_Stdout = SessionStream,
     er_Stderr = SessionStream, er_TTY = True, er_TerminalSizeQueue = None \<rparr>"

definition bound_net :: nodeNet where
  "bound_net = \<lparr> nn_NewExecutor = (\<lambda>_ _. None), nn_Stream = (\<lambda>_ _. StreamDone) \<rparr>"

definition bound_runtime :: runtimeClient where
  "bound_runtime = \<lparr> rc_Version = None, rc_Status = Inr (Some [(''RuntimeReady'', True)]),
     rc_ListPodSandbox = Inr [\<lparr> sb_Id = ''s0'', sb_Ready = True, sb_Metadata = Some \<lparr> sm_Uid = ''u0'', sm_Namespace = ''ns'', sm_Name = ''web'' \<rparr> \<rparr>,
       \<lparr> sb_Id = ''s1'', sb_Ready = True, sb_Metadata = Some \<lparr> sm_Uid = ''u1'', sm_Namespace = ''ns'', sm_Name = ''web'' \<rparr> \<rparr>],
     rc_ListContainers = (\<lambda>_. Inr [\<lparr> ct_Id = ''c1'', ct_Running = True, ct_Name = Some ''app'' \<rparr>]),
     rc_Exec = (\<lambda>_. Inr ''http://127.0.0.1/exec''), rc_ExecSync = (\<lambda>_ _. Inl ContextCanceled), rc_PortForward = (\<lambda>_ _. Inl ContextCanceled) \<rparr>"

definition gateway_cert :: "nodeURL \<Rightarrow> nodeRequest" where
  "gateway_cert u = \<lparr> nr_Method = ''POST'', nr_Path = nu_Path u, nr_Query = nu_Query u, nr_TLS = Some [DefaultClientName] \<rparr>"

definition node_opts :: nodeOptions where
  "node_opts = node_defaultOptions \<lparr> no_ListenAddress = [], no_ManagementAddress = [], no_RuntimeEndpoints = [], no_HelperPath = [],
     no_HelperRemoteDir = [], no_TLSCAFile = [], no_TLSCertFile = [], no_TLSKeyFile = [], no_ExpectedClientName = [],
     no_ShutdownTimeout = 0, no_RuntimeTimeout = 0 \<rparr>"

definition cri_opts :: criOptions where
  "cri_opts = \<lparr> co_Port = 10443, co_ServerName = ''node'', co_CAFile = ''ca'', co_CertFile = ''cert'', co_KeyFile = ''key'' \<rparr>"

definition bound_url :: nodeURL where
  "bound_url = \<lparr> nu_Scheme = ''https'', nu_Host = JoinHostPort ''10.0.0.1'' (FormatInt 10443),
     nu_Path = ''/v1/exec/ns/web/u1/app'', nu_Query = exec_query bound_request \<rparr>"

lemma bound_parse: "Parse (Some bound_target) = Inr \<lparr> r_Namespace = ''ns'', r_Pod = ''web'', r_Container = ''app'' \<rparr>"
  by (simp add: Parse_def bound_target_def Target_Option_def Let_def)

lemma bound_identity: "BoundIdentity bound_target = \<lparr> b_UID = ''u1'', b_NodeName = ''node1'', b_HostIP = ''10.0.0.1'' \<rparr>"
  by (simp add: BoundIdentity_def bound_target_def map_get_def)

lemma bound_exec: "fst (cri_Exec cri_opts bound_getPod bound_net bound_request) = [bound_url]"
  by (simp add: cri_Exec_def locate_def bound_request_def bound_parse bound_identity bound_getPod_def zero_Pod_def zero_ObjectMeta_def
      Let_def cri_endpoint_def bound_net_def bound_url_def cri_opts_def)

lemma bound_handler:
  "streamHandler node_opts (\<lambda>_. Inr (''http'', ''127.0.0.1'')) bound_runtime (\<lambda>_ _. Inl ContextCanceled) (gateway_cert bound_url) newNodeStreams =
     (fst (beginStream newNodeStreams), True,
      [NodeExec \<lparr> ce_ContainerId = ''c1'', ce_Cmd = [''id''], ce_Stdin = False, ce_Stdout = True, ce_Stderr = False, ce_Tty = True \<rparr>],
      ProxiedStream ''http'' ''127.0.0.1'' False)"
proof -
  let ?i = "\<lparr> pi_Namespace = ''ns'', pi_Name = ''web'', pi_UID = ''u1'', pi_Container = ''app'' \<rparr>"
  have "authorizedPeer (gateway_cert bound_url) (no_ExpectedClientName node_opts)"
    by (simp add: authorizedPeer_def gateway_cert_def node_opts_def node_defaultOptions_def Let_def)
  moreover have "streamRoute (gateway_cert bound_url) = RouteExec ?i"
    by (simp add: streamRoute_def gateway_cert_def bound_url_def clean_segment_def)
  moreover have "resolveRuntimeTarget bound_runtime ?i True = Inr \<lparr> rt_SandboxID = ''s1'', rt_ContainerID = ''c1'' \<rparr>"
    by (simp add: resolveRuntimeTarget_def bound_runtime_def sandbox_matches_def)
  ultimately show ?thesis
    by (simp add: streamHandler_def observeStream_def beginStream_def newNodeStreams_def handleExec_def validateIdentity_def Let_def
        bound_runtime_def gateway_cert_def bound_url_def exec_query_values queryBool_def bound_request_def proxyStream_def parseStreamingURL_def)
qed

theorem cri_exec_reaches_bound_container_witness:
  "authorizedPeer (gateway_cert bound_url) (no_ExpectedClientName node_opts) \<and>
   runs_in bound_runtime ''ns'' ''web'' ''u1'' ''app'' ''c1''"
proof -
  let ?call = "NodeExec \<lparr> ce_ContainerId = ''c1'', ce_Cmd = [''id''], ce_Stdin = False, ce_Stdout = True, ce_Stderr = False, ce_Tty = True \<rparr>"
  have parse: "Parse (Some (er_Target bound_request)) = Inr \<lparr> r_Namespace = ''ns'', r_Pod = ''web'', r_Container = ''app'' \<rparr>"
    by (simp add: bound_request_def bound_parse)
  have uid: "BoundIdentity (er_Target bound_request) = \<lparr> b_UID = ''u1'', b_NodeName = ''node1'', b_HostIP = ''10.0.0.1'' \<rparr>"
    by (simp add: bound_request_def bound_identity)
  have "authorizedPeer (gateway_cert bound_url) (no_ExpectedClientName node_opts) \<and>
      (\<exists>c. ?call = NodeExec \<lparr> ce_ContainerId = c, ce_Cmd = er_Command bound_request, ce_Stdin = stream_given (er_Stdin bound_request),
            ce_Stdout = stream_given (er_Stdout bound_request),
            ce_Stderr = (\<not> er_TTY bound_request \<and> stream_given (er_Stderr bound_request)), ce_Tty = er_TTY bound_request \<rparr> \<and>
        runs_in bound_runtime (r_Namespace \<lparr> r_Namespace = ''ns'', r_Pod = ''web'', r_Container = ''app'' \<rparr>)
          (r_Pod \<lparr> r_Namespace = ''ns'', r_Pod = ''web'', r_Container = ''app'' \<rparr>)
          (b_UID (BoundIdentity (er_Target bound_request)))
          (r_Container \<lparr> r_Namespace = ''ns'', r_Pod = ''web'', r_Container = ''app'' \<rparr>) c)"
  proof (rule cri_exec_reaches_bound_container[where getPod = bound_getPod and u = bound_url and opts = cri_opts and net = bound_net,
        OF _ parse _ _ _ _ _ bound_handler])
    show "bound_url \<in> set (fst (cri_Exec cri_opts bound_getPod bound_net bound_request))" by (simp add: bound_exec)
  qed (auto simp: bound_getPod_def uid gateway_cert_def)
  then show ?thesis by (auto simp: uid)
qed

text \<open>
  The same for helper commands and port forwards: the helper that runs is the one prepared in
  that container for the requested capability, and a port is forwarded into the Pod's own sandbox.
\<close>

theorem cri_helper_reaches_bound_container:
  assumes "locate getPod (sr_Target (he_Stream req)) = Inr l"
    and "\<forall>seg \<in> {pl_Namespace l, pl_Pod l, pl_UID l, pl_Container l, he_Capability req}. CHR ''/'' \<notin> set seg"
    and "u \<in> set (fst (cri_ExecHelper opts getPod net req))"
    and "nr_Method r = ''POST''" "nr_Path r = nu_Path u" "nr_Query r = nu_Query u"
    and "streamHandler nodeOpts urlParse runtime prepared r s = (s', running, calls, reply)" "call \<in> set calls"
  shows "\<exists>c path. prepared c (he_Capability req) = Inr path \<and>
    call = NodeExec \<lparr> ce_ContainerId = c, ce_Cmd = path # he_Command req, ce_Stdin = stream_given (sr_Stdin (he_Stream req)),
       ce_Stdout = stream_given (sr_Stdout (he_Stream req)), ce_Stderr = stream_given (sr_Stderr (he_Stream req)), ce_Tty = False \<rparr> \<and>
    runs_in runtime (pl_Namespace l) (pl_Pod l) (pl_UID l) (pl_Container l) c"
proof -
  let ?i = "\<lparr> pi_Namespace = pl_Namespace l, pi_Name = pl_Pod l, pi_UID = pl_UID l, pi_Container = pl_Container l \<rparr>"
  have u: "nu_Query u = helper_query req"
      "nu_Path u = nu_Path (cri_endpoint opts l ''helper'' [pl_Container l, he_Capability req])"
    using assms(1,3) by (auto simp: cri_ExecHelper_def Let_def split: option.splits)
  have "Split (nr_Path r) (CHR ''/'') =
      [[], APIVersion, ''helper'', pl_Namespace l, pl_Pod l, pl_UID l] @ [pl_Container l, he_Capability req]"
    by (rule endpoint_route[OF assms(4,5) u(2)]) (use assms(2) in auto)
  then have "streamRoute r = RouteHelper ?i (he_Capability req) \<or> streamRoute r = RouteNone"
    using assms(4) by (simp add: streamRoute_def)
  then have "observeStream (handleHelper urlParse runtime prepared ?i (he_Capability req) (nr_Query r)) s = (s', running, calls, reply)"
    using assms(7,8) by (auto simp: streamHandler_def split: if_splits)
  then have "call \<in> set (fst (handleHelper urlParse runtime prepared ?i (he_Capability req) (helper_query req)))"
    using observeStream_calls assms(6,8) u(1) by fastforce
  then show ?thesis
    by (rule handleHelper_call) (auto simp: queryBool_def helper_query_values dest: resolveRuntimeTarget_sound)
qed

lemma ParseInt32_FormatUint: "ParseInt32 (FormatUint (w :: 32 word)) = Some port \<Longrightarrow> port = uint w"
proof -
  have "- (2 ^ 63) \<le> uint w" by (rule order_trans[of _ 0]) simp_all
  moreover have "uint w < 2 ^ 63" using uint_lt2p[of w] by simp
  ultimately have "fits64 (uint w)" by (simp only: fits64_def)
  then have "ParseInt (FormatUint w) = Some (uint w)"
    using ParseInt_FormatInt[of "uint w"] by (simp add: FormatInt_def FormatUint_def)
  then show "ParseInt32 (FormatUint w) = Some port \<Longrightarrow> port = uint w"
    by (auto simp: ParseInt32_def split: if_splits)
qed

theorem cri_forward_reaches_bound_sandbox:
  assumes "locate getPod (ppf_Target req) = Inr l"
    and "\<forall>seg \<in> {pl_Namespace l, pl_Pod l, pl_UID l}. CHR ''/'' \<notin> set seg"
    and "(u, effects) \<in> set (fst (cri_PortForward opts getPod dial req))"
    and "nr_Method r = ''POST''" "nr_Path r = nu_Path u" "nr_Query r = nu_Query u"
    and "streamHandler nodeOpts urlParse runtime prepared r s = (s', running, calls, reply)" "call \<in> set calls"
  shows "\<exists>sandboxes sandbox. rc_ListPodSandbox runtime = Inr sandboxes \<and> sandbox \<in> set sandboxes \<and>
    sandbox_matches \<lparr> pi_Namespace = pl_Namespace l, pi_Name = pl_Pod l, pi_UID = pl_UID l, pi_Container = [] \<rparr> sandbox \<and>
    call = NodePortForward (sb_Id sandbox) (uint (ppf_Port req))"
proof -
  let ?i = "\<lparr> pi_Namespace = pl_Namespace l, pi_Name = pl_Pod l, pi_UID = pl_UID l, pi_Container = [] \<rparr>"
  have u: "nu_Query u = values_Set QueryPort (FormatUint (ppf_Port req)) no_values"
      "nu_Path u = nu_Path (cri_endpoint opts l ''portforward'' [])"
    using assms(1,3) by (auto simp: cri_PortForward_def Let_def split: prod.splits)
  have "Split (nr_Path r) (CHR ''/'') = [[], APIVersion, ''portforward'', pl_Namespace l, pl_Pod l, pl_UID l] @ []"
    by (rule endpoint_route[OF assms(4,5) u(2)]) (use assms(2) in auto)
  then have "streamRoute r = RoutePortForward ?i \<or> streamRoute r = RouteNone"
    using assms(4) by (simp add: streamRoute_def)
  then have "observeStream (handlePortForward urlParse runtime ?i (nr_Query r)) s = (s', running, calls, reply)"
    using assms(7,8) by (auto simp: streamHandler_def split: if_splits)
  then have "call \<in> set (fst (handlePortForward urlParse runtime ?i (nu_Query u)))"
    using observeStream_calls assms(6,8) by fastforce
  then obtain t port where t: "resolveRuntimeTarget runtime ?i False = Inr t" "call = NodePortForward (rt_SandboxID t) port"
      "ParseInt32 (FormatUint (ppf_Port req)) = Some port" "1 \<le> port" "port \<le> 65535"
    by (rule handlePortForward_call) (simp add: u(1) values_Set_def values_Get_def)
  obtain sandboxes sandbox where s: "rc_ListPodSandbox runtime = Inr sandboxes"
      "filter (sandbox_matches ?i) sandboxes = [sandbox]" "rt_SandboxID t = sb_Id sandbox"
    by (rule resolveRuntimeTarget_sandbox[OF t(1)])
  have "sandbox \<in> set (filter (sandbox_matches ?i) sandboxes)" by (simp add: s)
  then show ?thesis using s(1,3) t(2) ParseInt32_FormatUint[OF t(3)] by (intro exI[of _ sandboxes] exI[of _ sandbox]) auto
qed

section \<open>Draining\<close>

definition drain_inv :: "nodeServer \<Rightarrow> bool" where
  "drain_inv d =
     (ns_active (nd_streams d) = int (nd_running d) \<and> ns_draining (nd_streams d) = nd_shutdown d \<and>
      ns_channel (nd_streams d) = (nd_shutdown d \<and> 0 < nd_running d) \<and>
      ns_drained (nd_streams d) = (if nd_shutdown d \<and> nd_running d = 0 then 1 else 0) \<and>
      (\<forall>(r, calls) \<in> set (nd_calls d). calls \<noteq> [] \<longrightarrow> authorizedPeer r (no_ExpectedClientName (nd_options d))))"

lemma streamHandler_streams:
  "streamHandler opts urlParse runtime prepared r s = (s', running, calls, reply) \<Longrightarrow>
    s' = (if running then s\<lparr> ns_active := ns_active s + 1 \<rparr> else s) \<and> (ns_draining s \<longrightarrow> \<not> running) \<and>
    (running \<or> calls = [])"
  by (auto simp: streamHandler_def observeStream_def beginStream_def split: if_splits nodeRoute.splits)

lemma drain_inv_request: "drain_inv d \<Longrightarrow> drain_inv (serve_request urlParse runtime prepared r d)"
proof -
  assume inv: "drain_inv d"
  obtain s running calls reply where h: "streamHandler (nd_options d) urlParse runtime prepared r (nd_streams d) = (s, running, calls, reply)"
    by (metis prod_cases4)
  show "drain_inv (serve_request urlParse runtime prepared r d)"
    using inv streamHandler_streams[OF h] streamHandler_authorized[OF h]
    by (auto simp: drain_inv_def serve_request_def h)
qed

lemma drain_inv_return: "drain_inv d \<Longrightarrow> 0 < nd_running d \<Longrightarrow> drain_inv (handler_return d)"
  by (auto simp: drain_inv_def handler_return_def endStream_def Let_def)

lemma drain_inv_shutdown: "drain_inv d \<Longrightarrow> \<not> nd_shutdown d \<Longrightarrow> drain_inv (serve_shutdown d)"
  by (auto simp: drain_inv_def serve_shutdown_def startStreamDrain_def Let_def)

interpretation node_server: inductive_invariant "\<lambda>d. d = newNodeServer opts" node_step
  "\<lambda>d. drain_inv d \<and> nd_options d = opts" for opts
proof unfold_locales
  fix d d' assume inv: "drain_inv d \<and> nd_options d = opts" and step: "node_step d d'"
  show "drain_inv d' \<and> nd_options d' = opts"
    using step inv by (cases rule: node_step.cases)
      (auto simp: drain_inv_request drain_inv_return drain_inv_shutdown,
       auto simp: serve_request_def handler_return_def serve_shutdown_def split: prod.splits)
qed (simp add: drain_inv_def newNodeServer_def newNodeStreams_def)

text \<open>
  Whatever requests arrive, overlap and end while the agent shuts down, the channel that its
  shutdown waits for is closed at most once, and it is closed exactly when the drain has started and
  no handler runs any more; and no request makes a call to the runtime unless the TLS layer verified the
  certificate of the gateway for it.
\<close>

theorem node_streams_drained:
  assumes "reach (\<lambda>d. d = newNodeServer opts) node_step d"
  shows "ns_drained (nd_streams d) = (if nd_shutdown d \<and> nd_running d = 0 then 1 else 0) \<and>
    (\<forall>(r, calls) \<in> set (nd_calls d). calls \<noteq> [] \<longrightarrow> authorizedPeer r (no_ExpectedClientName opts))"
  using node_server.reach_inv[OF assms] by (auto simp: drain_inv_def)

theorem node_streams_drained_witness:
  "ns_drained (nd_streams (handler_return (serve_shutdown
     (serve_request (\<lambda>_. Inr (''http'', ''127.0.0.1'')) bound_runtime (\<lambda>_ _. Inl ContextCanceled) (gateway_cert bound_url)
       (newNodeServer node_opts))))) = 1"
proof -
  let ?new = "newNodeServer node_opts"
  let ?served = "serve_request (\<lambda>_. Inr (''http'', ''127.0.0.1'')) bound_runtime (\<lambda>_ _. Inl ContextCanceled) (gateway_cert bound_url) ?new"
  have running: "nd_running ?served = 1" "\<not> nd_shutdown ?served"
    by (simp_all add: serve_request_def newNodeServer_def bound_handler)
  have "reach (\<lambda>d. d = ?new) node_step ?served"
    by (rule reach_step[where s = ?new and step = node_step], rule reach_init, rule refl, rule node_request)
  then have "reach (\<lambda>d. d = ?new) node_step (serve_shutdown ?served)"
    by (rule reach_step[where s = ?served and step = node_step]) (rule node_shutdown, rule running)
  then have "reach (\<lambda>d. d = ?new) node_step (handler_return (serve_shutdown ?served))"
    by (rule reach_step[where s = "serve_shutdown ?served" and step = node_step])
      (rule node_return, simp add: serve_shutdown_def running)
  from node_streams_drained[OF this] show ?thesis
    by (simp add: handler_return_def serve_shutdown_def running)
qed

section \<open>The runtime in use\<close>

text \<open>
  The runtime that is selected was reachable through a Unix socket and ready.
\<close>

lemma selectRuntime_ready:
  assumes "selectRuntime socket connect canceled endpoints failures closed = (closed', Inr (runtime, endpoint))"
  shows "endpoint \<in> set endpoints \<and> socket (TrimPrefix endpoint ''unix://'') = Inr True \<and> connect endpoint = Inr runtime \<and>
    checkRuntime runtime = None"
  using assms
  by (induction socket connect canceled endpoints failures closed rule: selectRuntime.induct)
    (auto split: sum.splits bool.splits option.splits if_splits)

lemma node_Run_ready:
  assumes "node_Run stat loadTLS socket connect canceled opts = Inr (d, runtime, endpoint)"
  shows "checkRuntime runtime = None \<and> HasPrefix endpoint ''unix://'' \<and> d = newNodeServer (node_defaultOptions opts)"
proof -
  let ?o = "node_defaultOptions opts"
  have v: "node_validateOptions stat ?o = None" and d: "d = newNodeServer ?o"
    and sel: "snd (selectRuntime socket connect canceled (no_RuntimeEndpoints ?o) [] []) = Inr (runtime, endpoint)"
    using assms by (auto simp: node_Run_def Let_def split: option.splits sum.splits)
  obtain closed where "selectRuntime socket connect canceled (no_RuntimeEndpoints ?o) [] [] = (closed, Inr (runtime, endpoint))"
    using sel by (metis prod.collapse)
  from selectRuntime_ready[OF this] v show ?thesis using d
    by (auto simp: node_validateOptions_def find_None_iff split: option.splits)
qed

end
