(* ===== verification/HelperBinary.thy ===== *)
theory HelperBinary
  imports CriNode HelperScp
begin

text \<open>
  The helper binary in a target container: what a helper says of itself (helper/protocol.go), how it is
  copied there, and the manager of the node agent that prepares it once per container
  (cri/node/helper\_manager.go) as a state machine.  The acquirer of the API server transport, which
  copies the same way, is in ApiServerTransport.  SHA-256, JSON and tar encoding, and the execution of
  commands in a container are parameters.
\<close>

section \<open>Manifests\<close>

record Manifest =
  mf_Version :: string
  mf_Commit :: string
  mf_BuildDate :: string
  mf_OS :: string
  mf_Arch :: string
  mf_ProtocolVersion :: string
  mf_Capabilities :: "string list"

abbreviation ProtocolVersion :: string where "ProtocolVersion \<equiv> ''v1alpha1''"
abbreviation CommandVersion :: string where "CommandVersion \<equiv> ''version''"

definition Capabilities :: "string list" where
  "Capabilities = [HelperDial, HelperRemoteForward, HelperAgentForward, HelperSFTP, HelperSCP]"

record buildInfo =
  bi_GitVersion :: string
  bi_GitCommit :: string
  bi_BuildDate :: string
  bi_GOOS :: string
  bi_GOARCH :: string

definition CurrentManifest :: "buildInfo \<Rightarrow> Manifest" where
  "CurrentManifest info =
     \<lparr> mf_Version = bi_GitVersion info, mf_Commit = bi_GitCommit info, mf_BuildDate = bi_BuildDate info,
       mf_OS = bi_GOOS info, mf_Arch = bi_GOARCH info, mf_ProtocolVersion = ProtocolVersion, mf_Capabilities = Capabilities \<rparr>"

definition zero_Manifest :: Manifest where
  "zero_Manifest = \<lparr> mf_Version = [], mf_Commit = [], mf_BuildDate = [], mf_OS = [], mf_Arch = [],
     mf_ProtocolVersion = [], mf_Capabilities = [] \<rparr>"

definition sameCapabilities :: "string list \<Rightarrow> string list \<Rightarrow> bool" where
  "sameCapabilities actual expected =
     (if length actual \<noteq> length expected then False else list_all (\<lambda>c. c \<in> set actual) expected)"

definition validateHelperManifest :: "Manifest \<Rightarrow> Manifest \<Rightarrow> string \<Rightarrow> go_error option" where
  "validateHelperManifest manifest expected capability =
     (if mf_Version manifest \<noteq> mf_Version expected
      then Some (ServiceUnavailable ''helper version %q does not match %q'' [mf_Version manifest, mf_Version expected])
      else if mf_Commit manifest \<noteq> mf_Commit expected
      then Some (ServiceUnavailable ''helper commit %q does not match %q'' [mf_Commit manifest, mf_Commit expected])
      else if mf_ProtocolVersion manifest \<noteq> ProtocolVersion
      then Some (ServiceUnavailable ''helper protocol %q is not supported; want %q'' [mf_ProtocolVersion manifest, ProtocolVersion])
      else if capability \<noteq> [] \<and> capability \<notin> set (mf_Capabilities manifest)
      then Some (ServiceUnavailable ''helper does not advertise required capability %q'' [capability])
      else None)"

section \<open>Copying\<close>

text \<open>
  Running a command in a container: its exit code, the error of the transport, and what it
  printed.  The log records the commands with what they got as input and their outcome.
\<close>

record execOutcome =
  eo_Code :: int
  eo_Err :: "go_error option"
  eo_Stdout :: string
  eo_Stderr :: string

datatype 'c helperEvent = Ran 'c "string list" string execOutcome

type_synonym runCommand = "string list \<Rightarrow> string \<Rightarrow> execOutcome"

record helperEnv =
  hv_digest :: "string \<Rightarrow> string"
  hv_decode :: "string \<Rightarrow> Manifest result"
  hv_archive :: "string \<Rightarrow> string \<Rightarrow> string result"
  hv_readFile :: "string \<Rightarrow> string result"

abbreviation NUL :: string where "NUL \<equiv> [CHR 0x00]"

text \<open>\<^verbatim>\<open>hv_digest\<close> is the hexadecimal SHA-256 digest, of which the name takes 32 digits.\<close>

definition helper_remotePath :: "helperEnv \<Rightarrow> string \<Rightarrow> string \<Rightarrow> string" where
  "helper_remotePath env remoteDir key =
     filepath_Join remoteDir (''kube-ssh-helper-'' @ take 32 (hv_digest env key))"

definition shell_copy_command :: "string \<Rightarrow> string list" where
  "shell_copy_command remotePath =
     [''sh'', ''-c'', ''cat > '' @ [CHR 0x22] @ ''$1'' @ [CHR 0x22] @ '' && chmod +x '' @ [CHR 0x22] @ ''$1'' @ [CHR 0x22], ''sh'', remotePath]"

text \<open>\<^verbatim>\<open>path.Dir\<close>: everything up to the last slash, cleaned.\<close>

definition path_Dir :: "string \<Rightarrow> string" where
  "path_Dir p = (case LastIndexByte p (CHR ''/'') of None \<Rightarrow> ''.'' | Some i \<Rightarrow> filepath_Clean (take (i + 1) p))"

definition tar_copy_command :: "string \<Rightarrow> string list" where
  "tar_copy_command remotePath = [''tar'', ''-xf'', ''-'', ''-C'', path_Dir remotePath]"

text \<open>A version probe that found the expected build.\<close>

definition version_command :: "string \<Rightarrow> string list" where
  "version_command remotePath = [remotePath, CommandVersion]"

section \<open>The manager of the node agent (helper_manager.go)\<close>

text \<open>
  Streaming a command through the runtime: \<^verbatim>\<open>executor\<close> is the error of making an executor for the
  URL the runtime returned, \<^verbatim>\<open>stream\<close> the outcome of streaming.
\<close>

definition streamExec ::
  "runtimeClient \<Rightarrow> (string \<Rightarrow> (string \<times> string) result) \<Rightarrow> (string \<Rightarrow> go_error option) \<Rightarrow> (string \<Rightarrow> streamOutcome) \<Rightarrow> string \<Rightarrow>
    string list \<Rightarrow> int \<times> go_error option" where
  "streamExec runtime urlParse executor stream containerID command =
     (case rc_Exec runtime \<lparr> ce_ContainerId = containerID, ce_Cmd = command, ce_Stdin = True, ce_Stdout = True,
             ce_Stderr = True, ce_Tty = False \<rparr> of
        Inl err \<Rightarrow> (1, Some err)
      | Inr url \<Rightarrow>
          (case parseStreamingURL urlParse url of
             Inl err \<Rightarrow> (1, Some err)
           | Inr _ \<Rightarrow>
               (case executor url of
                  Some err \<Rightarrow> (1, Some err)
                | None \<Rightarrow>
                    (case stream url of
                       StreamDone \<Rightarrow> (0, None)
                     | StreamExit code \<Rightarrow> (code, None)
                     | StreamFailed err \<Rightarrow> (1, Some err)))))"

text \<open>The commands run by \<^verbatim>\<open>copy\<close>, and its error.\<close>

definition manager_copy :: "helperEnv \<Rightarrow> runCommand \<Rightarrow> 'c \<Rightarrow> string \<Rightarrow> string \<Rightarrow> 'c helperEvent list \<times> go_error option" where
  "manager_copy env run c remotePath data =
     (let shell = shell_copy_command remotePath;
          r = run shell data
      in if eo_Err r = None \<and> eo_Code r = 0 then ([Ran c shell data r], None)
         else case hv_archive env (path_Base remotePath) data of
                Inl err \<Rightarrow> ([Ran c shell data r], Some (Wrap ''build helper archive: %w'' [] err))
              | Inr archive \<Rightarrow>
                  let tar = tar_copy_command remotePath;
                      r2 = run tar archive
                  in ([Ran c shell data r, Ran c tar archive r2],
                      if eo_Err r2 \<noteq> None \<or> eo_Code r2 \<noteq> 0
                      then Some (Errorf ''inject helper failed: sh exit=%d err=%v; tar exit=%d err=%v''
                                   [FormatInt (eo_Code r), FormatInt (eo_Code r2)])
                      else None))"

definition manager_probe :: "helperEnv \<Rightarrow> runCommand \<Rightarrow> Manifest \<Rightarrow> 'c \<Rightarrow> string \<Rightarrow> 'c helperEvent list \<times> go_error option" where
  "manager_probe env run manifest c remotePath =
     (let r = run (version_command remotePath) []
      in ([Ran c (version_command remotePath) [] r],
          case eo_Err r of
            Some err \<Rightarrow> Some (Wrap ''probe helper version: %w'' [] err)
          | None \<Rightarrow>
              if eo_Code r \<noteq> 0
              then Some (Errorf ''helper version exited with %d: %s'' [FormatInt (eo_Code r), TrimSpace (eo_Stderr r)])
              else case hv_decode env (eo_Stdout r) of
                     Inl err \<Rightarrow> Some (Wrap ''decode helper version: %w'' [] err)
                   | Inr actual \<Rightarrow>
                       if mf_ProtocolVersion actual \<noteq> ProtocolVersion \<or> mf_Version actual \<noteq> mf_Version manifest \<or>
                          mf_Commit actual \<noteq> mf_Commit manifest
                       then Some (Errorf ''helper identity mismatch: got %s/%s protocol %s, want %s/%s protocol %s''
                                    [mf_Version actual, mf_Commit actual, mf_ProtocolVersion actual,
                                     mf_Version manifest, mf_Commit manifest, ProtocolVersion])
                       else if \<not> sameCapabilities (mf_Capabilities actual) (mf_Capabilities manifest)
                       then Some (Errorf ''helper capability mismatch: got %v, want %v'' [])
                       else None))"

text \<open>
  The manager: what is ready by key, the flights with their key and container, the callers waiting
  for a key, and what the callers got.
\<close>

record helperManager =
  hm_remoteDir :: string
  hm_localPath :: string
  hm_manifest :: Manifest
  hm_ready :: "string \<rightharpoonup> string"
  hm_inflight :: "(string \<times> string) list"
  hm_waiting :: "(nat \<times> string \<times> string) list"
  hm_returned :: "(nat \<times> string \<times> string result) list"
  hm_log :: "string helperEvent list"

definition newHelperManager :: "buildInfo \<Rightarrow> string \<Rightarrow> string \<Rightarrow> helperManager" where
  "newHelperManager info localPath remoteDir =
     \<lparr> hm_remoteDir = (if remoteDir = [] then ''/tmp'' else remoteDir), hm_localPath = localPath,
       hm_manifest = CurrentManifest info, hm_ready = Map.empty, hm_inflight = [], hm_waiting = [], hm_returned = [],
       hm_log = [] \<rparr>"

definition manager_key :: "helperManager \<Rightarrow> string \<Rightarrow> string" where
  "manager_key m containerID = containerID @ NUL @ mf_Version (hm_manifest m) @ NUL @ mf_Commit (hm_manifest m)"

definition manager_load :: "helperEnv \<Rightarrow> string \<Rightarrow> string result" where
  "manager_load env localPath = (if localPath = [] then Inl (Errorf ''helper path is required'' []) else hv_readFile env localPath)"

definition give :: "nat \<Rightarrow> string \<Rightarrow> string result \<Rightarrow> helperManager \<Rightarrow> helperManager" where
  "give caller containerID result m = m\<lparr> hm_returned := (caller, containerID, result) # hm_returned m \<rparr>"

text \<open>The call of \<^verbatim>\<open>prepare\<close> up to its wait: an answer from the cache, or joining the flight of its key.\<close>

definition manager_prepare :: "nat \<Rightarrow> string \<Rightarrow> string \<Rightarrow> helperManager \<Rightarrow> helperManager" where
  "manager_prepare caller containerID capability m =
     (let key = manager_key m containerID in
      if capability \<notin> set (mf_Capabilities (hm_manifest m))
      then give caller containerID (Inl (Errorf ''helper does not advertise capability %q'' [capability])) m
      else case hm_ready m key of
             Some remotePath \<Rightarrow> give caller containerID (Inr remotePath) m
           | None \<Rightarrow>
               m\<lparr> hm_waiting := (caller, containerID, key) # hm_waiting m,
                  hm_inflight := (if key \<in> fst ` set (hm_inflight m) then hm_inflight m else (key, containerID) # hm_inflight m) \<rparr>)"

text \<open>The function of a flight: its commands and its result.\<close>

definition flight_run :: "helperEnv \<Rightarrow> runCommand \<Rightarrow> helperManager \<Rightarrow> string \<Rightarrow> string \<Rightarrow> string helperEvent list \<times> string result" where
  "flight_run env run m key containerID =
     (case hm_ready m key of
        Some remotePath \<Rightarrow> ([], Inr remotePath)
      | None \<Rightarrow>
          let remotePath = helper_remotePath env (hm_remoteDir m) key
          in case manager_load env (hm_localPath m) of
               Inl err \<Rightarrow> ([], Inl (Wrap ''read helper binary: %w'' [] err))
             | Inr data \<Rightarrow>
                 (case manager_copy env run containerID remotePath data of
                    (log, Some err) \<Rightarrow> (log, Inl err)
                  | (log, None) \<Rightarrow>
                      (case manager_probe env run (hm_manifest m) containerID remotePath of
                         (log2, Some err) \<Rightarrow> (log @ log2, Inl (Wrap ''verify injected helper: %w'' [] err))
                       | (log2, None) \<Rightarrow> (log @ log2, Inr remotePath))))"

text \<open>The end of a flight: a success is cached, and every caller waiting for the key gets the result.\<close>

definition flight_end :: "helperEnv \<Rightarrow> runCommand \<Rightarrow> string \<Rightarrow> string \<Rightarrow> helperManager \<Rightarrow> helperManager" where
  "flight_end env run key containerID m =
     (case flight_run env run m key containerID of
        (log, result) \<Rightarrow>
          m\<lparr> hm_inflight := filter (\<lambda>f. fst f \<noteq> key) (hm_inflight m),
             hm_ready := (case result of Inr remotePath \<Rightarrow> (hm_ready m)(key \<mapsto> remotePath) | Inl _ \<Rightarrow> hm_ready m),
             hm_waiting := filter (\<lambda>(_, _, k). k \<noteq> key) (hm_waiting m),
             hm_returned := map (\<lambda>(caller, c, _). (caller, c, result)) (filter (\<lambda>(_, _, k). k = key) (hm_waiting m)) @ hm_returned m,
             hm_log := hm_log m @ log \<rparr>)"

text \<open>A caller whose context ends, and an entry that the cache drops.\<close>

definition prepare_canceled :: "nat \<times> string \<times> string \<Rightarrow> helperManager \<Rightarrow> helperManager" where
  "prepare_canceled waiter m =
     give (fst waiter) (fst (snd waiter)) (Inl ContextCanceled) (m\<lparr> hm_waiting := remove1 waiter (hm_waiting m) \<rparr>)"

definition ready_expired :: "string \<Rightarrow> helperManager \<Rightarrow> helperManager" where
  "ready_expired key m = m\<lparr> hm_ready := (hm_ready m)(key := None) \<rparr>"

inductive manager_step :: "helperEnv \<Rightarrow> helperManager \<Rightarrow> helperManager \<Rightarrow> bool" for env where
  prepare_step: "manager_step env m (manager_prepare caller containerID capability m)"
| flight_step: "(key, containerID) \<in> set (hm_inflight m) \<Longrightarrow> manager_step env m (flight_end env run key containerID m)"
| cancel_step: "waiter \<in> set (hm_waiting m) \<Longrightarrow> manager_step env m (prepare_canceled waiter m)"
| expire_step: "manager_step env m (ready_expired key m)"

section \<open>A helper that is handed out was verified\<close>

text \<open>In the log, a version probe of the path in the container answered with the build of the manifest.\<close>

definition verified :: "helperEnv \<Rightarrow> Manifest \<Rightarrow> 'c helperEvent list \<Rightarrow> 'c \<Rightarrow> string \<Rightarrow> bool" where
  "verified env manifest log c remotePath =
     (\<exists>r actual. Ran c (version_command remotePath) [] r \<in> set log \<and> eo_Err r = None \<and> eo_Code r = 0 \<and>
        hv_decode env (eo_Stdout r) = Inr actual \<and> mf_Version actual = mf_Version manifest \<and>
        mf_Commit actual = mf_Commit manifest \<and> mf_ProtocolVersion actual = ProtocolVersion \<and>
        set (mf_Capabilities manifest) \<subseteq> set (mf_Capabilities actual))"

lemma verified_mono: "verified env manifest log c path \<Longrightarrow> set log \<subseteq> set log' \<Longrightarrow> verified env manifest log' c path"
  unfolding verified_def by (meson subsetD)

lemma sameCapabilities_subset: "sameCapabilities actual expected \<Longrightarrow> set expected \<subseteq> set actual"
  by (auto simp: sameCapabilities_def list_all_iff split: if_splits)

lemma manager_probe_verified:
  assumes "manager_probe env run manifest c path = (log, None)"
  shows "verified env manifest log c path"
proof -
  let ?r = "run (version_command path) []"
  have log: "log = [Ran c (version_command path) [] ?r]" using assms by (simp add: manager_probe_def Let_def)
  obtain actual where "eo_Err ?r = None" "eo_Code ?r = 0" "hv_decode env (eo_Stdout ?r) = Inr actual"
      "mf_ProtocolVersion actual = ProtocolVersion" "mf_Version actual = mf_Version manifest"
      "mf_Commit actual = mf_Commit manifest" "sameCapabilities (mf_Capabilities actual) (mf_Capabilities manifest)"
    using assms by (auto simp: manager_probe_def Let_def split: option.splits sum.splits if_splits)
  then show ?thesis unfolding verified_def log
    by (intro exI[of _ ?r] exI[of _ actual]) (simp add: sameCapabilities_subset)
qed

lemma flight_run_verified:
  assumes run: "flight_run env run m key c = (log, Inr path)" and cold: "hm_ready m key = None"
  shows "verified env (hm_manifest m) log c path"
proof -
  let ?p = "helper_remotePath env (hm_remoteDir m) key"
  obtain data where data: "manager_load env (hm_localPath m) = Inr data"
    using run cold by (cases "manager_load env (hm_localPath m)") (auto simp: flight_run_def)
  obtain log1 e1 where copy: "manager_copy env run c ?p data = (log1, e1)" by fastforce
  obtain log2 e2 where probe: "manager_probe env run (hm_manifest m) c ?p = (log2, e2)" by fastforce
  have e: "e1 = None" "e2 = None" and r: "log = log1 @ log2" "path = ?p"
    using run cold by (cases e1; cases e2; simp add: flight_run_def data copy probe)+
  have "verified env (hm_manifest m) log2 c ?p" by (rule manager_probe_verified[OF probe[unfolded e]])
  then show ?thesis unfolding r(2) by (rule verified_mono) (simp add: r)
qed

lemma manager_key_inject: "manager_key m c = manager_key m c' \<longleftrightarrow> c = c'"
  by (simp add: manager_key_def)

definition manager_inv :: "helperEnv \<Rightarrow> helperManager \<Rightarrow> bool" where
  "manager_inv env m =
     ((\<forall>c path. hm_ready m (manager_key m c) = Some path \<longrightarrow> verified env (hm_manifest m) (hm_log m) c path) \<and>
      (\<forall>key c. (key, c) \<in> set (hm_inflight m) \<longrightarrow> key = manager_key m c) \<and>
      (\<forall>caller c key. (caller, c, key) \<in> set (hm_waiting m) \<longrightarrow> key = manager_key m c) \<and>
      (\<forall>caller c path. (caller, c, Inr path) \<in> set (hm_returned m) \<longrightarrow> verified env (hm_manifest m) (hm_log m) c path))"

lemma flight_result_verified:
  assumes inv: "manager_inv env m" and run: "flight_run env run m (manager_key m c) c = (log, Inr path)"
  shows "verified env (hm_manifest m) (hm_log m @ log) c path"
proof (cases "hm_ready m (manager_key m c)")
  case None
  show ?thesis by (rule verified_mono[OF flight_run_verified[OF run None]]) simp
next
  case (Some p)
  then have "p = path" "log = []" using run by (simp_all add: flight_run_def)
  then show ?thesis using inv Some by (simp add: manager_inv_def)
qed

lemma manager_key_update [simp]:
  "manager_key (m\<lparr>hm_waiting := w\<rparr>) c = manager_key m c"
  "manager_key (m\<lparr>hm_inflight := fl\<rparr>) c = manager_key m c"
  "manager_key (m\<lparr>hm_returned := r\<rparr>) c = manager_key m c"
  "manager_key (m\<lparr>hm_ready := rd\<rparr>) c = manager_key m c"
  "manager_key (m\<lparr>hm_log := l\<rparr>) c = manager_key m c"
  by (simp_all add: manager_key_def)

lemma manager_inv_prepare: "manager_inv env m \<Longrightarrow> manager_inv env (manager_prepare caller c capability m)"
  by (auto simp: manager_inv_def manager_prepare_def give_def Let_def split: option.splits)

lemma manager_inv_canceled: "manager_inv env m \<Longrightarrow> manager_inv env (prepare_canceled waiter m)"
  using set_remove1_subset[of waiter "hm_waiting m"]
  by (auto simp: manager_inv_def prepare_canceled_def give_def)

lemma manager_inv_expired: "manager_inv env m \<Longrightarrow> manager_inv env (ready_expired key m)"
  by (simp add: manager_inv_def ready_expired_def)

lemma manager_inv_flight:
  assumes inv: "manager_inv env m" and fl: "(key, c) \<in> set (hm_inflight m)"
  shows "manager_inv env (flight_end env run key c m)"
proof -
  have key: "key = manager_key m c" using inv fl by (auto simp: manager_inv_def)
  obtain log result where run: "flight_run env run m key c = (log, result)" by fastforce
  have old: "verified env (hm_manifest m) (hm_log m) c' p \<Longrightarrow> verified env (hm_manifest m) (hm_log m @ log) c' p" for c' p
    by (erule verified_mono) simp
  have new: "result = Inr p \<Longrightarrow> verified env (hm_manifest m) (hm_log m @ log) c p" for p
    using flight_result_verified[OF inv, of run c log p] run key by simp
  have same: "(a, c', manager_key m c) \<in> set (hm_waiting m) \<Longrightarrow> c' = c" for a c'
    using inv manager_key_inject[of m c c'] by (simp add: manager_inv_def)
  show ?thesis
    using inv old new
    by (auto dest!: same simp: manager_inv_def flight_end_def run[unfolded key] key manager_key_inject split: sum.splits if_splits)
qed

lemma manager_inv_step: "manager_inv env m \<Longrightarrow> manager_step env m m' \<Longrightarrow> manager_inv env m'"
  by (erule manager_step.cases)
    (simp_all add: manager_inv_prepare manager_inv_flight manager_inv_canceled manager_inv_expired)

lemma manager_inv_new:
  "s = newHelperManager info localPath remoteDir \<Longrightarrow> manager_inv env s \<and> hm_manifest s = CurrentManifest info"
  by (simp add: manager_inv_def newHelperManager_def)

lemma manager_step_manifest: "manager_step env m m' \<Longrightarrow> hm_manifest m' = hm_manifest m"
  by (induction rule: manager_step.induct)
    (simp_all add: manager_prepare_def give_def flight_end_def prepare_canceled_def ready_expired_def Let_def case_prod_unfold
      split: option.split)

interpretation managed: inductive_invariant
  "\<lambda>m. m = newHelperManager info localPath remoteDir" "manager_step env"
  "\<lambda>m. manager_inv env m \<and> hm_manifest m = CurrentManifest info" for info localPath remoteDir env
  by unfold_locales (erule manager_inv_new, metis manager_inv_step manager_step_manifest)

text \<open>
  A helper path that the node agent's manager hands to a caller, from its cache or from a shared
  flight, has answered a version probe in that caller's container with the version, the commit, the
  protocol and every capability of the agent's own build, whatever the commands run in the containers
  answer, whichever callers give up and whenever cache entries expire.
\<close>

lemma helper_handed_out_verified:
  assumes "reach (\<lambda>m. m = newHelperManager info localPath remoteDir) (manager_step env) m"
    and "(caller, containerID, Inr path) \<in> set (hm_returned m)"
  shows "verified env (CurrentManifest info) (hm_log m) containerID path"
proof -
  have "manager_inv env m" "hm_manifest m = CurrentManifest info" using managed.reach_inv[OF assms(1)] by blast+
  then show ?thesis using assms(2) unfolding manager_inv_def by metis
qed

definition sample_info :: buildInfo where
  "sample_info = \<lparr> bi_GitVersion = ''v1'', bi_GitCommit = ''abc'', bi_BuildDate = [], bi_GOOS = ''linux'', bi_GOARCH = ''arm64'' \<rparr>"

definition sample_helperEnv :: helperEnv where
  "sample_helperEnv = \<lparr> hv_digest = (\<lambda>_. ''d1''), hv_decode = (\<lambda>_. Inr (CurrentManifest sample_info)),
     hv_archive = (\<lambda>_ data. Inr data), hv_readFile = (\<lambda>_. Inr ''elf'') \<rparr>"

definition sample_run :: runCommand where
  "sample_run command input = \<lparr> eo_Code = 0, eo_Err = None, eo_Stdout = [], eo_Stderr = [] \<rparr>"

definition sample_prepared :: helperManager where
  "sample_prepared = (newHelperManager sample_info ''/helper'' [])
     \<lparr> hm_waiting := [(7, ''c1'', ''c1'' @ NUL @ ''v1'' @ NUL @ ''abc'')],
       hm_inflight := [(''c1'' @ NUL @ ''v1'' @ NUL @ ''abc'', ''c1'')] \<rparr>"

lemma sample_prepare: "manager_prepare 7 ''c1'' HelperSFTP (newHelperManager sample_info ''/helper'' []) = sample_prepared"
  by (simp add: manager_prepare_def newHelperManager_def sample_prepared_def manager_key_def CurrentManifest_def
      Capabilities_def sample_info_def Let_def)

lemma sample_remotePath: "helper_remotePath sample_helperEnv ''/tmp'' key = ''/tmp/kube-ssh-helper-d1''"
proof -
  have "take 32 (hv_digest sample_helperEnv key) = ''d1''" by (simp add: sample_helperEnv_def)
  moreover have "filepath_Join ''/tmp'' (''kube-ssh-helper-'' @ ''d1'') = ''/tmp/kube-ssh-helper-d1''"
    by (simp add: filepath_Join_def filepath_Clean_def path_elements_def path_rooted_def push_element_def Let_def)
  ultimately show ?thesis by (simp only: helper_remotePath_def)
qed

lemma sample_copy: "snd (manager_copy sample_helperEnv sample_run c path data) = None"
  by (simp add: manager_copy_def sample_run_def Let_def)

lemma sample_probe: "snd (manager_probe sample_helperEnv sample_run (CurrentManifest sample_info) c path) = None"
  by (simp add: manager_probe_def sample_run_def sample_helperEnv_def Let_def CurrentManifest_def sameCapabilities_def
      list_all_iff)

lemma sample_flight:
  "snd (flight_run sample_helperEnv sample_run sample_prepared key c) = Inr ''/tmp/kube-ssh-helper-d1''"
proof -
  obtain l1 where 1: "manager_copy sample_helperEnv sample_run c ''/tmp/kube-ssh-helper-d1'' ''elf'' = (l1, None)"
    using sample_copy by (metis prod.collapse)
  obtain l2 where 2: "manager_probe sample_helperEnv sample_run (CurrentManifest sample_info) c ''/tmp/kube-ssh-helper-d1'' = (l2, None)"
    using sample_probe by (metis prod.collapse)
  have load: "manager_load sample_helperEnv ''/helper'' = Inr ''elf''"
    by (simp add: manager_load_def sample_helperEnv_def)
  have "hm_ready sample_prepared key = None" "hm_remoteDir sample_prepared = ''/tmp''"
      "hm_localPath sample_prepared = ''/helper''" "hm_manifest sample_prepared = CurrentManifest sample_info"
    by (simp_all add: sample_prepared_def newHelperManager_def)
  then show ?thesis by (simp only: flight_run_def Let_def option.case sample_remotePath load sum.case 1 2 prod.case snd_conv)
qed

text \<open>A flight for one caller, which succeeds.\<close>

definition sample_ready :: helperManager where
  "sample_ready = flight_end sample_helperEnv sample_run (''c1'' @ NUL @ ''v1'' @ NUL @ ''abc'') ''c1'' sample_prepared"

lemma sample_reached:
  "reach (\<lambda>m. m = newHelperManager sample_info ''/helper'' []) (manager_step sample_helperEnv) sample_ready"
proof -
  let ?new = "newHelperManager sample_info ''/helper'' []" and ?step = "manager_step sample_helperEnv"
  have "?step ?new sample_prepared" using prepare_step[of sample_helperEnv ?new 7 "''c1''" HelperSFTP] by (simp only: sample_prepare)
  then have reached: "reach (\<lambda>m. m = ?new) ?step sample_prepared"
    by (rule reach_step[where s = ?new and step = ?step, rotated]) (rule reach_init, rule refl)
  have "(''c1'' @ NUL @ ''v1'' @ NUL @ ''abc'', ''c1'') \<in> set (hm_inflight sample_prepared)"
    by (simp add: sample_prepared_def)
  then have "?step sample_prepared sample_ready" unfolding sample_ready_def by (rule flight_step)
  with reached show ?thesis by (rule reach_step[where s = sample_prepared and step = ?step])
qed

lemma sample_returned: "(7, ''c1'', Inr ''/tmp/kube-ssh-helper-d1'') \<in> set (hm_returned sample_ready)"
  by (simp add: sample_ready_def flight_end_def case_prod_unfold sample_flight) (auto simp: sample_prepared_def image_iff)

end
