(* ===== verification/ApiServerTransport.thy ===== *)
theory ApiServerTransport
  imports HelperBinary
begin

text \<open>
  The transport through the Kubernetes API server (pkg/podssh/backend/apiserver): exec and port
  forward requests for the Pod of a target, and helper commands with a helper binary that an
  acquirer copies into the container once and shares between callers.  Client-go is a parameter, as
  for the node transport.
\<close>

section \<open>Exec and port forwarding (exec.go, port\_forward.go)\<close>

record apiRequest =
  aq_Namespace :: string
  aq_Pod :: string
  aq_Subresource :: string
  aq_Container :: string
  aq_Command :: "string list"
  aq_Stdin :: bool
  aq_Stdout :: bool
  aq_Stderr :: bool
  aq_TTY :: bool

record apiNet =
  an_NewExecutor :: "apiRequest \<Rightarrow> go_error option"
  an_Stream :: "apiRequest \<Rightarrow> streamOutcome"

definition apiserver_Exec :: "apiNet \<Rightarrow> ExecRequest \<Rightarrow> apiRequest list \<times> int \<times> go_error option" where
  "apiserver_Exec net req =
     (case Parse (Some (er_Target req)) of
        Inl err \<Rightarrow> ([], 1, Some err)
      | Inr podTarget \<Rightarrow>
          let restReq = \<lparr> aq_Namespace = r_Namespace podTarget, aq_Pod = r_Pod podTarget, aq_Subresource = ''exec'',
                aq_Container = r_Container podTarget, aq_Command = er_Command req, aq_Stdin = stream_given (er_Stdin req),
                aq_Stdout = stream_given (er_Stdout req), aq_Stderr = (\<not> er_TTY req \<and> stream_given (er_Stderr req)),
                aq_TTY = er_TTY req \<rparr>
          in case an_NewExecutor net restReq of
               Some err \<Rightarrow> ([], 1, Some (Wrap ''create executor: %w'' [] err))
             | None \<Rightarrow> ([restReq], stream_result ''exec stream: %w'' (an_Stream net restReq)))"

definition apiserver_PortForward ::
  "(string \<Rightarrow> string \<Rightarrow> spdyDial) \<Rightarrow> PodPortForwardRequest \<Rightarrow> ((string \<times> string) \<times> spdyEffect list) list \<times> portForwardStream result" where
  "apiserver_PortForward dial req =
     (case Parse (Some (ppf_Target req)) of
        Inl err \<Rightarrow> ([], Inl err)
      | Inr podTarget \<Rightarrow>
          (case open_portForward ''API Server'' (dial (r_Namespace podTarget) (r_Pod podTarget)) (ppf_Port req) of
             (effects, r) \<Rightarrow> ([((r_Namespace podTarget, r_Pod podTarget), effects)], r)))"

section \<open>Copying and probing (helper\_copy.go)\<close>

definition helperCachePrefix :: "Target \<Rightarrow> string" where
  "helperCachePrefix tgt = Target_String tgt @ NUL @ b_UID (BoundIdentity tgt) @ NUL"

definition helperCacheKey :: "Target \<Rightarrow> Manifest \<Rightarrow> string" where
  "helperCacheKey tgt manifest = helperCachePrefix tgt @ mf_Version manifest @ NUL @ mf_Commit manifest"

definition copy_outcome :: "execOutcome \<Rightarrow> go_error option" where
  "copy_outcome r =
     (case eo_Err r of
        Some err \<Rightarrow> Some err
      | None \<Rightarrow> if eo_Code r \<noteq> 0 then Some (ServiceUnavailable ''helper copy exited with %d'' [FormatInt (eo_Code r)]) else None)"

type_synonym copyMethod = "string \<Rightarrow> string \<Rightarrow> Target helperEvent list \<times> go_error option"

definition copyHelperBinaryWithShell :: "runCommand \<Rightarrow> Target \<Rightarrow> copyMethod" where
  "copyHelperBinaryWithShell run tgt remotePath data =
     (let r = run (shell_copy_command remotePath) data
      in ([Ran tgt (shell_copy_command remotePath) data r], copy_outcome r))"

definition copyHelperBinaryWithTar :: "helperEnv \<Rightarrow> runCommand \<Rightarrow> Target \<Rightarrow> copyMethod" where
  "copyHelperBinaryWithTar env run tgt remotePath data =
     (case hv_archive env (path_Base remotePath) data of
        Inl err \<Rightarrow> ([], Some err)
      | Inr archive \<Rightarrow>
          let r = run (tar_copy_command remotePath) archive
          in ([Ran tgt (tar_copy_command remotePath) archive r], copy_outcome r))"

definition copyMethods :: "helperEnv \<Rightarrow> runCommand \<Rightarrow> Target \<Rightarrow> (string \<times> copyMethod) list" where
  "copyMethods env run tgt =
     [(''sh/cat/chmod'', copyHelperBinaryWithShell run tgt), (''tar'', copyHelperBinaryWithTar env run tgt)]"

text \<open>
  The methods in turn until one succeeds; the joined error of the code is represented by the methods
  that failed.
\<close>

fun try_methods :: "(string \<times> copyMethod) list \<Rightarrow> string \<Rightarrow> string \<Rightarrow> string list \<Rightarrow> Target helperEvent list \<times> string result" where
  "try_methods [] remotePath data failures = ([], Inl (Errorf ''inject helper: %w'' failures))"
| "try_methods ((name, copy) # methods) remotePath data failures =
     (case copy remotePath data of
        (log, None) \<Rightarrow> (log, Inr remotePath)
      | (log, Some err) \<Rightarrow>
          (case try_methods methods remotePath data (failures @ [name]) of (log2, r) \<Rightarrow> (log @ log2, r)))"

definition copyHelperBinary ::
  "helperEnv \<Rightarrow> string \<Rightarrow> runCommand \<Rightarrow> Target \<Rightarrow> string \<Rightarrow> Manifest \<Rightarrow> Target helperEvent list \<times> string result" where
  "copyHelperBinary env remoteDir run tgt data manifest =
     try_methods (copyMethods env run tgt) (helper_remotePath env remoteDir (helperCacheKey tgt manifest)) data []"

definition probeVersion :: "helperEnv \<Rightarrow> runCommand \<Rightarrow> Target \<Rightarrow> string \<Rightarrow> Target helperEvent list \<times> Manifest result" where
  "probeVersion env run tgt remotePath =
     (let r = run (version_command remotePath) []
      in ([Ran tgt (version_command remotePath) [] r],
          case eo_Err r of
            Some err \<Rightarrow> Inl (Wrap ''run helper version: %w'' [] err)
          | None \<Rightarrow>
              if eo_Code r \<noteq> 0
              then Inl (ServiceUnavailable ''helper version exited with %d: %s'' [FormatInt (eo_Code r), TrimSpace (eo_Stderr r)])
              else case hv_decode env (eo_Stdout r) of
                     Inl err \<Rightarrow> Inl (Wrap ''decode helper version: %w'' [] err)
                   | Inr manifest \<Rightarrow> Inr manifest))"

definition prepareHelper ::
  "helperEnv \<Rightarrow> string \<Rightarrow> runCommand \<Rightarrow> Target \<Rightarrow> string \<Rightarrow> Manifest \<Rightarrow> Target helperEvent list \<times> (string \<times> Manifest) result" where
  "prepareHelper env remoteDir run tgt data expected =
     (case copyHelperBinary env remoteDir run tgt data expected of
        (log, Inl err) \<Rightarrow> (log, Inl err)
      | (log, Inr remotePath) \<Rightarrow>
          (case probeVersion env run tgt remotePath of
             (log2, Inl err) \<Rightarrow> (log @ log2, Inl err)
           | (log2, Inr manifest) \<Rightarrow>
               (case validateHelperManifest manifest expected [] of
                  Some err \<Rightarrow> (log @ log2, Inl err)
                | None \<Rightarrow> (log @ log2, Inr (remotePath, manifest)))))"

definition readHelperBinary :: "helperEnv \<Rightarrow> string \<Rightarrow> string result" where
  "readHelperBinary env localPath =
     (case hv_readFile env localPath of Inl err \<Rightarrow> Inl (Wrap ''read helper binary: %w'' [] err) | Inr data \<Rightarrow> Inr data)"

section \<open>The acquirer\<close>

text \<open>
  The states are shared by reference: a state is an index, and the map of the acquirer leads from keys
  to indices.  A state remembers the key it was made for.
\<close>

record copyHelperState =
  chs_key :: string
  chs_done :: bool
  chs_path :: string
  chs_manifest :: Manifest
  chs_err :: "go_error option"

record acquireCall =
  aw_caller :: nat
  aw_target :: Target
  aw_capability :: string
  aw_key :: string
  aw_state :: nat

record copyHelperAcquirer =
  ca_localPath :: string
  ca_remoteDir :: string
  ca_expected :: Manifest
  ca_helpers :: "string \<rightharpoonup> nat"
  ca_states :: "copyHelperState list"
  ca_owners :: "acquireCall list"
  ca_waiters :: "acquireCall list"
  ca_returned :: "(nat \<times> Target \<times> string \<times> string result) list"
  ca_log :: "Target helperEvent list"

definition newCopyHelperAcquirer :: "buildInfo \<Rightarrow> string \<Rightarrow> string \<Rightarrow> copyHelperAcquirer" where
  "newCopyHelperAcquirer info localPath remoteDir =
     \<lparr> ca_localPath = localPath, ca_remoteDir = (if remoteDir = [] then ''/tmp'' else remoteDir),
       ca_expected = CurrentManifest info, ca_helpers = Map.empty, ca_states = [], ca_owners = [], ca_waiters = [],
       ca_returned = [], ca_log = [] \<rparr>"

text \<open>The transport: its acquirer with the options' path and directory.\<close>

definition apiserver_New :: "buildInfo \<Rightarrow> string \<Rightarrow> string \<Rightarrow> copyHelperAcquirer" where
  "apiserver_New info helperPath helperRemoteDir =
     newCopyHelperAcquirer info helperPath (if helperRemoteDir = [] then ''/tmp'' else helperRemoteDir)"

definition helperState :: "string \<Rightarrow> copyHelperAcquirer \<Rightarrow> copyHelperAcquirer \<times> nat \<times> bool" where
  "helperState key a =
     (case ca_helpers a key of
        Some i \<Rightarrow> (a, i, False)
      | None \<Rightarrow>
          let i = length (ca_states a)
          in (a\<lparr> ca_states := ca_states a @ [\<lparr> chs_key = key, chs_done = False, chs_path = [], chs_manifest = zero_Manifest, chs_err = None \<rparr>],
                 ca_helpers := (ca_helpers a)(key \<mapsto> i) \<rparr>, i, True))"

definition finishHelperState :: "string \<Rightarrow> nat \<Rightarrow> copyHelperState \<Rightarrow> copyHelperAcquirer \<Rightarrow> copyHelperAcquirer" where
  "finishHelperState key i state a =
     a\<lparr> ca_states := (ca_states a)[i := state\<lparr> chs_done := True \<rparr>],
        ca_helpers := (if chs_err state \<noteq> None \<and> ca_helpers a key = Some i then (ca_helpers a)(key := None) else ca_helpers a) \<rparr>"

definition acquire_return :: "nat \<Rightarrow> Target \<Rightarrow> string \<Rightarrow> string result \<Rightarrow> copyHelperAcquirer \<Rightarrow> copyHelperAcquirer" where
  "acquire_return caller tgt capability result a = a\<lparr> ca_returned := (caller, tgt, capability, result) # ca_returned a \<rparr>"

text \<open>The result of a call once its state is done.\<close>

definition acquire_result :: "Manifest \<Rightarrow> string \<Rightarrow> copyHelperState \<Rightarrow> string result" where
  "acquire_result expected capability state =
     (case chs_err state of
        Some err \<Rightarrow> Inl err
      | None \<Rightarrow>
          (case validateHelperManifest (chs_manifest state) expected capability of
             Some err \<Rightarrow> Inl err
           | None \<Rightarrow> Inr (chs_path state)))"

text \<open>
  \<^verbatim>\<open>Acquire\<close> in three parts: up to taking a state, the work of the call that owns a new state, and
  the end of a call that waited for the state of another.
\<close>

definition Acquire_begin :: "nat \<Rightarrow> Target \<Rightarrow> string \<Rightarrow> copyHelperAcquirer \<Rightarrow> copyHelperAcquirer" where
  "Acquire_begin caller tgt capability a =
     (if ca_localPath a = []
      then acquire_return caller tgt capability (Inl (ServiceUnavailable ''helper path is required for %s'' [capability])) a
      else
        let key = helperCacheKey tgt (ca_expected a) in
        case helperState key a of
          (a1, i, owner) \<Rightarrow>
            let call = \<lparr> aw_caller = caller, aw_target = tgt, aw_capability = capability, aw_key = key, aw_state = i \<rparr>
            in if owner then a1\<lparr> ca_owners := call # ca_owners a1 \<rparr> else a1\<lparr> ca_waiters := call # ca_waiters a1 \<rparr>)"

definition owner_work :: "helperEnv \<Rightarrow> runCommand \<Rightarrow> acquireCall \<Rightarrow> copyHelperAcquirer \<Rightarrow> Target helperEvent list \<times> copyHelperState" where
  "owner_work env run call a =
     (let state = ca_states a ! aw_state call in
      case readHelperBinary env (ca_localPath a) of
        Inl err \<Rightarrow> ([], state\<lparr> chs_err := Some err \<rparr>)
      | Inr data \<Rightarrow>
          (case prepareHelper env (ca_remoteDir a) run (aw_target call) data (ca_expected a) of
             (log, Inl err) \<Rightarrow> (log, state\<lparr> chs_path := [], chs_manifest := zero_Manifest, chs_err := Some err \<rparr>)
           | (log, Inr (path, manifest)) \<Rightarrow> (log, state\<lparr> chs_path := path, chs_manifest := manifest, chs_err := None \<rparr>)))"

definition Acquire_own :: "helperEnv \<Rightarrow> runCommand \<Rightarrow> acquireCall \<Rightarrow> copyHelperAcquirer \<Rightarrow> copyHelperAcquirer" where
  "Acquire_own env run call a =
     (case owner_work env run call a of
        (log, state) \<Rightarrow>
          acquire_return (aw_caller call) (aw_target call) (aw_capability call)
            (acquire_result (ca_expected a) (aw_capability call) state)
            (finishHelperState (aw_key call) (aw_state call) state
              (a\<lparr> ca_owners := remove1 call (ca_owners a), ca_log := ca_log a @ log \<rparr>)))"

definition Acquire_wait :: "acquireCall \<Rightarrow> copyHelperAcquirer \<Rightarrow> copyHelperAcquirer" where
  "Acquire_wait call a =
     acquire_return (aw_caller call) (aw_target call) (aw_capability call)
       (acquire_result (ca_expected a) (aw_capability call) (ca_states a ! aw_state call))
       (a\<lparr> ca_waiters := remove1 call (ca_waiters a) \<rparr>)"

definition Acquire_canceled :: "acquireCall \<Rightarrow> copyHelperAcquirer \<Rightarrow> copyHelperAcquirer" where
  "Acquire_canceled call a =
     acquire_return (aw_caller call) (aw_target call) (aw_capability call) (Inl ContextCanceled)
       (a\<lparr> ca_waiters := remove1 call (ca_waiters a) \<rparr>)"

definition Invalidate :: "Target \<Rightarrow> copyHelperAcquirer \<Rightarrow> copyHelperAcquirer" where
  "Invalidate tgt a =
     a\<lparr> ca_helpers := (\<lambda>key. if HasPrefix key (helperCachePrefix tgt) then None else ca_helpers a key) \<rparr>"

inductive acquirer_step :: "helperEnv \<Rightarrow> copyHelperAcquirer \<Rightarrow> copyHelperAcquirer \<Rightarrow> bool" for env where
  begin_step: "acquirer_step env a (Acquire_begin caller tgt capability a)"
| own_step: "call \<in> set (ca_owners a) \<Longrightarrow> acquirer_step env a (Acquire_own env run call a)"
| wait_step: "call \<in> set (ca_waiters a) \<Longrightarrow> chs_done (ca_states a ! aw_state call) \<Longrightarrow> acquirer_step env a (Acquire_wait call a)"
| waiter_canceled_step: "call \<in> set (ca_waiters a) \<Longrightarrow> acquirer_step env a (Acquire_canceled call a)"
| invalidate_step: "acquirer_step env a (Invalidate tgt a)"

section \<open>Leases (helper\_acquirer.go)\<close>

datatype leaseEffect =
    HelperAcquireFinished string bool
  | HelperAcquired string
  | HelperReleased string bool

record metricsHelperLease =
  ml_path :: string
  ml_capability :: string
  ml_released :: bool

definition acquireHelper :: "string result \<Rightarrow> string \<Rightarrow> leaseEffect list \<times> metricsHelperLease result" where
  "acquireHelper acquired capability =
     (case acquired of
        Inl err \<Rightarrow> ([HelperAcquireFinished capability False], Inl err)
      | Inr path \<Rightarrow>
          ([HelperAcquired capability, HelperAcquireFinished capability True],
           Inr \<lparr> ml_path = path, ml_capability = capability, ml_released = False \<rparr>))"

definition lease_Command :: "metricsHelperLease \<Rightarrow> string list \<Rightarrow> string list" where
  "lease_Command lease args = ml_path lease # args"

text \<open>Releasing a copied helper does nothing; the metrics count the first release of a lease.\<close>

definition lease_Release :: "metricsHelperLease \<Rightarrow> leaseEffect list \<times> metricsHelperLease" where
  "lease_Release lease =
     (if ml_released lease then ([], lease)
      else ([HelperReleased (ml_capability lease) True], lease\<lparr> ml_released := True \<rparr>))"

text \<open>\<^verbatim>\<open>acquired\<close> is what the acquirer returned for this call.\<close>

definition apiserver_ExecHelper ::
  "apiNet \<Rightarrow> string result \<Rightarrow> HelperExecRequest \<Rightarrow> leaseEffect list \<times> apiRequest list \<times> int \<times> go_error option" where
  "apiserver_ExecHelper net acquired req =
     (case acquireHelper acquired (he_Capability req) of
        (effects, Inl err) \<Rightarrow> (effects, [], 1, Some err)
      | (effects, Inr lease) \<Rightarrow>
          (effects @ fst (lease_Release lease),
           apiserver_Exec net \<lparr> er_Target = sr_Target (he_Stream req), er_Command = lease_Command lease (he_Command req),
             er_Stdin = sr_Stdin (he_Stream req), er_Stdout = sr_Stdout (he_Stream req), er_Stderr = sr_Stderr (he_Stream req),
             er_TTY = False, er_TerminalSizeQueue = None \<rparr>))"

end
