(* ===== verification/ApiServerLaws.thy ===== *)
theory ApiServerLaws
  imports ApiServerTransport CriNodeLaws
begin

text \<open>
  Laws of the API server transport: a helper that is handed out answered a version probe of the
  same cache key, one caller prepares it while the others wait, failures are not cached, a
  cached helper is not probed again, and leases are released once.
\<close>

section \<open>Probed helpers\<close>

definition answered :: "helperEnv \<Rightarrow> Target helperEvent list \<Rightarrow> Target \<Rightarrow> string \<Rightarrow> Manifest \<Rightarrow> bool" where
  "answered env log tgt path manifest =
     (\<exists>r. Ran tgt (version_command path) [] r \<in> set log \<and> eo_Err r = None \<and> eo_Code r = 0 \<and>
        hv_decode env (eo_Stdout r) = Inr manifest)"

lemma answered_mono: "answered env log tgt path manifest \<Longrightarrow> set log \<subseteq> set log' \<Longrightarrow> answered env log' tgt path manifest"
  unfolding answered_def by (meson subsetD)

lemma probeVersion_answered:
  "probeVersion env run tgt path = (log, Inr manifest) \<Longrightarrow> answered env log tgt path manifest"
  unfolding probeVersion_def answered_def Let_def by (auto split: option.splits if_splits sum.splits)

lemma prepareHelper_answered:
  assumes "prepareHelper env dir run tgt data expected = (log, Inr (path, manifest))"
  shows "answered env log tgt path manifest"
proof -
  obtain log1 c where copy: "copyHelperBinary env dir run tgt data expected = (log1, c)" by fastforce
  then obtain p where c: "c = Inr p" using assms by (cases c) (auto simp: prepareHelper_def)
  obtain log2 m where probe: "probeVersion env run tgt p = (log2, m)" by fastforce
  then obtain mf where m: "m = Inr mf" using assms copy c by (cases m) (auto simp: prepareHelper_def)
  have r: "path = p" "manifest = mf" "log = log1 @ log2"
    using assms by (simp_all add: prepareHelper_def copy c probe m split: option.splits)
  have "answered env log2 tgt p mf" by (rule probeVersion_answered[of env run]) (simp add: probe m)
  then show ?thesis unfolding r by (rule answered_mono) simp
qed

lemma owner_work_key: "owner_work env run call a = (log, st) \<Longrightarrow> chs_key st = chs_key (ca_states a ! aw_state call)"
  by (auto simp: owner_work_def Let_def split: sum.splits prod.splits)

lemma owner_work_answered:
  assumes "owner_work env run call a = (log, st)" "chs_err st = None"
  shows "answered env log (aw_target call) (chs_path st) (chs_manifest st)"
  using assms by (auto simp: owner_work_def Let_def intro: prepareHelper_answered split: sum.splits prod.splits)

section \<open>Sharing\<close>

definition state_ok :: "helperEnv \<Rightarrow> Manifest \<Rightarrow> Target helperEvent list \<Rightarrow> copyHelperState \<Rightarrow> bool" where
  "state_ok env expected log st =
     (chs_done st \<and> chs_err st = None \<longrightarrow>
      (\<exists>tgt. helperCacheKey tgt expected = chs_key st \<and> answered env log tgt (chs_path st) (chs_manifest st)))"

definition call_ok :: "copyHelperAcquirer \<Rightarrow> acquireCall \<Rightarrow> bool" where
  "call_ok a call =
     (aw_state call < length (ca_states a) \<and>
      chs_key (ca_states a ! aw_state call) = helperCacheKey (aw_target call) (ca_expected a) \<and>
      aw_key call = helperCacheKey (aw_target call) (ca_expected a))"

definition lease_ok :: "helperEnv \<Rightarrow> Manifest \<Rightarrow> Target helperEvent list \<Rightarrow> Target \<Rightarrow> string \<Rightarrow> string \<Rightarrow> bool" where
  "lease_ok env expected log tgt capability path =
     (\<exists>tgt' manifest. helperCacheKey tgt' expected = helperCacheKey tgt expected \<and> answered env log tgt' path manifest \<and>
        validateHelperManifest manifest expected capability = None)"

text \<open>
  The parts of the invariant: what a done state holds, what the map leads to, what the calls refer
  to, who owns the states that are not done, and what was returned.
\<close>

definition states_ok :: "helperEnv \<Rightarrow> copyHelperAcquirer \<Rightarrow> bool" where
  "states_ok env a = (\<forall>i < length (ca_states a). state_ok env (ca_expected a) (ca_log a) (ca_states a ! i))"

definition helpers_ok :: "copyHelperAcquirer \<Rightarrow> bool" where
  "helpers_ok a =
     (\<forall>key i. ca_helpers a key = Some i \<longrightarrow> i < length (ca_states a) \<and> chs_key (ca_states a ! i) = key \<and>
        (chs_done (ca_states a ! i) \<longrightarrow> chs_err (ca_states a ! i) = None))"

definition calls_ok :: "copyHelperAcquirer \<Rightarrow> bool" where
  "calls_ok a = ((\<forall>call \<in> set (ca_owners a). call_ok a call) \<and> (\<forall>call \<in> set (ca_waiters a). call_ok a call))"

definition owners_ok :: "copyHelperAcquirer \<Rightarrow> bool" where
  "owners_ok a =
     (distinct (map aw_state (ca_owners a)) \<and>
      (\<forall>i < length (ca_states a). chs_done (ca_states a ! i) \<longleftrightarrow> i \<notin> aw_state ` set (ca_owners a)))"

definition returned_ok :: "helperEnv \<Rightarrow> copyHelperAcquirer \<Rightarrow> bool" where
  "returned_ok env a =
     (\<forall>caller tgt capability path. (caller, tgt, capability, Inr path) \<in> set (ca_returned a) \<longrightarrow>
        lease_ok env (ca_expected a) (ca_log a) tgt capability path)"

definition acquirer_inv :: "helperEnv \<Rightarrow> copyHelperAcquirer \<Rightarrow> bool" where
  "acquirer_inv env a = (states_ok env a \<and> helpers_ok a \<and> calls_ok a \<and> owners_ok a \<and> returned_ok env a)"

lemma call_ok_frame [simp]:
  "call_ok (a\<lparr> ca_waiters := w \<rparr>) = call_ok a" "call_ok (a\<lparr> ca_owners := os \<rparr>) = call_ok a"
  "call_ok (a\<lparr> ca_returned := r \<rparr>) = call_ok a" "call_ok (a\<lparr> ca_helpers := h \<rparr>) = call_ok a"
  "call_ok (a\<lparr> ca_log := l \<rparr>) = call_ok a"
  by (simp_all add: call_ok_def fun_eq_iff)

lemmas acquirer_inv_parts = states_ok_def helpers_ok_def calls_ok_def owners_ok_def returned_ok_def

lemma state_ok_mono: "state_ok env expected log st \<Longrightarrow> set log \<subseteq> set log' \<Longrightarrow> state_ok env expected log' st"
  unfolding state_ok_def using answered_mono by blast

lemma lease_ok_mono: "lease_ok env expected log tgt capability path \<Longrightarrow> set log \<subseteq> set log' \<Longrightarrow> lease_ok env expected log' tgt capability path"
  unfolding lease_ok_def using answered_mono by blast

lemma acquire_result_ok:
  assumes "acquire_result expected capability st = Inr path" "state_ok env expected log st" "chs_done st"
    and "chs_key st = helperCacheKey tgt expected"
  shows "lease_ok env expected log tgt capability path"
  using assms by (auto simp: acquire_result_def state_ok_def lease_ok_def split: option.splits)

lemma acquirer_inv_invalidate: "acquirer_inv env a \<Longrightarrow> acquirer_inv env (Invalidate tgt a)"
  by (simp add: acquirer_inv_def acquirer_inv_parts Invalidate_def)

lemma acquirer_inv_joined: "acquirer_inv env a \<Longrightarrow> call_ok a call \<Longrightarrow> acquirer_inv env (a\<lparr> ca_waiters := call # ca_waiters a \<rparr>)"
  by (simp add: acquirer_inv_def acquirer_inv_parts)

lemma acquirer_inv_left: "acquirer_inv env a \<Longrightarrow> acquirer_inv env (a\<lparr> ca_waiters := remove1 call (ca_waiters a) \<rparr>)"
  using set_remove1_subset[of call "ca_waiters a"] by (auto simp: acquirer_inv_def acquirer_inv_parts)

lemma acquirer_inv_return:
  assumes "acquirer_inv env a" "\<And>path. result = Inr path \<Longrightarrow> lease_ok env (ca_expected a) (ca_log a) tgt capability path"
  shows "acquirer_inv env (acquire_return caller tgt capability result a)"
  using assms by (auto simp: acquirer_inv_def acquirer_inv_parts acquire_return_def)

lemma call_ok_append: "call_ok a call \<Longrightarrow> call_ok (a\<lparr> ca_states := ca_states a @ xs \<rparr>) call"
  by (simp add: call_ok_def nth_append)

lemma acquirer_inv_fresh:
  assumes inv: "acquirer_inv env a" and key: "ca_helpers a key = None" "key = helperCacheKey (aw_target call) (ca_expected a)"
    and call: "aw_key call = key" "aw_state call = length (ca_states a)"
    and st: "chs_key st = key" "\<not> chs_done st"
  shows "acquirer_inv env (a\<lparr> ca_states := ca_states a @ [st], ca_helpers := (ca_helpers a)(key \<mapsto> length (ca_states a)),
    ca_owners := call # ca_owners a \<rparr>)" (is "acquirer_inv env ?a")
proof -
  have old: "states_ok env a" "helpers_ok a" "calls_ok a" "owners_ok a" "returned_ok env a"
    using inv by (simp_all add: acquirer_inv_def)
  have "states_ok env ?a" using old(1) st by (auto simp: states_ok_def state_ok_def nth_append less_Suc_eq)
  moreover have "helpers_ok ?a" using old(2) st by (auto simp: helpers_ok_def nth_append less_Suc_eq)
  moreover have "calls_ok ?a"
    using old(3) call st key call_ok_append[of a _ "[st]"] by (auto simp: calls_ok_def) (simp add: call_ok_def)
  moreover have "owners_ok ?a"
  proof -
    have "length (ca_states a) \<notin> aw_state ` set (ca_owners a)"
      using old(3) by (auto simp: calls_ok_def call_ok_def)
    then show ?thesis using old(4) call st by (auto simp: owners_ok_def nth_append less_Suc_eq)
  qed
  moreover have "returned_ok env ?a" using old(5) by (simp add: returned_ok_def)
  ultimately show ?thesis by (simp add: acquirer_inv_def)
qed

lemma acquirer_inv_begin:
  assumes inv: "acquirer_inv env a"
  shows "acquirer_inv env (Acquire_begin caller tgt capability a)"
proof -
  let ?key = "helperCacheKey tgt (ca_expected a)"
  consider (nopath) "ca_localPath a = []" | (fresh) "ca_localPath a \<noteq> []" "ca_helpers a ?key = None"
    | (join) i where "ca_localPath a \<noteq> []" "ca_helpers a ?key = Some i" by fastforce
  then show ?thesis
  proof cases
    case nopath
    then show ?thesis by (simp add: Acquire_begin_def) (rule acquirer_inv_return[OF inv], simp)
  next
    case fresh
    let ?st = "\<lparr> chs_key = ?key, chs_done = False, chs_path = [], chs_manifest = zero_Manifest, chs_err = None \<rparr>"
    let ?call = "\<lparr> aw_caller = caller, aw_target = tgt, aw_capability = capability, aw_key = ?key, aw_state = length (ca_states a) \<rparr>"
    have "Acquire_begin caller tgt capability a = a\<lparr> ca_states := ca_states a @ [?st],
        ca_helpers := (ca_helpers a)(?key \<mapsto> length (ca_states a)), ca_owners := ?call # ca_owners a \<rparr>"
      using fresh by (simp add: Acquire_begin_def helperState_def Let_def)
    then show ?thesis using acquirer_inv_fresh[OF inv fresh(2), of ?call ?st] by simp
  next
    case join
    let ?call = "\<lparr> aw_caller = caller, aw_target = tgt, aw_capability = capability, aw_key = ?key, aw_state = i \<rparr>"
    have "call_ok a ?call" using inv join by (simp add: acquirer_inv_def helpers_ok_def call_ok_def)
    then show ?thesis using acquirer_inv_joined[OF inv] join by (simp add: Acquire_begin_def helperState_def Let_def)
  qed
qed

lemma acquirer_inv_wait:
  assumes inv: "acquirer_inv env a" and call: "call \<in> set (ca_waiters a)" "chs_done (ca_states a ! aw_state call)"
  shows "acquirer_inv env (Acquire_wait call a)"
  unfolding Acquire_wait_def
proof (rule acquirer_inv_return[OF acquirer_inv_left[OF inv]], simp)
  fix path assume r: "acquire_result (ca_expected a) (aw_capability call) (ca_states a ! aw_state call) = Inr path"
  have ok: "call_ok a call" using inv call(1) by (auto simp: acquirer_inv_def calls_ok_def)
  have "state_ok env (ca_expected a) (ca_log a) (ca_states a ! aw_state call)"
    using inv ok by (simp add: acquirer_inv_def states_ok_def call_ok_def)
  then show "lease_ok env (ca_expected a) (ca_log a) (aw_target call) (aw_capability call) path"
    by (rule acquire_result_ok[OF r _ call(2)]) (use ok in \<open>simp add: call_ok_def\<close>)
qed

lemma acquirer_inv_canceled: "acquirer_inv env a \<Longrightarrow> acquirer_inv env (Acquire_canceled call a)"
  unfolding Acquire_canceled_def by (rule acquirer_inv_return[OF acquirer_inv_left]) simp_all

lemma call_ok_update:
  "call_ok a call \<Longrightarrow> i < length (ca_states a) \<Longrightarrow> chs_key st = chs_key (ca_states a ! i) \<Longrightarrow>
    call_ok (a\<lparr> ca_states := (ca_states a)[i := st] \<rparr>) call"
  by (auto simp: call_ok_def nth_list_update)

lemma acquirer_inv_finish:
  assumes inv: "acquirer_inv env a" and call: "call \<in> set (ca_owners a)"
    and st: "chs_key st = chs_key (ca_states a ! aw_state call)"
    and new: "chs_err st = None \<Longrightarrow> answered env (ca_log a @ log) (aw_target call) (chs_path st) (chs_manifest st)"
  shows "acquirer_inv env (finishHelperState (aw_key call) (aw_state call) st
    (a\<lparr> ca_owners := remove1 call (ca_owners a), ca_log := ca_log a @ log \<rparr>))" (is "acquirer_inv env ?a")
proof -
  have old: "states_ok env a" "helpers_ok a" "calls_ok a" "owners_ok a" "returned_ok env a"
    using inv by (simp_all add: acquirer_inv_def)
  have ok: "call_ok a call" using old(3) call by (simp add: calls_ok_def)
  then have i: "aw_state call < length (ca_states a)" by (simp add: call_ok_def)
  have others: "aw_state ` set (remove1 call (ca_owners a)) = aw_state ` set (ca_owners a) - {aw_state call}"
    using old(4) call by (auto simp: owners_ok_def distinct_map set_remove1_eq inj_on_def)
  have "states_ok env ?a"
  proof -
    have "state_ok env (ca_expected a) (ca_log a @ log) (ca_states a ! i)" if "i < length (ca_states a)" for i
      using old(1) that state_ok_mono[of env "ca_expected a" "ca_log a" _ "ca_log a @ log"] by (auto simp: states_ok_def)
    moreover have "state_ok env (ca_expected a) (ca_log a @ log) (st\<lparr> chs_done := True \<rparr>)"
      using new ok st by (auto simp: state_ok_def call_ok_def)
    ultimately show ?thesis using i by (simp add: states_ok_def finishHelperState_def nth_list_update)
  qed
  moreover have "helpers_ok ?a"
    using old(2) ok st by (auto simp: helpers_ok_def finishHelperState_def nth_list_update call_ok_def)
  moreover have "calls_ok ?a"
  proof -
    have "call_ok a c \<Longrightarrow> call_ok ?a c" for c
      using call_ok_update[of a c "aw_state call" "st\<lparr> chs_done := True \<rparr>"] i st
      by (simp add: call_ok_def finishHelperState_def)
    then show ?thesis using old(3) set_remove1_subset[of call "ca_owners a"]
      by (auto simp: calls_ok_def) (simp_all add: finishHelperState_def, blast+)
  qed
  moreover have "owners_ok ?a"
  proof -
    have "distinct (map aw_state (remove1 call (ca_owners a)))"
      using old(4) set_remove1_subset[of call "ca_owners a"] by (auto simp: owners_ok_def distinct_map intro: inj_on_subset)
    then show ?thesis using old(4) i others by (auto simp: owners_ok_def finishHelperState_def nth_list_update)
  qed
  moreover have "returned_ok env ?a"
    using old(5) lease_ok_mono[of env "ca_expected a" "ca_log a" _ _ _ "ca_log a @ log"]
    by (auto simp: returned_ok_def finishHelperState_def)
  ultimately show ?thesis by (simp add: acquirer_inv_def)
qed

lemma acquirer_inv_own:
  assumes inv: "acquirer_inv env a" and call: "call \<in> set (ca_owners a)"
  shows "acquirer_inv env (Acquire_own env run call a)"
proof -
  obtain log st where w: "owner_work env run call a = (log, st)" by fastforce
  have new: "answered env (ca_log a @ log) (aw_target call) (chs_path st) (chs_manifest st)" if "chs_err st = None"
    by (rule answered_mono[OF owner_work_answered[OF w that]]) simp
  have ok: "call_ok a call" using inv call by (auto simp: acquirer_inv_def calls_ok_def)
  have lease: "lease_ok env (ca_expected a) (ca_log a @ log) (aw_target call) (aw_capability call) path"
    if "acquire_result (ca_expected a) (aw_capability call) st = Inr path" for path
    using that new by (auto simp: acquire_result_def lease_ok_def split: option.splits)
  show ?thesis
    unfolding Acquire_own_def w prod.case
    by (rule acquirer_inv_return[OF acquirer_inv_finish[OF inv call owner_work_key[OF w] new]])
      (simp_all add: finishHelperState_def lease)
qed

lemma validated_manifest:
  assumes "validateHelperManifest manifest (CurrentManifest info) capability = None"
  shows "mf_Version manifest = bi_GitVersion info" "mf_Commit manifest = bi_GitCommit info"
    "mf_ProtocolVersion manifest = ProtocolVersion" "capability = [] \<or> capability \<in> set (mf_Capabilities manifest)"
  using assms by (auto simp: validateHelperManifest_def CurrentManifest_def split: if_splits)

lemma acquirer_step_expected: "acquirer_step env a a' \<Longrightarrow> ca_expected a' = ca_expected a"
  by (induction rule: acquirer_step.induct)
    (simp_all add: Acquire_begin_def Acquire_own_def Acquire_wait_def Acquire_canceled_def Invalidate_def acquire_return_def
      finishHelperState_def helperState_def Let_def case_prod_unfold split: option.split)

lemma acquirer_inv_step: "acquirer_step env a a' \<Longrightarrow> acquirer_inv env a \<Longrightarrow> acquirer_inv env a'"
  by (induction rule: acquirer_step.induct)
    (simp_all add: acquirer_inv_begin acquirer_inv_own acquirer_inv_wait acquirer_inv_canceled acquirer_inv_invalidate)

lemma acquirer_inv_new:
  "a = newCopyHelperAcquirer info localPath remoteDir \<Longrightarrow> acquirer_inv env a \<and> ca_expected a = CurrentManifest info"
  by (simp add: acquirer_inv_def acquirer_inv_parts newCopyHelperAcquirer_def)

interpretation acquirer: inductive_invariant
  "\<lambda>a. a = newCopyHelperAcquirer info localPath remoteDir" "acquirer_step env"
  "\<lambda>a. acquirer_inv env a \<and> ca_expected a = CurrentManifest info" for info localPath remoteDir env
  by unfold_locales (erule acquirer_inv_new, metis acquirer_inv_step acquirer_step_expected)

text \<open>
  C15. A helper that the API server transport hands out, to the call that prepared it or to one that
  shared its state, answered a version probe under the same cache key with the gateway's own
  version and commit, the supported protocol and the capability that the caller asked for; no failed
  preparation is cached, and every call that waits has a done state or another call that is still
  preparing it.
\<close>

theorem acquired_helper_verified:
  assumes "reach (\<lambda>a. a = newCopyHelperAcquirer info localPath remoteDir) (acquirer_step env) a"
  shows "(\<forall>caller tgt capability path. (caller, tgt, capability, Inr path) \<in> set (ca_returned a) \<longrightarrow>
      (\<exists>tgt' manifest. helperCacheKey tgt' (CurrentManifest info) = helperCacheKey tgt (CurrentManifest info) \<and>
         answered env (ca_log a) tgt' path manifest \<and>
         mf_Version manifest = bi_GitVersion info \<and> mf_Commit manifest = bi_GitCommit info \<and>
         mf_ProtocolVersion manifest = ProtocolVersion \<and>
         (capability = [] \<or> capability \<in> set (mf_Capabilities manifest)))) \<and>
    (\<forall>key i. ca_helpers a key = Some i \<longrightarrow> chs_done (ca_states a ! i) \<longrightarrow> chs_err (ca_states a ! i) = None) \<and>
    (\<forall>call \<in> set (ca_waiters a). chs_done (ca_states a ! aw_state call) \<or> aw_state call \<in> aw_state ` set (ca_owners a))"
proof -
  have inv: "acquirer_inv env a" and e: "ca_expected a = CurrentManifest info" using acquirer.reach_inv[OF assms] by blast+
  have "lease_ok env (CurrentManifest info) (ca_log a) tgt capability path"
    if "(caller, tgt, capability, Inr path) \<in> set (ca_returned a)" for caller tgt capability path
    using inv e that by (auto simp: acquirer_inv_def returned_ok_def)
  then have "\<exists>tgt' manifest. helperCacheKey tgt' (CurrentManifest info) = helperCacheKey tgt (CurrentManifest info) \<and>
         answered env (ca_log a) tgt' path manifest \<and>
         mf_Version manifest = bi_GitVersion info \<and> mf_Commit manifest = bi_GitCommit info \<and>
         mf_ProtocolVersion manifest = ProtocolVersion \<and>
         (capability = [] \<or> capability \<in> set (mf_Capabilities manifest))"
    if "(caller, tgt, capability, Inr path) \<in> set (ca_returned a)" for caller tgt capability path
    using that unfolding lease_ok_def by (metis validated_manifest)
  moreover have "helpers_ok a" "calls_ok a" "owners_ok a" using inv by (simp_all add: acquirer_inv_def)
  ultimately show ?thesis by (auto simp: helpers_ok_def calls_ok_def owners_ok_def call_ok_def)
qed

text \<open>A run in which one call prepares a helper and a second one shares its state.\<close>

definition shared_new :: copyHelperAcquirer where
  "shared_new = newCopyHelperAcquirer sample_info ''/helper'' []"

definition shared_call :: "nat \<Rightarrow> acquireCall" where
  "shared_call caller = \<lparr> aw_caller = caller, aw_target = bound_target, aw_capability = HelperSFTP,
     aw_key = helperCacheKey bound_target (CurrentManifest sample_info), aw_state = 0 \<rparr>"

definition shared_begun :: copyHelperAcquirer where
  "shared_begun = Acquire_begin 2 bound_target HelperSFTP (Acquire_begin 3 bound_target HelperSFTP shared_new)"

definition shared_done :: copyHelperAcquirer where
  "shared_done = Acquire_wait (shared_call 2) (Acquire_own sample_helperEnv sample_run (shared_call 3) shared_begun)"

abbreviation shared_path :: string where
  "shared_path \<equiv> helper_remotePath sample_helperEnv ''/tmp'' (helperCacheKey bound_target (CurrentManifest sample_info))"

lemma shared_begun:
  "ca_localPath shared_begun = ''/helper''" "ca_remoteDir shared_begun = ''/tmp''" "ca_expected shared_begun = CurrentManifest sample_info"
  "ca_owners shared_begun = [shared_call 3]" "ca_waiters shared_begun = [shared_call 2]"
  "length (ca_states shared_begun) = 1"
  by (simp_all add: shared_begun_def shared_new_def newCopyHelperAcquirer_def Acquire_begin_def helperState_def shared_call_def Let_def)

lemma sample_prepareHelper:
  "snd (prepareHelper sample_helperEnv dir sample_run tgt data (CurrentManifest sample_info)) =
     Inr (helper_remotePath sample_helperEnv dir (helperCacheKey tgt (CurrentManifest sample_info)), CurrentManifest sample_info)"
  by (simp add: prepareHelper_def copyHelperBinary_def copyMethods_def copyHelperBinaryWithShell_def copy_outcome_def sample_run_def
      probeVersion_def Let_def sample_helperEnv_def validateHelperManifest_def CurrentManifest_def)

lemma shared_work:
  "chs_err (snd (owner_work sample_helperEnv sample_run (shared_call 3) shared_begun)) = None"
  "chs_path (snd (owner_work sample_helperEnv sample_run (shared_call 3) shared_begun)) = shared_path"
  "chs_manifest (snd (owner_work sample_helperEnv sample_run (shared_call 3) shared_begun)) = CurrentManifest sample_info"
  using sample_prepareHelper[of "''/tmp''" bound_target "''elf''"]
  by (auto simp: owner_work_def shared_begun shared_call_def readHelperBinary_def Let_def split: prod.splits sum.splits)
    (auto simp: sample_helperEnv_def)

lemma shared_own:
  "ca_waiters (Acquire_own sample_helperEnv sample_run (shared_call 3) shared_begun) = [shared_call 2]"
  "ca_states (Acquire_own sample_helperEnv sample_run (shared_call 3) shared_begun) ! 0 =
     (snd (owner_work sample_helperEnv sample_run (shared_call 3) shared_begun))\<lparr> chs_done := True \<rparr>"
  "ca_expected (Acquire_own sample_helperEnv sample_run (shared_call 3) shared_begun) = CurrentManifest sample_info"
  using shared_begun(6)
  by (simp_all add: Acquire_own_def case_prod_unfold acquire_return_def finishHelperState_def shared_begun shared_call_def)

lemma shared_done: "(2, bound_target, HelperSFTP, Inr shared_path) \<in> set (ca_returned shared_done)"
proof -
  have "validateHelperManifest (CurrentManifest sample_info) (CurrentManifest sample_info) HelperSFTP = None"
    by (simp add: validateHelperManifest_def CurrentManifest_def Capabilities_def)
  then have "acquire_result (CurrentManifest sample_info) HelperSFTP
      ((snd (owner_work sample_helperEnv sample_run (shared_call 3) shared_begun))\<lparr> chs_done := True \<rparr>) = Inr shared_path"
    by (simp add: acquire_result_def shared_work)
  then show ?thesis
    using shared_own by (simp add: shared_done_def Acquire_wait_def acquire_return_def shared_call_def)
qed

lemma shared_reach:
  "reach (\<lambda>a. a = newCopyHelperAcquirer sample_info ''/helper'' []) (acquirer_step sample_helperEnv) shared_done"
proof -
  let ?r = "reach (\<lambda>a. a = newCopyHelperAcquirer sample_info ''/helper'' []) (acquirer_step sample_helperEnv)"
  let ?a1 = "Acquire_begin 3 bound_target HelperSFTP shared_new"
  let ?a3 = "Acquire_own sample_helperEnv sample_run (shared_call 3) shared_begun"
  have 0: "?r shared_new" by (rule reach_init) (simp add: shared_new_def)
  have 1: "?r ?a1" by (rule reach_step[OF 0 begin_step])
  have 2: "?r shared_begun" unfolding shared_begun_def by (rule reach_step[OF 1 begin_step])
  have 3: "?r ?a3" by (rule reach_step[OF 2 own_step]) (simp add: shared_begun)
  have "shared_call 2 \<in> set (ca_waiters ?a3)" "chs_done (ca_states ?a3 ! aw_state (shared_call 2))"
    using shared_own by (simp_all add: shared_call_def)
  then show ?thesis unfolding shared_done_def by (rule reach_step[OF 3 wait_step])
qed

theorem acquired_helper_verified_witness:
  "\<exists>tgt' manifest. helperCacheKey tgt' (CurrentManifest sample_info) = helperCacheKey bound_target (CurrentManifest sample_info) \<and>
     answered sample_helperEnv (ca_log shared_done) tgt' shared_path manifest \<and>
     mf_Commit manifest = bi_GitCommit sample_info \<and> HelperSFTP \<in> set (mf_Capabilities manifest)"
  using conjunct1[OF acquired_helper_verified[OF shared_reach]] shared_done by blast

section \<open>Cached helpers\<close>

text \<open>
  Once a helper is prepared, an acquisition under the same key returns its path without running any
  command.  The key has the target and the UID of the Pod, and nothing of the container that runs: when
  the container restarts in the same Pod, with a fresh file system, the path is still handed out.
\<close>

theorem cached_helper_not_probed_again:
  assumes "ca_localPath a \<noteq> []" "ca_helpers a (helperCacheKey tgt (ca_expected a)) = Some i"
    and "chs_done (ca_states a ! i)" "chs_err (ca_states a ! i) = None"
    and "validateHelperManifest (chs_manifest (ca_states a ! i)) (ca_expected a) capability = None"
  shows "let call = \<lparr> aw_caller = caller, aw_target = tgt, aw_capability = capability,
             aw_key = helperCacheKey tgt (ca_expected a), aw_state = i \<rparr>;
           a1 = Acquire_begin caller tgt capability a; a2 = Acquire_wait call a1
         in acquirer_step env a a1 \<and> acquirer_step env a1 a2 \<and> ca_log a2 = ca_log a \<and>
            hd (ca_returned a2) = (caller, tgt, capability, Inr (chs_path (ca_states a ! i)))"
proof -
  let ?call = "\<lparr> aw_caller = caller, aw_target = tgt, aw_capability = capability,
             aw_key = helperCacheKey tgt (ca_expected a), aw_state = i \<rparr>"
  have a1: "Acquire_begin caller tgt capability a = a\<lparr> ca_waiters := ?call # ca_waiters a \<rparr>"
    using assms(1,2) by (simp add: Acquire_begin_def helperState_def Let_def)
  have "acquirer_step env (a\<lparr> ca_waiters := ?call # ca_waiters a \<rparr>) (Acquire_wait ?call (a\<lparr> ca_waiters := ?call # ca_waiters a \<rparr>))"
    by (rule wait_step) (simp_all add: assms(3))
  moreover have "acquirer_step env a (a\<lparr> ca_waiters := ?call # ca_waiters a \<rparr>)" unfolding a1[symmetric] by (rule begin_step)
  ultimately show ?thesis
    using assms(4,5) by (simp add: Let_def a1) (simp add: Acquire_wait_def acquire_return_def acquire_result_def)
qed

text \<open>Two targets with the same key, free of NUL bytes, are the same Pod instance and container.\<close>

lemma helperCacheKey_inject:
  assumes "helperCacheKey t m = helperCacheKey t' m"
    and "CHR 0x00 \<notin> set (Target_String t)" "CHR 0x00 \<notin> set (Target_String t')"
  shows "Target_String t = Target_String t' \<and> b_UID (BoundIdentity t) = b_UID (BoundIdentity t')"
  using assms by (auto simp: helperCacheKey_def helperCachePrefix_def append_sep_eq)

section \<open>Leases\<close>

lemma lease_Release_once: "lease_Release lease = (effects, lease') \<Longrightarrow> lease_Release lease' = ([], lease')"
  by (auto simp: lease_Release_def split: if_splits)

text \<open>A helper command runs the acquired helper in the container of the request, and its lease is released exactly once.\<close>

lemma apiserver_ExecHelper_calls:
  assumes "apiserver_ExecHelper net acquired req = (effects, calls, code, err)"
  shows "(\<forall>call \<in> set calls. \<exists>path ref. acquired = Inr path \<and> Parse (Some (sr_Target (he_Stream req))) = Inr ref \<and>
       aq_Command call = path # he_Command req \<and> aq_Namespace call = r_Namespace ref \<and> aq_Pod call = r_Pod ref \<and>
       aq_Container call = r_Container ref \<and> \<not> aq_TTY call) \<and>
    length (filter (\<lambda>e. e = HelperAcquired (he_Capability req)) effects) =
      length (filter (\<lambda>e. e = HelperReleased (he_Capability req) True) effects)"
  using assms
  by (auto simp: apiserver_ExecHelper_def acquireHelper_def lease_Release_def lease_Command_def apiserver_Exec_def Let_def
      split: sum.splits option.splits)

end
