(* ===== verification/Spec2Isabelle.thy ===== *)
theory Spec2Isabelle
  imports Wildcard SshTarget StatusQueue GatewayServerLaws GatewayListener WebhookClient PodForwardLaws
    HelperScpTransfer HelperForwardLaws HelperServiceLaws StreamProxy
    SshProxyLaws SshConnector CriNodeLaws HelperBinary ApiServerLaws
begin

text \<open>
  A verification library of kube-ssh, an SSH gateway to Kubernetes Pods and to SSH servers behind them.

  \<^bold>\<open>The program.\<close>  A client connects with SSH.  The gateway (\<^verbatim>\<open>pkg/gateway\<close>) authenticates it, by static
  credentials, a webhook, or the credentials of an \<^verbatim>\<open>Access\<close> resource (\<^verbatim>\<open>pkg/authn\<close>, \<^verbatim>\<open>pkg/accesspolicy\<close>,
  \<^verbatim>\<open>pkg/webhook\<close>), resolves the user name to one target and binds it to a live Pod and container, or to an
  external endpoint (\<^verbatim>\<open>pkg/target\<close>, \<^verbatim>\<open>pkg/podtarget\<close>, \<^verbatim>\<open>pkg/sshproxy/target.go\<close>), and picks a protocol.  Every
  channel and request is an operation that is classified, authorized (\<^verbatim>\<open>pkg/authz\<close>) and audited
  (\<^verbatim>\<open>pkg/audit\<close>).  Pod targets are served by \<^verbatim>\<open>pkg/podssh\<close>: sessions, forwarding, file transfer.  Its backend
  runs commands through the API server or through an agent on the node (\<^verbatim>\<open>backend/apiserver\<close>,
  \<^verbatim>\<open>backend/cri\<close>); what plain exec cannot do is done by a helper binary copied into the container
  (\<^verbatim>\<open>backend/helper\<close>), to which the gateway talks RPC over SPDY (\<^verbatim>\<open>pkg/spdyrpc\<close>).  External targets are
  proxied to an upstream SSH server (\<^verbatim>\<open>pkg/sshproxy\<close>).

  \<^bold>\<open>Conventions.\<close>  A Go struct is a record, an error a value of \<^verbatim>\<open>go_error\<close>, a function that may fail returns
  \<^verbatim>\<open>go_error + 'a\<close>.  A method is a function on the state it changes.  Code that runs concurrently is a step
  relation: each critical section, and each stretch of a goroutine between two calls that a peer
  answers, is one step, and the steps are taken in any order; \<^verbatim>\<open>reach\<close> (Machines) is what they lead to.
  Calls to the outside are kept in a log, so that theorems can speak of what was done and in which order.
  Ports, window sizes and exit statuses are words of their width; Go's \<^verbatim>\<open>int\<close> is an unbounded integer
  where it cannot overflow, and wrapped explicitly where it can (Strategy).  Names follow the source, with the
  type as a prefix where two types share a method.

  \<^bold>\<open>Foundation.\<close>
  \<^item> GoPrelude: errors, the parts of \<^verbatim>\<open>strings\<close>, \<^verbatim>\<open>strconv\<close> and \<^verbatim>\<open>net\<close> the program uses, and the lemmas on
    strings and maps that the components share.
  \<^item> Chains: the contract of the three chains of responsibility (\<^verbatim>\<open>first_decisive\<close>), interpreted for the
    chains of authenticators, resolvers and authorizers.
  \<^item> Machines: reachability and the contract \<^verbatim>\<open>inductive_invariant\<close>, interpreted for every machine below.

  \<^bold>\<open>Policy: who may do what.\<close>
  \<^item> AccessApi (\<^verbatim>\<open>apis/ssh/v1/access_types.go\<close>): the Access resource and the Kubernetes objects that are read.
  \<^item> Wildcard (\<^verbatim>\<open>pkg/wildcard\<close>): \<^verbatim>\<open>Match\<close> is equal to the reference semantics of globs.
  \<^item> Targets, SshTarget (\<^verbatim>\<open>pkg/target\<close>, \<^verbatim>\<open>pkg/podtarget\<close>, \<^verbatim>\<open>pkg/sshproxy/target.go\<close>): locators, resolution by user
    name and by hint, binding, and the round trip of endpoint targets; the contract \<^verbatim>\<open>pod_getter\<close>.
  \<^item> AccessStore, Locator, Credentials, Strategy, StrategyLaws, AccessResolver (\<^verbatim>\<open>pkg/accesspolicy\<close>): the
    stores with their contracts \<^verbatim>\<open>access_getter\<close> and \<^verbatim>\<open>pod_lister\<close>, locators, credential matching, selection of
    Pods and endpoints, and the resolver.  A login is sound for passwords and for keys, a resolution
    stays within the Access, weighted round robin is fair, and the connection counts are exact.
  \<^item> Authn, Authz, WebhookClient (\<^verbatim>\<open>pkg/authn\<close>, \<^verbatim>\<open>pkg/authz\<close>, \<^verbatim>\<open>pkg/webhook\<close>): every authenticator and
    authorizer, and the client behind the webhook ones.
  \<^item> AccessStatus, AccessStatusLaws, StatusQueue (\<^verbatim>\<open>status_controller.go\<close>): what the conditions promise, that the
    controller converges, and that no status which is out of date is forgotten by its queue.

  \<^bold>\<open>The gateway.\<close>
  \<^item> SessionPolicy (\<^verbatim>\<open>session_policy.go\<close>, \<^verbatim>\<open>session_policy_conn.go\<close>): the effective policy and the timers that
    enforce it.
  \<^item> AuditLog (\<^verbatim>\<open>pkg/audit\<close>): the asynchronous recorder accounts for every event and flushes on close.
  \<^item> Operations, OperationLaws (\<^verbatim>\<open>operation.go\<close> and its neighbours): classification, authorization and the
    audited life of an operation.
  \<^item> Dependencies, DependencyLaws, BuiltGateway (\<^verbatim>\<open>options.go\<close>, \<^verbatim>\<open>dependencies.go\<close>,
    \<^verbatim>\<open>access_policy_runtime.go\<close>): how the options compose the parts; the policy limits hold in every composition,
    revocation is immediate, and every Pod target is bound.
  \<^item> GatewayServer, GatewayServerLaws, GatewayListener (\<^verbatim>\<open>authentication.go\<close>, \<^verbatim>\<open>gateway.go\<close>, \<^verbatim>\<open>server.go\<close>): one
    connection from its first callback to its end, and the accept loop around it.

  \<^bold>\<open>Pod targets.\<close>
  \<^item> PodBackend (\<^verbatim>\<open>pkg/podssh/backend\<close>): the requests and the Executor over any transport.
  \<^item> PodSession, PodSessionLaws, PodForwards, PodForwardLaws (\<^verbatim>\<open>pkg/podssh\<close>): session channels, terminals,
    agent, direct and remote forwarding.  Everything that reaches the backend was authorized as what it is,
    every operation is finished, and every listener is owned.
  \<^item> StreamProxy (\<^verbatim>\<open>pkg/ioproxy\<close>): copying in both directions with half-close loses nothing.
  \<^item> CriTransport, CriNode, CriNodeLaws (\<^verbatim>\<open>backend/cri\<close>): the gateway's side, the agent's handlers and its draining;
    a request reaches the container of the bound Pod.
  \<^item> HelperBinary, ApiServerTransport, ApiServerLaws (\<^verbatim>\<open>cri/node/helper_manager.go\<close>, \<^verbatim>\<open>backend/apiserver\<close>): the
    two caches of helper binaries; a helper that is handed out was probed.
  \<^item> SpdyRpc, SpdyRpcLaws (\<^verbatim>\<open>pkg/spdyrpc\<close>): a call returns what the handler returned.
  \<^item> HelperForward, HelperForwardLaws, HelperService, HelperServiceLaws (\<^verbatim>\<open>backend/helper\<close>): both ends of
    forwarding; both client listeners refine one mailbox (\<^verbatim>\<open>listener_impl\<close>), no stream is lost or handed out
    twice, and every socket of the helper can be stopped.
  \<^item> HelperScp, HelperScpLaws, HelperScpTransfer (\<^verbatim>\<open>backend/helper/scp.go\<close>): the sink touches nothing outside its
    target, and a tree that the source sends is rebuilt by the sink.

  \<^bold>\<open>External targets.\<close>
  \<^item> SshProxy, SshProxyLaws, SshConnector (\<^verbatim>\<open>pkg/sshproxy\<close>): nothing passes the proxy without an authorized
    operation, an operation is finished at most once, and the upstream connection is made to the endpoint of the
    current Access with its pinned host keys and credentials.

  This theory composes the node transport with the helper manager.

  \<^bold>\<open>Termination and bounds.\<close>  Every definition is total.  Loops over data are structural recursion; the loops of
  the scp sink recurses with a measure on the bytes that remain.  No definition has fuel.  Loops that
  serve (accept loops, request loops, workers) are step relations, and what they guarantee is an invariant of
  every reachable state, or, for closing and draining, that the end state is reached or that returning
  implies it.

  \<^bold>\<open>Parameters.\<close>  Code outside the repository is a parameter: golang.org/x/crypto/ssh (key and wire formats,
  handshake, channels), client-go (informer indexers, the work queue, streaming, SPDY upgrade), the container
  runtime, moby/spdystream, JSON, tar, SHA-256, files, sockets and clocks.  Where a theorem needs something
  of them it is a hypothesis or a named predicate that states their documentation (\<^verbatim>\<open>cache_ok\<close>,
  \<^verbatim>\<open>pod_index_ok\<close>, \<^verbatim>\<open>sets_conditions\<close>, \<^verbatim>\<open>splits_keys\<close>), and a witness instantiates it.  A handler's calls to a peer
  are answered arbitrarily.

  \<^bold>\<open>Not modelled.\<close>  Prometheus collectors and the wrappers that only count calls (\<^verbatim>\<open>pkg/metrics\<close>,
  \<^verbatim>\<open>accesspolicy/metrics.go\<close>, \<^verbatim>\<open>backend/metrics.go\<close>): they do not change results; where the gateway's own code decides
  whether to count, the count is in the model's trace.  Generated clients, informers, listers and deep copies:
  values are immutable in the model.  The commands under \<^verbatim>\<open>cmd\<close> and the end-to-end tests: flag parsing and
  process start-up.  HTTP and TLS serving, certificate reloading, Kubernetes client configuration, build
  information and logging: library calls without decisions of the program.  The sftp subsystem of the helper only
  runs a third-party server.  The bytes that flow between two open streams are modelled in StreamProxy and scp
  only; elsewhere a stream is opaque.
\<close>

section \<open>From the gateway to a verified helper on the node\<close>

text \<open>
  C13. A helper command that the gateway sends for a bound Pod runs only a verified helper in the right
  place: every call to the runtime is in a container that runs under the target's name in the ready sandbox of
  that very Pod, its program is a path that the agent's manager handed out for that container, and in that
  container the path has answered a version probe with the agent's own version, commit, protocol and all its
  capabilities.  The answers of the manager are those of a reachable state of its machine.
\<close>

theorem node_helper_runs_verified:
  assumes "reach (\<lambda>m. m = newHelperManager info localPath remoteDir) (manager_step env) m"
    and "\<And>c capability path. prepared c capability = Inr path \<Longrightarrow> \<exists>caller. (caller, c, Inr path) \<in> set (hm_returned m)"
    and "locate getPod (sr_Target (he_Stream req)) = Inr l"
    and "\<forall>seg \<in> {pl_Namespace l, pl_Pod l, pl_UID l, pl_Container l, he_Capability req}. CHR ''/'' \<notin> set seg"
    and "u \<in> set (fst (cri_ExecHelper opts getPod net req))"
    and "nr_Method r = ''POST''" "nr_Path r = nu_Path u" "nr_Query r = nu_Query u"
    and "streamHandler nodeOpts urlParse runtime prepared r s = (s', running, calls, reply)" "call \<in> set calls"
  shows "\<exists>c path stdin stdout stderr. call = NodeExec \<lparr> ce_ContainerId = c, ce_Cmd = path # he_Command req, ce_Stdin = stdin,
       ce_Stdout = stdout, ce_Stderr = stderr, ce_Tty = False \<rparr> \<and>
    verified env (CurrentManifest info) (hm_log m) c path \<and>
    runs_in runtime (pl_Namespace l) (pl_Pod l) (b_UID (BoundIdentity (sr_Target (he_Stream req)))) (pl_Container l) c"
proof -
  obtain c path where c: "prepared c (he_Capability req) = Inr path"
      "call = NodeExec \<lparr> ce_ContainerId = c, ce_Cmd = path # he_Command req, ce_Stdin = stream_given (sr_Stdin (he_Stream req)),
       ce_Stdout = stream_given (sr_Stdout (he_Stream req)), ce_Stderr = stream_given (sr_Stderr (he_Stream req)), ce_Tty = False \<rparr>"
      "runs_in runtime (pl_Namespace l) (pl_Pod l) (pl_UID l) (pl_Container l) c"
    using cri_helper_reaches_bound_container[OF assms(3-10)] by blast
  moreover have "verified env (CurrentManifest info) (hm_log m) c path"
    using assms(2)[OF c(1)] helper_handed_out_verified[OF assms(1)] by blast
  moreover have "pl_UID l = b_UID (BoundIdentity (sr_Target (he_Stream req)))" using locate_bound[OF assms(3)] by blast
  ultimately show ?thesis by auto
qed

definition helper_request :: HelperExecRequest where
  "helper_request = \<lparr> he_Stream = \<lparr> sr_Target = bound_target, sr_Stdin = PipeReader, sr_Stdout = PipeWriter, sr_Stderr = StderrBuffer \<rparr>,
     he_Capability = HelperSFTP, he_Command = [HelperSFTP] \<rparr>"

definition bound_location :: podLocation where
  "bound_location = \<lparr> pl_Namespace = ''ns'', pl_Pod = ''web'', pl_UID = ''u1'', pl_Container = ''app'', pl_HostIP = ''10.0.0.1'',
     pl_NodeName = ''node1'' \<rparr>"

definition helper_url :: nodeURL where
  "helper_url = (cri_endpoint cri_opts bound_location ''helper'' [''app'', HelperSFTP])\<lparr> nu_Query := helper_query helper_request \<rparr>"

definition helper_prepared :: "string \<Rightarrow> string \<Rightarrow> string result" where
  "helper_prepared c capability = (if c = ''c1'' then Inr ''/tmp/kube-ssh-helper-d1'' else Inl ContextCanceled)"

lemma helper_located: "locate bound_getPod bound_target = Inr bound_location"
  by (simp add: locate_def bound_parse bound_identity bound_getPod_def zero_Pod_def zero_ObjectMeta_def bound_location_def Let_def)

lemma helper_sent: "fst (cri_ExecHelper cri_opts bound_getPod bound_net helper_request) = [helper_url]"
  by (simp add: cri_ExecHelper_def helper_request_def helper_located Let_def bound_net_def helper_url_def)
    (simp add: bound_location_def)

lemma helper_handled:
  "\<exists>s' reply. streamHandler node_opts (\<lambda>_. Inr (''http'', ''127.0.0.1'')) bound_runtime helper_prepared (gateway_cert helper_url) newNodeStreams =
     (s', True, [NodeExec \<lparr> ce_ContainerId = ''c1'', ce_Cmd = [''/tmp/kube-ssh-helper-d1'', HelperSFTP], ce_Stdin = True, ce_Stdout = True,
        ce_Stderr = True, ce_Tty = False \<rparr>], reply)"
proof -
  let ?i = "\<lparr> pi_Namespace = ''ns'', pi_Name = ''web'', pi_UID = ''u1'', pi_Container = ''app'' \<rparr>"
  have "authorizedPeer (gateway_cert helper_url) (no_ExpectedClientName node_opts)"
    by (simp add: authorizedPeer_def gateway_cert_def node_opts_def node_defaultOptions_def Let_def)
  moreover have "streamRoute (gateway_cert helper_url) = RouteHelper ?i HelperSFTP"
    by (simp add: streamRoute_def gateway_cert_def helper_url_def cri_endpoint_def bound_location_def clean_segment_def)
  moreover have "resolveRuntimeTarget bound_runtime ?i True = Inr \<lparr> rt_SandboxID = ''s1'', rt_ContainerID = ''c1'' \<rparr>"
    by (simp add: resolveRuntimeTarget_def bound_runtime_def sandbox_matches_def)
  ultimately show ?thesis
    by (simp add: streamHandler_def observeStream_def beginStream_def newNodeStreams_def handleHelper_def validateIdentity_def Let_def
        bound_runtime_def gateway_cert_def helper_url_def helper_query_values queryBool_def helper_request_def helper_prepared_def)
qed

theorem node_helper_runs_verified_witness:
  "verified sample_helperEnv (CurrentManifest sample_info) (hm_log sample_ready) ''c1'' ''/tmp/kube-ssh-helper-d1'' \<and>
   runs_in bound_runtime ''ns'' ''web'' ''u1'' ''app'' ''c1''"
proof -
  obtain s' reply where h: "streamHandler node_opts (\<lambda>_. Inr (''http'', ''127.0.0.1'')) bound_runtime helper_prepared
      (gateway_cert helper_url) newNodeStreams =
     (s', True, [NodeExec \<lparr> ce_ContainerId = ''c1'', ce_Cmd = [''/tmp/kube-ssh-helper-d1'', HelperSFTP], ce_Stdin = True, ce_Stdout = True,
        ce_Stderr = True, ce_Tty = False \<rparr>], reply)"
    using helper_handled by blast
  have target: "sr_Target (he_Stream helper_request) = bound_target" by (simp add: helper_request_def)
  have prep: "helper_prepared c capability = Inr path \<Longrightarrow> \<exists>caller. (caller, c, Inr path) \<in> set (hm_returned sample_ready)" for c capability path
    using sample_returned by (auto simp: helper_prepared_def split: if_splits)
  have loc: "locate bound_getPod (sr_Target (he_Stream helper_request)) = Inr bound_location" by (simp add: target helper_located)
  have segs: "\<forall>seg \<in> {pl_Namespace bound_location, pl_Pod bound_location, pl_UID bound_location, pl_Container bound_location,
      he_Capability helper_request}. CHR ''/'' \<notin> set seg"
    by (simp add: bound_location_def helper_request_def)
  have sent: "helper_url \<in> set (fst (cri_ExecHelper cri_opts bound_getPod bound_net helper_request))" by (simp add: helper_sent)
  have req: "nr_Method (gateway_cert helper_url) = ''POST''" "nr_Path (gateway_cert helper_url) = nu_Path helper_url"
      "nr_Query (gateway_cert helper_url) = nu_Query helper_url"
    by (simp_all add: gateway_cert_def)
  from node_helper_runs_verified[OF sample_reached prep loc segs sent req h list.set_intros(1)]
  show ?thesis by (simp add: target bound_identity bound_location_def)
qed

end
